(* ===== verification/Ngx_Prelude.thy ===== *)
theory Ngx_Prelude
  imports Main "HOL-Library.Word"
begin

unbundle bit_operations_syntax

text \<open>
  The vocabulary shared by the theories of the development: the C types of nginx at their
  width, the ASCII constants of the sources, the return codes of \<open>src/core/ngx_core.h\<close>, the
  256-bit character maps the parsers and the escaping routines test, and the lemmas on
  bytes and sub-lists that the component theories rely on.

  A pointer into a buffer is modelled by its offset from the start of the buffer
  (\<open>nat\<close>), a pointer that may be \<open>NULL\<close> by a \<open>nat option\<close>. The bytes of a buffer are
  a list; \<open>b->last\<close> is the length of that list.
\<close>

section \<open>Types\<close>

type_synonym u_char = "8 word"
type_synonym uint32_t = "32 word"
type_synonym ngx_uint_t = "64 word"
type_synonym ptr = "nat option"

text \<open>The return codes of \<open>src/core/ngx_core.h\<close> and of \<open>src/http/ngx_http_request.h\<close>.\<close>

datatype ngx_rc =
    NGX_OK
  | NGX_ERROR
  | NGX_AGAIN
  | NGX_DONE
  | NGX_DECLINED
  | NGX_ABORT
  | NGX_HTTP_PARSE_HEADER_DONE
  | NGX_HTTP_PARSE_INVALID_METHOD
  | NGX_HTTP_PARSE_INVALID_REQUEST
  | NGX_HTTP_PARSE_INVALID_VERSION
  | NGX_HTTP_PARSE_INVALID_09_METHOD
  | NGX_HTTP_PARSE_INVALID_HEADER

text \<open>The limits of the 64-bit build (\<open>src/core/ngx_config.h\<close>, \<open>auto/unix\<close>).\<close>

definition NGX_MAX_INT_T_VALUE :: int where
  "NGX_MAX_INT_T_VALUE = 9223372036854775807"

definition NGX_MAX_SIZE_T_VALUE :: int where
  "NGX_MAX_SIZE_T_VALUE = 9223372036854775807"

definition NGX_MAX_OFF_T_VALUE :: int where
  "NGX_MAX_OFF_T_VALUE = 9223372036854775807"

definition NGX_MAX_TIME_T_VALUE :: int where
  "NGX_MAX_TIME_T_VALUE = 9223372036854775807"

section \<open>Characters\<close>

abbreviation (input) NUL :: u_char where "NUL \<equiv> 0x00"
abbreviation (input) HT :: u_char where "HT \<equiv> 0x09"
abbreviation (input) LF :: u_char where "LF \<equiv> 0x0a"
abbreviation (input) CR :: u_char where "CR \<equiv> 0x0d"
abbreviation (input) SP :: u_char where "SP \<equiv> 0x20"
abbreviation (input) c_excl :: u_char where "c_excl \<equiv> 0x21"
abbreviation (input) c_quot :: u_char where "c_quot \<equiv> 0x22"
abbreviation (input) c_hash :: u_char where "c_hash \<equiv> 0x23"
abbreviation (input) c_dollar :: u_char where "c_dollar \<equiv> 0x24"
abbreviation (input) c_percent :: u_char where "c_percent \<equiv> 0x25"
abbreviation (input) c_amp :: u_char where "c_amp \<equiv> 0x26"
abbreviation (input) c_apos :: u_char where "c_apos \<equiv> 0x27"
abbreviation (input) c_lpar :: u_char where "c_lpar \<equiv> 0x28"
abbreviation (input) c_rpar :: u_char where "c_rpar \<equiv> 0x29"
abbreviation (input) c_star :: u_char where "c_star \<equiv> 0x2a"
abbreviation (input) c_plus :: u_char where "c_plus \<equiv> 0x2b"
abbreviation (input) c_comma :: u_char where "c_comma \<equiv> 0x2c"
abbreviation (input) c_minus :: u_char where "c_minus \<equiv> 0x2d"
abbreviation (input) c_dot :: u_char where "c_dot \<equiv> 0x2e"
abbreviation (input) c_slash :: u_char where "c_slash \<equiv> 0x2f"
abbreviation (input) c_0 :: u_char where "c_0 \<equiv> 0x30"
abbreviation (input) c_1 :: u_char where "c_1 \<equiv> 0x31"
abbreviation (input) c_9 :: u_char where "c_9 \<equiv> 0x39"
abbreviation (input) c_colon :: u_char where "c_colon \<equiv> 0x3a"
abbreviation (input) c_semi :: u_char where "c_semi \<equiv> 0x3b"
abbreviation (input) c_lt :: u_char where "c_lt \<equiv> 0x3c"
abbreviation (input) c_eq :: u_char where "c_eq \<equiv> 0x3d"
abbreviation (input) c_gt :: u_char where "c_gt \<equiv> 0x3e"
abbreviation (input) c_quest :: u_char where "c_quest \<equiv> 0x3f"
abbreviation (input) c_A :: u_char where "c_A \<equiv> 0x41"
abbreviation (input) c_H :: u_char where "c_H \<equiv> 0x48"
abbreviation (input) c_O :: u_char where "c_O \<equiv> 0x4f"
abbreviation (input) c_P :: u_char where "c_P \<equiv> 0x50"
abbreviation (input) c_T :: u_char where "c_T \<equiv> 0x54"
abbreviation (input) c_Z :: u_char where "c_Z \<equiv> 0x5a"
abbreviation (input) c_lbrack :: u_char where "c_lbrack \<equiv> 0x5b"
abbreviation (input) c_bslash :: u_char where "c_bslash \<equiv> 0x5c"
abbreviation (input) c_rbrack :: u_char where "c_rbrack \<equiv> 0x5d"
abbreviation (input) c_under :: u_char where "c_under \<equiv> 0x5f"
abbreviation (input) c_a :: u_char where "c_a \<equiv> 0x61"
abbreviation (input) c_f :: u_char where "c_f \<equiv> 0x66"
abbreviation (input) c_z :: u_char where "c_z \<equiv> 0x7a"
abbreviation (input) c_tilde :: u_char where "c_tilde \<equiv> 0x7e"

text \<open>A C string literal as the bytes it denotes.\<close>

definition bytes :: "string \<Rightarrow> u_char list" where
  "bytes s = map of_char s"

text \<open>The range tests that the sources write out at every use.\<close>

definition is_digit :: "u_char \<Rightarrow> bool" where
  "is_digit ch \<longleftrightarrow> c_0 \<le> ch \<and> ch \<le> c_9"

definition is_upper :: "u_char \<Rightarrow> bool" where
  "is_upper ch \<longleftrightarrow> c_A \<le> ch \<and> ch \<le> c_Z"

definition is_lower :: "u_char \<Rightarrow> bool" where
  "is_lower c \<longleftrightarrow> c_a \<le> c \<and> c \<le> c_z"

definition is_af :: "u_char \<Rightarrow> bool" where
  "is_af c \<longleftrightarrow> c_a \<le> c \<and> c \<le> c_f"

named_theorems ch_defs

declare is_digit_def [ch_defs] is_upper_def [ch_defs] is_lower_def [ch_defs] is_af_def [ch_defs]

text \<open>The test \<open>map[ch >> 5] & (1U << (ch & 0x1f))\<close> on a map of eight 32-bit words.\<close>

definition charmap_bit :: "uint32_t list \<Rightarrow> u_char \<Rightarrow> bool" where
  "charmap_bit m ch \<longleftrightarrow> (m ! unat (drop_bit 5 ch)) AND push_bit (unat (ch AND 0x1f)) 1 \<noteq> 0"

text \<open>\<open>ngx_tolower\<close> and \<open>ngx_toupper\<close> of \<open>src/core/ngx_string.h\<close>.\<close>

definition ngx_tolower :: "u_char \<Rightarrow> u_char" where
  "ngx_tolower c = (if is_upper c then c OR 0x20 else c)"

definition ngx_toupper :: "u_char \<Rightarrow> u_char" where
  "ngx_toupper c = (if is_lower c then c AND NOT 0x20 else c)"

section \<open>Sub-lists by offsets\<close>

text \<open>The bytes from offset \<open>a\<close> up to, not including, offset \<open>b\<close>: an \<open>ngx_str_t\<close> whose
  \<open>data\<close> is \<open>a\<close> and whose \<open>len\<close> is \<open>b - a\<close>.\<close>

definition slice :: "'a list \<Rightarrow> nat \<Rightarrow> nat \<Rightarrow> 'a list" where
  "slice xs a b = take (b - a) (drop a xs)"

section \<open>Shared lemmas\<close>

lemma byte_unat_less [simp]: "unat (c :: u_char) < 256"
  by (rule less_le_trans [OF unsigned_less]) simp

lemma unat_byte_inject: "unat (a :: u_char) = unat b \<longleftrightarrow> a = b"
  by (simp add: word_unat_eq_iff)

lemma byte_bit_ge [simp]: "8 \<le> n \<Longrightarrow> \<not> bit (c :: u_char) n"
  using bit_imp_le_length [of c n] by auto

text \<open>A property of one byte is decided by looking at the 256 bytes.\<close>

definition all_bytes :: "u_char list" where
  "all_bytes =
    [0, 1, 2, 3, 4, 5, 6, 7, 8, 9, 10, 11, 12, 13, 14, 15, 16, 17, 18, 19,
     20, 21, 22, 23, 24, 25, 26, 27, 28, 29, 30, 31, 32, 33, 34, 35, 36, 37, 38, 39,
     40, 41, 42, 43, 44, 45, 46, 47, 48, 49, 50, 51, 52, 53, 54, 55, 56, 57, 58, 59,
     60, 61, 62, 63, 64, 65, 66, 67, 68, 69, 70, 71, 72, 73, 74, 75, 76, 77, 78, 79,
     80, 81, 82, 83, 84, 85, 86, 87, 88, 89, 90, 91, 92, 93, 94, 95, 96, 97, 98, 99,
     100, 101, 102, 103, 104, 105, 106, 107, 108, 109, 110, 111, 112, 113, 114, 115, 116, 117, 118, 119,
     120, 121, 122, 123, 124, 125, 126, 127, 128, 129, 130, 131, 132, 133, 134, 135, 136, 137, 138, 139,
     140, 141, 142, 143, 144, 145, 146, 147, 148, 149, 150, 151, 152, 153, 154, 155, 156, 157, 158, 159,
     160, 161, 162, 163, 164, 165, 166, 167, 168, 169, 170, 171, 172, 173, 174, 175, 176, 177, 178, 179,
     180, 181, 182, 183, 184, 185, 186, 187, 188, 189, 190, 191, 192, 193, 194, 195, 196, 197, 198, 199,
     200, 201, 202, 203, 204, 205, 206, 207, 208, 209, 210, 211, 212, 213, 214, 215, 216, 217, 218, 219,
     220, 221, 222, 223, 224, 225, 226, 227, 228, 229, 230, 231, 232, 233, 234, 235, 236, 237, 238, 239,
     240, 241, 242, 243, 244, 245, 246, 247, 248, 249, 250, 251, 252, 253, 254, 255]"

lemma all_bytes_upt: "all_bytes = map word_of_nat [0..<256]"
  by (simp add: all_bytes_def upt_rec)

lemma byte_forall: "(\<forall>c. P c) \<longleftrightarrow> list_all P all_bytes"
proof
  assume r: "list_all P all_bytes"
  show "\<forall>c. P c"
  proof
    fix c :: u_char
    have "unat c \<in> set [0..<256]" by simp
    then have "word_of_nat (unat c) \<in> set all_bytes"
      unfolding all_bytes_upt set_map by (rule imageI)
    then show "P c" using r by (simp add: list_all_iff)
  qed
qed (simp add: list_all_iff)

text \<open>Two bytes are equal if their eight bits are; a table of 256 entries is checked entry by entry.\<close>

lemma byte_eq_bits:
  "a = b \<longleftrightarrow>
     (bit a 0 \<longleftrightarrow> bit b 0) \<and> (bit a 1 \<longleftrightarrow> bit b 1) \<and> (bit a 2 \<longleftrightarrow> bit b 2) \<and> (bit a 3 \<longleftrightarrow> bit b 3) \<and>
     (bit a 4 \<longleftrightarrow> bit b 4) \<and> (bit a 5 \<longleftrightarrow> bit b 5) \<and> (bit a 6 \<longleftrightarrow> bit b 6) \<and> (bit a 7 \<longleftrightarrow> bit b (7 :: nat))"
  (is "_ \<longleftrightarrow> ?r") for a b :: u_char
proof
  assume r: ?r
  show "a = b"
  proof (rule bit_eqI)
    fix n :: nat
    consider "n = 0" | "n = 1" | "n = 2" | "n = 3" | "n = 4" | "n = 5" | "n = 6" | "n = 7" | "8 \<le> n" by linarith
    then show "bit a n \<longleftrightarrow> bit b n" by cases (use r in simp_all)
  qed
qed simp

lemma byte_table:
  assumes "length tbl = 256" "list_all2 P tbl all_bytes"
  shows "P (tbl ! unat (c :: u_char)) c"
proof -
  have "P (tbl ! unat c) (all_bytes ! unat c)"
    using assms by (simp add: list_all2_conv_all_nth)
  then show ?thesis by (simp add: all_bytes_upt)
qed

lemma low_bytes:
  assumes "unat (c :: u_char) < n" "n \<le> 256" "list_all P (take n all_bytes)"
  shows "P c"
proof -
  have "c = take n all_bytes ! unat c" using assms(1,2) by (simp add: all_bytes_upt)
  moreover have "unat c < length (take n all_bytes)" using assms(1,2) by (simp add: all_bytes_upt)
  ultimately have "c \<in> set (take n all_bytes)" by (metis nth_mem)
  then show ?thesis using assms(3) by (simp add: list_all_iff)
qed

lemma byte_interval:
  "b \<le> 256 \<Longrightarrow> (c :: u_char) \<in> word_of_nat ` {a..<b} \<longleftrightarrow> a \<le> unat c \<and> unat c < b"
proof
  assume b: "b \<le> 256" and "c \<in> word_of_nat ` {a..<b}"
  then obtain n where "c = word_of_nat n" "a \<le> n" "n < b" by auto
  then show "a \<le> unat c \<and> unat c < b" using b by (simp add: unat_of_nat)
next
  assume "a \<le> unat c \<and> unat c < b"
  then have "unat c \<in> {a..<b}" by simp
  then have "(word_of_nat (unat c) :: u_char) \<in> word_of_nat ` {a..<b}" by (rule imageI)
  then show "c \<in> word_of_nat ` {a..<b}" by simp
qed

lemma slice_empty [simp]: "b \<le> a \<Longrightarrow> slice xs a b = []"
  by (simp add: slice_def)

lemma length_slice [simp]: "b \<le> length xs \<Longrightarrow> length (slice xs a b) = b - a"
  by (simp add: slice_def)

lemma nth_slice [simp]: "b \<le> length xs \<Longrightarrow> i < b - a \<Longrightarrow> slice xs a b ! i = xs ! (a + i)"
  by (simp add: slice_def)

lemma slice_append [simp]: "b \<le> length xs \<Longrightarrow> slice (xs @ ys) a b = slice xs a b"
  by (cases "a \<le> length xs") (simp_all add: slice_def)

lemma slice_Suc:
  "a \<le> b \<Longrightarrow> b < length xs \<Longrightarrow> slice xs a (Suc b) = slice xs a b @ [xs ! b]"
  by (simp add: slice_def Suc_diff_le take_Suc_conv_app_nth)

lemma slice_Cons:
  "a < b \<Longrightarrow> b \<le> length xs \<Longrightarrow> slice xs a b = xs ! a # slice xs (Suc a) b"
  by (simp add: slice_def Cons_nth_drop_Suc [symmetric] take_Cons')

lemma slice_join: "a \<le> q \<Longrightarrow> q \<le> b \<Longrightarrow> slice xs a b = slice xs a q @ slice xs q b"
  using take_add [of "q - a" "b - q" "drop a xs"] by (simp add: slice_def)

lemma slice_map_upt:
  "a + k \<le> length xs \<Longrightarrow> slice xs a (a + k) = map (\<lambda>i. xs ! (a + i)) [0..<k]"
  by (rule nth_equalityI) simp_all

lemma set_slice:
  "b \<le> length xs \<Longrightarrow> set (slice xs a b) = {xs ! i | i. a \<le> i \<and> i < b}"
proof -
  assume b: "b \<le> length xs"
  show ?thesis
  proof (cases "a \<le> b")
    case True
    have "set (slice xs a b) = {slice xs a b ! i | i. i < b - a}"
      using b by (simp add: set_conv_nth)
    also have "\<dots> = {xs ! (a + i) | i. i < b - a}"
      using b by force
    also have "\<dots> = {xs ! i | i. a \<le> i \<and> i < b}"
    proof (rule set_eqI, rule iffI)
      fix x assume "x \<in> {xs ! (a + i) | i. i < b - a}"
      then show "x \<in> {xs ! i | i. a \<le> i \<and> i < b}" by force
    next
      fix x assume "x \<in> {xs ! i | i. a \<le> i \<and> i < b}"
      then obtain i where "x = xs ! i" "a \<le> i" "i < b" by blast
      then have "x = xs ! (a + (i - a))" "i - a < b - a" by auto
      then show "x \<in> {xs ! (a + i) | i. i < b - a}" by blast
    qed
    finally show ?thesis .
  qed simp
qed

end
