(* ===== verification/Byte_Scan.thy ===== *)
theory Byte_Scan
  imports Ngx_Prelude
begin

text \<open>
  The loop shared by the parsers of \<open>src/http/ngx_http_parse.c\<close>:

  \<^verbatim>\<open>for (p = b->pos; p < b->last; p++) { ch = *p; switch (state) { ... } }\<close>

  The body of such a loop either goes on with the next byte (\<open>break\<close> out of the switch),
  or leaves the loop through a label or a return. \<open>scan\<close> runs a body over the bytes
  that are in the buffer; running out of bytes is the \<open>NGX_AGAIN\<close> path.

  The locale \<open>resumable\<close> is the contract that makes such a parser incremental: the body
  keeps an invariant of the local state, and what it does at offset \<open>p\<close> depends only on the
  bytes up to \<open>p\<close>, never on what has not been received yet. Under this contract a parse
  that runs out of bytes and is resumed when more have arrived gives the result of a parse
  of all the bytes at once.
\<close>

datatype ('s, 'x) flow =
    Next 's
  | Exit 'x 's

datatype ('s, 'x) scanned =
    Ran_out nat 's
  | Exited 'x nat 's

fun scan :: "(nat \<Rightarrow> u_char \<Rightarrow> 's \<Rightarrow> ('s, 'x) flow) \<Rightarrow> u_char list \<Rightarrow> nat \<Rightarrow> 's
    \<Rightarrow> ('s, 'x) scanned" where
  "scan step [] p s = Ran_out p s"
| "scan step (ch # cs) p s =
     (case step p ch s of
        Next s' \<Rightarrow> scan step cs (Suc p) s'
      | Exit x s' \<Rightarrow> Exited x p s')"

lemma scan_append:
  "scan step (xs @ ys) p s =
     (case scan step xs p s of
        Ran_out p' s' \<Rightarrow> scan step ys p' s'
      | Exited x p' s' \<Rightarrow> Exited x p' s')"
  by (induction xs arbitrary: p s) (auto split: flow.splits)

lemma scan_Ran_out_pos: "scan step xs p s = Ran_out p' s' \<Longrightarrow> p' = p + length xs"
  by (induction xs arbitrary: p s) (fastforce split: flow.splits)+

lemma scan_Exited_pos:
  "scan step xs p s = Exited x p' s' \<Longrightarrow> p \<le> p' \<and> p' < p + length xs"
proof (induction xs arbitrary: p s)
  case (Cons a xs)
  then show ?case by (fastforce split: flow.splits)
qed simp

text \<open>An invariant \<open>P\<close> of the loop, for input bytes that satisfy \<open>Q\<close>, and a condition \<open>R\<close> at
  the exits.\<close>

lemma scan_invariant:
  assumes "P p s" "\<forall>ch \<in> set xs. Q ch"
    and "\<And>p ch s s'. P p s \<Longrightarrow> Q ch \<Longrightarrow> step p ch s = Next s' \<Longrightarrow> P (Suc p) s'"
    and "\<And>p ch s x s'. P p s \<Longrightarrow> Q ch \<Longrightarrow> step p ch s = Exit x s' \<Longrightarrow> R p x s'"
  shows "case scan step xs p s of Ran_out p' s' \<Rightarrow> P p' s' | Exited x p' s' \<Rightarrow> R p' x s'"
  using assms(1,2)
proof (induction xs arbitrary: p s)
  case (Cons ch xs)
  show ?case
  proof (cases "step p ch s")
    case (Next s')
    with Cons assms(3) [of p s ch s'] show ?thesis by simp
  next
    case (Exit x s')
    with Cons assms(4) [of p s ch x s'] show ?thesis by simp
  qed
qed simp

locale resumable =
  fixes step :: "u_char list \<Rightarrow> nat \<Rightarrow> u_char \<Rightarrow> 's \<Rightarrow> ('s, 'x) flow"
    and inv :: "u_char list \<Rightarrow> nat \<Rightarrow> 's \<Rightarrow> bool"
    and post :: "u_char list \<Rightarrow> nat \<Rightarrow> 'x \<Rightarrow> 's \<Rightarrow> bool"
  assumes inv_next:
      "inv buf p s \<Longrightarrow> p < length buf \<Longrightarrow> step buf p (buf ! p) s = Next s' \<Longrightarrow> inv buf (Suc p) s'"
    and inv_exit:
      "inv buf p s \<Longrightarrow> p < length buf \<Longrightarrow> step buf p (buf ! p) s = Exit x s' \<Longrightarrow> post buf p x s'"
    and inv_more: "inv buf p s \<Longrightarrow> p \<le> length buf \<Longrightarrow> inv (buf @ more) p s"
    and step_more:
      "inv buf p s \<Longrightarrow> p < length buf \<Longrightarrow>
       step (buf @ more) p (buf ! p) s = step buf p (buf ! p) s"
begin

text \<open>The invariant at the end of the input, and the exit condition at an exit.\<close>

lemma scan_from_inv:
  assumes "inv buf p s" "p \<le> length buf"
  shows "case scan (step buf) (drop p buf) p s of
           Ran_out p' s' \<Rightarrow> p' = length buf \<and> inv buf p' s'
         | Exited x p' s' \<Rightarrow> p \<le> p' \<and> p' < length buf \<and> post buf p' x s'"
  using assms
proof (induction "length buf - p" arbitrary: p s)
  case 0
  then show ?case by simp
next
  case (Suc n)
  then have p: "p < length buf" by simp
  then have d: "drop p buf = buf ! p # drop (Suc p) buf"
    by (simp add: Cons_nth_drop_Suc)
  show ?case
  proof (cases "step buf p (buf ! p) s")
    case (Next s')
    then have "inv buf (Suc p) s'"
      using inv_next [OF Suc.prems(1) p] by simp
    then have "case scan (step buf) (drop (Suc p) buf) (Suc p) s' of
           Ran_out p' s' \<Rightarrow> p' = length buf \<and> inv buf p' s'
         | Exited x p' s' \<Rightarrow> Suc p \<le> p' \<and> p' < length buf \<and> post buf p' x s'"
      using Suc.hyps p by simp
    then show ?thesis
      by (simp add: d Next split: scanned.splits)
  next
    case (Exit x s')
    then show ?thesis
      using inv_exit [OF Suc.prems(1) p] p by (simp add: d)
  qed
qed

lemma scan_Ran_out_inv:
  "inv buf p s \<Longrightarrow> p \<le> length buf \<Longrightarrow>
   scan (step buf) (drop p buf) p s = Ran_out p' s' \<Longrightarrow> p' = length buf \<and> inv buf p' s'"
  using scan_from_inv [of buf p s] by auto

lemma scan_Exited_post:
  "inv buf p s \<Longrightarrow> p \<le> length buf \<Longrightarrow>
   scan (step buf) (drop p buf) p s = Exited x p' s' \<Longrightarrow>
   p \<le> p' \<and> p' < length buf \<and> post buf p' x s'"
  using scan_from_inv [of buf p s] by simp

lemma scan_more:
  "inv buf p s \<Longrightarrow> p \<le> length buf \<Longrightarrow>
   scan (step (buf @ more)) (drop p buf) p s = scan (step buf) (drop p buf) p s"
proof (induction "length buf - p" arbitrary: p s)
  case (Suc n)
  then have p: "p < length buf" by simp
  then have d: "drop p buf = buf ! p # drop (Suc p) buf"
    by (simp add: Cons_nth_drop_Suc)
  show ?case
    using Suc inv_next [OF Suc.prems(1) p] step_more [OF Suc.prems(1) p] p
    by (auto simp: d split: flow.splits)
qed simp

text \<open>Parsing in two portions is parsing at once.\<close>

theorem scan_resume:
  assumes "inv buf p s" "p \<le> length buf"
  shows "scan (step (buf @ more)) (drop p (buf @ more)) p s =
     (case scan (step buf) (drop p buf) p s of
        Ran_out p' s' \<Rightarrow> scan (step (buf @ more)) (drop p' (buf @ more)) p' s'
      | Exited x p' s' \<Rightarrow> Exited x p' s')"
proof -
  have "scan (step (buf @ more)) (drop p (buf @ more)) p s =
     (case scan (step buf) (drop p buf) p s of
        Ran_out p' s' \<Rightarrow> scan (step (buf @ more)) more p' s'
      | Exited x p' s' \<Rightarrow> Exited x p' s')"
    using assms by (simp add: scan_append scan_more)
  also have "\<dots> = (case scan (step buf) (drop p buf) p s of
        Ran_out p' s' \<Rightarrow> scan (step (buf @ more)) (drop p' (buf @ more)) p' s'
      | Exited x p' s' \<Rightarrow> Exited x p' s')"
    using scan_Ran_out_inv [OF assms] by (auto split: scanned.splits)
  finally show ?thesis .
qed

end

end
