(* ===== verification/Http_Request_Line.thy ===== *)
theory Http_Request_Line
  imports Byte_Scan
begin

text \<open>
  \<open>ngx_http_parse_request_line\<close> of \<open>src/http/ngx_http_parse.c\<close>: the state machine that
  reads \<^verbatim>\<open>METHOD SP URI SP HTTP/x.y CRLF\<close> from the header buffer, one definition per case
  of its switch, and the part of \<open>ngx_http_request_t\<close> that the URI functions share.

  \<open>p\<close> is the offset of the current byte in the buffer. \<open>r->state\<close> is passed next to
  \<open>r\<close> because every parser gives that field an enumeration of its own.
\<close>

section \<open>The request\<close>

record ngx_http_request = http_method :: nat
  http_version :: nat
  http_major :: nat
  http_minor :: nat
  request_start :: ptr
  request_end :: ptr
  method_end :: ptr
  uri_start :: ptr
  uri_end :: ptr
  uri_ext :: ptr
  args_start :: ptr
  schema_start :: ptr
  schema_end :: ptr
  host_start :: ptr
  host_end :: ptr
  port_end :: ptr
  http_protocol_data :: ptr
  complex_uri :: bool
  quoted_uri :: bool
  plus_in_uri :: bool
  space_in_uri :: bool
  uri :: "u_char list"
  exten :: "u_char list"
  args :: "u_char list"
  unparsed_uri :: "u_char list"
  valid_unparsed_uri :: bool

record ngx_buf =
  b_data :: "u_char list"
  b_pos :: nat

text \<open>The value of a pointer that is not \<open>NULL\<close>.\<close>

definition off :: "ptr \<Rightarrow> nat" where
  "off q = (case q of None \<Rightarrow> 0 | Some n \<Rightarrow> n)"

lemma off_Some [simp]: "off (Some n) = n"
  by (simp add: off_def)

abbreviation (input) NGX_HTTP_UNKNOWN :: nat where "NGX_HTTP_UNKNOWN \<equiv> 0x0001"
abbreviation (input) NGX_HTTP_GET :: nat where "NGX_HTTP_GET \<equiv> 0x0002"
abbreviation (input) NGX_HTTP_HEAD :: nat where "NGX_HTTP_HEAD \<equiv> 0x0004"
abbreviation (input) NGX_HTTP_POST :: nat where "NGX_HTTP_POST \<equiv> 0x0008"
abbreviation (input) NGX_HTTP_PUT :: nat where "NGX_HTTP_PUT \<equiv> 0x0010"
abbreviation (input) NGX_HTTP_DELETE :: nat where "NGX_HTTP_DELETE \<equiv> 0x0020"
abbreviation (input) NGX_HTTP_MKCOL :: nat where "NGX_HTTP_MKCOL \<equiv> 0x0040"
abbreviation (input) NGX_HTTP_COPY :: nat where "NGX_HTTP_COPY \<equiv> 0x0080"
abbreviation (input) NGX_HTTP_MOVE :: nat where "NGX_HTTP_MOVE \<equiv> 0x0100"
abbreviation (input) NGX_HTTP_OPTIONS :: nat where "NGX_HTTP_OPTIONS \<equiv> 0x0200"
abbreviation (input) NGX_HTTP_PROPFIND :: nat where "NGX_HTTP_PROPFIND \<equiv> 0x0400"
abbreviation (input) NGX_HTTP_PROPPATCH :: nat where "NGX_HTTP_PROPPATCH \<equiv> 0x0800"
abbreviation (input) NGX_HTTP_LOCK :: nat where "NGX_HTTP_LOCK \<equiv> 0x1000"
abbreviation (input) NGX_HTTP_UNLOCK :: nat where "NGX_HTTP_UNLOCK \<equiv> 0x2000"
abbreviation (input) NGX_HTTP_PATCH :: nat where "NGX_HTTP_PATCH \<equiv> 0x4000"
abbreviation (input) NGX_HTTP_TRACE :: nat where "NGX_HTTP_TRACE \<equiv> 0x8000"

text \<open>A request as \<open>ngx_http_alloc_request\<close> leaves it: zeroed memory, then the method and
  the version.\<close>

definition ngx_http_request_new :: ngx_http_request where
  "ngx_http_request_new =
     \<lparr> http_method = NGX_HTTP_UNKNOWN, http_version = 1000, http_major = 0, http_minor = 0,
       request_start = None, request_end = None, method_end = None,
       uri_start = None, uri_end = None, uri_ext = None, args_start = None,
       schema_start = None, schema_end = None, host_start = None, host_end = None,
       port_end = None, http_protocol_data = None,
       complex_uri = False, quoted_uri = False, plus_in_uri = False, space_in_uri = False,
       uri = [], exten = [], args = [], unparsed_uri = [], valid_unparsed_uri = False \<rparr>"

section \<open>Comparing the method four bytes at a time\<close>

text \<open>The macros of the little-endian build. \<open>le32 buf m\<close> is \<open>*(uint32_t *) m\<close>; it may read
  past the last byte received, and the macros then mask those bytes out.\<close>

definition pack4 :: "u_char \<Rightarrow> u_char \<Rightarrow> u_char \<Rightarrow> u_char \<Rightarrow> uint32_t" where
  "pack4 c0 c1 c2 c3 =
     push_bit 24 (ucast c3) OR push_bit 16 (ucast c2) OR push_bit 8 (ucast c1) OR ucast c0"

definition le32 :: "u_char list \<Rightarrow> nat \<Rightarrow> uint32_t" where
  "le32 buf m = pack4 (buf ! m) (buf ! (m + 1)) (buf ! (m + 2)) (buf ! (m + 3))"

definition ngx_str3_cmp :: "u_char list \<Rightarrow> nat \<Rightarrow> u_char \<Rightarrow> u_char \<Rightarrow> u_char \<Rightarrow> u_char \<Rightarrow> bool" where
  "ngx_str3_cmp buf m c0 c1 c2 c3 \<longleftrightarrow> le32 buf m = pack4 c0 c1 c2 c3"

definition ngx_str3Ocmp :: "u_char list \<Rightarrow> nat \<Rightarrow> u_char \<Rightarrow> u_char \<Rightarrow> u_char \<Rightarrow> u_char \<Rightarrow> bool" where
  "ngx_str3Ocmp buf m c0 c1 c2 c3 \<longleftrightarrow> le32 buf m = pack4 c0 c1 c2 c3"

definition ngx_str4cmp :: "u_char list \<Rightarrow> nat \<Rightarrow> u_char \<Rightarrow> u_char \<Rightarrow> u_char \<Rightarrow> u_char \<Rightarrow> bool" where
  "ngx_str4cmp buf m c0 c1 c2 c3 \<longleftrightarrow> le32 buf m = pack4 c0 c1 c2 c3"

definition ngx_str5cmp ::
  "u_char list \<Rightarrow> nat \<Rightarrow> u_char \<Rightarrow> u_char \<Rightarrow> u_char \<Rightarrow> u_char \<Rightarrow> u_char \<Rightarrow> bool" where
  "ngx_str5cmp buf m c0 c1 c2 c3 c4 \<longleftrightarrow>
     le32 buf m = pack4 c0 c1 c2 c3 \<and> buf ! (m + 4) = c4"

definition ngx_str6cmp ::
  "u_char list \<Rightarrow> nat \<Rightarrow> u_char \<Rightarrow> u_char \<Rightarrow> u_char \<Rightarrow> u_char \<Rightarrow> u_char \<Rightarrow> u_char \<Rightarrow> bool" where
  "ngx_str6cmp buf m c0 c1 c2 c3 c4 c5 \<longleftrightarrow>
     le32 buf m = pack4 c0 c1 c2 c3 \<and>
     le32 buf (m + 4) AND 0xffff = push_bit 8 (ucast c5) OR ucast c4"

definition ngx_str7_cmp ::
  "u_char list \<Rightarrow> nat \<Rightarrow> u_char \<Rightarrow> u_char \<Rightarrow> u_char \<Rightarrow> u_char \<Rightarrow> u_char \<Rightarrow> u_char \<Rightarrow> u_char \<Rightarrow> u_char
    \<Rightarrow> bool" where
  "ngx_str7_cmp buf m c0 c1 c2 c3 c4 c5 c6 c7 \<longleftrightarrow>
     le32 buf m = pack4 c0 c1 c2 c3 \<and> le32 buf (m + 4) = pack4 c4 c5 c6 c7"

definition ngx_str8cmp ::
  "u_char list \<Rightarrow> nat \<Rightarrow> u_char \<Rightarrow> u_char \<Rightarrow> u_char \<Rightarrow> u_char \<Rightarrow> u_char \<Rightarrow> u_char \<Rightarrow> u_char \<Rightarrow> u_char
    \<Rightarrow> bool" where
  "ngx_str8cmp buf m c0 c1 c2 c3 c4 c5 c6 c7 \<longleftrightarrow>
     le32 buf m = pack4 c0 c1 c2 c3 \<and> le32 buf (m + 4) = pack4 c4 c5 c6 c7"

definition ngx_str9cmp ::
  "u_char list \<Rightarrow> nat \<Rightarrow> u_char \<Rightarrow> u_char \<Rightarrow> u_char \<Rightarrow> u_char \<Rightarrow> u_char \<Rightarrow> u_char \<Rightarrow> u_char \<Rightarrow> u_char
    \<Rightarrow> u_char \<Rightarrow> bool" where
  "ngx_str9cmp buf m c0 c1 c2 c3 c4 c5 c6 c7 c8 \<longleftrightarrow>
     le32 buf m = pack4 c0 c1 c2 c3 \<and> le32 buf (m + 4) = pack4 c4 c5 c6 c7 \<and>
     buf ! (m + 8) = c8"

text \<open>The switch on \<open>p - m\<close> of \<open>sw_method\<close>: the new value of \<open>r->method\<close>, given the old one.\<close>

definition rl_method_switch :: "u_char list \<Rightarrow> nat \<Rightarrow> nat \<Rightarrow> nat \<Rightarrow> nat" where
  "rl_method_switch buf m p old =
    (if p - m = 3 then
       (if ngx_str3_cmp buf m 0x47 0x45 0x54 SP then NGX_HTTP_GET
        else if ngx_str3_cmp buf m 0x50 0x55 0x54 SP then NGX_HTTP_PUT
        else old)
     else if p - m = 4 then
       (if buf ! (m + 1) = c_O then
          (if ngx_str3Ocmp buf m 0x50 0x4f 0x53 0x54 then NGX_HTTP_POST
           else if ngx_str3Ocmp buf m 0x43 0x4f 0x50 0x59 then NGX_HTTP_COPY
           else if ngx_str3Ocmp buf m 0x4d 0x4f 0x56 0x45 then NGX_HTTP_MOVE
           else if ngx_str3Ocmp buf m 0x4c 0x4f 0x43 0x4b then NGX_HTTP_LOCK
           else old)
        else if ngx_str4cmp buf m 0x48 0x45 0x41 0x44 then NGX_HTTP_HEAD
        else old)
     else if p - m = 5 then
       (if ngx_str5cmp buf m 0x4d 0x4b 0x43 0x4f 0x4c then NGX_HTTP_MKCOL
        else if ngx_str5cmp buf m 0x50 0x41 0x54 0x43 0x48 then NGX_HTTP_PATCH
        else if ngx_str5cmp buf m 0x54 0x52 0x41 0x43 0x45 then NGX_HTTP_TRACE
        else old)
     else if p - m = 6 then
       (if ngx_str6cmp buf m 0x44 0x45 0x4c 0x45 0x54 0x45 then NGX_HTTP_DELETE
        else if ngx_str6cmp buf m 0x55 0x4e 0x4c 0x4f 0x43 0x4b then NGX_HTTP_UNLOCK
        else old)
     else if p - m = 7 then
       (if ngx_str7_cmp buf m 0x4f 0x50 0x54 0x49 0x4f 0x4e 0x53 SP then NGX_HTTP_OPTIONS
        else old)
     else if p - m = 8 then
       (if ngx_str8cmp buf m 0x50 0x52 0x4f 0x50 0x46 0x49 0x4e 0x44 then NGX_HTTP_PROPFIND
        else old)
     else if p - m = 9 then
       (if ngx_str9cmp buf m 0x50 0x52 0x4f 0x50 0x50 0x41 0x54 0x43 0x48
        then NGX_HTTP_PROPPATCH else old)
     else old)"

section \<open>The state machine\<close>

text \<open>The bytes that need no look in a URI (\<open>usual[]\<close>, the Unix variant).\<close>

definition usual :: "uint32_t list" where
  "usual = [0xffffdbfe, 0x7fff37d6, 0xffffffff, 0xffffffff,
            0xffffffff, 0xffffffff, 0xffffffff, 0xffffffff]"

datatype rl_state =
    rl_sw_start
  | rl_sw_method
  | rl_sw_spaces_before_uri
  | rl_sw_schema
  | rl_sw_schema_slash
  | rl_sw_schema_slash_slash
  | rl_sw_host_start
  | rl_sw_host
  | rl_sw_host_end
  | rl_sw_host_ip_literal
  | rl_sw_port
  | rl_sw_host_http_09
  | rl_sw_after_slash_in_uri
  | rl_sw_check_uri
  | rl_sw_check_uri_http_09
  | rl_sw_uri
  | rl_sw_http_09
  | rl_sw_http_H
  | rl_sw_http_HT
  | rl_sw_http_HTT
  | rl_sw_http_HTTP
  | rl_sw_first_major_digit
  | rl_sw_major_digit
  | rl_sw_first_minor_digit
  | rl_sw_minor_digit
  | rl_sw_spaces_after_digit
  | rl_sw_almost_done

datatype rl_exit = Rl_done | Rl_return ngx_rc

type_synonym rl_flow = "(rl_state \<times> ngx_http_request, rl_exit) flow"

abbreviation rl_invalid :: "rl_state \<Rightarrow> ngx_http_request \<Rightarrow> rl_flow" where
  "rl_invalid st r \<equiv> Exit (Rl_return NGX_HTTP_PARSE_INVALID_REQUEST) (st, r)"

definition rl_start :: "nat \<Rightarrow> u_char \<Rightarrow> ngx_http_request \<Rightarrow> rl_flow" where
  "rl_start p ch r =
    (let r = r\<lparr>request_start := Some p\<rparr> in
     if ch = CR \<or> ch = LF then Next (rl_sw_start, r)
     else if \<not> is_upper ch \<and> ch \<noteq> c_under \<and> ch \<noteq> c_minus
     then Exit (Rl_return NGX_HTTP_PARSE_INVALID_METHOD) (rl_sw_start, r)
     else Next (rl_sw_method, r))"

definition rl_method :: "u_char list \<Rightarrow> nat \<Rightarrow> u_char \<Rightarrow> ngx_http_request \<Rightarrow> rl_flow" where
  "rl_method buf p ch r =
    (if ch = SP then
       (let m = off (request_start r) in
        Next (rl_sw_spaces_before_uri,
              r\<lparr>method_end := Some (p - 1), http_method := rl_method_switch buf m p (http_method r)\<rparr>))
     else if \<not> is_upper ch \<and> ch \<noteq> c_under \<and> ch \<noteq> c_minus
     then Exit (Rl_return NGX_HTTP_PARSE_INVALID_METHOD) (rl_sw_method, r)
     else Next (rl_sw_method, r))"

definition rl_spaces_before_uri :: "nat \<Rightarrow> u_char \<Rightarrow> ngx_http_request \<Rightarrow> rl_flow" where
  "rl_spaces_before_uri p ch r =
    (if ch = c_slash then Next (rl_sw_after_slash_in_uri, r\<lparr>uri_start := Some p\<rparr>)
     else if is_lower (ch OR 0x20) then Next (rl_sw_schema, r\<lparr>schema_start := Some p\<rparr>)
     else if ch = SP then Next (rl_sw_spaces_before_uri, r)
     else rl_invalid rl_sw_spaces_before_uri r)"

definition rl_schema :: "nat \<Rightarrow> u_char \<Rightarrow> ngx_http_request \<Rightarrow> rl_flow" where
  "rl_schema p ch r =
    (if is_lower (ch OR 0x20) then Next (rl_sw_schema, r)
     else if is_digit ch \<or> ch = c_plus \<or> ch = c_minus \<or> ch = c_dot then Next (rl_sw_schema, r)
     else if ch = c_colon then Next (rl_sw_schema_slash, r\<lparr>schema_end := Some p\<rparr>)
     else rl_invalid rl_sw_schema r)"

definition rl_schema_slash :: "u_char \<Rightarrow> ngx_http_request \<Rightarrow> rl_flow" where
  "rl_schema_slash ch r =
    (if ch = c_slash then Next (rl_sw_schema_slash_slash, r)
     else rl_invalid rl_sw_schema_slash r)"

definition rl_schema_slash_slash :: "u_char \<Rightarrow> ngx_http_request \<Rightarrow> rl_flow" where
  "rl_schema_slash_slash ch r =
    (if ch = c_slash then Next (rl_sw_host_start, r)
     else rl_invalid rl_sw_schema_slash_slash r)"

text \<open>\<open>sw_host_start\<close> falls through to \<open>sw_host\<close>, and that to \<open>sw_host_end\<close>. The URI of
  \<^verbatim>\<open>http://host\<close> is the first slash after the scheme.\<close>

definition rl_host_end :: "rl_state \<Rightarrow> nat \<Rightarrow> u_char \<Rightarrow> ngx_http_request \<Rightarrow> rl_flow" where
  "rl_host_end st p ch r =
    (let r = r\<lparr>host_end := Some p\<rparr> in
     if ch = c_colon then Next (rl_sw_port, r)
     else if ch = c_slash then Next (rl_sw_after_slash_in_uri, r\<lparr>uri_start := Some p\<rparr>)
     else if ch = SP then
       Next (rl_sw_host_http_09,
             r\<lparr>uri_start := Some (off (schema_end r) + 1),
               uri_end := Some (off (schema_end r) + 2)\<rparr>)
     else rl_invalid st r)"

definition rl_host :: "nat \<Rightarrow> u_char \<Rightarrow> ngx_http_request \<Rightarrow> rl_flow" where
  "rl_host p ch r =
    (if is_lower (ch OR 0x20) then Next (rl_sw_host, r)
     else if is_digit ch \<or> ch = c_dot \<or> ch = c_minus then Next (rl_sw_host, r)
     else rl_host_end rl_sw_host p ch r)"

definition rl_host_start :: "nat \<Rightarrow> u_char \<Rightarrow> ngx_http_request \<Rightarrow> rl_flow" where
  "rl_host_start p ch r =
    (let r = r\<lparr>host_start := Some p\<rparr> in
     if ch = c_lbrack then Next (rl_sw_host_ip_literal, r)
     else rl_host p ch r)"

definition rl_host_ip_literal :: "u_char \<Rightarrow> ngx_http_request \<Rightarrow> rl_flow" where
  "rl_host_ip_literal ch r =
    (if is_digit ch then Next (rl_sw_host_ip_literal, r)
     else if is_lower (ch OR 0x20) then Next (rl_sw_host_ip_literal, r)
     else if ch = c_colon then Next (rl_sw_host_ip_literal, r)
     else if ch = c_rbrack then Next (rl_sw_host_end, r)
     else if ch \<in> {c_minus, c_dot, c_under, c_tilde} then Next (rl_sw_host_ip_literal, r)
     else if ch \<in> {c_excl, c_dollar, c_amp, c_apos, c_lpar, c_rpar, c_star, c_plus,
                   c_comma, c_semi, c_eq} then Next (rl_sw_host_ip_literal, r)
     else rl_invalid rl_sw_host_ip_literal r)"

definition rl_port :: "nat \<Rightarrow> u_char \<Rightarrow> ngx_http_request \<Rightarrow> rl_flow" where
  "rl_port p ch r =
    (if is_digit ch then Next (rl_sw_port, r)
     else if ch = c_slash then
       Next (rl_sw_after_slash_in_uri, r\<lparr>port_end := Some p, uri_start := Some p\<rparr>)
     else if ch = SP then
       Next (rl_sw_host_http_09,
             r\<lparr>port_end := Some p,
               uri_start := Some (off (schema_end r) + 1),
               uri_end := Some (off (schema_end r) + 2)\<rparr>)
     else rl_invalid rl_sw_port r)"

definition rl_host_http_09 :: "nat \<Rightarrow> u_char \<Rightarrow> ngx_http_request \<Rightarrow> rl_flow" where
  "rl_host_http_09 p ch r =
    (if ch = SP then Next (rl_sw_host_http_09, r)
     else if ch = CR then Next (rl_sw_almost_done, r\<lparr>http_minor := 9\<rparr>)
     else if ch = LF then Exit Rl_done (rl_sw_host_http_09, r\<lparr>http_minor := 9\<rparr>)
     else if ch = c_H then Next (rl_sw_http_H, r\<lparr>http_protocol_data := Some p\<rparr>)
     else rl_invalid rl_sw_host_http_09 r)"

definition rl_after_slash_in_uri :: "nat \<Rightarrow> u_char \<Rightarrow> ngx_http_request \<Rightarrow> rl_flow" where
  "rl_after_slash_in_uri p ch r =
    (if charmap_bit usual ch then Next (rl_sw_check_uri, r)
     else if ch = SP then Next (rl_sw_check_uri_http_09, r\<lparr>uri_end := Some p\<rparr>)
     else if ch = CR then Next (rl_sw_almost_done, r\<lparr>uri_end := Some p, http_minor := 9\<rparr>)
     else if ch = LF then
       Exit Rl_done (rl_sw_after_slash_in_uri, r\<lparr>uri_end := Some p, http_minor := 9\<rparr>)
     else if ch = c_dot then Next (rl_sw_uri, r\<lparr>complex_uri := True\<rparr>)
     else if ch = c_percent then Next (rl_sw_uri, r\<lparr>quoted_uri := True\<rparr>)
     else if ch = c_slash then Next (rl_sw_uri, r\<lparr>complex_uri := True\<rparr>)
     else if ch = c_quest then Next (rl_sw_uri, r\<lparr>args_start := Some (p + 1)\<rparr>)
     else if ch = c_hash then Next (rl_sw_uri, r\<lparr>complex_uri := True\<rparr>)
     else if ch = c_plus then Next (rl_sw_after_slash_in_uri, r\<lparr>plus_in_uri := True\<rparr>)
     else if ch = NUL then rl_invalid rl_sw_after_slash_in_uri r
     else Next (rl_sw_check_uri, r))"

definition rl_check_uri :: "nat \<Rightarrow> u_char \<Rightarrow> ngx_http_request \<Rightarrow> rl_flow" where
  "rl_check_uri p ch r =
    (if charmap_bit usual ch then Next (rl_sw_check_uri, r)
     else if ch = c_slash then Next (rl_sw_after_slash_in_uri, r\<lparr>uri_ext := None\<rparr>)
     else if ch = c_dot then Next (rl_sw_check_uri, r\<lparr>uri_ext := Some (p + 1)\<rparr>)
     else if ch = SP then Next (rl_sw_check_uri_http_09, r\<lparr>uri_end := Some p\<rparr>)
     else if ch = CR then Next (rl_sw_almost_done, r\<lparr>uri_end := Some p, http_minor := 9\<rparr>)
     else if ch = LF then
       Exit Rl_done (rl_sw_check_uri, r\<lparr>uri_end := Some p, http_minor := 9\<rparr>)
     else if ch = c_percent then Next (rl_sw_uri, r\<lparr>quoted_uri := True\<rparr>)
     else if ch = c_quest then Next (rl_sw_uri, r\<lparr>args_start := Some (p + 1)\<rparr>)
     else if ch = c_hash then Next (rl_sw_uri, r\<lparr>complex_uri := True\<rparr>)
     else if ch = c_plus then Next (rl_sw_check_uri, r\<lparr>plus_in_uri := True\<rparr>)
     else if ch = NUL then rl_invalid rl_sw_check_uri r
     else Next (rl_sw_check_uri, r))"

definition rl_uri :: "nat \<Rightarrow> u_char \<Rightarrow> ngx_http_request \<Rightarrow> rl_flow" where
  "rl_uri p ch r =
    (if charmap_bit usual ch then Next (rl_sw_uri, r)
     else if ch = SP then Next (rl_sw_http_09, r\<lparr>uri_end := Some p\<rparr>)
     else if ch = CR then Next (rl_sw_almost_done, r\<lparr>uri_end := Some p, http_minor := 9\<rparr>)
     else if ch = LF then Exit Rl_done (rl_sw_uri, r\<lparr>uri_end := Some p, http_minor := 9\<rparr>)
     else if ch = c_hash then Next (rl_sw_uri, r\<lparr>complex_uri := True\<rparr>)
     else if ch = NUL then rl_invalid rl_sw_uri r
     else Next (rl_sw_uri, r))"

text \<open>In the default branch the code steps back (\<open>p--\<close>) before the loop steps forward, so
  the same byte is looked at again in the new state.\<close>

definition rl_check_uri_http_09 :: "nat \<Rightarrow> u_char \<Rightarrow> ngx_http_request \<Rightarrow> rl_flow" where
  "rl_check_uri_http_09 p ch r =
    (if ch = SP then Next (rl_sw_check_uri_http_09, r)
     else if ch = CR then Next (rl_sw_almost_done, r\<lparr>http_minor := 9\<rparr>)
     else if ch = LF then Exit Rl_done (rl_sw_check_uri_http_09, r\<lparr>http_minor := 9\<rparr>)
     else if ch = c_H then Next (rl_sw_http_H, r\<lparr>http_protocol_data := Some p\<rparr>)
     else rl_check_uri p ch (r\<lparr>space_in_uri := True\<rparr>))"

definition rl_http_09 :: "nat \<Rightarrow> u_char \<Rightarrow> ngx_http_request \<Rightarrow> rl_flow" where
  "rl_http_09 p ch r =
    (if ch = SP then Next (rl_sw_http_09, r)
     else if ch = CR then Next (rl_sw_almost_done, r\<lparr>http_minor := 9\<rparr>)
     else if ch = LF then Exit Rl_done (rl_sw_http_09, r\<lparr>http_minor := 9\<rparr>)
     else if ch = c_H then Next (rl_sw_http_H, r\<lparr>http_protocol_data := Some p\<rparr>)
     else rl_uri p ch (r\<lparr>space_in_uri := True\<rparr>))"

text \<open>\<open>sw_http_H\<close>, \<open>sw_http_HT\<close>, \<open>sw_http_HTT\<close> and \<open>sw_http_HTTP\<close>: one expected byte.\<close>

definition rl_http_letters :: "rl_state \<Rightarrow> u_char \<Rightarrow> rl_state \<Rightarrow> u_char \<Rightarrow> ngx_http_request \<Rightarrow> rl_flow" where
  "rl_http_letters st expected st' ch r =
    (if ch = expected then Next (st', r) else rl_invalid st r)"

definition rl_first_major_digit :: "u_char \<Rightarrow> ngx_http_request \<Rightarrow> rl_flow" where
  "rl_first_major_digit ch r =
    (if ch < c_1 \<or> ch > c_9 then rl_invalid rl_sw_first_major_digit r
     else
       (let r = r\<lparr>http_major := unat (ch - c_0)\<rparr> in
        if http_major r > 1
        then Exit (Rl_return NGX_HTTP_PARSE_INVALID_VERSION) (rl_sw_first_major_digit, r)
        else Next (rl_sw_major_digit, r)))"

definition rl_major_digit :: "u_char \<Rightarrow> ngx_http_request \<Rightarrow> rl_flow" where
  "rl_major_digit ch r =
    (if ch = c_dot then Next (rl_sw_first_minor_digit, r)
     else if \<not> is_digit ch then rl_invalid rl_sw_major_digit r
     else
       (let r = r\<lparr>http_major := http_major r * 10 + unat (ch - c_0)\<rparr> in
        if http_major r > 1
        then Exit (Rl_return NGX_HTTP_PARSE_INVALID_VERSION) (rl_sw_major_digit, r)
        else Next (rl_sw_major_digit, r)))"

definition rl_first_minor_digit :: "u_char \<Rightarrow> ngx_http_request \<Rightarrow> rl_flow" where
  "rl_first_minor_digit ch r =
    (if \<not> is_digit ch then rl_invalid rl_sw_first_minor_digit r
     else Next (rl_sw_minor_digit, r\<lparr>http_minor := unat (ch - c_0)\<rparr>))"

definition rl_minor_digit :: "u_char \<Rightarrow> ngx_http_request \<Rightarrow> rl_flow" where
  "rl_minor_digit ch r =
    (if ch = CR then Next (rl_sw_almost_done, r)
     else if ch = LF then Exit Rl_done (rl_sw_minor_digit, r)
     else if ch = SP then Next (rl_sw_spaces_after_digit, r)
     else if \<not> is_digit ch then rl_invalid rl_sw_minor_digit r
     else if http_minor r > 99 then rl_invalid rl_sw_minor_digit r
     else Next (rl_sw_minor_digit, r\<lparr>http_minor := http_minor r * 10 + unat (ch - c_0)\<rparr>))"

definition rl_spaces_after_digit :: "u_char \<Rightarrow> ngx_http_request \<Rightarrow> rl_flow" where
  "rl_spaces_after_digit ch r =
    (if ch = SP then Next (rl_sw_spaces_after_digit, r)
     else if ch = CR then Next (rl_sw_almost_done, r)
     else if ch = LF then Exit Rl_done (rl_sw_spaces_after_digit, r)
     else rl_invalid rl_sw_spaces_after_digit r)"

definition rl_almost_done :: "nat \<Rightarrow> u_char \<Rightarrow> ngx_http_request \<Rightarrow> rl_flow" where
  "rl_almost_done p ch r =
    (let r = r\<lparr>request_end := Some (p - 1)\<rparr> in
     if ch = LF then Exit Rl_done (rl_sw_almost_done, r)
     else rl_invalid rl_sw_almost_done r)"

text \<open>The switch.\<close>

fun rl_step :: "u_char list \<Rightarrow> nat \<Rightarrow> u_char \<Rightarrow> rl_state \<times> ngx_http_request \<Rightarrow> rl_flow" where
  "rl_step buf p ch (rl_sw_start, r) = rl_start p ch r"
| "rl_step buf p ch (rl_sw_method, r) = rl_method buf p ch r"
| "rl_step buf p ch (rl_sw_spaces_before_uri, r) = rl_spaces_before_uri p ch r"
| "rl_step buf p ch (rl_sw_schema, r) = rl_schema p ch r"
| "rl_step buf p ch (rl_sw_schema_slash, r) = rl_schema_slash ch r"
| "rl_step buf p ch (rl_sw_schema_slash_slash, r) = rl_schema_slash_slash ch r"
| "rl_step buf p ch (rl_sw_host_start, r) = rl_host_start p ch r"
| "rl_step buf p ch (rl_sw_host, r) = rl_host p ch r"
| "rl_step buf p ch (rl_sw_host_end, r) = rl_host_end rl_sw_host_end p ch r"
| "rl_step buf p ch (rl_sw_host_ip_literal, r) = rl_host_ip_literal ch r"
| "rl_step buf p ch (rl_sw_port, r) = rl_port p ch r"
| "rl_step buf p ch (rl_sw_host_http_09, r) = rl_host_http_09 p ch r"
| "rl_step buf p ch (rl_sw_after_slash_in_uri, r) = rl_after_slash_in_uri p ch r"
| "rl_step buf p ch (rl_sw_check_uri, r) = rl_check_uri p ch r"
| "rl_step buf p ch (rl_sw_check_uri_http_09, r) = rl_check_uri_http_09 p ch r"
| "rl_step buf p ch (rl_sw_uri, r) = rl_uri p ch r"
| "rl_step buf p ch (rl_sw_http_09, r) = rl_http_09 p ch r"
| "rl_step buf p ch (rl_sw_http_H, r) = rl_http_letters rl_sw_http_H c_T rl_sw_http_HT ch r"
| "rl_step buf p ch (rl_sw_http_HT, r) = rl_http_letters rl_sw_http_HT c_T rl_sw_http_HTT ch r"
| "rl_step buf p ch (rl_sw_http_HTT, r) = rl_http_letters rl_sw_http_HTT c_P rl_sw_http_HTTP ch r"
| "rl_step buf p ch (rl_sw_http_HTTP, r) =
     rl_http_letters rl_sw_http_HTTP c_slash rl_sw_first_major_digit ch r"
| "rl_step buf p ch (rl_sw_first_major_digit, r) = rl_first_major_digit ch r"
| "rl_step buf p ch (rl_sw_major_digit, r) = rl_major_digit ch r"
| "rl_step buf p ch (rl_sw_first_minor_digit, r) = rl_first_minor_digit ch r"
| "rl_step buf p ch (rl_sw_minor_digit, r) = rl_minor_digit ch r"
| "rl_step buf p ch (rl_sw_spaces_after_digit, r) = rl_spaces_after_digit ch r"
| "rl_step buf p ch (rl_sw_almost_done, r) = rl_almost_done p ch r"

text \<open>The code after the label \<open>done\<close>.\<close>

definition rl_done :: "nat \<Rightarrow> ngx_http_request \<Rightarrow> ngx_buf \<Rightarrow>
    ngx_rc \<times> rl_state \<times> ngx_http_request \<times> ngx_buf" where
  "rl_done p r b =
    (let b = b\<lparr>b_pos := p + 1\<rparr>;
         r = (if request_end r = None then r\<lparr>request_end := Some p\<rparr> else r);
         r = r\<lparr>http_version := http_major r * 1000 + http_minor r\<rparr>
     in if http_version r = 9 \<and> http_method r \<noteq> NGX_HTTP_GET
        then (NGX_HTTP_PARSE_INVALID_09_METHOD, rl_sw_start, r, b)
        else (NGX_OK, rl_sw_start, r, b))"

definition ngx_http_parse_request_line ::
  "rl_state \<Rightarrow> ngx_http_request \<Rightarrow> ngx_buf \<Rightarrow> ngx_rc \<times> rl_state \<times> ngx_http_request \<times> ngx_buf" where
  "ngx_http_parse_request_line st r b =
    (case scan (rl_step (b_data b)) (drop (b_pos b) (b_data b)) (b_pos b) (st, r) of
       Ran_out p (st', r') \<Rightarrow> (NGX_AGAIN, st', r', b\<lparr>b_pos := p\<rparr>)
     | Exited Rl_done p (_, r') \<Rightarrow> rl_done p r' b
     | Exited (Rl_return rc) p (_, r') \<Rightarrow> (rc, st, r', b))"

named_theorems rl_defs

declare rl_start_def [rl_defs] rl_method_def [rl_defs] rl_spaces_before_uri_def [rl_defs]
  rl_schema_def [rl_defs] rl_schema_slash_def [rl_defs] rl_schema_slash_slash_def [rl_defs]
  rl_host_end_def [rl_defs] rl_host_def [rl_defs] rl_host_start_def [rl_defs]
  rl_host_ip_literal_def [rl_defs] rl_port_def [rl_defs] rl_host_http_09_def [rl_defs]
  rl_after_slash_in_uri_def [rl_defs] rl_check_uri_def [rl_defs] rl_uri_def [rl_defs]
  rl_check_uri_http_09_def [rl_defs] rl_http_09_def [rl_defs] rl_http_letters_def [rl_defs]
  rl_first_major_digit_def [rl_defs] rl_major_digit_def [rl_defs]
  rl_first_minor_digit_def [rl_defs] rl_minor_digit_def [rl_defs]
  rl_spaces_after_digit_def [rl_defs] rl_almost_done_def [rl_defs]

section \<open>Recognising the method\<close>

lemma usual_iff_all:
  "\<forall>ch. charmap_bit usual ch \<longleftrightarrow>
   ch \<notin> {NUL, LF, CR, SP, c_hash, c_percent, c_plus, c_dot, c_slash, c_quest}"
  unfolding byte_forall by (simp add: all_bytes_def charmap_bit_def usual_def)

lemmas usual_iff = usual_iff_all [rule_format]

lemma pack4_inject:
  "pack4 a b c d = pack4 a' b' c' d' \<longleftrightarrow> a = a' \<and> b = b' \<and> c = c' \<and> d = d'"
proof
  assume e: "pack4 a b c d = pack4 a' b' c' d'"
  have u: "ucast (pack4 a b c d) = a" "ucast (drop_bit 8 (pack4 a b c d)) = b"
    "ucast (drop_bit 16 (pack4 a b c d)) = c" "ucast (drop_bit 24 (pack4 a b c d)) = d" for a b c d
    by (auto intro!: bit_word_eqI simp: pack4_def bit_simps)
  show "a = a' \<and> b = b' \<and> c = c' \<and> d = d'"
    using u [of a b c d] u [of a' b' c' d'] e by metis
qed simp

lemma pack4_low16: 
  "pack4 a b c d AND 0xffff = push_bit 8 (ucast b') OR ucast a' \<longleftrightarrow> a = a' \<and> b = b'"
proof -
  have m: "(0xffff :: uint32_t) = mask 16" by (simp add: mask_eq_exp_minus_1)
  have "pack4 a b c d AND 0xffff = pack4 a b 0 0"
    unfolding pack4_def m
    by (rule bit_word_eqI) (auto simp: bit_simps dest: bit_imp_le_length)
  moreover have "push_bit 8 (ucast b') OR ucast a' = pack4 a' b' 0 0"
    by (simp add: pack4_def)
  ultimately show ?thesis by (simp add: pack4_inject)
qed

definition http_methods :: "(u_char list \<times> nat) list" where
  "http_methods =
    [(bytes ''GET'', NGX_HTTP_GET), (bytes ''PUT'', NGX_HTTP_PUT),
     (bytes ''POST'', NGX_HTTP_POST), (bytes ''COPY'', NGX_HTTP_COPY),
     (bytes ''MOVE'', NGX_HTTP_MOVE), (bytes ''LOCK'', NGX_HTTP_LOCK),
     (bytes ''HEAD'', NGX_HTTP_HEAD),
     (bytes ''MKCOL'', NGX_HTTP_MKCOL), (bytes ''PATCH'', NGX_HTTP_PATCH),
     (bytes ''TRACE'', NGX_HTTP_TRACE),
     (bytes ''DELETE'', NGX_HTTP_DELETE), (bytes ''UNLOCK'', NGX_HTTP_UNLOCK),
     (bytes ''OPTIONS'', NGX_HTTP_OPTIONS), (bytes ''PROPFIND'', NGX_HTTP_PROPFIND),
     (bytes ''PROPPATCH'', NGX_HTTP_PROPPATCH)]"

definition http_method_of :: "u_char list \<Rightarrow> nat" where
  "http_method_of name =
    (case map_of http_methods name of None \<Rightarrow> NGX_HTTP_UNKNOWN | Some m \<Rightarrow> m)"

text \<open>The word comparisons are the byte comparisons of the portable macros.\<close>

lemma ngx_str_cmp_iff:
  "ngx_str3_cmp buf m c0 c1 c2 c3 \<longleftrightarrow>
     buf ! m = c0 \<and> buf ! (m + 1) = c1 \<and> buf ! (m + 2) = c2 \<and> buf ! (m + 3) = c3"
  "ngx_str3Ocmp buf m c0 c1 c2 c3 \<longleftrightarrow>
     buf ! m = c0 \<and> buf ! (m + 1) = c1 \<and> buf ! (m + 2) = c2 \<and> buf ! (m + 3) = c3"
  "ngx_str4cmp buf m c0 c1 c2 c3 \<longleftrightarrow>
     buf ! m = c0 \<and> buf ! (m + 1) = c1 \<and> buf ! (m + 2) = c2 \<and> buf ! (m + 3) = c3"
  "ngx_str5cmp buf m c0 c1 c2 c3 c4 \<longleftrightarrow>
     buf ! m = c0 \<and> buf ! (m + 1) = c1 \<and> buf ! (m + 2) = c2 \<and> buf ! (m + 3) = c3 \<and>
     buf ! (m + 4) = c4"
  "ngx_str6cmp buf m c0 c1 c2 c3 c4 c5 \<longleftrightarrow>
     buf ! m = c0 \<and> buf ! (m + 1) = c1 \<and> buf ! (m + 2) = c2 \<and> buf ! (m + 3) = c3 \<and>
     buf ! (m + 4) = c4 \<and> buf ! (m + 5) = c5"
  "ngx_str7_cmp buf m c0 c1 c2 c3 c4 c5 c6 c7 \<longleftrightarrow>
     buf ! m = c0 \<and> buf ! (m + 1) = c1 \<and> buf ! (m + 2) = c2 \<and> buf ! (m + 3) = c3 \<and>
     buf ! (m + 4) = c4 \<and> buf ! (m + 5) = c5 \<and> buf ! (m + 6) = c6 \<and> buf ! (m + 7) = c7"
  "ngx_str8cmp buf m c0 c1 c2 c3 c4 c5 c6 c7 \<longleftrightarrow>
     buf ! m = c0 \<and> buf ! (m + 1) = c1 \<and> buf ! (m + 2) = c2 \<and> buf ! (m + 3) = c3 \<and>
     buf ! (m + 4) = c4 \<and> buf ! (m + 5) = c5 \<and> buf ! (m + 6) = c6 \<and> buf ! (m + 7) = c7"
  "ngx_str9cmp buf m c0 c1 c2 c3 c4 c5 c6 c7 c8 \<longleftrightarrow>
     buf ! m = c0 \<and> buf ! (m + 1) = c1 \<and> buf ! (m + 2) = c2 \<and> buf ! (m + 3) = c3 \<and>
     buf ! (m + 4) = c4 \<and> buf ! (m + 5) = c5 \<and> buf ! (m + 6) = c6 \<and> buf ! (m + 7) = c7 \<and>
     buf ! (m + 8) = c8"
  by (simp_all add: ngx_str3_cmp_def ngx_str3Ocmp_def ngx_str4cmp_def ngx_str5cmp_def
      ngx_str6cmp_def ngx_str7_cmp_def ngx_str8cmp_def ngx_str9cmp_def
      le32_def pack4_inject pack4_low16 add.commute [of m])

lemma http_methods_length: "list_all (\<lambda>e. length (fst e) \<in> {3..9}) http_methods"
  by (simp add: http_methods_def bytes_def)

lemma http_method_of_length:
  assumes "length name \<notin> {3..9}"
  shows "http_method_of name = NGX_HTTP_UNKNOWN"
proof -
  have "map_of http_methods name = None"
    using http_methods_length assms by (auto simp: map_of_eq_None_iff list_all_iff)
  then show ?thesis by (simp add: http_method_of_def)
qed

lemmas http_method_of_simps =
  http_method_of_def http_methods_def [unfolded bytes_def, simplified]

lemma upt_small:
  "[0..<3] = [0, 1, 2]" "[0..<4] = [0, 1, 2, 3]" "[0..<5] = [0, 1, 2, 3, 4]"
  "[0..<6] = [0, 1, 2, 3, 4, 5]" "[0..<7] = [0, 1, 2, 3, 4, 5, 6]"
  "[0..<8] = [0, 1, 2, 3, 4, 5, 6, 7]" "[0..<9] = [0, 1, 2, 3, 4, 5, 6, 7, 8]"
  by (simp_all add: upt_rec)

lemma rl_method_switch_table:
  assumes "m < p" "p < length buf" "buf ! p = SP"
  shows "rl_method_switch buf m p NGX_HTTP_UNKNOWN = http_method_of (slice buf m p)"
proof -
  define k where "k = p - m"
  define name where "name = slice buf m p"
  have p: "p = m + k" using assms by (simp add: k_def)
  have name: "name = map (\<lambda>i. buf ! (m + i)) [0..<k]"
    unfolding name_def using assms p by (simp add: slice_map_upt)
  note defs = rl_method_switch_def ngx_str_cmp_iff http_method_of_simps upt_small
  have "rl_method_switch buf m (m + k) NGX_HTTP_UNKNOWN = http_method_of name"
  proof -
    consider "k \<notin> {3..9}" | "k = 4" "buf ! Suc m = c_O" | "k = 4" "buf ! Suc m \<noteq> c_O"
      | "k = 3" | "k = 5" | "k = 6" | "k = 7" | "k = 8" | "k = 9" by force
    then show ?thesis
    proof cases
      case 1
      then have "k \<noteq> 3" "k \<noteq> 4" "k \<noteq> 5" "k \<noteq> 6" "k \<noteq> 7" "k \<noteq> 8" "k \<noteq> 9" by auto
      moreover have "http_method_of name = NGX_HTTP_UNKNOWN"
        using 1 by (intro http_method_of_length) (simp add: name)
      ultimately show ?thesis by (simp add: rl_method_switch_def)
    qed (use assms in \<open>simp_all add: name p defs\<close>)
  qed
  then show ?thesis by (simp add: p name_def)
qed

end
