(* ===== verification/Http_Request_Line_Inv.thy ===== *)
theory Http_Request_Line_Inv
  imports Http_Request_Line
begin

text \<open>
  The invariant of the request line parser, state by state: where the pointers stored so far
  point, which bytes the URI read so far contains, and when the path is known to be free of
  \<^verbatim>\<open>/.\<close>, \<^verbatim>\<open>//\<close>, \<^verbatim>\<open>%\<close> and \<^verbatim>\<open>#\<close>. Every step keeps it, a step does not depend on bytes that have
  not been received, and so the parser is an instance of the locale \<open>resumable\<close>.
\<close>

section \<open>What the parser knows in each state\<close>

definition is_method_char :: "u_char \<Rightarrow> bool" where
  "is_method_char c \<longleftrightarrow> is_upper c \<or> c = c_under \<or> c = c_minus"

definition method_ok :: "u_char list \<Rightarrow> ptr \<Rightarrow> ptr \<Rightarrow> nat \<Rightarrow> nat \<Rightarrow> bool" where
  "method_ok buf rs me mt lim \<longleftrightarrow>
     (\<exists>m e. rs = Some m \<and> me = Some e \<and> m \<le> e \<and> Suc e < lim \<and>
        (\<forall>i. m \<le> i \<and> i \<le> e \<longrightarrow> is_method_char (buf ! i)) \<and> buf ! Suc e = SP \<and>
        mt = http_method_of (slice buf m (Suc e)))"

definition uri_clean :: "u_char list \<Rightarrow> nat \<Rightarrow> nat \<Rightarrow> bool" where
  "uri_clean buf a b \<longleftrightarrow>
     a < b \<and> buf ! a = c_slash \<and>
     (\<forall>i. a \<le> i \<and> i < b \<longrightarrow> buf ! i \<notin> {NUL, CR, LF})"

definition plain_path :: "u_char list \<Rightarrow> nat \<Rightarrow> nat \<Rightarrow> ptr \<Rightarrow> bool" where
  "plain_path buf a b ext \<longleftrightarrow>
     uri_clean buf a b \<and>
     (\<forall>i. a \<le> i \<and> i < b \<longrightarrow> buf ! i \<notin> {c_hash, c_percent, c_quest}) \<and>
     (\<forall>i. a \<le> i \<and> Suc i < b \<and> buf ! i = c_slash \<longrightarrow> buf ! Suc i \<notin> {c_slash, c_dot}) \<and>
     (\<forall>x. ext = Some x \<longrightarrow> a < x \<and> x \<le> b)"

definition path_or_flag :: "u_char list \<Rightarrow> nat \<Rightarrow> nat \<Rightarrow> ptr \<Rightarrow> ptr \<Rightarrow> bool \<Rightarrow> bool" where
  "path_or_flag buf a b args_st ext flag \<longleftrightarrow>
     uri_clean buf a b \<and>
     (case args_st of
        None \<Rightarrow> flag \<or> plain_path buf a b ext
      | Some x \<Rightarrow> \<exists>q. x = Suc q \<and> x \<le> b \<and> buf ! q = c_quest \<and> plain_path buf a q ext)"

lemma uri_clean_first: "buf ! a = c_slash \<Longrightarrow> uri_clean buf a (Suc a)"
  by (auto simp: uri_clean_def less_Suc_eq)

lemma uri_clean_Suc:
  "uri_clean buf a b \<Longrightarrow> buf ! b \<notin> {NUL, CR, LF} \<Longrightarrow> uri_clean buf a (Suc b)"
  by (auto simp: uri_clean_def less_Suc_eq)

lemma plain_path_first: "buf ! a = c_slash \<Longrightarrow> plain_path buf a (Suc a) None"
  by (auto simp: plain_path_def uri_clean_first less_Suc_eq)

lemma plain_path_Suc:
  assumes "plain_path buf a b ext"
    and "buf ! b \<notin> {NUL, CR, LF, c_hash, c_percent, c_quest}"
    and "buf ! (b - 1) = c_slash \<Longrightarrow> buf ! b \<notin> {c_slash, c_dot}"
    and "\<And>x. ext' = Some x \<Longrightarrow> ext = Some x \<or> x = Suc b"
  shows "plain_path buf a (Suc b) ext'"
  using assms by (auto simp: plain_path_def uri_clean_def less_Suc_eq)

lemma plain_path_clean: "plain_path buf a b ext \<Longrightarrow> uri_clean buf a b"
  by (simp add: plain_path_def)

lemma method_ok_mono: "method_ok buf rs me mt lim \<Longrightarrow> lim \<le> lim' \<Longrightarrow> method_ok buf rs me mt lim'"
  by (auto simp: method_ok_def)

lemma method_ok_append [simp]:
  "lim \<le> length buf \<Longrightarrow> method_ok (buf @ ys) rs me mt lim \<longleftrightarrow> method_ok buf rs me mt lim"
  by (fastforce simp: method_ok_def nth_append)

lemma uri_clean_append [simp]:
  "b \<le> length buf \<Longrightarrow> uri_clean (buf @ ys) a b \<longleftrightarrow> uri_clean buf a b"
  by (auto simp: uri_clean_def nth_append)

lemma plain_path_append [simp]:
  "b \<le> length buf \<Longrightarrow> plain_path (buf @ ys) a b ext \<longleftrightarrow> plain_path buf a b ext"
  by (auto simp: plain_path_def nth_append)

lemma path_or_flag_append [simp]:
  "b \<le> length buf \<Longrightarrow> path_or_flag (buf @ ys) a b ast ext f \<longleftrightarrow> path_or_flag buf a b ast ext f"
  by (fastforce simp: path_or_flag_def nth_append split: option.splits)

lemma path_or_flag_clean: "path_or_flag buf a b ast ext f \<Longrightarrow> uri_clean buf a b"
  by (simp add: path_or_flag_def)

lemma path_or_flag_mono:
  "path_or_flag buf a b ast ext f \<Longrightarrow> f \<longrightarrow> f' \<Longrightarrow> path_or_flag buf a b ast ext f'"
  by (auto simp: path_or_flag_def split: option.splits)

lemma path_or_flag_Suc:
  assumes "path_or_flag buf a b ast ext f" "buf ! b \<notin> {NUL, CR, LF}" "ast = None \<longrightarrow> f"
  shows "path_or_flag buf a (Suc b) ast ext f"
  using assms by (cases ast) (auto simp: path_or_flag_def uri_clean_Suc)

text \<open>The parts of the request that are still untouched before the URI.\<close>

definition uri_fresh :: "ngx_http_request \<Rightarrow> bool" where
  "uri_fresh r \<longleftrightarrow> \<not> complex_uri r \<and> \<not> quoted_uri r \<and> args_start r = None \<and> uri_ext r = None"

definition version_fresh :: "ngx_http_request \<Rightarrow> bool" where
  "version_fresh r \<longleftrightarrow> http_major r = 0 \<and> http_minor r = 0 \<and> request_end r = None"

text \<open>The URI has been delimited.\<close>

definition uri_done :: "u_char list \<Rightarrow> nat \<Rightarrow> ngx_http_request \<Rightarrow> bool" where
  "uri_done buf p r \<longleftrightarrow>
     (\<exists>a b. uri_start r = Some a \<and> uri_end r = Some b \<and> b \<le> p \<and>
        method_ok buf (request_start r) (method_end r) (http_method r) a \<and>
        path_or_flag buf a b (args_start r) (uri_ext r) (complex_uri r \<or> quoted_uri r))"

definition before_uri :: "u_char list \<Rightarrow> nat \<Rightarrow> ngx_http_request \<Rightarrow> bool" where
  "before_uri buf p r \<longleftrightarrow>
     method_ok buf (request_start r) (method_end r) (http_method r) p \<and>
     uri_fresh r \<and> version_fresh r"

definition after_scheme :: "u_char list \<Rightarrow> nat \<Rightarrow> nat \<Rightarrow> ngx_http_request \<Rightarrow> bool" where
  "after_scheme buf k p r \<longleftrightarrow>
     (\<exists>s. schema_end r = Some s \<and> s + k \<le> p \<and> (1 < k \<longrightarrow> buf ! Suc s = c_slash) \<and> 
       (k \<le> 1 \<longrightarrow> s + k = p) \<and>
       method_ok buf (request_start r) (method_end r) (http_method r) (Suc s)) \<and> 
     uri_fresh r \<and> version_fresh r"

definition in_path :: "u_char list \<Rightarrow> nat \<Rightarrow> ngx_http_request \<Rightarrow> bool" where
  "in_path buf p r \<longleftrightarrow>
     (\<exists>a. uri_start r = Some a \<and>
        method_ok buf (request_start r) (method_end r) (http_method r) a \<and>
        plain_path buf a p (uri_ext r)) \<and>
     \<not> complex_uri r \<and> \<not> quoted_uri r \<and> args_start r = None \<and> version_fresh r"

definition in_uri :: "u_char list \<Rightarrow> nat \<Rightarrow> ngx_http_request \<Rightarrow> bool" where
  "in_uri buf p r \<longleftrightarrow>
     (\<exists>a. uri_start r = Some a \<and>
        method_ok buf (request_start r) (method_end r) (http_method r) a \<and>
        path_or_flag buf a p (args_start r) (uri_ext r) (complex_uri r \<or> quoted_uri r)) \<and>
     (args_start r = None \<longrightarrow> complex_uri r \<or> quoted_uri r) \<and> version_fresh r"

fun rl_inv :: "u_char list \<Rightarrow> nat \<Rightarrow> rl_state \<times> ngx_http_request \<Rightarrow> bool" where
  "rl_inv buf p (rl_sw_start, r) \<longleftrightarrow>
     http_method r = NGX_HTTP_UNKNOWN \<and> uri_fresh r \<and> version_fresh r"
| "rl_inv buf p (rl_sw_method, r) \<longleftrightarrow>
     http_method r = NGX_HTTP_UNKNOWN \<and> uri_fresh r \<and> version_fresh r \<and>
     (\<exists>m. request_start r = Some m \<and> m < p \<and>
        (\<forall>i. m \<le> i \<and> i < p \<longrightarrow> is_method_char (buf ! i)))"
| "rl_inv buf p (rl_sw_spaces_before_uri, r) \<longleftrightarrow> before_uri buf p r"
| "rl_inv buf p (rl_sw_schema, r) \<longleftrightarrow> before_uri buf p r"
| "rl_inv buf p (rl_sw_schema_slash, r) \<longleftrightarrow> after_scheme buf 1 p r"
| "rl_inv buf p (rl_sw_schema_slash_slash, r) \<longleftrightarrow> after_scheme buf 2 p r"
| "rl_inv buf p (rl_sw_host_start, r) \<longleftrightarrow> after_scheme buf 3 p r"
| "rl_inv buf p (rl_sw_host, r) \<longleftrightarrow> after_scheme buf 3 p r"
| "rl_inv buf p (rl_sw_host_end, r) \<longleftrightarrow> after_scheme buf 3 p r"
| "rl_inv buf p (rl_sw_host_ip_literal, r) \<longleftrightarrow> after_scheme buf 3 p r"
| "rl_inv buf p (rl_sw_port, r) \<longleftrightarrow> after_scheme buf 3 p r"
| "rl_inv buf p (rl_sw_host_http_09, r) \<longleftrightarrow> uri_done buf p r \<and> version_fresh r"
| "rl_inv buf p (rl_sw_after_slash_in_uri, r) \<longleftrightarrow> in_path buf p r"
| "rl_inv buf p (rl_sw_check_uri, r) \<longleftrightarrow> in_path buf p r \<and> buf ! (p - 1) \<noteq> c_slash"
| "rl_inv buf p (rl_sw_check_uri_http_09, r) \<longleftrightarrow>
     in_path buf p r \<and> buf ! (p - 1) \<noteq> c_slash \<and> uri_done buf p r"
| "rl_inv buf p (rl_sw_uri, r) \<longleftrightarrow> in_uri buf p r"
| "rl_inv buf p (rl_sw_http_09, r) \<longleftrightarrow> in_uri buf p r \<and> uri_done buf p r"
| "rl_inv buf p (rl_sw_http_H, r) \<longleftrightarrow> uri_done buf p r \<and> version_fresh r"
| "rl_inv buf p (rl_sw_http_HT, r) \<longleftrightarrow> uri_done buf p r \<and> version_fresh r"
| "rl_inv buf p (rl_sw_http_HTT, r) \<longleftrightarrow> uri_done buf p r \<and> version_fresh r"
| "rl_inv buf p (rl_sw_http_HTTP, r) \<longleftrightarrow> uri_done buf p r \<and> version_fresh r"
| "rl_inv buf p (rl_sw_first_major_digit, r) \<longleftrightarrow> uri_done buf p r \<and> version_fresh r"
| "rl_inv buf p (rl_sw_major_digit, r) \<longleftrightarrow>
     uri_done buf p r \<and> http_major r = 1 \<and> http_minor r = 0 \<and> request_end r = None"
| "rl_inv buf p (rl_sw_first_minor_digit, r) \<longleftrightarrow>
     uri_done buf p r \<and> http_major r = 1 \<and> http_minor r = 0 \<and> request_end r = None"
| "rl_inv buf p (rl_sw_minor_digit, r) \<longleftrightarrow>
     uri_done buf p r \<and> http_major r = 1 \<and> http_minor r \<le> 999 \<and> request_end r = None"
| "rl_inv buf p (rl_sw_spaces_after_digit, r) \<longleftrightarrow>
     uri_done buf p r \<and> http_major r = 1 \<and> http_minor r \<le> 999 \<and> request_end r = None"
| "rl_inv buf p (rl_sw_almost_done, r) \<longleftrightarrow>
     uri_done buf (p - 1) r \<and> 0 < p \<and> buf ! (p - 1) = CR \<and> request_end r = None \<and>
     (http_major r = 1 \<and> http_minor r \<le> 999 \<or> http_major r = 0 \<and> http_minor r = 9)"

text \<open>What holds when the end of the line has been reached at offset \<open>p\<close>.\<close>

fun rl_post :: "u_char list \<Rightarrow> nat \<Rightarrow> rl_exit \<Rightarrow> rl_state \<times> ngx_http_request \<Rightarrow> bool" where
  "rl_post buf p Rl_done (st, r) \<longleftrightarrow>
     (case request_end r of
        None \<Rightarrow> uri_done buf p r
      | Some q \<Rightarrow> uri_done buf q r \<and> Suc q = p \<and> buf ! q = CR) \<and>
     buf ! p = LF \<and>
     (http_major r = 1 \<and> http_minor r \<le> 999 \<or> http_major r = 0 \<and> http_minor r = 9)"
| "rl_post buf p (Rl_return rc) (st, r) \<longleftrightarrow>
     rc \<in> {NGX_HTTP_PARSE_INVALID_METHOD, NGX_HTTP_PARSE_INVALID_REQUEST,
           NGX_HTTP_PARSE_INVALID_VERSION}"

subsection \<open>Moves between the regions of the line\<close>

lemma uri_done_mono: "uri_done buf p r \<Longrightarrow> p \<le> q \<Longrightarrow> uri_done buf q r"
  by (fastforce simp: uri_done_def)

lemma uri_done_Suc: "uri_done buf p r \<Longrightarrow> uri_done buf (Suc p) r"
  by (erule uri_done_mono) simp

lemma method_ok_Suc: "method_ok buf rs me mt p \<Longrightarrow> method_ok buf rs me mt (Suc p)"
  by (erule method_ok_mono) simp

lemma before_uri_mono: "before_uri buf p r \<Longrightarrow> before_uri buf (Suc p) r"
  by (auto simp: before_uri_def intro: method_ok_mono)

lemma after_scheme_Suc: "after_scheme buf 3 p r \<Longrightarrow> after_scheme buf 3 (Suc p) r"
  by (auto simp: after_scheme_def)

lemma region_updates [simp]:
  "uri_done buf p (r\<lparr>http_minor := v\<rparr>) = uri_done buf p r"
  "uri_done buf p (r\<lparr>http_major := v\<rparr>) = uri_done buf p r"
  "uri_done buf p (r\<lparr>http_protocol_data := q\<rparr>) = uri_done buf p r"
  "uri_done buf p (r\<lparr>request_end := q\<rparr>) = uri_done buf p r"
  "uri_done buf p (r\<lparr>space_in_uri := f\<rparr>) = uri_done buf p r"
  "in_path buf p (r\<lparr>space_in_uri := f\<rparr>) = in_path buf p r"
  "in_path buf p (r\<lparr>plus_in_uri := f\<rparr>) = in_path buf p r"
  "in_uri buf p (r\<lparr>space_in_uri := f\<rparr>) = in_uri buf p r"
  "before_uri buf p (r\<lparr>schema_start := q\<rparr>) = before_uri buf p r"
  "after_scheme buf k p (r\<lparr>host_start := q\<rparr>) = after_scheme buf k p r"
  "after_scheme buf k p (r\<lparr>host_end := q\<rparr>) = after_scheme buf k p r"
  "after_scheme buf k p (r\<lparr>port_end := q\<rparr>) = after_scheme buf k p r"
  "version_fresh (r\<lparr>http_protocol_data := q\<rparr>) = version_fresh r"
  "version_fresh (r\<lparr>request_start := q\<rparr>) = version_fresh r"
  "version_fresh (r\<lparr>uri_start := q\<rparr>) = version_fresh r"
  "version_fresh (r\<lparr>uri_end := q\<rparr>) = version_fresh r"
  "version_fresh (r\<lparr>host_start := q\<rparr>) = version_fresh r"
  "version_fresh (r\<lparr>host_end := q\<rparr>) = version_fresh r"
  "version_fresh (r\<lparr>port_end := q\<rparr>) = version_fresh r"
  "uri_fresh (r\<lparr>request_start := q\<rparr>) = uri_fresh r"
  by (simp_all add: uri_done_def in_path_def in_uri_def before_uri_def after_scheme_def
      version_fresh_def uri_fresh_def)

lemma in_path_step:
  assumes "in_path buf p r" "buf ! p \<notin> {NUL, CR, LF, c_hash, c_percent, c_quest}"
    and "buf ! (p - 1) = c_slash \<longrightarrow> buf ! p \<notin> {c_slash, c_dot}"
    and "x = uri_ext r \<or> x = None \<or> x = Some (Suc p)"
  shows "in_path buf (Suc p) (r\<lparr>uri_ext := x\<rparr>)"
  using assms
  by (auto simp: in_path_def version_fresh_def intro!: plain_path_Suc)

lemmas in_path_steps =
  in_path_step [where x = "uri_ext r" and r = r for r, simplified]
  in_path_step [where x = None, simplified]
  in_path_step [where x = "Some (Suc p)" and p = p for p, simplified]

lemma in_path_first:
  "method_ok buf (request_start r) (method_end r) (http_method r) p \<Longrightarrow> buf ! p = c_slash \<Longrightarrow>
   uri_fresh r \<Longrightarrow> version_fresh r \<Longrightarrow> in_path buf (Suc p) (r\<lparr>uri_start := Some p\<rparr>)"
  by (auto simp: in_path_def uri_fresh_def plain_path_first)

lemma in_path_uri_end:
  "in_path buf p r \<Longrightarrow> uri_done buf p (r\<lparr>uri_end := Some p\<rparr>)"
  by (auto simp: in_path_def uri_done_def path_or_flag_def plain_path_clean)

lemma in_path_set_uri_end: "in_path buf p (r\<lparr>uri_end := q\<rparr>) = in_path buf p r"
  by (simp add: in_path_def)

lemma in_path_to_uri:
  assumes "in_path buf p r" "buf ! p \<notin> {NUL, CR, LF}"
  shows "in_uri buf (Suc p) (r\<lparr>complex_uri := True\<rparr>)"
    and "in_uri buf (Suc p) (r\<lparr>quoted_uri := True\<rparr>)"
    and "buf ! p = c_quest \<Longrightarrow> in_uri buf (Suc p) (r\<lparr>args_start := Some (Suc p)\<rparr>)"
  using assms
  by (auto simp: in_path_def in_uri_def path_or_flag_def version_fresh_def uri_clean_Suc
      plain_path_clean)

lemma in_uri_step:
  assumes "in_uri buf p r" "buf ! p \<notin> {NUL, CR, LF}"
  shows "in_uri buf (Suc p) r" and "in_uri buf (Suc p) (r\<lparr>complex_uri := True\<rparr>)"
  using assms
  by (auto simp: in_uri_def version_fresh_def intro!: path_or_flag_Suc elim: path_or_flag_mono)

lemma in_uri_uri_end: "in_uri buf p r \<Longrightarrow> uri_done buf p (r\<lparr>uri_end := Some p\<rparr>)"
  by (auto simp: in_uri_def uri_done_def)

lemma in_uri_set_uri_end: "in_uri buf p (r\<lparr>uri_end := q\<rparr>) = in_uri buf p r"
  by (simp add: in_uri_def)

lemma after_scheme_uri:
  assumes "after_scheme buf 3 p r" "s = off (schema_end r)"
  shows "uri_done buf (Suc p) (r\<lparr>uri_start := Some (Suc s), uri_end := Some (Suc (Suc s))\<rparr>)"
  using assms
  by (auto simp: after_scheme_def uri_done_def path_or_flag_def uri_fresh_def plain_path_def
      uri_clean_def less_Suc_eq)

lemma after_scheme_fresh: "after_scheme buf k p r \<Longrightarrow> version_fresh r"
  by (simp add: after_scheme_def)

lemma in_path_fresh: "in_path buf p r \<Longrightarrow> version_fresh r"
  by (simp add: in_path_def)

lemma in_uri_fresh: "in_uri buf p r \<Longrightarrow> version_fresh r"
  by (simp add: in_uri_def)

subsection \<open>Every step keeps the invariant\<close>

lemma is_method_char_iff: "is_method_char c \<longleftrightarrow> \<not> (\<not> is_upper c \<and> c \<noteq> c_under \<and> c \<noteq> c_minus)"
  by (auto simp: is_method_char_def)

lemma rl_method_inv:
  assumes "rl_inv buf p (rl_sw_method, r)" "p < length buf"
    and "rl_method buf p (buf ! p) r = Next s'"
  shows "rl_inv buf (Suc p) s'"
proof (cases "buf ! p = SP")
  case True
  with assms show ?thesis
    by (auto simp: rl_method_def before_uri_def method_ok_def uri_fresh_def version_fresh_def
        rl_method_switch_table [simplified])
next
  case False
  with assms show ?thesis
    by (auto simp: rl_method_def is_method_char_iff less_Suc_eq split: if_splits)
qed

lemma in_path_after_scheme:
  "after_scheme buf 3 p r \<Longrightarrow> buf ! p = c_slash \<Longrightarrow> in_path buf (Suc p) (r\<lparr>uri_start := Some p\<rparr>)"
  by (auto simp: after_scheme_def intro!: in_path_first elim: method_ok_mono)

lemma rl_head_inv:
  assumes "rl_inv buf p (st, r)" "rl_step buf p (buf ! p) (st, r) = Next s'"
    and "st \<in> {rl_sw_start, rl_sw_spaces_before_uri, rl_sw_schema, rl_sw_schema_slash,
      rl_sw_schema_slash_slash}"
  shows "rl_inv buf (Suc p) s'"
  using assms
  by (auto simp: rl_defs Let_def before_uri_mono is_method_char_iff less_Suc_eq before_uri_def
      after_scheme_def uri_fresh_def version_fresh_def method_ok_Suc intro!: in_path_first
      split: if_splits)

lemma rl_host_inv:
  assumes "rl_inv buf p (st, r)" "rl_step buf p (buf ! p) (st, r) = Next s'"
    and "st \<in> {rl_sw_host_start, rl_sw_host, rl_sw_host_end, rl_sw_host_ip_literal, rl_sw_port}"
  shows "rl_inv buf (Suc p) s'"
  using assms
  by (auto simp: rl_defs Let_def after_scheme_Suc in_path_after_scheme after_scheme_uri
      after_scheme_fresh split: if_splits)

lemma rl_uri_inv:
  assumes "rl_inv buf p (st, r)" "rl_step buf p (buf ! p) (st, r) = Next s'"
    and "st \<in> {rl_sw_after_slash_in_uri, rl_sw_check_uri, rl_sw_check_uri_http_09, rl_sw_uri,
      rl_sw_http_09}"
  shows "rl_inv buf (Suc p) s'"
proof -
  have v: "in_path buf p r \<or> in_uri buf p r \<Longrightarrow>
      request_end r = None \<and> http_major r = 0 \<and> http_minor r = 0 \<and> version_fresh r"
    using in_path_fresh [of buf p r] in_uri_fresh [of buf p r] by (auto simp: version_fresh_def)
  show ?thesis
    using assms v
    by (auto simp: rl_defs usual_iff in_path_set_uri_end in_uri_set_uri_end in_path_steps
        in_path_to_uri in_uri_step uri_done_Suc in_path_uri_end in_uri_uri_end
        split: if_splits)
qed

lemma digit_bound: "is_digit c \<Longrightarrow> unat (c - c_0) \<le> 9"
  by (auto simp: is_digit_def unat_sub word_le_nat_alt)

lemma minor_bound:
  "is_digit c \<Longrightarrow> unat (c - c_0) \<le> 999"
  "is_digit c \<Longrightarrow> \<not> 99 < n \<Longrightarrow> n * 10 + unat (c - c_0) \<le> 999"
  using digit_bound [of c] by linarith+

lemma first_digit:
  "\<not> c < c_1 \<Longrightarrow> \<not> Suc 0 < unat (c - c_0) \<Longrightarrow> unat (c - c_0) = Suc 0"
  by (auto simp: unat_sub word_le_nat_alt not_less)

lemma rl_version_inv:
  assumes "rl_inv buf p (st, r)" "rl_step buf p (buf ! p) (st, r) = Next s'"
    and "st \<in> {rl_sw_host_http_09, rl_sw_http_H, rl_sw_http_HT, rl_sw_http_HTT, rl_sw_http_HTTP,
      rl_sw_first_major_digit, rl_sw_major_digit, rl_sw_first_minor_digit, rl_sw_minor_digit,
      rl_sw_spaces_after_digit, rl_sw_almost_done}"
  shows "rl_inv buf (Suc p) s'"
  using assms
  by (auto simp: rl_defs version_fresh_def Let_def uri_done_Suc first_digit minor_bound
      split: if_splits)

lemma rl_step_inv:
  assumes "rl_inv buf p s" "p < length buf" "rl_step buf p (buf ! p) s = Next s'"
  shows "rl_inv buf (Suc p) s'"
proof (cases s)
  case (Pair st r)
  show ?thesis
    using assms rl_method_inv [of buf p r s'] rl_head_inv [of buf p st r s']
      rl_host_inv [of buf p st r s'] rl_uri_inv [of buf p st r s'] rl_version_inv [of buf p st r s']
    unfolding Pair by (cases st) simp_all
qed

lemma rl_step_post:
  assumes "rl_inv buf p s" "rl_step buf p (buf ! p) s = Exit x s'"
  shows "rl_post buf p x s'"
proof (cases s)
  case (Pair st r)
  have v: "in_path buf p r \<or> in_uri buf p r \<Longrightarrow>
      request_end r = None \<and> http_major r = 0 \<and> http_minor r = 0 \<and> version_fresh r"
    using in_path_fresh [of buf p r] in_uri_fresh [of buf p r] by (auto simp: version_fresh_def)
  show ?thesis
    using assms v unfolding Pair
    by (cases st) (auto simp: rl_defs usual_iff Let_def in_path_uri_end in_uri_uri_end version_fresh_def
        split: if_splits)
qed

lemma region_append:
  assumes "p \<le> length buf"
  shows "before_uri buf p r \<Longrightarrow> before_uri (buf @ ys) p r"
    and "after_scheme buf k p r \<Longrightarrow> 0 < k \<Longrightarrow> after_scheme (buf @ ys) k p r"
    and "in_path buf p r \<Longrightarrow> in_path (buf @ ys) p r"
    and "in_uri buf p r \<Longrightarrow> in_uri (buf @ ys) p r"
    and "uri_done buf p r \<Longrightarrow> uri_done (buf @ ys) p r"
proof -
  show "before_uri buf p r \<Longrightarrow> before_uri (buf @ ys) p r"
    using assms by (simp add: before_uri_def)
  show "after_scheme buf k p r \<Longrightarrow> 0 < k \<Longrightarrow> after_scheme (buf @ ys) k p r"
    using assms by (auto simp: after_scheme_def nth_append_left)
  have a: "a \<le> length buf" if "uri_clean buf a b" "b \<le> p" for a b
    using that assms by (simp add: uri_clean_def)
  show "in_path buf p r \<Longrightarrow> in_path (buf @ ys) p r"
    using assms a [OF plain_path_clean] by (fastforce simp: in_path_def)
  show "in_uri buf p r \<Longrightarrow> in_uri (buf @ ys) p r"
    using assms a [OF path_or_flag_clean] by (fastforce simp: in_uri_def)
  show "uri_done buf p r \<Longrightarrow> uri_done (buf @ ys) p r"
    using assms a [OF path_or_flag_clean] by (fastforce simp: uri_done_def)
qed

lemma rl_inv_append:
  assumes "rl_inv buf p s" "p \<le> length buf"
  shows "rl_inv (buf @ ys) p s"
proof (cases s)
  case (Pair st r)
  have 1: "(buf @ ys) ! (p - 1) = buf ! (p - 1)" if "0 < p"
    using that assms(2) by (simp add: nth_append_left)
  have 2: "in_path buf p r \<or> uri_done buf p r \<Longrightarrow> 0 < p"
    by (auto simp: in_path_def uri_done_def path_or_flag_def plain_path_def uri_clean_def)
  show ?thesis
    using assms 1 2 region_append [OF assms(2)] region_append(5) [of "p - 1" buf r ys]
    unfolding Pair by (cases st) (auto simp: nth_append_left)
qed

lemma rl_method_switch_append:
  assumes "m < p" "p < length buf" "buf ! p = SP"
  shows "rl_method_switch (buf @ ys) m p NGX_HTTP_UNKNOWN = rl_method_switch buf m p NGX_HTTP_UNKNOWN"
  using rl_method_switch_table [OF assms] rl_method_switch_table [of m p "buf @ ys"] assms
  by (simp add: nth_append)

lemma rl_step_append:
  assumes "rl_inv buf p s" "p < length buf"
  shows "rl_step (buf @ ys) p (buf ! p) s = rl_step buf p (buf ! p) s"
  using assms rl_method_switch_append [of _ p buf ys]
  by (cases "(buf, p, s)" rule: rl_inv.cases) (auto simp: rl_method_def)

interpretation request_line: resumable rl_step rl_inv rl_post
  by unfold_locales (simp_all add: rl_step_inv rl_step_post rl_inv_append rl_step_append)

end
