(* ===== verification/Http_Uri.thy ===== *)
theory Http_Uri
  imports Http_Request_Line_Inv "HOL-Library.Sublist"
begin

text \<open>
  The URI functions of \<open>src/http/ngx_http_parse.c\<close>: \<open>ngx_http_parse_complex_uri\<close>, which
  decodes and normalises the path of a request, and \<open>ngx_http_process_request_uri\<close> of
  \<open>src/http/ngx_http_request.c\<close>, which calls it when the request line parser has flagged the
  path. The Win32 branches are not part of the Unix build and are left out.

  The loop of \<open>ngx_http_parse_complex_uri\<close> keeps the next byte in \<open>ch\<close> and \<open>p\<close> one past
  it; here \<open>i\<close> is the offset of \<open>ch\<close>, so \<open>p\<close> is \<open>Suc i\<close>. The output buffer \<open>r->uri.data\<close> up
  to the write position \<open>u\<close> is the list \<open>out\<close>: \<open>*u++ = ch\<close> appends and \<open>u--\<close> drops the last
  byte. \<open>quoted_state\<close> and \<open>decoded\<close> are read in the two quoted states only and are arguments
  of these states.
\<close>

section \<open>ngx_http_parse_complex_uri\<close>

datatype cu_plain = cu_sw_usual | cu_sw_slash | cu_sw_dot | cu_sw_dot_dot

datatype cu_state =
    Plain cu_plain
  | cu_sw_quoted cu_plain
  | cu_sw_quoted_second cu_plain u_char

datatype cu_exit = Cu_args | Cu_done | Cu_return ngx_rc

record cu =
  cu_state :: cu_state
  cu_out :: "u_char list"
  cu_r :: ngx_http_request

type_synonym cu_flow = "(cu, cu_exit) flow"

text \<open>\<open>*u++ = ch\<close> and go on in a state.\<close>

definition cu_put :: "u_char \<Rightarrow> cu_plain \<Rightarrow> cu \<Rightarrow> cu_flow" where
  "cu_put ch st s = Next (s\<lparr>cu_out := cu_out s @ [ch], cu_state := Plain st\<rparr>)"

definition cu_go :: "cu_state \<Rightarrow> cu \<Rightarrow> cu_flow" where
  "cu_go st s = Next (s\<lparr>cu_state := st\<rparr>)"

definition cu_plus :: "cu \<Rightarrow> cu" where
  "cu_plus s = s\<lparr>cu_r := (cu_r s)\<lparr>plus_in_uri := True\<rparr>\<rparr>"

definition cu_args :: "nat \<Rightarrow> cu \<Rightarrow> cu_flow" where
  "cu_args i s = Exit Cu_args (s\<lparr>cu_r := (cu_r s)\<lparr>args_start := Some (Suc i)\<rparr>\<rparr>)"

definition cu_fail :: "cu \<Rightarrow> cu_flow" where
  "cu_fail s = Exit (Cu_return NGX_HTTP_PARSE_INVALID_REQUEST) s"

definition cu_usual :: "nat \<Rightarrow> u_char \<Rightarrow> cu \<Rightarrow> cu_flow" where
  "cu_usual i ch s =
    (if charmap_bit usual ch then cu_put ch cu_sw_usual s
     else if ch = c_slash then
       cu_put ch cu_sw_slash (s\<lparr>cu_r := (cu_r s)\<lparr>uri_ext := None\<rparr>\<rparr>)
     else if ch = c_percent then cu_go (cu_sw_quoted cu_sw_usual) s
     else if ch = c_quest then cu_args i s
     else if ch = c_hash then Exit Cu_done s
     else if ch = c_dot then
       cu_put ch cu_sw_usual
         (s\<lparr>cu_r := (cu_r s)\<lparr>uri_ext := Some (Suc (length (cu_out s)))\<rparr>\<rparr>)
     else if ch = c_plus then cu_put ch cu_sw_usual (cu_plus s)
     else cu_put ch cu_sw_usual s)"

definition cu_slash :: "bool \<Rightarrow> nat \<Rightarrow> u_char \<Rightarrow> cu \<Rightarrow> cu_flow" where
  "cu_slash merge_slashes i ch s =
    (if charmap_bit usual ch then cu_put ch cu_sw_usual s
     else if ch = c_slash then
       (if \<not> merge_slashes then cu_put ch cu_sw_slash s else cu_go (Plain cu_sw_slash) s)
     else if ch = c_dot then cu_put ch cu_sw_dot s
     else if ch = c_percent then cu_go (cu_sw_quoted cu_sw_slash) s
     else if ch = c_quest then cu_args i s
     else if ch = c_hash then Exit Cu_done s
     else if ch = c_plus then cu_put ch cu_sw_usual (cu_plus s)
     else cu_put ch cu_sw_usual s)"

definition cu_dot :: "nat \<Rightarrow> u_char \<Rightarrow> cu \<Rightarrow> cu_flow" where
  "cu_dot i ch s =
    (if charmap_bit usual ch then cu_put ch cu_sw_usual s
     else if ch = c_slash then
       cu_go (Plain cu_sw_slash) (s\<lparr>cu_out := butlast (cu_out s)\<rparr>)
     else if ch = c_dot then cu_put ch cu_sw_dot_dot s
     else if ch = c_percent then cu_go (cu_sw_quoted cu_sw_dot) s
     else if ch = c_quest then cu_args i s
     else if ch = c_hash then Exit Cu_done s
     else if ch = c_plus then cu_put ch cu_sw_usual (cu_plus s)
     else cu_put ch cu_sw_usual s)"

text \<open>The inner loop of \<open>sw_dot_dot\<close>. The argument is the number of bytes of the buffer up to
  and including \<open>*u\<close>; the result is \<open>u\<close> after the loop, or \<open>None\<close> where \<open>u < r->uri.data\<close>.\<close>

fun cu_rewind :: "u_char list \<Rightarrow> nat \<Rightarrow> nat option" where
  "cu_rewind out 0 = None"
| "cu_rewind out (Suc u) = (if out ! u = c_slash then Some (Suc u) else cu_rewind out u)"

text \<open>\<open>u -= 5\<close> leaves \<open>u\<close> at offset \<open>length out - 5\<close>.\<close>

definition cu_dot_dot :: "nat \<Rightarrow> u_char \<Rightarrow> cu \<Rightarrow> cu_flow" where
  "cu_dot_dot i ch s =
    (if charmap_bit usual ch then cu_put ch cu_sw_usual s
     else if ch = c_slash then
       (case cu_rewind (cu_out s) (length (cu_out s) - 4) of
          None \<Rightarrow> cu_fail s
        | Some u \<Rightarrow> cu_go (Plain cu_sw_slash) (s\<lparr>cu_out := take u (cu_out s)\<rparr>))
     else if ch = c_percent then cu_go (cu_sw_quoted cu_sw_dot_dot) s
     else if ch = c_quest then cu_args i s
     else if ch = c_hash then Exit Cu_done s
     else if ch = c_plus then cu_put ch cu_sw_usual (cu_plus s)
     else cu_put ch cu_sw_usual s)"

definition cu_plain_step :: "bool \<Rightarrow> cu_plain \<Rightarrow> nat \<Rightarrow> u_char \<Rightarrow> cu \<Rightarrow> cu_flow" where
  "cu_plain_step merge_slashes st i ch s =
    (case st of
       cu_sw_usual \<Rightarrow> cu_usual i ch s
     | cu_sw_slash \<Rightarrow> cu_slash merge_slashes i ch s
     | cu_sw_dot \<Rightarrow> cu_dot i ch s
     | cu_sw_dot_dot \<Rightarrow> cu_dot_dot i ch s)"

definition cu_quoted :: "cu_plain \<Rightarrow> u_char \<Rightarrow> cu \<Rightarrow> cu_flow" where
  "cu_quoted quoted_state ch s =
    (let s = s\<lparr>cu_r := (cu_r s)\<lparr>quoted_uri := True\<rparr>\<rparr>; c = ch OR 0x20 in
     if is_digit ch then cu_go (cu_sw_quoted_second quoted_state (ch - c_0)) s
     else if is_af c then cu_go (cu_sw_quoted_second quoted_state (c - c_a + 10)) s
     else cu_fail s)"

text \<open>A decoded byte that is not special here is looked at again in \<open>quoted_state\<close>, without
  reading the next byte.\<close>

definition cu_quoted_second :: "bool \<Rightarrow> cu_plain \<Rightarrow> u_char \<Rightarrow> nat \<Rightarrow> u_char \<Rightarrow> cu \<Rightarrow> cu_flow" where
  "cu_quoted_second merge_slashes quoted_state decoded i ch s =
    (let c = ch OR 0x20 in
     if is_digit ch then
       (let ch = push_bit 4 decoded + (ch - c_0) in
        if ch = c_percent \<or> ch = c_hash then cu_put ch cu_sw_usual s
        else if ch = NUL then cu_fail s
        else cu_plain_step merge_slashes quoted_state i ch s)
     else if is_af c then
       (let ch = push_bit 4 decoded + (c - c_a) + 10 in
        if ch = c_quest then cu_put ch cu_sw_usual s
        else cu_plain_step merge_slashes quoted_state i ch
               (if ch = c_plus then cu_plus s else s))
     else cu_fail s)"

definition cu_step :: "bool \<Rightarrow> nat \<Rightarrow> u_char \<Rightarrow> cu \<Rightarrow> cu_flow" where
  "cu_step merge_slashes i ch s =
    (case cu_state s of
       Plain st \<Rightarrow> cu_plain_step merge_slashes st i ch s
     | cu_sw_quoted q \<Rightarrow> cu_quoted q ch s
     | cu_sw_quoted_second q decoded \<Rightarrow> cu_quoted_second merge_slashes q decoded i ch s)"

text \<open>The code after the labels \<open>done\<close> and \<open>args\<close>. The loop of \<open>args\<close> looks for a fragment.\<close>

definition cu_finish :: "cu \<Rightarrow> ngx_http_request" where
  "cu_finish s =
    (let r = (cu_r s)\<lparr>uri := cu_out s\<rparr>;
         r = (case uri_ext r of
                None \<Rightarrow> r
              | Some x \<Rightarrow> r\<lparr>exten := slice (cu_out s) x (length (cu_out s))\<rparr>)
     in r\<lparr>uri_ext := None\<rparr>)"

fun find_byte :: "u_char \<Rightarrow> u_char list \<Rightarrow> nat \<Rightarrow> nat \<Rightarrow> nat option" where
  "find_byte c buf p 0 = None"
| "find_byte c buf p (Suc n) = (if buf ! p = c then Some p else find_byte c buf (Suc p) n)"

definition cu_args_loop :: "u_char list \<Rightarrow> nat \<Rightarrow> nat \<Rightarrow> ngx_http_request \<Rightarrow> ngx_http_request" where
  "cu_args_loop buf p b r =
    (case find_byte c_hash buf p (b - p) of
       None \<Rightarrow> r
     | Some j \<Rightarrow> r\<lparr>args := slice buf (off (args_start r)) j, args_start := None\<rparr>)"

definition cu_start :: "ngx_http_request \<Rightarrow> cu" where
  "cu_start r =
    \<lparr> cu_state = Plain cu_sw_usual, cu_out = [],
      cu_r = r\<lparr>uri_ext := None, args_start := None\<rparr> \<rparr>"

definition ngx_http_parse_complex_uri ::
  "u_char list \<Rightarrow> ngx_http_request \<Rightarrow> bool \<Rightarrow> ngx_rc \<times> ngx_http_request" where
  "ngx_http_parse_complex_uri buf r merge_slashes =
    (let a = off (uri_start r); b = off (uri_end r) in
     case scan (cu_step merge_slashes) (slice buf a b) a (cu_start r) of
       Ran_out p s \<Rightarrow> (NGX_OK, cu_finish s)
     | Exited Cu_done i s \<Rightarrow> (NGX_OK, cu_finish s)
     | Exited Cu_args i s \<Rightarrow>
         (NGX_OK, cu_finish (s\<lparr>cu_r := cu_args_loop buf (Suc i) b (cu_r s)\<rparr>))
     | Exited (Cu_return rc) i s \<Rightarrow> (rc, cu_r s))"

section \<open>ngx_http_process_request_uri\<close>

text \<open>The allocation of \<open>r->uri.data\<close> succeeds; the error branch of the parser finalises the
  request with 400. \<open>buf\<close> is the header buffer the pointers of \<open>r\<close> point into.\<close>

definition ngx_http_process_request_uri ::
  "u_char list \<Rightarrow> bool \<Rightarrow> ngx_http_request \<Rightarrow> ngx_rc \<times> ngx_http_request" where
  "ngx_http_process_request_uri buf merge_slashes r =
    (let len = (case args_start r of
                  Some x \<Rightarrow> x - 1 - off (uri_start r)
                | None \<Rightarrow> off (uri_end r) - off (uri_start r));
         (rc, r) =
           (if complex_uri r \<or> quoted_uri r
            then ngx_http_parse_complex_uri buf r merge_slashes
            else (NGX_OK, r\<lparr>uri := slice buf (off (uri_start r)) (off (uri_start r) + len)\<rparr>))
     in
     if rc \<noteq> NGX_OK then (NGX_ERROR, r\<lparr>uri := []\<rparr>)
     else
       (let r = r\<lparr>unparsed_uri := slice buf (off (uri_start r)) (off (uri_end r)),
                  valid_unparsed_uri := \<not> space_in_uri r\<rparr>;
            r = (case uri_ext r of
                   None \<Rightarrow> r
                 | Some x \<Rightarrow>
                     (case args_start r of
                        Some q \<Rightarrow> r\<lparr>exten := slice buf x (q - 1)\<rparr>
                      | None \<Rightarrow> r\<lparr>exten := slice buf x (off (uri_end r))\<rparr>));
            r = (case args_start r of
                   Some q \<Rightarrow>
                     (if off (uri_end r) > q then r\<lparr>args := slice buf q (off (uri_end r))\<rparr> else r)
                 | None \<Rightarrow> r)
        in (NGX_OK, r)))"

named_theorems cu_defs

declare cu_put_def [cu_defs] cu_go_def [cu_defs] cu_plus_def [cu_defs] cu_args_def [cu_defs]
  cu_fail_def [cu_defs] cu_usual_def [cu_defs] cu_slash_def [cu_defs] cu_dot_def [cu_defs]
  cu_dot_dot_def [cu_defs] cu_plain_step_def [cu_defs] cu_quoted_def [cu_defs]
  cu_quoted_second_def [cu_defs] cu_step_def [cu_defs]

end
