(* ===== verification/Http_Uri_Inv.thy ===== *)
theory Http_Uri_Inv
  imports Http_Uri
begin

text \<open>
  The invariant of \<open>ngx_http_parse_complex_uri\<close>: in every state the bytes written so far start
  with a slash and contain neither \<^verbatim>\<open>/./\<close> nor \<^verbatim>\<open>/../\<close> (nor \<^verbatim>\<open>//\<close> when slashes are merged), the
  state tells which of \<^verbatim>\<open>/\<close>, \<^verbatim>\<open>/.\<close> and \<^verbatim>\<open>/..\<close> they end in, and at most one byte is written per
  byte read, so the buffer that \<open>ngx_http_process_request_uri\<close> allocates is large enough.
\<close>

section \<open>The normalised path\<close>

lemma sublist_snoc:
  "sublist (xs @ [c]) (ys @ [d]) \<longleftrightarrow> sublist (xs @ [c]) ys \<or> c = d \<and> suffix xs ys"
proof
  assume "sublist (xs @ [c]) (ys @ [d])"
  then obtain ps ss where e: "ys @ [d] = ps @ (xs @ [c]) @ ss" by (auto simp: sublist_def)
  show "sublist (xs @ [c]) ys \<or> c = d \<and> suffix xs ys"
  proof (cases ss rule: rev_cases)
    case Nil
    with e show ?thesis by (auto simp: suffix_def)
  next
    case (snoc ss' s)
    with e have "ys = ps @ (xs @ [c]) @ ss'" by simp
    then show ?thesis by (auto simp: sublist_def)
  qed
next
  assume r: "sublist (xs @ [c]) ys \<or> c = d \<and> suffix xs ys"
  have "sublist (xs @ [d]) (ys @ [d])" if "suffix xs ys"
    using that by (intro suffix_imp_sublist) simp
  moreover have "sublist (xs @ [c]) (ys @ [d])" if "sublist (xs @ [c]) ys"
    using that by (metis sublist_appendI sublist_order.order.trans append_Nil)
  ultimately show "sublist (xs @ [c]) (ys @ [d])" using r by blast
qed

text \<open>No \<^verbatim>\<open>/./\<close> or \<^verbatim>\<open>/../\<close>, and no \<^verbatim>\<open>//\<close> where slashes are merged.\<close>

definition no_dot_segments :: "bool \<Rightarrow> u_char list \<Rightarrow> bool" where
  "no_dot_segments merge_slashes out \<longleftrightarrow>
     \<not> sublist [c_slash, c_dot, c_slash] out \<and>
     \<not> sublist [c_slash, c_dot, c_dot, c_slash] out \<and>
     (merge_slashes \<longrightarrow> \<not> sublist [c_slash, c_slash] out)"

lemma no_dot_segments_snoc:
  "no_dot_segments m (out @ [c]) \<longleftrightarrow> no_dot_segments m out \<and>
     (c = c_slash \<longrightarrow> \<not> suffix [c_slash, c_dot] out \<and> \<not> suffix [c_slash, c_dot, c_dot] out \<and>
        (m \<longrightarrow> \<not> suffix [c_slash] out))"
  using sublist_snoc [of "[c_slash, c_dot]" c_slash out c]
    sublist_snoc [of "[c_slash, c_dot, c_dot]" c_slash out c]
    sublist_snoc [of "[c_slash]" c_slash out c]
  by (auto simp: no_dot_segments_def)

lemma no_dot_segments_take: "no_dot_segments m out \<Longrightarrow> no_dot_segments m (take n out)"
  unfolding no_dot_segments_def by (meson sublist_order.order.trans sublist_take)

definition cu_path :: "bool \<Rightarrow> u_char list \<Rightarrow> bool" where
  "cu_path m out \<longleftrightarrow> out \<noteq> [] \<and> hd out = c_slash \<and> NUL \<notin> set out \<and> no_dot_segments m out"

fun cu_suffix :: "cu_plain \<Rightarrow> u_char list \<Rightarrow> bool" where
  "cu_suffix cu_sw_usual out \<longleftrightarrow>
     \<not> suffix [c_slash] out \<and> \<not> suffix [c_slash, c_dot] out \<and> \<not> suffix [c_slash, c_dot, c_dot] out"
| "cu_suffix cu_sw_slash out \<longleftrightarrow> suffix [c_slash] out"
| "cu_suffix cu_sw_dot out \<longleftrightarrow> suffix [c_slash, c_dot] out"
| "cu_suffix cu_sw_dot_dot out \<longleftrightarrow> suffix [c_slash, c_dot, c_dot] out"

fun cu_plain_of :: "cu_state \<Rightarrow> cu_plain" where
  "cu_plain_of (Plain st) = st"
| "cu_plain_of (cu_sw_quoted q) = q"
| "cu_plain_of (cu_sw_quoted_second q d) = q"

definition cu_inv :: "bool \<Rightarrow> cu \<Rightarrow> bool" where
  "cu_inv m s \<longleftrightarrow> cu_path m (cu_out s) \<and> cu_suffix (cu_plain_of (cu_state s)) (cu_out s)"

lemma cu_rewind_Some:
  "cu_rewind out n = Some u \<Longrightarrow> 0 < u \<and> u \<le> n \<and> out ! (u - 1) = c_slash"
  by (induction n) (auto split: if_splits)

lemma suffix_snocs [simp]:
  "suffix [x] (out @ [c]) \<longleftrightarrow> x = c"
  "suffix [x, y] (out @ [c]) \<longleftrightarrow> y = c \<and> suffix [x] out"
  "suffix [x, y, z] (out @ [c]) \<longleftrightarrow> z = c \<and> suffix [x, y] out"
  using snoc_suffix_snoc [of "[]" x out c] snoc_suffix_snoc [of "[x]" y out c]
    snoc_suffix_snoc [of "[x, y]" z out c]
  by auto

text \<open>The effect of the elementary moves on the invariant.\<close>

lemma cu_path_snoc:
  assumes "cu_path m out" "c \<noteq> NUL"
    and "c = c_slash \<longrightarrow> \<not> suffix [c_slash, c_dot] out \<and> \<not> suffix [c_slash, c_dot, c_dot] out \<and>
        (m \<longrightarrow> \<not> suffix [c_slash] out)"
  shows "cu_path m (out @ [c])"
  using assms by (auto simp: cu_path_def no_dot_segments_snoc)

lemma cu_path_take: "cu_path m out \<Longrightarrow> 0 < n \<Longrightarrow> cu_path m (take n out)"
  by (cases out; cases n) (auto simp: cu_path_def no_dot_segments_take dest: in_set_takeD
      simp flip: take_Suc_Cons)

lemma cu_rewind_inv:
  assumes "cu_path m out" "cu_rewind out (length out - 4) = Some u"
  shows "cu_path m (take u out) \<and> suffix [c_slash] (take u out)"
proof -
  from cu_rewind_Some [OF assms(2)] have u: "0 < u" "u \<le> length out" "out ! (u - 1) = c_slash"
    by auto
  then have "take u out = take (u - 1) out @ [c_slash]"
    by (metis Suc_diff_1 Suc_le_lessD take_Suc_conv_app_nth)
  then show ?thesis using cu_path_take [OF assms(1) u(1)] by simp
qed

lemma cu_dot_back:
  assumes "cu_path m out" "suffix [c_slash, c_dot] out"
  shows "cu_path m (butlast out) \<and> suffix [c_slash] (butlast out)"
proof -
  from assms(2) obtain zs where z: "out = zs @ [c_slash] @ [c_dot]" by (auto simp: suffix_def)
  then have "butlast out = zs @ [c_slash]" by (simp add: butlast_append)
  moreover have "butlast out = take (Suc (length zs)) out"
    unfolding calculation by (simp add: z)
  ultimately show ?thesis using cu_path_take [OF assms(1), of "Suc (length zs)"] by simp
qed

lemma slash_suffix_exclusive:
  "suffix [c_slash] out \<Longrightarrow> \<not> suffix [c_slash, c_dot] out"
  "suffix [c_slash] out \<Longrightarrow> \<not> suffix [c_slash, c_dot, c_dot] out"
  "suffix [c_slash, c_dot, c_dot] out \<Longrightarrow> \<not> suffix [c_slash, c_dot] out"
  "suffix [c_slash, c_dot, c_dot] out \<Longrightarrow> \<not> suffix [c_slash] out"
proof -
  have *: "suffix [c_slash] out \<Longrightarrow> \<not> suffix [c_slash, c_dot] out \<and> \<not> suffix [c_slash, c_dot, c_dot] out"
    for out :: "u_char list"
    by (cases out rule: rev_cases) auto
  have "suffix [c_slash, c_dot, c_dot] out \<Longrightarrow> \<not> suffix [c_slash, c_dot] out \<and> \<not> suffix [c_slash] out"
    using * by (cases out rule: rev_cases) auto
  with * show "suffix [c_slash] out \<Longrightarrow> \<not> suffix [c_slash, c_dot] out"
    "suffix [c_slash] out \<Longrightarrow> \<not> suffix [c_slash, c_dot, c_dot] out"
    "suffix [c_slash, c_dot, c_dot] out \<Longrightarrow> \<not> suffix [c_slash, c_dot] out"
    "suffix [c_slash, c_dot, c_dot] out \<Longrightarrow> \<not> suffix [c_slash] out"
    by blast+
qed

text \<open>Writing a byte other than a slash and a dot, and writing a slash.\<close>

lemma cu_put_inv:
  "cu_path m (cu_out s) \<Longrightarrow> c \<notin> {NUL, c_slash, c_dot} \<Longrightarrow>
   cu_put c cu_sw_usual s = Next s' \<Longrightarrow> cu_inv m s'"
  by (auto simp: cu_put_def cu_inv_def cu_path_snoc)

lemma cu_usual_inv:
  assumes "cu_path m (cu_out s)" "cu_suffix cu_sw_usual (cu_out s)" "ch \<noteq> NUL"
    and "cu_usual i ch s = Next s'"
  shows "cu_inv m s'"
  using assms
  by (auto simp: cu_usual_def usual_iff cu_put_def cu_go_def cu_plus_def cu_args_def cu_inv_def
      cu_path_snoc split: if_splits)

lemma cu_slash_inv:
  assumes "cu_path m (cu_out s)" "cu_suffix cu_sw_slash (cu_out s)" "ch \<noteq> NUL"
    and "cu_slash m i ch s = Next s'"
  shows "cu_inv m s'"
  using assms slash_suffix_exclusive [of "cu_out s"]
  by (auto simp: cu_slash_def usual_iff cu_put_def cu_go_def cu_plus_def cu_args_def cu_inv_def
      cu_path_snoc split: if_splits)

lemma cu_dot_inv:
  assumes "cu_path m (cu_out s)" "cu_suffix cu_sw_dot (cu_out s)" "ch \<noteq> NUL"
    and "cu_dot i ch s = Next s'"
  shows "cu_inv m s'"
  using assms cu_dot_back [of m "cu_out s"]
  by (auto simp: cu_dot_def usual_iff cu_put_def cu_go_def cu_plus_def cu_args_def cu_inv_def
      cu_path_snoc split: if_splits)

lemma cu_dot_dot_inv:
  assumes "cu_path m (cu_out s)" "cu_suffix cu_sw_dot_dot (cu_out s)" "ch \<noteq> NUL"
    and "cu_dot_dot i ch s = Next s'"
  shows "cu_inv m s'"
  using assms cu_rewind_inv [of m "cu_out s"] slash_suffix_exclusive(3,4) [of "cu_out s"]
  by (auto simp: cu_dot_dot_def usual_iff cu_put_def cu_go_def cu_plus_def cu_args_def cu_inv_def
      cu_fail_def cu_path_snoc split: if_splits option.splits)

lemma cu_plain_step_inv:
  assumes "cu_path m (cu_out s)" "cu_suffix st (cu_out s)" "ch \<noteq> NUL"
    and "cu_plain_step m st i ch s = Next s'"
  shows "cu_inv m s'"
  using assms cu_usual_inv [of m s ch i s'] cu_slash_inv [of m s ch i s'] cu_dot_inv [of m s ch i s']
    cu_dot_dot_inv [of m s ch i s']
  by (cases st) (simp_all add: cu_plain_step_def)

lemma low_nibble_nonzero:
  fixes d y :: u_char
  assumes "unat y \<le> 5"
  shows "push_bit 4 d + y + 10 \<noteq> 0"
proof
  assume "push_bit 4 d + y + 10 = 0"
  then have "d * 16 + (y + 10) = 0"
    by (simp add: push_bit_eq_mult add.assoc)
  then have "unat (d * 16 + (y + 10)) = 0" by (simp only: unsigned_0)
  then have "(unat d * 16 + unat (y + 10)) mod 256 = 0"
    by (simp add: unat_word_ariths mod_simps)
  moreover have "unat (y + 10) = unat y + 10"
    using assms by (simp add: unat_word_ariths)
  moreover have "(a * 16 + (b + 10)) mod 256 \<noteq> 0" if "b \<le> 5" for a b :: nat
    using that by presburger
  ultimately show False using assms by metis
qed

lemma decoded_af_nonzero:
  fixes c d :: u_char
  assumes "is_af c"
  shows "push_bit 4 d + (c - c_a) + 10 \<noteq> 0"
proof (rule low_nibble_nonzero)
  show "unat (c - c_a) \<le> 5"
    using assms by (auto simp: is_af_def unat_sub word_le_nat_alt)
qed

lemma cu_step_inv:
  assumes "cu_inv m s" "ch \<noteq> NUL" "cu_step m i ch s = Next s'"
  shows "cu_inv m s'"
proof (cases "cu_state s")
  case (Plain st)
  with assms show ?thesis
    using cu_plain_step_inv [of m s st ch i s'] by (simp add: cu_inv_def cu_step_def)
next
  case (cu_sw_quoted q)
  with assms show ?thesis
    by (auto simp: cu_inv_def cu_step_def cu_quoted_def cu_go_def cu_fail_def Let_def
        split: if_splits)
next
  case (cu_sw_quoted_second q d)
  have inv: "cu_path m (cu_out s)" "cu_suffix q (cu_out s)"
    using assms(1) cu_sw_quoted_second by (simp_all add: cu_inv_def)
  consider "is_digit ch" | "\<not> is_digit ch" "is_af (ch OR 0x20)" | "\<not> is_digit ch" "\<not> is_af (ch OR 0x20)"
    by blast
  then show ?thesis
  proof cases
    case 1
    define x where "x = push_bit 4 d + (ch - c_0)"
    have "cu_quoted_second m q d i ch s =
       (if x = c_percent \<or> x = c_hash then cu_put x cu_sw_usual s
        else if x = NUL then cu_fail s else cu_plain_step m q i x s)"
      unfolding cu_quoted_second_def Let_def x_def using 1 by simp
    then show ?thesis
      using assms(3) cu_sw_quoted_second inv cu_plain_step_inv [of m s q x i s'] cu_put_inv [of m s x s']
      by (auto simp: cu_step_def cu_fail_def split: if_splits)
  next
    case 2
    define x where "x = push_bit 4 d + ((ch OR 0x20) - c_a) + 10"
    define s1 where "s1 = (if x = c_plus then cu_plus s else s)"
    have "cu_quoted_second m q d i ch s =
       (if x = c_quest then cu_put x cu_sw_usual s else cu_plain_step m q i x s1)"
      unfolding cu_quoted_second_def Let_def x_def s1_def using 2 by (simp only: if_False if_True)
    moreover have "x \<noteq> NUL"
      unfolding x_def by (rule decoded_af_nonzero [OF 2(2)])
    moreover have "cu_out s1 = cu_out s" by (simp add: s1_def cu_plus_def)
    ultimately show ?thesis
      using assms(3) cu_sw_quoted_second inv cu_plain_step_inv [of m s1 q x i s'] cu_put_inv [of m s x s']
      by (auto simp: cu_step_def split: if_splits)
  next
    case 3
    then show ?thesis
      using assms(3) cu_sw_quoted_second
      by (simp add: cu_step_def cu_quoted_second_def Let_def cu_fail_def)
  qed
qed

section \<open>Whole runs\<close>

lemmas cu_moves = cu_put_def cu_go_def cu_plus_def cu_args_def cu_fail_def

lemma cu_plain_step_length:
  "cu_plain_step m st i ch s = Next s' \<Longrightarrow> length (cu_out s') \<le> Suc (length (cu_out s))"
  by (cases st) (auto simp: cu_plain_step_def cu_usual_def cu_slash_def cu_dot_def cu_dot_dot_def
      cu_moves split: if_splits option.splits)

lemma cu_step_length:
  assumes "cu_step m i ch s = Next s'"
  shows "length (cu_out s') \<le> Suc (length (cu_out s))"
proof -
  have "length (cu_out s') \<le> Suc (length (cu_out s))"
    if "cu_plain_step m q i x (if b then cu_plus s else s) = Next s'" for q x b
    using cu_plain_step_length [OF that] by (cases b) (simp_all add: cu_plus_def)
  from this [where b = False] this [where b = True] this assms show ?thesis
    by (auto simp: cu_step_def cu_quoted_def cu_quoted_second_def Let_def cu_put_def cu_go_def
        cu_fail_def split: cu_state.splits if_splits)
qed

lemma cu_step_exit:
  assumes "cu_step m i ch s = Exit x s'"
  shows "cu_out s' = cu_out s \<and> x \<noteq> Cu_return NGX_OK"
  using assms
  by (auto simp: cu_step_def cu_plain_step_def cu_usual_def cu_slash_def cu_dot_def cu_dot_dot_def
     cu_quoted_def cu_quoted_second_def Let_def cu_moves
     split: cu_state.splits if_splits option.splits cu_plain.splits)

lemma cu_first:
  "\<exists>s'. cu_step m a c_slash (cu_start r) = Next s' \<and> cu_inv m s' \<and> length (cu_out s') = 1"
  by (auto simp: cu_start_def cu_step_def cu_plain_step_def cu_usual_def usual_iff cu_put_def cu_inv_def
      cu_path_def no_dot_segments_def dest: sublist_length_le)

text \<open>The run over a URI that starts with a slash and has no NUL byte.\<close>

lemma cu_scan:
  assumes "NUL \<notin> set rest"
  shows "case scan (cu_step m) (c_slash # rest) a (cu_start r) of
           Ran_out p s \<Rightarrow> cu_inv m s \<and> a + length (cu_out s) \<le> p
         | Exited x i s \<Rightarrow>
             cu_path m (cu_out s) \<and> a + length (cu_out s) \<le> i \<and> x \<noteq> Cu_return NGX_OK"
proof -
  obtain s1 where s1: "cu_step m a c_slash (cu_start r) = Next s1" "cu_inv m s1"
      "length (cu_out s1) = 1"
    using cu_first by blast
  have "case scan (cu_step m) rest (Suc a) s1 of
           Ran_out p s \<Rightarrow> cu_inv m s \<and> a + length (cu_out s) \<le> p
         | Exited x i s \<Rightarrow>
             cu_path m (cu_out s) \<and> a + length (cu_out s) \<le> i \<and> x \<noteq> Cu_return NGX_OK"
  proof (rule scan_invariant [where Q = "\<lambda>ch. ch \<noteq> NUL"])
    show "cu_inv m s1 \<and> a + length (cu_out s1) \<le> Suc a" using s1 by simp
    show "\<forall>ch \<in> set rest. ch \<noteq> NUL" using assms by auto
  next
    fix p ch s s'
    assume "cu_inv m s \<and> a + length (cu_out s) \<le> p" "ch \<noteq> NUL" "cu_step m p ch s = Next s'"
    then show "cu_inv m s' \<and> a + length (cu_out s') \<le> Suc p"
      using cu_step_inv [of m s ch p s'] cu_step_length [of m p ch s s'] by simp
  next
    fix p ch s x s'
    assume "cu_inv m s \<and> a + length (cu_out s) \<le> p" "ch \<noteq> NUL" "cu_step m p ch s = Exit x s'"
    then show "cu_path m (cu_out s') \<and> a + length (cu_out s') \<le> p \<and> x \<noteq> Cu_return NGX_OK"
      using cu_step_exit [of m p ch s x s'] by (simp add: cu_inv_def)
  qed
  then show ?thesis by (simp add: s1(1))
qed

lemma uri_cu_finish [simp]: "uri (cu_finish s) = cu_out s"
  by (simp add: cu_finish_def Let_def split: option.splits)

lemma complex_uri_path:
  assumes "ngx_http_parse_complex_uri buf r m = (NGX_OK, r')"
    and "slice buf (off (uri_start r)) (off (uri_end r)) = c_slash # rest" "NUL \<notin> set rest"
    and "off (uri_end r) \<le> length buf"
  shows "cu_path m (uri r') \<and> length (uri r') \<le> off (uri_end r) - off (uri_start r)"
proof -
  let ?a = "off (uri_start r)" and ?b = "off (uri_end r)"
  have len: "?b = ?a + length (c_slash # rest)"
    using assms(2,4) length_slice [of ?b buf ?a] by auto
  show ?thesis
  proof (cases "scan (cu_step m) (c_slash # rest) ?a (cu_start r)")
    case (Ran_out p s)
    from assms(1) have "r' = cu_finish s"
      unfolding ngx_http_parse_complex_uri_def Let_def assms(2) Ran_out by simp
    with cu_scan [OF assms(3), of m ?a r] scan_Ran_out_pos [OF Ran_out] len
    show ?thesis unfolding Ran_out by (simp add: cu_inv_def)
  next
    case (Exited x i s)
    from cu_scan [OF assms(3), of m ?a r]
    have p: "cu_path m (cu_out s)" "?a + length (cu_out s) \<le> i" "x \<noteq> Cu_return NGX_OK"
      unfolding Exited by simp_all
    from assms(1) p(3) have "uri r' = cu_out s"
      unfolding ngx_http_parse_complex_uri_def Let_def assms(2) Exited
      by (auto split: cu_exit.splits)
    with p scan_Exited_pos [OF Exited] len show ?thesis by simp
  qed
qed

section \<open>From the request line to the path\<close>

lemma uri_clean_slice:
  assumes "uri_clean buf a b" "b \<le> length buf"
  shows "\<exists>rest. slice buf a b = c_slash # rest \<and> NUL \<notin> set rest \<and> CR \<notin> set rest \<and> LF \<notin> set rest"
proof -
  have ab: "a < b" "buf ! a = c_slash" using assms(1) by (auto simp: uri_clean_def)
  have "slice buf a b = buf ! a # slice buf (Suc a) b"
    using ab assms(2) by (simp add: slice_Cons)
  moreover have "{NUL, CR, LF} \<inter> set (slice buf (Suc a) b) = {}"
    using assms by (auto simp: set_slice uri_clean_def)
  ultimately show ?thesis using ab by auto
qed

lemma plain_path_cu_path:
  assumes "plain_path buf a b ext" "b \<le> length buf"
  shows "cu_path m (slice buf a b)"
proof -
  have c: "uri_clean buf a b" using assms(1) by (rule plain_path_clean)
  then obtain rest where r: "slice buf a b = c_slash # rest" "NUL \<notin> set rest"
    using uri_clean_slice [OF _ assms(2)] by blast
  have no: "\<not> sublist (c_slash # c # cs) (slice buf a b)" if "c \<in> {c_slash, c_dot}" for c cs
  proof
    assume "sublist (c_slash # c # cs) (slice buf a b)"
    then obtain ps ss where e: "slice buf a b = ps @ c_slash # c # cs @ ss"
      by (auto simp: sublist_def)
    then have l: "Suc (length ps) < b - a"
      using assms(2) length_slice [of b buf a] by (metis add_Suc_right length_append length_Cons less_add_Suc1 add_Suc_shift)
    have "slice buf a b ! length ps = c_slash" "slice buf a b ! Suc (length ps) = c"
      using e by (simp_all add: nth_append)
    then have "buf ! (a + length ps) = c_slash" "buf ! Suc (a + length ps) = c"
      using l assms(2) by simp_all
    then show False
      using assms(1) l that by (force simp: plain_path_def)
  qed
  show ?thesis
    using r no [of c_dot] no [of c_slash] by (auto simp: cu_path_def no_dot_segments_def)
qed


text \<open>A path without a percent sign is read in the plain states, so a question mark after it
  ends the run.\<close>

lemma cu_plain_closed:
  assumes "cu_state s = Plain st" "ch \<noteq> c_percent" "cu_step m i ch s = Next s'"
  shows "\<exists>st'. cu_state s' = Plain st'"
  using assms
  by (auto simp: cu_step_def cu_plain_step_def cu_usual_def cu_slash_def cu_dot_def cu_dot_dot_def
      cu_moves split: if_splits option.splits cu_plain.splits)

lemma cu_quest_exits:
  assumes "cu_state s = Plain st"
  shows "\<exists>x s'. cu_step m i c_quest s = Exit x s'"
  using assms
  by (auto simp: cu_step_def cu_plain_step_def cu_usual_def cu_slash_def cu_dot_def cu_dot_dot_def
      cu_moves usual_iff split: cu_plain.splits)

lemma cu_scan_quest:
  assumes "c_percent \<notin> set xs" "cu_state s = Plain st"
  shows "\<exists>x i s'. scan (cu_step m) (xs @ c_quest # ys) p s = Exited x i s' \<and> i \<le> p + length xs"
proof (cases "scan (cu_step m) xs p s")
  case (Ran_out q s1)
  have "case scan (cu_step m) xs p s of
      Ran_out q s' \<Rightarrow> \<exists>st. cu_state s' = Plain st | Exited x q s' \<Rightarrow> True"
    using assms(2) assms(1)
    by (intro scan_invariant [where Q = "\<lambda>ch. ch \<noteq> c_percent"]) (auto intro: cu_plain_closed)
  then obtain st' where "cu_state s1 = Plain st'" unfolding Ran_out by auto
  then obtain x s' where "cu_step m q c_quest s1 = Exit x s'"
    using cu_quest_exits by blast
  with Ran_out scan_Ran_out_pos [OF Ran_out] show ?thesis by (simp add: scan_append)
next
  case (Exited x i s')
  with scan_Exited_pos [OF Exited] show ?thesis by (simp add: scan_append)
qed

text \<open>The number of bytes for which \<open>ngx_http_process_request_uri\<close> allocates memory, less one.\<close>

definition uri_len :: "ngx_http_request \<Rightarrow> nat" where
  "uri_len r = (case args_start r of
      Some x \<Rightarrow> x - 1 - off (uri_start r)
    | None \<Rightarrow> off (uri_end r) - off (uri_start r))"

lemma request_uri_path:
  assumes "uri_done buf z r" "z \<le> length buf"
    and "ngx_http_process_request_uri buf m r = (NGX_OK, r')"
  shows "cu_path m (uri r') \<and> length (uri r') \<le> uri_len r"
proof -
  obtain a b where r: "uri_start r = Some a" "uri_end r = Some b" "b \<le> length buf"
    and p: "path_or_flag buf a b (args_start r) (uri_ext r) (complex_uri r \<or> quoted_uri r)"
    using assms(1,2) by (auto simp: uri_done_def)
  show ?thesis
  proof (cases "complex_uri r \<or> quoted_uri r")
    case False
    then have "uri r' = slice buf a (a + uri_len r)"
      using assms(3) r
      by (auto simp: ngx_http_process_request_uri_def Let_def uri_len_def split: option.splits if_splits)
    moreover obtain e where "plain_path buf a e (uri_ext r)" "e = a + uri_len r" "e \<le> b"
      using p r False
      by (auto simp: path_or_flag_def uri_len_def plain_path_def uri_clean_def split: option.splits)
    ultimately show ?thesis
      using plain_path_cu_path [of buf a e "uri_ext r" m] r(3) by simp
  next
    case True
    then obtain r1 where r1: "ngx_http_parse_complex_uri buf r m = (NGX_OK, r1)" "uri r' = uri r1"
      using assms(3)
      by (auto simp: ngx_http_process_request_uri_def Let_def split: option.splits if_splits prod.splits)
    obtain rest where rest: "slice buf a b = c_slash # rest" "NUL \<notin> set rest"
      using uri_clean_slice [OF path_or_flag_clean [OF p] r(3)] by blast
    have c: "cu_path m (uri r1) \<and> length (uri r1) \<le> b - a"
      using complex_uri_path [OF r1(1)] rest r by simp
    show ?thesis
    proof (cases "args_start r")
      case None
      then show ?thesis using c r1(2) r by (simp add: uri_len_def)
    next
      case (Some x)
      then obtain q where q: "x = Suc q" "x \<le> b" "buf ! q = c_quest" "plain_path buf a q (uri_ext r)"
        using p by (auto simp: path_or_flag_def)
      then have aq: "a < q" "c_percent \<notin> set (slice buf a q)"
        using r(3) by (auto simp: plain_path_def uri_clean_def set_slice)
      then have s: "slice buf a b = slice buf a q @ c_quest # slice buf (Suc q) b"
        using q r(3) slice_join [of a q b buf] slice_Cons [of q b buf] by simp
      obtain y i s' where e: "scan (cu_step m) (slice buf a b) a (cu_start r) = Exited y i s'"
          "i \<le> a + (q - a)"
        using cu_scan_quest [OF aq(2), of "cu_start r" cu_sw_usual m "slice buf (Suc q) b" a] q r(3)
        by (auto simp: s cu_start_def)
      then have "cu_path m (cu_out s')" "a + length (cu_out s') \<le> i" "y \<noteq> Cu_return NGX_OK"
        using cu_scan [OF rest(2), of m a r] unfolding rest(1) by simp_all
      moreover from this have "uri r1 = cu_out s'"
        using r1(1) e r unfolding ngx_http_parse_complex_uri_def Let_def
        by (auto split: cu_exit.splits)
      ultimately show ?thesis
        using r1(2) e(2) aq r Some q by (simp add: uri_len_def)
    qed
  qed
qed

end
