(* ===== verification/Http_Request_Props.thy ===== *)
theory Http_Request_Props
  imports Http_Uri_Inv
begin

text \<open>
  What the request line parser and the URI functions guarantee together: the layout of the pointers
  an accepted line leaves in the request, the incremental reading of
  \<open>ngx_http_process_request_line\<close>, the lines that are accepted, and the normal form and the size of
  the path.
\<close>

section \<open>Results of a whole parse\<close>

lemma rl_inv_start:
  assumes "http_method r = NGX_HTTP_UNKNOWN" "uri_fresh r" "version_fresh r"
  shows "rl_inv buf p (rl_sw_start, r)"
  using assms by simp

lemma rl_inv_new: "rl_inv buf p (rl_sw_start, ngx_http_request_new)"
  by (simp add: ngx_http_request_new_def uri_fresh_def version_fresh_def)

lemma rl_ok_cases:
  assumes "ngx_http_parse_request_line st r b = (NGX_OK, st', r', b')"
    and "rl_inv (b_data b) (b_pos b) (st, r)" "b_pos b \<le> length (b_data b)"
  obtains p st1 r1 where
    "scan (rl_step (b_data b)) (drop (b_pos b) (b_data b)) (b_pos b) (st, r) = Exited Rl_done p (st1, r1)"
    "rl_post (b_data b) p Rl_done (st1, r1)" "p < length (b_data b)"
    "rl_done p r1 b = (NGX_OK, st', r', b')"
proof -
  note inv = assms(2,3)
  show ?thesis
  proof (cases "scan (rl_step (b_data b)) (drop (b_pos b) (b_data b)) (b_pos b) (st, r)")
    case (Ran_out p s)
    then show ?thesis using assms(1) by (simp add: ngx_http_parse_request_line_def split: prod.splits)
  next
    case (Exited x p s)
    obtain st1 r1 where s: "s = (st1, r1)" by force
    note post = request_line.scan_Exited_post [OF inv Exited]
    show ?thesis
    proof (cases x)
      case Rl_done
      then show ?thesis
        using that [of p st1 r1] assms(1) Exited post
        by (simp add: ngx_http_parse_request_line_def s)
    next
      case (Rl_return rc)
      then show ?thesis
        using assms(1) Exited post
        by (auto simp: ngx_http_parse_request_line_def s)
    qed
  qed
qed

text \<open>The pointers that a successful parse leaves in the request.\<close>

lemma rl_ok_uri_done:
  assumes "ngx_http_parse_request_line st r b = (NGX_OK, st', r', b')"
    and "rl_inv (b_data b) (b_pos b) (st, r)" "b_pos b \<le> length (b_data b)"
  shows "\<exists>z. request_end r' = Some z \<and> uri_done (b_data b) z r' \<and> z < b_pos b' \<and>
           b_pos b' \<le> length (b_data b) \<and> b_data b' = b_data b \<and>
           (http_version r' = 9 \<and> http_method r' = NGX_HTTP_GET \<or>
            1000 \<le> http_version r' \<and> http_version r' \<le> 1999)"
  using assms
proof (rule rl_ok_cases)
  fix p st1 r1
  assume "rl_post (b_data b) p Rl_done (st1, r1)" "p < length (b_data b)"
    "rl_done p r1 b = (NGX_OK, st', r', b')"
  then show ?thesis
    by (auto simp: rl_done_def Let_def uri_done_def split: if_splits option.splits)
qed

section \<open>The request line\<close>

text \<open>When the parser accepts the request line of a new request, the pointers it leaves are
  inside the bytes received and in the order of the line: method, URI, end of the line, and the
  method is the entry of the table of methods for the bytes between them (or
  \<open>NGX_HTTP_UNKNOWN\<close>). The version is 0.9 for GET only, otherwise 1.0 to 1.999.\<close>

theorem request_line_layout:
  assumes "ngx_http_parse_request_line rl_sw_start ngx_http_request_new b = (NGX_OK, st, r, b')"
    and "b_pos b \<le> length (b_data b)"
  shows "\<exists>m e a q z.
     request_start r = Some m \<and> method_end r = Some e \<and> uri_start r = Some a \<and>
     uri_end r = Some q \<and> request_end r = Some z \<and>
     m \<le> e \<and> Suc e < a \<and> a < q \<and> q \<le> z \<and> z < b_pos b' \<and> b_pos b' \<le> length (b_data b) \<and>
     http_method r = http_method_of (slice (b_data b) m (Suc e)) \<and>
     (http_version r = 9 \<and> http_method r = NGX_HTTP_GET \<or>
      1000 \<le> http_version r \<and> http_version r \<le> 1999)"
  using rl_ok_uri_done [OF assms(1) rl_inv_new assms(2)]
  by (auto simp: uri_done_def method_ok_def path_or_flag_def uri_clean_def)

definition demo_line :: "u_char list" where
  "demo_line = bytes ''GET /a/b.c?x=1 HTTP/1.1'' @ [CR, LF]"

lemma demo_line_ok:
  "fst (ngx_http_parse_request_line rl_sw_start ngx_http_request_new
     \<lparr>b_data = demo_line, b_pos = 0\<rparr>) = NGX_OK"
  by (simp add: demo_line_def bytes_def ngx_http_parse_request_line_def rl_defs ch_defs
    usual_iff rl_done_def ngx_http_request_new_def)


theorem request_line_layout_witness:
  "\<exists>st r b' a q. ngx_http_parse_request_line rl_sw_start ngx_http_request_new
       \<lparr>b_data = demo_line, b_pos = 0\<rparr> = (NGX_OK, st, r, b') \<and>
     uri_start r = Some a \<and> uri_end r = Some q \<and> a < q"
proof -
  obtain st r b' where e: "ngx_http_parse_request_line rl_sw_start ngx_http_request_new
       \<lparr>b_data = demo_line, b_pos = 0\<rparr> = (NGX_OK, st, r, b')"
    using demo_line_ok by (metis prod.collapse)
  show ?thesis using e request_line_layout [OF e] by auto
qed

text \<open>The URI of an accepted request line starts with a slash and contains no NUL byte, no
  carriage return and no line feed.\<close>

theorem request_line_uri_clean:
  assumes "ngx_http_parse_request_line rl_sw_start ngx_http_request_new b = (NGX_OK, st, r, b')"
    and "b_pos b \<le> length (b_data b)"
  shows "\<exists>rest. slice (b_data b) (off (uri_start r)) (off (uri_end r)) = c_slash # rest \<and>
     NUL \<notin> set rest \<and> CR \<notin> set rest \<and> LF \<notin> set rest"
proof -
  obtain z a q where "uri_start r = Some a" "uri_end r = Some q" "q \<le> z" "z < length (b_data b)"
      "uri_clean (b_data b) a q"
    using rl_ok_uri_done [OF assms(1) rl_inv_new assms(2)]
    by (auto simp: uri_done_def dest: path_or_flag_clean)
  then show ?thesis using uri_clean_slice [of "b_data b" a q] by simp
qed

theorem request_line_uri_clean_witness:
  "\<exists>st r b' rest. ngx_http_parse_request_line rl_sw_start ngx_http_request_new
       \<lparr>b_data = demo_line, b_pos = 0\<rparr> = (NGX_OK, st, r, b') \<and>
     slice demo_line (off (uri_start r)) (off (uri_end r)) = c_slash # rest"
proof -
  obtain st r b' where e: "ngx_http_parse_request_line rl_sw_start ngx_http_request_new
       \<lparr>b_data = demo_line, b_pos = 0\<rparr> = (NGX_OK, st, r, b')"
    using demo_line_ok by (metis prod.collapse)
  show ?thesis using e request_line_uri_clean [OF e] by auto
qed

section \<open>Reading in portions\<close>

text \<open>The loop of \<open>ngx_http_process_request_line\<close>: read what has arrived, parse, and read again
  as long as the parser answers \<open>NGX_AGAIN\<close>. The portions are what the successive reads put
  into the header buffer.\<close>

fun rl_feed :: "rl_state \<Rightarrow> ngx_http_request \<Rightarrow> ngx_buf \<Rightarrow> u_char list list \<Rightarrow>
    ngx_rc \<times> rl_state \<times> ngx_http_request \<times> ngx_buf" where
  "rl_feed st r b [] = (NGX_AGAIN, st, r, b)"
| "rl_feed st r b (c # cs) =
     (case ngx_http_parse_request_line st r (b\<lparr>b_data := b_data b @ c\<rparr>) of
        (rc, st', r', b') \<Rightarrow>
          if rc = NGX_AGAIN then rl_feed st' r' b' cs else (rc, st', r', b'))"

text \<open>What the caller looks at: on an error neither \<open>r->state\<close> nor \<open>b->pos\<close> is written.\<close>

definition rl_same :: "ngx_rc \<times> rl_state \<times> ngx_http_request \<times> ngx_buf \<Rightarrow>
    ngx_rc \<times> rl_state \<times> ngx_http_request \<times> ngx_buf \<Rightarrow> bool" where
  "rl_same x y =
    (case (x, y) of ((rc, st, r, b), (rc', st', r', b')) \<Rightarrow>
       rc = rc' \<and> r = r' \<and>
       (if rc \<in> {NGX_OK, NGX_AGAIN} then st = st' \<and> b_pos b = b_pos b' else True))"

lemma rl_return_not_again:
  assumes "rl_inv (b_data b) (b_pos b) (st, r)" "b_pos b \<le> length (b_data b)"
    and "scan (rl_step (b_data b)) (drop (b_pos b) (b_data b)) (b_pos b) (st, r) =
      Exited (Rl_return rc) p s"
  shows "rc \<notin> {NGX_OK, NGX_AGAIN}"
proof -
  obtain st1 r1 where s: "s = (st1, r1)" by force
  show ?thesis
    using request_line.scan_Exited_post [OF assms] unfolding s by auto
qed

lemma rl_done_not_again: "fst (rl_done p r b) \<noteq> NGX_AGAIN"
  by (simp add: rl_done_def Let_def)

lemma rl_same_scan:
  assumes "rl_inv buf (b_pos b) (st, r)" "b_pos b \<le> length buf"
    and "scan (rl_step buf) (drop (b_pos b) buf) (b_pos b) (st, r) =
      scan (rl_step buf) (drop p' buf) p' (st', r')"
    and "b_data b = buf" "b_data b' = buf" "b_pos b' = p'"
  shows "rl_same (ngx_http_parse_request_line st r b) (ngx_http_parse_request_line st' r' b')"
proof -
  obtain y where y: "scan (rl_step buf) (drop (b_pos b) buf) (b_pos b) (st, r) = y"
    "scan (rl_step buf) (drop p' buf) p' (st', r') = y" using assms(3) by simp
  have "rc \<notin> {NGX_OK, NGX_AGAIN}" if "y = Exited (Rl_return rc) p s" for rc p s
    using rl_return_not_again [of b st r rc p s] assms that y by simp
  then show ?thesis
    unfolding ngx_http_parse_request_line_def assms(4-6) y
    by (auto simp: rl_same_def rl_done_def Let_def split: scanned.split rl_exit.split)
qed

lemma parse_request_line_more:
  assumes "rl_inv (b_data b) (b_pos b) (st, r)" "b_pos b \<le> length (b_data b)"
  shows "case ngx_http_parse_request_line st r b of (rc, st', r', b') \<Rightarrow>
     if rc = NGX_AGAIN then
       rl_inv (b_data b) (b_pos b') (st', r') \<and> b_pos b' = length (b_data b) \<and> b_data b' = b_data b \<and>
       rl_same (ngx_http_parse_request_line st r (b\<lparr>b_data := b_data b @ ys\<rparr>))
         (ngx_http_parse_request_line st' r' (b'\<lparr>b_data := b_data b @ ys\<rparr>))
     else rl_same (ngx_http_parse_request_line st r (b\<lparr>b_data := b_data b @ ys\<rparr>)) (rc, st', r', b')"
proof (cases "scan (rl_step (b_data b)) (drop (b_pos b) (b_data b)) (b_pos b) (st, r)")
  case (Ran_out p s)
  obtain st1 r1 where s: "s = (st1, r1)" by force
  note inv = request_line.scan_Ran_out_inv [OF assms Ran_out]
  have e: "scan (rl_step (b_data b @ ys)) (drop (b_pos b) (b_data b @ ys)) (b_pos b) (st, r) =
      scan (rl_step (b_data b @ ys)) (drop p (b_data b @ ys)) p (st1, r1)"
    using request_line.scan_resume [OF assms] unfolding Ran_out s by simp
  have p: "ngx_http_parse_request_line st r b = (NGX_AGAIN, st1, r1, b\<lparr>b_pos := p\<rparr>)"
    unfolding ngx_http_parse_request_line_def Ran_out s by simp
  have i2: "rl_inv (b_data b @ ys) (b_pos b) (st, r)" "b_pos b \<le> length (b_data b @ ys)"
    using assms by (simp_all add: rl_inv_append)
  have "rl_same (ngx_http_parse_request_line st r (b\<lparr>b_data := b_data b @ ys\<rparr>))
      (ngx_http_parse_request_line st1 r1 (b\<lparr>b_pos := p, b_data := b_data b @ ys\<rparr>))"
    using i2 e by (intro rl_same_scan [where buf = "b_data b @ ys" and p' = p]) simp_all
  moreover have "p = length (b_data b)" "rl_inv (b_data b) p (st1, r1)" using inv unfolding s by blast+
  ultimately show ?thesis unfolding p by simp
next
  case (Exited x p s)
  obtain st1 r1 where s: "s = (st1, r1)" by force
  have e: "scan (rl_step (b_data b @ ys)) (drop (b_pos b) (b_data b @ ys)) (b_pos b) (st, r) =
      Exited x p (st1, r1)"
    using request_line.scan_resume [OF assms] unfolding Exited s by simp
  show ?thesis
  proof (cases x)
    case Rl_done
    then show ?thesis
      by (simp add: ngx_http_parse_request_line_def Exited s e rl_same_def rl_done_def Let_def
          del: drop_append)
  next
    case (Rl_return rc)
    with rl_return_not_again [OF assms, of rc p s] Exited show ?thesis
      by (simp add: ngx_http_parse_request_line_def s e rl_same_def del: drop_append)
  qed
qed

lemma rl_same_trans: "rl_same x y \<Longrightarrow> rl_same y z \<Longrightarrow> rl_same x z"
  by (auto simp: rl_same_def split: prod.splits if_splits)

lemma rl_feed_same:
  "rl_inv (b_data b) (b_pos b) (st, r) \<Longrightarrow> b_pos b = length (b_data b) \<Longrightarrow>
   rl_same (ngx_http_parse_request_line st r (b\<lparr>b_data := b_data b @ concat cs\<rparr>)) (rl_feed st r b cs)"
proof (induction cs arbitrary: st r b)
  case Nil
  then show ?case by (simp add: ngx_http_parse_request_line_def rl_same_def)
next
  case (Cons c cs)
  define b1 where "b1 = b\<lparr>b_data := b_data b @ c\<rparr>"
  have inv: "rl_inv (b_data b1) (b_pos b1) (st, r)" "b_pos b1 \<le> length (b_data b1)"
    using Cons.prems by (simp_all add: b1_def rl_inv_append)
  have all: "b\<lparr>b_data := b_data b @ concat (c # cs)\<rparr> = b1\<lparr>b_data := b_data b1 @ concat cs\<rparr>"
    by (simp add: b1_def)
  obtain rc st' r' b' where p: "ngx_http_parse_request_line st r b1 = (rc, st', r', b')"
    by (metis prod_cases4)
  note more = parse_request_line_more [OF inv, of "concat cs", unfolded p, simplified]
  show ?case
  proof (cases "rc = NGX_AGAIN")
    case True
    have "b_pos b' = length (b_data b1)" using more True by (simp split: if_splits)
    with more True have m: "rl_inv (b_data b') (b_pos b') (st', r')" "b_pos b' = length (b_data b')"
        "b_data b' = b_data b1"
      and s: "rl_same (ngx_http_parse_request_line st r (b1\<lparr>b_data := b_data b1 @ concat cs\<rparr>))
         (ngx_http_parse_request_line st' r' (b'\<lparr>b_data := b_data b' @ concat cs\<rparr>))"
      by (metis (full_types))+
    from s Cons.IH [OF m(1,2)] have
      "rl_same (ngx_http_parse_request_line st r (b1\<lparr>b_data := b_data b1 @ concat cs\<rparr>)) (rl_feed st' r' b' cs)"
      by (rule rl_same_trans)
    with True p show ?thesis unfolding all by (simp add: b1_def)
  next
    case False
    with more p show ?thesis unfolding all by (simp add: b1_def)
  qed
qed

text \<open>C3. The request line parser is incremental: whatever the sizes of the portions in which the
  bytes arrive, the result of the reading loop is the result of parsing all of them at once
  (the return code and every field of the request, and after success or \<open>NGX_AGAIN\<close> also the
  parser state and the buffer position).\<close>

theorem request_line_portions:
  "rl_same
     (ngx_http_parse_request_line rl_sw_start ngx_http_request_new \<lparr>b_data = concat cs, b_pos = 0\<rparr>)
     (rl_feed rl_sw_start ngx_http_request_new \<lparr>b_data = [], b_pos = 0\<rparr> cs)"
  using rl_feed_same [of "\<lparr>b_data = [], b_pos = 0\<rparr>" rl_sw_start ngx_http_request_new cs] rl_inv_new
  by simp

section \<open>Acceptance\<close>

lemma scan_method_chars:
  "\<forall>c \<in> set cs. is_method_char c \<Longrightarrow>
   scan (rl_step buf) cs p (rl_sw_method, r) = Ran_out (p + length cs) (rl_sw_method, r)"
proof (induction cs arbitrary: p)
  case (Cons c cs)
  then have "c \<noteq> SP" by (auto simp: is_method_char_def is_upper_def)
  with Cons show ?case by (simp add: rl_method_def is_method_char_iff)
qed simp

definition rl_uri_frame :: "ngx_http_request \<Rightarrow> ngx_http_request \<Rightarrow> bool" where
  "rl_uri_frame r r' \<longleftrightarrow>
     http_method r' = http_method r \<and> uri_start r' = uri_start r \<and> request_end r' = request_end r \<and>
     http_major r' = http_major r \<and> http_minor r' = http_minor r"

lemma rl_uri_frame_refl [simp]: "rl_uri_frame r r"
  by (simp add: rl_uri_frame_def)

lemma rl_uri_frame_trans: "rl_uri_frame r r' \<Longrightarrow> rl_uri_frame r' r'' \<Longrightarrow> rl_uri_frame r r''"
  by (simp add: rl_uri_frame_def)

lemma rl_path_step:
  assumes "c \<notin> {NUL, CR, LF, SP}" "st \<in> {rl_sw_after_slash_in_uri, rl_sw_check_uri, rl_sw_uri}"
  shows "\<exists>st' r'. rl_step buf p c (st, r) = Next (st', r') \<and> rl_uri_frame r r' \<and>
     st' \<in> {rl_sw_after_slash_in_uri, rl_sw_check_uri, rl_sw_uri}"
  using assms
  by (auto simp: rl_after_slash_in_uri_def rl_check_uri_def rl_uri_def usual_iff rl_uri_frame_def)

lemma scan_path:
  assumes "\<forall>c \<in> set cs. c \<notin> {NUL, CR, LF, SP}"
    and "st \<in> {rl_sw_after_slash_in_uri, rl_sw_check_uri, rl_sw_uri}"
  shows "\<exists>st' r'. scan (rl_step buf) cs p (st, r) = Ran_out (p + length cs) (st', r') \<and>
     rl_uri_frame r r' \<and> st' \<in> {rl_sw_after_slash_in_uri, rl_sw_check_uri, rl_sw_uri}"
  using assms
proof (induction cs arbitrary: p st r)
  case (Cons c cs)
  obtain st1 r1 where 1: "rl_step buf p c (st, r) = Next (st1, r1)" "rl_uri_frame r r1"
      "st1 \<in> {rl_sw_after_slash_in_uri, rl_sw_check_uri, rl_sw_uri}"
    using rl_path_step [of c st buf p r] Cons.prems by auto
  with Cons.IH [OF _ 1(3), of "Suc p" r1] Cons.prems show ?case
    by (auto intro: rl_uri_frame_trans)
qed simp

lemma rl_space_after_path:
  assumes "st \<in> {rl_sw_after_slash_in_uri, rl_sw_check_uri, rl_sw_uri}"
  obtains st' where "rl_step buf p SP (st, r) = Next (st', r\<lparr>uri_end := Some p\<rparr>)"
    "st' \<in> {rl_sw_check_uri_http_09, rl_sw_http_09}"
  using assms
  by (auto simp: rl_after_slash_in_uri_def rl_check_uri_def rl_uri_def usual_iff)

lemma scan_http:
  assumes "st \<in> {rl_sw_check_uri_http_09, rl_sw_http_09}"
  shows "scan (rl_step buf) (bytes ''HTTP/1.'') p (st, r) =
    Ran_out (p + 7) (rl_sw_first_minor_digit, r\<lparr>http_protocol_data := Some p, http_major := 1\<rparr>)"
  using assms
  by (auto simp: bytes_def rl_check_uri_http_09_def rl_http_09_def rl_http_letters_def
      rl_first_major_digit_def rl_major_digit_def)

lemma scan_minor:
  assumes "is_digit d" "request_end r = None"
  shows "scan (rl_step buf) [d, CR, LF] p (rl_sw_first_minor_digit, r) =
    Exited Rl_done (p + 2) (rl_sw_almost_done,
      r\<lparr>http_minor := unat (d - c_0), request_end := Some (p + 1)\<rparr>)"
  using assms by (simp add: rl_first_minor_digit_def rl_minor_digit_def rl_almost_done_def)

lemma scan_version:
  assumes "st \<in> {rl_sw_after_slash_in_uri, rl_sw_check_uri, rl_sw_uri}" "is_digit d"
    and "request_end r = None"
  shows "scan (rl_step buf) (SP # bytes ''HTTP/1.'' @ [d, CR, LF]) q (st, r) =
    Exited Rl_done (q + 10) (rl_sw_almost_done,
      r\<lparr>uri_end := Some q, http_protocol_data := Some (Suc q), http_major := 1,
        http_minor := unat (d - c_0), request_end := Some (q + 9)\<rparr>)"
proof -
  obtain st' where st': "rl_step buf q SP (st, r) = Next (st', r\<lparr>uri_end := Some q\<rparr>)"
      "st' \<in> {rl_sw_check_uri_http_09, rl_sw_http_09}"
    using rl_space_after_path [OF assms(1)] by blast
  let ?r = "r\<lparr>uri_end := Some q, http_protocol_data := Some (Suc q), http_major := 1\<rparr>"
  have "request_end ?r = None" using assms(3) by simp
  from scan_minor [OF assms(2) this, of buf "Suc q + 7"] show ?thesis
    unfolding scan.simps(2) [of _ SP] st'(1) flow.simps scan_append scan_http [OF st'(2)] scanned.simps
    by simp
qed

lemma scan_request_line:
  assumes "name \<noteq> []" "\<forall>c \<in> set name. is_method_char c"
    and "\<forall>c \<in> set path. c \<notin> {NUL, CR, LF, SP}" "is_digit d"
    and "buf = name @ [SP] @ (c_slash # path) @ [SP] @ bytes ''HTTP/1.'' @ [d, CR, LF]"
    and "q = length name + length path + 2"
  shows "\<exists>r. scan (rl_step buf) buf 0 (rl_sw_start, ngx_http_request_new) =
      Exited Rl_done (q + 10) (rl_sw_almost_done, r) \<and>
      http_method r = http_method_of name \<and> uri_start r = Some (Suc (length name)) \<and>
      uri_end r = Some q \<and> http_major r = 1 \<and> http_minor r = unat (d - c_0) \<and>
      request_end r = Some (q + 9)"
proof -
  obtain c cs where name: "name = c # cs" using assms(1) by (cases name) auto
  define r0 where "r0 = ngx_http_request_new\<lparr>request_start := Some 0\<rparr>"
  define r1 where "r1 = r0\<lparr>method_end := Some (length cs), http_method := http_method_of name,
    uri_start := Some (Suc (length name))\<rparr>"
  have c: "c \<noteq> CR" "c \<noteq> LF" using assms(2) name by (auto simp: is_method_char_def is_upper_def)
  then have m: "scan (rl_step buf) name 0 (rl_sw_start, ngx_http_request_new) =
      Ran_out (length name) (rl_sw_method, r0)"
    using assms(2) scan_method_chars [of cs buf 1 r0]
    by (auto simp: name rl_start_def is_method_char_iff r0_def)
  have "rl_method_switch buf 0 (length name) NGX_HTTP_UNKNOWN = http_method_of (slice buf 0 (length name))"
    by (intro rl_method_switch_table) (simp_all add: assms(5) name)
  also have "slice buf 0 (length name) = name" by (simp add: assms(5) slice_def)
  finally have s: "scan (rl_step buf) [SP, c_slash] (length name) (rl_sw_method, r0) =
      Ran_out (Suc (Suc (length name))) (rl_sw_after_slash_in_uri, r1)"
    by (simp add: rl_defs r1_def r0_def ngx_http_request_new_def name)
  obtain st r2 where p: "scan (rl_step buf) path (Suc (Suc (length name))) (rl_sw_after_slash_in_uri, r1) =
      Ran_out q (st, r2)" "rl_uri_frame r1 r2" "st \<in> {rl_sw_after_slash_in_uri, rl_sw_check_uri, rl_sw_uri}"
    using scan_path [of path rl_sw_after_slash_in_uri buf "Suc (Suc (length name))" r1] assms(3,6)
    by (auto simp: add.commute add.left_commute)
  have "request_end r2 = None"
    using p(2) by (simp add: rl_uri_frame_def r1_def r0_def ngx_http_request_new_def)
  note v = scan_version [OF p(3) assms(4) this, of buf q]
  have split: "buf = name @ [SP, c_slash] @ path @ (SP # bytes ''HTTP/1.'' @ [d, CR, LF])"
    by (simp add: assms(5))
  have "scan (rl_step buf) buf 0 (rl_sw_start, ngx_http_request_new) =
    Exited Rl_done (q + 10) (rl_sw_almost_done,
      r2\<lparr>uri_end := Some q, http_protocol_data := Some (Suc q), http_major := 1,
        http_minor := unat (d - c_0), request_end := Some (q + 9)\<rparr>)"
    by (subst (2) split) (simp only: scan_append [of _ name] scan_append [of _ "[SP, c_slash]"] scan_append [of _ path]
        m s p(1) v scanned.simps)
  with p(2) show ?thesis by (auto simp: rl_uri_frame_def r1_def)
qed

text \<open>C4. Acceptance: for a method name of method characters, a URI of bytes other than NUL, CR, LF
  and space after its slash, and a digit \<open>d\<close>, the parser accepts
  \<^verbatim>\<open>name SP /path SP HTTP/1.d CR LF\<close>, consumes all of it, and reports exactly this method, this URI
  and this version.\<close>

theorem request_line_accepts:
  assumes "name \<noteq> []" "\<forall>c \<in> set name. is_method_char c"
    and "\<forall>c \<in> set path. c \<notin> {NUL, CR, LF, SP}" "is_digit d"
    and "buf = name @ [SP] @ (c_slash # path) @ [SP] @ bytes ''HTTP/1.'' @ [d, CR, LF]"
  shows "\<exists>r. ngx_http_parse_request_line rl_sw_start ngx_http_request_new \<lparr>b_data = buf, b_pos = 0\<rparr> =
      (NGX_OK, rl_sw_start, r, \<lparr>b_data = buf, b_pos = length buf\<rparr>) \<and>
     http_method r = http_method_of name \<and>
     slice buf (off (uri_start r)) (off (uri_end r)) = c_slash # path \<and>
     http_version r = 1000 + unat (d - c_0)"
proof -
  define q where "q = length name + length path + 2"
  obtain r where r: "scan (rl_step buf) buf 0 (rl_sw_start, ngx_http_request_new) =
      Exited Rl_done (q + 10) (rl_sw_almost_done, r)"
      "http_method r = http_method_of name" "uri_start r = Some (Suc (length name))"
      "uri_end r = Some q" "http_major r = 1" "http_minor r = unat (d - c_0)"
      "request_end r = Some (q + 9)"
    using scan_request_line [OF assms q_def] by blast
  have l: "length buf = q + 11" by (simp add: assms(5) q_def bytes_def)
  have u: "slice buf (Suc (length name)) q = c_slash # path"
    by (simp add: assms(5) q_def slice_def)
  show ?thesis
    using r u
    by (simp add: ngx_http_parse_request_line_def rl_done_def Let_def l)
qed

theorem request_line_accepts_witness:
  "\<exists>r b. ngx_http_parse_request_line rl_sw_start ngx_http_request_new
      \<lparr>b_data = bytes ''PUT /x?y HTTP/1.0'' @ [CR, LF], b_pos = 0\<rparr> = (NGX_OK, rl_sw_start, r, b) \<and>
     http_version r = 1000"
  using request_line_accepts [of "bytes ''PUT''" "bytes ''x?y''" c_0
      "bytes ''PUT /x?y HTTP/1.0'' @ [CR, LF]"]
  by (auto simp: bytes_def is_method_char_def ch_defs)

section \<open>The path of an accepted request\<close>

text \<open>C1. When the request line of a new request is accepted and its URI is processed, the path that the
  rest of the server sees starts with a slash, contains no NUL byte and neither \<^verbatim>\<open>/./\<close> nor \<^verbatim>\<open>/../\<close>,
  and with \<open>merge_slashes\<close> no \<^verbatim>\<open>//\<close>: whether the parser has flagged the URI or left it alone.\<close>

theorem request_uri_normalised:
  assumes "ngx_http_parse_request_line rl_sw_start ngx_http_request_new b = (NGX_OK, st, r, b')"
    and "b_pos b \<le> length (b_data b)"
    and "ngx_http_process_request_uri (b_data b) merge_slashes r = (NGX_OK, r')"
  shows "\<exists>rest. uri r' = c_slash # rest \<and> NUL \<notin> set (uri r') \<and>
     \<not> sublist [c_slash, c_dot, c_slash] (uri r') \<and>
     \<not> sublist [c_slash, c_dot, c_dot, c_slash] (uri r') \<and>
     (merge_slashes \<longrightarrow> \<not> sublist [c_slash, c_slash] (uri r'))"
proof -
  obtain z where "uri_done (b_data b) z r" "z \<le> length (b_data b)"
    using rl_ok_uri_done [OF assms(1) rl_inv_new assms(2)] by auto
  then have "cu_path merge_slashes (uri r')" using request_uri_path assms(3) by blast
  then show ?thesis by (cases "uri r'") (auto simp: cu_path_def no_dot_segments_def)
qed

lemma demo_line_uri_ok:
  "fst (ngx_http_process_request_uri demo_line True
     (fst (snd (snd (ngx_http_parse_request_line rl_sw_start ngx_http_request_new
       \<lparr>b_data = demo_line, b_pos = 0\<rparr>))))) = NGX_OK"
  by (simp add: demo_line_def bytes_def ngx_http_parse_request_line_def rl_defs ch_defs
    usual_iff rl_done_def ngx_http_request_new_def ngx_http_process_request_uri_def)

lemma demo_line_results:
  obtains st r b' r' where "ngx_http_parse_request_line rl_sw_start ngx_http_request_new
       \<lparr>b_data = demo_line, b_pos = 0\<rparr> = (NGX_OK, st, r, b')"
    "ngx_http_process_request_uri demo_line True r = (NGX_OK, r')"
  using demo_line_ok demo_line_uri_ok by (metis fst_conv snd_conv prod.collapse)

theorem request_uri_normalised_witness:
  "\<exists>st r b' r' rest. ngx_http_parse_request_line rl_sw_start ngx_http_request_new
       \<lparr>b_data = demo_line, b_pos = 0\<rparr> = (NGX_OK, st, r, b') \<and>
     ngx_http_process_request_uri demo_line True r = (NGX_OK, r') \<and> uri r' = c_slash # rest"
proof (rule demo_line_results)
  fix st r b' r'
  assume e: "ngx_http_parse_request_line rl_sw_start ngx_http_request_new
       \<lparr>b_data = demo_line, b_pos = 0\<rparr> = (NGX_OK, st, r, b')"
    "ngx_http_process_request_uri demo_line True r = (NGX_OK, r')"
  with request_uri_normalised [OF e(1), of True r'] show ?thesis by auto
qed

text \<open>C26. The decoded path fits the memory that \<open>ngx_http_process_request_uri\<close> allocates for it: it is
  never longer than \<open>r->uri.len\<close> as that function computes it before decoding.\<close>

theorem request_uri_fits:
  assumes "ngx_http_parse_request_line rl_sw_start ngx_http_request_new b = (NGX_OK, st, r, b')"
    and "b_pos b \<le> length (b_data b)"
    and "ngx_http_process_request_uri (b_data b) merge_slashes r = (NGX_OK, r')"
  shows "length (uri r') \<le> uri_len r"
proof -
  obtain z where "uri_done (b_data b) z r" "z \<le> length (b_data b)"
    using rl_ok_uri_done [OF assms(1) rl_inv_new assms(2)] by auto
  then show ?thesis using request_uri_path assms(3) by blast
qed

theorem request_uri_fits_witness:
  "\<exists>st r b' r'. ngx_http_parse_request_line rl_sw_start ngx_http_request_new
       \<lparr>b_data = demo_line, b_pos = 0\<rparr> = (NGX_OK, st, r, b') \<and>
     ngx_http_process_request_uri demo_line True r = (NGX_OK, r') \<and> length (uri r') \<le> uri_len r"
proof (rule demo_line_results)
  fix st r b' r'
  assume e: "ngx_http_parse_request_line rl_sw_start ngx_http_request_new
       \<lparr>b_data = demo_line, b_pos = 0\<rparr> = (NGX_OK, st, r, b')"
    "ngx_http_process_request_uri demo_line True r = (NGX_OK, r')"
  with request_uri_fits [OF e(1), of True r'] show ?thesis by auto
qed

end
