(* ===== verification/Http_Uri_Segments.thy ===== *)
theory Http_Uri_Segments
  imports Http_Uri_Inv
begin

text \<open>
  \<open>ngx_http_parse_complex_uri\<close> against a specification on path segments: a stack of segments,
  on which an empty segment and \<^verbatim>\<open>.\<close> do nothing and \<^verbatim>\<open>..\<close> removes the last one. The byte-level
  state machine, which rewinds its output to the previous slash, computes this resolution, except
  that the segment after the last slash is copied as it is.
\<close>

section \<open>The specification\<close>

definition plain_byte :: "u_char \<Rightarrow> bool" where
  "plain_byte c \<longleftrightarrow> c \<notin> {c_slash, c_percent, c_quest, c_hash}"

definition dot_segment :: "u_char list" where
  "dot_segment = [c_dot]"

definition dot_dot_segment :: "u_char list" where
  "dot_dot_segment = [c_dot, c_dot]"

fun resolve :: "u_char list list \<Rightarrow> u_char list list \<Rightarrow> u_char list list option" where
  "resolve stack [] = Some stack"
| "resolve stack (s # ss) =
     (if s = [] \<or> s = dot_segment then resolve stack ss
      else if s = dot_dot_segment then
        (if stack = [] then None else resolve (butlast stack) ss)
      else resolve (stack @ [s]) ss)"

lemma dot_dot_distinct [simp]: "dot_dot_segment \<noteq> []" "dot_dot_segment \<noteq> dot_segment"
  by (simp_all add: dot_dot_segment_def dot_segment_def)

text \<open>The bytes of a list of segments, each followed by a slash, after the leading slash.\<close>

definition path_of :: "u_char list list \<Rightarrow> u_char list" where
  "path_of ss = c_slash # concat (map (\<lambda>s. s @ [c_slash]) ss)"

lemma path_of_simps [simp]:
  "path_of [] = [c_slash]"
  "path_of (ss @ [s]) = path_of ss @ s @ [c_slash]"
  by (simp_all add: path_of_def)

lemma path_of_last: "\<exists>xs. path_of ss = xs @ [c_slash]"
  by (cases ss rule: rev_cases) auto

section \<open>The state machine on one segment\<close>

lemma cu_step_to_usual:
  assumes "cu_state s = Plain st" "plain_byte c" "c = c_dot \<Longrightarrow> st = cu_sw_dot_dot \<or> st = cu_sw_usual"
  shows "\<exists>s'. cu_step m p c s = Next s' \<and> cu_state s' = Plain cu_sw_usual \<and> cu_out s' = cu_out s @ [c]"
  using assms by (cases st) (auto simp: cu_defs plain_byte_def)

lemma scan_usual_bytes:
  assumes "\<forall>c \<in> set xs. plain_byte c" "cu_state s = Plain cu_sw_usual"
  shows "\<exists>s'. scan (cu_step m) xs p s = Ran_out (p + length xs) s' \<and>
     cu_state s' = Plain cu_sw_usual \<and> cu_out s' = cu_out s @ xs"
  using assms
proof (induction xs arbitrary: p s)
  case (Cons c xs)
  obtain s1 where 1: "cu_step m p c s = Next s1" "cu_state s1 = Plain cu_sw_usual"
      "cu_out s1 = cu_out s @ [c]"
    using cu_step_to_usual [of s cu_sw_usual c m p] Cons.prems by auto
  with Cons.IH [of s1 "Suc p"] Cons.prems show ?case by auto
qed simp

lemma scan_to_usual:
  assumes "cu_state s = Plain st" "\<forall>c \<in> set (c # xs). plain_byte c"
    and "c = c_dot \<Longrightarrow> st = cu_sw_dot_dot \<or> st = cu_sw_usual"
  shows "\<exists>s'. scan (cu_step m) (c # xs) p s = Ran_out (p + length (c # xs)) s' \<and>
     cu_state s' = Plain cu_sw_usual \<and> cu_out s' = cu_out s @ c # xs"
proof -
  have "plain_byte c" using assms(2) by simp
  then obtain s1 where "cu_step m p c s = Next s1" "cu_state s1 = Plain cu_sw_usual"
      "cu_out s1 = cu_out s @ [c]"
    using cu_step_to_usual [OF assms(1) _ assms(3)] by blast
  with scan_usual_bytes [of xs s1 m "Suc p"] assms(2) show ?thesis by auto
qed

lemma cu_step_dot:
  "cu_state s = Plain cu_sw_slash \<Longrightarrow>
     cu_step m p c_dot s = Next (s\<lparr>cu_out := cu_out s @ [c_dot], cu_state := Plain cu_sw_dot\<rparr>)"
  "cu_state s = Plain cu_sw_dot \<Longrightarrow>
     cu_step m p c_dot s = Next (s\<lparr>cu_out := cu_out s @ [c_dot], cu_state := Plain cu_sw_dot_dot\<rparr>)"
  by (simp_all add: cu_defs usual_iff)

text \<open>The state in which a segment leaves the machine.\<close>

definition segment_state :: "u_char list \<Rightarrow> cu_plain" where
  "segment_state s =
    (if s = [] then cu_sw_slash
     else if s = dot_segment then cu_sw_dot
     else if s = dot_dot_segment then cu_sw_dot_dot
     else cu_sw_usual)"

lemma scan_segment:
  assumes "cu_state s = Plain cu_sw_slash" "\<forall>c \<in> set xs. plain_byte c"
  shows "\<exists>s'. scan (cu_step m) xs p s = Ran_out (p + length xs) s' \<and>
     cu_state s' = Plain (segment_state xs) \<and> cu_out s' = cu_out s @ xs"
proof -
  let ?dot = "\<lambda>s st. s\<lparr>cu_out := cu_out s @ [c_dot], cu_state := Plain st\<rparr>"
  consider "xs = []" | c ys where "xs = c # ys" "c \<noteq> c_dot" | "xs = [c_dot]"
    | c ys where "xs = c_dot # c # ys" "c \<noteq> c_dot" | "xs = [c_dot, c_dot]"
    | c ys where "xs = c_dot # c_dot # c # ys"
    by (metis list.exhaust)
  then show ?thesis
  proof cases
    case (2 c ys)
    then show ?thesis
      using scan_to_usual [OF assms(1), of c ys m p] assms(2)
      by (auto simp: segment_state_def dot_segment_def dot_dot_segment_def)
  next
    case (4 c ys)
    then show ?thesis
      using scan_to_usual [of "?dot s cu_sw_dot" cu_sw_dot c ys m "Suc p"] assms cu_step_dot(1) [of s m p]
      by (auto simp: segment_state_def dot_segment_def dot_dot_segment_def)
  next
    case (6 c ys)
    then show ?thesis
      using scan_to_usual [of "?dot (?dot s cu_sw_dot) cu_sw_dot_dot" cu_sw_dot_dot c ys m "Suc (Suc p)"]
        assms cu_step_dot(1) [of s m p] cu_step_dot(2) [of "?dot s cu_sw_dot" m "Suc p"]
      by (auto simp: segment_state_def dot_segment_def dot_dot_segment_def)
  qed (use assms cu_step_dot in \<open>auto simp: segment_state_def dot_segment_def dot_dot_segment_def\<close>)
qed

section \<open>Rewinding to the previous segment\<close>

lemma cu_rewind_plain:
  assumes "c_slash \<notin> set s" "n \<le> length s"
  shows "cu_rewind ((xs @ [c_slash]) @ s @ ys) (length (xs @ [c_slash]) + n) = Some (length (xs @ [c_slash]))"
  using assms
proof (induction n)
  case (Suc n)
  then have "s ! n \<noteq> c_slash" by (metis Suc_le_lessD nth_mem)
  with Suc show ?case by (simp add: nth_append)
qed (simp add: nth_append)

lemma cu_rewind_dot_dot:
  assumes "stack \<noteq> []" "s = last stack" "c_slash \<notin> set s" "s \<noteq> []" "out = path_of stack @ dot_dot_segment"
  shows "\<exists>u. cu_rewind out (length out - 4) = Some u \<and> take u out = path_of (butlast stack)"
proof -
  obtain xs where xs: "path_of (butlast stack) = xs @ [c_slash]"
    using path_of_last by blast
  have st: "path_of stack = path_of (butlast stack) @ s @ [c_slash]"
    using assms(1,2) path_of_simps(2) [of "butlast stack" "last stack"] by simp
  have o: "out = (xs @ [c_slash]) @ s @ [c_slash, c_dot, c_dot]"
    unfolding assms(5) st xs by (simp add: dot_dot_segment_def)
  have "length out - 4 = length (xs @ [c_slash]) + (length s - 1)"
    using assms(4) unfolding o by (cases s) auto
  moreover have "cu_rewind out (length (xs @ [c_slash]) + (length s - 1)) = Some (length (xs @ [c_slash]))"
    unfolding o by (rule cu_rewind_plain) (simp_all add: assms(3))
  ultimately have "cu_rewind out (length out - 4) = Some (length (xs @ [c_slash]))"
    by (simp only:)
  moreover have "take (length (xs @ [c_slash])) out = xs @ [c_slash]"
    unfolding o by simp
  ultimately show ?thesis unfolding xs by blast
qed

definition stack_ok :: "u_char list list \<Rightarrow> bool" where
  "stack_ok ss \<longleftrightarrow> (\<forall>s \<in> set ss. s \<noteq> [] \<and> c_slash \<notin> set s)"

lemma stack_ok_butlast: "stack_ok ss \<Longrightarrow> stack_ok (butlast ss)"
  by (auto simp: stack_ok_def dest: in_set_butlastD)

text \<open>The slash after a segment.\<close>

lemma cu_step_slash_after:
  assumes "cu_state s = Plain (segment_state xs)" "cu_out s = path_of stack @ xs" "stack_ok stack"
  shows "if xs = [] \<or> xs = dot_segment then
      \<exists>s'. cu_step True p c_slash s = Next s' \<and> cu_state s' = Plain cu_sw_slash \<and> cu_out s' = path_of stack
    else if xs = dot_dot_segment then
      (if stack = [] then \<exists>s'. cu_step True p c_slash s = Exit (Cu_return NGX_HTTP_PARSE_INVALID_REQUEST) s'
       else \<exists>s'. cu_step True p c_slash s = Next s' \<and> cu_state s' = Plain cu_sw_slash \<and>
         cu_out s' = path_of (butlast stack))
    else \<exists>s'. cu_step True p c_slash s = Next s' \<and> cu_state s' = Plain cu_sw_slash \<and>
      cu_out s' = path_of (stack @ [xs])"
proof -
  consider "xs = []" | "xs = dot_segment" | "xs = dot_dot_segment" "stack = []"
    | "xs = dot_dot_segment" "stack \<noteq> []" | "xs \<notin> {[], dot_segment, dot_dot_segment}" by blast
  then show ?thesis
  proof cases
    case 4
    then have "stack_ok [last stack]" using assms(3) by (simp add: stack_ok_def)
    then obtain u where "cu_rewind (cu_out s) (length (cu_out s) - 4) = Some u"
        "take u (cu_out s) = path_of (butlast stack)"
      using cu_rewind_dot_dot [OF 4(2) refl] assms(2) 4(1) by (auto simp: stack_ok_def)
    then show ?thesis
      using assms(1) 4
      by (auto simp: segment_state_def cu_defs usual_iff dot_segment_def dot_dot_segment_def)
  qed (use assms in \<open>auto simp: segment_state_def cu_defs usual_iff dot_segment_def dot_dot_segment_def\<close>)
qed

section \<open>A whole path\<close>

lemma scan_segments:
  assumes "cu_state s = Plain cu_sw_slash" "cu_out s = path_of stack" "stack_ok stack"
    and "\<forall>x \<in> set ss. \<forall>c \<in> set x. plain_byte c"
  shows "case resolve stack ss of
      None \<Rightarrow> \<exists>q s'. scan (cu_step True) (concat (map (\<lambda>x. x @ [c_slash]) ss)) p s =
        Exited (Cu_return NGX_HTTP_PARSE_INVALID_REQUEST) q s'
    | Some stack' \<Rightarrow> \<exists>q s'. scan (cu_step True) (concat (map (\<lambda>x. x @ [c_slash]) ss)) p s = Ran_out q s' \<and>
        cu_state s' = Plain cu_sw_slash \<and> cu_out s' = path_of stack'"
  using assms
proof (induction ss arbitrary: stack p s)
  case (Cons x ss)
  have x: "\<forall>c \<in> set x. plain_byte c" "c_slash \<notin> set x"
    using Cons.prems(4) by (auto simp: plain_byte_def)
  obtain s1 where s1: "scan (cu_step True) x p s = Ran_out (p + length x) s1"
      "cu_state s1 = Plain (segment_state x)" "cu_out s1 = path_of stack @ x"
    using scan_segment [OF Cons.prems(1) x(1), of True p] Cons.prems(2) by auto
  note slash = cu_step_slash_after [OF s1(2,3) Cons.prems(3), of "p + length x"]
  have IH: "case resolve st ss of
      None \<Rightarrow> \<exists>q s'. scan (cu_step True) (concat (map (\<lambda>x. x @ [c_slash]) (x # ss))) p s =
        Exited (Cu_return NGX_HTTP_PARSE_INVALID_REQUEST) q s'
    | Some stack' \<Rightarrow> \<exists>q s'. scan (cu_step True) (concat (map (\<lambda>x. x @ [c_slash]) (x # ss))) p s = Ran_out q s' \<and>
        cu_state s' = Plain cu_sw_slash \<and> cu_out s' = path_of stack'"
    if "cu_step True (p + length x) c_slash s1 = Next s2" "cu_state s2 = Plain cu_sw_slash"
      "cu_out s2 = path_of st" "stack_ok st" for s2 st
  proof -
    have e: "scan (cu_step True) (concat (map (\<lambda>x. x @ [c_slash]) (x # ss))) p s =
        scan (cu_step True) (concat (map (\<lambda>x. x @ [c_slash]) ss)) (Suc (p + length x)) s2"
      using s1(1) that(1) by (simp add: scan_append)
    show ?thesis
      using Cons.IH [OF that(2-4), of "Suc (p + length x)"] Cons.prems(4) unfolding e by simp
  qed
  show ?case
  proof (cases "x = dot_dot_segment \<and> stack = []")
    case True
    then obtain s2 where "cu_step True (p + length x) c_slash s1 =
        Exit (Cu_return NGX_HTTP_PARSE_INVALID_REQUEST) s2"
      using slash by auto
    moreover have "resolve stack (x # ss) = None" using True by simp
    ultimately show ?thesis
      using s1(1) by (simp add: scan_append)
  next
    case False
    then obtain s2 st where "cu_step True (p + length x) c_slash s1 = Next s2"
        "cu_state s2 = Plain cu_sw_slash" "cu_out s2 = path_of st" "stack_ok st"
        "resolve stack (x # ss) = resolve st ss"
      using slash Cons.prems(3) x(2) stack_ok_butlast [OF Cons.prems(3)]
      by (auto simp: stack_ok_def simp del: path_of_simps split: if_splits)
    with IH show ?thesis by simp
  qed
qed simp

lemma cu_first_slash:
  "\<exists>s. cu_step m a c_slash (cu_start r) = Next s \<and> cu_state s = Plain cu_sw_slash \<and> cu_out s = path_of []"
  by (simp add: cu_start_def cu_defs usual_iff)

lemma complex_uri_segments:
  assumes "\<forall>x \<in> set ss. \<forall>c \<in> set x. plain_byte c" "\<forall>c \<in> set last_seg. plain_byte c"
    and "slice buf (off (uri_start r)) (off (uri_end r)) = path_of ss @ last_seg"
  shows "case resolve [] ss of
      None \<Rightarrow> fst (ngx_http_parse_complex_uri buf r True) = NGX_HTTP_PARSE_INVALID_REQUEST
    | Some stack \<Rightarrow> fst (ngx_http_parse_complex_uri buf r True) = NGX_OK \<and>
        uri (snd (ngx_http_parse_complex_uri buf r True)) = path_of stack @ last_seg"
proof -
  let ?a = "off (uri_start r)"
  obtain s0 where s0: "cu_step True ?a c_slash (cu_start r) = Next s0"
      "cu_state s0 = Plain cu_sw_slash" "cu_out s0 = path_of []"
    using cu_first_slash by blast
  have scan: "scan (cu_step True) (path_of ss @ last_seg) ?a (cu_start r) =
    (case scan (cu_step True) (concat (map (\<lambda>x. x @ [c_slash]) ss)) (Suc ?a) s0 of
        Ran_out p' s' \<Rightarrow> scan (cu_step True) last_seg p' s'
      | Exited x p' s' \<Rightarrow> Exited x p' s')"
    by (simp add: path_of_def s0(1) scan_append)
  note segs = scan_segments [OF s0(2,3) _ assms(1), of "Suc ?a"]
  show ?thesis
  proof (cases "resolve [] ss")
    case None
    with segs show ?thesis
      by (auto simp: stack_ok_def ngx_http_parse_complex_uri_def Let_def assms(3) scan)
  next
    case (Some stack)
    with segs obtain q s1 where s1: "scan (cu_step True) (concat (map (\<lambda>x. x @ [c_slash]) ss)) (Suc ?a) s0 =
        Ran_out q s1" "cu_state s1 = Plain cu_sw_slash" "cu_out s1 = path_of stack"
      by (auto simp: stack_ok_def)
    with scan_segment [OF s1(2) assms(2), of True q] Some show ?thesis
      by (auto simp: ngx_http_parse_complex_uri_def Let_def assms(3) scan)
  qed
qed

text \<open>C2. On a path of the segments \<open>ss\<close> and a last segment, none of which contains a percent sign, a
  question mark or a number sign, and with slashes merged, \<open>ngx_http_parse_complex_uri\<close> computes
  the resolution of the segments: empty segments and \<^verbatim>\<open>.\<close> vanish, \<^verbatim>\<open>..\<close> removes the segment before
  it, \<^verbatim>\<open>..\<close> above the root is refused, and what follows the last slash is copied.\<close>

theorem complex_uri_resolves:
  assumes "\<forall>x \<in> set ss. \<forall>c \<in> set x. plain_byte c" "\<forall>c \<in> set last_seg. plain_byte c"
    and "slice buf (off (uri_start r)) (off (uri_end r)) = path_of ss @ last_seg"
  shows "case resolve [] ss of
      None \<Rightarrow> fst (ngx_http_parse_complex_uri buf r True) = NGX_HTTP_PARSE_INVALID_REQUEST
    | Some stack \<Rightarrow> fst (ngx_http_parse_complex_uri buf r True) = NGX_OK \<and>
        uri (snd (ngx_http_parse_complex_uri buf r True)) = path_of stack @ last_seg"
  using assms by (rule complex_uri_segments)

theorem complex_uri_resolves_witness:
  "uri (snd (ngx_http_parse_complex_uri (bytes ''/a/../b//./c'')
     (ngx_http_request_new\<lparr>uri_start := Some 0, uri_end := Some 12\<rparr>) True)) = bytes ''/b/c''"
  using complex_uri_resolves [of "[bytes ''a'', bytes ''..'', bytes ''b'', [], bytes ''.'']" "bytes ''c''"
      "bytes ''/a/../b//./c''" "ngx_http_request_new\<lparr>uri_start := Some 0, uri_end := Some 12\<rparr>"]
  by (simp add: bytes_def slice_def path_of_def plain_byte_def dot_segment_def dot_dot_segment_def)

text \<open>A trailing \<^verbatim>\<open>/..\<close> is left in place: the path \<^verbatim>\<open>/a/..\<close> is accepted and stays \<^verbatim>\<open>/a/..\<close>, while
  \<^verbatim>\<open>/a/../\<close> becomes \<^verbatim>\<open>/\<close>.\<close>

theorem complex_uri_trailing_dot_dot:
  "uri (snd (ngx_http_parse_complex_uri (bytes ''/a/..'')
     (ngx_http_request_new\<lparr>uri_start := Some 0, uri_end := Some 5\<rparr>) True)) = bytes ''/a/..'' \<and>
   uri (snd (ngx_http_parse_complex_uri (bytes ''/a/../'')
     (ngx_http_request_new\<lparr>uri_start := Some 0, uri_end := Some 6\<rparr>) True)) = bytes ''/''"
  using complex_uri_segments [of "[bytes ''a'']" "bytes ''..''"
      "bytes ''/a/..''" "ngx_http_request_new\<lparr>uri_start := Some 0, uri_end := Some 5\<rparr>"]
    complex_uri_segments [of "[bytes ''a'', bytes ''..'']" "[]"
      "bytes ''/a/../''" "ngx_http_request_new\<lparr>uri_start := Some 0, uri_end := Some 6\<rparr>"]
  by (simp add: bytes_def slice_def path_of_def plain_byte_def dot_segment_def dot_dot_segment_def)

end
