(* ===== verification/Http_Header_Line.thy ===== *)
theory Http_Header_Line
  imports Http_Request_Line
begin

text \<open>
  \<open>ngx_http_parse_header_line\<close> of \<open>src/http/ngx_http_parse.c\<close>, which reads one header line and on
  the way computes the hash and the lower case form of the header name, and the part of
  \<open>ngx_http_process_request_headers\<close> of \<open>src/http/ngx_http_request.c\<close> that turns header lines into
  entries of \<open>headers_in.headers\<close>.

  The function keeps \<open>hash\<close> and \<open>i\<close> in local variables that it loads from the request on entry and
  stores when it returns \<open>NGX_AGAIN\<close> or \<open>NGX_OK\<close>, but not on the other returns; the record \<open>hl\<close> is
  the state of its loop.
\<close>

section \<open>State\<close>

record ngx_http_header_in =
  header_hash :: ngx_uint_t
  lowcase_index :: nat
  lowcase_header :: "u_char list"
  header_name_start :: ptr
  header_name_end :: ptr
  header_start :: ptr
  header_end :: ptr
  invalid_header :: bool
  upstream :: bool

definition NGX_HTTP_LC_HEADER_LEN :: nat where
  "NGX_HTTP_LC_HEADER_LEN = 32"

definition ngx_http_header_new :: ngx_http_header_in where
  "ngx_http_header_new =
     \<lparr> header_hash = 0, lowcase_index = 0, lowcase_header = replicate NGX_HTTP_LC_HEADER_LEN 0,
       header_name_start = None, header_name_end = None, header_start = None, header_end = None,
       invalid_header = False, upstream = False \<rparr>"

text \<open>The table \<open>lowcase[]\<close>: digits, letters and \<^verbatim>\<open>-\<close> map to their lower case form, others to 0.\<close>

definition lowcase :: "u_char list" where
  "lowcase =
    [0, 0, 0, 0, 0, 0, 0, 0, 0, 0, 0, 0, 0, 0, 0, 0, 0, 0, 0, 0, 0, 0, 0, 0, 0, 0, 0, 0, 0, 0, 0, 0,
     0, 0, 0, 0, 0, 0, 0, 0, 0, 0, 0, 0, 0, 0x2d, 0, 0,
     0x30, 0x31, 0x32, 0x33, 0x34, 0x35, 0x36, 0x37, 0x38, 0x39, 0, 0, 0, 0, 0, 0,
     0, 0x61, 0x62, 0x63, 0x64, 0x65, 0x66, 0x67, 0x68, 0x69, 0x6a, 0x6b, 0x6c, 0x6d, 0x6e, 0x6f,
     0x70, 0x71, 0x72, 0x73, 0x74, 0x75, 0x76, 0x77, 0x78, 0x79, 0x7a, 0, 0, 0, 0, 0,
     0, 0x61, 0x62, 0x63, 0x64, 0x65, 0x66, 0x67, 0x68, 0x69, 0x6a, 0x6b, 0x6c, 0x6d, 0x6e, 0x6f,
     0x70, 0x71, 0x72, 0x73, 0x74, 0x75, 0x76, 0x77, 0x78, 0x79, 0x7a, 0, 0, 0, 0, 0,
     0, 0, 0, 0, 0, 0, 0, 0, 0, 0, 0, 0, 0, 0, 0, 0, 0, 0, 0, 0, 0, 0, 0, 0, 0, 0, 0, 0, 0, 0, 0, 0,
     0, 0, 0, 0, 0, 0, 0, 0, 0, 0, 0, 0, 0, 0, 0, 0, 0, 0, 0, 0, 0, 0, 0, 0, 0, 0, 0, 0, 0, 0, 0, 0,
     0, 0, 0, 0, 0, 0, 0, 0, 0, 0, 0, 0, 0, 0, 0, 0, 0, 0, 0, 0, 0, 0, 0, 0, 0, 0, 0, 0, 0, 0, 0, 0,
     0, 0, 0, 0, 0, 0, 0, 0, 0, 0, 0, 0, 0, 0, 0, 0, 0, 0, 0, 0, 0, 0, 0, 0, 0, 0, 0, 0, 0, 0, 0, 0]"

text \<open>\<open>ngx_hash\<close> of \<open>src/core/ngx_hash.h\<close>, at the width of \<open>ngx_uint_t\<close>, and \<open>ngx_hash_key\<close> of
  \<open>src/core/ngx_hash.c\<close>.\<close>

definition ngx_hash :: "ngx_uint_t \<Rightarrow> u_char \<Rightarrow> ngx_uint_t" where
  "ngx_hash key c = key * 31 + ucast c"

definition ngx_hash_key :: "u_char list \<Rightarrow> ngx_uint_t" where
  "ngx_hash_key data = foldl ngx_hash 0 data"

datatype hl_state =
    hl_sw_start
  | hl_sw_name
  | hl_sw_space_before_value
  | hl_sw_value
  | hl_sw_space_after_value
  | hl_sw_ignore_line
  | hl_sw_almost_done
  | hl_sw_header_almost_done

datatype hl_exit = Hl_done | Hl_header_done | Hl_return ngx_rc

record hl =
  hl_hash :: ngx_uint_t
  hl_i :: nat
  hl_r :: ngx_http_header_in

type_synonym hl_flow = "(hl_state \<times> hl, hl_exit) flow"

abbreviation hl_invalid :: "hl_state \<Rightarrow> hl \<Rightarrow> hl_flow" where
  "hl_invalid st s \<equiv> Exit (Hl_return NGX_HTTP_PARSE_INVALID_HEADER) (st, s)"

definition hl_upd :: "(ngx_http_header_in \<Rightarrow> ngx_http_header_in) \<Rightarrow> hl \<Rightarrow> hl" where
  "hl_upd f s = s\<lparr>hl_r := f (hl_r s)\<rparr>"

section \<open>The state machine\<close>

text \<open>The first byte of a name, \<open>hash = ngx_hash(0, c); r->lowcase_header[0] = c; i = 1\<close>, and the
  following ones.\<close>

definition hl_first :: "u_char \<Rightarrow> hl \<Rightarrow> hl" where
  "hl_first c s =
     s\<lparr>hl_hash := ngx_hash 0 c, hl_i := 1,
       hl_r := (hl_r s)\<lparr>lowcase_header := (lowcase_header (hl_r s))[0 := c]\<rparr>\<rparr>"

definition hl_push :: "u_char \<Rightarrow> hl \<Rightarrow> hl" where
  "hl_push c s =
     s\<lparr>hl_hash := ngx_hash (hl_hash s) c,
       hl_i := (hl_i s + 1) AND (NGX_HTTP_LC_HEADER_LEN - 1),
       hl_r := (hl_r s)\<lparr>lowcase_header := (lowcase_header (hl_r s))[hl_i s := c]\<rparr>\<rparr>"

definition hl_bad :: "hl \<Rightarrow> hl" where
  "hl_bad = hl_upd (\<lambda>r. r\<lparr>invalid_header := True\<rparr>)"

definition hl_start :: "bool \<Rightarrow> nat \<Rightarrow> u_char \<Rightarrow> hl \<Rightarrow> hl_flow" where
  "hl_start allow_underscores p ch s =
    (let s = hl_upd (\<lambda>r. r\<lparr>header_name_start := Some p, invalid_header := False\<rparr>) s;
         c = lowcase ! unat ch
     in
     if ch = CR then Next (hl_sw_header_almost_done, hl_upd (\<lambda>r. r\<lparr>header_end := Some p\<rparr>) s)
     else if ch = LF then Exit Hl_header_done (hl_sw_start, hl_upd (\<lambda>r. r\<lparr>header_end := Some p\<rparr>) s)
     else if c \<noteq> 0 then Next (hl_sw_name, hl_first c s)
     else if ch = c_under then
       Next (hl_sw_name, if allow_underscores then hl_first ch s else hl_bad s)
     else if ch = NUL then hl_invalid hl_sw_name s
     else Next (hl_sw_name, hl_bad s))"

definition hl_name :: "bool \<Rightarrow> u_char list \<Rightarrow> nat \<Rightarrow> u_char \<Rightarrow> hl \<Rightarrow> hl_flow" where
  "hl_name allow_underscores buf p ch s =
    (let c = lowcase ! unat ch; a = off (header_name_start (hl_r s)) in
     if c \<noteq> 0 then Next (hl_sw_name, hl_push c s)
     else if ch = c_under then
       Next (hl_sw_name, if allow_underscores then hl_push ch s else hl_bad s)
     else if ch = c_colon then
       Next (hl_sw_space_before_value, hl_upd (\<lambda>r. r\<lparr>header_name_end := Some p\<rparr>) s)
     else if ch = CR then
       Next (hl_sw_almost_done,
         hl_upd (\<lambda>r. r\<lparr>header_name_end := Some p, header_start := Some p, header_end := Some p\<rparr>) s)
     else if ch = LF then
       Exit Hl_done (hl_sw_name,
         hl_upd (\<lambda>r. r\<lparr>header_name_end := Some p, header_start := Some p, header_end := Some p\<rparr>) s)
     else if ch = c_slash \<and> upstream (hl_r s) \<and> p - a = 4 \<and> slice buf a p = bytes ''HTTP'' then
       Next (hl_sw_ignore_line, s)
     else if ch = NUL then hl_invalid hl_sw_name s
     else Next (hl_sw_name, hl_bad s))"

definition hl_space_before_value :: "nat \<Rightarrow> u_char \<Rightarrow> hl \<Rightarrow> hl_flow" where
  "hl_space_before_value p ch s =
    (if ch = SP then Next (hl_sw_space_before_value, s)
     else if ch = CR then
       Next (hl_sw_almost_done, hl_upd (\<lambda>r. r\<lparr>header_start := Some p, header_end := Some p\<rparr>) s)
     else if ch = LF then
       Exit Hl_done (hl_sw_space_before_value,
         hl_upd (\<lambda>r. r\<lparr>header_start := Some p, header_end := Some p\<rparr>) s)
     else if ch = NUL then hl_invalid hl_sw_space_before_value s
     else Next (hl_sw_value, hl_upd (\<lambda>r. r\<lparr>header_start := Some p\<rparr>) s))"

definition hl_value :: "nat \<Rightarrow> u_char \<Rightarrow> hl \<Rightarrow> hl_flow" where
  "hl_value p ch s =
    (if ch = SP then Next (hl_sw_space_after_value, hl_upd (\<lambda>r. r\<lparr>header_end := Some p\<rparr>) s)
     else if ch = CR then Next (hl_sw_almost_done, hl_upd (\<lambda>r. r\<lparr>header_end := Some p\<rparr>) s)
     else if ch = LF then Exit Hl_done (hl_sw_value, hl_upd (\<lambda>r. r\<lparr>header_end := Some p\<rparr>) s)
     else if ch = NUL then hl_invalid hl_sw_value s
     else Next (hl_sw_value, s))"

definition hl_space_after_value :: "u_char \<Rightarrow> hl \<Rightarrow> hl_flow" where
  "hl_space_after_value ch s =
    (if ch = SP then Next (hl_sw_space_after_value, s)
     else if ch = CR then Next (hl_sw_almost_done, s)
     else if ch = LF then Exit Hl_done (hl_sw_space_after_value, s)
     else if ch = NUL then hl_invalid hl_sw_space_after_value s
     else Next (hl_sw_value, s))"

definition hl_ignore_line :: "u_char \<Rightarrow> hl \<Rightarrow> hl_flow" where
  "hl_ignore_line ch s =
    (if ch = LF then Next (hl_sw_start, s) else Next (hl_sw_ignore_line, s))"

definition hl_almost_done :: "u_char \<Rightarrow> hl \<Rightarrow> hl_flow" where
  "hl_almost_done ch s =
    (if ch = LF then Exit Hl_done (hl_sw_almost_done, s)
     else if ch = CR then Next (hl_sw_almost_done, s)
     else hl_invalid hl_sw_almost_done s)"

definition hl_header_almost_done :: "u_char \<Rightarrow> hl \<Rightarrow> hl_flow" where
  "hl_header_almost_done ch s =
    (if ch = LF then Exit Hl_header_done (hl_sw_header_almost_done, s)
     else hl_invalid hl_sw_header_almost_done s)"

fun hl_step :: "bool \<Rightarrow> u_char list \<Rightarrow> nat \<Rightarrow> u_char \<Rightarrow> hl_state \<times> hl \<Rightarrow> hl_flow" where
  "hl_step au buf p ch (hl_sw_start, s) = hl_start au p ch s"
| "hl_step au buf p ch (hl_sw_name, s) = hl_name au buf p ch s"
| "hl_step au buf p ch (hl_sw_space_before_value, s) = hl_space_before_value p ch s"
| "hl_step au buf p ch (hl_sw_value, s) = hl_value p ch s"
| "hl_step au buf p ch (hl_sw_space_after_value, s) = hl_space_after_value ch s"
| "hl_step au buf p ch (hl_sw_ignore_line, s) = hl_ignore_line ch s"
| "hl_step au buf p ch (hl_sw_almost_done, s) = hl_almost_done ch s"
| "hl_step au buf p ch (hl_sw_header_almost_done, s) = hl_header_almost_done ch s"

definition hl_enter :: "ngx_http_header_in \<Rightarrow> hl" where
  "hl_enter r = \<lparr>hl_hash = header_hash r, hl_i = lowcase_index r, hl_r = r\<rparr>"

definition hl_leave :: "hl \<Rightarrow> ngx_http_header_in" where
  "hl_leave s = (hl_r s)\<lparr>header_hash := hl_hash s, lowcase_index := hl_i s\<rparr>"

definition ngx_http_parse_header_line ::
  "bool \<Rightarrow> hl_state \<Rightarrow> ngx_http_header_in \<Rightarrow> ngx_buf \<Rightarrow>
   ngx_rc \<times> hl_state \<times> ngx_http_header_in \<times> ngx_buf" where
  "ngx_http_parse_header_line allow_underscores st r b =
    (case scan (hl_step allow_underscores (b_data b)) (drop (b_pos b) (b_data b)) (b_pos b)
            (st, hl_enter r) of
       Ran_out p (st', s) \<Rightarrow> (NGX_AGAIN, st', hl_leave s, b\<lparr>b_pos := p\<rparr>)
     | Exited Hl_done p (_, s) \<Rightarrow> (NGX_OK, hl_sw_start, hl_leave s, b\<lparr>b_pos := p + 1\<rparr>)
     | Exited Hl_header_done p (_, s) \<Rightarrow>
         (NGX_HTTP_PARSE_HEADER_DONE, hl_sw_start, hl_r s, b\<lparr>b_pos := p + 1\<rparr>)
     | Exited (Hl_return rc) p (_, s) \<Rightarrow> (rc, st, hl_r s, b))"

named_theorems hl_defs

declare hl_start_def [hl_defs] hl_name_def [hl_defs] hl_space_before_value_def [hl_defs]
  hl_value_def [hl_defs] hl_space_after_value_def [hl_defs] hl_ignore_line_def [hl_defs]
  hl_almost_done_def [hl_defs] hl_header_almost_done_def [hl_defs]

section \<open>The entries of headers_in.headers\<close>

record ngx_table_elt =
  h_hash :: ngx_uint_t
  h_key :: "u_char list"
  h_value :: "u_char list"
  h_lowcase_key :: "u_char list"

text \<open>\<open>ngx_strlow\<close> of \<open>src/core/ngx_string.c\<close>.\<close>

definition ngx_strlow :: "u_char list \<Rightarrow> u_char list" where
  "ngx_strlow src = map ngx_tolower src"

definition header_elt :: "u_char list \<Rightarrow> ngx_http_header_in \<Rightarrow> ngx_table_elt" where
  "header_elt buf r =
    (let key = slice buf (off (header_name_start r)) (off (header_name_end r)) in
     \<lparr> h_hash = header_hash r,
       h_key = key,
       h_value = slice buf (off (header_start r)) (off (header_end r)),
       h_lowcase_key =
         (if length key = lowcase_index r then take (length key) (lowcase_header r)
          else ngx_strlow key) \<rparr>)"

text \<open>\<open>h->key.data[h->key.len] = '\0'; h->value.data[h->value.len] = '\0'\<close>.\<close>

definition header_terminate :: "ngx_http_header_in \<Rightarrow> ngx_buf \<Rightarrow> ngx_buf" where
  "header_terminate r b =
     b\<lparr>b_data := (b_data b)[off (header_name_end r) := NUL, off (header_end r) := NUL]\<rparr>"

end
