(* ===== verification/Http_Header_Line_Inv.thy ===== *)
theory Http_Header_Line_Inv
  imports Http_Header_Line
begin

text \<open>
  The invariant of the header line parser. While the name is free of invalid bytes, the running hash
  is the hash of the lower case name read so far, the index is its length modulo 32, and the first
  bytes of \<open>lowcase_header\<close> are the lower case name; the value is delimited without the spaces
  around it. The parser is an instance of \<open>resumable\<close>.
\<close>

section \<open>The lower case table\<close>

definition is_name_char :: "bool \<Rightarrow> u_char \<Rightarrow> bool" where
  "is_name_char au c \<longleftrightarrow>
     is_upper c \<or> is_lower c \<or> is_digit c \<or> c = c_minus \<or> au \<and> c = c_under"

lemma lowcase_all:
  "\<forall>c. lowcase ! unat c =
     (if is_upper c \<or> is_lower c \<or> is_digit c \<or> c = c_minus then ngx_tolower c else 0)"
  unfolding byte_forall by (simp add: all_bytes_def lowcase_def ngx_tolower_def ch_defs) (simp add: word_le_nat_alt)

lemmas lowcase_nth = lowcase_all [rule_format]

lemma tolower_nonzero_all: "\<forall>c. (is_upper c \<or> is_lower c \<or> is_digit c \<or> c = c_minus) \<longrightarrow> ngx_tolower c \<noteq> 0"
  unfolding byte_forall by (simp add: all_bytes_def ngx_tolower_def ch_defs)

lemma lowcase_name_char:
  "lowcase ! unat c \<noteq> 0 \<Longrightarrow> is_name_char au c \<and> lowcase ! unat c = ngx_tolower c"
  by (auto simp: lowcase_nth is_name_char_def split: if_splits)

lemma name_char_lowcase:
  "is_name_char au c \<Longrightarrow> c \<noteq> c_under \<Longrightarrow> lowcase ! unat c = ngx_tolower c \<and> ngx_tolower c \<noteq> 0"
  using tolower_nonzero_all by (auto simp: lowcase_nth is_name_char_def)

lemma lowcase_specials [simp]:
  "lowcase ! 95 = 0" "lowcase ! 58 = 0" "lowcase ! 13 = 0" "lowcase ! 10 = 0" "lowcase ! 47 = 0"
  by (simp_all add: lowcase_def)

lemma tolower_under [simp]: "ngx_tolower c_under = c_under"
  by (simp add: ngx_tolower_def ch_defs)

lemma and_31: "(n :: nat) AND 31 = n mod 32"
proof -
  have "n AND 31 = take_bit 5 n" by (simp add: take_bit_eq_mask mask_eq_exp_minus_1)
  then show ?thesis by (simp add: take_bit_eq_mod)
qed

section \<open>The invariant\<close>

text \<open>The bytes from \<open>a\<close> to \<open>q\<close> are a name without invalid bytes, and \<open>hash\<close>, \<open>i\<close> and \<open>low\<close> are
  what the parser computes from it.\<close>

definition name_read :: "bool \<Rightarrow> u_char list \<Rightarrow> nat \<Rightarrow> nat \<Rightarrow> ngx_uint_t \<Rightarrow> nat \<Rightarrow> u_char list \<Rightarrow> bool" where
  "name_read au buf a q hash i low \<longleftrightarrow>
     (\<forall>c \<in> set (slice buf a q). is_name_char au c) \<and>
     hash = ngx_hash_key (ngx_strlow (slice buf a q)) \<and>
     i = (q - a) mod 32 \<and>
     (q - a < 32 \<longrightarrow> take (q - a) low = ngx_strlow (slice buf a q))"

definition name_done :: "bool \<Rightarrow> u_char list \<Rightarrow> nat \<Rightarrow> hl \<Rightarrow> bool" where
  "name_done au buf p s \<longleftrightarrow>
     (\<exists>a e. header_name_start (hl_r s) = Some a \<and> header_name_end (hl_r s) = Some e \<and>
        a < e \<and> e \<le> p \<and>
        (\<not> invalid_header (hl_r s) \<longrightarrow>
           name_read au buf a e (hl_hash s) (hl_i s) (lowcase_header (hl_r s))))"

definition value_bytes :: "u_char list \<Rightarrow> nat \<Rightarrow> nat \<Rightarrow> bool" where
  "value_bytes buf v z \<longleftrightarrow> (\<forall>i. v \<le> i \<and> i < z \<longrightarrow> buf ! i \<notin> {NUL, CR, LF})"

definition value_done :: "u_char list \<Rightarrow> nat \<Rightarrow> hl \<Rightarrow> bool" where
  "value_done buf p s \<longleftrightarrow>
     (\<exists>e v z. header_name_end (hl_r s) = Some e \<and> header_start (hl_r s) = Some v \<and>
        header_end (hl_r s) = Some z \<and>
        e \<le> v \<and> v \<le> z \<and> z \<le> p \<and> value_bytes buf v z \<and>
        (v < z \<longrightarrow> buf ! v \<noteq> SP \<and> buf ! (z - 1) \<noteq> SP))"

definition in_value :: "u_char list \<Rightarrow> nat \<Rightarrow> hl \<Rightarrow> bool" where
  "in_value buf p s \<longleftrightarrow>
     (\<exists>e v. header_name_end (hl_r s) = Some e \<and> header_start (hl_r s) = Some v \<and> e \<le> v \<and> v < p \<and>
        value_bytes buf v p \<and> buf ! v \<noteq> SP)"

fun hl_inv_in :: "bool \<Rightarrow> u_char list \<Rightarrow> nat \<Rightarrow> hl_state \<Rightarrow> hl \<Rightarrow> bool" where
  "hl_inv_in au buf p hl_sw_name s \<longleftrightarrow>
     (\<exists>a. header_name_start (hl_r s) = Some a \<and> a < p \<and>
        (\<not> invalid_header (hl_r s) \<longrightarrow>
           name_read au buf a p (hl_hash s) (hl_i s) (lowcase_header (hl_r s))))"
| "hl_inv_in au buf p hl_sw_space_before_value s \<longleftrightarrow> name_done au buf p s"
| "hl_inv_in au buf p hl_sw_value s \<longleftrightarrow>
     name_done au buf p s \<and> in_value buf p s \<and> buf ! (p - 1) \<noteq> SP"
| "hl_inv_in au buf p hl_sw_space_after_value s \<longleftrightarrow>
     name_done au buf p s \<and> in_value buf p s \<and> value_done buf p s"
| "hl_inv_in au buf p hl_sw_almost_done s \<longleftrightarrow> name_done au buf p s \<and> value_done buf p s"
| "hl_inv_in au buf p st s \<longleftrightarrow> True"

definition hl_array :: "hl \<Rightarrow> bool" where
  "hl_array s \<longleftrightarrow> length (lowcase_header (hl_r s)) = 32 \<and> hl_i s < 32"

fun hl_inv :: "bool \<Rightarrow> u_char list \<Rightarrow> nat \<Rightarrow> hl_state \<times> hl \<Rightarrow> bool" where
  "hl_inv au buf p (st, s) \<longleftrightarrow> hl_array s \<and> hl_inv_in au buf p st s"

fun hl_post :: "bool \<Rightarrow> u_char list \<Rightarrow> nat \<Rightarrow> hl_exit \<Rightarrow> hl_state \<times> hl \<Rightarrow> bool" where
  "hl_post au buf p Hl_done (st, s) \<longleftrightarrow> hl_array s \<and> name_done au buf p s \<and> value_done buf p s"
| "hl_post au buf p Hl_header_done (st, s) \<longleftrightarrow> hl_array s"
| "hl_post au buf p (Hl_return rc) (st, s) \<longleftrightarrow> rc = NGX_HTTP_PARSE_INVALID_HEADER"

section \<open>Every step keeps the invariant\<close>

lemma ngx_strlow_simps [simp]:
  "ngx_strlow [] = []" "ngx_strlow (c # cs) = ngx_tolower c # ngx_strlow cs"
  "ngx_strlow (xs @ ys) = ngx_strlow xs @ ngx_strlow ys" "length (ngx_strlow xs) = length xs"
  by (simp_all add: ngx_strlow_def)

lemma ngx_hash_key_simps [simp]:
  "ngx_hash_key [] = 0" "ngx_hash_key (xs @ [c]) = ngx_hash (ngx_hash_key xs) c"
  by (simp_all add: ngx_hash_key_def)

lemma name_read_first:
  assumes "p < length buf" "is_name_char au (buf ! p)" "0 < length low"
  shows "name_read au buf p (Suc p) (ngx_hash 0 (ngx_tolower (buf ! p))) 1 (low[0 := ngx_tolower (buf ! p)])"
proof -
  have "slice buf p (Suc p) = [buf ! p]" using assms(1) by (simp add: slice_Suc)
  then show ?thesis
    using assms by (auto simp: name_read_def ngx_hash_key_def take_Suc_conv_app_nth)
qed

lemma name_read_push:
  assumes "name_read au buf a p hash i low" "a < p" "p < length buf" "is_name_char au (buf ! p)"
    and "length low = 32"
  shows "name_read au buf a (Suc p) (ngx_hash hash (ngx_tolower (buf ! p))) (Suc i mod 32)
           (low[i := ngx_tolower (buf ! p)])"
proof -
  have s: "slice buf a (Suc p) = slice buf a p @ [buf ! p]"
    using assms(2,3) by (simp add: slice_Suc)
  have "take (Suc p - a) (low[i := ngx_tolower (buf ! p)]) = ngx_strlow (slice buf a (Suc p))"
    if "Suc p - a < 32"
  proof -
    have "i = p - a" "i < 32" "take (p - a) low = ngx_strlow (slice buf a p)"
      using assms(1,2) that by (auto simp: name_read_def)
    then show ?thesis
      using assms(2,5) by (simp add: s Suc_diff_le take_Suc_conv_app_nth)
  qed
  moreover have "Suc i mod 32 = (Suc p - a) mod 32"
    using assms(1,2) by (simp add: name_read_def Suc_diff_le mod_Suc_eq)
  ultimately show ?thesis
    using assms(1,4) by (auto simp: name_read_def s)
qed

lemma hl_upd_simps [simp]:
  "hl_hash (hl_upd f s) = hl_hash s" "hl_i (hl_upd f s) = hl_i s" "hl_r (hl_upd f s) = f (hl_r s)"
  by (simp_all add: hl_upd_def)

lemma name_done_Suc: "name_done au buf p s \<Longrightarrow> name_done au buf (Suc p) s"
  by (auto simp: name_done_def)

lemma value_done_Suc: "value_done buf p s \<Longrightarrow> value_done buf (Suc p) s"
  by (fastforce simp: value_done_def)

lemma value_bytes_Suc:
  "value_bytes buf v p \<Longrightarrow> buf ! p \<notin> {NUL, CR, LF} \<Longrightarrow> value_bytes buf v (Suc p)"
  by (auto simp: value_bytes_def less_Suc_eq)

lemma in_value_Suc: "in_value buf p s \<Longrightarrow> buf ! p \<notin> {NUL, CR, LF} \<Longrightarrow> in_value buf (Suc p) s"
  by (auto simp: in_value_def intro: value_bytes_Suc)

lemma hl_start_inv:
  assumes "hl_array s" "p < length buf" "hl_start au p (buf ! p) s = Next s'"
  shows "hl_inv au buf (Suc p) s'"
proof (cases "is_name_char au (buf ! p) \<and> buf ! p \<noteq> CR \<and> buf ! p \<noteq> LF")
  case True
  have "lowcase_header (hl_r s) \<noteq> []" using assms(1) by (auto simp: hl_array_def)
  with True have "name_read au buf p (Suc p) (ngx_hash 0 (ngx_tolower (buf ! p))) 1
      ((lowcase_header (hl_r s))[0 := ngx_tolower (buf ! p)])"
    using name_read_first [of p buf au "lowcase_header (hl_r s)"] assms(2) by simp
  moreover have "s' = (hl_sw_name, hl_first (ngx_tolower (buf ! p))
      (hl_upd (\<lambda>r. r\<lparr>header_name_start := Some p, invalid_header := False\<rparr>) s))"
    using True assms(3) name_char_lowcase [of au "buf ! p"]
    by (cases "buf ! p = c_under") (auto simp: hl_start_def Let_def is_name_char_def ch_defs)
  ultimately show ?thesis
    using assms(1) by (simp add: hl_first_def hl_array_def)
next
  case False
  then have n: "buf ! p = CR \<or> buf ! p = LF \<or> lowcase ! unat (buf ! p) = 0 \<and> (buf ! p = c_under \<longrightarrow> \<not> au)"
    using lowcase_name_char [of "buf ! p" au] by (auto simp: is_name_char_def)
  have "s' = (hl_sw_header_almost_done, t) \<Longrightarrow> hl_array t \<Longrightarrow> ?thesis" for t by simp
  moreover have "s' = (hl_sw_name, t) \<Longrightarrow> hl_array t \<Longrightarrow> invalid_header (hl_r t) \<Longrightarrow>
      header_name_start (hl_r t) = Some p \<Longrightarrow> ?thesis" for t by simp
  ultimately show ?thesis
    using assms(1,3) n unfolding hl_start_def Let_def
    by (auto simp del: hl_inv.simps simp: hl_array_def hl_bad_def split: if_splits)
qed

lemma hl_name_inv:
  assumes "hl_inv au buf p (hl_sw_name, s)" "p < length buf" "hl_name au buf p (buf ! p) s = Next s'"
  shows "hl_inv au buf (Suc p) s'"
proof -
  obtain a where a: "header_name_start (hl_r s) = Some a" "a < p"
    "\<not> invalid_header (hl_r s) \<longrightarrow> name_read au buf a p (hl_hash s) (hl_i s) (lowcase_header (hl_r s))"
    using assms(1) by auto
  have arr: "hl_array s" using assms(1) by simp
  show ?thesis
  proof (cases "is_name_char au (buf ! p)")
    case True
    have "s' = (hl_sw_name, hl_push (ngx_tolower (buf ! p)) s)"
      using True assms(3) name_char_lowcase [of au "buf ! p"]
      by (cases "buf ! p = c_under") (auto simp: hl_name_def Let_def is_name_char_def ch_defs)
    then show ?thesis
      using a arr name_read_push [of au buf a p _ _ "lowcase_header (hl_r s)"] True assms(2)
      by (auto simp: hl_push_def hl_array_def NGX_HTTP_LC_HEADER_LEN_def and_31)
  next
    case False
    then have n: "lowcase ! unat (buf ! p) = 0" using lowcase_name_char [of "buf ! p" au] by auto
    show ?thesis
      using a arr assms(3) False n
      by (auto simp: hl_name_def Let_def hl_array_def hl_bad_def is_name_char_def name_done_def
          value_done_def value_bytes_def split: if_splits)
  qed
qed

lemma hl_value_inv:
  assumes "hl_inv au buf p (st, s)" "p < length buf" "hl_step au buf p (buf ! p) (st, s) = Next s'"
    and "st \<in> {hl_sw_space_before_value, hl_sw_value, hl_sw_space_after_value, hl_sw_ignore_line,
      hl_sw_almost_done, hl_sw_header_almost_done}"
  shows "hl_inv au buf (Suc p) s'"
proof -
  have 1: "name_done au buf p s \<Longrightarrow> buf ! p \<notin> {NUL, CR, LF, SP} \<Longrightarrow>
      in_value buf (Suc p) (hl_upd (\<lambda>r. r\<lparr>header_start := Some p\<rparr>) s)"
    by (auto simp: name_done_def in_value_def value_bytes_def less_Suc_eq)
  have 2: "in_value buf p s \<Longrightarrow> buf ! (p - 1) \<noteq> SP \<Longrightarrow>
      value_done buf (Suc p) (hl_upd (\<lambda>r. r\<lparr>header_end := Some p\<rparr>) s)"
    by (auto simp: in_value_def value_done_def)
  have 3: "name_done au buf p s \<Longrightarrow>
      value_done buf (Suc p) (hl_upd (\<lambda>r. r\<lparr>header_start := Some p, header_end := Some p\<rparr>) s)"
    by (auto simp: name_done_def value_done_def value_bytes_def)
  have 4: "in_value buf q (hl_upd (\<lambda>r. r\<lparr>header_end := z\<rparr>) s) = in_value buf q s"
    "name_done au buf q (hl_upd (\<lambda>r. r\<lparr>header_end := z\<rparr>) s) = name_done au buf q s"
    "name_done au buf q (hl_upd (\<lambda>r. r\<lparr>header_start := z\<rparr>) s) = name_done au buf q s"
    "name_done au buf q (hl_upd (\<lambda>r. r\<lparr>header_start := z', header_end := z\<rparr>) s) = name_done au buf q s"
    "hl_array (hl_upd (\<lambda>r. r\<lparr>header_end := z\<rparr>) s) = hl_array s"
    "hl_array (hl_upd (\<lambda>r. r\<lparr>header_start := z\<rparr>) s) = hl_array s"
    "hl_array (hl_upd (\<lambda>r. r\<lparr>header_start := z', header_end := z\<rparr>) s) = hl_array s" for q z z'
    by (simp_all add: in_value_def name_done_def hl_array_def)
  show ?thesis
    using assms
    by (auto simp: hl_space_before_value_def hl_value_def hl_space_after_value_def hl_ignore_line_def
        hl_almost_done_def hl_header_almost_done_def 1 2 3 4 name_done_Suc in_value_Suc value_done_Suc
        split: if_splits)
qed

lemma hl_step_inv:
  assumes "hl_inv au buf p s" "p < length buf" "hl_step au buf p (buf ! p) s = Next s'"
  shows "hl_inv au buf (Suc p) s'"
proof (cases s)
  case (Pair st t)
  show ?thesis
    using assms hl_start_inv [of t p buf au s'] hl_name_inv [of au buf p t s'] hl_value_inv [of au buf p st t s']
    unfolding Pair by (cases st) simp_all
qed

lemma hl_step_post:
  assumes "hl_inv au buf p s" "hl_step au buf p (buf ! p) s = Exit x s'"
  shows "hl_post au buf p x s'"
proof (cases s)
  case (Pair st t)
  show ?thesis
    using assms unfolding Pair
    by (cases st) (auto simp: hl_defs Let_def name_done_def value_done_def in_value_def value_bytes_def
        hl_array_def split: if_splits)
qed

lemma hl_regions_append:
  assumes "p \<le> length buf"
  shows "name_done au buf p s \<Longrightarrow> name_done au (buf @ ys) p s"
    and "in_value buf p s \<Longrightarrow> in_value (buf @ ys) p s"
    and "value_done buf p s \<Longrightarrow> value_done (buf @ ys) p s"
  using assms
  by (auto simp: name_done_def name_read_def in_value_def value_done_def value_bytes_def nth_append_left)

lemma hl_inv_append:
  assumes "hl_inv au buf p s" "p \<le> length buf"
  shows "hl_inv au (buf @ ys) p s"
proof (cases s)
  case (Pair st t)
  have "in_value buf p t \<Longrightarrow> 0 < p" by (auto simp: in_value_def)
  then show ?thesis
    using assms hl_regions_append [OF assms(2)] unfolding Pair
    by (cases st) (auto simp: name_read_def nth_append_left)
qed

lemma hl_step_append:
  assumes "hl_inv au buf p s" "p < length buf"
  shows "hl_step au (buf @ ys) p (buf ! p) s = hl_step au buf p (buf ! p) s"
proof (cases s)
  case (Pair st t)
  show ?thesis
    using assms unfolding Pair by (cases st) (auto simp: hl_name_def Let_def)
qed

interpretation header_line: resumable "hl_step au" "hl_inv au" "hl_post au" for au
  by unfold_locales (simp_all add: hl_step_inv hl_step_post hl_inv_append hl_step_append)

end
