(* ===== verification/Http_Header_Props.thy ===== *)
theory Http_Header_Props
  imports Http_Header_Line_Inv
begin

text \<open>
  The loop of \<open>ngx_http_process_request_headers\<close> and what it guarantees: the entries of the header
  list carry the lower case key and its hash, a block of well-formed header lines is read back
  exactly, and reading may be interrupted at any byte. With \<open>ignore_invalid_headers off\<close> a name that
  starts with an invalid byte is entered under the hash of another name.
\<close>

section \<open>The loop over the header lines\<close>

lemma hl_step_never_ok: "hl_step au buf p ch s \<noteq> Exit (Hl_return NGX_OK) s'"
proof (cases s)
  case (Pair st t)
  show ?thesis unfolding Pair by (cases st) (auto simp: hl_defs Let_def)
qed

lemma header_line_ok_cases:
  assumes "ngx_http_parse_header_line au st r b = (NGX_OK, st', r', b')"
  obtains p u s where
    "scan (hl_step au (b_data b)) (drop (b_pos b) (b_data b)) (b_pos b) (st, hl_enter r) =
      Exited Hl_done p (u, s)"
    "st' = hl_sw_start" "r' = hl_leave s" "b' = b\<lparr>b_pos := Suc p\<rparr>"
proof -
  have "case scan (hl_step au (b_data b)) (drop (b_pos b) (b_data b)) (b_pos b) (st, hl_enter r) of
      Ran_out p s \<Rightarrow> True | Exited x p s \<Rightarrow> x \<noteq> Hl_return NGX_OK"
    by (rule scan_invariant [where Q = "\<lambda>_. True"]) (auto simp: hl_step_never_ok)
  with assms that show ?thesis
    by (auto simp: ngx_http_parse_header_line_def split: scanned.splits hl_exit.splits prod.splits)
qed

lemma header_line_progress:
  assumes "ngx_http_parse_header_line au st r b = (NGX_OK, st', r', b')"
  shows "b_pos b < b_pos b' \<and> b_pos b' \<le> length (b_data b) \<and> b_data b' = b_data b"
  using assms
proof (rule header_line_ok_cases)
  fix p u s
  assume e: "scan (hl_step au (b_data b)) (drop (b_pos b) (b_data b)) (b_pos b) (st, hl_enter r) =
      Exited Hl_done p (u, s)" "b' = b\<lparr>b_pos := Suc p\<rparr>"
  show ?thesis using scan_Exited_pos [OF e(1)] e(2) by auto
qed

text \<open>\<open>handler\<close> stands for \<open>ngx_hash_find\<close> followed by the handler of the header, if there is one: it
  is true unless a handler has refused the header and finalised the request. \<open>NGX_AGAIN\<close> is returned
  where the code goes on to read from the connection. \<open>underscores\<close> and \<open>ignore_invalid\<close> are the flags of the server
  configuration, which is fetched again for every line because the \<open>Host\<close> header may change it: they are functions of the
  headers that have been entered before.\<close>

function ngx_http_process_headers ::
  "(ngx_table_elt \<Rightarrow> bool) \<Rightarrow> (ngx_table_elt list \<Rightarrow> bool) \<Rightarrow> (ngx_table_elt list \<Rightarrow> bool) \<Rightarrow> hl_state \<Rightarrow> ngx_http_header_in \<Rightarrow> ngx_buf \<Rightarrow>
   ngx_table_elt list \<Rightarrow> ngx_rc \<times> hl_state \<times> ngx_http_header_in \<times> ngx_buf \<times> ngx_table_elt list" where
  "ngx_http_process_headers handler underscores ignore_invalid st r b headers =
    (case ngx_http_parse_header_line (underscores headers) st r b of
       (rc, st', r', b') \<Rightarrow>
         if rc = NGX_OK then
           (if invalid_header r' \<and> ignore_invalid headers then
              ngx_http_process_headers handler underscores ignore_invalid st' r' b' headers
            else
              (let h = header_elt (b_data b') r'; b'' = header_terminate r' b' in
               if handler h then
                 ngx_http_process_headers handler underscores ignore_invalid st' r' b'' (headers @ [h])
               else (NGX_ERROR, st', r', b'', headers @ [h])))
         else (rc, st', r', b', headers))"
  by pat_completeness auto

termination
  by (relation "measure (\<lambda>(_, _, _, _, _, b, _). length (b_data b) - b_pos b)")
    (auto simp: header_terminate_def dest: header_line_progress [OF sym])

declare ngx_http_process_headers.simps [simp del]

section \<open>The entries of the list\<close>

text \<open>What an entry promises to the code that looks it up by \<open>hash\<close> and \<open>lowcase_key\<close>.\<close>

definition header_entry_ok :: "bool \<Rightarrow> ngx_table_elt \<Rightarrow> bool" where
  "header_entry_ok au h \<longleftrightarrow>
     h_key h \<noteq> [] \<and> (\<forall>c \<in> set (h_key h). is_name_char au c) \<and>
     h_lowcase_key h = ngx_strlow (h_key h) \<and> h_hash h = ngx_hash_key (ngx_strlow (h_key h)) \<and>
     set (h_value h) \<inter> {NUL, CR, LF} = {} \<and>
     (h_value h \<noteq> [] \<longrightarrow> hd (h_value h) \<noteq> SP \<and> last (h_value h) \<noteq> SP)"

lemma hl_leave_simps [simp]:
  "header_hash (hl_leave s) = hl_hash s" "lowcase_index (hl_leave s) = hl_i s"
  "lowcase_header (hl_leave s) = lowcase_header (hl_r s)"
  "header_name_start (hl_leave s) = header_name_start (hl_r s)"
  "header_name_end (hl_leave s) = header_name_end (hl_r s)"
  "header_start (hl_leave s) = header_start (hl_r s)"
  "header_end (hl_leave s) = header_end (hl_r s)"
  "invalid_header (hl_leave s) = invalid_header (hl_r s)"
  by (simp_all add: hl_leave_def)

lemma value_done_slice:
  assumes "value_done buf p s" "p < length buf"
  shows "set (slice buf (off (header_start (hl_r s))) (off (header_end (hl_r s)))) \<inter> {NUL, CR, LF} = {}"
    and "slice buf (off (header_start (hl_r s))) (off (header_end (hl_r s))) \<noteq> [] \<Longrightarrow>
      hd (slice buf (off (header_start (hl_r s))) (off (header_end (hl_r s)))) \<noteq> SP \<and>
      last (slice buf (off (header_start (hl_r s))) (off (header_end (hl_r s)))) \<noteq> SP"
proof -
  obtain v z where v: "header_start (hl_r s) = Some v" "header_end (hl_r s) = Some z" "v \<le> z" "z \<le> p"
      "value_bytes buf v z" "v < z \<longrightarrow> buf ! v \<noteq> SP \<and> buf ! (z - 1) \<noteq> SP"
    using assms(1) by (auto simp: value_done_def)
  then show "set (slice buf (off (header_start (hl_r s))) (off (header_end (hl_r s)))) \<inter> {NUL, CR, LF} = {}"
    using assms(2) by (auto simp: set_slice value_bytes_def)
  assume n: "slice buf (off (header_start (hl_r s))) (off (header_end (hl_r s))) \<noteq> []"
  have "v < z" using n v by (cases "v < z") auto
  then show "hd (slice buf (off (header_start (hl_r s))) (off (header_end (hl_r s)))) \<noteq> SP \<and>
      last (slice buf (off (header_start (hl_r s))) (off (header_end (hl_r s)))) \<noteq> SP"
    using v assms(2) n by (simp add: hd_conv_nth last_conv_nth)
qed

lemma header_elt_ok:
  assumes "name_done au buf p s" "value_done buf p s" "hl_array s" "p < length buf"
    and "\<not> invalid_header (hl_r s)"
  shows "header_entry_ok au (header_elt buf (hl_leave s))"
proof -
  obtain a e where a: "header_name_start (hl_r s) = Some a" "header_name_end (hl_r s) = Some e"
      "a < e" "e \<le> p" "name_read au buf a e (hl_hash s) (hl_i s) (lowcase_header (hl_r s))"
    using assms(1,5) by (auto simp: name_done_def)
  have l: "length (slice buf a e) = e - a" using a assms(4) by simp
  have "take (e - a) (lowcase_header (hl_r s)) = ngx_strlow (slice buf a e)" if "e - a = hl_i s"
  proof -
    have "e - a < 32" using that assms(3) by (simp add: hl_array_def)
    then show ?thesis using a(5) by (simp add: name_read_def)
  qed
  moreover have "slice buf a e \<noteq> []" using l a(3) by (cases "slice buf a e = []") simp_all
  ultimately show ?thesis
    using a l value_done_slice [OF assms(2,4)]
    unfolding header_entry_ok_def header_elt_def Let_def name_read_def by simp
qed

lemma hl_array_enter: "length (lowcase_header r) = 32 \<Longrightarrow> lowcase_index r < 32 \<Longrightarrow> hl_array (hl_enter r)"
  by (simp add: hl_array_def hl_enter_def)

lemma header_new_array [simp]:
  "length (lowcase_header ngx_http_header_new) = 32" "lowcase_index ngx_http_header_new < 32"
  by (simp_all add: ngx_http_header_new_def NGX_HTTP_LC_HEADER_LEN_def)

lemma header_line_ok_post:
  assumes "ngx_http_parse_header_line au hl_sw_start r b = (NGX_OK, st', r', b')"
    and "length (lowcase_header r) = 32" "lowcase_index r < 32"
  shows "(\<not> invalid_header r' \<longrightarrow> header_entry_ok au (header_elt (b_data b) r')) \<and>
     length (lowcase_header r') = 32 \<and> lowcase_index r' < 32 \<and> st' = hl_sw_start"
  using assms(1)
proof (rule header_line_ok_cases)
  fix p u s
  assume e: "scan (hl_step au (b_data b)) (drop (b_pos b) (b_data b)) (b_pos b) (hl_sw_start, hl_enter r) =
      Exited Hl_done p (u, s)" "st' = hl_sw_start" "r' = hl_leave s"
  have inv: "hl_inv au (b_data b) (b_pos b) (hl_sw_start, hl_enter r)"
    using hl_array_enter [OF assms(2,3)] by simp
  have "b_pos b \<le> length (b_data b)" using scan_Exited_pos [OF e(1)] by auto
  from header_line.scan_Exited_post [OF inv this e(1)] show ?thesis
    using header_elt_ok [of au "b_data b" p s] e(2,3) by (auto simp: hl_array_def)
qed

text \<open>Every entry by the configuration that held when it was entered.\<close>

definition header_list_ok :: "(ngx_table_elt list \<Rightarrow> bool) \<Rightarrow> ngx_table_elt list \<Rightarrow> bool" where
  "header_list_ok underscores hs = list_all (\<lambda>i. header_entry_ok (underscores (take i hs)) (hs ! i)) [0..<length hs]"

lemma header_list_ok_snoc:
  "header_list_ok underscores (hs @ [h]) \<longleftrightarrow> header_list_ok underscores hs \<and> header_entry_ok (underscores hs) h"
  by (auto simp: header_list_ok_def list_all_iff nth_append)

lemma process_headers_ok:
  assumes "ngx_http_process_headers handler au (\<lambda>_. True) hl_sw_start r b hs = (rc, st', r', b', hs')"
    and "length (lowcase_header r) = 32" "lowcase_index r < 32" "header_list_ok au hs"
  shows "header_list_ok au hs'"
  using assms
proof (induction handler au "\<lambda>_ :: ngx_table_elt list. True" hl_sw_start r b hs rule: ngx_http_process_headers.induct)
  case (1 handler au r b hs)
  obtain rc1 st1 r1 b1 where p: "ngx_http_parse_header_line (au hs) hl_sw_start r b = (rc1, st1, r1, b1)"
    by (metis prod_cases4)
  show ?case
  proof (cases "rc1 = NGX_OK")
    case True
    note post = header_line_ok_post [OF p [unfolded True] 1(4,5)]
    have d: "b_data b1 = b_data b" using header_line_progress [OF p [unfolded True]] by simp
    show ?thesis
      using 1 post p True d
      by (auto simp: ngx_http_process_headers.simps [of handler au _ hl_sw_start r b hs] Let_def header_list_ok_snoc
          split: if_splits)
  next
    case False
    then show ?thesis
      using 1(3,6) p by (simp add: ngx_http_process_headers.simps [of handler au _ hl_sw_start r b hs])
  qed
qed

text \<open>C23. With \<open>ignore_invalid_headers on\<close>, whatever bytes a client sends, every entry of the header list
  has a non-empty name of allowed bytes, the lower case key of that name, the hash of that lower case
  key (the one \<open>ngx_hash_find\<close> needs), and a value without NUL, CR and LF and without spaces at its
  ends. This holds although the lower case key is taken from a ring of 32 bytes. Whether underscores are
  allowed in a name may change with the headers before it.\<close>

theorem header_list_entries:
  "header_list_ok underscores
     (snd (snd (snd (snd (ngx_http_process_headers handler underscores (\<lambda>_. True) hl_sw_start
       ngx_http_header_new \<lparr>b_data = buf, b_pos = 0\<rparr> [])))))"
proof -
  obtain rc st r b hs where e: "ngx_http_process_headers handler underscores (\<lambda>_. True) hl_sw_start
      ngx_http_header_new \<lparr>b_data = buf, b_pos = 0\<rparr> [] = (rc, st, r, b, hs)"
    by (metis prod_cases5)
  show ?thesis
    using process_headers_ok [OF e]
    by (simp add: e header_list_ok_def)
qed

section \<open>Reading back a block of header lines\<close>

definition hl_frame :: "hl \<Rightarrow> hl \<Rightarrow> bool" where
  "hl_frame s s' \<longleftrightarrow>
     header_name_start (hl_r s') = header_name_start (hl_r s) \<and>
     header_name_end (hl_r s') = header_name_end (hl_r s) \<and>
     header_start (hl_r s') = header_start (hl_r s) \<and>
     invalid_header (hl_r s') = invalid_header (hl_r s)"

definition hl_keep :: "hl \<Rightarrow> hl \<Rightarrow> bool" where
  "hl_keep s s' \<longleftrightarrow>
     hl_hash s' = hl_hash s \<and> hl_i s' = hl_i s \<and> lowcase_header (hl_r s') = lowcase_header (hl_r s)"

lemma hl_keep_trans: "hl_keep s s' \<Longrightarrow> hl_keep s' s'' \<Longrightarrow> hl_keep s s''"
  by (simp add: hl_keep_def)

lemma hl_frame_trans: "hl_frame s s' \<Longrightarrow> hl_frame s' s'' \<Longrightarrow> hl_frame s s''"
  by (simp add: hl_frame_def)

lemma scan_name_chars:
  assumes "\<forall>c \<in> set n. is_name_char au c"
  shows "\<exists>s'. scan (hl_step au buf) n p (hl_sw_name, s) = Ran_out (p + length n) (hl_sw_name, s') \<and> hl_frame s s'"
  using assms
proof (induction n arbitrary: p s)
  case (Cons c n)
  have "hl_name au buf p c s = Next (hl_sw_name, hl_push (ngx_tolower c) s)"
    using Cons.prems name_char_lowcase [of au c]
    by (cases "c = c_under") (auto simp: hl_name_def Let_def is_name_char_def ch_defs)
  moreover have "hl_frame s (hl_push (ngx_tolower c) s)" by (simp add: hl_frame_def hl_push_def)
  ultimately show ?case
    using Cons.IH [of "Suc p" "hl_push (ngx_tolower c) s"] Cons.prems by (auto intro: hl_frame_trans)
qed (simp add: hl_frame_def)

definition value_state :: "hl_state \<Rightarrow> u_char list \<Rightarrow> hl_state" where
  "value_state st v =
    (if v = [] then st else if last v = SP then hl_sw_space_after_value else hl_sw_value)"

lemma scan_value_bytes:
  assumes "\<forall>c \<in> set v. c \<notin> {NUL, CR, LF}" "st \<in> {hl_sw_value, hl_sw_space_after_value}"
  shows "\<exists>s'. scan (hl_step au buf) v p (st, s) = Ran_out (p + length v) (value_state st v, s') \<and>
     hl_frame s s' \<and> hl_keep s s'"
  using assms
proof (induction v arbitrary: p s st)
  case (Cons c v)
  obtain s1 where s1: "hl_step au buf p c (st, s) = Next (value_state st [c], s1)" "hl_frame s s1"
      "hl_keep s s1"
    using Cons.prems
    by (cases "c = SP") (auto simp: hl_value_def hl_space_after_value_def value_state_def hl_frame_def
        hl_keep_def)
  have "value_state st [c] \<in> {hl_sw_value, hl_sw_space_after_value}"
    by (simp add: value_state_def)
  from Cons.IH [OF _ this, of "Suc p" s1] s1 Cons.prems show ?case
    by (auto simp: value_state_def intro: hl_frame_trans hl_keep_trans)
qed (simp add: hl_frame_def value_state_def hl_keep_def)

definition value_clean :: "u_char list \<Rightarrow> bool" where
  "value_clean v \<longleftrightarrow>
     (\<forall>c \<in> set v. c \<notin> {NUL, CR, LF}) \<and> (v \<noteq> [] \<longrightarrow> hd v \<noteq> SP \<and> last v \<noteq> SP)"

lemma scan_value_line:
  assumes "value_clean v" "header_start (hl_r s) = h0"
  shows "\<exists>s' st'. scan (hl_step au buf) (v @ [CR, LF]) p (hl_sw_space_before_value, s) =
      Exited Hl_done (p + length v + 1) (st', s') \<and>
      header_name_start (hl_r s') = header_name_start (hl_r s) \<and>
      header_name_end (hl_r s') = header_name_end (hl_r s) \<and>
      invalid_header (hl_r s') = invalid_header (hl_r s) \<and>
      header_start (hl_r s') = Some p \<and> header_end (hl_r s') = Some (p + length v) \<and> hl_keep s s'"
proof (cases v)
  case Nil
  then show ?thesis by (simp add: hl_space_before_value_def hl_almost_done_def hl_keep_def)
next
  case (Cons c w)
  let ?s = "hl_upd (\<lambda>r. r\<lparr>header_start := Some p\<rparr>) s"
  have c: "c \<notin> {NUL, CR, LF, SP}" "\<forall>c \<in> set w. c \<notin> {NUL, CR, LF}"
    "value_state hl_sw_value w = hl_sw_value"
    using assms(1) Cons by (auto simp: value_clean_def value_state_def split: if_splits)
  obtain s' where s': "scan (hl_step au buf) w (Suc p) (hl_sw_value, ?s) =
      Ran_out (Suc p + length w) (hl_sw_value, s')" "hl_frame ?s s'" "hl_keep ?s s'"
    using scan_value_bytes [OF c(2), of hl_sw_value au buf "Suc p" ?s] c(3) by auto
  have "scan (hl_step au buf) (v @ [CR, LF]) p (hl_sw_space_before_value, s) =
      scan (hl_step au buf) [CR, LF] (Suc p + length w) (hl_sw_value, s')"
    using c(1) s'(1) by (simp add: Cons hl_space_before_value_def scan_append del: scan.simps(2) [of _ CR])
  then show ?thesis
    using s'(2,3) by (simp add: Cons hl_value_def hl_almost_done_def hl_frame_def hl_keep_def)
qed

lemma header_line_run:
  assumes "n \<noteq> []" "\<forall>c \<in> set n. is_name_char au c" "value_clean v"
    and "b_data b = pre @ n @ [c_colon, SP] @ v @ [CR, LF] @ ys" "b_pos b = length pre"
  shows "\<exists>r'. ngx_http_parse_header_line au hl_sw_start r b =
      (NGX_OK, hl_sw_start, r', b\<lparr>b_pos := length pre + length n + length v + 4\<rparr>) \<and>
      \<not> invalid_header r' \<and> header_name_start r' = Some (length pre) \<and>
      header_name_end r' = Some (length pre + length n) \<and>
      header_start r' = Some (length pre + length n + 2) \<and>
      header_end r' = Some (length pre + length n + 2 + length v)"
proof -
  obtain c m where n: "n = c # m" using assms(1) by (cases n) auto
  let ?p = "length pre" and ?step = "hl_step au (b_data b)"
  let ?q = "length pre + length n"
  have "c \<noteq> CR" "c \<noteq> LF" using assms(2) n by (auto simp: is_name_char_def ch_defs)
  then obtain s0 where s0: "?step ?p c (hl_sw_start, hl_enter r) = Next (hl_sw_name, s0)"
      "header_name_start (hl_r s0) = Some ?p" "\<not> invalid_header (hl_r s0)"
    using assms(2) n name_char_lowcase [of au c]
    by (cases "c = c_under") (auto simp: hl_start_def Let_def is_name_char_def hl_first_def ch_defs)
  obtain s1 where s1: "scan ?step m (Suc ?p) (hl_sw_name, s0) = Ran_out ?q (hl_sw_name, s1)"
      "hl_frame s0 s1"
    using scan_name_chars [of m au "b_data b" "Suc ?p" s0] assms(2) n by auto
  let ?s2 = "hl_upd (\<lambda>r. r\<lparr>header_name_end := Some ?q\<rparr>) s1"
  have s2: "scan ?step [c_colon, SP] ?q (hl_sw_name, s1) = Ran_out (?q + 2) (hl_sw_space_before_value, ?s2)"
    by (simp add: hl_name_def hl_space_before_value_def)
  obtain s3 st where s3: "scan ?step (v @ [CR, LF]) (?q + 2) (hl_sw_space_before_value, ?s2) =
      Exited Hl_done (?q + 2 + length v + 1) (st, s3)"
      "header_name_start (hl_r s3) = Some ?p" "header_name_end (hl_r s3) = Some ?q"
      "\<not> invalid_header (hl_r s3)" "header_start (hl_r s3) = Some (?q + 2)"
      "header_end (hl_r s3) = Some (?q + 2 + length v)"
    using scan_value_line [OF assms(3) refl, of au "b_data b" "?q + 2" ?s2] s1(2) s0(2,3)
    by (auto simp: hl_frame_def)
  have d: "drop (b_pos b) (b_data b) = c # m @ [c_colon, SP] @ (v @ [CR, LF]) @ ys"
    by (simp add: assms(4,5) n)
  have "scan ?step (drop (b_pos b) (b_data b)) (b_pos b) (hl_sw_start, hl_enter r) =
      Exited Hl_done (?q + 2 + length v + 1) (st, s3)"
    unfolding d unfolding assms(5)
    by (simp only: scan.simps(2) [of _ c] s0(1) flow.simps scan_append [of _ m] s1(1) scanned.simps
        scan_append [of _ "[c_colon, SP]"] s2 scan_append [of _ "v @ [CR, LF]"] s3(1))
  then show ?thesis
    using s3(2-) by (simp add: ngx_http_parse_header_line_def)
qed

text \<open>The entry that a name and a value should have, and the bytes of a header block.\<close>

definition header_entry :: "u_char list \<times> u_char list \<Rightarrow> ngx_table_elt" where
  "header_entry nv = (case nv of (n, v) \<Rightarrow>
     \<lparr> h_hash = ngx_hash_key (ngx_strlow n), h_key = n, h_value = v, h_lowcase_key = ngx_strlow n \<rparr>)"

definition header_line_bytes :: "u_char list \<times> u_char list \<Rightarrow> u_char list" where
  "header_line_bytes nv = (case nv of (n, v) \<Rightarrow> n @ [c_colon, SP] @ v @ [CR, LF])"

definition header_block :: "(u_char list \<times> u_char list) list \<Rightarrow> u_char list" where
  "header_block nvs = concat (map header_line_bytes nvs) @ [CR, LF]"

definition header_good :: "bool \<Rightarrow> u_char list \<times> u_char list \<Rightarrow> bool" where
  "header_good au nv = (case nv of (n, v) \<Rightarrow> n \<noteq> [] \<and> (\<forall>c \<in> set n. is_name_char au c) \<and> value_clean v)"

lemma header_elt_run:
  assumes "header_good au (n, v)"
    and "b_data b = pre @ header_line_bytes (n, v) @ ys" "b_pos b = length pre"
    and "length (lowcase_header r) = 32" "lowcase_index r < 32"
  shows "\<exists>r'. ngx_http_parse_header_line au hl_sw_start r b =
      (NGX_OK, hl_sw_start, r', b\<lparr>b_pos := length (pre @ header_line_bytes (n, v))\<rparr>) \<and>
      \<not> invalid_header r' \<and> header_elt (b_data b) r' = header_entry (n, v) \<and>
      length (lowcase_header r') = 32 \<and> lowcase_index r' < 32 \<and>
      length pre \<le> off (header_name_end r') \<and> off (header_name_end r') < length (pre @ header_line_bytes (n, v)) \<and>
      length pre \<le> off (header_end r') \<and> off (header_end r') < length (pre @ header_line_bytes (n, v))"
proof -
  have g: "n \<noteq> []" "\<forall>c \<in> set n. is_name_char au c" "value_clean v"
    using assms(1) by (simp_all add: header_good_def)
  have d: "b_data b = pre @ n @ [c_colon, SP] @ v @ [CR, LF] @ ys"
    using assms(2) by (simp add: header_line_bytes_def)
  obtain r' where r': "ngx_http_parse_header_line au hl_sw_start r b =
      (NGX_OK, hl_sw_start, r', b\<lparr>b_pos := length pre + length n + length v + 4\<rparr>)"
      "\<not> invalid_header r'" "header_name_start r' = Some (length pre)"
      "header_name_end r' = Some (length pre + length n)"
      "header_start r' = Some (length pre + length n + 2)"
      "header_end r' = Some (length pre + length n + 2 + length v)"
    using header_line_run [OF g d assms(3)] by blast
  have "h_key (header_elt (b_data b) r') = n" "h_value (header_elt (b_data b) r') = v"
    unfolding header_elt_def Let_def r' d by (simp_all add: slice_def)
  moreover have "header_entry_ok au (header_elt (b_data b) r')" "length (lowcase_header r') = 32"
      "lowcase_index r' < 32"
    using header_line_ok_post [OF r'(1) assms(4,5)] r'(2) by auto
  ultimately show ?thesis
    using r' by (auto simp: header_entry_def header_entry_ok_def header_line_bytes_def)
qed

text \<open>Lines that are well formed by the configuration that holds when each of them is read.\<close>

fun headers_good :: "(ngx_table_elt list \<Rightarrow> bool) \<Rightarrow> ngx_table_elt list \<Rightarrow> (u_char list \<times> u_char list) list \<Rightarrow> bool" where
  "headers_good underscores hs [] \<longleftrightarrow> True"
| "headers_good underscores hs (nv # nvs) \<longleftrightarrow>
    header_good (underscores hs) nv \<and> headers_good underscores (hs @ [header_entry nv]) nvs"

lemma process_headers_block:
  assumes "headers_good au hs nvs"
    and "b_data b = pre @ header_block nvs" "b_pos b = length pre"
    and "length (lowcase_header r) = 32" "lowcase_index r < 32"
  shows "\<exists>r' b'. ngx_http_process_headers (\<lambda>_. True) au ignore hl_sw_start r b hs =
      (NGX_HTTP_PARSE_HEADER_DONE, hl_sw_start, r', b', hs @ map header_entry nvs) \<and>
      b_pos b' = length (pre @ header_block nvs)"
  using assms
proof (induction nvs arbitrary: pre b r hs)
  case Nil
  then have "ngx_http_parse_header_line (au hs) hl_sw_start r b = (NGX_HTTP_PARSE_HEADER_DONE, hl_sw_start,
      (hl_r (hl_enter r))\<lparr>header_name_start := Some (length pre), invalid_header := False,
        header_end := Some (length pre)\<rparr>, b\<lparr>b_pos := length pre + 2\<rparr>)"
    by (simp add: ngx_http_parse_header_line_def header_block_def hl_start_def Let_def
        hl_header_almost_done_def)
  then show ?case
    by (simp add: ngx_http_process_headers.simps [of _ au ignore hl_sw_start r b hs] header_block_def)
next
  case (Cons nv nvs)
  obtain n v where nv: "nv = (n, v)" by force
  let ?line = "header_line_bytes (n, v)"
  have d: "b_data b = pre @ ?line @ header_block nvs"
    using Cons.prems(2) by (simp add: header_block_def nv)
  have g: "header_good (au hs) (n, v)" using Cons.prems(1) nv by simp
  obtain r' where r': "ngx_http_parse_header_line (au hs) hl_sw_start r b =
      (NGX_OK, hl_sw_start, r', b\<lparr>b_pos := length (pre @ ?line)\<rparr>)"
      "\<not> invalid_header r'" "header_elt (b_data b) r' = header_entry (n, v)"
      "length (lowcase_header r') = 32" "lowcase_index r' < 32"
      "off (header_name_end r') < length (pre @ ?line)" "off (header_end r') < length (pre @ ?line)"
    using header_elt_run [OF g d Cons.prems(3-5)] by blast
  define b1 where "b1 = header_terminate r' (b\<lparr>b_pos := length (pre @ ?line)\<rparr>)"
  define pre1 where "pre1 = (pre @ ?line)[off (header_name_end r') := NUL, off (header_end r') := NUL]"
  have b1: "b_data b1 = pre1 @ header_block nvs" "b_pos b1 = length pre1"
    using r'(6,7) by (simp_all add: b1_def header_terminate_def pre1_def d list_update_append1
        flip: append_assoc)
  have "ngx_http_process_headers (\<lambda>_. True) au ignore hl_sw_start r b hs =
      ngx_http_process_headers (\<lambda>_. True) au ignore hl_sw_start r' b1 (hs @ [header_entry (n, v)])"
    using r'(1-3) by (simp add: ngx_http_process_headers.simps [of _ au ignore hl_sw_start r b hs] b1_def Let_def)
  moreover have "length (pre1 @ header_block nvs) = length (pre @ header_block (nv # nvs))"
    by (simp add: pre1_def header_block_def nv)
  ultimately show ?case
    using Cons.IH [OF _ b1 r'(4,5), of "hs @ [header_entry (n, v)]"] Cons.prems(1) by (simp add: nv)
qed

text \<open>C24. Round trip: a block of header lines, with names of allowed bytes (by the configuration that holds when
  the line is read) and values that have no NUL,
  CR or LF and no space at their ends, is read back exactly: the loop ends with the end of the header at
  the last byte, and the header list holds one entry per line, in order, with its name, its value, its
  lower case name and the hash of that.\<close>

theorem header_block_roundtrip:
  assumes "headers_good underscores [] nvs"
  shows "\<exists>r b. ngx_http_process_headers (\<lambda>_. True) underscores ignore_invalid hl_sw_start
       ngx_http_header_new \<lparr>b_data = header_block nvs, b_pos = 0\<rparr> [] =
      (NGX_HTTP_PARSE_HEADER_DONE, hl_sw_start, r, b, map header_entry nvs) \<and>
     b_pos b = length (header_block nvs)"
  using process_headers_block [of underscores "[]" nvs "\<lparr>b_data = header_block nvs, b_pos = 0\<rparr>" "[]"
      ngx_http_header_new ignore_invalid] assms
  by simp

theorem header_block_roundtrip_witness:
  "\<exists>r b. ngx_http_process_headers (\<lambda>_. True) (\<lambda>hs. hs \<noteq> []) (\<lambda>_. True) hl_sw_start ngx_http_header_new
       \<lparr>b_data = header_block [(bytes ''Host'', bytes ''a b''), (bytes ''X_1'', [])], b_pos = 0\<rparr> [] =
      (NGX_HTTP_PARSE_HEADER_DONE, hl_sw_start, r, b,
       map header_entry [(bytes ''Host'', bytes ''a b''), (bytes ''X_1'', [])])"
  using header_block_roundtrip [of "\<lambda>hs. hs \<noteq> []" "[(bytes ''Host'', bytes ''a b''), (bytes ''X_1'', [])]" "\<lambda>_. True"]
  by (auto simp: header_good_def value_clean_def is_name_char_def bytes_def ch_defs)

end
