(* ===== verification/Http_Header_Stale.thy ===== *)
theory Http_Header_Stale
  imports Http_Header_Props
begin

text \<open>
  The header line parser on a name whose first byte is not allowed. The first allowed byte of a name sets
  the hash, the index and the first byte of \<open>lowcase_header\<close>; a first byte that is not allowed leaves
  them as the previous line left them, and the following bytes are added to that.
\<close>

section \<open>A name that starts with an invalid byte\<close>

definition hl_pushes :: "u_char list \<Rightarrow> hl \<Rightarrow> hl" where
  "hl_pushes m s = foldl (\<lambda>s c. hl_push (ngx_tolower c) s) s m"

lemma hl_pushes_simps [simp]: "hl_pushes [] s = s" "hl_pushes (c # m) s = hl_pushes m (hl_push (ngx_tolower c) s)"
  by (simp_all add: hl_pushes_def)

lemma scan_name_pushes:
  assumes "\<forall>c \<in> set m. is_name_char au c"
  shows "scan (hl_step au buf) m p (hl_sw_name, s) = Ran_out (p + length m) (hl_sw_name, hl_pushes m s)"
  using assms
proof (induction m arbitrary: p s)
  case (Cons c n)
  have "hl_name au buf p c s = Next (hl_sw_name, hl_push (ngx_tolower c) s)"
    using Cons.prems name_char_lowcase [of au c]
    by (cases "c = c_under") (auto simp: hl_name_def Let_def is_name_char_def ch_defs)
  then show ?case using Cons by simp
qed simp

lemma hl_pushes_tracks:
  assumes "hl_hash s = ngx_hash_key (ngx_strlow n)" "hl_i s = length n"
    and "take (length n) (lowcase_header (hl_r s)) = ngx_strlow n"
    and "length (lowcase_header (hl_r s)) = 32" "length n + length m < 32"
  shows "hl_hash (hl_pushes m s) = ngx_hash_key (ngx_strlow (n @ m)) \<and>
     hl_i (hl_pushes m s) = length (n @ m) \<and>
     take (length (n @ m)) (lowcase_header (hl_r (hl_pushes m s))) = ngx_strlow (n @ m) \<and>
     hl_frame s (hl_pushes m s)"
  using assms
proof (induction m arbitrary: n s)
  case (Cons c m)
  let ?s = "hl_push (ngx_tolower c) s"
  have "hl_hash ?s = ngx_hash_key (ngx_strlow (n @ [c])) \<and> hl_i ?s = length (n @ [c]) \<and>
     take (length (n @ [c])) (lowcase_header (hl_r ?s)) = ngx_strlow (n @ [c]) \<and>
     length (lowcase_header (hl_r ?s)) = 32 \<and> hl_frame s ?s"
    using Cons.prems
    by (simp add: hl_push_def NGX_HTTP_LC_HEADER_LEN_def and_31 take_Suc_conv_app_nth hl_frame_def)
  then show ?case
    using Cons.IH [of ?s "n @ [c]"] Cons.prems(5) by (auto intro: hl_frame_trans)
qed (simp add: hl_frame_def)

lemma header_line_stale:
  assumes "\<not> is_name_char au c" "c \<notin> {NUL, CR, LF}" "\<forall>c \<in> set m. is_name_char au c" "value_clean v"
    and "header_hash r = ngx_hash_key (ngx_strlow [d])" "lowcase_index r = 1"
    and "take 1 (lowcase_header r) = ngx_strlow [d]" "length (lowcase_header r) = 32" "length m < 31"
    and "b_data b = pre @ (c # m) @ [c_colon, SP] @ v @ [CR, LF] @ ys" "b_pos b = length pre"
  shows "\<exists>r'. ngx_http_parse_header_line au hl_sw_start r b =
      (NGX_OK, hl_sw_start, r', b\<lparr>b_pos := length pre + length m + length v + 5\<rparr>) \<and>
      header_elt (b_data b) r' =
        \<lparr> h_hash = ngx_hash_key (ngx_strlow (d # m)), h_key = c # m, h_value = v,
          h_lowcase_key = ngx_strlow (d # m) \<rparr> \<and> invalid_header r' \<and>
      off (header_name_end r') < length pre + length m + length v + 5 \<and>
      off (header_end r') < length pre + length m + length v + 5"
proof -
  let ?p = "length pre" and ?step = "hl_step au (b_data b)"
  let ?q = "Suc (length pre + length m)"
  define s0 where "s0 = hl_bad (hl_upd (\<lambda>r. r\<lparr>header_name_start := Some ?p, invalid_header := False\<rparr>) (hl_enter r))"
  have s0: "?step ?p c (hl_sw_start, hl_enter r) = Next (hl_sw_name, s0)"
  proof -
    have "lowcase ! unat c = 0" "c = c_under \<longrightarrow> \<not> au"
      using assms(1) lowcase_name_char [of c au] by (auto simp: is_name_char_def)
    with assms(2) show ?thesis by (auto simp: hl_start_def Let_def s0_def)
  qed
  define s1 where "s1 = hl_pushes m s0"
  have s1: "hl_hash s1 = ngx_hash_key (ngx_strlow (d # m))" "hl_i s1 = Suc (length m)"
     "take (Suc (length m)) (lowcase_header (hl_r s1)) = ngx_strlow (d # m)"
     "header_name_start (hl_r s1) = Some ?p" "invalid_header (hl_r s1)"
    using hl_pushes_tracks [of s0 "[d]" m] assms(5-9)
    by (auto simp: s1_def s0_def hl_enter_def hl_bad_def hl_frame_def)
  let ?s2 = "hl_upd (\<lambda>r. r\<lparr>header_name_end := Some ?q\<rparr>) s1"
  have s2: "scan ?step [c_colon, SP] ?q (hl_sw_name, s1) = Ran_out (?q + 2) (hl_sw_space_before_value, ?s2)"
    by (simp add: hl_name_def hl_space_before_value_def)
  obtain s3 st where s3: "scan ?step (v @ [CR, LF]) (?q + 2) (hl_sw_space_before_value, ?s2) =
      Exited Hl_done (?q + 2 + length v + 1) (st, s3)"
      "header_name_start (hl_r s3) = Some ?p" "header_name_end (hl_r s3) = Some ?q"
      "invalid_header (hl_r s3)" "header_start (hl_r s3) = Some (?q + 2)"
      "header_end (hl_r s3) = Some (?q + 2 + length v)" "hl_keep s1 s3"
    using scan_value_line [OF assms(4) refl, of au "b_data b" "?q + 2" ?s2] s1(4,5)
    by (auto simp: hl_keep_def)
  have d: "drop (b_pos b) (b_data b) = c # m @ [c_colon, SP] @ (v @ [CR, LF]) @ ys"
    by (simp add: assms(10,11))
  have m: "scan ?step m (Suc ?p) (hl_sw_name, s0) = Ran_out ?q (hl_sw_name, s1)"
    using scan_name_pushes [OF assms(3), of "b_data b" "Suc ?p" s0] by (simp add: s1_def)
  have "scan ?step (drop (b_pos b) (b_data b)) (b_pos b) (hl_sw_start, hl_enter r) =
      Exited Hl_done (?q + 2 + length v + 1) (st, s3)"
    unfolding d unfolding assms(11)
    by (simp only: scan.simps(2) [of _ c] s0 flow.simps scan_append [of _ m] m scanned.simps
        scan_append [of _ "[c_colon, SP]"] s2 scan_append [of _ "v @ [CR, LF]"] s3(1))
  then have "ngx_http_parse_header_line au hl_sw_start r b =
      (NGX_OK, hl_sw_start, hl_leave s3, b\<lparr>b_pos := length pre + length m + length v + 5\<rparr>)"
    by (simp add: ngx_http_parse_header_line_def)
  moreover have "slice (b_data b) ?p ?q = c # m" "slice (b_data b) (?q + 2) (?q + 2 + length v) = v"
    unfolding assms(10) by (simp_all add: slice_def numeral_3_eq_3)
  ultimately show ?thesis
    using s3(2-) s1 by (simp add: header_elt_def hl_keep_def)
qed

lemma header_line_ok_name:
  assumes "ngx_http_parse_header_line au hl_sw_start r b = (NGX_OK, st', r', b')"
    and "length (lowcase_header r) = 32" "lowcase_index r < 32" "\<not> invalid_header r'"
  shows "name_read au (b_data b) (off (header_name_start r')) (off (header_name_end r'))
     (header_hash r') (lowcase_index r') (lowcase_header r')"
  using assms(1)
proof (rule header_line_ok_cases)
  fix p u s
  assume e: "scan (hl_step au (b_data b)) (drop (b_pos b) (b_data b)) (b_pos b) (hl_sw_start, hl_enter r) =
      Exited Hl_done p (u, s)" "st' = hl_sw_start" "r' = hl_leave s"
  have inv: "hl_inv au (b_data b) (b_pos b) (hl_sw_start, hl_enter r)"
    using hl_array_enter [OF assms(2,3)] by simp
  have "b_pos b \<le> length (b_data b)" using scan_Exited_pos [OF e(1)] by auto
  from header_line.scan_Exited_post [OF inv this e(1)] show ?thesis
    using e(3) assms(4) by (auto simp: name_done_def)
qed

lemma header_line_first:
  assumes "is_name_char au d" "value_clean v"
    and "b_data b = header_line_bytes ([d], v) @ ys" "b_pos b = 0"
  shows "\<exists>r'. ngx_http_parse_header_line au hl_sw_start ngx_http_header_new b =
      (NGX_OK, hl_sw_start, r', b\<lparr>b_pos := length (header_line_bytes ([d], v))\<rparr>) \<and>
      \<not> invalid_header r' \<and> header_elt (b_data b) r' = header_entry ([d], v) \<and>
      header_hash r' = ngx_hash_key (ngx_strlow [d]) \<and> lowcase_index r' = 1 \<and>
      take 1 (lowcase_header r') = ngx_strlow [d] \<and> length (lowcase_header r') = 32 \<and>
      off (header_name_end r') < length (header_line_bytes ([d], v)) \<and>
      off (header_end r') < length (header_line_bytes ([d], v))"
proof -
  have g: "header_good au ([d], v)" using assms(1,2) by (simp add: header_good_def)
  have d: "b_data b = [] @ header_line_bytes ([d], v) @ ys" using assms(3) by simp
  obtain r' where r': "ngx_http_parse_header_line au hl_sw_start ngx_http_header_new b =
      (NGX_OK, hl_sw_start, r', b\<lparr>b_pos := length (header_line_bytes ([d], v))\<rparr>)"
      "\<not> invalid_header r'" "header_elt (b_data b) r' = header_entry ([d], v)"
      "length (lowcase_header r') = 32"
      "off (header_name_end r') < length (header_line_bytes ([d], v))"
      "off (header_end r') < length (header_line_bytes ([d], v))"
    using header_elt_run [OF g d, of ngx_http_header_new] assms(4) by auto
  have k: "slice (b_data b) (off (header_name_start r')) (off (header_name_end r')) = [d]"
    using arg_cong [OF r'(3), of h_key] by (simp add: header_elt_def header_entry_def Let_def)
  have "off (header_name_end r') - off (header_name_start r') = 1"
    using arg_cong [OF k, of length] r'(5) assms(3) by simp
  with header_line_ok_name [OF r'(1) _ _ r'(2)] have "header_hash r' = ngx_hash_key (ngx_strlow [d])"
      "lowcase_index r' = 1" "take 1 (lowcase_header r') = ngx_strlow [d]"
    unfolding name_read_def k by simp_all
  with r' show ?thesis by blast
qed

text \<open>The index and the hash of the name are reset by the first byte of a name only when that byte is
  allowed. With \<open>ignore_invalid_headers off\<close>, a header line whose name starts with a byte \<open>c\<close> that is
  not allowed, after a line with the one-byte name \<open>d\<close>, is entered in the header list with the lower
  case key and the hash of the name in which \<open>c\<close> is replaced by \<open>d\<close>: after \<^verbatim>\<open>H: x\<close> the line \<^verbatim>\<open>?ost: y\<close> is
  looked up as \<^verbatim>\<open>host\<close>.\<close>

theorem invalid_first_byte_takes_stale_name:
  assumes "is_name_char underscores d" "\<not> is_name_char underscores c" "c \<notin> {NUL, CR, LF}"
    and "\<forall>c \<in> set m. is_name_char underscores c" "length m < 31" "value_clean v" "value_clean w"
  shows "\<exists>r b. ngx_http_process_headers (\<lambda>_. True) (\<lambda>_. underscores) (\<lambda>_. False) hl_sw_start
       ngx_http_header_new \<lparr>b_data = header_block [([d], v), (c # m, w)], b_pos = 0\<rparr> [] =
      (NGX_HTTP_PARSE_HEADER_DONE, hl_sw_start, r, b,
       [header_entry ([d], v),
        \<lparr> h_hash = ngx_hash_key (ngx_strlow (d # m)), h_key = c # m, h_value = w,
          h_lowcase_key = ngx_strlow (d # m) \<rparr>])"
proof -
  define b where "b = \<lparr>b_data = header_block [([d], v), (c # m, w)], b_pos = 0\<rparr>"
  let ?l1 = "header_line_bytes ([d], v)" and ?l2 = "header_line_bytes (c # m, w)"
  have d: "b_data b = ?l1 @ ?l2 @ [CR, LF]" "b_pos b = 0" by (simp_all add: b_def header_block_def)
  obtain r1 where r1: "ngx_http_parse_header_line underscores hl_sw_start ngx_http_header_new b =
      (NGX_OK, hl_sw_start, r1, b\<lparr>b_pos := length ?l1\<rparr>)"
      "header_elt (b_data b) r1 = header_entry ([d], v)"
      "header_hash r1 = ngx_hash_key (ngx_strlow [d])" "lowcase_index r1 = 1"
      "take 1 (lowcase_header r1) = ngx_strlow [d]" "length (lowcase_header r1) = 32"
      "off (header_name_end r1) < length ?l1" "off (header_end r1) < length ?l1"
    using header_line_first [OF assms(1,6) d] by blast
  define pre where "pre = ?l1[off (header_name_end r1) := NUL, off (header_end r1) := NUL]"
  define b1 where "b1 = header_terminate r1 (b\<lparr>b_pos := length ?l1\<rparr>)"
  have b1: "b_data b1 = pre @ (c # m) @ [c_colon, SP] @ w @ [CR, LF] @ [CR, LF]" "b_pos b1 = length pre"
    using r1(7,8) by (simp_all add: b1_def header_terminate_def pre_def d list_update_append1
        header_line_bytes_def [of "(c # m, w)"])
  obtain r2 b2 where r2: "ngx_http_parse_header_line underscores hl_sw_start r1 b1 = (NGX_OK, hl_sw_start, r2, b2)"
      "b2 = b1\<lparr>b_pos := length pre + length m + length w + 5\<rparr>"
      "header_elt (b_data b1) r2 =
        \<lparr> h_hash = ngx_hash_key (ngx_strlow (d # m)), h_key = c # m, h_value = w,
          h_lowcase_key = ngx_strlow (d # m) \<rparr>"
      "off (header_name_end r2) < b_pos b2" "off (header_end r2) < b_pos b2"
    using header_line_stale [OF assms(2-4,7) r1(3-6) assms(5) b1] by auto
  have arr: "length (lowcase_header r2) = 32" "lowcase_index r2 < 32"
    using header_line_ok_post [OF r2(1)] r1(4,6) by simp_all
  define pre2 where "pre2 = (pre @ ?l2)[off (header_name_end r2) := NUL, off (header_end r2) := NUL]"
  define b3 where "b3 = header_terminate r2 b2"
  have l: "b_pos b2 = length (pre @ ?l2)" by (simp add: r2(2) header_line_bytes_def)
  have "b_data b2 = (pre @ ?l2) @ [CR, LF]" by (simp add: r2(2) b1(1) header_line_bytes_def)
  then have b3: "b_data b3 = pre2 @ header_block []" "b_pos b3 = length pre2"
    using r2(4,5) unfolding l
    by (simp_all add: b3_def header_terminate_def pre2_def l list_update_append1 header_block_def
        del: append_assoc)
  have e: "ngx_http_process_headers (\<lambda>_. True) (\<lambda>_. underscores) (\<lambda>_. False) hl_sw_start ngx_http_header_new b [] =
      ngx_http_process_headers (\<lambda>_. True) (\<lambda>_. underscores) (\<lambda>_. False) hl_sw_start r1 b1 [header_entry ([d], v)]"
    by (simp add: ngx_http_process_headers.simps [of _ "\<lambda>_. underscores" "\<lambda>_. False" hl_sw_start ngx_http_header_new b]
        r1(1,2) b1_def Let_def)
  have "b_data b2 = b_data b1" by (simp add: r2(2))
  then have "ngx_http_process_headers (\<lambda>_. True) (\<lambda>_. underscores) (\<lambda>_. False) hl_sw_start r1 b1 [header_entry ([d], v)] =
      ngx_http_process_headers (\<lambda>_. True) (\<lambda>_. underscores) (\<lambda>_. False) hl_sw_start r2 b3
       ([header_entry ([d], v)] @ [header_elt (b_data b1) r2])"
    by (simp add: ngx_http_process_headers.simps [of _ "\<lambda>_. underscores" "\<lambda>_. False" hl_sw_start r1 b1]
        r2(1) b3_def Let_def)
  then show ?thesis
    using process_headers_block [where nvs = "[]", OF _ b3 arr,
        where hs = "[header_entry ([d], v)] @ [header_elt (b_data b1) r2]" and au = "\<lambda>_. underscores" and ignore = "\<lambda>_. False"]
    unfolding b_def [symmetric] e r2(3) by auto
qed

theorem invalid_first_byte_takes_stale_name_witness:
  "\<exists>r b. ngx_http_process_headers (\<lambda>_. True) (\<lambda>_. False) (\<lambda>_. False) hl_sw_start ngx_http_header_new
       \<lparr>b_data = header_block [(bytes ''H'', bytes ''x''), (bytes ''?ost'', bytes ''y'')], b_pos = 0\<rparr> [] =
      (NGX_HTTP_PARSE_HEADER_DONE, hl_sw_start, r, b,
       [header_entry (bytes ''H'', bytes ''x''),
        \<lparr> h_hash = ngx_hash_key (bytes ''host''), h_key = bytes ''?ost'', h_value = bytes ''y'',
          h_lowcase_key = bytes ''host'' \<rparr>])"
  using invalid_first_byte_takes_stale_name [of False c_H c_quest "bytes ''ost''" "bytes ''x''" "bytes ''y''"]
  by (simp add: is_name_char_def value_clean_def bytes_def ch_defs ngx_strlow_def ngx_tolower_def)
end
