(* ===== verification/Http_Header_Resume.thy ===== *)
theory Http_Header_Resume
  imports Http_Header_Props
begin

text \<open>
  Reading a header line in portions: the contract \<open>resumable\<close> for the loop, and the fields that the
  function loads into local variables and stores on some of its returns only.
\<close>

section \<open>Reading in portions\<close>

text \<open>The fields \<open>header_hash\<close> and \<open>lowcase_index\<close> of the request are not read inside the loop, and are
  written on \<open>NGX_AGAIN\<close> and \<open>NGX_OK\<close> only.\<close>

definition hl_stale :: "ngx_uint_t \<Rightarrow> nat \<Rightarrow> hl \<Rightarrow> hl" where
  "hl_stale h k s = s\<lparr>hl_r := (hl_r s)\<lparr>header_hash := h, lowcase_index := k\<rparr>\<rparr>"

lemma hl_stale_commute:
  "hl_upd (\<lambda>r. r\<lparr>header_name_start := x, invalid_header := f\<rparr>) (hl_stale h k s) =
     hl_stale h k (hl_upd (\<lambda>r. r\<lparr>header_name_start := x, invalid_header := f\<rparr>) s)"
  "hl_upd (\<lambda>r. r\<lparr>header_name_end := x\<rparr>) (hl_stale h k s) =
     hl_stale h k (hl_upd (\<lambda>r. r\<lparr>header_name_end := x\<rparr>) s)"
  "hl_upd (\<lambda>r. r\<lparr>header_name_end := x, header_start := y, header_end := z\<rparr>) (hl_stale h k s) =
     hl_stale h k (hl_upd (\<lambda>r. r\<lparr>header_name_end := x, header_start := y, header_end := z\<rparr>) s)"
  "hl_upd (\<lambda>r. r\<lparr>header_start := y, header_end := z\<rparr>) (hl_stale h k s) =
     hl_stale h k (hl_upd (\<lambda>r. r\<lparr>header_start := y, header_end := z\<rparr>) s)"
  "hl_upd (\<lambda>r. r\<lparr>header_start := y\<rparr>) (hl_stale h k s) = hl_stale h k (hl_upd (\<lambda>r. r\<lparr>header_start := y\<rparr>) s)"
  "hl_upd (\<lambda>r. r\<lparr>header_end := z\<rparr>) (hl_stale h k s) = hl_stale h k (hl_upd (\<lambda>r. r\<lparr>header_end := z\<rparr>) s)"
  "hl_first c (hl_stale h k s) = hl_stale h k (hl_first c s)"
  "hl_push c (hl_stale h k s) = hl_stale h k (hl_push c s)"
  "hl_bad (hl_stale h k s) = hl_stale h k (hl_bad s)"
  "header_name_start (hl_r (hl_stale h k s)) = header_name_start (hl_r s)"
  "upstream (hl_r (hl_stale h k s)) = upstream (hl_r s)"
  by (simp_all add: hl_stale_def hl_upd_def hl_first_def hl_push_def hl_bad_def)

lemma hl_step_stale:
  "hl_step au buf p ch (st, hl_stale h k s) =
    (case hl_step au buf p ch (st, s) of
       Next (st', s') \<Rightarrow> Next (st', hl_stale h k s')
     | Exit x (st', s') \<Rightarrow> Exit x (st', hl_stale h k s'))"
  by (cases st) (simp_all add: hl_defs Let_def hl_stale_commute)

lemma scan_stale:
  "scan (hl_step au buf) xs p (st, hl_stale h k s) =
    (case scan (hl_step au buf) xs p (st, s) of
       Ran_out q (st', s') \<Rightarrow> Ran_out q (st', hl_stale h k s')
     | Exited x q (st', s') \<Rightarrow> Exited x q (st', hl_stale h k s'))"
  by (induction xs arbitrary: p st s) (auto simp: hl_step_stale split: flow.splits prod.splits)

lemma hl_enter_leave: "hl_enter (hl_leave s) = hl_stale (hl_hash s) (hl_i s) s"
  by (simp add: hl_enter_def hl_leave_def hl_stale_def)

lemma hl_stale_simps [simp]:
  "hl_leave (hl_stale h k s) = hl_leave s"
  "hl_r (hl_stale h k s) = (hl_r s)\<lparr>header_hash := h, lowcase_index := k\<rparr>"
  by (simp_all add: hl_leave_def hl_stale_def)

definition hl_same :: "ngx_rc \<times> hl_state \<times> ngx_http_header_in \<times> ngx_buf \<Rightarrow>
    ngx_rc \<times> hl_state \<times> ngx_http_header_in \<times> ngx_buf \<Rightarrow> bool" where
  "hl_same x y =
    (case (x, y) of ((rc, st, r, b), (rc', st', r', b')) \<Rightarrow>
       rc = rc' \<and>
       r\<lparr>header_hash := 0, lowcase_index := 0\<rparr> = r'\<lparr>header_hash := 0, lowcase_index := 0\<rparr> \<and>
       (if rc \<in> {NGX_OK, NGX_AGAIN} then r = r' else True) \<and>
       (if rc \<in> {NGX_OK, NGX_AGAIN, NGX_HTTP_PARSE_HEADER_DONE} then st = st' \<and> b = b' else True))"

lemma hl_return_rc:
  assumes "scan (hl_step au buf) xs p s = Exited (Hl_return rc) q s'"
  shows "rc = NGX_HTTP_PARSE_INVALID_HEADER"
proof -
  have "hl_step au buf p ch s = Exit (Hl_return rc) s' \<Longrightarrow> rc = NGX_HTTP_PARSE_INVALID_HEADER" for p ch s s'
    by (cases "(au, buf, p, ch, s)" rule: hl_step.cases) (auto simp: hl_defs Let_def split: if_splits)
  with assms show ?thesis
    by (induction xs arbitrary: p s) (auto split: flow.splits)
qed

text \<open>C25. The header line parser is incremental: when it has answered \<open>NGX_AGAIN\<close> and more bytes arrive,
  calling it again gives what one call on all the bytes gives (the return code, every pointer and flag, on
  \<open>NGX_OK\<close> and \<open>NGX_AGAIN\<close> also the hash and the index, and except after an error the parser state and
  the buffer).\<close>

theorem header_line_resume:
  assumes "ngx_http_parse_header_line underscores st r b = (NGX_AGAIN, st', r', b')"
    and "hl_inv underscores (b_data b) (b_pos b) (st, hl_enter r)" "b_pos b \<le> length (b_data b)"
  shows "hl_same
     (ngx_http_parse_header_line underscores st r (b\<lparr>b_data := b_data b @ ys\<rparr>))
     (ngx_http_parse_header_line underscores st' r' (b'\<lparr>b_data := b_data b' @ ys\<rparr>))"
proof -
  let ?step = "hl_step underscores (b_data b @ ys)"
  obtain q s where s: "scan (hl_step underscores (b_data b)) (drop (b_pos b) (b_data b)) (b_pos b) (st, hl_enter r) =
      Ran_out q (st', s)" "r' = hl_leave s" "b' = b\<lparr>b_pos := q\<rparr>"
    using assms(1) hl_return_rc
    by (fastforce simp: ngx_http_parse_header_line_def split: scanned.splits hl_exit.splits prod.splits)
  define y where "y = scan ?step (drop q (b_data b @ ys)) q (st', s)"
  have "scan ?step (drop (b_pos b) (b_data b @ ys)) (b_pos b) (st, hl_enter r) = y"
    using header_line.scan_resume [OF assms(2,3)] unfolding s(1) y_def by simp
  moreover have "scan ?step (drop q (b_data b @ ys)) q (st', hl_enter r') =
      (case y of
       Ran_out q (st', s') \<Rightarrow> Ran_out q (st', hl_stale (hl_hash s) (hl_i s) s')
     | Exited x q (st', s') \<Rightarrow> Exited x q (st', hl_stale (hl_hash s) (hl_i s) s'))"
    unfolding s(2) hl_enter_leave scan_stale y_def by simp
  moreover have "y = Exited (Hl_return rc) p t \<Longrightarrow> rc = NGX_HTTP_PARSE_INVALID_HEADER" for rc p t
    unfolding y_def by (rule hl_return_rc)
  ultimately show ?thesis
    unfolding ngx_http_parse_header_line_def s(3)
    by (auto simp: hl_same_def simp del: drop_append split: scanned.split hl_exit.split)
qed

theorem header_line_resume_witness:
  "\<exists>st r b. ngx_http_parse_header_line False hl_sw_start ngx_http_header_new
       \<lparr>b_data = bytes ''Ho'', b_pos = 0\<rparr> = (NGX_AGAIN, st, r, b) \<and>
     hl_same
      (ngx_http_parse_header_line False hl_sw_start ngx_http_header_new
        \<lparr>b_data = bytes ''Ho'' @ bytes ''st: x'', b_pos = 0\<rparr>)
      (ngx_http_parse_header_line False st r (b\<lparr>b_data := b_data b @ bytes ''st: x''\<rparr>))"
proof -
  have "fst (ngx_http_parse_header_line False hl_sw_start ngx_http_header_new
       \<lparr>b_data = bytes ''Ho'', b_pos = 0\<rparr>) = NGX_AGAIN"
    by (simp add: ngx_http_parse_header_line_def bytes_def hl_defs lowcase_def split: prod.splits)
  then obtain st r b where e: "ngx_http_parse_header_line False hl_sw_start ngx_http_header_new
       \<lparr>b_data = bytes ''Ho'', b_pos = 0\<rparr> = (NGX_AGAIN, st, r, b)"
    by (metis prod.collapse)
  from header_line_resume [OF e, of "bytes ''st: x''"] e show ?thesis
    by (auto simp: hl_array_enter)
qed

end
