(* ===== verification/Ngx_Number.thy ===== *)
theory Ngx_Number
  imports Ngx_Prelude
begin

text \<open>
  The numbers of \<open>src/core/ngx_string.c\<close>: reading (\<open>ngx_atoi\<close>, \<open>ngx_atosz\<close>, \<open>ngx_atoof\<close>, \<open>ngx_atotm\<close>,
  \<open>ngx_atofp\<close>, \<open>ngx_hextoi\<close>) and printing (\<open>ngx_sprintf_num\<close>, \<open>ngx_hex_dump\<close>). Signed 64-bit
  arithmetic is written out: \<open>c_int64\<close> is the value that a 64-bit two's complement register holds, so that
  the absence of overflow is a theorem and not part of the model. The value \<open>-1\<close> is \<open>NGX_ERROR\<close>.
\<close>

section \<open>Reading decimal numbers\<close>

definition c_int64 :: "int \<Rightarrow> int" where
  "c_int64 x = signed_take_bit 63 x"

text \<open>The loop of the four decimal readers.\<close>

fun ato_loop :: "int \<Rightarrow> int \<Rightarrow> int \<Rightarrow> u_char list \<Rightarrow> int" where
  "ato_loop cutoff cutlim value [] = value"
| "ato_loop cutoff cutlim value (ch # line) =
     (if ch < c_0 \<or> ch > c_9 then -1
      else if value \<ge> cutoff \<and> (value > cutoff \<or> uint (ch - c_0) > cutlim) then -1
      else ato_loop cutoff cutlim (c_int64 (value * 10 + uint (ch - c_0))) line)"

definition ngx_atoi :: "u_char list \<Rightarrow> int" where
  "ngx_atoi line =
    (if line = [] then -1
     else ato_loop (NGX_MAX_INT_T_VALUE div 10) (NGX_MAX_INT_T_VALUE mod 10) 0 line)"

definition ngx_atosz :: "u_char list \<Rightarrow> int" where
  "ngx_atosz line =
    (if line = [] then -1
     else ato_loop (NGX_MAX_SIZE_T_VALUE div 10) (NGX_MAX_SIZE_T_VALUE mod 10) 0 line)"

definition ngx_atoof :: "u_char list \<Rightarrow> int" where
  "ngx_atoof line =
    (if line = [] then -1
     else ato_loop (NGX_MAX_OFF_T_VALUE div 10) (NGX_MAX_OFF_T_VALUE mod 10) 0 line)"

definition ngx_atotm :: "u_char list \<Rightarrow> int" where
  "ngx_atotm line =
    (if line = [] then -1
     else ato_loop (NGX_MAX_TIME_T_VALUE div 10) (NGX_MAX_TIME_T_VALUE mod 10) 0 line)"

text \<open>\<open>ngx_atofp\<close>: the loop over the digits, with \<open>point\<close> the number of digits still allowed after
  the dot, then the loop that appends zeros.\<close>

fun atofp_zeros :: "int \<Rightarrow> int \<Rightarrow> nat \<Rightarrow> int" where
  "atofp_zeros cutoff value 0 = value"
| "atofp_zeros cutoff value (Suc point) =
     (if value > cutoff then -1 else atofp_zeros cutoff (c_int64 (value * 10)) point)"

fun atofp_loop :: "int \<Rightarrow> int \<Rightarrow> int \<Rightarrow> bool \<Rightarrow> nat \<Rightarrow> u_char list \<Rightarrow> int" where
  "atofp_loop cutoff cutlim value dot point [] = atofp_zeros cutoff value point"
| "atofp_loop cutoff cutlim value dot point (ch # line) =
     (if point = 0 then -1
      else if ch = c_dot then
        (if dot then -1 else atofp_loop cutoff cutlim value True point line)
      else if ch < c_0 \<or> ch > c_9 then -1
      else if value \<ge> cutoff \<and> (value > cutoff \<or> uint (ch - c_0) > cutlim) then -1
      else atofp_loop cutoff cutlim (c_int64 (value * 10 + uint (ch - c_0))) dot
             (point - (if dot then 1 else 0)) line)"

definition ngx_atofp :: "u_char list \<Rightarrow> nat \<Rightarrow> int" where
  "ngx_atofp line point =
    (if line = [] then -1
     else atofp_loop (NGX_MAX_INT_T_VALUE div 10) (NGX_MAX_INT_T_VALUE mod 10) 0 False point line)"

section \<open>Reading and printing hexadecimal numbers\<close>

fun hextoi_loop :: "int \<Rightarrow> int \<Rightarrow> u_char list \<Rightarrow> int" where
  "hextoi_loop cutoff value [] = value"
| "hextoi_loop cutoff value (ch # line) =
     (if value > cutoff then -1
      else if is_digit ch then
        hextoi_loop cutoff (c_int64 (value * 16 + uint (ch - c_0))) line
      else if is_af (ch OR 0x20) then
        hextoi_loop cutoff (c_int64 (value * 16 + uint ((ch OR 0x20) - c_a + 10))) line
      else -1)"

definition ngx_hextoi :: "u_char list \<Rightarrow> int" where
  "ngx_hextoi line = (if line = [] then -1 else hextoi_loop (NGX_MAX_INT_T_VALUE div 16) 0 line)"

definition hex :: "u_char list" where
  "hex = bytes ''0123456789abcdef''"

definition HEX :: "u_char list" where
  "HEX = bytes ''0123456789ABCDEF''"

fun ngx_hex_dump :: "u_char list \<Rightarrow> u_char list" where
  "ngx_hex_dump [] = []"
| "ngx_hex_dump (c # src) =
     hex ! unat (drop_bit 4 c) # hex ! unat (c AND 0xf) # ngx_hex_dump src"

section \<open>Printing a number\<close>

text \<open>The loops \<open>do { *--p = ...; } while (...)\<close> fill \<open>temp\<close> from its end; the bytes written so far are
  \<open>acc\<close>.\<close>

function dec_loop :: "nat \<Rightarrow> u_char list \<Rightarrow> u_char list" where
  "dec_loop n acc =
    (let acc = word_of_nat (n mod 10 + 0x30) # acc in
     if n div 10 \<noteq> 0 then dec_loop (n div 10) acc else acc)"
  by pat_completeness auto

termination
  by (relation "measure fst") auto

function hex_loop :: "u_char list \<Rightarrow> nat \<Rightarrow> u_char list \<Rightarrow> u_char list" where
  "hex_loop digits n acc =
    (let acc = digits ! (n mod 16) # acc in
     if n div 16 \<noteq> 0 then hex_loop digits (n div 16) acc else acc)"
  by pat_completeness auto

termination
  by (relation "measure (fst \<circ> snd)") auto

declare dec_loop.simps [simp del] hex_loop.simps [simp del]

definition NGX_INT64_LEN :: nat where
  "NGX_INT64_LEN = 20"

definition num_digits :: "ngx_uint_t \<Rightarrow> nat \<Rightarrow> u_char list" where
  "num_digits ui64 hexadecimal =
    (if hexadecimal = 0 then
       (if ui64 \<le> 0xffffffff then dec_loop (unat (ucast ui64 :: uint32_t)) []
        else dec_loop (unat ui64) [])
     else if hexadecimal = 1 then hex_loop hex (unat ui64) []
     else hex_loop HEX (unat ui64) [])"

text \<open>\<open>room\<close> is \<open>last - buf\<close>; the bytes written are returned.\<close>

function pad_loop :: "nat \<Rightarrow> nat \<Rightarrow> nat \<Rightarrow> u_char \<Rightarrow> u_char list" where
  "pad_loop len width room zero =
    (if len < width \<and> 0 < room then zero # pad_loop (len + 1) width (room - 1) zero else [])"
  by pat_completeness auto

termination
  by (relation "measure (\<lambda>(_, _, room, _). room)") auto

declare pad_loop.simps [simp del]

definition ngx_sprintf_num :: "nat \<Rightarrow> ngx_uint_t \<Rightarrow> u_char \<Rightarrow> nat \<Rightarrow> nat \<Rightarrow> u_char list" where
  "ngx_sprintf_num room ui64 zero hexadecimal width =
    (let p = num_digits ui64 hexadecimal;
         pad = pad_loop (length p) width room zero;
         len = (if length pad + length p > room then room - length pad else length p)
     in pad @ take len p)"

end
