(* ===== verification/Ngx_Number_Props.thy ===== *)
theory Ngx_Number_Props
  imports Ngx_Number
begin

text \<open>
  The readers of decimal numbers share one contract, the locale \<open>decimal_reader\<close>: the value of the
  digits when there are only digits and the value fits, \<open>NGX_ERROR\<close> otherwise. It is interpreted by
  \<open>ngx_atoi\<close>, \<open>ngx_atosz\<close>, \<open>ngx_atoof\<close> and \<open>ngx_atotm\<close>, whose loops test for overflow before they
  multiply. What \<open>ngx_sprintf_num\<close> prints, they read back.
\<close>

section \<open>The value of digits\<close>

definition dec_digit :: "u_char \<Rightarrow> int" where
  "dec_digit c = uint (c - c_0)"

definition dec_from :: "int \<Rightarrow> u_char list \<Rightarrow> int" where
  "dec_from v line = foldl (\<lambda>v c. v * 10 + dec_digit c) v line"

lemma dec_from_simps [simp]:
  "dec_from v [] = v" "dec_from v (c # cs) = dec_from (v * 10 + dec_digit c) cs"
  by (simp_all add: dec_from_def)

lemma dec_from_append: "dec_from v (xs @ ys) = dec_from (dec_from v xs) ys"
  by (simp add: dec_from_def)

lemma dec_digit_range: "is_digit c \<Longrightarrow> 0 \<le> dec_digit c \<and> dec_digit c \<le> 9"
proof -
  assume "is_digit c"
  then have "unat (c - c_0) \<le> 9"
    by (auto simp: is_digit_def unat_sub word_le_nat_alt)
  then have "c - c_0 \<le> 9" by (simp add: word_le_nat_alt)
  then show ?thesis by (simp add: dec_digit_def word_le_def)
qed

lemma dec_from_mono: "0 \<le> v \<Longrightarrow> list_all is_digit cs \<Longrightarrow> v \<le> dec_from v cs"
proof (induction cs arbitrary: v)
  case (Cons c cs)
  then have "0 \<le> dec_digit c" using dec_digit_range [of c] by simp
  with Cons have "v * 10 + dec_digit c \<le> dec_from (v * 10 + dec_digit c) cs" "v \<le> v * 10 + dec_digit c"
    by simp_all
  then show ?case by simp
qed simp

lemma not_digit_iff: "c < c_0 \<or> c > c_9 \<longleftrightarrow> \<not> is_digit c"
  by (auto simp: is_digit_def not_le)

lemma c_int64_id: "- (2 ^ 63) \<le> x \<Longrightarrow> x < 2 ^ 63 \<Longrightarrow> c_int64 x = x"
  unfolding c_int64_def by (rule signed_take_bit_int_eq_self) simp_all

section \<open>The contract of the decimal readers\<close>

locale decimal_reader =
  fixes ato :: "u_char list \<Rightarrow> int" and limit :: int
  assumes ato_spec:
      "ato line =
        (if line \<noteq> [] \<and> list_all is_digit line \<and> dec_from 0 line \<le> limit then dec_from 0 line else -1)"
    and limit_nonneg: "0 \<le> limit"
begin

lemma ato_range: "-1 \<le> ato line \<and> ato line \<le> limit"
  using dec_from_mono [of 0 line] limit_nonneg by (auto simp: ato_spec)

lemma ato_error_iff:
  "ato line = -1 \<longleftrightarrow> line = [] \<or> \<not> list_all is_digit line \<or> limit < dec_from 0 line"
  using dec_from_mono [of 0 line] by (auto simp: ato_spec)

lemma ato_reads:
  "line \<noteq> [] \<Longrightarrow> list_all is_digit line \<Longrightarrow> dec_from 0 line = n \<Longrightarrow> n \<le> limit \<Longrightarrow> ato line = n"
  by (simp add: ato_spec)

end

text \<open>The test before the multiplication is the test for the next value.\<close>

lemma cutoff_test:
  fixes v d lim :: int
  assumes "0 \<le> d" "d \<le> 9"
  shows "v \<ge> lim div 10 \<and> (v > lim div 10 \<or> d > lim mod 10) \<longleftrightarrow> lim < v * 10 + d"
proof -
  have "lim = lim div 10 * 10 + lim mod 10" "0 \<le> lim mod 10" "lim mod 10 \<le> 9" by simp_all
  then show ?thesis using assms by (smt (verit))
qed

lemma ato_loop_spec:
  assumes "0 \<le> v" "v \<le> lim" "lim < 2 ^ 63"
  shows "ato_loop (lim div 10) (lim mod 10) v line =
    (if list_all is_digit line \<and> dec_from v line \<le> lim then dec_from v line else -1)"
  using assms(1,2)
proof (induction line arbitrary: v)
  case (Cons c cs)
  show ?case
  proof (cases "is_digit c")
    case True
    have d: "0 \<le> dec_digit c" "dec_digit c \<le> 9" using dec_digit_range [OF True] by simp_all
    let ?v = "v * 10 + dec_digit c"
    show ?thesis
    proof (cases "lim < ?v")
      case over: True
      have "\<not> (list_all is_digit cs \<and> dec_from ?v cs \<le> lim)"
        using dec_from_mono [of ?v cs] over Cons.prems d by auto
      then show ?thesis
        using True over cutoff_test [OF d, of lim v] not_digit_iff [of c] by (auto simp: dec_digit_def)
    next
      case False
      have "c_int64 ?v = ?v" using False Cons.prems d assms(3) by (intro c_int64_id) simp_all
      then have "ato_loop (lim div 10) (lim mod 10) v (c # cs) = ato_loop (lim div 10) (lim mod 10) ?v cs"
        using True False cutoff_test [OF d, of lim v] not_digit_iff [of c]
        unfolding dec_digit_def by (simp only: ato_loop.simps if_False not_True_eq_False)
      then show ?thesis
        using True False Cons.IH [of ?v] Cons.prems d by (simp del: ato_loop.simps)
    qed
  next
    case False
    then show ?thesis using not_digit_iff [of c] by simp
  qed
qed simp

lemma ato_limits:
  "0 \<le> NGX_MAX_INT_T_VALUE \<and> NGX_MAX_INT_T_VALUE < 2 ^ 63"
  "0 \<le> NGX_MAX_SIZE_T_VALUE \<and> NGX_MAX_SIZE_T_VALUE < 2 ^ 63"
  "0 \<le> NGX_MAX_OFF_T_VALUE \<and> NGX_MAX_OFF_T_VALUE < 2 ^ 63"
  "0 \<le> NGX_MAX_TIME_T_VALUE \<and> NGX_MAX_TIME_T_VALUE < 2 ^ 63"
  by (simp_all add: NGX_MAX_INT_T_VALUE_def NGX_MAX_SIZE_T_VALUE_def NGX_MAX_OFF_T_VALUE_def
      NGX_MAX_TIME_T_VALUE_def)

lemma decimal_readerI:
  assumes "\<And>line. ato line = (if line = [] then -1 else ato_loop (lim div 10) (lim mod 10) 0 line)"
    and "0 \<le> lim \<and> lim < 2 ^ 63"
  shows "decimal_reader ato lim"
  using assms by unfold_locales (simp_all add: ato_loop_spec)

interpretation atoi: decimal_reader ngx_atoi NGX_MAX_INT_T_VALUE
  using ngx_atoi_def ato_limits(1) by (rule decimal_readerI)

interpretation atosz: decimal_reader ngx_atosz NGX_MAX_SIZE_T_VALUE
  using ngx_atosz_def ato_limits(2) by (rule decimal_readerI)

interpretation atoof: decimal_reader ngx_atoof NGX_MAX_OFF_T_VALUE
  using ngx_atoof_def ato_limits(3) by (rule decimal_readerI)

interpretation atotm: decimal_reader ngx_atotm NGX_MAX_TIME_T_VALUE
  using ngx_atotm_def ato_limits(4) by (rule decimal_readerI)

section \<open>Printing\<close>

lemma dec_loop_acc: "dec_loop n acc = dec_loop n [] @ acc"
proof (induction n arbitrary: acc rule: less_induct)
  case (less n)
  show ?case
  proof (cases "n div 10 = 0")
    case False
    then have "n div 10 < n" by (cases n) auto
    then show ?thesis
      using False less.IH [of "n div 10" "word_of_nat (n mod 10 + 0x30) # acc"]
        less.IH [of "n div 10" "[word_of_nat (n mod 10 + 0x30)]"]
      by (simp add: dec_loop.simps [of n] Let_def)
  qed (simp add: dec_loop.simps [of n] Let_def)
qed

lemma digit_byte:
  assumes "k < 10"
  shows "is_digit (word_of_nat (k + 0x30)) \<and> dec_digit (word_of_nat (k + 0x30)) = int k"
proof -
  have "k \<in> {0, 1, 2, 3, 4, 5, 6, 7, 8, 9}" using assms by auto
  then show ?thesis by (auto simp: is_digit_def dec_digit_def)
qed

lemma dec_loop_spec:
  "dec_loop n [] \<noteq> [] \<and> list_all is_digit (dec_loop n []) \<and> dec_from 0 (dec_loop n []) = int n"
proof (induction n rule: less_induct)
  case (less n)
  have k: "is_digit (word_of_nat (n mod 10 + 0x30))" "dec_digit (word_of_nat (n mod 10 + 0x30)) = int (n mod 10)"
    using digit_byte [of "n mod 10"] by simp_all
  show ?case
  proof (cases "n div 10 = 0")
    case True
    then have "n mod 10 = n" by auto
    with True k show ?thesis by (simp add: dec_loop.simps [of n] Let_def)
  next
    case False
    then have "n div 10 < n" by (cases n) auto
    moreover have "dec_loop n [] = dec_loop (n div 10) [] @ [word_of_nat (n mod 10 + 0x30)]"
      using False dec_loop_acc [of "n div 10" "[word_of_nat (n mod 10 + 0x30)]"] by (simp add: dec_loop.simps [of n] Let_def)
    moreover have "int (n div 10) * 10 + int (n mod 10) = int n"
      by (metis div_mult_mod_eq of_nat_add of_nat_mult of_nat_numeral)
    ultimately show ?thesis using less.IH [of "n div 10"] k by (simp add: dec_from_append)
  qed
qed

lemma dec_loop_length: "n < 10 ^ Suc k \<Longrightarrow> length (dec_loop n []) \<le> Suc k"
proof (induction k arbitrary: n)
  case 0
  then have "n div 10 = 0" by simp
  then show ?case by (simp add: dec_loop.simps [of n] Let_def)
next
  case (Suc k)
  have m: "n div 10 < 10 ^ Suc k" using Suc.prems by (simp add: div_less_iff_less_mult mult.commute)
  show ?case
  proof (cases "n div 10 = 0")
    case False
    then have "dec_loop n [] = dec_loop (n div 10) [] @ [word_of_nat (n mod 10 + 0x30)]"
      using dec_loop_acc [of "n div 10" "[word_of_nat (n mod 10 + 0x30)]"] by (simp add: dec_loop.simps [of n] Let_def)
    then show ?thesis using Suc.IH [OF m] by simp
  qed (simp add: dec_loop.simps [of n] Let_def)
qed

lemma pad_loop_spec: "pad_loop len width room zero = replicate (min (width - len) room) zero"
proof (induction len width room zero rule: pad_loop.induct)
  case (1 len width room zero)
  show ?case
  proof (cases "len < width \<and> 0 < room")
    case True
    then have "min (width - len) room = Suc (min (width - (len + 1)) (room - 1))" by (auto simp: min_def)
    with True 1 show ?thesis by (simp add: pad_loop.simps [of len])
  qed (auto simp: pad_loop.simps [of len])
qed

text \<open>The specification of \<open>ngx_sprintf_num\<close>: the digits, padded on the left to the width, cut at the end
  of the buffer.\<close>

lemma sprintf_num_spec:
  "ngx_sprintf_num room n zero hexadecimal width =
    take room (replicate (width - length (num_digits n hexadecimal)) zero @ num_digits n hexadecimal)"
  by (auto simp: ngx_sprintf_num_def Let_def pad_loop_spec min_def)

lemma num_digits_dec: "num_digits n 0 = dec_loop (unat n) []"
proof (cases "n \<le> 0xffffffff")
  case True
  then have "unat n \<le> unat (0xffffffff :: ngx_uint_t)" by (simp only: word_le_nat_alt)
  then have "unat n < 2 ^ 32" by simp
  then have "unat (ucast n :: uint32_t) = unat n"
    by (simp add: unsigned_ucast_eq unsigned_take_bit_eq take_bit_nat_eq_self)
  then show ?thesis using True by (simp add: num_digits_def)
qed (simp add: num_digits_def)

lemma dec_from_zeros: "dec_from 0 (replicate k c_0 @ ds) = dec_from 0 ds"
  by (induction k) (simp_all add: dec_digit_def)

section \<open>Hexadecimal\<close>

definition hex_digit :: "u_char \<Rightarrow> int" where
  "hex_digit c = (if is_digit c then uint (c - c_0) else uint ((c OR 0x20) - c_a + 10))"

definition is_hex :: "u_char \<Rightarrow> bool" where
  "is_hex c \<longleftrightarrow> is_digit c \<or> is_af (c OR 0x20)"

definition hex_from :: "int \<Rightarrow> u_char list \<Rightarrow> int" where
  "hex_from v line = foldl (\<lambda>v c. v * 16 + hex_digit c) v line"

lemma hex_from_simps [simp]:
  "hex_from v [] = v" "hex_from v (c # cs) = hex_from (v * 16 + hex_digit c) cs"
  by (simp_all add: hex_from_def)

lemma hex_from_append: "hex_from v (xs @ ys) = hex_from (hex_from v xs) ys"
  by (simp add: hex_from_def)

lemma hex_digit_range_all: "\<forall>c. is_hex c \<longrightarrow> 0 \<le> hex_digit c \<and> hex_digit c \<le> 15"
  unfolding byte_forall by (simp add: all_bytes_def is_hex_def hex_digit_def ch_defs) (simp add: word_le_nat_alt)

lemmas hex_digit_range = hex_digit_range_all [rule_format]

lemma hex_from_mono: "0 \<le> v \<Longrightarrow> list_all is_hex cs \<Longrightarrow> v \<le> hex_from v cs"
proof (induction cs arbitrary: v)
  case (Cons c cs)
  then have "0 \<le> hex_digit c" using hex_digit_range [of c] by simp
  with Cons have "v * 16 + hex_digit c \<le> hex_from (v * 16 + hex_digit c) cs" "v \<le> v * 16 + hex_digit c"
    by simp_all
  then show ?case by simp
qed simp

lemma hextoi_step:
  "hextoi_loop cutoff v (c # cs) =
    (if v > cutoff \<or> \<not> is_hex c then -1 else hextoi_loop cutoff (c_int64 (v * 16 + hex_digit c)) cs)"
  by (simp add: is_hex_def hex_digit_def)

lemma hextoi_loop_spec:
  assumes "0 \<le> v" "v < 2 ^ 63"
  shows "hextoi_loop (NGX_MAX_INT_T_VALUE div 16) v line =
    (if list_all is_hex line \<and> hex_from v line \<le> NGX_MAX_INT_T_VALUE then hex_from v line else -1)"
  using assms
proof (induction line arbitrary: v)
  case (Cons c cs)
  have m: "NGX_MAX_INT_T_VALUE = 2 ^ 63 - 1" "NGX_MAX_INT_T_VALUE div 16 = 2 ^ 59 - 1"
    by (simp_all add: NGX_MAX_INT_T_VALUE_def)
  let ?v = "v * 16 + hex_digit c"
  show ?case
  proof (cases "is_hex c \<and> v \<le> NGX_MAX_INT_T_VALUE div 16")
    case True
    have d: "0 \<le> hex_digit c" "hex_digit c \<le> 15" using hex_digit_range [of c] True by simp_all
    have "0 \<le> ?v" "?v < 2 ^ 63" using True d Cons.prems unfolding m by simp_all
    then show ?thesis
      using True c_int64_id [of ?v] Cons.IH [of ?v] by (simp add: hextoi_step del: hextoi_loop.simps(2))
  next
    case False
    have "\<not> (list_all is_hex (c # cs) \<and> hex_from v (c # cs) \<le> NGX_MAX_INT_T_VALUE)"
    proof
      assume a: "list_all is_hex (c # cs) \<and> hex_from v (c # cs) \<le> NGX_MAX_INT_T_VALUE"
      then have d: "0 \<le> hex_digit c" "hex_digit c \<le> 15" using hex_digit_range [of c] by simp_all
      then have "?v \<le> hex_from ?v cs" using hex_from_mono [of ?v cs] a Cons.prems by simp
      then show False using a False d unfolding m by auto
    qed
    then show ?thesis using False by (auto simp: hextoi_step simp del: hextoi_loop.simps(2))
  qed
qed (simp add: NGX_MAX_INT_T_VALUE_def)

lemma hextoi_spec:
  "ngx_hextoi line =
    (if line \<noteq> [] \<and> list_all is_hex line \<and> hex_from 0 line \<le> NGX_MAX_INT_T_VALUE
     then hex_from 0 line else -1)"
  by (simp add: ngx_hextoi_def hextoi_loop_spec)

lemma hex_table:
  assumes "k < 16"
  shows "is_hex (hex ! k) \<and> hex_digit (hex ! k) = int k" "is_hex (HEX ! k) \<and> hex_digit (HEX ! k) = int k"
proof -
  have "k \<in> {0, 1, 2, 3, 4, 5, 6, 7, 8, 9, 10, 11, 12, 13, 14, 15}"
    using assms by (auto simp: numeral_eq_Suc less_Suc_eq)
  then show "is_hex (hex ! k) \<and> hex_digit (hex ! k) = int k" "is_hex (HEX ! k) \<and> hex_digit (HEX ! k) = int k"
    by (auto simp: hex_def HEX_def bytes_def is_hex_def hex_digit_def ch_defs)
qed

lemma hex_loop_acc: "hex_loop ds n acc = hex_loop ds n [] @ acc"
proof (induction n arbitrary: acc rule: less_induct)
  case (less n)
  show ?case
  proof (cases "n div 16 = 0")
    case False
    then have "n div 16 < n" by (cases n) auto
    then show ?thesis
      using False less.IH [of "n div 16" "ds ! (n mod 16) # acc"] less.IH [of "n div 16" "[ds ! (n mod 16)]"]
      by (simp add: hex_loop.simps [of ds n] Let_def)
  qed (simp add: hex_loop.simps [of ds n] Let_def)
qed

lemma hex_loop_spec:
  assumes "ds = hex \<or> ds = HEX"
  shows "hex_loop ds n [] \<noteq> [] \<and> list_all is_hex (hex_loop ds n []) \<and> hex_from 0 (hex_loop ds n []) = int n"
proof (induction n rule: less_induct)
  case (less n)
  have k: "is_hex (ds ! (n mod 16))" "hex_digit (ds ! (n mod 16)) = int (n mod 16)"
    using hex_table [of "n mod 16"] assms by auto
  show ?case
  proof (cases "n div 16 = 0")
    case True
    then have "n mod 16 = n" by auto
    with True k show ?thesis by (simp add: hex_loop.simps [of ds n] Let_def)
  next
    case False
    then have "n div 16 < n" by (cases n) auto
    moreover have "hex_loop ds n [] = hex_loop ds (n div 16) [] @ [ds ! (n mod 16)]"
      using False hex_loop_acc [of ds "n div 16" "[ds ! (n mod 16)]"] by (simp add: hex_loop.simps [of ds n] Let_def)
    moreover have "int (n div 16) * 16 + int (n mod 16) = int n"
      by (metis div_mult_mod_eq of_nat_add of_nat_mult of_nat_numeral)
    ultimately show ?thesis using less.IH [of "n div 16"] k by (simp add: hex_from_append)
  qed
qed

lemma hex_loop_length: "n < 16 ^ Suc k \<Longrightarrow> length (hex_loop ds n []) \<le> Suc k"
proof (induction k arbitrary: n)
  case 0
  then have "n div 16 = 0" by simp
  then show ?case by (simp add: hex_loop.simps [of ds n] Let_def)
next
  case (Suc k)
  have m: "n div 16 < 16 ^ Suc k" using Suc.prems by (simp add: div_less_iff_less_mult mult.commute)
  show ?case
  proof (cases "n div 16 = 0")
    case False
    then have "hex_loop ds n [] = hex_loop ds (n div 16) [] @ [ds ! (n mod 16)]"
      using hex_loop_acc [of ds "n div 16" "[ds ! (n mod 16)]"] by (simp add: hex_loop.simps [of ds n] Let_def)
    then show ?thesis using Suc.IH [OF m] by simp
  qed (simp add: hex_loop.simps [of ds n] Let_def)
qed

lemma nibbles:
  "unat (drop_bit 4 (c :: u_char)) < 16" "unat (c AND 0xf) < 16"
  "unat (drop_bit 4 c) * 16 + unat (c AND 0xf) = unat c"
proof -
  have h: "unat (drop_bit 4 c) = unat c div 16" by (simp only: unat_drop_bit_eq) (simp add: drop_bit_eq_div)
  have "c AND 0xf = take_bit 4 c" by (simp add: take_bit_eq_mask mask_eq_exp_minus_1)
  then have l: "unat (c AND 0xf) = unat c mod 16"
    by (simp only: unsigned_take_bit_eq) (simp add: take_bit_eq_mod)
  show "unat (drop_bit 4 c) < 16" unfolding h using byte_unat_less [of c] by (simp add: div_less_iff_less_mult)
  show "unat (c AND 0xf) < 16" unfolding l by simp
  show "unat (drop_bit 4 c) * 16 + unat (c AND 0xf) = unat c" unfolding h l by simp
qed

lemma hex_dump_spec:
  "list_all is_hex (ngx_hex_dump bs) \<and>
   hex_from v (ngx_hex_dump bs) = foldl (\<lambda>v b. v * 256 + uint b) v bs"
proof (induction bs arbitrary: v)
  case (Cons b bs)
  let ?hi = "uint (drop_bit 4 b)" and ?lo = "uint (b AND 0xf)"
  have e: "(v * 16 + ?hi) * 16 + ?lo = v * 256 + uint b"
    using arg_cong [OF nibbles(3) [of b], of int] by simp
  note tables = hex_table(1) [OF nibbles(1) [of b]] hex_table(1) [OF nibbles(2) [of b]]
  have "hex_from v (ngx_hex_dump (b # bs)) = hex_from ((v * 16 + ?hi) * 16 + ?lo) (ngx_hex_dump bs)"
    using tables by simp
  also have "\<dots> = foldl (\<lambda>v b. v * 256 + uint b) v (b # bs)"
    unfolding e using Cons by simp
  finally show ?case using tables Cons by simp
qed simp

section \<open>Fixed point\<close>

lemma atofp_zeros_spec:
  assumes "0 \<le> v" "v \<le> NGX_MAX_INT_T_VALUE"
  shows "atofp_zeros (NGX_MAX_INT_T_VALUE div 10) v k =
    (if v * 10 ^ k \<le> NGX_MAX_INT_T_VALUE then v * 10 ^ k else -1)"
  using assms
proof (induction k arbitrary: v)
  case (Suc k)
  show ?case
  proof (cases "v \<le> NGX_MAX_INT_T_VALUE div 10")
    case True
    then have "v * 10 \<le> NGX_MAX_INT_T_VALUE" "v * 10 < 2 ^ 63" by (simp_all add: NGX_MAX_INT_T_VALUE_def)
    then show ?thesis
      using True Suc.IH [of "v * 10"] Suc.prems c_int64_id [of "v * 10"] by (simp add: mult.assoc)
  next
    case False
    then have "NGX_MAX_INT_T_VALUE < v * 10" by (simp add: NGX_MAX_INT_T_VALUE_def)
    also have "v * 10 * 1 \<le> v * 10 * 10 ^ k" using Suc.prems by (intro mult_left_mono) simp_all
    finally show ?thesis using False by (simp add: mult.assoc)
  qed
qed simp

lemma atofp_digits:
  assumes "list_all is_digit ds" "0 \<le> v" "v \<le> NGX_MAX_INT_T_VALUE"
    and "0 < point" "dot \<longrightarrow> length ds \<le> point"
  shows "atofp_loop (NGX_MAX_INT_T_VALUE div 10) (NGX_MAX_INT_T_VALUE mod 10) v dot point (ds @ rest) =
    (if dec_from v ds \<le> NGX_MAX_INT_T_VALUE
     then atofp_loop (NGX_MAX_INT_T_VALUE div 10) (NGX_MAX_INT_T_VALUE mod 10) (dec_from v ds) dot
       (point - (if dot then length ds else 0)) rest
     else -1)"
  using assms
proof (induction ds arbitrary: v point)
  case (Cons c ds)
  let ?lim = NGX_MAX_INT_T_VALUE and ?v = "v * 10 + dec_digit c"
  have c: "is_digit c" "c \<noteq> c_dot" using Cons.prems(1) by (auto simp: is_digit_def)
  have d: "0 \<le> dec_digit c" "dec_digit c \<le> 9" using dec_digit_range [OF c(1)] by simp_all
  note test = cutoff_test [OF d, of ?lim v, unfolded dec_digit_def] not_digit_iff [of c]
  show ?case
  proof (cases "?lim < ?v")
    case True
    then have "\<not> dec_from ?v ds \<le> ?lim"
      using dec_from_mono [of ?v ds] Cons.prems(1,2) d by simp
    then show ?thesis
      using True test c Cons.prems(4) by (simp add: dec_digit_def)
  next
    case False
    then have "c_int64 ?v = ?v"
      using Cons.prems(2) d ato_limits(1) by (intro c_int64_id) simp_all
    then have "atofp_loop (?lim div 10) (?lim mod 10) v dot point ((c # ds) @ rest) =
        atofp_loop (?lim div 10) (?lim mod 10) ?v dot (point - (if dot then 1 else 0)) (ds @ rest)"
      using False test c Cons.prems(4) by (auto simp: dec_digit_def)
    moreover have "dec_from v (c # ds) = dec_from ?v ds" by simp
    moreover have "?v \<le> ?lim" "0 \<le> ?v" using False Cons.prems(2) d by simp_all
    moreover have "list_all is_digit ds" using Cons.prems(1) by simp
    ultimately show ?thesis
      using Cons.IH [of ?v "point - (if dot then 1 else 0)"] Cons.prems(4,5)
      by (cases ds; cases dot) (simp_all del: atofp_loop.simps dec_from_simps(2))
  qed
qed simp

section \<open>Properties\<close>

text \<open>C27. The four decimal readers are exact: for every input they return the value of the digits if the
  input is a non-empty string of digits whose value does not exceed the limit of the type, and
  \<open>NGX_ERROR\<close> otherwise; the 64-bit arithmetic inside never wraps.\<close>

theorem decimal_readers_exact:
  "ngx_atoi line =
     (if line \<noteq> [] \<and> list_all is_digit line \<and> dec_from 0 line \<le> NGX_MAX_INT_T_VALUE
      then dec_from 0 line else -1) \<and>
   ngx_atosz line =
     (if line \<noteq> [] \<and> list_all is_digit line \<and> dec_from 0 line \<le> NGX_MAX_SIZE_T_VALUE
      then dec_from 0 line else -1) \<and>
   ngx_atoof line =
     (if line \<noteq> [] \<and> list_all is_digit line \<and> dec_from 0 line \<le> NGX_MAX_OFF_T_VALUE
      then dec_from 0 line else -1) \<and>
   ngx_atotm line =
     (if line \<noteq> [] \<and> list_all is_digit line \<and> dec_from 0 line \<le> NGX_MAX_TIME_T_VALUE
      then dec_from 0 line else -1)"
  using atoi.ato_spec atosz.ato_spec atoof.ato_spec atotm.ato_spec by blast

lemma uint64_less: "unat (n :: ngx_uint_t) < 2 ^ 64"
  by (rule less_le_trans [OF unsigned_less]) simp

lemma printed_decimal:
  assumes "20 \<le> room" "width \<le> room"
  shows "ngx_sprintf_num room n c_0 0 width \<noteq> [] \<and> list_all is_digit (ngx_sprintf_num room n c_0 0 width) \<and>
    dec_from 0 (ngx_sprintf_num room n c_0 0 width) = uint n"
proof -
  let ?ds = "dec_loop (unat n) []"
  have "unat n < 2 ^ 64" by (rule uint64_less)
  also have "\<dots> < 10 ^ Suc 19" by simp
  finally have "length ?ds \<le> 20" using dec_loop_length [of "unat n" 19] by simp
  then have e: "ngx_sprintf_num room n c_0 0 width = replicate (width - length ?ds) c_0 @ ?ds"
    using assms by (simp add: sprintf_num_spec num_digits_dec)
  have "list_all is_digit (replicate k c_0)" for k by (induction k) (simp_all add: is_digit_def)
  then show ?thesis
    unfolding e dec_from_zeros using dec_loop_spec [of "unat n"] by simp
qed

text \<open>C31. What \<open>ngx_sprintf_num\<close> prints in decimal with zero padding, in a buffer that has room for it, each
  of the four readers reads back.\<close>

theorem decimal_print_read:
  assumes "uint n \<le> NGX_MAX_INT_T_VALUE" "20 \<le> room" "width \<le> room"
  shows "ngx_atoi (ngx_sprintf_num room n c_0 0 width) = uint n \<and>
     ngx_atosz (ngx_sprintf_num room n c_0 0 width) = uint n \<and>
     ngx_atoof (ngx_sprintf_num room n c_0 0 width) = uint n \<and>
     ngx_atotm (ngx_sprintf_num room n c_0 0 width) = uint n"
  using printed_decimal [OF assms(2,3), of n] assms(1)
    atoi.ato_reads [of "ngx_sprintf_num room n c_0 0 width"]
    atosz.ato_reads [of "ngx_sprintf_num room n c_0 0 width"]
    atoof.ato_reads [of "ngx_sprintf_num room n c_0 0 width"]
    atotm.ato_reads [of "ngx_sprintf_num room n c_0 0 width"]
  by (simp add: NGX_MAX_INT_T_VALUE_def NGX_MAX_SIZE_T_VALUE_def NGX_MAX_OFF_T_VALUE_def
      NGX_MAX_TIME_T_VALUE_def)

theorem decimal_print_read_witness: "ngx_atoi (ngx_sprintf_num 32 4711 c_0 0 8) = 4711"
  using decimal_print_read [of 4711 32 8] by (simp add: NGX_MAX_INT_T_VALUE_def)

text \<open>\<open>ngx_sprintf_num\<close> writes at most the bytes between \<open>buf\<close> and \<open>last\<close>, and the digits it makes,
  in decimal or hexadecimal, never exceed the \<open>NGX_INT64_LEN\<close> bytes of its temporary array.\<close>

theorem sprintf_num_in_bounds:
  "length (ngx_sprintf_num room n zero hexadecimal width) \<le> room \<and>
   length (num_digits n hexadecimal) \<le> NGX_INT64_LEN"
proof -
  have n: "unat n < 2 ^ 64" by (rule uint64_less)
  then have "unat n < 10 ^ Suc 19" "unat n < 16 ^ Suc 15" by simp_all
  then have "length (num_digits n hexadecimal) \<le> NGX_INT64_LEN"
    using dec_loop_length [of "unat n" 19] hex_loop_length [of "unat n" 15 hex]
      hex_loop_length [of "unat n" 15 HEX] num_digits_dec [of n]
    by (cases "hexadecimal = 0") (simp_all add: NGX_INT64_LEN_def num_digits_def)
  then show ?thesis by (simp add: sprintf_num_spec)
qed

text \<open>\<open>ngx_hextoi\<close> is exact: the value of a non-empty string of hexadecimal digits that does not exceed
  \<open>NGX_MAX_INT_T_VALUE\<close>, \<open>NGX_ERROR\<close> otherwise; and it reads back the numbers printed with \<open>%x\<close> and \<open>%X\<close>,
  and the bytes printed by \<open>ngx_hex_dump\<close> as a big-endian number.\<close>

theorem hextoi_exact:
  "ngx_hextoi line =
     (if line \<noteq> [] \<and> list_all is_hex line \<and> hex_from 0 line \<le> NGX_MAX_INT_T_VALUE
      then hex_from 0 line else -1) \<and>
   (if uint n \<le> NGX_MAX_INT_T_VALUE
    then ngx_hextoi (num_digits n 1) = uint n \<and> ngx_hextoi (num_digits n 2) = uint n
    else ngx_hextoi (num_digits n 1) = -1 \<and> ngx_hextoi (num_digits n 2) = -1) \<and>
   (if bs \<noteq> [] \<and> foldl (\<lambda>v b. v * 256 + uint b) 0 bs \<le> NGX_MAX_INT_T_VALUE
    then ngx_hextoi (ngx_hex_dump bs) = foldl (\<lambda>v b. v * 256 + uint b) 0 bs
    else ngx_hextoi (ngx_hex_dump bs) = -1)"
proof -
  have "ngx_hex_dump bs = [] \<longleftrightarrow> bs = []" by (cases bs) simp_all
  then show ?thesis
    using hextoi_spec hex_loop_spec [of hex "unat n"] hex_loop_spec [of HEX "unat n"] hex_dump_spec [of bs 0]
    by (auto simp: num_digits_def)
qed

text \<open>\<open>ngx_atofp\<close> reads a fixed point number: for digits before and after the dot, with at most \<open>point\<close>
  of them after it, the result is the number scaled by ten to the power \<open>point\<close> if that does not exceed
  \<open>NGX_MAX_INT_T_VALUE\<close>, and \<open>NGX_ERROR\<close> if it does.\<close>

theorem atofp_scales:
  assumes "list_all is_digit whole" "list_all is_digit frac" "length frac \<le> point" "0 < point"
  shows "ngx_atofp (whole @ [c_dot] @ frac) point =
    (if dec_from 0 (whole @ frac) * 10 ^ (point - length frac) \<le> NGX_MAX_INT_T_VALUE
     then dec_from 0 (whole @ frac) * 10 ^ (point - length frac) else -1)"
proof -
  let ?lim = NGX_MAX_INT_T_VALUE and ?w = "dec_from 0 whole" and ?f = "dec_from 0 (whole @ frac)"
  let ?k = "point - length frac"
  have w: "0 \<le> ?w" "?w \<le> ?f" "0 \<le> ?f"
    using dec_from_mono [of 0 whole] dec_from_mono [of ?w frac] assms(1,2) by (simp_all add: dec_from_append)
  have "?f * 1 \<le> ?f * 10 ^ ?k" using w by (intro mult_left_mono) simp_all
  then have s: "?f * 10 ^ ?k \<le> ?lim \<Longrightarrow> ?f \<le> ?lim" by simp
  have "ngx_atofp (whole @ [c_dot] @ frac) point =
      (if ?w \<le> ?lim then atofp_loop (?lim div 10) (?lim mod 10) ?w True point (frac @ []) else -1)"
    using atofp_digits [OF assms(1), of 0 point False "[c_dot] @ frac"] assms(4) ato_limits(1)
    by (simp add: ngx_atofp_def)
  also have "\<dots> = (if ?w \<le> ?lim then
      (if ?f \<le> ?lim then atofp_zeros (?lim div 10) ?f ?k else -1) else -1)"
    using atofp_digits [OF assms(2) w(1), of point True "[]"] assms(3,4)
    by (simp add: dec_from_append)
  finally have "ngx_atofp (whole @ [c_dot] @ frac) point =
      (if ?w \<le> ?lim then (if ?f \<le> ?lim then atofp_zeros (?lim div 10) ?f ?k else -1) else -1)" .
  then show ?thesis
    using atofp_zeros_spec [of ?f ?k] w s by (cases "?f * 10 ^ ?k \<le> ?lim") simp_all
qed

theorem atofp_scales_witness: "ngx_atofp (bytes ''10.5'') 2 = 1050"
  using atofp_scales [of "bytes ''10''" "bytes ''5''" 2]
  by (simp add: bytes_def is_digit_def dec_digit_def NGX_MAX_INT_T_VALUE_def)

end
