(* ===== verification/Ngx_Printf.thy ===== *)
theory Ngx_Printf
  imports Ngx_Number_Props
begin

text \<open>
  \<open>ngx_vslprintf\<close> of \<open>src/core/ngx_string.c\<close>: the formatted output of nginx. The format is the bytes of a
  C string before its terminator, \<open>room\<close> is \<open>last - buf\<close>, the variable arguments are a list, and the result
  is the bytes written. \<open>None\<close> stands for undefined behaviour: an argument that is missing or of another
  type than the conversion reads, a length of \<open>%*s\<close> beyond the string, or a format that ends in the middle
  of a conversion, where the code would step over the terminator. The conversion \<open>%f\<close>, which computes
  with doubles, is not modelled.
\<close>

section \<open>Formats\<close>

datatype va =
    Va_str "u_char list"
  | Va32 uint32_t
  | Va64 ngx_uint_t

record fmt_spec =
  fs_zero :: u_char
  fs_width :: nat
  fs_sign :: bool
  fs_hex :: nat
  fs_max_width :: bool
  fs_frac_width :: nat
  fs_slen :: "nat option"

text \<open>\<open>while (*fmt >= '0' && *fmt <= '9') width = width * 10 + (*fmt++ - '0')\<close>.\<close>

fun fmt_digits :: "nat \<Rightarrow> u_char list \<Rightarrow> nat \<times> u_char list" where
  "fmt_digits w [] = (w, [])"
| "fmt_digits w (c # f) =
     (if is_digit c then fmt_digits ((w * 10 + unat (c - c_0)) mod 2 ^ 64) f else (w, c # f))"

text \<open>The loop over the flags.\<close>

fun fmt_flags :: "fmt_spec \<Rightarrow> u_char list \<Rightarrow> va list \<Rightarrow> (fmt_spec \<times> u_char list \<times> va list) option" where
  "fmt_flags sp [] args = Some (sp, [], args)"
| "fmt_flags sp (c # f) args =
     (if c = 0x75 then fmt_flags (sp\<lparr>fs_sign := False\<rparr>) f args
      else if c = 0x6d then fmt_flags (sp\<lparr>fs_max_width := True\<rparr>) f args
      else if c = 0x58 then fmt_flags (sp\<lparr>fs_hex := 2, fs_sign := False\<rparr>) f args
      else if c = 0x78 then fmt_flags (sp\<lparr>fs_hex := 1, fs_sign := False\<rparr>) f args
      else if c = c_dot then
        (let (w, f') = fmt_digits (fs_frac_width sp) f in Some (sp\<lparr>fs_frac_width := w\<rparr>, f', args))
      else if c = c_star then
        (case args of
           Va64 n # args' \<Rightarrow> fmt_flags (sp\<lparr>fs_slen := Some (unat n)\<rparr>) f args'
         | _ \<Rightarrow> None)
      else Some (sp, c # f, args))"

text \<open>From the byte after the percent sign to the conversion letter.\<close>

definition fmt_parse :: "u_char list \<Rightarrow> va list \<Rightarrow> (fmt_spec \<times> u_char list \<times> va list) option" where
  "fmt_parse f args =
    (let zero = (case f of c # _ \<Rightarrow> if c = c_0 then c_0 else SP | [] \<Rightarrow> SP);
         (w, f') = fmt_digits 0 f
     in fmt_flags
          \<lparr> fs_zero = zero, fs_width = w, fs_sign = True, fs_hex = 0, fs_max_width = False,
            fs_frac_width = 0, fs_slen = None \<rparr> f' args)"

section \<open>Conversions\<close>

text \<open>The code after the switch, for a number that is signed (\<open>i64\<close>) or not (\<open>ui64\<close>).\<close>

definition fmt_number :: "nat \<Rightarrow> fmt_spec \<Rightarrow> ngx_uint_t \<Rightarrow> u_char list" where
  "fmt_number room sp n =
    (if fs_sign sp \<and> sint n < 0
     then c_minus # ngx_sprintf_num (room - 1) (- n) (fs_zero sp) (fs_hex sp) (fs_width sp)
     else ngx_sprintf_num room n (fs_zero sp) (fs_hex sp) (fs_width sp))"

text \<open>The numeric conversions: what is read from the arguments, at its width, and how the flags change.\<close>

definition conv_number :: "fmt_spec \<Rightarrow> u_char \<Rightarrow> va list \<Rightarrow> (fmt_spec \<times> ngx_uint_t \<times> va list) option" where
  "conv_number sp d args =
    (case args of
       Va64 n # args' \<Rightarrow>
         if d \<in> {0x4f, 0x54, 0x72} then Some (sp\<lparr>fs_sign := True\<rparr>, n, args')
         else if d = 0x4d then Some (sp\<lparr>fs_sign := (n = -1)\<rparr>, n, args')
         else if d \<in> {0x7a, 0x6c, 0x4c} then Some (sp, n, args')
         else if d \<in> {0x69, 0x41} then
           Some (if fs_max_width sp then sp\<lparr>fs_width := NGX_INT64_LEN\<rparr> else sp, n, args')
         else if d = 0x70 then
           Some (sp\<lparr>fs_hex := 2, fs_sign := False, fs_zero := c_0, fs_width := 16\<rparr>, n, args')
         else None
     | Va32 n # args' \<Rightarrow>
         if d = 0x50 then Some (sp\<lparr>fs_sign := True\<rparr>, scast n, args')
         else if d \<in> {0x64, 0x44} then
           Some (sp, if fs_sign sp then scast n else ucast n, args')
         else None
     | _ \<Rightarrow> None)"

text \<open>One conversion with at least one byte of room: the bytes written and the remaining arguments.\<close>

definition fmt_conv :: "nat \<Rightarrow> fmt_spec \<Rightarrow> u_char \<Rightarrow> va list \<Rightarrow> (u_char list \<times> va list) option" where
  "fmt_conv room sp d args =
    (if d = 0x56 \<or> d = 0x76 then
       (case args of Va_str v # args' \<Rightarrow> Some (take room v, args') | _ \<Rightarrow> None)
     else if d = 0x73 then
       (case args of
          Va_str p # args' \<Rightarrow>
            (case fs_slen sp of
               None \<Rightarrow> Some (take room (takeWhile (\<lambda>c. c \<noteq> NUL) p), args')
             | Some n \<Rightarrow> if n \<le> length p then Some (take (min room n) p, args') else None)
        | _ \<Rightarrow> None)
     else if d = 0x66 then None
     else if d = 0x63 then
       (case args of Va32 n # args' \<Rightarrow> Some ([ucast (n AND 0xff)], args') | _ \<Rightarrow> None)
     else if d = 0x5a then Some ([NUL], args)
     else if d = 0x4e then Some ([LF], args)
     else if d = c_percent then Some ([c_percent], args)
     else if d \<in> {0x4f, 0x50, 0x54, 0x72, 0x4d, 0x7a, 0x6c, 0x4c, 0x69, 0x41, 0x70, 0x64, 0x44} then
       (case conv_number sp d args of
          None \<Rightarrow> None
        | Some (sp', n, args') \<Rightarrow> Some (fmt_number room sp' n, args'))
     else Some ([d], args))"

section \<open>The loop\<close>

lemma fmt_digits_shrinks: "length (snd (fmt_digits w f)) \<le> length f"
  by (induction f arbitrary: w) (auto simp: le_SucI)

lemma fmt_flags_shrinks: "fmt_flags sp f args = Some (sp', f', args') \<Longrightarrow> length f' \<le> length f"
proof (induction sp f args rule: fmt_flags.induct)
  case (2 sp c f args)
  have "length (snd (fmt_digits w f)) \<le> Suc (length f)" for w
    using fmt_digits_shrinks [of w f] by simp
  with 2 show ?case
    by (auto simp: le_SucI split: if_splits list.splits va.splits prod.splits) (metis snd_conv)
qed simp

lemma fmt_parse_shrinks: "fmt_parse f args = Some (sp', f', args') \<Longrightarrow> length f' \<le> length f"
  using fmt_flags_shrinks fmt_digits_shrinks [of 0 f]
  by (fastforce simp: fmt_parse_def Let_def split: prod.splits)

function ngx_vslprintf :: "nat \<Rightarrow> u_char list \<Rightarrow> va list \<Rightarrow> u_char list option" where
  "ngx_vslprintf room fmt args =
    (case fmt of
       [] \<Rightarrow> Some []
     | c # f \<Rightarrow>
         if room = 0 then Some []
         else if c \<noteq> c_percent then map_option (\<lambda>out. c # out) (ngx_vslprintf (room - 1) f args)
         else
           (case fmt_parse f args of
              None \<Rightarrow> None
            | Some (sp, f', args') \<Rightarrow>
                (case f' of
                   [] \<Rightarrow> None
                 | d # f'' \<Rightarrow>
                     (case fmt_conv room sp d args' of
                        None \<Rightarrow> None
                      | Some (out, args'') \<Rightarrow>
                          map_option (\<lambda>rest. out @ rest) (ngx_vslprintf (room - length out) f'' args'')))))"
  by pat_completeness auto

termination
  by (relation "measure (\<lambda>(_, fmt, _). length fmt)") (auto dest!: fmt_parse_shrinks)

declare ngx_vslprintf.simps [simp del]

text \<open>The wrappers: \<open>ngx_snprintf\<close> is given the size of the buffer, \<open>ngx_slprintf\<close> its end.\<close>

definition ngx_snprintf :: "nat \<Rightarrow> u_char list \<Rightarrow> va list \<Rightarrow> u_char list option" where
  "ngx_snprintf room fmt args = ngx_vslprintf room fmt args"

definition ngx_slprintf :: "nat \<Rightarrow> nat \<Rightarrow> u_char list \<Rightarrow> va list \<Rightarrow> u_char list option" where
  "ngx_slprintf buf lst fmt args = ngx_vslprintf (lst - buf) fmt args"

section \<open>Truncation\<close>

lemma sprintf_num_trunc:
  "k \<le> room \<Longrightarrow> ngx_sprintf_num k n zero h width = take k (ngx_sprintf_num room n zero h width)"
  by (simp add: sprintf_num_spec min_def)

lemma fmt_number_trunc:
  assumes "0 < k" "k \<le> room"
  shows "fmt_number k sp n = take k (fmt_number room sp n)"
proof -
  have "ngx_sprintf_num (k - 1) (- n) (fs_zero sp) (fs_hex sp) (fs_width sp) =
      take (k - 1) (ngx_sprintf_num (room - 1) (- n) (fs_zero sp) (fs_hex sp) (fs_width sp))"
    using assms by (intro sprintf_num_trunc) simp
  then show ?thesis
    using assms sprintf_num_trunc [OF assms(2), of n] by (simp add: fmt_number_def take_Cons')
qed

lemma fmt_conv_trunc:
  assumes "fmt_conv room sp d args = Some (out, args')" "0 < k" "k \<le> room"
  shows "fmt_conv k sp d args = Some (take k out, args')"
proof -
  let ?letters = "{0x56, 0x76, 0x73, 0x66, 0x63, 0x5a, 0x4e, c_percent} :: u_char set"
  consider "d = 0x56 \<or> d = 0x76" | "d = 0x73" | "d = 0x63" | "d \<in> {0x66, 0x5a, 0x4e, c_percent}"
    | "d \<notin> ?letters" by blast
  then show ?thesis
  proof cases
    case 1
    then show ?thesis
      using assms by (auto simp: fmt_conv_def min_def split: list.splits va.splits)
  next
    case 2
    then show ?thesis
      using assms by (auto simp: fmt_conv_def min_def split: list.splits va.splits option.splits if_splits)
  next
    case 3
    then show ?thesis
      using assms by (auto simp: fmt_conv_def take_Cons' split: list.splits va.splits)
  next
    case 4
    then show ?thesis using assms by (auto simp: fmt_conv_def take_Cons')
  next
    case 5
    let ?nums = "{0x4f, 0x50, 0x54, 0x72, 0x4d, 0x7a, 0x6c, 0x4c, 0x69, 0x41, 0x70, 0x64, 0x44} :: u_char set"
    have "fmt_conv j sp d args = (if d \<in> ?nums
        then (case conv_number sp d args of None \<Rightarrow> None
          | Some (sp', n, args') \<Rightarrow> Some (fmt_number j sp' n, args'))
        else Some ([d], args))" for j
      using 5 unfolding fmt_conv_def by simp
    then show ?thesis
      using assms fmt_number_trunc [OF assms(2,3)]
      by (auto simp: take_Cons' simp del: insert_iff split: if_splits option.splits)
  qed
qed

lemma vslprintf_no_room: "ngx_vslprintf 0 fmt args = Some []"
  by (simp add: ngx_vslprintf.simps split: list.splits)

lemma vslprintf_trunc:
  "ngx_vslprintf room fmt args = Some out \<Longrightarrow> k \<le> room \<Longrightarrow> ngx_vslprintf k fmt args = Some (take k out)"
proof (induction room fmt args arbitrary: out k rule: ngx_vslprintf.induct)
  case (1 room fmt args)
  show ?case
  proof (cases "k = 0 \<or> fmt = []")
    case True
    then show ?thesis using 1(3) vslprintf_no_room by (auto simp: ngx_vslprintf.simps)
  next
    case False
    then obtain c f where fmt: "fmt = c # f" by (cases fmt) auto
    have r: "room \<noteq> 0" "0 < k" using False 1(4) by auto
    show ?thesis
    proof (cases "c = c_percent")
      case c: False
      then obtain rest where rest: "ngx_vslprintf (room - 1) f args = Some rest" "out = c # rest"
        using 1(3) r by (auto simp: ngx_vslprintf.simps [of room "c # f"] fmt)
      have "ngx_vslprintf (k - 1) f args = Some (take (k - 1) rest)"
        using 1(1) [OF fmt r(1) c rest(1)] 1(4) by simp
      then show ?thesis
        using c r rest(2) by (simp add: ngx_vslprintf.simps [of k "c # f"] fmt take_Cons')
    next
      case c: True
      obtain sp d f2 args1 where p: "fmt_parse f args = Some (sp, d # f2, args1)"
        using 1(3) r c by (auto simp: ngx_vslprintf.simps [of room "c_percent # f"] fmt split: option.splits list.splits)
      obtain o1 args2 rest where o: "fmt_conv room sp d args1 = Some (o1, args2)"
          "ngx_vslprintf (room - length o1) f2 args2 = Some rest" "out = o1 @ rest"
        using 1(3) r c p by (auto simp: ngx_vslprintf.simps [of room "c_percent # f"] fmt split: option.splits)
      have "ngx_vslprintf (k - length o1) f2 args2 = Some (take (k - length o1) rest)"
        using 1(2) [OF fmt r(1) _ p refl refl refl o(1) refl o(2), of "k - length o1"] c 1(4) by simp
      moreover have "k - length (take k o1) = k - length o1" by simp
      ultimately show ?thesis
        using c r p fmt_conv_trunc [OF o(1) r(2) 1(4)] o(3)
        by (simp add: ngx_vslprintf.simps [of k "c_percent # f"] fmt)
    qed
  qed
qed

lemma fmt_conv_length: "fmt_conv room sp d args = Some (out, args') \<Longrightarrow> 0 < room \<Longrightarrow> length out \<le> room"
  using fmt_conv_trunc [of room sp d args out args' room] by (metis length_take min.cobounded2 option.inject order_refl prod.inject)

text \<open>C32. Bounds and truncation of formatted output: for every format without \<^verbatim>\<open>%f\<close> and arguments of the types that its conversions
  read (the model has no result for \<^verbatim>\<open>%f\<close>, nor where an argument is missing or of another type, which C leaves undefined),
  \<open>ngx_vslprintf\<close> writes at most \<open>room\<close> bytes, and with less room it has a result too and writes a prefix of the same output.\<close>

theorem vslprintf_truncates:
  assumes "ngx_vslprintf room fmt args = Some out" "k \<le> room"
  shows "length out \<le> room \<and> ngx_vslprintf k fmt args = Some (take k out)"
proof -
  have "take room out = out" using vslprintf_trunc [OF assms(1) order_refl] assms(1) by simp
  then have "length out \<le> room" by (metis length_take min.cobounded2)
  then show ?thesis using vslprintf_trunc [OF assms] by simp
qed

lemma demo_format:
  "ngx_vslprintf 64 (bytes ''a%O-%V'') [Va64 (-5), Va_str (bytes ''xyz'')] = Some (bytes ''a-5-xyz'')"
  by (simp add: bytes_def ngx_vslprintf.simps fmt_parse_def fmt_conv_def conv_number_def fmt_number_def
    is_digit_def ngx_sprintf_num_def num_digits_def dec_loop.simps pad_loop.simps)

theorem vslprintf_truncates_witness:
  "ngx_vslprintf 5 (bytes ''a%O-%V'') [Va64 (-5), Va_str (bytes ''xyz'')] = Some (bytes ''a-5-x'')"
  using vslprintf_truncates [OF demo_format, of 5] by (simp add: bytes_def)

section \<open>Printing and reading off_t\<close>

lemma vslprintf_conv:
  assumes "fmt_parse f args = Some (sp, [d], args1)" "fmt_conv room sp d args1 = Some (out, args2)" "0 < room"
  shows "ngx_vslprintf room (c_percent # f) args = Some out"
  using assms by (simp add: ngx_vslprintf.simps)

lemma sint_bounds: "- (2 ^ 63) \<le> sint (n :: ngx_uint_t)" "sint (n :: ngx_uint_t) < 2 ^ 63"
  using sint_ge [of n] sint_lt [of n] by simp_all

lemma sint_cases:
  fixes n :: ngx_uint_t
  shows "0 \<le> sint n \<Longrightarrow> uint n = sint n" "sint n < 0 \<Longrightarrow> uint (- n) = - sint n"
proof -
  have n: "uint (word_of_int (sint n) :: ngx_uint_t) = sint n mod 2 ^ 64"
    "uint (word_of_int (- sint n) :: ngx_uint_t) = (- sint n) mod 2 ^ 64"
    by (simp_all only: uint_word_of_int) simp_all
  have w: "(word_of_int (sint n) :: ngx_uint_t) = n" by simp
  then have m: "(word_of_int (- sint n) :: ngx_uint_t) = - n" by (metis of_int_minus)
  show "0 \<le> sint n \<Longrightarrow> uint n = sint n"
    using n(1) sint_bounds(2) [of n] by (simp add: w mod_pos_pos_trivial)
  show "sint n < 0 \<Longrightarrow> uint (- n) = - sint n"
    using n(2) sint_bounds(1) [of n] unfolding m by (simp add: mod_pos_pos_trivial)
qed

text \<open>An \<open>off_t\<close> printed with \<open>%O\<close> reads back: a number that is not negative through \<open>ngx_atoof\<close>, a
  negative one is a minus sign and the digits of its absolute value, the least value of the type
  included.\<close>

theorem printf_off_t:
  assumes "21 \<le> room"
  shows "\<exists>out. ngx_vslprintf room (bytes ''%O'') [Va64 n] = Some out \<and>
    (if sint n < 0 then \<exists>ds. out = c_minus # ds \<and> list_all is_digit ds \<and> dec_from 0 ds = - sint n
     else ngx_atoof out = sint n)"
proof -
  let ?sp = "\<lparr> fs_zero = SP, fs_width = 0, fs_sign = True, fs_hex = 0, fs_max_width = False,
            fs_frac_width = 0, fs_slen = None \<rparr>"
  have p: "fmt_parse [0x4f] [Va64 n] = Some (?sp, [0x4f], [Va64 n])"
    by (simp add: fmt_parse_def is_digit_def)
  have "fmt_conv room ?sp 0x4f [Va64 n] = Some (fmt_number room ?sp n, [])"
    by (simp add: fmt_conv_def conv_number_def)
  from vslprintf_conv [OF p this] have out:
      "ngx_vslprintf room (bytes ''%O'') [Va64 n] = Some (fmt_number room ?sp n)"
    using assms by (simp add: bytes_def)
  have z: "ngx_sprintf_num j m SP 0 0 = ngx_sprintf_num j m c_0 0 0" for j m
    by (simp add: sprintf_num_spec)
  show ?thesis
  proof (cases "sint n < 0")
    case True
    then show ?thesis
      using out printed_decimal [of "room - 1" 0 "- n"] sint_cases(2) [of n] assms
      by (simp add: fmt_number_def z)
  next
    case False
    have "sint n \<le> NGX_MAX_OFF_T_VALUE" using sint_bounds(2) [of n] by (simp add: NGX_MAX_OFF_T_VALUE_def)
    then show ?thesis
      using out printed_decimal [of room 0 n] sint_cases(1) [of n] assms False
        atoof.ato_reads [of "ngx_sprintf_num room n c_0 0 0"]
      by (simp add: fmt_number_def z)
  qed
qed

theorem printf_off_t_witness:
  "\<exists>out. ngx_vslprintf 32 (bytes ''%O'') [Va64 1024] = Some out \<and> ngx_atoof out = 1024"
  using printf_off_t [of 32 1024] by simp
end
