(* ===== verification/Ngx_Strcmp.thy ===== *)
theory Ngx_Strcmp
  imports Ngx_Prelude "HOL-Library.Multiset" "HOL-Library.List_Lexorder"
begin

text \<open>
  The comparisons, the searches and the sort of \<open>src/core/ngx_string.c\<close>.

  A pointer to a string is the list of the bytes from there to the end of the memory that may be read;
  a C string has a NUL byte in that list. Reading past the end is \<open>None\<close>. The results of the comparisons
  are the differences the code computes in \<open>ngx_int_t\<close>; pointers that the searches return are offsets from
  the start of the string.
\<close>

section \<open>Lengths and copies\<close>

fun strnlen_loop :: "u_char list \<Rightarrow> nat \<Rightarrow> nat \<Rightarrow> nat option" where
  "strnlen_loop p i 0 = Some i"
| "strnlen_loop p i (Suc k) =
     (case p of [] \<Rightarrow> None | c # p' \<Rightarrow> if c = NUL then Some i else strnlen_loop p' (Suc i) k)"

definition ngx_strnlen :: "u_char list \<Rightarrow> nat \<Rightarrow> nat option" where
  "ngx_strnlen p n = strnlen_loop p 0 n"

text \<open>The bytes \<open>ngx_cpystrn\<close> writes; the pointer it returns is the offset of the last of them.\<close>

fun cpystrn_loop :: "u_char list \<Rightarrow> nat \<Rightarrow> u_char list option" where
  "cpystrn_loop src 0 = Some [NUL]"
| "cpystrn_loop src (Suc n) =
     (case src of
        [] \<Rightarrow> None
      | c # src' \<Rightarrow> if c = NUL then Some [c] else map_option (\<lambda>dst. c # dst) (cpystrn_loop src' n))"

definition ngx_cpystrn :: "u_char list \<Rightarrow> nat \<Rightarrow> u_char list option" where
  "ngx_cpystrn src n = (if n = 0 then Some [] else cpystrn_loop src (n - 1))"

text \<open>\<open>ngx_strlchr\<close> of \<open>src/core/ngx_string.h\<close>.\<close>

fun strlchr_loop :: "u_char list \<Rightarrow> u_char \<Rightarrow> nat \<Rightarrow> nat option" where
  "strlchr_loop [] c i = None"
| "strlchr_loop (x # p) c i = (if x = c then Some i else strlchr_loop p c (Suc i))"

definition ngx_strlchr :: "u_char list \<Rightarrow> u_char \<Rightarrow> nat option" where
  "ngx_strlchr p c = strlchr_loop p c 0"

section \<open>Comparisons\<close>

definition byte_diff :: "u_char \<Rightarrow> u_char \<Rightarrow> int" where
  "byte_diff c1 c2 = int (unat c1) - int (unat c2)"

fun ngx_strcasecmp :: "u_char list \<Rightarrow> u_char list \<Rightarrow> int option" where
  "ngx_strcasecmp (a # s1) (b # s2) =
    (let c1 = ngx_tolower a; c2 = ngx_tolower b in
     if c1 = c2 then (if c1 \<noteq> NUL then ngx_strcasecmp s1 s2 else Some 0)
     else Some (byte_diff c1 c2))"
| "ngx_strcasecmp _ _ = None"

fun ngx_strncasecmp :: "u_char list \<Rightarrow> u_char list \<Rightarrow> nat \<Rightarrow> int option" where
  "ngx_strncasecmp s1 s2 0 = Some 0"
| "ngx_strncasecmp (a # s1) (b # s2) (Suc n) =
    (let c1 = ngx_tolower a; c2 = ngx_tolower b in
     if c1 = c2 then (if c1 \<noteq> NUL then ngx_strncasecmp s1 s2 n else Some 0)
     else Some (byte_diff c1 c2))"
| "ngx_strncasecmp _ _ (Suc n) = None"

text \<open>\<open>s1[n]\<close> and \<open>s2[n]\<close> from the last byte to the first; both have at least \<open>n\<close> bytes.\<close>

fun ngx_rstrncmp :: "u_char list \<Rightarrow> u_char list \<Rightarrow> nat \<Rightarrow> int" where
  "ngx_rstrncmp s1 s2 0 = 0"
| "ngx_rstrncmp s1 s2 (Suc n) =
     (if s1 ! n \<noteq> s2 ! n then byte_diff (s1 ! n) (s2 ! n) else ngx_rstrncmp s1 s2 n)"

definition upcase :: "u_char \<Rightarrow> u_char" where
  "upcase c = (if is_lower c then c - (c_a - c_A) else c)"

fun ngx_rstrncasecmp :: "u_char list \<Rightarrow> u_char list \<Rightarrow> nat \<Rightarrow> int" where
  "ngx_rstrncasecmp s1 s2 0 = 0"
| "ngx_rstrncasecmp s1 s2 (Suc n) =
     (let c1 = upcase (s1 ! n); c2 = upcase (s2 ! n) in
      if c1 \<noteq> c2 then byte_diff c1 c2 else ngx_rstrncasecmp s1 s2 n)"

text \<open>\<open>memcmp\<close> on the first \<open>n\<close> bytes, as the difference of the first bytes that differ.\<close>

fun c_memcmp :: "u_char list \<Rightarrow> u_char list \<Rightarrow> nat \<Rightarrow> int" where
  "c_memcmp (a # s1) (b # s2) (Suc n) = (if a = b then c_memcmp s1 s2 n else byte_diff a b)"
| "c_memcmp _ _ _ = 0"

definition ngx_memn2cmp :: "u_char list \<Rightarrow> u_char list \<Rightarrow> int" where
  "ngx_memn2cmp s1 s2 =
    (let n1 = length s1; n2 = length s2;
         n = (if n1 \<le> n2 then n1 else n2);
         z = (if n1 \<le> n2 then -1 else 1);
         m = c_memcmp s1 s2 n
     in if m \<noteq> 0 \<or> n1 = n2 then m else z)"

fun ngx_dns_strcmp :: "u_char list \<Rightarrow> u_char list \<Rightarrow> int option" where
  "ngx_dns_strcmp (a # s1) (b # s2) =
    (let c1 = ngx_tolower a; c2 = ngx_tolower b in
     if c1 = c2 then (if c1 \<noteq> NUL then ngx_dns_strcmp s1 s2 else Some 0)
     else
       (let c1 = (if c1 = c_dot then SP else c1); c2 = (if c2 = c_dot then SP else c2) in
        Some (byte_diff c1 c2)))"
| "ngx_dns_strcmp _ _ = None"

fun ngx_filename_cmp :: "u_char list \<Rightarrow> u_char list \<Rightarrow> nat \<Rightarrow> int option" where
  "ngx_filename_cmp s1 s2 0 = Some 0"
| "ngx_filename_cmp (c1 # s1) (c2 # s2) (Suc n) =
    (if c1 = c2 then (if c1 \<noteq> NUL then ngx_filename_cmp s1 s2 n else Some 0)
     else if c1 = NUL \<or> c2 = NUL then Some (byte_diff c1 c2)
     else
       (let c1 = (if c1 = c_slash then 0 else c1); c2 = (if c2 = c_slash then 0 else c2) in
        Some (byte_diff c1 c2)))"
| "ngx_filename_cmp _ _ (Suc n) = None"

section \<open>Searches\<close>

text \<open>\<open>strncmp\<close> of the C library.\<close>

fun c_strncmp :: "u_char list \<Rightarrow> u_char list \<Rightarrow> nat \<Rightarrow> int option" where
  "c_strncmp s1 s2 0 = Some 0"
| "c_strncmp (a # s1) (b # s2) (Suc n) =
     (if a \<noteq> b then Some (byte_diff a b) else if a = NUL then Some 0 else c_strncmp s1 s2 n)"
| "c_strncmp _ _ (Suc n) = None"

text \<open>The double loops: the inner one looks for the first byte of the pattern, the outer one compares the
  rest. \<open>Some None\<close> is the result \<open>NULL\<close>. The pattern is \<open>c2 # s2\<close>, with \<open>n\<close> the length of its rest.\<close>

fun strnstr_loop :: "u_char \<Rightarrow> u_char list \<Rightarrow> nat \<Rightarrow> u_char list \<Rightarrow> nat \<Rightarrow> nat \<Rightarrow> nat option option" where
  "strnstr_loop c2 s2 n s1 0 i = Some None"
| "strnstr_loop c2 s2 n s1 (Suc len) i =
     (case s1 of
        [] \<Rightarrow> None
      | c1 # s1' \<Rightarrow>
          if c1 = NUL then Some None
          else if c1 \<noteq> c2 then strnstr_loop c2 s2 n s1' len (Suc i)
          else if n > len then Some None
          else
            (case c_strncmp s1' s2 n of
               None \<Rightarrow> None
             | Some d \<Rightarrow> if d \<noteq> 0 then strnstr_loop c2 s2 n s1' len (Suc i) else Some (Some i)))"

definition ngx_strnstr :: "u_char list \<Rightarrow> u_char \<Rightarrow> u_char list \<Rightarrow> nat \<Rightarrow> nat option option" where
  "ngx_strnstr s1 c2 s2 len = strnstr_loop c2 (s2 @ [NUL]) (length s2) s1 len 0"

fun strstrn_loop :: "u_char \<Rightarrow> u_char list \<Rightarrow> nat \<Rightarrow> u_char list \<Rightarrow> nat \<Rightarrow> nat option option" where
  "strstrn_loop c2 s2 n [] i = None"
| "strstrn_loop c2 s2 n (c1 # s1) i =
     (if c1 = NUL then Some None
      else if c1 \<noteq> c2 then strstrn_loop c2 s2 n s1 (Suc i)
      else
        (case c_strncmp s1 s2 n of
           None \<Rightarrow> None
         | Some d \<Rightarrow> if d \<noteq> 0 then strstrn_loop c2 s2 n s1 (Suc i) else Some (Some i)))"

definition ngx_strstrn :: "u_char list \<Rightarrow> u_char \<Rightarrow> u_char list \<Rightarrow> nat \<Rightarrow> nat option option" where
  "ngx_strstrn s1 c2 s2 n = strstrn_loop c2 s2 n s1 0"

text \<open>\<open>ngx_strcasestrn\<close> reads the first byte of its pattern through a \<open>char *\<close>, so a byte from 0x80 on is sign
  extended to \<open>ngx_uint_t\<close> and equals no byte of the string.\<close>

definition char_to_uint :: "u_char \<Rightarrow> int" where
  "char_to_uint c = (if c < 0x80 then int (unat (ngx_tolower c)) else sint c + 2 ^ 64)"

fun strcasestrn_loop :: "int \<Rightarrow> u_char list \<Rightarrow> nat \<Rightarrow> u_char list \<Rightarrow> nat \<Rightarrow> nat option option" where
  "strcasestrn_loop c2 s2 n [] i = None"
| "strcasestrn_loop c2 s2 n (c1 # s1) i =
     (if c1 = NUL then Some None
      else if int (unat (ngx_tolower c1)) \<noteq> c2 then strcasestrn_loop c2 s2 n s1 (Suc i)
      else
        (case ngx_strncasecmp s1 s2 n of
           None \<Rightarrow> None
         | Some d \<Rightarrow> if d \<noteq> 0 then strcasestrn_loop c2 s2 n s1 (Suc i) else Some (Some i)))"

definition ngx_strcasestrn :: "u_char list \<Rightarrow> u_char \<Rightarrow> u_char list \<Rightarrow> nat \<Rightarrow> nat option option" where
  "ngx_strcasestrn s1 c2 s2 n = strcasestrn_loop (char_to_uint c2) s2 n s1 0"

text \<open>\<open>s1 >= last\<close>, after \<open>last -= n\<close>, holds when at most \<open>n\<close> bytes are left. \<open>s1\<close> is the bytes up to
  \<open>last\<close>.\<close>

fun strlcasestrn_loop :: "u_char \<Rightarrow> u_char list \<Rightarrow> nat \<Rightarrow> u_char list \<Rightarrow> nat \<Rightarrow> nat option option" where
  "strlcasestrn_loop c2 s2 n [] i = Some None"
| "strlcasestrn_loop c2 s2 n (c1 # s1) i =
     (if Suc (length s1) \<le> n then Some None
      else if ngx_tolower c1 \<noteq> c2 then strlcasestrn_loop c2 s2 n s1 (Suc i)
      else
        (case ngx_strncasecmp s1 s2 n of
           None \<Rightarrow> None
         | Some d \<Rightarrow> if d \<noteq> 0 then strlcasestrn_loop c2 s2 n s1 (Suc i) else Some (Some i)))"

definition ngx_strlcasestrn :: "u_char list \<Rightarrow> u_char \<Rightarrow> u_char list \<Rightarrow> nat \<Rightarrow> nat option option" where
  "ngx_strlcasestrn s1 c2 s2 n = strlcasestrn_loop (ngx_tolower c2) s2 n s1 0"

section \<open>Sorting\<close>

text \<open>\<open>ngx_sort\<close>: \<open>sort_shift\<close> is the inner loop for the element \<open>p\<close>, whose slot \<open>j\<close> is free, and
  \<open>sort_from\<close> the outer loop, with \<open>k\<close> elements still to do.\<close>

fun sort_shift :: "('a \<Rightarrow> 'a \<Rightarrow> int) \<Rightarrow> 'a \<Rightarrow> 'a list \<Rightarrow> nat \<Rightarrow> 'a list" where
  "sort_shift cmp p base 0 = base[0 := p]"
| "sort_shift cmp p base (Suc j) =
     (if cmp (base ! j) p > 0 then sort_shift cmp p (base[Suc j := base ! j]) j
      else base[Suc j := p])"

fun sort_from :: "('a \<Rightarrow> 'a \<Rightarrow> int) \<Rightarrow> 'a list \<Rightarrow> nat \<Rightarrow> nat \<Rightarrow> 'a list" where
  "sort_from cmp base i 0 = base"
| "sort_from cmp base i (Suc k) = sort_from cmp (sort_shift cmp (base ! i) base i) (Suc i) k"

definition ngx_sort :: "('a \<Rightarrow> 'a \<Rightarrow> int) \<Rightarrow> 'a list \<Rightarrow> 'a list" where
  "ngx_sort cmp base = sort_from cmp base 1 (length base - 1)"

end
