(* ===== verification/Ngx_Strcmp_Props.thy ===== *)
theory Ngx_Strcmp_Props
  imports Ngx_Strcmp
begin

text \<open>
  The comparison functions are the order of a key, the locale \<open>key_comparator\<close>; with such a function
  \<open>ngx_sort\<close> is the stable sort by that key. The comparators that nginx sorts with are interpreted:
  \<open>ngx_memn2cmp\<close> (bytes in lexicographic order), \<open>ngx_strcasecmp\<close> (lower case) and \<open>ngx_filename_cmp\<close>
  (the slash before every other byte).
\<close>

section \<open>Comparators and the sort\<close>

locale key_comparator =
  fixes cmp :: "'a \<Rightarrow> 'a \<Rightarrow> int" and key :: "'a \<Rightarrow> 'k :: linorder"
  assumes cmp_pos: "cmp x y > 0 \<longleftrightarrow> key y < key x"
    and cmp_neg: "cmp x y < 0 \<longleftrightarrow> key x < key y"
begin

lemma cmp_zero: "cmp x y = 0 \<longleftrightarrow> key x = key y"
  using cmp_pos [of x y] cmp_neg [of x y] by (metis linorder_neqE less_irrefl)

lemma cmp_flip: "cmp x y > 0 \<longleftrightarrow> cmp y x < 0"
  by (simp add: cmp_pos cmp_neg)

lemma cmp_trans: "cmp x y \<le> 0 \<Longrightarrow> cmp y z \<le> 0 \<Longrightarrow> cmp x z \<le> 0"
  by (metis cmp_pos not_le order_trans)

text \<open>Inserting from the right end.\<close>

definition ins :: "'a \<Rightarrow> 'a list \<Rightarrow> 'a list" where
  "ins p ys = takeWhile (\<lambda>y. key y \<le> key p) ys @ [p] @ dropWhile (\<lambda>y. key y \<le> key p) ys"

lemma ins_snoc_greater:
  "key p < key y \<Longrightarrow> ins p (ys @ [y]) = ins p ys @ [y]"
  by (cases "\<forall>x \<in> set ys. key x \<le> key p")
    (auto simp: ins_def takeWhile_append dropWhile_append takeWhile_eq_all_conv [THEN iffD2])

lemma ins_sorted_end:
  assumes "sorted (map key (ys @ [y]))" "key y \<le> key p"
  shows "ins p (ys @ [y]) = ys @ [y, p]"
proof -
  have "\<forall>x \<in> set (ys @ [y]). key x \<le> key p"
    using assms by (auto simp: sorted_append)
  then show ?thesis
    by (simp add: ins_def takeWhile_eq_all_conv [THEN iffD2] dropWhile_eq_Nil_conv [THEN iffD2])
qed

lemma shift_ins:
  assumes "j < length base" "sorted (map key (take j base))"
  shows "sort_shift cmp p base j = ins p (take j base) @ drop (Suc j) base"
  using assms
proof (induction j arbitrary: base)
  case 0
  then show ?case by (cases base) (simp_all add: ins_def)
next
  case (Suc j)
  have t: "take (Suc j) base = take j base @ [base ! j]"
    using Suc.prems(1) by (simp add: take_Suc_conv_app_nth)
  show ?case
  proof (cases "cmp (base ! j) p > 0")
    case True
    let ?b = "base[Suc j := base ! j]"
    have "sorted (map key (take j ?b))"
      using Suc.prems(2) by (simp add: t sorted_append)
    then have "sort_shift cmp p ?b j = ins p (take j ?b) @ drop (Suc j) ?b"
      using Suc.IH [of ?b] Suc.prems(1) by simp
    also have "drop (Suc j) ?b = base ! j # drop (Suc (Suc j)) base"
      using Suc.prems(1) by (simp add: Cons_nth_drop_Suc [symmetric] drop_update_cancel)
    finally show ?thesis
      using True ins_snoc_greater [of p "base ! j" "take j base"] by (simp add: t cmp_pos)
  next
    case False
    then have "ins p (take j base @ [base ! j]) = take j base @ [base ! j, p]"
      using ins_sorted_end Suc.prems(2) unfolding t by (simp add: cmp_pos not_less)
    then show ?thesis
      using False Suc.prems(1) by (simp add: t upd_conv_take_nth_drop)
  qed
qed

lemma ins_mset: "mset (ins p ys) = add_mset p (mset ys)"
  unfolding ins_def by (metis add_mset_add_single append_Cons append_Nil mset.simps(2) mset_append
      takeWhile_dropWhile_id union_mset_add_mset_right)

lemma dropWhile_greater:
  "sorted (map key ys) \<Longrightarrow> y \<in> set (dropWhile (\<lambda>y. key y \<le> key p) ys) \<Longrightarrow> key p < key y"
  by (induction ys) (auto split: if_splits)

lemma ins_sorted:
  assumes "sorted (map key ys)"
  shows "sorted (map key (ins p ys))"
proof -
  have "key p < key y" if "y \<in> set (dropWhile (\<lambda>y. key y \<le> key p) ys)" for y
    using dropWhile_greater [OF assms that] .
  moreover have "sorted (map key (takeWhile (\<lambda>y. key y \<le> key p) ys))"
      "sorted (map key (dropWhile (\<lambda>y. key y \<le> key p) ys))"
    using assms by (metis map_append sorted_append takeWhile_dropWhile_id)+
  moreover have "key y \<le> key p" if "y \<in> set (takeWhile (\<lambda>y. key y \<le> key p) ys)" for y
    using set_takeWhileD [OF that] by simp
  ultimately show ?thesis
    by (fastforce simp: ins_def sorted_append)
qed

lemma ins_filter:
  assumes "sorted (map key ys)"
  shows "filter (\<lambda>x. key k = key x) (ins p ys) = filter (\<lambda>x. key k = key x) (ys @ [p])"
proof -
  let ?t = "takeWhile (\<lambda>y. key y \<le> key p) ys" and ?d = "dropWhile (\<lambda>y. key y \<le> key p) ys"
  have "filter (\<lambda>x. key k = key x) ?d = []" if "key k = key p"
    using that dropWhile_greater [OF assms, of _ p] by (fastforce simp: filter_empty_conv)
  then have d: "key k = key p \<longrightarrow> filter (\<lambda>x. key k = key x) ?d = []" by blast
  have gen: "filter Q (t @ [p] @ d) = filter Q ((t @ d) @ [p])" if "Q p \<longrightarrow> filter Q d = []"
    for Q and t d :: "'a list"
    using that by simp
  have "filter (\<lambda>x. key k = key x) (?t @ [p] @ ?d) = filter (\<lambda>x. key k = key x) ((?t @ ?d) @ [p])"
    by (rule gen) (rule d)
  then show ?thesis by (simp add: ins_def)
qed

lemma sort_from_spec:
  assumes "sorted (map key (take i base))" "i + k = length base"
    and "mset base = mset orig" "\<And>q. filter (\<lambda>x. key q = key x) base = filter (\<lambda>x. key q = key x) orig"
  shows "sorted (map key (sort_from cmp base i k)) \<and> mset (sort_from cmp base i k) = mset orig \<and>
    (\<forall>q. filter (\<lambda>x. key q = key x) (sort_from cmp base i k) = filter (\<lambda>x. key q = key x) orig)"
  using assms
proof (induction k arbitrary: base i)
  case (Suc k)
  let ?b = "sort_shift cmp (base ! i) base i"
  have i: "i < length base" using Suc.prems(2) by simp
  have b: "?b = ins (base ! i) (take i base) @ drop (Suc i) base"
    using shift_ins [OF i Suc.prems(1)] .
  have l: "length (ins (base ! i) (take i base)) = Suc i"
    using arg_cong [OF ins_mset [of "base ! i" "take i base"], of size] i by simp
  have base: "base = take i base @ [base ! i] @ drop (Suc i) base"
    using id_take_nth_drop [OF i] by simp
  have "sorted (map key (take (Suc i) ?b))"
    unfolding b using ins_sorted [OF Suc.prems(1)] l by simp
  moreover have "Suc i + k = length ?b" unfolding b using l Suc.prems(2) by simp
  moreover have "mset ?b = mset orig"
    unfolding b using Suc.prems(3) by (subst (asm) base) (simp add: ins_mset)
  moreover have "filter (\<lambda>x. key q = key x) ?b = filter (\<lambda>x. key q = key x) orig" for q
  proof -
    have "filter (\<lambda>x. key q = key x) ?b =
        filter (\<lambda>x. key q = key x) ((take i base @ [base ! i]) @ drop (Suc i) base)"
      unfolding b using ins_filter [OF Suc.prems(1), of q "base ! i"] by (simp only: filter_append)
    also have "(take i base @ [base ! i]) @ drop (Suc i) base = base" using base by simp
    finally show ?thesis using Suc.prems(4) by simp
  qed
  ultimately show ?case using Suc.IH [of "Suc i" ?b] by simp
qed simp

text \<open>Insertion sort with the comparator is the stable sort by the key.\<close>

lemma ngx_sort_stable: "ngx_sort cmp base = sort_key key base"
proof (cases base)
  case Nil
  then show ?thesis by (simp add: ngx_sort_def)
next
  case (Cons x xs)
  have "sorted (map key (take 1 base))" "1 + (length base - 1) = length base" by (simp_all add: Cons)
  from sort_from_spec [OF this refl refl] show ?thesis
    by (intro properties_for_sort_key [symmetric]) (simp_all add: ngx_sort_def)
qed

end

section \<open>The comparators\<close>

lemma byte_diff_sign:
  "0 < byte_diff a b \<longleftrightarrow> b < a" "byte_diff a b < 0 \<longleftrightarrow> a < b" "byte_diff a b = 0 \<longleftrightarrow> a = b"
  by (auto simp: byte_diff_def word_less_def word_uint_eq_iff)

lemma memn2cmp_spec:
  "(0 < ngx_memn2cmp s1 s2 \<longleftrightarrow> s2 < s1) \<and> (ngx_memn2cmp s1 s2 < 0 \<longleftrightarrow> s1 < s2)"
proof -
  have step: "ngx_memn2cmp (a # s1) (b # s2) = (if a = b then ngx_memn2cmp s1 s2 else byte_diff a b)" for a b s1 s2
    by (cases "a = b") (simp_all add: ngx_memn2cmp_def Let_def byte_diff_sign)
  show ?thesis
  proof (induction s1 arbitrary: s2)
    case Nil
    then show ?case by (cases s2) (simp_all add: ngx_memn2cmp_def)
  next
    case (Cons a s1)
    show ?case
    proof (cases s2)
      case Nil
      then show ?thesis by (simp add: ngx_memn2cmp_def)
    next
      case (Cons b s2')
      then show ?thesis
        using Cons.IH [of s2'] step [of a s1 b s2'] by (cases "a = b") (auto simp: byte_diff_sign)
    qed
  qed
qed

interpretation memn2cmp: key_comparator ngx_memn2cmp "\<lambda>s. s"
  by unfold_locales (simp_all add: memn2cmp_spec)

text \<open>The C string at a pointer, with its terminator, for a name without NUL bytes; a longer name is cut there.\<close>

definition c_str :: "u_char list \<Rightarrow> u_char list" where
  "c_str s = takeWhile (\<lambda>c. c \<noteq> NUL) s"

lemma c_str_simps [simp]: "c_str [] = []" "c_str (c # s) = (if c = NUL then [] else c # c_str s)"
  by (simp_all add: c_str_def)

lemma tolower_zero_all: "\<forall>c. ngx_tolower c = NUL \<longleftrightarrow> c = NUL"
  unfolding byte_forall by (simp add: all_bytes_def ngx_tolower_def ch_defs)

lemma tolower_zero [simp]: "ngx_tolower c = NUL \<longleftrightarrow> c = NUL"
  using tolower_zero_all by blast

lemma tolower_NUL [simp]: "ngx_tolower NUL = NUL"
  by simp

definition lower_str :: "u_char list \<Rightarrow> u_char list" where
  "lower_str s = map ngx_tolower (c_str s)"

lemma strcasecmp_spec:
  "\<exists>d. ngx_strcasecmp (s1 @ [NUL]) (s2 @ [NUL]) = Some d \<and>
     (0 < d \<longleftrightarrow> lower_str s2 < lower_str s1) \<and> (d < 0 \<longleftrightarrow> lower_str s1 < lower_str s2)"
proof (induction s1 arbitrary: s2)
  case Nil
  then show ?case
    by (cases s2) (auto simp: lower_str_def byte_diff_sign Let_def word_gt_0)
next
  case (Cons a s1)
  show ?case
  proof (cases s2)
    case Nil
    then show ?thesis by (auto simp: lower_str_def byte_diff_sign Let_def word_gt_0)
  next
    case (Cons b s2')
    then show ?thesis using Cons.IH [of s2'] by (auto simp: lower_str_def byte_diff_sign Let_def word_gt_0)
  qed
qed

interpretation strcasecmp: key_comparator "\<lambda>s1 s2. the (ngx_strcasecmp (s1 @ [NUL]) (s2 @ [NUL]))" lower_str
proof
  fix s1 s2
  obtain d where "ngx_strcasecmp (s1 @ [NUL]) (s2 @ [NUL]) = Some d"
      "0 < d \<longleftrightarrow> lower_str s2 < lower_str s1" "d < 0 \<longleftrightarrow> lower_str s1 < lower_str s2"
    using strcasecmp_spec by blast
  then show "(0 < the (ngx_strcasecmp (s1 @ [NUL]) (s2 @ [NUL]))) = (lower_str s2 < lower_str s1)"
    "(the (ngx_strcasecmp (s1 @ [NUL]) (s2 @ [NUL])) < 0) = (lower_str s1 < lower_str s2)"
    by simp_all
qed

text \<open>The order of file names: the terminator first, then the slash, then the other bytes.\<close>

definition slash_rank :: "u_char \<Rightarrow> u_char" where
  "slash_rank c = (if c = c_slash then 0 else c)"

definition filename_key :: "nat \<Rightarrow> u_char list \<Rightarrow> u_char list" where
  "filename_key n s = map slash_rank (take n (c_str s))"

lemma filename_cmp_spec:
  "\<exists>d. ngx_filename_cmp (s1 @ [NUL]) (s2 @ [NUL]) n = Some d \<and>
     (0 < d \<longleftrightarrow> filename_key n s2 < filename_key n s1) \<and>
     (d < 0 \<longleftrightarrow> filename_key n s1 < filename_key n s2)"
proof (induction n arbitrary: s1 s2)
  case (Suc n)
  have r: "a \<noteq> 0 \<Longrightarrow> b \<noteq> 0 \<Longrightarrow> a \<noteq> b \<Longrightarrow> slash_rank a \<noteq> slash_rank b" for a b
    by (auto simp: slash_rank_def)
  consider "s1 = []" "s2 = []" | a t1 where "s1 = a # t1" "s2 = []" | b t2 where "s1 = []" "s2 = b # t2"
    | a t1 b t2 where "s1 = a # t1" "s2 = b # t2"
    by (metis list.exhaust)
  then show ?case
  proof cases
    case (4 a t1 b t2)
    show ?thesis
    proof (cases "a = b")
      case True
      then show ?thesis using 4 Suc.IH [of t1 t2] by (auto simp: filename_key_def)
    next
      case False
      then show ?thesis
        using 4 r [of a b]
        by (auto simp: filename_key_def byte_diff_sign Let_def word_gt_0 simp flip: slash_rank_def)
    qed
  qed (auto simp: filename_key_def byte_diff_sign word_gt_0)
qed (simp add: filename_key_def)

interpretation filename_cmp: key_comparator
  "\<lambda>s1 s2. the (ngx_filename_cmp (s1 @ [NUL]) (s2 @ [NUL]) n)" "filename_key n" for n
proof
  fix s1 s2
  obtain d where "ngx_filename_cmp (s1 @ [NUL]) (s2 @ [NUL]) n = Some d"
      "0 < d \<longleftrightarrow> filename_key n s2 < filename_key n s1" "d < 0 \<longleftrightarrow> filename_key n s1 < filename_key n s2"
    using filename_cmp_spec by blast
  then show "(0 < the (ngx_filename_cmp (s1 @ [NUL]) (s2 @ [NUL]) n)) = (filename_key n s2 < filename_key n s1)"
    "(the (ngx_filename_cmp (s1 @ [NUL]) (s2 @ [NUL]) n) < 0) = (filename_key n s1 < filename_key n s2)"
    by simp_all
qed

text \<open>C33. \<open>ngx_sort\<close> with a comparator that is the order of a key is the stable sort by that key: a sorted
  permutation in which elements of equal key keep their order.\<close>

theorem ngx_sort_is_stable_sort:
  fixes key :: "'a \<Rightarrow> 'k :: linorder"
  assumes "\<And>x y. 0 < cmp x y \<longleftrightarrow> key y < key x" "\<And>x y. cmp x y < 0 \<longleftrightarrow> key x < key y"
  shows "ngx_sort cmp base = sort_key key base"
  by (rule key_comparator.ngx_sort_stable) (simp add: key_comparator_def assms)

theorem ngx_sort_is_stable_sort_witness:
  "ngx_sort ngx_memn2cmp [bytes ''b'', bytes ''ab'', bytes ''a''] =
     sort_key (\<lambda>s. s) [bytes ''b'', bytes ''ab'', bytes ''a'']"
  by (rule ngx_sort_is_stable_sort) (simp_all add: memn2cmp_spec)

text \<open>C34. The comparators that nginx sorts and searches with are total orders: \<open>ngx_memn2cmp\<close> orders byte
  strings lexicographically, \<open>ngx_strcasecmp\<close> orders C strings by their lower case form, and
  \<open>ngx_filename_cmp\<close> orders file names with the slash below every other byte.\<close>

theorem comparators_are_orders:
  "(ngx_memn2cmp s1 s2 < 0 \<longleftrightarrow> s1 < s2) \<and> (ngx_memn2cmp s1 s2 = 0 \<longleftrightarrow> s1 = s2) \<and>
   (\<exists>d. ngx_strcasecmp (s1 @ [NUL]) (s2 @ [NUL]) = Some d \<and>
      (d < 0 \<longleftrightarrow> lower_str s1 < lower_str s2) \<and> (d = 0 \<longleftrightarrow> lower_str s1 = lower_str s2)) \<and>
   (\<exists>d. ngx_filename_cmp (s1 @ [NUL]) (s2 @ [NUL]) n = Some d \<and>
      (d < 0 \<longleftrightarrow> filename_key n s1 < filename_key n s2) \<and>
      (d = 0 \<longleftrightarrow> filename_key n s1 = filename_key n s2))"
  using memn2cmp.cmp_zero [of s1 s2] memn2cmp_spec [of s1 s2] strcasecmp_spec [of s1 s2] strcasecmp.cmp_zero [of s1 s2]
    filename_cmp_spec [of s1 s2 n] filename_cmp.cmp_zero [of s1 s2 n]
  by force

section \<open>Searches\<close>

lemma strncasecmp_spec:
  assumes "n \<le> length t" "n \<le> length s" "NUL \<notin> set (take n s)"
  shows "\<exists>d. ngx_strncasecmp t s n = Some d \<and>
    (d = 0 \<longleftrightarrow> map ngx_tolower (take n t) = map ngx_tolower (take n s))"
  using assms
proof (induction t s n rule: ngx_strncasecmp.induct)
  case (2 a s1 b s2 n)
  then have "b \<noteq> 0" by auto
  then have nz: "a \<noteq> 0" if "ngx_tolower a = ngx_tolower b"
    using that by (metis tolower_zero)
  show ?case using 2 nz by (auto simp: Let_def byte_diff_sign)
qed auto

definition match_at :: "u_char list \<Rightarrow> u_char list \<Rightarrow> nat \<Rightarrow> bool" where
  "match_at pat t i \<longleftrightarrow>
     i + length pat \<le> length t \<and>
     map ngx_tolower (take (length pat) (drop i t)) = map ngx_tolower pat"

lemma match_at_Suc: "match_at pat (c # t) (Suc i) \<longleftrightarrow> match_at pat t i"
  by (simp add: match_at_def)

lemma strlcasestrn_loop_spec:
  assumes "NUL \<notin> set s2" "n = length s2"
  shows "\<exists>r. strlcasestrn_loop (ngx_tolower c2) s2 n t i = Some r \<and>
    (case r of
       None \<Rightarrow> \<forall>j. \<not> match_at (c2 # s2) t j
     | Some k \<Rightarrow> \<exists>j. k = i + j \<and> match_at (c2 # s2) t j \<and> (\<forall>j' < j. \<not> match_at (c2 # s2) t j'))"
proof (induction t arbitrary: i)
  case Nil
  then show ?case by (simp add: match_at_def)
next
  case (Cons c t)
  have skip: ?case if "\<not> match_at (c2 # s2) (c # t) 0"
    "strlcasestrn_loop (ngx_tolower c2) s2 n (c # t) i = strlcasestrn_loop (ngx_tolower c2) s2 n t (Suc i)"
  proof -
    obtain r where r: "strlcasestrn_loop (ngx_tolower c2) s2 n t (Suc i) = Some r"
      "case r of
         None \<Rightarrow> \<forall>j. \<not> match_at (c2 # s2) t j
       | Some k \<Rightarrow> \<exists>j. k = Suc i + j \<and> match_at (c2 # s2) t j \<and> (\<forall>j' < j. \<not> match_at (c2 # s2) t j')"
      using Cons.IH by blast
    show ?thesis
    proof (cases r)
      case None
      have "\<not> match_at (c2 # s2) (c # t) j" for j
        using None r(2) that(1) by (cases j) (simp_all add: match_at_Suc)
      with None r(1) that(2) show ?thesis by simp
    next
      case (Some k)
      then obtain j where j: "k = Suc i + j" "match_at (c2 # s2) t j" "\<forall>j' < j. \<not> match_at (c2 # s2) t j'"
        using r(2) by auto
      have "\<not> match_at (c2 # s2) (c # t) j'" if "j' < Suc j" for j'
        using j(3) that \<open>\<not> match_at (c2 # s2) (c # t) 0\<close> by (cases j') (simp_all add: match_at_Suc)
      with j(1,2) Some r(1) that(2) show ?thesis
        by (intro exI [of _ "Some k"]) (auto simp: match_at_Suc intro!: exI [of _ "Suc j"])
    qed
  qed
  show ?case
  proof (cases "Suc (length t) \<le> n")
    case True
    then have "\<not> match_at (c2 # s2) (c # t) j" for j by (auto simp: match_at_def assms(2))
    with True show ?thesis by simp
  next
    case len: False
    show ?thesis
    proof (cases "ngx_tolower c = ngx_tolower c2")
      case False
      then show ?thesis using len by (intro skip) (simp_all add: match_at_def)
    next
      case eq: True
      obtain d where d: "ngx_strncasecmp t s2 n = Some d"
        "d = 0 \<longleftrightarrow> map ngx_tolower (take n t) = map ngx_tolower (take n s2)"
        using strncasecmp_spec [of n t s2] len assms by auto
      show ?thesis
      proof (cases "d = 0")
        case True
        then have "match_at (c2 # s2) (c # t) 0" using d len eq assms(2) by (simp add: match_at_def)
        then show ?thesis using True d len eq by (intro exI [of _ "Some i"]) simp
      next
        case False
        then show ?thesis using d len eq assms(2) by (intro skip) (simp_all add: match_at_def)
      qed
    qed
  qed
qed

text \<open>\<open>ngx_strlcasestrn\<close> is exact and reads no byte outside its string: for a pattern without NUL bytes it
  finds the first case-insensitive occurrence, and returns \<open>NULL\<close> only if there is none.\<close>

theorem strlcasestrn_finds_first:
  assumes "NUL \<notin> set s2"
  shows "\<exists>r. ngx_strlcasestrn t c2 s2 (length s2) = Some r \<and>
    (case r of
       None \<Rightarrow> \<forall>j. \<not> match_at (c2 # s2) t j
     | Some k \<Rightarrow> match_at (c2 # s2) t k \<and> (\<forall>j < k. \<not> match_at (c2 # s2) t j))"
  using strlcasestrn_loop_spec [OF assms refl, of c2 t 0]
  by (force simp: ngx_strlcasestrn_def split: option.splits)

theorem strlcasestrn_finds_first_witness:
  "\<exists>r. ngx_strlcasestrn (bytes '';Q=1'') 0x71 (bytes ''='') 1 = Some r \<and> r \<noteq> None"
proof -
  have m: "match_at (bytes ''q='') (bytes '';Q=1'') 1"
    by (simp add: match_at_def bytes_def ngx_tolower_def ch_defs)
  show ?thesis
    using strlcasestrn_finds_first [where ?s2.0 = "bytes ''=''" and t = "bytes '';Q=1''" and ?c2.0 = "0x71"] m
    by (auto simp: bytes_def split: option.splits)
qed

end
