(* ===== verification/Ngx_Base64.thy ===== *)
theory Ngx_Base64
  imports Ngx_Prelude
begin

unbundle bit_operations_syntax

text \<open>
  The base64 codecs of \<open>src/core/ngx_string.c\<close>: \<open>ngx_encode_base64\<close>, \<open>ngx_encode_base64url\<close> and their
  decoders. An encoder returns the bytes written to \<open>dst\<close>; a decoder returns \<open>None\<close> for \<open>NGX_ERROR\<close>.
  The locale \<open>base64_tables\<close> states what an alphabet and a decoding table have to do with each other; both pairs of
  tables interpret it.
\<close>

definition basis64 :: "u_char list" where
  "basis64 = bytes ''ABCDEFGHIJKLMNOPQRSTUVWXYZabcdefghijklmnopqrstuvwxyz0123456789+/''"

definition basis64url :: "u_char list" where
  "basis64url = bytes ''ABCDEFGHIJKLMNOPQRSTUVWXYZabcdefghijklmnopqrstuvwxyz0123456789-_''"

text \<open>The loop and the tail of \<open>ngx_encode_base64_internal\<close>.\<close>

fun ngx_encode_base64_internal :: "u_char list \<Rightarrow> bool \<Rightarrow> u_char list \<Rightarrow> u_char list" where
  "ngx_encode_base64_internal basis padding (s0 # s1 # s2 # s) =
     [basis ! unat (drop_bit 2 s0 AND 0x3f),
      basis ! unat (push_bit 4 (s0 AND 3) OR drop_bit 4 s1),
      basis ! unat (push_bit 2 (s1 AND 0x0f) OR drop_bit 6 s2),
      basis ! unat (s2 AND 0x3f)] @ ngx_encode_base64_internal basis padding s"
| "ngx_encode_base64_internal basis padding [s0, s1] =
     [basis ! unat (drop_bit 2 s0 AND 0x3f),
      basis ! unat (push_bit 4 (s0 AND 3) OR drop_bit 4 s1),
      basis ! unat (push_bit 2 (s1 AND 0x0f))] @ (if padding then [c_eq] else [])"
| "ngx_encode_base64_internal basis padding [s0] =
     [basis ! unat (drop_bit 2 s0 AND 0x3f),
      basis ! unat (push_bit 4 (s0 AND 3))] @ (if padding then [c_eq] else []) @ (if padding then [c_eq] else [])"
| "ngx_encode_base64_internal basis padding [] = []"

definition ngx_encode_base64 :: "u_char list \<Rightarrow> u_char list" where
  "ngx_encode_base64 src = ngx_encode_base64_internal basis64 True src"

definition ngx_encode_base64url :: "u_char list \<Rightarrow> u_char list" where
  "ngx_encode_base64url src = ngx_encode_base64_internal basis64url False src"

text \<open>The tables of the decoders; 77 marks the bytes that are not in the alphabet.\<close>

definition dec_basis64 :: "u_char list" where
  "dec_basis64 =
    [77, 77, 77, 77, 77, 77, 77, 77, 77, 77, 77, 77, 77, 77, 77, 77,
     77, 77, 77, 77, 77, 77, 77, 77, 77, 77, 77, 77, 77, 77, 77, 77,
     77, 77, 77, 77, 77, 77, 77, 77, 77, 77, 77, 62, 77, 77, 77, 63,
     52, 53, 54, 55, 56, 57, 58, 59, 60, 61, 77, 77, 77, 77, 77, 77,
     77,  0,  1,  2,  3,  4,  5,  6,  7,  8,  9, 10, 11, 12, 13, 14,
     15, 16, 17, 18, 19, 20, 21, 22, 23, 24, 25, 77, 77, 77, 77, 77,
     77, 26, 27, 28, 29, 30, 31, 32, 33, 34, 35, 36, 37, 38, 39, 40,
     41, 42, 43, 44, 45, 46, 47, 48, 49, 50, 51, 77, 77, 77, 77, 77,
     77, 77, 77, 77, 77, 77, 77, 77, 77, 77, 77, 77, 77, 77, 77, 77,
     77, 77, 77, 77, 77, 77, 77, 77, 77, 77, 77, 77, 77, 77, 77, 77,
     77, 77, 77, 77, 77, 77, 77, 77, 77, 77, 77, 77, 77, 77, 77, 77,
     77, 77, 77, 77, 77, 77, 77, 77, 77, 77, 77, 77, 77, 77, 77, 77,
     77, 77, 77, 77, 77, 77, 77, 77, 77, 77, 77, 77, 77, 77, 77, 77,
     77, 77, 77, 77, 77, 77, 77, 77, 77, 77, 77, 77, 77, 77, 77, 77,
     77, 77, 77, 77, 77, 77, 77, 77, 77, 77, 77, 77, 77, 77, 77, 77,
     77, 77, 77, 77, 77, 77, 77, 77, 77, 77, 77, 77, 77, 77, 77, 77]"

definition dec_basis64url :: "u_char list" where
  "dec_basis64url =
    [77, 77, 77, 77, 77, 77, 77, 77, 77, 77, 77, 77, 77, 77, 77, 77,
     77, 77, 77, 77, 77, 77, 77, 77, 77, 77, 77, 77, 77, 77, 77, 77,
     77, 77, 77, 77, 77, 77, 77, 77, 77, 77, 77, 77, 77, 62, 77, 77,
     52, 53, 54, 55, 56, 57, 58, 59, 60, 61, 77, 77, 77, 77, 77, 77,
     77,  0,  1,  2,  3,  4,  5,  6,  7,  8,  9, 10, 11, 12, 13, 14,
     15, 16, 17, 18, 19, 20, 21, 22, 23, 24, 25, 77, 77, 77, 77, 63,
     77, 26, 27, 28, 29, 30, 31, 32, 33, 34, 35, 36, 37, 38, 39, 40,
     41, 42, 43, 44, 45, 46, 47, 48, 49, 50, 51, 77, 77, 77, 77, 77,
     77, 77, 77, 77, 77, 77, 77, 77, 77, 77, 77, 77, 77, 77, 77, 77,
     77, 77, 77, 77, 77, 77, 77, 77, 77, 77, 77, 77, 77, 77, 77, 77,
     77, 77, 77, 77, 77, 77, 77, 77, 77, 77, 77, 77, 77, 77, 77, 77,
     77, 77, 77, 77, 77, 77, 77, 77, 77, 77, 77, 77, 77, 77, 77, 77,
     77, 77, 77, 77, 77, 77, 77, 77, 77, 77, 77, 77, 77, 77, 77, 77,
     77, 77, 77, 77, 77, 77, 77, 77, 77, 77, 77, 77, 77, 77, 77, 77,
     77, 77, 77, 77, 77, 77, 77, 77, 77, 77, 77, 77, 77, 77, 77, 77,
     77, 77, 77, 77, 77, 77, 77, 77, 77, 77, 77, 77, 77, 77, 77, 77]"

text \<open>The first loop of \<open>ngx_decode_base64_internal\<close>: the length of the coded part, or an error.\<close>

fun decode_len :: "u_char list \<Rightarrow> u_char list \<Rightarrow> nat \<Rightarrow> nat option" where
  "decode_len basis [] len = Some len"
| "decode_len basis (c # src) len =
     (if c = c_eq then Some len
      else if basis ! unat c = 77 then None
      else decode_len basis src (Suc len))"

text \<open>The second loop, on the \<open>len\<close> bytes of the coded part, with its tail.\<close>

fun decode_quads :: "u_char list \<Rightarrow> u_char list \<Rightarrow> u_char list" where
  "decode_quads basis (s0 # s1 # s2 # s3 # s) =
     [push_bit 2 (basis ! unat s0) OR drop_bit 4 (basis ! unat s1),
      push_bit 4 (basis ! unat s1) OR drop_bit 2 (basis ! unat s2),
      push_bit 6 (basis ! unat s2) OR basis ! unat s3] @ decode_quads basis s"
| "decode_quads basis [s0, s1, s2] =
     [push_bit 2 (basis ! unat s0) OR drop_bit 4 (basis ! unat s1),
      push_bit 4 (basis ! unat s1) OR drop_bit 2 (basis ! unat s2)]"
| "decode_quads basis [s0, s1] = [push_bit 2 (basis ! unat s0) OR drop_bit 4 (basis ! unat s1)]"
| "decode_quads basis [s0] = []"
| "decode_quads basis [] = []"

definition ngx_decode_base64_internal :: "u_char list \<Rightarrow> u_char list \<Rightarrow> u_char list option" where
  "ngx_decode_base64_internal basis src =
     (case decode_len basis src 0 of
        None \<Rightarrow> None
      | Some len \<Rightarrow>
          if len mod 4 = 1 then None
          else Some (decode_quads basis (take len src)))"

definition ngx_decode_base64 :: "u_char list \<Rightarrow> u_char list option" where
  "ngx_decode_base64 src = ngx_decode_base64_internal dec_basis64 src"

definition ngx_decode_base64url :: "u_char list \<Rightarrow> u_char list option" where
  "ngx_decode_base64url src = ngx_decode_base64_internal dec_basis64url src"

text \<open>The buffer sizes that the callers allocate.\<close>

definition ngx_base64_encoded_length :: "nat \<Rightarrow> nat" where
  "ngx_base64_encoded_length len = (len + 2) div 3 * 4"

definition ngx_base64_decoded_length :: "nat \<Rightarrow> nat" where
  "ngx_base64_decoded_length len = (len + 3) div 4 * 3"

section \<open>The pair of tables as an interface\<close>

locale base64_tables =
  fixes alphabet table :: "u_char list"
  assumes table_alphabet: "i < 64 \<Longrightarrow> table ! unat (alphabet ! i) = word_of_nat i"
    and alphabet_no_pad: "i < 64 \<Longrightarrow> alphabet ! i \<noteq> c_eq"
    and table_image: "table ! unat c \<noteq> 77 \<longleftrightarrow> c \<in> set alphabet"
    and length_alphabet: "length alphabet = 64"
begin

lemma table_sextet:
  "b < 64 \<Longrightarrow> table ! unat (alphabet ! unat b) = (b :: u_char)"
  using table_alphabet [of "unat b"] by (simp add: word_less_nat_alt)

lemma sextet_not_pad: "(b :: u_char) < 64 \<Longrightarrow> alphabet ! unat b \<noteq> c_eq"
  using alphabet_no_pad [of "unat b"] by (simp add: word_less_nat_alt)

lemma sextet_not_77: "b < 64 \<Longrightarrow> (b :: u_char) \<noteq> 77"
  by (auto simp: word_less_nat_alt)

lemma decode_len_acc: "decode_len table src k = map_option ((+) k) (decode_len table src 0)"
proof (induction src arbitrary: k)
  case (Cons c src)
  show ?case
    using Cons.IH [of "Suc k"] Cons.IH [of "Suc 0"] by (simp add: option.map_comp comp_def)
qed simp

lemma decode_len_sextets:
  "set cs \<subseteq> set alphabet \<Longrightarrow> c_eq \<notin> set cs \<Longrightarrow>
   decode_len table (cs @ ys) k = decode_len table ys (k + length cs)"
  using table_image by (induction cs arbitrary: k) auto

end

lemma and_masks:
  "c AND 0x3f = take_bit 6 (c :: u_char)" "c AND 0x0f = take_bit 4 (c :: u_char)" "c AND 3 = take_bit 2 (c :: u_char)"
  by (simp_all add: take_bit_eq_mask mask_eq_exp_minus_1)

lemma less_64: "(c :: u_char) < 64 \<longleftrightarrow> take_bit 6 c = c"
  by (simp add: word_unat_eq_iff unsigned_take_bit_eq take_bit_nat_eq_self_iff word_less_nat_alt)

lemma sextets [simp]:
  "take_bit 6 x < (64 :: u_char)"
  "push_bit 4 (take_bit 2 s0) < (64 :: u_char)"
  "push_bit 2 (take_bit 4 s1) < (64 :: u_char)"
  "push_bit 4 (take_bit 2 s0) OR drop_bit 4 s1 < (64 :: u_char)"
  "push_bit 2 (take_bit 4 s1) OR drop_bit 6 s2 < (64 :: u_char)"
  unfolding less_64 by (auto simp: bit_eq_iff bit_simps)

lemma triples_induct [case_names Nil Single Pair Triple]:
  fixes s :: "u_char list"
  assumes "P []" "\<And>a. P [a]" "\<And>a b. P [a, b]" "\<And>a b c s. P s \<Longrightarrow> P (a # b # c # s)"
  shows "P s"
  using assms(4,3,2,1)
  by (rule ngx_encode_base64_internal.induct [where P = "\<lambda>_ _. P"])

context base64_tables
begin

lemma sextet_in_alphabet [simp]: "(b :: u_char) < 64 \<Longrightarrow> alphabet ! unat b \<in> set alphabet"
  using length_alphabet by (simp add: word_less_nat_alt)

lemmas sextet_simps = sextets table_sextet

text \<open>The coded part of an encoding decodes to the encoded bytes.\<close>

lemma encode_shape:
  "\<exists>cs pad. ngx_encode_base64_internal alphabet padding s = cs @ pad \<and>
     set cs \<subseteq> set alphabet \<and> length cs mod 4 \<noteq> 1 \<and> (pad = [] \<or> hd pad = c_eq) \<and>
     decode_quads table cs = s \<and> length (cs @ pad) \<le> ngx_base64_encoded_length (length s)"
proof (induction s rule: triples_induct)
  case (Triple s0 s1 s2 s)
  then obtain cs pad where IH: "ngx_encode_base64_internal alphabet padding s = cs @ pad"
     "set cs \<subseteq> set alphabet" "length cs mod 4 \<noteq> 1" "pad = [] \<or> hd pad = c_eq"
     "decode_quads table cs = s" "length (cs @ pad) \<le> ngx_base64_encoded_length (length s)"
    by blast
  define a b c d where q: "a = take_bit 6 (drop_bit 2 s0)" "b = push_bit 4 (take_bit 2 s0) OR drop_bit 4 s1"
    "c = push_bit 2 (take_bit 4 s1) OR drop_bit 6 s2" "d = take_bit 6 s2"
  have "a < 64" "b < 64" "c < 64" "d < 64" by (simp_all add: q)
  moreover have "push_bit 2 a OR drop_bit 4 b = s0" "push_bit 4 b OR drop_bit 2 c = s1" "push_bit 6 c OR d = s2"
    by (simp_all add: q byte_eq_bits bit_simps)
  ultimately show ?case
    using IH div_add_self2 [of 3 "Suc (Suc (length s))"]
    by (intro exI [of "\<lambda>cs. \<exists>pad. _ cs pad" "map ((!) alphabet \<circ> unat) [a, b, c, d] @ cs"] exI [of _ pad])
      (simp add: and_masks table_sextet ngx_base64_encoded_length_def flip: q)
next
  case (Pair s0 s1)
  define a b c where q: "a = take_bit 6 (drop_bit 2 s0)" "b = push_bit 4 (take_bit 2 s0) OR drop_bit 4 s1"
    "c = push_bit 2 (take_bit 4 s1)"
  have "a < 64" "b < 64" "c < 64" by (simp_all add: q)
  moreover have "push_bit 2 a OR drop_bit 4 b = s0" "push_bit 4 b OR drop_bit 2 c = s1"
    by (simp_all add: q byte_eq_bits bit_simps)
  ultimately show ?case
    by (intro exI [of "\<lambda>cs. \<exists>pad. _ cs pad" "map ((!) alphabet \<circ> unat) [a, b, c]"]
          exI [of _ "if padding then [c_eq] else []"])
      (simp add: and_masks table_sextet ngx_base64_encoded_length_def flip: q)
next
  case (Single s0)
  define a b where q: "a = take_bit 6 (drop_bit 2 s0)" "b = push_bit 4 (take_bit 2 s0)"
  have "a < 64" "b < 64" by (simp_all add: q)
  moreover have "push_bit 2 a OR drop_bit 4 b = s0"
    by (simp_all add: q byte_eq_bits bit_simps)
  ultimately show ?case
    by (intro exI [of "\<lambda>cs. \<exists>pad. _ cs pad" "map ((!) alphabet \<circ> unat) [a, b]"]
          exI [of _ "if padding then [c_eq, c_eq] else []"])
      (simp add: and_masks table_sextet ngx_base64_encoded_length_def flip: q)
next
  case Nil
  show ?case by (simp add: ngx_base64_encoded_length_def)
qed

lemma pad_not_in_alphabet: "c_eq \<notin> set alphabet"
  using alphabet_no_pad length_alphabet by (auto simp: in_set_conv_nth)

lemma decode_len_pad: "pad = [] \<or> hd pad = c_eq \<Longrightarrow> decode_len table pad k = Some k"
  by (cases pad) auto

lemma decode_encode:
  "ngx_decode_base64_internal table (ngx_encode_base64_internal alphabet padding s) = Some s"
proof -
  obtain cs pad where c: "ngx_encode_base64_internal alphabet padding s = cs @ pad"
     "set cs \<subseteq> set alphabet" "length cs mod 4 \<noteq> 1" "pad = [] \<or> hd pad = c_eq" "decode_quads table cs = s"
    using encode_shape by blast
  have "c_eq \<notin> set cs" using c(2) pad_not_in_alphabet by blast
  then show ?thesis
    using c by (simp add: ngx_decode_base64_internal_def decode_len_sextets decode_len_pad)
qed

lemma encode_length:
  "length (ngx_encode_base64_internal alphabet padding s) \<le> ngx_base64_encoded_length (length s)"
  using encode_shape by metis

text \<open>The decoder fails exactly on a byte outside the alphabet before the padding, or on a coded
  part of one character more than whole quadruples.\<close>

lemma decode_len_spec:
  "decode_len table src k =
     (if set (takeWhile (\<lambda>c. c \<noteq> c_eq) src) \<subseteq> set alphabet
      then Some (k + length (takeWhile (\<lambda>c. c \<noteq> c_eq) src)) else None)"
  using table_image by (induction src arbitrary: k) auto

lemma decode_quads_length:
  "length cs mod 4 \<noteq> 1 \<Longrightarrow> length (decode_quads table cs) = length cs * 3 div 4"
  by (induction table cs rule: decode_quads.induct) auto

lemma decode_spec:
  "ngx_decode_base64_internal table src =
     (let cs = takeWhile (\<lambda>c. c \<noteq> c_eq) src in
      if set cs \<subseteq> set alphabet \<and> length cs mod 4 \<noteq> 1 then Some (decode_quads table cs) else None)"
  by (auto simp: ngx_decode_base64_internal_def decode_len_spec Let_def takeWhile_eq_take [symmetric])

end

text \<open>Both alphabets are ranges of ASCII, up to their last two characters.\<close>

definition alnum64 :: "u_char list" where
  "alnum64 = map word_of_nat ([65..<91] @ [97..<123] @ [48..<58])"

lemma basis64_ranges: "basis64 = alnum64 @ [c_plus, c_slash]"
  by (simp add: alnum64_def basis64_def bytes_def upt_rec)

lemma basis64url_ranges: "basis64url = alnum64 @ [c_minus, c_under]"
  by (simp add: alnum64_def basis64url_def bytes_def upt_rec)

lemma alnum64_iff: "c \<in> set alnum64 \<longleftrightarrow> is_upper c \<or> is_lower c \<or> is_digit c"
  unfolding alnum64_def set_map set_append set_upt image_Un
  by (auto simp: byte_interval ch_defs word_le_nat_alt)

lemma dec_basis64_nth:
  "dec_basis64 ! unat c =
    (if is_upper c then c - 65 else if is_lower c then c - 71 else if is_digit c then c + 4
     else if c = c_plus then 62 else if c = c_slash then 63 else 77)"
  by (rule byte_table [of _ "\<lambda>t c. t = (if is_upper c then c - 65 else if is_lower c then c - 71
     else if is_digit c then c + 4 else if c = c_plus then 62 else if c = c_slash then 63 else 77)"])
    (simp add: dec_basis64_def, simp add: dec_basis64_def all_bytes_def ch_defs, simp add: word_le_nat_alt)

lemma dec_basis64url_nth:
  "dec_basis64url ! unat c =
    (if is_upper c then c - 65 else if is_lower c then c - 71 else if is_digit c then c + 4
     else if c = c_minus then 62 else if c = c_under then 63 else 77)"
  by (rule byte_table [of _ "\<lambda>t c. t = (if is_upper c then c - 65 else if is_lower c then c - 71
     else if is_digit c then c + 4 else if c = c_minus then 62 else if c = c_under then 63 else 77)"])
    (simp add: dec_basis64url_def, simp add: dec_basis64url_def all_bytes_def ch_defs, simp add: word_le_nat_alt)

lemma byte_plus_neq:
  "is_upper c \<Longrightarrow> c - 65 \<noteq> 77" "is_lower c \<Longrightarrow> c - 71 \<noteq> 77" "is_digit c \<Longrightarrow> c + 4 \<noteq> 77"
  for c :: u_char
proof -
  have "\<forall>c :: u_char. (is_upper c \<longrightarrow> c - 65 \<noteq> 77) \<and> (is_lower c \<longrightarrow> c - 71 \<noteq> 77) \<and> (is_digit c \<longrightarrow> c + 4 \<noteq> 77)"
    unfolding byte_forall by (simp add: all_bytes_def ch_defs)
  then show "is_upper c \<Longrightarrow> c - 65 \<noteq> 77" "is_lower c \<Longrightarrow> c - 71 \<noteq> 77" "is_digit c \<Longrightarrow> c + 4 \<noteq> 77" by blast+
qed

lemma index_forall:
  "length xs = n \<Longrightarrow> list_all2 P xs [0..<n] \<Longrightarrow> i < n \<Longrightarrow> P (xs ! i) i"
  by (simp add: list_all2_conv_all_nth)

interpretation base64: base64_tables basis64 dec_basis64
proof
  show len: "length basis64 = 64" by (simp add: basis64_def bytes_def)
  fix i :: nat and c
  show "dec_basis64 ! unat c \<noteq> 77 \<longleftrightarrow> c \<in> set basis64"
    by (auto simp: basis64_ranges alnum64_iff dec_basis64_nth byte_plus_neq)
  assume i: "i < 64"
  show "dec_basis64 ! unat (basis64 ! i) = word_of_nat i"
    by (rule index_forall [OF len _ i]) (simp add: dec_basis64_nth basis64_def bytes_def upt_rec ch_defs)
  show "basis64 ! i \<noteq> c_eq"
    by (rule index_forall [OF len _ i]) (simp add: basis64_def bytes_def upt_rec)
qed

interpretation base64url: base64_tables basis64url dec_basis64url
proof
  show len: "length basis64url = 64" by (simp add: basis64url_def bytes_def)
  fix i :: nat and c
  show "dec_basis64url ! unat c \<noteq> 77 \<longleftrightarrow> c \<in> set basis64url"
    by (auto simp: basis64url_ranges alnum64_iff dec_basis64url_nth byte_plus_neq)
  assume i: "i < 64"
  show "dec_basis64url ! unat (basis64url ! i) = word_of_nat i"
    by (rule index_forall [OF len _ i]) (simp add: dec_basis64url_nth basis64url_def bytes_def upt_rec ch_defs)
  show "basis64url ! i \<noteq> c_eq"
    by (rule index_forall [OF len _ i]) (simp add: basis64url_def bytes_def upt_rec)
qed

lemma decoded_fits: "length (takeWhile p src) * 3 div 4 \<le> ngx_base64_decoded_length (length src)"
proof -
  have "length (takeWhile p src) * 3 div 4 \<le> length src * 3 div 4"
    by (intro div_le_mono mult_le_mono1 length_takeWhile_le)
  also have "\<dots> \<le> (length src + 3) div 4 * 3" by linarith
  finally show ?thesis by (simp add: ngx_base64_decoded_length_def)
qed

section \<open>Properties\<close>

text \<open>The bytes before the padding.\<close>

definition coded_part :: "u_char list \<Rightarrow> u_char list" where
  "coded_part src = takeWhile (\<lambda>c. c \<noteq> c_eq) src"

text \<open>C35. Whatever \<open>ngx_encode_base64\<close> or \<open>ngx_encode_base64url\<close> writes, the decoder for the same alphabet
  reads back, and the encoding fits the buffer of \<open>ngx_base64_encoded_length\<close> bytes its callers allocate.\<close>

theorem base64_roundtrip:
  "ngx_decode_base64 (ngx_encode_base64 s) = Some s \<and>
   ngx_decode_base64url (ngx_encode_base64url s) = Some s \<and>
   length (ngx_encode_base64 s) \<le> ngx_base64_encoded_length (length s) \<and>
   length (ngx_encode_base64url s) \<le> ngx_base64_encoded_length (length s)"
  unfolding ngx_decode_base64_def ngx_encode_base64_def ngx_decode_base64url_def ngx_encode_base64url_def
  by (intro conjI base64.decode_encode base64url.decode_encode base64.encode_length base64url.encode_length)

text \<open>C36. The decoders succeed exactly when every byte before the first \<open>=\<close> is in the alphabet and the
  number of these bytes is not one more than a multiple of four; in every other case they return
  \<open>NGX_ERROR\<close>. A decoded string has three bytes for four characters and fits the buffer of
  \<open>ngx_base64_decoded_length\<close> bytes that the callers allocate.\<close>

theorem base64_decode_errors:
  "((\<exists>d. ngx_decode_base64 src = Some d \<and> length d = length (coded_part src) * 3 div 4 \<and>
       length d \<le> ngx_base64_decoded_length (length src)) \<longleftrightarrow>
     set (coded_part src) \<subseteq> set basis64 \<and> length (coded_part src) mod 4 \<noteq> 1) \<and>
   ((\<exists>d. ngx_decode_base64url src = Some d \<and> length d = length (coded_part src) * 3 div 4 \<and>
       length d \<le> ngx_base64_decoded_length (length src)) \<longleftrightarrow>
     set (coded_part src) \<subseteq> set basis64url \<and> length (coded_part src) mod 4 \<noteq> 1) \<and>
   (ngx_decode_base64 src \<noteq> None \<longleftrightarrow> set (coded_part src) \<subseteq> set basis64 \<and> length (coded_part src) mod 4 \<noteq> 1) \<and>
   (ngx_decode_base64url src \<noteq> None \<longleftrightarrow>
     set (coded_part src) \<subseteq> set basis64url \<and> length (coded_part src) mod 4 \<noteq> 1)"
  by (auto simp: ngx_decode_base64_def ngx_decode_base64url_def coded_part_def Let_def base64.decode_spec
      base64url.decode_spec base64.decode_quads_length base64url.decode_quads_length decoded_fits)

end
