(* ===== verification/Ngx_Utf8.thy ===== *)
theory Ngx_Utf8
  imports Ngx_Prelude
begin

unbundle bit_operations_syntax

text \<open>
  The UTF-8 routines of \<open>src/core/ngx_string.c\<close>: \<open>ngx_utf8_decode\<close>, \<open>ngx_utf8_length\<close> and
  \<open>ngx_utf8_cpystrn\<close>. Code points are 32-bit words as in the code, counts of bytes that the code subtracts from are
  64-bit words, and a read outside the bytes that are passed is the result \<open>None\<close>.
\<close>

section \<open>Decoding\<close>

text \<open>The inner loop of \<open>ngx_utf8_decode\<close>: \<open>len\<close> continuation bytes at offset \<open>k\<close>. Reading outside the
  memory \<open>p\<close> is \<open>None\<close>.\<close>

fun utf8_tail :: "uint32_t \<Rightarrow> uint32_t \<Rightarrow> nat \<Rightarrow> u_char list \<Rightarrow> nat \<Rightarrow> (uint32_t \<times> nat) option" where
  "utf8_tail valid u 0 p k = Some (if valid < u then u else 0xffffffff, k)"
| "utf8_tail valid u (Suc len) [] k = None"
| "utf8_tail valid u (Suc len) (b # p) k =
    (let i = ucast b :: uint32_t in
     if i < 0x80 then Some (0xffffffff, Suc k)
     else utf8_tail valid (push_bit 6 u OR (i AND 0x3f)) len p (Suc k))"

text \<open>\<open>ngx_utf8_decode\<close>: the code point, or one of the two error codes, and how far \<open>*p\<close> has moved. \<open>n\<close> is
  the number of bytes that may be read.\<close>

fun ngx_utf8_decode :: "u_char list \<Rightarrow> ngx_uint_t \<Rightarrow> (uint32_t \<times> nat) option" where
  "ngx_utf8_decode [] n = None"
| "ngx_utf8_decode (b # p) n =
    (let u = ucast b :: uint32_t in
     if 0xf0 \<le> u then
       (if n - 1 < 3 then Some (0xfffffffe, 0) else utf8_tail 0xffff (u AND 0x07) 3 p 1)
     else if 0xe0 \<le> u then
       (if n - 1 < 2 then Some (0xfffffffe, 0) else utf8_tail 0x7ff (u AND 0x0f) 2 p 1)
     else if 0xc2 \<le> u then
       (if n - 1 < 1 then Some (0xfffffffe, 0) else utf8_tail 0x7f (u AND 0x1f) 1 p 1)
     else Some (0xffffffff, 1))"

lemma utf8_tail_moves: "utf8_tail valid u len p k = Some (v, k') \<Longrightarrow> k \<le> k' \<and> k' \<le> k + length p"
  by (induction valid u len p k rule: utf8_tail.induct) (auto simp: Let_def split: if_splits)

lemma utf8_decode_moves:
  "ngx_utf8_decode p n = Some (u, k) \<Longrightarrow> u \<le> 0x10ffff \<Longrightarrow> 0 < k \<and> k \<le> length p"
  by (cases p) (auto simp: Let_def dest!: utf8_tail_moves split: if_splits)

section \<open>Counting and copying characters\<close>

text \<open>The loop of \<open>ngx_utf8_length\<close> on the bytes from \<open>p\<close> to \<open>last\<close>, with \<open>len\<close> characters counted; \<open>n\<close> is
  the length of the whole string, returned for a string that is not UTF-8.\<close>

function utf8_length_loop :: "nat \<Rightarrow> u_char list \<Rightarrow> nat \<Rightarrow> nat option" where
  "utf8_length_loop n p len =
    (case p of
       [] \<Rightarrow> Some len
     | c # p' \<Rightarrow>
         if c < 0x80 then utf8_length_loop n p' (Suc len)
         else case ngx_utf8_decode p (word_of_nat (length p)) of
             None \<Rightarrow> None
           | Some (u, k) \<Rightarrow> if 0x10ffff < u then Some n else utf8_length_loop n (drop k p) (Suc len))"
  by pat_completeness auto

termination
  by (relation "measure (\<lambda>(n, p, len). length p)")
    (auto simp: not_less simp del: ngx_utf8_decode.simps dest!: utf8_decode_moves)

declare utf8_length_loop.simps [simp del]

definition ngx_utf8_length :: "u_char list \<Rightarrow> nat option" where
  "ngx_utf8_length p = utf8_length_loop (length p) p 0"

text \<open>\<open>ngx_utf8_cpystrn\<close>: the bytes written at \<open>dst\<close>, where \<open>n\<close> counts characters, the terminator included,
  and \<open>len\<close> the bytes of \<open>src\<close>.\<close>

fun utf8_cpystrn_loop :: "nat \<Rightarrow> u_char list \<Rightarrow> ngx_uint_t \<Rightarrow> u_char list option" where
  "utf8_cpystrn_loop 0 src len = Some [NUL]"
| "utf8_cpystrn_loop (Suc n) [] len = None"
| "utf8_cpystrn_loop (Suc n) (c # src) len =
    (if c < 0x80 then
       (if c \<noteq> NUL then map_option ((#) c) (utf8_cpystrn_loop n src (len - 1)) else Some [c])
     else case ngx_utf8_decode (c # src) len of
         None \<Rightarrow> None
       | Some (u, k) \<Rightarrow>
           if 0x10ffff < u then Some [NUL]
           else map_option ((@) (take k (c # src)))
                  (utf8_cpystrn_loop n (drop k (c # src)) (len - word_of_nat k)))"

definition ngx_utf8_cpystrn :: "u_char list \<Rightarrow> nat \<Rightarrow> ngx_uint_t \<Rightarrow> u_char list option" where
  "ngx_utf8_cpystrn src n len = (if n = 0 then Some [] else utf8_cpystrn_loop (n - 1) src len)"

section \<open>The encoding of a code point\<close>

definition utf8_encode :: "nat \<Rightarrow> u_char list" where
  "utf8_encode u =
    map word_of_nat
     (if u < 0x80 then [u]
      else if u < 0x800 then [0xc0 + u div 0x40, 0x80 + u mod 0x40]
      else if u < 0x10000 then [0xe0 + u div 0x1000, 0x80 + u div 0x40 mod 0x40, 0x80 + u mod 0x40]
      else [0xf0 + u div 0x40000, 0x80 + u div 0x1000 mod 0x40, 0x80 + u div 0x40 mod 0x40, 0x80 + u mod 0x40])"

definition utf8_text :: "nat list \<Rightarrow> u_char list" where
  "utf8_text cs = concat (map utf8_encode cs)"

lemma unat_ucast32: "unat (ucast (b :: u_char) :: uint32_t) = unat b"
  by (simp add: unsigned_ucast_eq take_bit_nat_eq_self_iff less_trans [OF byte_unat_less])

lemma tail_word:
  "push_bit 6 (word_of_nat a) OR (ucast (b :: u_char) AND 0x3f) =
    (word_of_nat (a * 64 + unat b mod 64) :: uint32_t)"
proof -
  have "(ucast b AND 0x3f :: uint32_t) = take_bit 6 (word_of_nat (unat b))"
    by (simp add: take_bit_eq_mask mask_eq_exp_minus_1)
  then have "push_bit 6 (word_of_nat a) OR (ucast b AND 0x3f) =
      (word_of_nat (push_bit 6 a OR take_bit 6 (unat b)) :: uint32_t)"
    by (simp only: of_nat_or_eq push_bit_of_nat take_bit_of_nat)
  also have "push_bit 6 a OR take_bit 6 (unat b) = push_bit 6 a + take_bit 6 (unat b)"
    by (rule disjunctive_add [symmetric]) (auto simp: bit_simps)
  finally show ?thesis by (simp add: push_bit_eq_mult take_bit_eq_mod)
qed

lemma tail_step:
  assumes "x < 64"
  shows "utf8_tail valid (word_of_nat a) (Suc len) (word_of_nat (0x80 + x) # p) k =
    utf8_tail valid (word_of_nat (a * 64 + x)) len p (Suc k)"
proof -
  have u: "unat (word_of_nat (0x80 + x) :: u_char) = 0x80 + x"
    using assms by (simp add: unat_of_nat del: of_nat_add)
  have "(2 * 64 + x) mod 64 = x" using assms by (simp only: mod_mult_self3 mod_less)
  then have "(0x80 + x) mod 64 = x" by simp
  moreover have "\<not> (ucast (word_of_nat (0x80 + x) :: u_char) :: uint32_t) < 0x80"
    using u assms by (simp add: word_less_nat_alt unat_ucast32 del: of_nat_add)
  ultimately show ?thesis
    using tail_word [of a "word_of_nat (0x80 + x)"] u by (simp add: Let_def del: of_nat_add)
qed

lemma lead_word:
  assumes "x < 2 ^ k" "k < 8" "m = mask k" "c + x < 0x100" "c mod 2 ^ k = 0"
  shows "(ucast (word_of_nat (c + x) :: u_char) AND m :: uint32_t) = word_of_nat x"
proof -
  have "(ucast (word_of_nat (c + x) :: u_char) :: uint32_t) = word_of_nat (c + x)"
    using assms(4) by (simp add: word_unat_eq_iff unat_ucast32 unat_of_nat del: of_nat_add)
  moreover have "(word_of_nat (c + x) :: uint32_t) AND m = word_of_nat (take_bit k (c + x))"
    by (simp only: assms(3) take_bit_eq_mask [symmetric] take_bit_of_nat)
  moreover have "take_bit k (c + x) = x"
    using assms by (simp add: take_bit_eq_mod mod_add_left_eq [symmetric])
  ultimately show ?thesis by simp
qed

lemma lead_range:
  assumes "c + x < 0x100"
  shows "m \<le> (ucast (word_of_nat (c + x) :: u_char) :: uint32_t) \<longleftrightarrow> unat m \<le> c + x"
  using assms by (simp add: word_le_nat_alt unat_ucast32 unat_of_nat del: of_nat_add)

lemma enough_bytes:
  assumes "m < unat (n :: ngx_uint_t)" "m < 2 ^ 64"
  shows "\<not> n - 1 < word_of_nat m"
proof -
  have "unat (n - 1) = unat n - 1" using assms(1) by (subst unat_sub_if_size) (auto simp: word_le_nat_alt)
  then show ?thesis using assms by (simp add: word_less_nat_alt unat_of_nat)
qed

lemma tail_end: "a < 2 ^ 32 \<Longrightarrow> unat valid < a \<Longrightarrow> utf8_tail valid (word_of_nat a) 0 p k = Some (word_of_nat a, k)"
  by (simp add: word_less_nat_alt unat_of_nat)

lemma utf8_decode_encode:
  assumes "0x80 \<le> u" "u \<le> 0x10ffff" "length (utf8_encode u) \<le> unat n"
  shows "ngx_utf8_decode (utf8_encode u @ p) n = Some (word_of_nat u, length (utf8_encode u))"
proof -
  consider "u < 0x800" | "0x800 \<le> u" "u < 0x10000" | "0x10000 \<le> u" by linarith
  then show ?thesis
  proof cases
    case 1
    have e: "utf8_encode u = [word_of_nat (0xc0 + u div 0x40), word_of_nat (0x80 + u mod 0x40)]"
      using 1 assms(1) by (simp add: utf8_encode_def)
    have r: "0xc0 + u div 0x40 < 0x100" "2 \<le> u div 0x40" "u div 0x40 < 32" using 1 assms(1) by auto
    have n: "\<not> n - 1 < 1" using enough_bytes [of 1 n] assms(3) e by simp
    have l: "(ucast (word_of_nat (0xc0 + u div 0x40) :: u_char) AND 0x1f :: uint32_t) = word_of_nat (u div 0x40)"
      using r by (intro lead_word [of _ 5]) (simp_all add: mask_eq_exp_minus_1)
    have "utf8_tail 0x7f (word_of_nat (u div 0x40)) 1 (word_of_nat (0x80 + u mod 0x40) # p) 1 =
        Some (word_of_nat u, 2)"
      unfolding One_nat_def using assms(1) 1 by (subst tail_step) (simp_all add: tail_end del: of_nat_add utf8_tail.simps)
    then show ?thesis
      using r n by (simp add: e l lead_range Let_def del: of_nat_add utf8_tail.simps)
  next
    case 2
    have e: "utf8_encode u = [word_of_nat (0xe0 + u div 0x1000), word_of_nat (0x80 + u div 0x40 mod 0x40),
        word_of_nat (0x80 + u mod 0x40)]"
      using 2 by (simp add: utf8_encode_def)
    have r: "0xe0 + u div 0x1000 < 0x100" "u div 0x1000 < 16" using 2 by auto
    have n: "\<not> n - 1 < 2" using enough_bytes [of 2 n] assms(3) e by simp
    have l: "(ucast (word_of_nat (0xe0 + u div 0x1000) :: u_char) AND 0x0f :: uint32_t) = word_of_nat (u div 0x1000)"
      using r by (intro lead_word [of _ 4]) (simp_all add: mask_eq_exp_minus_1)
    have j: "(u div 0x1000 * 64 + u div 0x40 mod 0x40) * 64 + u mod 0x40 = u"
      using div_mult_mod_eq [of "u div 0x40" 64] by (simp add: div_mult2_eq [symmetric])
    have "utf8_tail 0x7ff (word_of_nat (u div 0x1000)) 2 (word_of_nat (0x80 + u div 0x40 mod 0x40) #
        word_of_nat (0x80 + u mod 0x40) # p) 1 = Some (word_of_nat u, 3)"
      unfolding numeral_2_eq_2 using 2 j by (simp add: tail_step tail_end del: of_nat_add utf8_tail.simps)
    then show ?thesis
      using r n by (simp add: e l lead_range Let_def del: of_nat_add utf8_tail.simps)
  next
    case 3
    have e: "utf8_encode u = [word_of_nat (0xf0 + u div 0x40000), word_of_nat (0x80 + u div 0x1000 mod 0x40),
        word_of_nat (0x80 + u div 0x40 mod 0x40), word_of_nat (0x80 + u mod 0x40)]"
      using 3 by (simp add: utf8_encode_def)
    have r: "0xf0 + u div 0x40000 < 0x100" "u div 0x40000 < 8" using assms(2) by auto
    have n: "\<not> n - 1 < 3" using enough_bytes [of 3 n] assms(3) e by simp
    have l: "(ucast (word_of_nat (0xf0 + u div 0x40000) :: u_char) AND 0x07 :: uint32_t) = word_of_nat (u div 0x40000)"
      using r by (intro lead_word [of _ 3]) (simp_all add: mask_eq_exp_minus_1)
    have j: "((u div 0x40000 * 64 + u div 0x1000 mod 0x40) * 64 + u div 0x40 mod 0x40) * 64 + u mod 0x40 = u"
      using div_mult_mod_eq [of "u div 0x40" 64] div_mult_mod_eq [of "u div 0x1000" 64]
      by (simp add: div_mult2_eq [symmetric])
    have "utf8_tail 0xffff (word_of_nat (u div 0x40000)) 3 (word_of_nat (0x80 + u div 0x1000 mod 0x40) #
        word_of_nat (0x80 + u div 0x40 mod 0x40) # word_of_nat (0x80 + u mod 0x40) # p) 1 = Some (word_of_nat u, 4)"
      unfolding numeral_3_eq_3 using 3 assms(2) j by (simp add: tail_step tail_end del: of_nat_add utf8_tail.simps)
    then show ?thesis
      using r n by (simp add: e l lead_range Let_def del: of_nat_add utf8_tail.simps)
  qed
qed

section \<open>Texts\<close>

lemma utf8_text_simps [simp]: "utf8_text [] = []" "utf8_text (u # cs) = utf8_encode u @ utf8_text cs"
  by (simp_all add: utf8_text_def)

lemma encode_ascii: "u < 0x80 \<Longrightarrow> utf8_encode u = [word_of_nat u]"
  by (simp add: utf8_encode_def)

lemma ascii_word: "u < 0x80 \<Longrightarrow> (word_of_nat u :: u_char) < 0x80"
  by (simp add: word_less_nat_alt unat_of_nat)

lemma ascii_nonzero: "u < 0x80 \<Longrightarrow> (word_of_nat u :: u_char) = 0 \<longleftrightarrow> u = 0"
  by (simp add: word_unat_eq_iff unat_of_nat)

lemma encode_lead:
  assumes "0x80 \<le> u" "u \<le> 0x10ffff"
  obtains b bs where "utf8_encode u = b # bs" "\<not> b < 0x80"
proof -
  have b: "\<not> (word_of_nat v :: u_char) < 0x80" if "0xc0 \<le> v" "v < 0x100" for v
    using that by (simp add: word_less_nat_alt unat_of_nat)
  have "0xc0 + u div 0x40 < 0x100" if "u < 0x800" using that by simp
  moreover have "0xe0 + u div 0x1000 < 0x100" if "u < 0x10000" using that by simp
  moreover have "0xf0 + u div 0x40000 < 0x100" using assms by simp
  ultimately show ?thesis
    using that assms(1) b [of "0xc0 + u div 0x40"] b [of "0xe0 + u div 0x1000"] b [of "0xf0 + u div 0x40000"]
    by (cases "u < 0x800"; cases "u < 0x10000") (simp_all add: utf8_encode_def del: of_nat_add)
qed

lemma code_point_word: "u \<le> 0x10ffff \<Longrightarrow> \<not> 0x10ffff < (word_of_nat u :: uint32_t)"
  by (simp add: word_less_nat_alt unat_of_nat)

lemma utf8_length_loop_text:
  "list_all (\<lambda>u. u \<le> 0x10ffff) cs \<Longrightarrow> length (utf8_text cs) < 2 ^ 64 \<Longrightarrow>
   utf8_length_loop n (utf8_text cs) len = Some (len + length cs)"
proof (induction cs arbitrary: len)
  case Nil
  then show ?case by (simp add: utf8_length_loop.simps)
next
  case (Cons u cs)
  show ?case
  proof (cases "u < 0x80")
    case True
    then show ?thesis
      using Cons by (subst utf8_length_loop.simps) (simp add: encode_ascii ascii_word)
  next
    case False
    obtain b bs where e: "utf8_encode u = b # bs" "\<not> b < 0x80" by (rule encode_lead [of u]) (use False Cons.prems(1) in simp_all)
    define t where "t = utf8_encode u @ utf8_text cs"
    have t: "t = b # (bs @ utf8_text cs)" "drop (length (utf8_encode u)) t = utf8_text cs" by (simp_all add: t_def e)
    have "ngx_utf8_decode t (word_of_nat (length t)) = Some (word_of_nat u, length (utf8_encode u))"
      unfolding t_def using False Cons.prems by (intro utf8_decode_encode) (simp_all add: unat_of_nat del: of_nat_add)
    then have "utf8_length_loop n t len = utf8_length_loop n (utf8_text cs) (Suc len)"
      using e t code_point_word [of u] Cons.prems(1) by (subst utf8_length_loop.simps) simp
    then show ?thesis using Cons by (simp add: t_def)
  qed
qed

lemma utf8_cpystrn_loop_text:
  "list_all (\<lambda>u. 0 < u \<and> u \<le> 0x10ffff) cs \<Longrightarrow> length (utf8_text cs) \<le> unat len \<Longrightarrow>
   utf8_cpystrn_loop n (utf8_text cs @ NUL # p) len = Some (utf8_text (take n cs) @ [NUL])"
proof (induction cs arbitrary: len n)
  case Nil
  then show ?case by (cases n) simp_all
next
  case (Cons u cs)
  show ?case
  proof (cases n)
    case (Suc m)
    have sub: "unat (len - word_of_nat k) = unat len - k" if "k \<le> unat len" for k
    proof -
      have "unat (word_of_nat k :: ngx_uint_t) = k"
        using that le_less_trans [OF that unsigned_less [of len]] by (simp add: unat_of_nat)
      then show ?thesis using that by (simp add: unat_sub word_le_nat_alt)
    qed
    show ?thesis
    proof (cases "u < 0x80")
      case True
      then show ?thesis
        using Cons sub [of 1] Suc by (auto simp add: encode_ascii ascii_word ascii_nonzero)
    next
      case False
      obtain b bs where e: "utf8_encode u = b # bs" "\<not> b < 0x80" by (rule encode_lead [of u]) (use False Cons.prems(1) in simp_all)
      have "ngx_utf8_decode (utf8_encode u @ utf8_text cs @ NUL # p) len = Some (word_of_nat u, length (utf8_encode u))"
        using False Cons.prems by (intro utf8_decode_encode) simp_all
      then show ?thesis
        using e code_point_word [of u] Cons sub [of "length (utf8_encode u)"] Suc
        by (simp del: ngx_utf8_decode.simps)
    qed
  qed simp
qed

section \<open>Bounds\<close>

lemma utf8_tail_reads: "len \<le> length p \<Longrightarrow> utf8_tail valid u len p k \<noteq> None"
  by (induction valid u len p k rule: utf8_tail.induct) (auto simp: Let_def)

lemma utf8_decode_reads:
  assumes "p \<noteq> []" "length p < 2 ^ 64"
  shows "ngx_utf8_decode p (word_of_nat (length p)) \<noteq> None"
proof -
  obtain b p' where p: "p = b # p'" using assms(1) by (cases p) auto
  define n where "n = (word_of_nat (length p) :: ngx_uint_t)"
  have "utf8_tail valid u m p' 1 \<noteq> None" if "\<not> n - 1 < word_of_nat m" "m = 1 \<or> m = 2 \<or> m = 3" for valid u m
    using that assms(2) p by (intro utf8_tail_reads) (auto simp: n_def word_less_nat_alt unat_of_nat Suc_le_eq)
  from this [of 1] this [of 2] this [of 3] show ?thesis
    unfolding p ngx_utf8_decode.simps Let_def
    unfolding p [symmetric] n_def [symmetric] of_nat_1 of_nat_numeral
    by (simp only: option.distinct split: if_split) blast
qed

lemma utf8_length_loop_total:
  "length p < 2 ^ 64 \<Longrightarrow> len + length p \<le> n \<Longrightarrow> \<exists>k \<le> n. utf8_length_loop n p len = Some k"
proof (induction n p len rule: utf8_length_loop.induct)
  case (1 n p len)
  show ?case
  proof (cases p)
    case Nil
    then show ?thesis using 1(4) by (simp add: utf8_length_loop.simps)
  next
    case (Cons c p')
    obtain u k where d: "ngx_utf8_decode p (word_of_nat (length p)) = Some (u, k)"
      using utf8_decode_reads [of p] 1(3) Cons by auto
    show ?thesis
    proof (cases "c < 0x80 \<or> 0x10ffff < u")
      case True
      then show ?thesis
        using 1 Cons d by (subst utf8_length_loop.simps) auto
    next
      case False
      then have "0 < k" using utf8_decode_moves [OF d] by (simp add: not_less)
      then show ?thesis
        using 1(2) [OF Cons, of "(u, k)" u k] 1(3,4) False Cons d
        by (subst utf8_length_loop.simps) (auto simp del: ngx_utf8_decode.simps)
    qed
  qed
qed

lemma utf8_tail_value:
  "utf8_tail valid u len p k = Some (v, k') \<Longrightarrow> v \<noteq> 0xffffffff \<Longrightarrow> k' = k + len \<and> valid < v"
  by (induction valid u len p k rule: utf8_tail.induct) (auto simp: Let_def split: if_splits)

text \<open>\<open>ngx_utf8_decode\<close> takes any byte from 0x80 for a continuation byte: after the lead byte C3 even a second
  lead byte is accepted, and the pair counts as a valid character.\<close>

lemma utf8_accepts_bad_continuation:
  assumes "0x80 \<le> b" "2 \<le> unat n"
  shows "ngx_utf8_decode (0xc3 # b # p) n = Some (word_of_nat (0xc0 + unat b mod 64), 2)"
proof -
  have n: "\<not> n - 1 < 1" using enough_bytes [of 1 n] assms(2) by simp
  have c: "\<not> (ucast b :: uint32_t) < 0x80" using assms(1) by (simp add: word_less_nat_alt word_le_nat_alt unat_ucast32)
  have "utf8_tail 0x7f (word_of_nat 3) (Suc 0) (b # p) 1 = utf8_tail 0x7f (word_of_nat (3 * 64 + unat b mod 64)) 0 p 2"
    using c tail_word [of 3 b] by (simp add: Let_def numeral_2_eq_2 del: of_nat_add)
  then have "utf8_tail 0x7f 3 1 (b # p) 1 = Some (word_of_nat (0xc0 + unat b mod 64), 2)"
    by (simp add: tail_end del: of_nat_add utf8_tail.simps)
  then show ?thesis using n by (simp add: Let_def del: utf8_tail.simps)
qed

section \<open>Properties\<close>

text \<open>C37. \<open>ngx_utf8_decode\<close> reads back the UTF-8 encoding of every code point from U+0080 to U+10FFFF, whatever
  follows it, and moves past exactly its bytes.\<close>

theorem utf8_roundtrip:
  assumes "0x80 \<le> u" "u \<le> 0x10ffff" "length (utf8_encode u) \<le> unat n"
  shows "ngx_utf8_decode (utf8_encode u @ p) n = Some (word_of_nat u, length (utf8_encode u))"
  using assms by (rule utf8_decode_encode)

theorem utf8_roundtrip_witness:
  "ngx_utf8_decode (utf8_encode 0x20ac @ bytes ''x'') 4 = Some (0x20ac, 3)"
  using utf8_roundtrip [of "0x20ac" 4 "bytes ''x''"] by (simp add: utf8_encode_def del: ngx_utf8_decode.simps)

text \<open>On the UTF-8 encoding of any sequence of code points \<open>ngx_utf8_length\<close> returns the number of characters,
  and \<open>ngx_utf8_cpystrn\<close> copies whole characters only: the first \<open>n - 1\<close> of them, and the terminator.\<close>

theorem utf8_counts_characters:
  assumes "list_all (\<lambda>u. 0 < u \<and> u \<le> 0x10ffff) cs" "length (utf8_text cs) < 2 ^ 64" "0 < n"
  shows "ngx_utf8_length (utf8_text cs) = Some (length cs) \<and>
    ngx_utf8_cpystrn (utf8_text cs @ NUL # p) n (word_of_nat (length (utf8_text cs))) =
      Some (utf8_text (take (n - 1) cs) @ [NUL])"
proof -
  have "list_all (\<lambda>u. u \<le> 0x10ffff) cs" using assms(1) by (simp add: list_all_iff)
  then show ?thesis
    using assms by (simp add: ngx_utf8_length_def ngx_utf8_cpystrn_def utf8_length_loop_text
      utf8_cpystrn_loop_text unat_of_nat)
qed

theorem utf8_counts_characters_witness:
  "ngx_utf8_length (utf8_text [0x61, 0x20ac]) = Some 2 \<and>
   ngx_utf8_cpystrn (utf8_text [0x61, 0x20ac] @ NUL # []) 2 4 = Some (bytes ''a'' @ [NUL])"
  using utf8_counts_characters [of "[0x61, 0x20ac]" 2 "[]"]
  by (simp add: utf8_encode_def bytes_def)

text \<open>\<open>ngx_utf8_length\<close> ends on every byte string, UTF-8 or not, without reading outside it, and never counts
  more characters than there are bytes.\<close>

theorem utf8_length_total:
  assumes "length p < 2 ^ 64"
  shows "\<exists>k \<le> length p. ngx_utf8_length p = Some k"
  using utf8_length_loop_total [of p 0 "length p"] assms by (simp add: ngx_utf8_length_def)

theorem utf8_length_total_witness: "\<exists>k \<le> length [0xe2 :: u_char, 0x82]. ngx_utf8_length [0xe2, 0x82] = Some k"
  using utf8_length_total [of "[0xe2, 0x82]"] by simp

end
