(* ===== verification/Ngx_Escape.thy ===== *)
theory Ngx_Escape
  imports Ngx_Prelude
begin

unbundle bit_operations_syntax

text \<open>
  The escaping routines of \<open>src/core/ngx_string.c\<close>: \<open>ngx_escape_uri\<close>, \<open>ngx_unescape_uri\<close>, \<open>ngx_escape_html\<close> and
  \<open>ngx_escape_json\<close>. The routines that are called twice, first with \<open>dst\<close> NULL for the size and then with a buffer, are
  two definitions each: one for the number they return, one for the bytes they write.
\<close>

section \<open>Escaping URIs\<close>

definition esc_uri :: "uint32_t list" where
  "esc_uri = [0xffffffff, 0x80000029, 0x00000000, 0x80000000, 0xffffffff, 0xffffffff, 0xffffffff, 0xffffffff]"

definition esc_args :: "uint32_t list" where
  "esc_args = [0xffffffff, 0x88000869, 0x00000000, 0x80000000, 0xffffffff, 0xffffffff, 0xffffffff, 0xffffffff]"

definition esc_uri_component :: "uint32_t list" where
  "esc_uri_component =
    [0xffffffff, 0xfc009fff, 0x78000001, 0xb8000001, 0xffffffff, 0xffffffff, 0xffffffff, 0xffffffff]"

definition esc_html :: "uint32_t list" where
  "esc_html = [0xffffffff, 0x000000ad, 0x00000000, 0x80000000, 0xffffffff, 0xffffffff, 0xffffffff, 0xffffffff]"

definition esc_refresh :: "uint32_t list" where
  "esc_refresh = [0xffffffff, 0x00000085, 0x00000000, 0x80000000, 0xffffffff, 0xffffffff, 0xffffffff, 0xffffffff]"

definition esc_memcached :: "uint32_t list" where
  "esc_memcached = [0xffffffff, 0x00000021, 0, 0, 0, 0, 0, 0]"

datatype escape_type =
    NGX_ESCAPE_URI
  | NGX_ESCAPE_ARGS
  | NGX_ESCAPE_URI_COMPONENT
  | NGX_ESCAPE_HTML
  | NGX_ESCAPE_REFRESH
  | NGX_ESCAPE_MEMCACHED
  | NGX_ESCAPE_MAIL_AUTH

text \<open>\<open>map[type]\<close>: the table of the bytes that are to be escaped.\<close>

fun escape_map :: "escape_type \<Rightarrow> uint32_t list" where
  "escape_map NGX_ESCAPE_URI = esc_uri"
| "escape_map NGX_ESCAPE_ARGS = esc_args"
| "escape_map NGX_ESCAPE_URI_COMPONENT = esc_uri_component"
| "escape_map NGX_ESCAPE_HTML = esc_html"
| "escape_map NGX_ESCAPE_REFRESH = esc_refresh"
| "escape_map NGX_ESCAPE_MEMCACHED = esc_memcached"
| "escape_map NGX_ESCAPE_MAIL_AUTH = esc_memcached"

definition esc_hex :: "u_char list" where
  "esc_hex = bytes ''0123456789ABCDEF''"

text \<open>\<open>ngx_escape_uri\<close> with \<open>dst\<close> NULL: the number of bytes to be escaped.\<close>

fun escape_uri_count :: "uint32_t list \<Rightarrow> u_char list \<Rightarrow> nat \<Rightarrow> nat" where
  "escape_uri_count escape [] n = n"
| "escape_uri_count escape (c # src) n = escape_uri_count escape src (if charmap_bit escape c then Suc n else n)"

text \<open>\<open>ngx_escape_uri\<close> with a buffer: the bytes written to it.\<close>

fun escape_uri_write :: "uint32_t list \<Rightarrow> u_char list \<Rightarrow> u_char list" where
  "escape_uri_write escape [] = []"
| "escape_uri_write escape (c # src) =
    (if charmap_bit escape c
     then c_percent # esc_hex ! unat (drop_bit 4 c) # esc_hex ! unat (c AND 0xf) # escape_uri_write escape src
     else c # escape_uri_write escape src)"

definition ngx_escape_uri_len :: "u_char list \<Rightarrow> escape_type \<Rightarrow> nat" where
  "ngx_escape_uri_len src type = escape_uri_count (escape_map type) src 0"

definition ngx_escape_uri :: "u_char list \<Rightarrow> escape_type \<Rightarrow> u_char list" where
  "ngx_escape_uri src type = escape_uri_write (escape_map type) src"

section \<open>Unescaping URIs\<close>

definition NGX_UNESCAPE_URI :: ngx_uint_t where
  "NGX_UNESCAPE_URI = 1"

definition NGX_UNESCAPE_REDIRECT :: ngx_uint_t where
  "NGX_UNESCAPE_REDIRECT = 2"

datatype un_state = Un_usual | Un_quoted | Un_quoted_second

text \<open>What one pass through the switch does: the bytes written at \<open>d\<close>, the values of \<open>state\<close> and \<open>decoded\<close>
  after it, and whether it leaves the loop through \<open>goto done\<close>.\<close>

record un_result =
  un_out :: "u_char list"
  un_next :: un_state
  un_decoded :: u_char
  un_done :: bool

definition un_usual :: "ngx_uint_t \<Rightarrow> u_char \<Rightarrow> u_char \<Rightarrow> un_result" where
  "un_usual type decoded ch =
    (if ch = c_quest \<and> type AND (NGX_UNESCAPE_URI OR NGX_UNESCAPE_REDIRECT) \<noteq> 0
     then \<lparr>un_out = [ch], un_next = Un_usual, un_decoded = decoded, un_done = True\<rparr>
     else if ch = c_percent
     then \<lparr>un_out = [], un_next = Un_quoted, un_decoded = decoded, un_done = False\<rparr>
     else \<lparr>un_out = [ch], un_next = Un_usual, un_decoded = decoded, un_done = False\<rparr>)"

definition un_quoted :: "u_char \<Rightarrow> u_char \<Rightarrow> un_result" where
  "un_quoted decoded ch =
    (if is_digit ch
     then \<lparr>un_out = [], un_next = Un_quoted_second, un_decoded = ch - c_0, un_done = False\<rparr>
     else let c = ch OR 0x20 in
       if is_af c
       then \<lparr>un_out = [], un_next = Un_quoted_second, un_decoded = c - c_a + 10, un_done = False\<rparr>
       else \<lparr>un_out = [ch], un_next = Un_usual, un_decoded = decoded, un_done = False\<rparr>)"

text \<open>\<open>prev\<close> is \<open>*(s - 2)\<close>, the byte before \<open>ch\<close>.\<close>

definition un_quoted_second :: "ngx_uint_t \<Rightarrow> u_char \<Rightarrow> u_char \<Rightarrow> u_char \<Rightarrow> un_result" where
  "un_quoted_second type decoded prev ch =
    (let go = (\<lambda>bs stop. \<lparr>un_out = bs, un_next = Un_usual, un_decoded = decoded, un_done = stop\<rparr>) in
     if is_digit ch then
       (let ch' = push_bit 4 decoded + (ch - c_0) in
        if type AND NGX_UNESCAPE_REDIRECT \<noteq> 0 then
          (if c_percent < ch' \<and> ch' < 0x7f then go [ch'] False else go [c_percent, prev, ch] False)
        else go [ch'] False)
     else let c = ch OR 0x20 in
       if is_af c then
         (let ch' = push_bit 4 decoded + (c - c_a) + 10 in
          if type AND NGX_UNESCAPE_URI \<noteq> 0 then
            (if ch' = c_quest then go [ch'] True else go [ch'] False)
          else if type AND NGX_UNESCAPE_REDIRECT \<noteq> 0 then
            (if ch' = c_quest then go [ch'] True
             else if c_percent < ch' \<and> ch' < 0x7f then go [ch'] False
             else go [c_percent, prev, ch] False)
          else go [ch'] False)
       else go [] False)"

definition un_step :: "ngx_uint_t \<Rightarrow> un_state \<Rightarrow> u_char \<Rightarrow> u_char \<Rightarrow> u_char \<Rightarrow> un_result" where
  "un_step type state decoded prev ch =
    (case state of
       Un_usual \<Rightarrow> un_usual type decoded ch
     | Un_quoted \<Rightarrow> un_quoted decoded ch
     | Un_quoted_second \<Rightarrow> un_quoted_second type decoded prev ch)"

text \<open>The loop: the bytes written, and how far \<open>*src\<close> has moved.\<close>

fun unescape_loop :: "ngx_uint_t \<Rightarrow> un_state \<Rightarrow> u_char \<Rightarrow> u_char \<Rightarrow> u_char list \<Rightarrow> nat \<Rightarrow> u_char list \<times> nat" where
  "unescape_loop type state decoded prev [] k = ([], k)"
| "unescape_loop type state decoded prev (ch # s) k =
    (let r = un_step type state decoded prev ch in
     if un_done r then (un_out r, Suc k)
     else let (d, k') = unescape_loop type (un_next r) (un_decoded r) ch s (Suc k) in (un_out r @ d, k'))"

definition ngx_unescape_uri :: "u_char list \<Rightarrow> ngx_uint_t \<Rightarrow> u_char list \<times> nat" where
  "ngx_unescape_uri src type = unescape_loop type Un_usual 0 0 src 0"

section \<open>Escaping HTML and JSON\<close>

text \<open>\<open>ngx_escape_html\<close> with \<open>dst\<close> NULL: the number of additional bytes; \<open>sizeof\<close> of a literal counts its
  terminator.\<close>

fun escape_html_count :: "u_char list \<Rightarrow> nat \<Rightarrow> nat" where
  "escape_html_count [] len = len"
| "escape_html_count (c # src) len =
    escape_html_count src
      (if c = c_lt then len + (length (bytes ''&lt;'') + 1 - 2)
       else if c = c_gt then len + (length (bytes ''&gt;'') + 1 - 2)
       else if c = c_amp then len + (length (bytes ''&amp;'') + 1 - 2)
       else if c = c_quot then len + (length (bytes ''&quot;'') + 1 - 2)
       else len)"

definition ngx_escape_html_len :: "u_char list \<Rightarrow> nat" where
  "ngx_escape_html_len src = escape_html_count src 0"

fun ngx_escape_html :: "u_char list \<Rightarrow> u_char list" where
  "ngx_escape_html [] = []"
| "ngx_escape_html (ch # src) =
    (if ch = c_lt then bytes ''&lt;''
     else if ch = c_gt then bytes ''&gt;''
     else if ch = c_amp then bytes ''&amp;''
     else if ch = c_quot then bytes ''&quot;''
     else [ch]) @ ngx_escape_html src"

fun escape_json_count :: "u_char list \<Rightarrow> nat \<Rightarrow> nat" where
  "escape_json_count [] len = len"
| "escape_json_count (ch # src) len =
    escape_json_count src
      (if ch = c_bslash \<or> ch = c_quot then Suc len
       else if ch \<le> 0x1f then
         (if ch = LF \<or> ch = CR \<or> ch = HT \<or> ch = 0x08 \<or> ch = 0x0c then Suc len
          else len + (7 - 2))
       else len)"

definition ngx_escape_json_len :: "u_char list \<Rightarrow> nat" where
  "ngx_escape_json_len src = escape_json_count src 0"

fun ngx_escape_json :: "u_char list \<Rightarrow> u_char list" where
  "ngx_escape_json [] = []"
| "ngx_escape_json (ch # src) =
    (if 0x1f < ch then (if ch = c_bslash \<or> ch = c_quot then [c_bslash] else []) @ [ch]
     else c_bslash #
       (if ch = LF then [0x6e]
        else if ch = CR then [0x72]
        else if ch = HT then [0x74]
        else if ch = 0x08 then [0x62]
        else if ch = 0x0c then [0x66]
        else let ch' = ch AND 0xf in
          [0x75, c_0, c_0, c_0 + drop_bit 4 ch, if ch' < 10 then c_0 + ch' else c_A + ch' - 10]))
    @ ngx_escape_json src"

end
