(* ===== verification/Ngx_Escape_Props.thy ===== *)
theory Ngx_Escape_Props
  imports Ngx_Escape
begin

unbundle bit_operations_syntax

text \<open>
  Correctness of the escaping routines. The locale \<open>two_pass_escape\<close> is the contract between the sizing pass and the
  writing pass; the URI, HTML and JSON routines interpret it, and the sizes, the round trips and the absence of raw markup are
  consequences.
\<close>

section \<open>The sizes of the first pass\<close>

text \<open>A routine that escapes byte by byte and counts with the same loop: \<open>esc c\<close> is what it writes for a byte,
  \<open>cnt c\<close> what the first pass counts for it, each tally standing for \<open>k\<close> more bytes.\<close>

locale two_pass_escape =
  fixes esc :: "u_char \<Rightarrow> u_char list"
    and cnt :: "u_char \<Rightarrow> nat"
    and k :: nat
    and emit :: "u_char list \<Rightarrow> u_char list"
    and tally :: "u_char list \<Rightarrow> nat \<Rightarrow> nat"
  assumes emit_Nil: "emit [] = []"
    and emit_Cons: "emit (c # s) = esc c @ emit s"
    and tally_Nil: "tally [] n = n"
    and tally_Cons: "tally (c # s) n = tally s (n + cnt c)"
    and esc_length: "length (esc c) = 1 + k * cnt c"
begin

lemma tally_acc: "tally s n = n + tally s 0"
proof (induction s arbitrary: n)
  case (Cons c s)
  show ?case using Cons [of "n + cnt c"] Cons [of "cnt c"] by (simp add: tally_Cons)
qed (simp add: tally_Nil)

lemma emit_length: "length (emit s) = length s + k * tally s 0"
proof (induction s)
  case (Cons c s)
  show ?case
    using Cons tally_acc [of s "cnt c"] by (simp add: emit_Cons tally_Cons esc_length algebra_simps)
qed (simp add: emit_Nil tally_Nil)

lemma emit_append: "emit (s @ t) = emit s @ emit t"
  by (induction s) (simp_all add: emit_Nil emit_Cons)

lemma emit_set: "set (emit s) = (\<Union>c \<in> set s. set (esc c))"
  by (induction s) (simp_all add: emit_Nil emit_Cons)

text \<open>A reader that takes one escaped byte at a time reads back what was written.\<close>

lemma emit_read:
  assumes "read [] = Some []"
    and "\<And>c s. c \<in> A \<Longrightarrow> read (esc c @ s) = map_option ((#) c) (read s)" "set s \<subseteq> A"
  shows "read (emit s) = Some s"
  using assms(3) by (induction s) (simp_all add: emit_Nil emit_Cons assms(1,2))

end

definition uri_esc :: "uint32_t list \<Rightarrow> u_char \<Rightarrow> u_char list" where
  "uri_esc escape c =
    (if charmap_bit escape c
     then [c_percent, esc_hex ! unat (drop_bit 4 c), esc_hex ! unat (c AND 0xf)] else [c])"

interpretation uri: two_pass_escape "uri_esc escape" "\<lambda>c. if charmap_bit escape c then 1 else 0" 2
    "escape_uri_write escape" "escape_uri_count escape" for escape
  by unfold_locales (simp_all add: uri_esc_def)

definition html_esc :: "u_char \<Rightarrow> u_char list" where
  "html_esc c =
    (if c = c_lt then bytes ''&lt;'' else if c = c_gt then bytes ''&gt;''
     else if c = c_amp then bytes ''&amp;'' else if c = c_quot then bytes ''&quot;'' else [c])"

definition json_esc :: "u_char \<Rightarrow> u_char list" where
  "json_esc c = ngx_escape_json [c]"

interpretation html: two_pass_escape html_esc "\<lambda>c. length (html_esc c) - 1" 1 ngx_escape_html escape_html_count
  by unfold_locales (simp_all add: html_esc_def bytes_def)

definition json_cnt :: "u_char \<Rightarrow> nat" where
  "json_cnt c = escape_json_count [c] 0"

interpretation json: two_pass_escape json_esc json_cnt 1 ngx_escape_json escape_json_count
  by unfold_locales (auto simp: json_esc_def json_cnt_def Let_def not_less)

section \<open>Reading escaped URIs\<close>

lemma hex_digit:
  assumes "x < 16"
  shows "is_digit (esc_hex ! unat x) \<and> esc_hex ! unat x - c_0 = x \<or>
    \<not> is_digit (esc_hex ! unat x) \<and> is_af (esc_hex ! unat x OR 0x20) \<and> (esc_hex ! unat x OR 0x20) - c_a + 10 = x"
proof -
  have "unat x \<in> set [0..<16]" using assms by (simp add: word_less_nat_alt)
  moreover have "list_all (\<lambda>i. is_digit (esc_hex ! i) \<and> esc_hex ! i - c_0 = word_of_nat i \<or>
    \<not> is_digit (esc_hex ! i) \<and> is_af (esc_hex ! i OR 0x20) \<and> (esc_hex ! i OR 0x20) - c_a + 10 = word_of_nat i) [0..<16]"
    by (simp add: upt_rec esc_hex_def bytes_def ch_defs)
  ultimately have "is_digit (esc_hex ! unat x) \<and> esc_hex ! unat x - c_0 = word_of_nat (unat x) \<or>
    \<not> is_digit (esc_hex ! unat x) \<and> is_af (esc_hex ! unat x OR 0x20) \<and>
    (esc_hex ! unat x OR 0x20) - c_a + 10 = word_of_nat (unat x)"
    unfolding list_all_iff by blast
  then show ?thesis by simp
qed

lemma nibble_mask: "c AND 0xf = take_bit 4 (c :: u_char)"
  by (simp add: take_bit_eq_mask mask_eq_exp_minus_1)

lemma nibbles_less: "drop_bit 4 c < (16 :: u_char)" "c AND 0xf < (16 :: u_char)"
proof -
  have "b < 16 \<longleftrightarrow> take_bit 4 b = b" for b :: u_char
    by (simp add: word_unat_eq_iff unsigned_take_bit_eq take_bit_nat_eq_self_iff word_less_nat_alt)
  then show "drop_bit 4 c < (16 :: u_char)" "c AND 0xf < (16 :: u_char)"
    by (auto simp: nibble_mask bit_eq_iff bit_simps dest: bit_imp_le_length)
qed

lemma nibbles_join: "push_bit 4 (drop_bit 4 c) + (c AND 0xf) = (c :: u_char)"
  unfolding nibble_mask by (simp add: bits_ident)

lemma un_quoted_hex:
  "un_quoted d (esc_hex ! unat (drop_bit 4 c)) =
    \<lparr>un_out = [], un_next = Un_quoted_second, un_decoded = drop_bit 4 c, un_done = False\<rparr>"
  using hex_digit [OF nibbles_less(1), of c] by (auto simp: un_quoted_def Let_def)

lemma un_quoted_second_hex:
  assumes "type AND NGX_UNESCAPE_REDIRECT = 0" "type AND NGX_UNESCAPE_URI = 0 \<or> c \<noteq> c_quest"
  shows "un_quoted_second type (drop_bit 4 c) prev (esc_hex ! unat (c AND 0xf)) =
    \<lparr>un_out = [c], un_next = Un_usual, un_decoded = drop_bit 4 c, un_done = False\<rparr>"
proof -
  define h where "h = esc_hex ! unat (c AND 0xf)"
  consider "is_digit h" "push_bit 4 (drop_bit 4 c) + (h - c_0) = c"
    | "\<not> is_digit h" "is_af (h OR 0x20)" "push_bit 4 (drop_bit 4 c) + ((h OR 0x20) - c_a) + 10 = c"
    using hex_digit [OF nibbles_less(2), of c] nibbles_join [of c] unfolding h_def add.assoc by metis
  then show ?thesis
    unfolding h_def [symmetric]
    by cases (use assms in \<open>simp_all only: un_quoted_second_def Let_def if_True if_False simp_thms, auto\<close>)
qed

lemma unescape_loop_acc:
  "unescape_loop type st d p s (Suc k) = apsnd Suc (unescape_loop type st d p s k)"
  by (induction s arbitrary: st d p k) (auto simp: Let_def split: prod.splits)

lemma unescape_esc:
  assumes "type AND NGX_UNESCAPE_REDIRECT = 0" "type AND NGX_UNESCAPE_URI = 0 \<or> c \<noteq> c_quest"
    "charmap_bit escape c_percent"
  shows "\<exists>d' p'. unescape_loop type Un_usual d p (uri_esc escape c @ s) k =
    apfst ((#) c) (unescape_loop type Un_usual d' p' s (k + length (uri_esc escape c)))"
proof (cases "charmap_bit escape c")
  case True
  then show ?thesis
    using un_quoted_second_hex [OF assms(1,2)]
    by (intro exI [of _ "drop_bit 4 c"] exI [of _ "esc_hex ! unat (c AND 0xf)"])
      (simp add: uri_esc_def un_step_def un_usual_def un_quoted_hex Let_def split: prod.splits)
next
  case False
  then have "c \<noteq> c_percent" using assms(3) by auto
  moreover have "type AND (NGX_UNESCAPE_URI OR NGX_UNESCAPE_REDIRECT) = 0" if "c = c_quest"
    using that assms(1,2) by (simp add: bit.conj_disj_distrib)
  ultimately show ?thesis
    using False by (intro exI [of _ d] exI [of _ c])
      (auto simp: uri_esc_def un_step_def un_usual_def Let_def split: prod.splits)
qed

lemma unescape_escape:
  assumes "type AND NGX_UNESCAPE_REDIRECT = 0" "type AND NGX_UNESCAPE_URI = 0 \<or> c_quest \<notin> set s"
    "charmap_bit escape c_percent"
  shows "unescape_loop type Un_usual d p (escape_uri_write escape s) k = (s, k + length (escape_uri_write escape s))"
  using assms(2)
proof (induction s arbitrary: d p k)
  case (Cons c s)
  then show ?case
    using unescape_esc [OF assms(1) _ assms(3), of c d p "escape_uri_write escape s" k]
    by (auto simp: uri.emit_Cons simp del: escape_uri_write.simps)
qed simp


text \<open>Decoding never writes more than it has read, so that it can be done in place.\<close>

fun un_pending :: "un_state \<Rightarrow> nat" where
  "un_pending Un_usual = 0"
| "un_pending Un_quoted = 1"
| "un_pending Un_quoted_second = 2"

lemma un_step_pending:
  "length (un_out (un_step type st d p ch)) + un_pending (un_next (un_step type st d p ch)) \<le> Suc (un_pending st)"
  by (cases st) (auto simp: un_step_def un_usual_def un_quoted_def un_quoted_second_def Let_def)

lemma unescape_loop_bound:
  "length (fst (unescape_loop type st d p s k)) \<le> length s + un_pending st \<and>
   snd (unescape_loop type st d p s k) \<le> k + length s"
proof (induction s arbitrary: st d p k)
  case (Cons ch s)
  show ?case
    using un_step_pending [of type st d p ch]
      Cons [of "un_next (un_step type st d p ch)" "un_decoded (un_step type st d p ch)" ch "Suc k"]
    by (auto simp: Let_def split: prod.splits)
qed simp

section \<open>What is escaped\<close>

lemma escape_control_all:
  "list_all (\<lambda>c. charmap_bit m c) (take 33 all_bytes)"
  if "m \<in> {esc_uri, esc_args, esc_uri_component, esc_html, esc_refresh, esc_memcached}"
  using that
  by (auto simp: charmap_bit_def all_bytes_def esc_uri_def esc_args_def esc_uri_component_def esc_html_def
      esc_refresh_def esc_memcached_def)

lemma escape_percent: "t \<noteq> NGX_ESCAPE_REFRESH \<Longrightarrow> charmap_bit (escape_map t) c_percent"
  by (cases t) (simp_all add: charmap_bit_def esc_uri_def esc_args_def esc_uri_component_def esc_html_def
      esc_memcached_def)

lemma escape_control: "c \<le> 0x20 \<Longrightarrow> charmap_bit (escape_map t) c"
proof (rule low_bytes [of c 33])
  show "list_all (charmap_bit (escape_map t)) (take 33 all_bytes)"
    using escape_control_all [of "escape_map t"] by (cases t) simp_all
qed (simp_all add: word_le_nat_alt)

lemma esc_hex_graphic: "x < 16 \<Longrightarrow> 0x20 < esc_hex ! unat (x :: u_char)"
proof -
  assume "x < 16"
  then have "unat x < length esc_hex" by (simp add: esc_hex_def bytes_def word_less_nat_alt)
  then have "esc_hex ! unat x \<in> set esc_hex" by (rule nth_mem)
  moreover have "list_all ((<) 0x20) esc_hex" by (simp add: esc_hex_def bytes_def)
  ultimately show ?thesis by (simp add: list_all_iff)
qed

lemma uri_esc_graphic: "b \<in> set (uri_esc (escape_map t) c) \<Longrightarrow> 0x20 < b"
  using escape_control [of c t] nibbles_less [of c] by (auto simp: uri_esc_def esc_hex_graphic split: if_splits) (meson not_le)

section \<open>Readers of the escaped texts\<close>

text \<open>A reader of HTML text that refuses raw markup characters, and a reader of the inside of a JSON string that
  refuses raw control characters and quotes (RFC 8259, section 7).\<close>

function html_read :: "u_char list \<Rightarrow> u_char list option" where
  "html_read [] = Some []"
| "html_read (c # s) =
    (if c = c_amp then
       (if take 3 s = bytes ''lt;'' then map_option ((#) c_lt) (html_read (drop 3 s))
        else if take 3 s = bytes ''gt;'' then map_option ((#) c_gt) (html_read (drop 3 s))
        else if take 4 s = bytes ''amp;'' then map_option ((#) c_amp) (html_read (drop 4 s))
        else if take 5 s = bytes ''quot;'' then map_option ((#) c_quot) (html_read (drop 5 s))
        else None)
     else if c = c_lt \<or> c = c_gt \<or> c = c_quot then None
     else map_option ((#) c) (html_read s))"
  by pat_completeness auto

termination
  by (relation "measure length") auto

definition json_hex :: "u_char \<Rightarrow> u_char" where
  "json_hex c = (if is_digit c then c - c_0 else (c OR 0x20) - c_a + 10)"

fun json_read :: "u_char list \<Rightarrow> u_char list option" where
  "json_read [] = Some []"
| "json_read (c # s) =
    (if c = c_bslash then
       (case s of
          [] \<Rightarrow> None
        | e # t \<Rightarrow>
            if e = c_bslash \<or> e = c_quot then map_option ((#) e) (json_read t)
            else if e = 0x6e then map_option ((#) LF) (json_read t)
            else if e = 0x72 then map_option ((#) CR) (json_read t)
            else if e = 0x74 then map_option ((#) HT) (json_read t)
            else if e = 0x62 then map_option ((#) 0x08) (json_read t)
            else if e = 0x66 then map_option ((#) 0x0c) (json_read t)
            else if e = 0x75 then
              (case t of
                 h3 # h2 # h1 # h0 # u \<Rightarrow>
                   if h3 = c_0 \<and> h2 = c_0
                   then map_option ((#) (push_bit 4 (json_hex h1) OR json_hex h0)) (json_read u)
                   else None
               | _ \<Rightarrow> None)
            else None)
     else if c = c_quot \<or> c \<le> 0x1f then None
     else map_option ((#) c) (json_read s))"

lemma html_read_esc: "html_read (html_esc c @ s) = map_option ((#) c) (html_read s)"
  by (simp add: html_esc_def bytes_def)

lemma json_nibbles:
  assumes "c \<le> 0x1f"
  shows "push_bit 4 (json_hex (c_0 + drop_bit 4 c)) OR
    json_hex (if c AND 0xf < 10 then c_0 + (c AND 0xf) else c_A + (c AND 0xf) - 10) = c"
  by (rule low_bytes [of _ 32])
    (use assms in \<open>simp_all add: word_le_nat_alt all_bytes_def json_hex_def ch_defs\<close>)

lemma json_read_plain:
  "c \<noteq> c_bslash \<Longrightarrow> c \<noteq> c_quot \<Longrightarrow> \<not> c \<le> 0x1f \<Longrightarrow> json_read (c # s) = map_option ((#) c) (json_read s)"
  by simp

lemma json_read_escaped:
  "json_read (c_bslash # c_bslash # s) = map_option ((#) c_bslash) (json_read s)"
  "json_read (c_bslash # c_quot # s) = map_option ((#) c_quot) (json_read s)"
  "json_read (c_bslash # 0x6e # s) = map_option ((#) LF) (json_read s)"
  "json_read (c_bslash # 0x72 # s) = map_option ((#) CR) (json_read s)"
  "json_read (c_bslash # 0x74 # s) = map_option ((#) HT) (json_read s)"
  "json_read (c_bslash # 0x62 # s) = map_option ((#) 0x08) (json_read s)"
  "json_read (c_bslash # 0x66 # s) = map_option ((#) 0x0c) (json_read s)"
  "json_read (c_bslash # 0x75 # c_0 # c_0 # h1 # h0 # s) =
     map_option ((#) (push_bit 4 (json_hex h1) OR json_hex h0)) (json_read s)"
  by simp_all

declare json_read.simps [simp del]

lemma json_read_esc: "json_read (json_esc c @ s) = map_option ((#) c) (json_read s)"
proof (cases "c \<le> 0x1f")
  case True
  then show ?thesis
    using json_nibbles [of c] by (simp add: json_esc_def Let_def not_less [symmetric] json_read_escaped)
next
  case False
  then show ?thesis by (simp add: json_esc_def not_le json_read_escaped json_read_plain)
qed

section \<open>Properties\<close>

text \<open>C38. What \<open>ngx_escape_uri\<close> writes, \<open>ngx_unescape_uri\<close> decodes to the original bytes and reads to the end,
  for every table but that of \<open>Refresh\<close>; with \<open>NGX_UNESCAPE_URI\<close>, which stops at a question mark, this holds for
  texts without one.\<close>

theorem escape_uri_roundtrip:
  assumes "t \<noteq> NGX_ESCAPE_REFRESH" "type = 0 \<or> type = NGX_UNESCAPE_URI \<and> c_quest \<notin> set s"
  shows "ngx_unescape_uri (ngx_escape_uri s t) type = (s, length (ngx_escape_uri s t))"
proof -
  have "type AND NGX_UNESCAPE_REDIRECT = 0" "type AND NGX_UNESCAPE_URI = 0 \<or> c_quest \<notin> set s"
    using assms(2) by (auto simp: NGX_UNESCAPE_URI_def NGX_UNESCAPE_REDIRECT_def)
  then show ?thesis
    using unescape_escape [OF _ _ escape_percent [OF assms(1)], of type s]
    by (simp add: ngx_unescape_uri_def ngx_escape_uri_def)
qed

theorem escape_uri_roundtrip_witness:
  "ngx_unescape_uri (ngx_escape_uri (bytes ''a b%'') NGX_ESCAPE_ARGS) NGX_UNESCAPE_URI =
     (bytes ''a b%'', length (ngx_escape_uri (bytes ''a b%'') NGX_ESCAPE_ARGS))"
  by (rule escape_uri_roundtrip) (simp_all add: bytes_def)

text \<open>C39. Every escaping routine writes exactly as many bytes as its first pass announces: the size of the source
  and two bytes for each escaped byte of a URI, or the returned number of additional bytes for HTML and JSON. The
  decoder never writes more bytes than it is given, so it can work in place.\<close>

theorem escape_sizes:
  "length (ngx_escape_uri s t) = length s + 2 * ngx_escape_uri_len s t \<and>
   length (ngx_escape_html s) = length s + ngx_escape_html_len s \<and>
   length (ngx_escape_json s) = length s + ngx_escape_json_len s \<and>
   length (fst (ngx_unescape_uri s type)) \<le> length s \<and> snd (ngx_unescape_uri s type) \<le> length s"
  using unescape_loop_bound [of type Un_usual 0 0 s 0]
  by (simp add: ngx_escape_uri_def ngx_escape_uri_len_def uri.emit_length ngx_escape_html_len_def html.emit_length
      ngx_escape_json_len_def json.emit_length ngx_unescape_uri_def)

text \<open>No output of \<open>ngx_escape_uri\<close>, with any table, holds a space or a control character: an escaped text
  cannot end a request line or a header line.\<close>

theorem escape_uri_graphic: "set (ngx_escape_uri s t) \<inter> {c. c \<le> 0x20} = {}"
  using uri_esc_graphic by (fastforce simp: ngx_escape_uri_def uri.emit_set not_le)

text \<open>C40. Escaped HTML and JSON texts hold no raw markup: a reader that refuses \<open><\<close>, \<open>>\<close>, quotes and (for JSON) control
  characters reads them, and gets the original bytes.\<close>

theorem escape_markup_roundtrip:
  "html_read (ngx_escape_html s) = Some s \<and> json_read (ngx_escape_json s) = Some s"
  using html.emit_read [where read = html_read and A = UNIV, of s] json.emit_read [where read = json_read and A = UNIV, of s]
  by (simp add: html_read_esc json_read_esc json_read.simps(1))

text \<open>The comments of the tables: the one of \<open>refresh\<close> lists the percent sign, which the table does not hold, and
  the one of \<open>args\<close> leaves out the semicolon, which it does.\<close>

lemma escape_table_comments:
  "\<not> charmap_bit esc_refresh c_percent" "charmap_bit esc_args c_semi"
  by (simp_all add: charmap_bit_def esc_refresh_def esc_args_def)

end
