(* ===== verification/Http_Chunked.thy ===== *)
theory Http_Chunked
  imports Http_Request_Line Ngx_Number
begin

unbundle bit_operations_syntax

text \<open>
  Chunked request bodies: \<open>ngx_http_parse_chunked\<close> of \<open>src/http/ngx_http_parse.c\<close> and the body filters of
  \<open>src/http/ngx_http_request_body.c\<close> that call it. The size of a chunk is a signed 64-bit number whose arithmetic is
  written out with \<open>c_int64\<close>. The parser stops before the first data byte of a chunk and returns \<open>NGX_OK\<close>; the filter
  takes the data bytes out of the buffer and calls it again. Allocation failures and the filters behind \<open>out\<close> are left out.
\<close>

section \<open>ngx_http_parse_chunked\<close>

datatype ck_state =
    ck_sw_chunk_start
  | ck_sw_chunk_size
  | ck_sw_chunk_extension
  | ck_sw_chunk_extension_almost_done
  | ck_sw_chunk_data
  | ck_sw_after_data
  | ck_sw_after_data_almost_done
  | ck_sw_last_chunk_extension
  | ck_sw_last_chunk_extension_almost_done
  | ck_sw_trailer
  | ck_sw_trailer_almost_done
  | ck_sw_trailer_header
  | ck_sw_trailer_header_almost_done

record ngx_http_chunked =
  ck_state :: ck_state
  ck_size :: int
  ck_length :: int

datatype ck_exit = Ck_data | Ck_done | Ck_invalid

type_synonym ck_flow = "(ck_state \<times> int, ck_exit) flow"

text \<open>The value of a hexadecimal digit, where the code tests the two ranges.\<close>

definition ck_digit :: "u_char \<Rightarrow> int option" where
  "ck_digit ch =
    (if is_digit ch then Some (uint (ch - c_0))
     else let c = ch OR 0x20 in if is_af c then Some (uint (c - c_a + 10)) else None)"

definition ck_chunk_start :: "u_char \<Rightarrow> int \<Rightarrow> ck_flow" where
  "ck_chunk_start ch n =
    (case ck_digit ch of
       Some d \<Rightarrow> Next (ck_sw_chunk_size, d)
     | None \<Rightarrow> Exit Ck_invalid (ck_sw_chunk_start, n))"

definition ck_chunk_size :: "u_char \<Rightarrow> int \<Rightarrow> ck_flow" where
  "ck_chunk_size ch n =
    (if n > NGX_MAX_OFF_T_VALUE div 16 then Exit Ck_invalid (ck_sw_chunk_size, n)
     else case ck_digit ch of
         Some d \<Rightarrow> Next (ck_sw_chunk_size, c_int64 (n * 16 + d))
       | None \<Rightarrow>
           if n = 0 then
             (if ch = CR then Next (ck_sw_last_chunk_extension_almost_done, n)
              else if ch = LF then Next (ck_sw_trailer, n)
              else if ch = c_semi \<or> ch = SP \<or> ch = HT then Next (ck_sw_last_chunk_extension, n)
              else Exit Ck_invalid (ck_sw_chunk_size, n))
           else
             (if ch = CR then Next (ck_sw_chunk_extension_almost_done, n)
              else if ch = LF then Next (ck_sw_chunk_data, n)
              else if ch = c_semi \<or> ch = SP \<or> ch = HT then Next (ck_sw_chunk_extension, n)
              else Exit Ck_invalid (ck_sw_chunk_size, n)))"

text \<open>The states that wait for the end of a line: CR leads to \<open>cr\<close>, LF to \<open>lf\<close>, other bytes are skipped.\<close>

definition ck_skip :: "ck_state \<Rightarrow> ck_state \<Rightarrow> ck_state \<Rightarrow> u_char \<Rightarrow> int \<Rightarrow> ck_flow" where
  "ck_skip st cr lf ch n =
    (if ch = CR then Next (cr, n) else if ch = LF then Next (lf, n) else Next (st, n))"

text \<open>The states after CR, where only LF is allowed.\<close>

definition ck_lf :: "ck_state \<Rightarrow> ck_state \<Rightarrow> u_char \<Rightarrow> int \<Rightarrow> ck_flow" where
  "ck_lf st lf ch n = (if ch = LF then Next (lf, n) else Exit Ck_invalid (st, n))"

definition ck_step :: "nat \<Rightarrow> u_char \<Rightarrow> ck_state \<times> int \<Rightarrow> ck_flow" where
  "ck_step p ch s =
    (case s of (st, n) \<Rightarrow>
     (case st of
        ck_sw_chunk_start \<Rightarrow> ck_chunk_start ch n
      | ck_sw_chunk_size \<Rightarrow> ck_chunk_size ch n
      | ck_sw_chunk_extension \<Rightarrow>
          ck_skip ck_sw_chunk_extension ck_sw_chunk_extension_almost_done ck_sw_chunk_data ch n
      | ck_sw_chunk_extension_almost_done \<Rightarrow>
          ck_lf ck_sw_chunk_extension_almost_done ck_sw_chunk_data ch n
      | ck_sw_chunk_data \<Rightarrow> Exit Ck_data (ck_sw_chunk_data, n)
      | ck_sw_after_data \<Rightarrow>
          ck_skip ck_sw_after_data ck_sw_after_data_almost_done ck_sw_chunk_start ch n
      | ck_sw_after_data_almost_done \<Rightarrow> ck_lf ck_sw_after_data_almost_done ck_sw_chunk_start ch n
      | ck_sw_last_chunk_extension \<Rightarrow>
          ck_skip ck_sw_last_chunk_extension ck_sw_last_chunk_extension_almost_done ck_sw_trailer ch n
      | ck_sw_last_chunk_extension_almost_done \<Rightarrow>
          ck_lf ck_sw_last_chunk_extension_almost_done ck_sw_trailer ch n
      | ck_sw_trailer \<Rightarrow>
          (if ch = CR then Next (ck_sw_trailer_almost_done, n)
           else if ch = LF then Exit Ck_done (ck_sw_trailer, n)
           else Next (ck_sw_trailer_header, n))
      | ck_sw_trailer_almost_done \<Rightarrow>
          (if ch = LF then Exit Ck_done (ck_sw_trailer_almost_done, n)
           else Exit Ck_invalid (ck_sw_trailer_almost_done, n))
      | ck_sw_trailer_header \<Rightarrow>
          ck_skip ck_sw_trailer_header ck_sw_trailer_header_almost_done ck_sw_trailer ch n
      | ck_sw_trailer_header_almost_done \<Rightarrow> ck_lf ck_sw_trailer_header_almost_done ck_sw_trailer ch n))"

text \<open>\<open>ctx->length\<close>: the least number of bytes that are still to come.\<close>

fun ck_rest :: "ck_state \<Rightarrow> int \<Rightarrow> int" where
  "ck_rest ck_sw_chunk_start n = 3"
| "ck_rest ck_sw_chunk_size n = c_int64 (1 + (if n \<noteq> 0 then n + 4 else 1))"
| "ck_rest ck_sw_chunk_extension n = c_int64 (1 + n + 4)"
| "ck_rest ck_sw_chunk_extension_almost_done n = c_int64 (1 + n + 4)"
| "ck_rest ck_sw_chunk_data n = c_int64 (n + 4)"
| "ck_rest ck_sw_after_data n = 4"
| "ck_rest ck_sw_after_data_almost_done n = 4"
| "ck_rest ck_sw_last_chunk_extension n = 2"
| "ck_rest ck_sw_last_chunk_extension_almost_done n = 2"
| "ck_rest ck_sw_trailer n = 1"
| "ck_rest ck_sw_trailer_almost_done n = 1"
| "ck_rest ck_sw_trailer_header n = 2"
| "ck_rest ck_sw_trailer_header_almost_done n = 2"

text \<open>The label \<open>data\<close>.\<close>

definition ck_finish ::
  "ngx_rc \<Rightarrow> nat \<Rightarrow> ck_state \<times> int \<Rightarrow> ngx_http_chunked \<Rightarrow> ngx_buf \<Rightarrow> ngx_rc \<times> ngx_http_chunked \<times> ngx_buf" where
  "ck_finish rc pos s ctx b =
    (let ctx = ctx\<lparr>ck_state := fst s, ck_size := snd s\<rparr>; b = b\<lparr>b_pos := pos\<rparr> in
     if snd s > NGX_MAX_OFF_T_VALUE - 5 then (NGX_ERROR, ctx, b)
     else (rc, ctx\<lparr>ck_length := ck_rest (fst s) (snd s)\<rparr>, b))"

text \<open>The state on entry.\<close>

definition ck_enter :: "ngx_http_chunked \<Rightarrow> ck_state \<times> int" where
  "ck_enter ctx =
    (if ck_state ctx = ck_sw_chunk_data \<and> ck_size ctx = 0 then ck_sw_after_data else ck_state ctx, ck_size ctx)"

definition ngx_http_parse_chunked ::
  "ngx_buf \<Rightarrow> ngx_http_chunked \<Rightarrow> ngx_rc \<times> ngx_http_chunked \<times> ngx_buf" where
  "ngx_http_parse_chunked b ctx =
    (case scan ck_step (drop (b_pos b) (b_data b)) (b_pos b) (ck_enter ctx) of
       Ran_out p s \<Rightarrow> ck_finish NGX_AGAIN p s ctx b
     | Exited Ck_data p s \<Rightarrow> ck_finish NGX_OK p s ctx b
     | Exited Ck_done p s \<Rightarrow>
         (NGX_DONE, ctx\<lparr>ck_state := ck_sw_chunk_start, ck_size := snd s\<rparr>, b\<lparr>b_pos := p + 1\<rparr>)
     | Exited Ck_invalid p s \<Rightarrow> (NGX_ERROR, ctx\<lparr>ck_size := snd s\<rparr>, b))"

section \<open>ngx_http_request_body_chunked_filter\<close>

text \<open>What the filter keeps between calls: \<open>rb->rest\<close>, \<open>rb->chunked\<close> and \<open>r->headers_in.content_length_n\<close>.\<close>

record ngx_http_request_body =
  rb_rest :: int
  rb_chunked :: ngx_http_chunked
  rb_content_length_n :: int

text \<open>A buffer of the chain \<open>out\<close>: its bytes, and the flag \<open>last_buf\<close>.\<close>

type_synonym out_buf = "u_char list \<times> bool"

datatype body_rc = Body_passed | Body_bad_request | Body_too_large

text \<open>The inner loop on one buffer; the fuel bounds the number of rounds.\<close>

fun chunked_loop ::
  "nat \<Rightarrow> int \<Rightarrow> ngx_http_request_body \<Rightarrow> ngx_buf \<Rightarrow> out_buf list
   \<Rightarrow> (body_rc \<times> ngx_http_request_body \<times> ngx_buf \<times> out_buf list) option" where
  "chunked_loop 0 max_size rb b out = None"
| "chunked_loop (Suc fuel) max_size rb b out =
    (let (rc, ctx, b) = ngx_http_parse_chunked b (rb_chunked rb); rb = rb\<lparr>rb_chunked := ctx\<rparr> in
     if rc = NGX_OK then
       (if max_size \<noteq> 0 \<and> max_size - rb_content_length_n rb < ck_size ctx
        then Some (Body_too_large, rb, b, out)
        else
          (let size = int (length (b_data b) - b_pos b) in
           if size > ck_size ctx then
             (let pos = b_pos b + nat (ck_size ctx) in
              chunked_loop fuel max_size
                (rb\<lparr>rb_content_length_n := rb_content_length_n rb + ck_size ctx,
                    rb_chunked := ctx\<lparr>ck_size := 0\<rparr>\<rparr>)
                (b\<lparr>b_pos := pos\<rparr>) (out @ [(slice (b_data b) (b_pos b) pos, False)]))
           else
             chunked_loop fuel max_size
               (rb\<lparr>rb_content_length_n := rb_content_length_n rb + size,
                   rb_chunked := ctx\<lparr>ck_size := ck_size ctx - size\<rparr>\<rparr>)
               (b\<lparr>b_pos := length (b_data b)\<rparr>)
               (out @ [(slice (b_data b) (b_pos b) (length (b_data b)), False)])))
     else if rc = NGX_DONE then Some (Body_passed, rb\<lparr>rb_rest := 0\<rparr>, b, out @ [([], True)])
     else if rc = NGX_AGAIN then Some (Body_passed, rb\<lparr>rb_rest := ck_length ctx\<rparr>, b, out)
     else Some (Body_bad_request, rb, b, out))"

definition chunked_new :: ngx_http_chunked where
  "chunked_new = \<lparr>ck_state = ck_sw_chunk_start, ck_size = 0, ck_length = 0\<rparr>"

text \<open>The loop over the chain of buffers, and the filter: the result, the state, the buffers with their new
  positions, and the chain \<open>out\<close> that is passed to the next filter.\<close>

fun chunked_bufs ::
  "int \<Rightarrow> ngx_http_request_body \<Rightarrow> ngx_buf list \<Rightarrow> out_buf list
   \<Rightarrow> (body_rc \<times> ngx_http_request_body \<times> ngx_buf list \<times> out_buf list) option" where
  "chunked_bufs max_size rb [] out = Some (Body_passed, rb, [], out)"
| "chunked_bufs max_size rb (b # bs) out =
    (case chunked_loop (Suc (length (b_data b))) max_size rb b out of
       None \<Rightarrow> None
     | Some (rc, rb', b', out') \<Rightarrow>
         if rc = Body_passed then
           (case chunked_bufs max_size rb' bs out' of
              None \<Rightarrow> None
            | Some (rc', rb'', bs', out'') \<Rightarrow> Some (rc', rb'', b' # bs', out''))
         else Some (rc, rb', b' # bs, out'))"

definition ngx_http_request_body_chunked_filter ::
  "int \<Rightarrow> ngx_http_request_body \<Rightarrow> ngx_buf list
   \<Rightarrow> (body_rc \<times> ngx_http_request_body \<times> ngx_buf list \<times> out_buf list) option" where
  "ngx_http_request_body_chunked_filter max_size rb bufs =
    chunked_bufs max_size
      (if rb_rest rb = -1 then \<lparr>rb_rest = 3, rb_chunked = chunked_new, rb_content_length_n = 0\<rparr> else rb) bufs []"

text \<open>The reading loop of \<open>ngx_http_do_read_client_request_body\<close>: each portion that has been received is passed to the
  filter as a chain of one buffer, until \<open>rb->rest\<close> is 0. The result has the output of all calls and the bytes that
  have not been taken, those of the last buffer and of the portions behind it.\<close>

fun body_feed ::
  "int \<Rightarrow> ngx_http_request_body \<Rightarrow> u_char list list \<Rightarrow> out_buf list
   \<Rightarrow> (body_rc \<times> ngx_http_request_body \<times> out_buf list \<times> u_char list) option" where
  "body_feed max_size rb [] out = Some (Body_passed, rb, out, [])"
| "body_feed max_size rb (portion # portions) out =
    (case ngx_http_request_body_chunked_filter max_size rb [\<lparr>b_data = portion, b_pos = 0\<rparr>] of
       None \<Rightarrow> None
     | Some (rc, rb', bufs, out') \<Rightarrow>
         if rc \<noteq> Body_passed then Some (rc, rb', out @ out', [])
         else if rb_rest rb' = 0 then
           Some (rc, rb', out @ out',
             concat (map (\<lambda>b. drop (b_pos b) (b_data b)) bufs) @ concat portions)
         else body_feed max_size rb' portions (out @ out'))"

section \<open>The other body filters\<close>

text \<open>\<open>ngx_http_request_body_length_filter\<close>: \<open>rest\<close> bytes of the chain, cut into buffers of \<open>out\<close>.\<close>

fun length_bufs :: "int \<Rightarrow> ngx_buf list \<Rightarrow> int \<times> out_buf list" where
  "length_bufs rest [] = (rest, [])"
| "length_bufs rest (b # bs) =
    (if rest = 0 then (rest, [])
     else
       (let size = int (length (b_data b) - b_pos b) in
        if size < rest then
          (let (rest', out) = length_bufs (rest - size) bs in (rest', (drop (b_pos b) (b_data b), False) # out))
        else
          (let (rest', out) = length_bufs 0 bs in
           (rest', (slice (b_data b) (b_pos b) (b_pos b + nat rest), True) # out))))"

definition ngx_http_request_body_length_filter ::
  "ngx_http_request_body \<Rightarrow> ngx_buf list \<Rightarrow> ngx_http_request_body \<times> out_buf list" where
  "ngx_http_request_body_length_filter rb bufs =
    (let rest = (if rb_rest rb = -1 then rb_content_length_n rb else rb_rest rb);
         (rest', out) = length_bufs rest bufs
     in (rb\<lparr>rb_rest := rest'\<rparr>, out))"

text \<open>\<open>ngx_http_discard_request_body_filter\<close>: the same parsing, without output.\<close>

fun discard_loop :: "nat \<Rightarrow> ngx_http_request_body \<Rightarrow> ngx_buf \<Rightarrow> (body_rc \<times> ngx_http_request_body \<times> ngx_buf) option" where
  "discard_loop 0 rb b = None"
| "discard_loop (Suc fuel) rb b =
    (let (rc, ctx, b) = ngx_http_parse_chunked b (rb_chunked rb); rb = rb\<lparr>rb_chunked := ctx\<rparr> in
     if rc = NGX_OK then
       (let size = int (length (b_data b) - b_pos b) in
        if size > ck_size ctx then
          discard_loop fuel (rb\<lparr>rb_chunked := ctx\<lparr>ck_size := 0\<rparr>\<rparr>) (b\<lparr>b_pos := b_pos b + nat (ck_size ctx)\<rparr>)
        else
          discard_loop fuel (rb\<lparr>rb_chunked := ctx\<lparr>ck_size := ck_size ctx - size\<rparr>\<rparr>)
            (b\<lparr>b_pos := length (b_data b)\<rparr>))
     else if rc = NGX_DONE then Some (Body_passed, rb\<lparr>rb_content_length_n := 0\<rparr>, b)
     else if rc = NGX_AGAIN then Some (Body_passed, rb\<lparr>rb_content_length_n := ck_length ctx\<rparr>, b)
     else Some (Body_bad_request, rb, b))"

definition ngx_http_discard_request_body_filter ::
  "bool \<Rightarrow> ngx_http_request_body \<Rightarrow> ngx_buf \<Rightarrow> (body_rc \<times> ngx_http_request_body \<times> ngx_buf) option" where
  "ngx_http_discard_request_body_filter chunked rb b =
    (if chunked then discard_loop (Suc (length (b_data b))) rb b
     else
       (let size = int (length (b_data b) - b_pos b) in
        if size > rb_content_length_n rb then
          Some (Body_passed, rb\<lparr>rb_content_length_n := 0\<rparr>, b\<lparr>b_pos := b_pos b + nat (rb_content_length_n rb)\<rparr>)
        else
          Some (Body_passed, rb\<lparr>rb_content_length_n := rb_content_length_n rb - size\<rparr>,
            b\<lparr>b_pos := length (b_data b)\<rparr>)))"

end
