(* ===== verification/Http_Chunked_Sim.thy ===== *)
theory Http_Chunked_Sim
  imports Http_Chunked Ngx_Number_Props
begin

unbundle bit_operations_syntax

text \<open>
  An abstract decoder of chunked bodies that works byte by byte, the invariant of the parser state, and the lemmas that
  relate a call of \<open>ngx_http_parse_chunked\<close> to the abstract decoder.
\<close>

section \<open>An abstract decoder\<close>

text \<open>Decoding byte by byte: a chunked body is framing bytes, which go through the state machine, and data bytes,
  which are copied. The state is the state of the parser and the size of the chunk, where an exhausted chunk is
  already in the state after the data. \<open>tot\<close> is the number of bytes copied.\<close>

datatype cd_end =
    Cd_more "ck_state \<times> int" int
  | Cd_done int "u_char list"
  | Cd_invalid
  | Cd_too_large

definition ck_norm :: "ck_state \<times> int \<Rightarrow> ck_state \<times> int" where
  "ck_norm s = (if s = (ck_sw_chunk_data, 0) then (ck_sw_after_data, 0) else s)"

definition over_limit :: "int \<Rightarrow> int \<Rightarrow> int \<Rightarrow> bool" where
  "over_limit mx tot n \<longleftrightarrow> mx \<noteq> 0 \<and> mx - tot < n"

fun cd_run :: "int \<Rightarrow> ck_state \<times> int \<Rightarrow> int \<Rightarrow> u_char list \<Rightarrow> cd_end \<times> u_char list" where
  "cd_run mx s tot [] = (Cd_more s tot, [])"
| "cd_run mx s tot (ch # cs) =
    (if fst s = ck_sw_chunk_data then
       (if over_limit mx tot (snd s) then (Cd_too_large, [])
        else apsnd ((#) ch) (cd_run mx (ck_norm (ck_sw_chunk_data, snd s - 1)) (tot + 1) cs))
     else
       (case ck_step 0 ch s of
          Next s' \<Rightarrow> if snd s' > NGX_MAX_OFF_T_VALUE - 5 then (Cd_invalid, []) else cd_run mx s' tot cs
        | Exit x s' \<Rightarrow> (if x = Ck_done then (Cd_done tot cs, []) else (Cd_invalid, []))))"

lemma apsnd_Cons_append: "apsnd ((#) c) (apsnd ((@) xs) x) = apsnd ((@) (c # xs)) x"
  by (cases x) simp

lemma apsnd_Nil_append: "apsnd ((@) []) x = x"
  by (cases x) simp

lemma cd_run_append:
  "cd_run mx s tot (xs @ ys) =
    (case cd_run mx s tot xs of
       (Cd_more s' tot', out) \<Rightarrow> apsnd ((@) out) (cd_run mx s' tot' ys)
     | (Cd_done tot' left, out) \<Rightarrow> (Cd_done tot' (left @ ys), out)
     | (e, out) \<Rightarrow> (e, out))"
proof (induction xs arbitrary: s tot)
  case (Cons ch xs)
  show ?case
  proof (cases "fst s = ck_sw_chunk_data")
    case True
    obtain e o' where "cd_run mx (ck_norm (ck_sw_chunk_data, snd s - 1)) (tot + 1) xs = (e, o')" by fastforce
    with True show ?thesis by (cases e) (simp_all add: Cons apsnd_Cons_append)
  next
    case False
    then show ?thesis by (auto simp: Cons split: flow.splits)
  qed
qed (simp add: apsnd_Nil_append)

section \<open>The invariant of the parser\<close>

text \<open>The size is a chunk size that has been read without overflow, and it is positive from the end of the size line
  to the end of the data.\<close>

definition ck_ok :: "ck_state \<times> int \<Rightarrow> bool" where
  "ck_ok s \<longleftrightarrow>
     0 \<le> snd s \<and> snd s \<le> NGX_MAX_OFF_T_VALUE - 5 \<and>
     (fst s \<in> {ck_sw_chunk_extension, ck_sw_chunk_extension_almost_done, ck_sw_chunk_data} \<longrightarrow>
        0 < snd s \<and> snd s \<le> NGX_MAX_OFF_T_VALUE div 16)"

lemma ck_digit_hex: "ck_digit ch = (if is_hex ch then Some (hex_digit ch) else None)"
  by (simp add: ck_digit_def is_hex_def hex_digit_def Let_def)

lemma ck_digit_range: "ck_digit ch = Some d \<Longrightarrow> 0 \<le> d \<and> d < 16"
  using hex_digit_range [of ch] by (auto simp: ck_digit_hex split: if_splits)

lemma c_int64_off: "0 \<le> n \<Longrightarrow> n \<le> NGX_MAX_OFF_T_VALUE \<Longrightarrow> c_int64 n = n"
  using c_int64_id [of n] by (simp add: NGX_MAX_OFF_T_VALUE_def NGX_MAX_INT_T_VALUE_def)

lemma ck_step_simps [simp]:
  "ck_step p ch (ck_sw_chunk_start, n) = ck_chunk_start ch n"
  "ck_step p ch (ck_sw_chunk_size, n) = ck_chunk_size ch n"
  "ck_step p ch (ck_sw_chunk_extension, n) =
     ck_skip ck_sw_chunk_extension ck_sw_chunk_extension_almost_done ck_sw_chunk_data ch n"
  "ck_step p ch (ck_sw_chunk_extension_almost_done, n) = ck_lf ck_sw_chunk_extension_almost_done ck_sw_chunk_data ch n"
  "ck_step p ch (ck_sw_chunk_data, n) = Exit Ck_data (ck_sw_chunk_data, n)"
  "ck_step p ch (ck_sw_after_data, n) =
     ck_skip ck_sw_after_data ck_sw_after_data_almost_done ck_sw_chunk_start ch n"
  "ck_step p ch (ck_sw_after_data_almost_done, n) = ck_lf ck_sw_after_data_almost_done ck_sw_chunk_start ch n"
  "ck_step p ch (ck_sw_last_chunk_extension, n) =
     ck_skip ck_sw_last_chunk_extension ck_sw_last_chunk_extension_almost_done ck_sw_trailer ch n"
  "ck_step p ch (ck_sw_last_chunk_extension_almost_done, n) =
     ck_lf ck_sw_last_chunk_extension_almost_done ck_sw_trailer ch n"
  "ck_step p ch (ck_sw_trailer, n) =
     (if ch = CR then Next (ck_sw_trailer_almost_done, n)
      else if ch = LF then Exit Ck_done (ck_sw_trailer, n) else Next (ck_sw_trailer_header, n))"
  "ck_step p ch (ck_sw_trailer_almost_done, n) =
     (if ch = LF then Exit Ck_done (ck_sw_trailer_almost_done, n)
      else Exit Ck_invalid (ck_sw_trailer_almost_done, n))"
  "ck_step p ch (ck_sw_trailer_header, n) =
     ck_skip ck_sw_trailer_header ck_sw_trailer_header_almost_done ck_sw_trailer ch n"
  "ck_step p ch (ck_sw_trailer_header_almost_done, n) = ck_lf ck_sw_trailer_header_almost_done ck_sw_trailer ch n"
  by (simp_all add: ck_step_def)

lemma off_t_room: "16 \<le> NGX_MAX_OFF_T_VALUE - 5" "NGX_MAX_OFF_T_VALUE div 16 \<le> NGX_MAX_OFF_T_VALUE - 5"
  by (simp_all add: NGX_MAX_OFF_T_VALUE_def)

lemma ck_chunk_size_Next:
  assumes "ck_chunk_size ch n = Next s'"
  shows "n \<le> NGX_MAX_OFF_T_VALUE div 16"
    and "ck_digit ch = Some d \<Longrightarrow> s' = (ck_sw_chunk_size, c_int64 (n * 16 + d))"
    and "ck_digit ch = None \<Longrightarrow> snd s' = n"
    and "ck_digit ch = None \<Longrightarrow> n = 0 \<Longrightarrow>
      fst s' \<in> {ck_sw_last_chunk_extension_almost_done, ck_sw_trailer, ck_sw_last_chunk_extension}"
  using assms by (auto simp: ck_chunk_size_def split: if_splits)

lemma ck_step_ok:
  assumes "ck_ok s" "fst s \<noteq> ck_sw_chunk_data" "ck_step p ch s = Next s'"
  shows "ck_ok s' \<or> fst s' = ck_sw_chunk_size \<and> NGX_MAX_OFF_T_VALUE - 5 < snd s' \<and> snd s' \<le> NGX_MAX_OFF_T_VALUE"
proof -
  obtain st n where s: "s = (st, n)" by (cases s) auto
  have n: "0 \<le> n" "n \<le> NGX_MAX_OFF_T_VALUE - 5" using assms(1) by (simp_all add: ck_ok_def s)
  show ?thesis
  proof (cases "st = ck_sw_chunk_size")
    case True
    then have e: "ck_chunk_size ch n = Next s'" using assms(3) s by simp
    show ?thesis
    proof (cases "ck_digit ch")
      case (Some d)
      then have d: "0 \<le> d" "d < 16" using ck_digit_range by auto
      have "n * 16 + d \<le> NGX_MAX_OFF_T_VALUE" "0 \<le> n * 16 + d"
        using d n ck_chunk_size_Next(1) [OF e] by (simp_all add: NGX_MAX_OFF_T_VALUE_def)
      then show ?thesis
        using ck_chunk_size_Next(2) [OF e Some] c_int64_off [of "n * 16 + d"] by (simp add: ck_ok_def) linarith
    next
      case None
      then show ?thesis
        using ck_chunk_size_Next [OF e] n by (cases "n = 0") (auto simp: ck_ok_def)
    qed
  next
    case False
    then show ?thesis
      using assms s ck_digit_range [of ch] off_t_room(1)
      by (cases st) (auto simp: ck_ok_def ck_chunk_start_def ck_skip_def ck_lf_def split: if_splits option.splits)
  qed
qed

lemma ck_big_invalid: "NGX_MAX_OFF_T_VALUE - 5 < n \<Longrightarrow> ck_step p ch (ck_sw_chunk_size, n) = Exit Ck_invalid (ck_sw_chunk_size, n)"
  by (simp add: ck_chunk_size_def NGX_MAX_OFF_T_VALUE_def)

lemma ck_step_exits:
  "ck_step p ch s = Exit x s' \<Longrightarrow> s' = s \<and> (x = Ck_data \<longleftrightarrow> fst s = ck_sw_chunk_data)"
proof -
  obtain st n where s: "s = (st, n)" by (cases s) auto
  then show "ck_step p ch s = Exit x s' \<Longrightarrow> s' = s \<and> (x = Ck_data \<longleftrightarrow> fst s = ck_sw_chunk_data)"
    by (cases st) (auto simp: ck_chunk_start_def ck_chunk_size_def ck_skip_def ck_lf_def split: if_splits option.splits)
qed

lemma ck_step_pos: "ck_step p ch s = ck_step 0 ch s"
  by (simp add: ck_step_def)

section \<open>The parser and the abstract decoder\<close>

text \<open>One call of the parser does the framing bytes up to the next data byte.\<close>

lemma scan_framing:
  assumes "ck_ok s"
  shows "case scan ck_step cs p s of
     Ran_out p' s' \<Rightarrow>
       (if NGX_MAX_OFF_T_VALUE - 5 < snd s' then cd_run mx s tot cs = (Cd_invalid, [])
        else ck_ok s' \<and> cd_run mx s tot cs = (Cd_more s' tot, []))
   | Exited Ck_data p' s' \<Rightarrow>
       fst s' = ck_sw_chunk_data \<and> ck_ok s' \<and> p' - p < length cs \<and>
       cd_run mx s tot cs = cd_run mx s' tot (drop (p' - p) cs)
   | Exited Ck_done p' s' \<Rightarrow> cd_run mx s tot cs = (Cd_done tot (drop (Suc (p' - p)) cs), [])
   | Exited Ck_invalid p' s' \<Rightarrow> cd_run mx s tot cs = (Cd_invalid, [])"
  using assms
proof (induction cs arbitrary: p s)
  case Nil
  then show ?case by (simp add: ck_ok_def)
next
  case (Cons ch cs)
  show ?case
  proof (cases "ck_step p ch s")
    case (Exit x s')
    then have "s' = s" "x = Ck_data \<longleftrightarrow> fst s = ck_sw_chunk_data" using ck_step_exits by blast+
    with Exit Cons.prems show ?thesis
      using ck_step_pos [of p ch s] by (cases x) (auto split: flow.splits)
  next
    case (Next s')
    then have nd: "fst s \<noteq> ck_sw_chunk_data" by (cases s) (auto simp: ck_step_def)
    have st0: "ck_step 0 ch s = Next s'" using Next ck_step_pos by metis
    show ?thesis
    proof (cases "ck_ok s'")
      case True
      then have r: "cd_run mx s tot (ch # cs) = cd_run mx s' tot cs" using nd st0 by (simp add: ck_ok_def)
      have IH: "case scan ck_step cs (Suc p) s' of
         Ran_out p' s'' \<Rightarrow>
           (if NGX_MAX_OFF_T_VALUE - 5 < snd s'' then cd_run mx s' tot cs = (Cd_invalid, [])
            else ck_ok s'' \<and> cd_run mx s' tot cs = (Cd_more s'' tot, []))
       | Exited Ck_data p' s'' \<Rightarrow>
           fst s'' = ck_sw_chunk_data \<and> ck_ok s'' \<and> p' - Suc p < length cs \<and>
           cd_run mx s' tot cs = cd_run mx s'' tot (drop (p' - Suc p) cs)
       | Exited Ck_done p' s'' \<Rightarrow> cd_run mx s' tot cs = (Cd_done tot (drop (Suc (p' - Suc p)) cs), [])
       | Exited Ck_invalid p' s'' \<Rightarrow> cd_run mx s' tot cs = (Cd_invalid, [])"
        by (rule Cons.IH [OF True])
      show ?thesis
      proof (cases "scan ck_step cs (Suc p) s'")
        case (Ran_out p' s'')
        then show ?thesis using IH Next r by (simp del: cd_run.simps)
      next
        case (Exited x p' s'')
        have "Suc p \<le> p'" using scan_Exited_pos [OF Exited] by simp
        then obtain k where "p' = Suc p + k" using le_Suc_ex by blast
        then show ?thesis using IH Next r Exited by (cases x) (simp_all del: cd_run.simps)
      qed
    next
      case False
      then have big: "fst s' = ck_sw_chunk_size" "NGX_MAX_OFF_T_VALUE - 5 < snd s'"
        using ck_step_ok [OF Cons.prems nd Next] by auto
      have r: "cd_run mx s tot (ch # cs) = (Cd_invalid, [])" using nd st0 big(2) by simp
      have "ck_step q c s' = Exit Ck_invalid s'" for q c
        using big ck_big_invalid [of "snd s'"] by (metis prod.collapse)
      then show ?thesis using Next r big by (cases cs) (simp_all del: cd_run.simps)
    qed
  qed
qed

text \<open>The data bytes of a chunk.\<close>

lemma cd_run_data:
  assumes "0 < n" "\<not> over_limit mx tot n"
  shows "cd_run mx (ck_sw_chunk_data, n) tot cs =
    (if n < int (length cs)
     then apsnd ((@) (take (nat n) cs)) (cd_run mx (ck_sw_after_data, 0) (tot + n) (drop (nat n) cs))
     else (Cd_more (ck_norm (ck_sw_chunk_data, n - int (length cs))) (tot + int (length cs)), cs))"
  using assms
proof (induction cs arbitrary: n tot)
  case Nil
  then show ?case by (simp add: ck_norm_def)
next
  case (Cons c cs)
  show ?case
  proof (cases "n = 1")
    case True
    with Cons.prems show ?thesis
      by (cases cs) (auto simp: ck_norm_def apsnd_Cons_append)
  next
    case False
    then have n: "0 < n - 1" using Cons.prems by simp
    moreover have "\<not> over_limit mx (tot + 1) (n - 1)" using Cons.prems by (auto simp: over_limit_def)
    moreover have "nat n = Suc (nat (n - 1))" using n by simp
    ultimately show ?thesis
      using Cons.IH [of "n - 1" "tot + 1"] Cons.prems False
      by (auto simp: ck_norm_def apsnd_Cons_append algebra_simps)
  qed
qed

lemma ck_enter_norm: "ck_enter ctx = ck_norm (ck_state ctx, ck_size ctx)"
  by (simp add: ck_enter_def ck_norm_def)

lemma ck_norm_ok: "ck_ok s \<Longrightarrow> ck_norm s = s"
  by (auto simp: ck_ok_def ck_norm_def)

lemma ck_finish_ok:
  "ck_ok s \<Longrightarrow> ck_finish rc p s ctx b =
     (rc, ctx\<lparr>ck_state := fst s, ck_size := snd s, ck_length := ck_rest (fst s) (snd s)\<rparr>, b\<lparr>b_pos := p\<rparr>)"
  by (simp add: ck_finish_def ck_ok_def Let_def)

text \<open>The four ways in which a call ends.\<close>

lemma parse_chunked_cases:
  assumes "ck_ok (ck_enter ctx)" "b_pos b \<le> length (b_data b)"
  obtains
    (again) s where "ngx_http_parse_chunked b ctx =
        (NGX_AGAIN, ctx\<lparr>ck_state := fst s, ck_size := snd s, ck_length := ck_rest (fst s) (snd s)\<rparr>,
         b\<lparr>b_pos := length (b_data b)\<rparr>)"
      "ck_ok s" "\<And>mx tot. cd_run mx (ck_enter ctx) tot (drop (b_pos b) (b_data b)) = (Cd_more s tot, [])"
  | (data) n p where "ngx_http_parse_chunked b ctx =
        (NGX_OK, ctx\<lparr>ck_state := ck_sw_chunk_data, ck_size := n, ck_length := ck_rest ck_sw_chunk_data n\<rparr>,
         b\<lparr>b_pos := p\<rparr>)"
      "ck_ok (ck_sw_chunk_data, n)" "b_pos b \<le> p" "p < length (b_data b)"
      "\<And>mx tot. cd_run mx (ck_enter ctx) tot (drop (b_pos b) (b_data b)) =
         cd_run mx (ck_sw_chunk_data, n) tot (drop p (b_data b))"
  | (finished) n p where "ngx_http_parse_chunked b ctx =
        (NGX_DONE, ctx\<lparr>ck_state := ck_sw_chunk_start, ck_size := n\<rparr>, b\<lparr>b_pos := Suc p\<rparr>)"
      "b_pos b \<le> p" "p < length (b_data b)"
      "\<And>mx tot. cd_run mx (ck_enter ctx) tot (drop (b_pos b) (b_data b)) = (Cd_done tot (drop (Suc p) (b_data b)), [])"
  | (invalid) ctx' b' where "ngx_http_parse_chunked b ctx = (NGX_ERROR, ctx', b')"
      "\<And>mx tot. cd_run mx (ck_enter ctx) tot (drop (b_pos b) (b_data b)) = (Cd_invalid, [])"
proof -
  let ?cs = "drop (b_pos b) (b_data b)"
  note f = scan_framing [OF assms(1), where cs = ?cs and p = "b_pos b"]
  show ?thesis
  proof (cases "scan ck_step ?cs (b_pos b) (ck_enter ctx)")
    case (Ran_out p s)
    have p: "p = length (b_data b)" using scan_Ran_out_pos [OF Ran_out] assms(2) by simp
    show ?thesis
    proof (cases "NGX_MAX_OFF_T_VALUE - 5 < snd s")
      case True
      show ?thesis
        using f Ran_out True by (intro invalid) (simp_all add: ngx_http_parse_chunked_def ck_finish_def Let_def del: cd_run.simps)
    next
      case False
      then have "ck_ok s" using f Ran_out by simp
      then show ?thesis
        using f Ran_out False p by (intro again [of s]) (simp_all add: ngx_http_parse_chunked_def ck_finish_ok del: cd_run.simps)
    qed
  next
    case (Exited x p s)
    have p: "b_pos b \<le> p" "p < length (b_data b)" using scan_Exited_pos [OF Exited] assms(2) by simp_all
    then have d: "drop (p - b_pos b) ?cs = drop p (b_data b)" "drop (Suc (p - b_pos b)) ?cs = drop (Suc p) (b_data b)"
      by simp_all
    show ?thesis
    proof (cases x)
      case Ck_data
      then have s: "s = (ck_sw_chunk_data, snd s)" "ck_ok s"
        using f Exited by (simp_all add: prod_eq_iff)
      show ?thesis
        by (rule data [of "snd s" p])
          (use f Exited Ck_data s p d in \<open>simp_all add: ngx_http_parse_chunked_def ck_finish_ok del: cd_run.simps\<close>)
    next
      case Ck_done
      show ?thesis
        by (rule finished [of "snd s" p])
          (use f Exited Ck_done p d in \<open>simp_all add: ngx_http_parse_chunked_def del: cd_run.simps\<close>)
    next
      case Ck_invalid
      show ?thesis
        by (rule invalid)
          (use f Exited Ck_invalid in \<open>simp_all add: ngx_http_parse_chunked_def del: cd_run.simps\<close>)
    qed
  qed
qed

end
