(* ===== verification/Http_Chunked_Feed.thy ===== *)
theory Http_Chunked_Feed
  imports Http_Chunked_Sim
begin

text \<open>
  The body filter against the abstract decoder: the loop on a buffer, the reading of a body in portions, the number of
  bytes to the end of a body, and the decoding of bodies in the chunked coding.
\<close>

section \<open>One buffer\<close>

declare cd_run.simps [simp del]

definition filter_result ::
  "cd_end \<Rightarrow> u_char list \<Rightarrow> ngx_buf \<Rightarrow> body_rc \<Rightarrow> ngx_http_request_body \<Rightarrow> ngx_buf \<Rightarrow> out_buf list \<Rightarrow> bool" where
  "filter_result e dat b rc rb' b' bufs \<longleftrightarrow>
    (case e of
       Cd_more s t \<Rightarrow>
         rc = Body_passed \<and> ck_ok s \<and> ck_enter (rb_chunked rb') = s \<and> rb_content_length_n rb' = t \<and>
         rb_rest rb' = ck_rest (fst s) (snd s) \<and> concat (map fst bufs) = dat \<and> True \<notin> snd ` set bufs
     | Cd_done t left \<Rightarrow>
         rc = Body_passed \<and> rb_content_length_n rb' = t \<and> rb_rest rb' = 0 \<and> concat (map fst bufs) = dat \<and>
         (\<exists>bs. bufs = bs @ [([], True)] \<and> True \<notin> snd ` set bs) \<and>
         b_pos b' \<le> length (b_data b) \<and> drop (b_pos b') (b_data b) = left
     | Cd_invalid \<Rightarrow> rc = Body_bad_request
     | Cd_too_large \<Rightarrow> rc = Body_too_large)"

lemma filter_result_Cons:
  assumes "filter_result e dat b' rc rb' b'' bufs" "b_data b' = b_data b"
  shows "filter_result e (xs @ dat) b rc rb' b'' ((xs, False) # bufs)"
  using assms unfolding filter_result_def
  by (cases e) (auto intro: exI [of _ "(xs, False) # bs" for bs])

lemma chunked_loop_sim:
  assumes "ck_ok (ck_enter (rb_chunked rb))" "b_pos b \<le> length (b_data b)" "length (b_data b) - b_pos b < fuel"
    "cd_run mx (ck_enter (rb_chunked rb)) (rb_content_length_n rb) (drop (b_pos b) (b_data b)) = (e, dat)"
  shows "\<exists>rc rb' b' bufs. chunked_loop fuel mx rb b out = Some (rc, rb', b', out @ bufs) \<and>
    filter_result e dat b rc rb' b' bufs"
  using assms
proof (induction fuel arbitrary: rb b out e dat)
  case (Suc fuel)
  from Suc.prems(1,2) show ?case
  proof (cases rule: parse_chunked_cases)
    case (again s)
    then show ?thesis using Suc.prems(4) ck_norm_ok [OF again(2)]
      by (auto simp: filter_result_def ck_enter_norm)
  next
    case (finished n p)
    then show ?thesis using Suc.prems(4)
      by (auto simp: filter_result_def)
  next
    case (invalid ctx' b')
    then show ?thesis using Suc.prems(4)
      by (auto simp: filter_result_def)
  next
    case (data n p)
    let ?tot = "rb_content_length_n rb"
    let ?ctx = "rb_chunked rb\<lparr>ck_state := ck_sw_chunk_data, ck_size := n, ck_length := ck_rest ck_sw_chunk_data n\<rparr>"
    have n: "0 < n" "n \<le> NGX_MAX_OFF_T_VALUE - 5" "n \<le> NGX_MAX_OFF_T_VALUE div 16"
      using data(2) by (simp_all add: ck_ok_def)
    have ne: "drop p (b_data b) = b_data b ! p # drop (Suc p) (b_data b)"
      using data(4) by (simp add: Cons_nth_drop_Suc)
    show ?thesis
    proof (cases "over_limit mx ?tot n")
      case True
      then have "e = Cd_too_large"
        using Suc.prems(4) data(5) [of mx ?tot] ne by (simp add: cd_run.simps)
      then show ?thesis
        using data(1) True by (auto simp: filter_result_def over_limit_def)
    next
      case False
      note r = cd_run_data [OF n(1) False, of "drop p (b_data b)"]
      define size where "size = int (length (b_data b) - p)"
      show ?thesis
      proof (cases "n < size")
        case True
        define rb1 where "rb1 = rb\<lparr>rb_content_length_n := ?tot + n, rb_chunked := ?ctx\<lparr>ck_size := 0\<rparr>\<rparr>"
        define b1 where "b1 = b\<lparr>b_pos := p + nat n\<rparr>"
        have e1: "ck_enter (rb_chunked rb1) = (ck_sw_after_data, 0)" by (simp add: rb1_def ck_enter_def)
        obtain e' dat' where run: "cd_run mx (ck_sw_after_data, 0) (?tot + n) (drop (p + nat n) (b_data b)) = (e', dat')"
          by fastforce
        then have ev: "e = e'" "dat = take (nat n) (drop p (b_data b)) @ dat'"
          using Suc.prems(4) data(5) [of mx ?tot] r True by (simp_all add: size_def add.commute)
        have pos: "p + nat n \<le> length (b_data b)" "length (b_data b) - (p + nat n) < fuel"
          using True n(1) data(3,4) Suc.prems(3) unfolding size_def by linarith+
        have ok: "ck_ok (ck_sw_after_data, 0)" by (simp add: ck_ok_def NGX_MAX_OFF_T_VALUE_def)
        obtain rc rb' b' bufs where IH: "chunked_loop fuel mx rb1 b1 (out @ [(slice (b_data b) p (p + nat n), False)]) =
            Some (rc, rb', b', (out @ [(slice (b_data b) p (p + nat n), False)]) @ bufs)"
          "filter_result e' dat' b1 rc rb' b' bufs"
          using Suc.IH [of rb1 b1 e' dat' "out @ [(slice (b_data b) p (p + nat n), False)]"] run e1 pos ok
          by (auto simp: b1_def rb1_def)
        have "chunked_loop (Suc fuel) mx rb b out = Some (rc, rb', b', out @ (slice (b_data b) p (p + nat n), False) # bufs)"
          using data(1) False True IH(1) by (simp add: over_limit_def rb1_def b1_def size_def Let_def)
        moreover have "slice (b_data b) p (p + nat n) = take (nat n) (drop p (b_data b))" by (simp add: slice_def)
        ultimately show ?thesis
          using filter_result_Cons [OF IH(2), of b "take (nat n) (drop p (b_data b))"] ev by (auto simp: b1_def)
      next
        case False': False
        define rb1 where "rb1 = rb\<lparr>rb_content_length_n := ?tot + size, rb_chunked := ?ctx\<lparr>ck_size := n - size\<rparr>\<rparr>"
        define b1 where "b1 = b\<lparr>b_pos := length (b_data b)\<rparr>"
        have e1: "ck_enter (rb_chunked rb1) = ck_norm (ck_sw_chunk_data, n - size)" by (simp add: rb1_def ck_enter_norm)
        have ok: "ck_ok (ck_norm (ck_sw_chunk_data, n - size))"
          using False' n by (auto simp: ck_norm_def ck_ok_def NGX_MAX_OFF_T_VALUE_def size_def)
        have ev: "e = Cd_more (ck_norm (ck_sw_chunk_data, n - size)) (?tot + size)" "dat = drop p (b_data b)"
          using Suc.prems(4) data(5) [of mx ?tot] r False' data(4) by (simp_all add: size_def of_nat_diff)
        have run: "cd_run mx (ck_enter (rb_chunked rb1)) (rb_content_length_n rb1) (drop (b_pos b1) (b_data b1)) = (e, [])"
          using e1 ev by (simp add: cd_run.simps b1_def rb1_def)
        have "0 < fuel" using Suc.prems(3) data(3,4) by linarith
        then obtain rc rb' b' bufs where IH: "chunked_loop fuel mx rb1 b1 (out @ [(drop p (b_data b), False)]) =
            Some (rc, rb', b', (out @ [(drop p (b_data b), False)]) @ bufs)"
          "filter_result e [] b1 rc rb' b' bufs"
          using Suc.IH [of rb1 b1 e "[]" "out @ [(drop p (b_data b), False)]"] run e1 ok
          by (auto simp: b1_def)
        have "slice (b_data b) p (length (b_data b)) = drop p (b_data b)" by (simp add: slice_def)
        then have "chunked_loop (Suc fuel) mx rb b out = Some (rc, rb', b', out @ (drop p (b_data b), False) # bufs)"
          using data(1) False False' IH(1) by (simp add: over_limit_def rb1_def b1_def size_def Let_def)
        then show ?thesis
          using filter_result_Cons [OF IH(2), of b "drop p (b_data b)"] ev by (auto simp: b1_def)
      qed
    qed
  qed
qed simp

section \<open>The distance to the end of the body\<close>

fun cd_rest :: "ck_state \<Rightarrow> int \<Rightarrow> int" where
  "cd_rest ck_sw_chunk_start n = 3"
| "cd_rest ck_sw_chunk_size n = (if n \<noteq> 0 then n + 5 else 2)"
| "cd_rest ck_sw_chunk_extension n = n + 5"
| "cd_rest ck_sw_chunk_extension_almost_done n = n + 5"
| "cd_rest ck_sw_chunk_data n = n + 4"
| "cd_rest ck_sw_after_data n = 4"
| "cd_rest ck_sw_after_data_almost_done n = 4"
| "cd_rest ck_sw_last_chunk_extension n = 2"
| "cd_rest ck_sw_last_chunk_extension_almost_done n = 2"
| "cd_rest ck_sw_trailer n = 1"
| "cd_rest ck_sw_trailer_almost_done n = 1"
| "cd_rest ck_sw_trailer_header n = 2"
| "cd_rest ck_sw_trailer_header_almost_done n = 2"

lemma ck_rest_exact: "ck_ok s \<Longrightarrow> ck_rest (fst s) (snd s) = cd_rest (fst s) (snd s)"
  by (cases s; cases "fst s") (auto simp: ck_ok_def c_int64_off)

lemma cd_rest_pos: "ck_ok s \<Longrightarrow> 0 < cd_rest (fst s) (snd s)"
  by (cases s; cases "fst s") (auto simp: ck_ok_def)

text \<open>One framing byte brings the end at most one byte nearer.\<close>

lemma ck_step_rest:
  assumes "ck_ok s" "fst s \<noteq> ck_sw_chunk_data" "ck_step 0 ch s = Next s'"
  shows "cd_rest (fst s) (snd s) \<le> cd_rest (fst s') (snd s') + 1"
proof -
  obtain st n where s: "s = (st, n)" by (cases s) auto
  have n: "0 \<le> n" using assms(1) by (simp add: ck_ok_def s)
  show ?thesis
  proof (cases "st = ck_sw_chunk_size")
    case True
    then have e: "ck_chunk_size ch n = Next s'" using assms(3) s by simp
    show ?thesis
    proof (cases "ck_digit ch")
      case (Some d)
      have d: "0 \<le> d" "d < 16" using Some ck_digit_range by auto
      have "n * 16 + d \<le> NGX_MAX_OFF_T_VALUE" "0 \<le> n * 16 + d"
        using d n ck_chunk_size_Next(1) [OF e] by (simp_all add: NGX_MAX_OFF_T_VALUE_def)
      then show ?thesis
        using ck_chunk_size_Next(2) [OF e Some] c_int64_off [of "n * 16 + d"] True s n d by auto
    next
      case None
      then show ?thesis using e True s n by (auto simp: ck_chunk_size_def split: if_splits)
    qed
  next
    case False
    then show ?thesis
      using assms s n ck_digit_range [of ch]
      by (cases st) (auto simp: ck_chunk_start_def ck_skip_def ck_lf_def split: if_splits option.splits)
  qed
qed

lemma ck_step_done_rest:
  "ck_step 0 ch s = Exit Ck_done s' \<Longrightarrow> cd_rest (fst s) (snd s) = 1"
  by (cases s; cases "fst s") (auto simp: ck_chunk_start_def ck_chunk_size_def ck_skip_def ck_lf_def
      split: if_splits option.splits)

lemma ck_norm_data: "ck_ok (ck_sw_chunk_data, n) \<Longrightarrow> ck_ok (ck_norm (ck_sw_chunk_data, n - 1)) \<and>
    cd_rest ck_sw_chunk_data n \<le> cd_rest (fst (ck_norm (ck_sw_chunk_data, n - 1))) (snd (ck_norm (ck_sw_chunk_data, n - 1))) + 1"
  by (auto simp: ck_norm_def ck_ok_def)

lemma cd_run_done_rest:
  "ck_ok s \<Longrightarrow> cd_run mx s tot cs = (Cd_done t left, dat) \<Longrightarrow>
   cd_rest (fst s) (snd s) + int (length left) \<le> int (length cs)"
proof (induction cs arbitrary: s tot dat)
  case Nil
  then show ?case by (simp add: cd_run.simps)
next
  case (Cons ch cs)
  obtain st n where s: "s = (st, n)" by (cases s) auto
  show ?case
  proof (cases "st = ck_sw_chunk_data")
    case True
    then obtain dat' where "cd_run mx (ck_norm (ck_sw_chunk_data, n - 1)) (tot + 1) cs = (Cd_done t left, dat')"
      using Cons.prems(2) s by (auto simp: cd_run.simps apsnd_def map_prod_def split: if_splits prod.splits)
    then show ?thesis
      using Cons.IH [of "ck_norm (ck_sw_chunk_data, n - 1)"] ck_norm_data [of n] Cons.prems(1) s True by force
  next
    case False
    show ?thesis
    proof (cases "ck_step 0 ch s")
      case (Next s')
      then have r: "\<not> NGX_MAX_OFF_T_VALUE - 5 < snd s'" "cd_run mx s' tot cs = (Cd_done t left, dat)"
        using Cons.prems(2) False s by (auto simp: cd_run.simps split: if_splits)
      then have "ck_ok s'" using ck_step_ok [OF Cons.prems(1) _ Next] False s by auto
      then show ?thesis
        using Cons.IH [OF _ r(2)] ck_step_rest [OF Cons.prems(1) _ Next] False s by force
    next
      case (Exit x s')
      then show ?thesis
        using Cons.prems(2) False s ck_step_done_rest [of ch s s'] by (auto simp: cd_run.simps split: if_splits)
    qed
  qed
qed

lemma hex_zero: "is_hex c_0" "hex_digit c_0 = 0"
  by (simp_all add: is_hex_def hex_digit_def is_digit_def)

lemma not_hex_delims: "\<not> is_hex LF" "\<not> is_hex CR"
  by (simp_all add: is_hex_def ch_defs)

lemmas framing_simps = cd_run.simps ck_chunk_start_def ck_chunk_size_def ck_skip_def ck_lf_def ck_digit_hex
  hex_zero not_hex_delims

lemma limits: "0 < NGX_MAX_OFF_T_VALUE" "0 \<le> NGX_MAX_OFF_T_VALUE div 16" "\<not> NGX_MAX_OFF_T_VALUE - 5 < 0"
  by (simp_all add: NGX_MAX_OFF_T_VALUE_def)

lemma ck_ok_small: "ck_ok s \<Longrightarrow> \<not> NGX_MAX_OFF_T_VALUE - 5 < snd s"
  by (simp add: ck_ok_def)

lemma close_trailer: "\<not> NGX_MAX_OFF_T_VALUE - 5 < n \<Longrightarrow> cd_run mx (ck_sw_trailer, n) tot [LF] = (Cd_done tot [], [])"
  by (simp add: framing_simps)

lemma close_last:
  assumes "\<not> NGX_MAX_OFF_T_VALUE - 5 < n" "st \<in> {ck_sw_last_chunk_extension, ck_sw_last_chunk_extension_almost_done,
      ck_sw_trailer_header, ck_sw_trailer_header_almost_done}"
  shows "cd_run mx (st, n) tot [LF, LF] = (Cd_done tot [], [])"
  using assms by (auto simp: framing_simps)

lemma close_start: "cd_run mx (ck_sw_chunk_start, n) tot [c_0, LF, LF] = (Cd_done tot [], [])"
  using limits by (simp add: framing_simps)

lemma close_after:
  assumes "\<not> NGX_MAX_OFF_T_VALUE - 5 < n" "st \<in> {ck_sw_after_data, ck_sw_after_data_almost_done}"
  shows "cd_run mx (st, n) tot [LF, c_0, LF, LF] = (Cd_done tot [], [])"
  using assms close_start [of mx n tot] by (auto simp: framing_simps)

definition closing :: "int \<Rightarrow> u_char list" where
  "closing n = replicate (nat n) NUL @ [LF, c_0, LF, LF]"

lemma closing_length: "0 \<le> n \<Longrightarrow> int (length (closing n)) = n + 4"
  by (simp add: closing_def)

lemma close_data:
  assumes "0 < n" "\<not> over_limit mx tot n"
  shows "cd_run mx (ck_sw_chunk_data, n) tot (closing n) = (Cd_done (tot + n) [], replicate (nat n) NUL)"
proof -
  have "int (length (closing n)) = n + 4" using closing_length assms(1) by simp
  then show ?thesis
    using close_after [of 0 ck_sw_after_data mx "tot + n"] limits(3) assms(1)
    by (simp add: cd_run_data [OF assms] closing_def)
qed

text \<open>A body can always be completed in the number of bytes the parser asks for.\<close>

lemma cd_complete:
  assumes "ck_ok s" "\<not> over_limit mx tot (snd s)"
    "fst s = ck_sw_chunk_size \<longrightarrow> snd s \<le> NGX_MAX_OFF_T_VALUE div 16"
  shows "\<exists>cs t dat. int (length cs) = cd_rest (fst s) (snd s) \<and> cd_run mx s tot cs = (Cd_done t [], dat)"
proof -
  obtain st n where s: "s = (st, n)" by (cases s) auto
  have n: "0 \<le> n" "\<not> NGX_MAX_OFF_T_VALUE - 5 < n" using assms(1) by (simp_all add: ck_ok_def s)
  have d: "cd_run mx (st', n) tot (LF # closing n) = (Cd_done (tot + n) [], replicate (nat n) NUL)"
    if "0 < n" "ck_step 0 LF (st', n) = Next (ck_sw_chunk_data, n)" "st' \<noteq> ck_sw_chunk_data" for st'
    using that n close_data [OF that(1)] assms(2) s by (simp add: cd_run.simps)
  show ?thesis
  proof (cases st)
    case ck_sw_chunk_size
    show ?thesis
    proof (cases "n = 0")
      case True
      have "cd_run mx s tot [LF, LF] = (Cd_done tot [], [])" using s ck_sw_chunk_size True limits by (simp add: framing_simps)
      then show ?thesis using s ck_sw_chunk_size True by (intro exI [of _ "[LF, LF]"]) auto
    next
      case False
      then have "cd_run mx s tot (LF # closing n) = (Cd_done (tot + n) [], replicate (nat n) NUL)"
        using d [of st] n s ck_sw_chunk_size assms(3) by (simp add: framing_simps)
      then show ?thesis using s ck_sw_chunk_size False n closing_length by (intro exI [of _ "LF # closing n"]) auto
    qed
  next
    case ck_sw_chunk_extension
    then have "0 < n" using assms(1) s by (simp add: ck_ok_def)
    then show ?thesis
      using d [of st] s ck_sw_chunk_extension n closing_length
      by (intro exI [of _ "LF # closing n"]) (auto simp: ck_skip_def)
  next
    case ck_sw_chunk_extension_almost_done
    then have "0 < n" using assms(1) s by (simp add: ck_ok_def)
    then show ?thesis
      using d [of st] s ck_sw_chunk_extension_almost_done n closing_length
      by (intro exI [of _ "LF # closing n"]) (auto simp: ck_lf_def)
  next
    case ck_sw_chunk_data
    then have "0 < n" using assms(1) s by (simp add: ck_ok_def)
    then show ?thesis
      using close_data [of n mx tot] assms(2) s ck_sw_chunk_data n closing_length by (intro exI [of _ "closing n"]) auto
  next
    case ck_sw_chunk_start
    then show ?thesis using s close_start [of mx n tot] by (intro exI [of _ "[c_0, LF, LF]"]) auto
  next
    case ck_sw_after_data
    then show ?thesis using s n close_after [of n st mx tot] by (intro exI [of _ "[LF, c_0, LF, LF]"]) auto
  next
    case ck_sw_after_data_almost_done
    then show ?thesis using s n close_after [of n st mx tot] by (intro exI [of _ "[LF, c_0, LF, LF]"]) auto
  next
    case ck_sw_trailer
    then show ?thesis using s n close_trailer [of n mx tot] by (intro exI [of _ "[LF]"]) auto
  next
    case ck_sw_trailer_almost_done
    then show ?thesis using s n by (intro exI [of _ "[LF]"]) (auto simp: framing_simps)
  next
    case ck_sw_last_chunk_extension
    then show ?thesis using s n close_last [of n st mx tot] by (intro exI [of _ "[LF, LF]"]) auto
  next
    case ck_sw_last_chunk_extension_almost_done
    then show ?thesis using s n close_last [of n st mx tot] by (intro exI [of _ "[LF, LF]"]) auto
  next
    case ck_sw_trailer_header
    then show ?thesis using s n close_last [of n st mx tot] by (intro exI [of _ "[LF, LF]"]) auto
  next
    case ck_sw_trailer_header_almost_done
    then show ?thesis using s n close_last [of n st mx tot] by (intro exI [of _ "[LF, LF]"]) auto
  qed
qed

section \<open>Reading a body in portions\<close>

definition rb_ok :: "ngx_http_request_body \<Rightarrow> bool" where
  "rb_ok rb \<longleftrightarrow>
     ck_ok (ck_enter (rb_chunked rb)) \<and>
     rb_rest rb = ck_rest (fst (ck_enter (rb_chunked rb))) (snd (ck_enter (rb_chunked rb)))"

lemma rb_ok_rest: "rb_ok rb \<Longrightarrow> 0 < rb_rest rb"
  using cd_rest_pos ck_rest_exact by (simp add: rb_ok_def)

text \<open>The state before the first call, and the state that the first call starts from.\<close>

definition body_new :: ngx_http_request_body where
  "body_new = \<lparr>rb_rest = -1, rb_chunked = chunked_new, rb_content_length_n = 0\<rparr>"

definition body_start :: ngx_http_request_body where
  "body_start = \<lparr>rb_rest = 3, rb_chunked = chunked_new, rb_content_length_n = 0\<rparr>"

lemma body_start_ok: "rb_ok body_start" "ck_enter (rb_chunked body_start) = (ck_sw_chunk_start, 0)"
  by (simp_all add: rb_ok_def body_start_def chunked_new_def ck_enter_def ck_ok_def NGX_MAX_OFF_T_VALUE_def)

lemma body_feed_new: "body_feed mx body_new (p # ps) out = body_feed mx body_start (p # ps) out"
  by (simp add: ngx_http_request_body_chunked_filter_def body_new_def body_start_def)

lemma parse_chunked_data: "ngx_http_parse_chunked b ctx = (rc, ctx', b') \<Longrightarrow> b_data b' = b_data b"
  by (auto simp: ngx_http_parse_chunked_def ck_finish_def Let_def split: scanned.splits ck_exit.splits if_splits)

lemma chunked_loop_data: "chunked_loop fuel mx rb b out = Some (rc, rb', b', out') \<Longrightarrow> b_data b' = b_data b"
proof (induction fuel arbitrary: rb b out)
  case (Suc fuel)
  obtain rc1 ctx1 b1 where p: "ngx_http_parse_chunked b (rb_chunked rb) = (rc1, ctx1, b1)" by (metis prod_cases3)
  then have d: "b_data b1 = b_data b" by (rule parse_chunked_data)
  show ?case using Suc.prems d by (auto simp: p Let_def dest!: Suc.IH split: if_splits)
qed simp

lemma filter_single:
  assumes "rb_ok rb"
    "cd_run mx (ck_enter (rb_chunked rb)) (rb_content_length_n rb) p = (e, dat)"
  shows "\<exists>rc rb' b' bufs. ngx_http_request_body_chunked_filter mx rb [\<lparr>b_data = p, b_pos = 0\<rparr>] =
      Some (rc, rb', [b'], bufs) \<and> filter_result e dat \<lparr>b_data = p, b_pos = 0\<rparr> rc rb' b' bufs \<and> b_data b' = p"
proof -
  have "rb_rest rb \<noteq> -1" using rb_ok_rest [OF assms(1)] by simp
  moreover obtain rc rb' b' bufs where r: "chunked_loop (Suc (length p)) mx rb \<lparr>b_data = p, b_pos = 0\<rparr> [] = Some (rc, rb', b', bufs)"
    "filter_result e dat \<lparr>b_data = p, b_pos = 0\<rparr> rc rb' b' bufs"
    using chunked_loop_sim [of rb "\<lparr>b_data = p, b_pos = 0\<rparr>" "Suc (length p)" mx e dat "[]"] assms by (auto simp: rb_ok_def)
  moreover have "b_data b' = p" using chunked_loop_data r(1) by fastforce
  ultimately show ?thesis by (auto simp: ngx_http_request_body_chunked_filter_def simp del: chunked_loop.simps)
qed

definition feed_result :: "cd_end \<Rightarrow> u_char list \<Rightarrow> body_rc \<Rightarrow> ngx_http_request_body \<Rightarrow> out_buf list \<Rightarrow> u_char list \<Rightarrow> bool" where
  "feed_result e dat rc rb' bufs unread \<longleftrightarrow>
    (case e of
       Cd_more s t \<Rightarrow>
         rc = Body_passed \<and> rb_ok rb' \<and> ck_enter (rb_chunked rb') = s \<and> rb_content_length_n rb' = t \<and>
         concat (map fst bufs) = dat \<and> True \<notin> snd ` set bufs \<and> unread = []
     | Cd_done t left \<Rightarrow>
         rc = Body_passed \<and> rb_content_length_n rb' = t \<and> rb_rest rb' = 0 \<and> concat (map fst bufs) = dat \<and>
         (\<exists>bs. bufs = bs @ [([], True)] \<and> True \<notin> snd ` set bs) \<and> unread = left
     | Cd_invalid \<Rightarrow> rc = Body_bad_request
     | Cd_too_large \<Rightarrow> rc = Body_too_large)"

lemma feed_result_append:
  assumes "feed_result e dat rc rb' bufs unread" "concat (map fst bs) = d" "True \<notin> snd ` set bs"
  shows "feed_result e (d @ dat) rc rb' (bs @ bufs) unread"
  using assms unfolding feed_result_def by (cases e) (auto intro: exI [of _ "bs @ bs'" for bs'])

lemma feed_sim:
  assumes "rb_ok rb" "cd_run mx (ck_enter (rb_chunked rb)) (rb_content_length_n rb) (concat ps) = (e, dat)"
  shows "\<exists>rc rb' bufs unread. body_feed mx rb ps out = Some (rc, rb', out @ bufs, unread) \<and>
    feed_result e dat rc rb' bufs unread"
  using assms
proof (induction ps arbitrary: rb out e dat)
  case Nil
  then show ?case by (auto simp: feed_result_def cd_run.simps)
next
  case (Cons p ps)
  obtain e1 d1 where r1: "cd_run mx (ck_enter (rb_chunked rb)) (rb_content_length_n rb) p = (e1, d1)" by fastforce
  obtain rc rb' b' bufs where f: "ngx_http_request_body_chunked_filter mx rb [\<lparr>b_data = p, b_pos = 0\<rparr>] =
      Some (rc, rb', [b'], bufs)" "filter_result e1 d1 \<lparr>b_data = p, b_pos = 0\<rparr> rc rb' b' bufs" "b_data b' = p"
    using filter_single [OF Cons.prems(1) r1] by blast
  show ?case
  proof (cases e1)
    case (Cd_more s t)
    then have ok: "rb_ok rb'" "ck_enter (rb_chunked rb') = s" "rb_content_length_n rb' = t" "rc = Body_passed"
      "concat (map fst bufs) = d1" "True \<notin> snd ` set bufs"
      using f(2) by (auto simp: filter_result_def rb_ok_def)
    obtain e2 d2 where r2: "cd_run mx s t (concat ps) = (e2, d2)" by fastforce
    then have ev: "e = e2" "dat = d1 @ d2"
      using Cons.prems(2) r1 Cd_more by (simp_all add: cd_run_append)
    obtain rc' rb'' bufs' unread where IH: "body_feed mx rb' ps (out @ bufs) = Some (rc', rb'', (out @ bufs) @ bufs', unread)"
      "feed_result e2 d2 rc' rb'' bufs' unread"
      using Cons.IH [of rb' e2 d2 "out @ bufs"] ok r2 by auto
    have "rb_rest rb' \<noteq> 0" using rb_ok_rest [OF ok(1)] by simp
    then show ?thesis
      using f(1) ok(4) IH(1) feed_result_append [OF IH(2) ok(5,6)] ev by auto
  next
    case (Cd_done t left)
    then have "e = Cd_done t (left @ concat ps)" "dat = d1" using Cons.prems(2) r1 by (simp_all add: cd_run_append)
    then show ?thesis using f Cd_done by (auto simp: filter_result_def feed_result_def)
  next
    case Cd_invalid
    then have "e = Cd_invalid" using Cons.prems(2) r1 by (simp add: cd_run_append)
    then show ?thesis using f Cd_invalid by (auto simp: filter_result_def feed_result_def)
  next
    case Cd_too_large
    then have "e = Cd_too_large" using Cons.prems(2) r1 by (simp add: cd_run_append)
    then show ?thesis using f Cd_too_large by (auto simp: filter_result_def feed_result_def)
  qed
qed

section \<open>Encoded bodies\<close>

text \<open>The chunked coding: each chunk with its length in hexadecimal, as \<open>%xO\<close> prints it, and the last chunk.\<close>

definition chunk_encode :: "u_char list \<Rightarrow> u_char list" where
  "chunk_encode c = hex_loop hex (length c) [] @ [CR, LF] @ c @ [CR, LF]"

definition chunked_encode :: "u_char list list \<Rightarrow> u_char list" where
  "chunked_encode cs = concat (map chunk_encode cs) @ [c_0, CR, LF, CR, LF]"

lemma cd_run_digits:
  assumes "0 \<le> n" "list_all is_hex ds" "hex_from n ds \<le> NGX_MAX_OFF_T_VALUE div 16"
  shows "cd_run mx (ck_sw_chunk_size, n) tot (ds @ cs) = cd_run mx (ck_sw_chunk_size, hex_from n ds) tot cs"
  using assms
proof (induction ds arbitrary: n)
  case (Cons d ds)
  have d: "0 \<le> hex_digit d" "hex_digit d \<le> 15" using hex_digit_range [of d] Cons.prems by simp_all
  let ?n = "n * 16 + hex_digit d"
  have "?n \<le> hex_from ?n ds" using hex_from_mono [of ?n ds] d Cons.prems by simp
  then have n: "?n \<le> NGX_MAX_OFF_T_VALUE div 16" "0 \<le> ?n" "n \<le> NGX_MAX_OFF_T_VALUE div 16" using Cons.prems d by auto
  then have "c_int64 ?n = ?n" "\<not> NGX_MAX_OFF_T_VALUE - 5 < ?n" using off_t_room(2) limits by (simp_all add: c_int64_off)
  then show ?case
    using Cons.IH [of ?n] Cons.prems n by (simp add: framing_simps del: cd_run.simps) (simp add: cd_run.simps ck_chunk_size_def ck_digit_hex)
qed simp

lemma cd_run_start_digits:
  assumes "ds \<noteq> []" "list_all is_hex ds" "hex_from 0 ds \<le> NGX_MAX_OFF_T_VALUE div 16"
  shows "cd_run mx (ck_sw_chunk_start, k) tot (ds @ cs) = cd_run mx (ck_sw_chunk_size, hex_from 0 ds) tot cs"
proof -
  obtain d ds' where ds: "ds = d # ds'" using assms(1) by (cases ds) auto
  have d: "0 \<le> hex_digit d" "hex_digit d \<le> 15" using hex_digit_range [of d] assms ds by simp_all
  moreover have "\<not> NGX_MAX_OFF_T_VALUE - 5 < hex_digit d" using d off_t_room(1) by linarith
  ultimately show ?thesis
    using assms ds cd_run_digits [of "hex_digit d" ds' mx tot cs] by (simp add: cd_run.simps ck_chunk_start_def ck_digit_hex)
qed

lemma cd_run_chunk:
  assumes "c \<noteq> []" "int (length c) \<le> NGX_MAX_OFF_T_VALUE div 16" "\<not> over_limit mx tot (int (length c))"
  shows "cd_run mx (ck_sw_chunk_start, k) tot (chunk_encode c @ cs) =
    apsnd ((@) c) (cd_run mx (ck_sw_chunk_start, 0) (tot + int (length c)) cs)"
proof -
  let ?n = "int (length c)"
  have n: "0 < ?n" "\<not> NGX_MAX_OFF_T_VALUE - 5 < ?n" "?n \<noteq> 0" using assms off_t_room(2) by auto
  have h: "hex_loop hex (length c) [] \<noteq> []" "list_all is_hex (hex_loop hex (length c) [])"
    "hex_from 0 (hex_loop hex (length c) []) = ?n"
    using hex_loop_spec [of hex "length c"] by simp_all
  have "cd_run mx (ck_sw_chunk_start, k) tot (chunk_encode c @ cs) =
      cd_run mx (ck_sw_chunk_size, ?n) tot (CR # LF # c @ CR # LF # cs)"
    using cd_run_start_digits [OF h(1,2)] h(3) assms(2) by (simp add: chunk_encode_def)
  also have "\<dots> = cd_run mx (ck_sw_chunk_data, ?n) tot (c @ CR # LF # cs)"
    using n assms(1,2) by (simp add: cd_run.simps ck_chunk_size_def ck_lf_def ck_digit_hex not_hex_delims)
  also have "\<dots> = apsnd ((@) c) (cd_run mx (ck_sw_after_data, 0) (tot + ?n) (CR # LF # cs))"
    using cd_run_data [OF n(1) assms(3), of "c @ CR # LF # cs"] by simp
  also have "cd_run mx (ck_sw_after_data, 0) (tot + ?n) (CR # LF # cs) = cd_run mx (ck_sw_chunk_start, 0) (tot + ?n) cs"
    using limits(3) by (simp add: cd_run.simps ck_skip_def ck_lf_def)
  finally show ?thesis .
qed

lemma cd_run_last: "cd_run mx (ck_sw_chunk_start, k) tot (c_0 # CR # LF # CR # LF # cs) = (Cd_done tot cs, [])"
  using limits by (simp add: framing_simps)

lemma apsnd_append_append: "apsnd ((@) a) (apsnd ((@) b) x) = apsnd ((@) (a @ b)) x"
  by (cases x) simp

lemma cd_run_encoded:
  assumes "list_all (\<lambda>c. c \<noteq> [] \<and> int (length c) \<le> NGX_MAX_OFF_T_VALUE div 16) cs"
    "mx = 0 \<or> tot + int (length (concat cs)) \<le> mx"
  shows "cd_run mx (ck_sw_chunk_start, k) tot (chunked_encode cs @ rest) =
    (Cd_done (tot + int (length (concat cs))) rest, concat cs)"
  using assms
proof (induction cs arbitrary: tot k)
  case Nil
  then show ?case by (simp add: chunked_encode_def cd_run_last)
next
  case (Cons c cs)
  have "\<not> over_limit mx tot (int (length c))" using Cons.prems(2) by (auto simp: over_limit_def)
  then have "cd_run mx (ck_sw_chunk_start, k) tot (chunk_encode c @ chunked_encode cs @ rest) =
      apsnd ((@) c) (cd_run mx (ck_sw_chunk_start, 0) (tot + int (length c)) (chunked_encode cs @ rest))"
    using Cons.prems(1) by (intro cd_run_chunk) simp_all
  then show ?case
    using Cons.IH [of "tot + int (length c)" 0] Cons.prems by (auto simp: chunked_encode_def algebra_simps)
qed

section \<open>The size of the output\<close>

lemma cd_run_total:
  assumes "ck_ok s" "cd_run mx s tot cs = (e, dat)" "mx \<noteq> 0 \<longrightarrow> tot \<le> mx"
  shows "case e of
      Cd_more s' t \<Rightarrow> t = tot + int (length dat) \<and> (mx \<noteq> 0 \<longrightarrow> t \<le> mx)
    | Cd_done t left \<Rightarrow> t = tot + int (length dat) \<and> (mx \<noteq> 0 \<longrightarrow> t \<le> mx)
    | _ \<Rightarrow> True"
  using assms
proof (induction cs arbitrary: s tot dat)
  case Nil
  then show ?case by (auto simp: cd_run.simps)
next
  case (Cons ch cs)
  obtain st n where s: "s = (st, n)" by (cases s) auto
  show ?case
  proof (cases "st = ck_sw_chunk_data")
    case True
    show ?thesis
    proof (cases "over_limit mx tot n")
      case over: False
      have ok: "ck_ok (ck_norm (ck_sw_chunk_data, n - 1))" using ck_norm_data Cons.prems(1) s True by blast
      obtain dat' where d: "cd_run mx (ck_norm (ck_sw_chunk_data, n - 1)) (tot + 1) cs = (e, dat')" "dat = ch # dat'"
        using Cons.prems(2) s True over by (cases "cd_run mx (ck_norm (ck_sw_chunk_data, n - 1)) (tot + 1) cs") (auto simp: cd_run.simps)
      have "mx \<noteq> 0 \<longrightarrow> tot + 1 \<le> mx" using over Cons.prems(1) s True by (auto simp: over_limit_def ck_ok_def)
      then show ?thesis using Cons.IH [OF ok d(1)] d(2) by (auto split: cd_end.splits)
    qed (use Cons.prems s True in \<open>auto simp: cd_run.simps\<close>)
  next
    case False
    show ?thesis
    proof (cases "ck_step 0 ch s")
      case (Next s')
      then show ?thesis
        using Cons.IH [of s' tot dat] Cons.prems False s ck_step_ok [OF Cons.prems(1) _ Next]
        by (auto simp: cd_run.simps split: if_splits)
    next
      case (Exit x s')
      then show ?thesis using Cons.prems False s by (auto simp: cd_run.simps split: if_splits)
    qed
  qed
qed

end
