(* ===== verification/Http_Chunked_Props.thy ===== *)
theory Http_Chunked_Props
  imports Http_Chunked_Feed
begin

text \<open>
  The properties of chunked bodies: independence of the portions, round trip, and the exactness of \<open>rb->rest\<close>, on which
  the reader relies to stop at the end of the body.
\<close>

section \<open>Properties\<close>

text \<open>What a caller sees of a read body: complete, with the decoded bytes and the bytes that are left; incomplete, with
  \<open>rb->rest\<close> and the bytes decoded so far; or refused.\<close>

datatype body_seen =
    Complete "u_char list" "u_char list"
  | Incomplete int "u_char list"
  | Refused body_rc

fun body_view :: "body_rc \<times> ngx_http_request_body \<times> out_buf list \<times> u_char list \<Rightarrow> body_seen" where
  "body_view (rc, rb, out, unread) =
    (if rc \<noteq> Body_passed then Refused rc
     else if rb_rest rb = 0 then Complete (concat (map fst out)) unread
     else Incomplete (rb_rest rb) (concat (map fst out)))"

fun cd_view :: "cd_end \<times> u_char list \<Rightarrow> body_seen" where
  "cd_view (Cd_more s t, dat) = Incomplete (cd_rest (fst s) (snd s)) dat"
| "cd_view (Cd_done t left, dat) = Complete dat left"
| "cd_view (Cd_invalid, dat) = Refused Body_bad_request"
| "cd_view (Cd_too_large, dat) = Refused Body_too_large"

lemma feed_result_view: "feed_result e dat rc rb' bufs unread \<Longrightarrow> body_view (rc, rb', bufs, unread) = cd_view (e, dat)"
  using rb_ok_rest [of rb'] ck_rest_exact [of "ck_enter (rb_chunked rb')"]
  by (cases e) (auto simp: feed_result_def rb_ok_def)

lemma feed_view:
  assumes "rb_ok rb"
  shows "map_option body_view (body_feed mx rb ps []) =
    Some (cd_view (cd_run mx (ck_enter (rb_chunked rb)) (rb_content_length_n rb) (concat ps)))"
proof -
  obtain e dat where r: "cd_run mx (ck_enter (rb_chunked rb)) (rb_content_length_n rb) (concat ps) = (e, dat)" by fastforce
  show ?thesis using feed_sim [OF assms r, of "[]"] feed_result_view r by fastforce
qed

lemma feed_view_new:
  "map_option body_view (body_feed mx body_new (p # ps) []) = Some (cd_view (cd_run mx (ck_sw_chunk_start, 0) 0 (concat (p # ps))))"
  using feed_view [OF body_start_ok(1), of mx "p # ps"] body_start_ok(2)
  by (simp only: body_feed_new) (simp add: body_start_def)

lemma feed_passed_ok:
  assumes "body_feed mx body_new (p # ps) [] = Some (Body_passed, rb, out, unread)"
  shows "(rb_rest rb \<noteq> 0 \<longrightarrow> rb_ok rb \<and>
      cd_run mx (ck_sw_chunk_start, 0) 0 (concat (p # ps)) =
        (Cd_more (ck_enter (rb_chunked rb)) (rb_content_length_n rb), concat (map fst out))) \<and>
    (rb_rest rb = 0 \<longrightarrow> cd_run mx (ck_sw_chunk_start, 0) 0 (concat (p # ps)) =
        (Cd_done (rb_content_length_n rb) unread, concat (map fst out)))"
proof -
  obtain e dat where r: "cd_run mx (ck_sw_chunk_start, 0) 0 (concat (p # ps)) = (e, dat)" by fastforce
  obtain rc rb' bufs unread' where f: "body_feed mx body_start (p # ps) [] = Some (rc, rb', [] @ bufs, unread')"
    "feed_result e dat rc rb' bufs unread'"
    using feed_sim [OF body_start_ok(1), of mx "p # ps" e dat "[]"] r body_start_ok(2) by (auto simp: body_start_def)
  then have "feed_result e dat Body_passed rb out unread"
    using assms by (simp only: body_feed_new) simp
  then show ?thesis
    using r rb_ok_rest [of rb] by (cases e) (auto simp: feed_result_def)
qed

text \<open>A body of which the first byte, the digit of a chunk size, has been read.\<close>

definition demo_body :: ngx_http_request_body where
  "demo_body =
    \<lparr>rb_rest = 8, rb_chunked = \<lparr>ck_state = ck_sw_chunk_size, ck_size = 3, ck_length = 8\<rparr>, rb_content_length_n = 0\<rparr>"

lemma demo_body_feed:
  "body_feed mx body_new [bytes ''3''] [] = Some (Body_passed, demo_body, [], [])"
  "map_option body_view (body_feed 0 demo_body [[LF] @ bytes ''abc'', [LF, c_0, LF, LF] @ bytes ''G''] []) =
     Some (Complete (bytes ''abc'') (bytes ''G''))"
proof -
  have d: "is_hex 0x33" "hex_digit 0x33 = 3" by (simp_all add: is_hex_def hex_digit_def is_digit_def)
  show "body_feed mx body_new [bytes ''3''] [] = Some (Body_passed, demo_body, [], [])"
    by (simp add: ngx_http_request_body_chunked_filter_def body_new_def chunked_new_def bytes_def
        ngx_http_parse_chunked_def ck_enter_def ck_chunk_start_def ck_digit_hex d ck_finish_def c_int64_off
        NGX_MAX_OFF_T_VALUE_def demo_body_def Let_def)
  have "rb_ok demo_body"
    by (simp add: rb_ok_def demo_body_def ck_enter_def ck_ok_def c_int64_off NGX_MAX_OFF_T_VALUE_def)
  then show "map_option body_view (body_feed 0 demo_body [[LF] @ bytes ''abc'', [LF, c_0, LF, LF] @ bytes ''G''] []) =
     Some (Complete (bytes ''abc'') (bytes ''G''))"
    by (simp add: feed_view demo_body_def ck_enter_def bytes_def framing_simps over_limit_def ck_norm_def
        NGX_MAX_OFF_T_VALUE_def del: body_feed.simps)
qed

text \<open>C6. How a chunked body is cut into portions makes no difference: reading it in portions gives what reading it at once
  gives, the decoded bytes, the bytes left over and \<open>rb->rest\<close> included; and the reader always returns.\<close>

theorem chunked_portions:
  "map_option body_view (body_feed mx body_new (p # ps) []) = map_option body_view (body_feed mx body_new [concat (p # ps)] []) \<and>
   body_feed mx body_new (p # ps) [] \<noteq> None"
  using feed_view_new [of mx p ps] feed_view_new [of mx "concat (p # ps)" "[]"] by (auto simp del: body_feed.simps)

text \<open>C5. A body in the chunked coding is decoded to its bytes, however it is cut into portions, and what follows the body
  is left unread; provided that the chunks are not empty, that their sizes fit the parser and that the body is within
  \<open>client_max_body_size\<close> where that is set.\<close>

theorem chunked_roundtrip:
  assumes "list_all (\<lambda>c. c \<noteq> [] \<and> int (length c) \<le> NGX_MAX_OFF_T_VALUE div 16) cs"
    and "concat (p # ps) = chunked_encode cs @ next_request"
    and "mx = 0 \<or> int (length (concat cs)) \<le> mx"
  shows "map_option body_view (body_feed mx body_new (p # ps) []) = Some (Complete (concat cs) next_request)"
  using feed_view_new [of mx p ps] cd_run_encoded [OF assms(1), of mx 0 0 next_request] assms(2,3) by simp

theorem chunked_roundtrip_witness:
  "map_option body_view (body_feed 16 body_new [bytes ''3'', [CR, LF] @ bytes ''abc'' @ [CR, LF], bytes ''0'' @ [CR, LF, CR, LF] @ bytes ''GET''] []) =
     Some (Complete (bytes ''abc'') (bytes ''GET''))"
  using chunked_roundtrip [of "[bytes ''abc'']" "bytes ''3''" "[[CR, LF] @ bytes ''abc'' @ [CR, LF], bytes ''0'' @ [CR, LF, CR, LF] @ bytes ''GET'']"
      "bytes ''GET''" 16]
  by (simp add: bytes_def chunked_encode_def chunk_encode_def hex_loop.simps hex_def NGX_MAX_OFF_T_VALUE_def del: body_feed.simps)

text \<open>C7. The reader never takes bytes of the next request: after a part of a body, a continuation that ends the body has at
  least \<open>rb->rest\<close> bytes besides those left over, so that receiving at most \<open>rb->rest\<close> bytes leaves none over.\<close>

theorem chunked_never_overreads:
  assumes "body_feed mx body_new (p # ps) [] = Some (Body_passed, rb, out, unread)" "rb_rest rb \<noteq> 0"
    and "map_option body_view (body_feed mx rb qs []) = Some (Complete d left)"
  shows "rb_rest rb + int (length left) \<le> int (length (concat qs))"
proof -
  have ok: "rb_ok rb" using feed_passed_ok [OF assms(1)] assms(2) by blast
  have v: "cd_view (cd_run mx (ck_enter (rb_chunked rb)) (rb_content_length_n rb) (concat qs)) = Complete d left"
    using feed_view [OF ok, of mx qs] assms(3) by simp
  then obtain t where "cd_run mx (ck_enter (rb_chunked rb)) (rb_content_length_n rb) (concat qs) = (Cd_done t left, d)"
    by (cases "cd_run mx (ck_enter (rb_chunked rb)) (rb_content_length_n rb) (concat qs)" rule: cd_view.cases) auto
  then show ?thesis
    using cd_run_done_rest ok ck_rest_exact [of "ck_enter (rb_chunked rb)"] by (fastforce simp: rb_ok_def)
qed

theorem chunked_never_overreads_witness:
  "rb_rest demo_body + int (length (bytes ''G'')) \<le> int (length (concat [[LF] @ bytes ''abc'', [LF, c_0, LF, LF] @ bytes ''G'']))"
  by (rule chunked_never_overreads [OF demo_body_feed(1) _ demo_body_feed(2)]) (simp add: demo_body_def)

text \<open>C8. A body that has been accepted so far and is not complete can be completed, in exactly the number of bytes that the reader waits
  for, if the chunk that is being read stays within \<open>client_max_body_size\<close>, where that is set, and if no chunk size beyond a
  sixteenth of the greatest \<open>off_t\<close> is being read.\<close>

theorem chunked_can_complete:
  assumes "body_feed mx body_new (p # ps) [] = Some (Body_passed, rb, out, unread)" "rb_rest rb \<noteq> 0"
    and "ck_state (rb_chunked rb) = ck_sw_chunk_size \<longrightarrow> ck_size (rb_chunked rb) \<le> NGX_MAX_OFF_T_VALUE div 16"
    and "mx = 0 \<or> rb_content_length_n rb + ck_size (rb_chunked rb) \<le> mx"
  shows "\<exists>q d. int (length q) = rb_rest rb \<and> map_option body_view (body_feed mx rb [q] []) = Some (Complete d [])"
proof -
  have ok: "rb_ok rb" using feed_passed_ok [OF assms(1)] assms(2) by blast
  let ?s = "ck_enter (rb_chunked rb)"
  have "fst ?s = ck_sw_chunk_size \<longrightarrow> snd ?s \<le> NGX_MAX_OFF_T_VALUE div 16" "\<not> over_limit mx (rb_content_length_n rb) (snd ?s)"
    using assms(3,4) by (auto simp: ck_enter_def over_limit_def)
  then obtain q t d where q: "int (length q) = cd_rest (fst ?s) (snd ?s)" "cd_run mx ?s (rb_content_length_n rb) q = (Cd_done t [], d)"
    using cd_complete [of ?s mx "rb_content_length_n rb"] ok by (auto simp: rb_ok_def)
  show ?thesis
    using feed_view [OF ok, of mx "[q]"] q ck_rest_exact [of ?s] ok
    by (intro exI [of _ q] exI [of _ d]) (simp add: rb_ok_def del: body_feed.simps)
qed

theorem chunked_can_complete_witness:
  "\<exists>q d. int (length q) = rb_rest demo_body \<and> map_option body_view (body_feed 4 demo_body [q] []) = Some (Complete d [])"
  using demo_body_feed(1) by (rule chunked_can_complete) (simp_all add: demo_body_def NGX_MAX_OFF_T_VALUE_def)

text \<open>C9. \<open>client_max_body_size\<close> holds at every moment: with a limit that is positive, the bytes passed on never exceed it,
  and \<open>headers_in.content_length_n\<close> is their number.\<close>

theorem chunked_within_limit:
  assumes "body_feed mx body_new (p # ps) [] = Some (Body_passed, rb, out, unread)" "0 \<le> mx"
  shows "rb_content_length_n rb = int (length (concat (map fst out))) \<and>
    (mx \<noteq> 0 \<longrightarrow> int (length (concat (map fst out))) \<le> mx)"
proof -
  have s: "ck_ok (ck_sw_chunk_start, 0)" by (simp add: ck_ok_def NGX_MAX_OFF_T_VALUE_def)
  obtain e where "cd_run mx (ck_sw_chunk_start, 0) 0 (concat (p # ps)) = (e, concat (map fst out))"
    "\<exists>x. e = Cd_more x (rb_content_length_n rb) \<or> e = Cd_done (rb_content_length_n rb) unread"
    using feed_passed_ok [OF assms(1)] by (cases "rb_rest rb = 0") auto
  then show ?thesis using cd_run_total [OF s, of mx 0] assms(2) by fastforce
qed

text \<open>Two chunks of two bytes each, with a limit of five bytes: four bytes are passed on.\<close>

theorem chunked_within_limit_witness:
  "\<exists>rb out. body_feed 5 body_new [chunked_encode [bytes ''ab'', bytes ''cd'']] [] = Some (Body_passed, rb, out, []) \<and>
    concat (map fst out) = bytes ''abcd'' \<and> rb_content_length_n rb = 4 \<and> int (length (concat (map fst out))) \<le> 5"
proof -
  have "map_option body_view (body_feed 5 body_new [chunked_encode [bytes ''ab'', bytes ''cd'']] []) = Some (Complete (bytes ''abcd'') [])"
    using feed_view_new [of 5 "chunked_encode [bytes ''ab'', bytes ''cd'']" "[]"]
      cd_run_encoded [of "[bytes ''ab'', bytes ''cd'']" 5 0 0 "[]"]
    by (simp add: bytes_def NGX_MAX_OFF_T_VALUE_def del: body_feed.simps)
  then obtain rb out where r: "body_feed 5 body_new [chunked_encode [bytes ''ab'', bytes ''cd'']] [] = Some (Body_passed, rb, out, [])"
    "concat (map fst out) = bytes ''abcd''"
    by (auto simp del: body_feed.simps split: if_splits)
  then show ?thesis using chunked_within_limit [OF r(1)] by (auto simp: bytes_def simp del: body_feed.simps)
qed

end
