(* ===== verification/Http_Unsafe_Uri.thy ===== *)
theory Http_Unsafe_Uri
  imports Http_Request_Line Ngx_Escape Ngx_Strcmp_Props
begin

unbundle bit_operations_syntax

text \<open>
  URIs that do not come from a request line, and the arguments of a URI, from \<open>src/http/ngx_http_parse.c\<close>:
  \<open>ngx_http_parse_uri\<close>, \<open>ngx_http_parse_unsafe_uri\<close>, \<open>ngx_http_arg\<close> and \<open>ngx_http_split_args\<close>. The first is shown to
  set the flags that the request line parser sets, the second and the third to decide and return exactly what a
  specification on the list of segments, or of arguments, says.
\<close>

section \<open>A URI that has been read already\<close>

text \<open>\<open>ngx_http_parse_uri\<close> looks at the bytes from \<open>r->uri_start\<close> to \<open>r->uri_end\<close> and sets the flags of \<open>r\<close>.
  The only way out of the loop is \<open>NGX_ERROR\<close>.\<close>

datatype pu_state = pu_sw_start | pu_sw_after_slash_in_uri | pu_sw_check_uri | pu_sw_uri

type_synonym pu_flow = "(pu_state \<times> ngx_http_request, unit) flow"

definition pu_start :: "u_char \<Rightarrow> ngx_http_request \<Rightarrow> pu_flow" where
  "pu_start ch r = (if ch \<noteq> c_slash then Exit () (pu_sw_start, r) else Next (pu_sw_after_slash_in_uri, r))"

definition pu_after_slash_in_uri :: "nat \<Rightarrow> u_char \<Rightarrow> ngx_http_request \<Rightarrow> pu_flow" where
  "pu_after_slash_in_uri p ch r =
    (if charmap_bit usual ch then Next (pu_sw_check_uri, r)
     else if ch = SP then Next (pu_sw_check_uri, r\<lparr>space_in_uri := True\<rparr>)
     else if ch = c_dot then Next (pu_sw_uri, r\<lparr>complex_uri := True\<rparr>)
     else if ch = c_percent then Next (pu_sw_uri, r\<lparr>quoted_uri := True\<rparr>)
     else if ch = c_slash then Next (pu_sw_uri, r\<lparr>complex_uri := True\<rparr>)
     else if ch = c_quest then Next (pu_sw_uri, r\<lparr>args_start := Some (p + 1)\<rparr>)
     else if ch = c_hash then Next (pu_sw_uri, r\<lparr>complex_uri := True\<rparr>)
     else if ch = c_plus then Next (pu_sw_after_slash_in_uri, r\<lparr>plus_in_uri := True\<rparr>)
     else Next (pu_sw_check_uri, r))"

definition pu_check_uri :: "nat \<Rightarrow> u_char \<Rightarrow> ngx_http_request \<Rightarrow> pu_flow" where
  "pu_check_uri p ch r =
    (if charmap_bit usual ch then Next (pu_sw_check_uri, r)
     else if ch = c_slash then Next (pu_sw_after_slash_in_uri, r\<lparr>uri_ext := None\<rparr>)
     else if ch = c_dot then Next (pu_sw_check_uri, r\<lparr>uri_ext := Some (p + 1)\<rparr>)
     else if ch = SP then Next (pu_sw_check_uri, r\<lparr>space_in_uri := True\<rparr>)
     else if ch = c_percent then Next (pu_sw_uri, r\<lparr>quoted_uri := True\<rparr>)
     else if ch = c_quest then Next (pu_sw_uri, r\<lparr>args_start := Some (p + 1)\<rparr>)
     else if ch = c_hash then Next (pu_sw_uri, r\<lparr>complex_uri := True\<rparr>)
     else if ch = c_plus then Next (pu_sw_check_uri, r\<lparr>plus_in_uri := True\<rparr>)
     else Next (pu_sw_check_uri, r))"

definition pu_uri :: "u_char \<Rightarrow> ngx_http_request \<Rightarrow> pu_flow" where
  "pu_uri ch r =
    (if charmap_bit usual ch then Next (pu_sw_uri, r)
     else if ch = SP then Next (pu_sw_uri, r\<lparr>space_in_uri := True\<rparr>)
     else if ch = c_hash then Next (pu_sw_uri, r\<lparr>complex_uri := True\<rparr>)
     else Next (pu_sw_uri, r))"

fun pu_step :: "nat \<Rightarrow> u_char \<Rightarrow> pu_state \<times> ngx_http_request \<Rightarrow> pu_flow" where
  "pu_step p ch (pu_sw_start, r) = pu_start ch r"
| "pu_step p ch (pu_sw_after_slash_in_uri, r) = pu_after_slash_in_uri p ch r"
| "pu_step p ch (pu_sw_check_uri, r) = pu_check_uri p ch r"
| "pu_step p ch (pu_sw_uri, r) = pu_uri ch r"

definition ngx_http_parse_uri :: "u_char list \<Rightarrow> ngx_http_request \<Rightarrow> ngx_rc \<times> ngx_http_request" where
  "ngx_http_parse_uri buf r =
    (case scan pu_step (slice buf (off (uri_start r)) (off (uri_end r))) (off (uri_start r)) (pu_sw_start, r) of
       Ran_out p (st, r') \<Rightarrow> (NGX_OK, r')
     | Exited x p (st, r') \<Rightarrow> (NGX_ERROR, r'))"

section \<open>URIs named by an upstream\<close>

text \<open>\<open>ngx_http_parse_unsafe_uri\<close>. The URI is the list of its bytes, \<open>len\<close> the number of the bytes left;
  \<open>us_dot_dot\<close> is the test that the code makes at the start of the URI, \<open>us_separator\<close> the one it makes
  after a byte \<open>ch\<close>.\<close>

definition ngx_path_separator :: "u_char \<Rightarrow> bool" where
  "ngx_path_separator c \<longleftrightarrow> c = c_slash"

definition us_dot_dot :: "u_char list \<Rightarrow> bool" where
  "us_dot_dot p \<longleftrightarrow>
     1 < length p \<and> p ! 0 = c_dot \<and> p ! 1 = c_dot \<and> (length p = 2 \<or> ngx_path_separator (p ! 2))"

definition us_separator :: "u_char \<Rightarrow> u_char list \<Rightarrow> bool" where
  "us_separator ch p \<longleftrightarrow>
     (let len = Suc (length p) in
      ngx_path_separator ch \<and> 2 < len \<and>
      p ! 0 = c_dot \<and> p ! 1 = c_dot \<and> (len = 3 \<or> ngx_path_separator (p ! 2)))"

text \<open>How the first loop ends: at \<open>goto unsafe\<close>, or with the flag \<open>quoted\<close> and, if it met a question mark, with
  the value of \<open>len\<close> there.\<close>

datatype us_end = Us_unsafe | Us_scanned bool "nat option"

fun us_loop :: "u_char list \<Rightarrow> bool \<Rightarrow> us_end" where
  "us_loop [] quoted = Us_scanned quoted None"
| "us_loop (ch # p) quoted =
    (if ch = c_percent then us_loop p True
     else if charmap_bit usual ch then us_loop p quoted
     else if ch = c_quest then Us_scanned quoted (Some (Suc (length p)))
     else if ch = NUL then Us_unsafe
     else if us_separator ch p then Us_unsafe
     else us_loop p quoted)"

text \<open>The second loop, on the unescaped URI; it returns whether it ran to the end.\<close>

fun us_second_loop :: "u_char list \<Rightarrow> bool" where
  "us_second_loop [] = True"
| "us_second_loop (ch # p) =
    (if ch = NUL then False else if us_separator ch p then False else us_second_loop p)"

text \<open>\<open>pnalloc\<close> is whether the allocation of the copy succeeds. The result is the return code and the values of
  \<open>*uri\<close> and \<open>*args\<close> after the call.\<close>

definition ngx_http_parse_unsafe_uri ::
  "bool \<Rightarrow> u_char list \<Rightarrow> u_char list \<Rightarrow> ngx_rc \<times> u_char list \<times> u_char list" where
  "ngx_http_parse_unsafe_uri pnalloc u a =
    (if u = [] \<or> u ! 0 = c_quest then (NGX_ERROR, u, a)
     else if us_dot_dot u then (NGX_ERROR, u, a)
     else
       case us_loop u False of
         Us_unsafe \<Rightarrow> (NGX_ERROR, u, a)
       | Us_scanned quoted q \<Rightarrow>
         (let a' = (case q of None \<Rightarrow> a | Some len \<Rightarrow> drop (length u - len + 1) u);
              path = (case q of None \<Rightarrow> u | Some len \<Rightarrow> take (length u - len) u) in
          if \<not> quoted then (NGX_OK, path, a')
          else if \<not> pnalloc then (NGX_ERROR, path, a')
          else
            let path' = fst (ngx_unescape_uri path 0) in
            if us_dot_dot path' then (NGX_ERROR, path', a')
            else if us_second_loop path' then (NGX_OK, path', a')
            else (NGX_ERROR, path', a')))"

section \<open>Arguments\<close>

text \<open>\<open>ngx_http_arg\<close>: the loop from offset \<open>p\<close>. The name is \<open>c # s\<close>, so \<open>len\<close> is \<open>Suc (length s)\<close>. \<open>last - 1\<close> is passed
  as the end of the bytes that are searched. A value is the offsets of its first and of its end.\<close>

function (sequential) arg_loop :: "u_char list \<Rightarrow> u_char \<Rightarrow> u_char list \<Rightarrow> nat \<Rightarrow> (nat \<times> nat) option option" where
  "arg_loop a c s p =
    (if p < length a then
       (case ngx_strlcasestrn (drop p (butlast a)) c s (length s) of
          None \<Rightarrow> None
        | Some None \<Rightarrow> Some None
        | Some (Some i) \<Rightarrow>
          (let p' = p + i; len = Suc (length s) in
           if (p' = 0 \<or> a ! (p' - 1) = c_amp) \<and> a ! (p' + len) = c_eq
           then Some (Some (p' + len + 1,
                  (case ngx_strlchr (drop p' a) c_amp of None \<Rightarrow> length a | Some j \<Rightarrow> p' + j)))
           else arg_loop a c s (Suc p')))
     else Some None)"
  by pat_completeness auto
termination by (relation "measure (\<lambda>(a, c, s, p). length a - p)") auto

declare arg_loop.simps [simp del]

definition ngx_http_arg :: "u_char list \<Rightarrow> u_char \<Rightarrow> u_char list \<Rightarrow> (ngx_rc \<times> u_char list) option" where
  "ngx_http_arg a c s =
    (if a = [] then Some (NGX_DECLINED, [])
     else case arg_loop a c s 0 of
       None \<Rightarrow> None
     | Some None \<Rightarrow> Some (NGX_DECLINED, [])
     | Some (Some (v, e)) \<Rightarrow> Some (NGX_OK, slice a v e))"

definition ngx_http_split_args :: "u_char list \<Rightarrow> u_char list \<times> u_char list" where
  "ngx_http_split_args u =
    (case ngx_strlchr u c_quest of
       None \<Rightarrow> (u, [])
     | Some p \<Rightarrow> (take p u, drop (p + 1) u))"

section \<open>Agreement\<close>

fun pu_of_rl :: "rl_state \<Rightarrow> pu_state option" where
  "pu_of_rl rl_sw_after_slash_in_uri = Some pu_sw_after_slash_in_uri"
| "pu_of_rl rl_sw_check_uri = Some pu_sw_check_uri"
| "pu_of_rl rl_sw_uri = Some pu_sw_uri"
| "pu_of_rl _ = None"

lemma pu_of_rl_Some:
  "pu_of_rl st = Some st' \<longleftrightarrow>
     st = rl_sw_after_slash_in_uri \<and> st' = pu_sw_after_slash_in_uri \<or>
     st = rl_sw_check_uri \<and> st' = pu_sw_check_uri \<or> st = rl_sw_uri \<and> st' = pu_sw_uri"
  by (cases st) auto

lemma pu_step_agrees:
  assumes "pu_of_rl st = Some st'" "ch \<notin> {NUL, LF, CR, SP}"
  shows "\<exists>st2 st2' r'. rl_step buf p ch (st, r) = Next (st2, r') \<and> pu_step p ch (st', r) = Next (st2', r') \<and>
    pu_of_rl st2 = Some st2'"
  using assms unfolding pu_of_rl_Some
  by (auto simp: rl_after_slash_in_uri_def rl_check_uri_def rl_uri_def pu_after_slash_in_uri_def
      pu_check_uri_def pu_uri_def)

lemma pu_scan_agrees:
  assumes "pu_of_rl st = Some st'" "set xs \<inter> {NUL, LF, CR, SP} = {}"
  shows "\<exists>st2 st2' r'. scan (rl_step buf) xs p (st, r) = Ran_out (p + length xs) (st2, r') \<and>
    scan pu_step xs p (st', r) = Ran_out (p + length xs) (st2', r') \<and> pu_of_rl st2 = Some st2'"
  using assms
proof (induction xs arbitrary: p st st' r)
  case (Cons ch xs)
  obtain st2 st2' r' where s: "rl_step buf p ch (st, r) = Next (st2, r')" "pu_step p ch (st', r) = Next (st2', r')"
    "pu_of_rl st2 = Some st2'"
    using pu_step_agrees [OF Cons.prems(1), of ch buf p r] Cons.prems(2) by auto
  show ?case using Cons.IH [OF s(3), of "Suc p" r'] Cons.prems(2) s(1,2) by simp
qed simp

text \<open>\<open>ngx_http_parse_uri\<close> sets the fields that the request line parser sets for the same bytes, as long as none of them
  ends the URI there.\<close>

lemma parse_uri_agrees:
  assumes "slice buf (off (uri_start r)) (off (uri_end r)) = c_slash # xs" "set xs \<inter> {NUL, LF, CR, SP} = {}"
  shows "\<exists>st p. scan (rl_step buf) xs (Suc (off (uri_start r))) (rl_sw_after_slash_in_uri, r) =
      Ran_out p (st, snd (ngx_http_parse_uri buf r)) \<and> fst (ngx_http_parse_uri buf r) = NGX_OK"
  using pu_scan_agrees [of rl_sw_after_slash_in_uri pu_sw_after_slash_in_uri xs buf "Suc (off (uri_start r))" r] assms
  by (auto simp: ngx_http_parse_uri_def pu_start_def)

section \<open>Splitting at a separator\<close>

fun splits :: "'a \<Rightarrow> 'a list \<Rightarrow> 'a list list" where
  "splits sep [] = [[]]"
| "splits sep (c # p) = (if c = sep then [] # splits sep p else (c # hd (splits sep p)) # tl (splits sep p))"

lemma splits_not_Nil [simp]: "splits sep p \<noteq> []"
  by (cases p) auto

lemma splits_none: "sep \<notin> set x \<Longrightarrow> splits sep x = [x]"
  by (induction x) auto

lemma splits_append: "sep \<notin> set x \<Longrightarrow> splits sep (x @ sep # y) = x # splits sep y"
  by (induction x) auto

lemma splits_hd: "hd (splits sep p) = takeWhile (\<lambda>c. c \<noteq> sep) p"
  by (induction p) auto

lemma set_splits: "set (splits sep p) = insert (hd (splits sep p)) (set (tl (splits sep p)))"
  by (cases "splits sep p") auto

lemma tl_butlast_Cons [simp]: "tl (butlast (x # xs)) = butlast xs"
  by (cases xs) auto

section \<open>Unsafe URIs\<close>

definition dot_dot :: "u_char list" where
  "dot_dot = [c_dot, c_dot]"

definition path_of_uri :: "u_char list \<Rightarrow> u_char list" where
  "path_of_uri u = takeWhile (\<lambda>c. c \<noteq> c_quest) u"

lemma us_separator_eq: "us_separator ch p \<longleftrightarrow> ch = c_slash \<and> us_dot_dot p"
  by (auto simp: us_separator_def us_dot_dot_def ngx_path_separator_def Let_def)

lemma us_dot_dot_Cons:
  "us_dot_dot [] = False" "us_dot_dot [a] = False" "us_dot_dot [a, b] \<longleftrightarrow> a = c_dot \<and> b = c_dot"
  "us_dot_dot (a # b # c # p) \<longleftrightarrow> a = c_dot \<and> b = c_dot \<and> c = c_slash"
  by (auto simp: us_dot_dot_def ngx_path_separator_def)

lemma us_dot_dot_iff: "us_dot_dot p \<longleftrightarrow> hd (splits c_slash p) = dot_dot"
proof -
  consider "p = []" | a where "p = [a]" | a b where "p = [a, b]" | a b c q where "p = a # b # c # q"
    by (metis list.exhaust)
  then show ?thesis by cases (auto simp: us_dot_dot_Cons dot_dot_def)
qed

lemma us_second_loop_iff:
  "us_second_loop p \<longleftrightarrow> NUL \<notin> set p \<and> dot_dot \<notin> set (tl (splits c_slash p))"
  by (induction p) (auto simp: us_separator_eq us_dot_dot_iff set_splits [of c_slash])

text \<open>The segments that the first loop compares with \<open>..\<close>: the last one is left out if a question mark follows it.\<close>

definition checked_segments :: "u_char list \<Rightarrow> u_char list list" where
  "checked_segments u =
    (if c_quest \<in> set u then butlast (splits c_slash (path_of_uri u)) else splits c_slash u)"

lemma us_dot_dot_checked:
  "us_dot_dot u \<longleftrightarrow> checked_segments u \<noteq> [] \<and> hd (checked_segments u) = dot_dot"
proof -
  consider "u = []" | a where "u = [a]" | a b where "u = [a, b]" | a b c q where "u = a # b # c # q"
    by (metis list.exhaust)
  then show ?thesis
    by cases (auto simp: us_dot_dot_Cons checked_segments_def path_of_uri_def dot_dot_def)
qed

lemma checked_Cons:
  "checked_segments (c_slash # u) = [] # checked_segments u"
  "c \<notin> {c_slash, c_quest} \<Longrightarrow> tl (checked_segments (c # u)) = tl (checked_segments u)"
proof -
  show "checked_segments (c_slash # u) = [] # checked_segments u"
    by (auto simp: checked_segments_def path_of_uri_def)
  show "tl (checked_segments (c # u)) = tl (checked_segments u)" if "c \<notin> {c_slash, c_quest}"
    using that by (cases "splits c_slash (path_of_uri u)") (auto simp: checked_segments_def path_of_uri_def)
qed

lemma us_loop_eq:
  "us_loop u quoted =
    (if NUL \<in> set (path_of_uri u) \<or> dot_dot \<in> set (tl (checked_segments u)) then Us_unsafe
     else Us_scanned (quoted \<or> c_percent \<in> set (path_of_uri u))
       (if c_quest \<in> set u then Some (length u - length (path_of_uri u)) else None))"
proof (induction u arbitrary: quoted)
  case Nil
  then show ?case by (simp add: path_of_uri_def checked_segments_def)
next
  case (Cons c u)
  have len: "length (path_of_uri u) \<le> length u" by (simp add: path_of_uri_def length_takeWhile_le)
  consider "c = c_quest" | "c = c_slash" | "c \<notin> {c_quest, c_slash}" by blast
  then show ?case
  proof cases
    case 1
    then show ?thesis by (simp add: usual_iff path_of_uri_def checked_segments_def)
  next
    case 2
    have "dot_dot \<in> set (checked_segments u) \<longleftrightarrow> us_dot_dot u \<or> dot_dot \<in> set (tl (checked_segments u))"
      unfolding us_dot_dot_checked by (cases "checked_segments u") auto
    then show ?thesis using Cons.IH 2 len
      by (simp add: usual_iff us_separator_eq checked_Cons path_of_uri_def Suc_diff_le)
  next
    case 3
    then show ?thesis using Cons.IH len
      by (auto simp: usual_iff us_separator_eq checked_Cons path_of_uri_def Suc_diff_le)
  qed
qed

lemma path_take: "take (length (path_of_uri u)) u = path_of_uri u"
  by (simp add: path_of_uri_def takeWhile_eq_take [symmetric])

definition unsafe_path :: "u_char list \<Rightarrow> bool" where
  "unsafe_path p \<longleftrightarrow> NUL \<in> set p \<or> dot_dot \<in> set (splits c_slash p)"

text \<open>What the function decides and returns, in terms of the segments of the path.\<close>

definition unsafe_uri_spec :: "bool \<Rightarrow> u_char list \<Rightarrow> bool" where
  "unsafe_uri_spec pnalloc u \<longleftrightarrow>
     path_of_uri u \<noteq> [] \<and> NUL \<notin> set (path_of_uri u) \<and> dot_dot \<notin> set (checked_segments u) \<and>
     (c_percent \<in> set (path_of_uri u) \<longrightarrow> pnalloc \<and> \<not> unsafe_path (fst (ngx_unescape_uri (path_of_uri u) 0)))"

definition unsafe_uri_result :: "u_char list \<Rightarrow> u_char list \<Rightarrow> u_char list \<times> u_char list" where
  "unsafe_uri_result u a =
    (if c_percent \<in> set (path_of_uri u) then fst (ngx_unescape_uri (path_of_uri u) 0) else path_of_uri u,
     if c_quest \<in> set u then tl (dropWhile (\<lambda>c. c \<noteq> c_quest) u) else a)"

definition accepted :: "ngx_rc \<times> u_char list \<times> u_char list \<Rightarrow> (u_char list \<times> u_char list) option" where
  "accepted r = (case r of (rc, v) \<Rightarrow> if rc = NGX_OK then Some v else None)"

lemma first_quest: "(u = [] \<or> u ! 0 = c_quest) \<longleftrightarrow> path_of_uri u = []"
  by (cases u) (auto simp: path_of_uri_def)

lemma path_drop: "drop (Suc (length (path_of_uri u))) u = tl (dropWhile (\<lambda>c. c \<noteq> c_quest) u)"
  unfolding path_of_uri_def dropWhile_eq_drop by (simp add: tl_drop drop_Suc)

lemma no_quest_path: "c_quest \<notin> set u \<Longrightarrow> path_of_uri u = u"
  by (auto simp: path_of_uri_def takeWhile_eq_all_conv)

lemma dot_dot_checked: "dot_dot \<in> set (checked_segments u) \<longleftrightarrow> us_dot_dot u \<or> dot_dot \<in> set (tl (checked_segments u))"
  unfolding us_dot_dot_checked by (cases "checked_segments u") auto

lemma unsafe_path_iff: "unsafe_path p \<longleftrightarrow> us_dot_dot p \<or> \<not> us_second_loop p"
  unfolding unsafe_path_def us_second_loop_iff us_dot_dot_iff set_splits [of c_slash p] by auto

text \<open>C28. \<open>ngx_http_parse_unsafe_uri\<close> accepts a URI exactly if its path is not empty and has no NUL, no segment \<open>..\<close> that the
  first loop compares, and, if it holds an escape, no NUL and no segment \<open>..\<close> after unescaping; then it returns the
  unescaped path and the arguments behind the question mark.\<close>

theorem unsafe_uri_exact:
  "accepted (ngx_http_parse_unsafe_uri pnalloc u a) =
    (if unsafe_uri_spec pnalloc u then Some (unsafe_uri_result u a) else None)"
proof -
  let ?path = "path_of_uri u"
  have len: "length u - (length u - length ?path) = length ?path"
    by (simp add: path_of_uri_def length_takeWhile_le)
  show ?thesis
    unfolding accepted_def ngx_http_parse_unsafe_uri_def unsafe_uri_spec_def unsafe_uri_result_def
      first_quest us_loop_eq dot_dot_checked unsafe_path_iff
    by (auto simp: Let_def len path_take path_drop no_quest_path)
qed

text \<open>So an accepted URI without arguments, and one with an escape, is safe.\<close>

lemma unsafe_uri_result_safe:
  assumes "ngx_http_parse_unsafe_uri pnalloc u a = (NGX_OK, p, q)"
    and "c_quest \<notin> set u \<or> c_percent \<in> set (path_of_uri u)"
  shows "\<not> unsafe_path p"
proof -
  have "accepted (ngx_http_parse_unsafe_uri pnalloc u a) = Some (p, q)" using assms(1) by (simp add: accepted_def)
  then have spec: "unsafe_uri_spec pnalloc u" "unsafe_uri_result u a = (p, q)"
    unfolding unsafe_uri_exact by (auto split: if_splits)
  show ?thesis using spec assms(2)
    by (cases "c_percent \<in> set (path_of_uri u)")
      (auto simp: unsafe_uri_spec_def unsafe_uri_result_def checked_segments_def unsafe_path_def no_quest_path)
qed

text \<open>A last segment \<open>..\<close> before the question mark is not seen by the first loop: it compares the bytes behind the
  separator with the end of the URI, not with the question mark.\<close>

lemma unsafe_uri_dot_dot_before_query:
  "ngx_http_parse_unsafe_uri pnalloc (bytes ''/a/..?x'') [] = (NGX_OK, bytes ''/a/..'', bytes ''x'')"
  by (simp add: ngx_http_parse_unsafe_uri_def us_dot_dot_def us_separator_def ngx_path_separator_def bytes_def
      usual_iff)

section \<open>Reading arguments\<close>

text \<open>An argument of the query string is \<open>name=value\<close> between ampersands; the name is compared without regard to case.\<close>

definition arg_is :: "u_char list \<Rightarrow> u_char list \<Rightarrow> bool" where
  "arg_is name x \<longleftrightarrow> match_at name x 0 \<and> length name < length x \<and> x ! length name = c_eq"

definition arg_spec :: "u_char list \<Rightarrow> u_char list \<Rightarrow> ngx_rc \<times> u_char list" where
  "arg_spec name a =
    (case find (arg_is name) (splits c_amp a) of
       None \<Rightarrow> (NGX_DECLINED, [])
     | Some x \<Rightarrow> (NGX_OK, drop (Suc (length name)) x))"

text \<open>The offsets at which such an argument begins.\<close>

definition arg_at :: "u_char list \<Rightarrow> u_char list \<Rightarrow> nat \<Rightarrow> bool" where
  "arg_at name a q \<longleftrightarrow>
     (q = 0 \<or> a ! (q - 1) = c_amp) \<and> match_at name a q \<and> q + length name < length a \<and> a ! (q + length name) = c_eq"

definition arg_end :: "u_char list \<Rightarrow> nat \<Rightarrow> nat" where
  "arg_end a q = q + length (takeWhile (\<lambda>c. c \<noteq> c_amp) (drop q a))"

lemma strlchr_loop_eq:
  "strlchr_loop p c i = (if c \<in> set p then Some (i + length (takeWhile (\<lambda>x. x \<noteq> c) p)) else None)"
  by (induction p arbitrary: i) auto

lemma strlchr_end: "(case ngx_strlchr (drop q a) c_amp of None \<Rightarrow> length a | Some j \<Rightarrow> q + j) = arg_end a q" if "q \<le> length a"
proof -
  have all: "takeWhile (\<lambda>c. c \<noteq> c_amp) (drop q a) = drop q a" if "c_amp \<notin> set (drop q a)"
    using that by (auto simp: takeWhile_eq_all_conv)
  show ?thesis
  proof (cases "c_amp \<in> set (drop q a)")
    case False
    show ?thesis unfolding arg_end_def all [OF False] using that False by (simp add: ngx_strlchr_def strlchr_loop_eq)
  qed (simp add: ngx_strlchr_def strlchr_loop_eq arg_end_def)
qed

lemma match_at_butlast:
  "match_at name (butlast a) q \<longleftrightarrow> match_at name a q \<and> q + length name < length a" 
  if "a \<noteq> []"
proof -
  have "q + length name \<le> length (butlast a) \<longleftrightarrow> q + length name < length a"
    using that by (cases a) auto
  then show ?thesis by (auto simp: match_at_def butlast_conv_take drop_take min_def)
qed

lemma match_at_drop: "match_at name (drop p a) i \<longleftrightarrow> match_at name a (p + i)" if "p \<le> length a"
  using that by (auto simp: match_at_def add.commute)

lemma arg_loop_spec:
  assumes "NUL \<notin> set s" "\<forall>q < p. \<not> arg_at (c # s) a q"
  shows "(arg_loop a c s p = Some None \<and> (\<forall>q. \<not> arg_at (c # s) a q)) \<or>
    (\<exists>q. arg_loop a c s p = Some (Some (q + length (c # s) + 1, arg_end a q)) \<and> arg_at (c # s) a q \<and>
       (\<forall>q' < q. \<not> arg_at (c # s) a q'))"
  using assms
proof (induction a c s p rule: arg_loop.induct)
  case (1 a c s p)
  show ?case
  proof (cases "p < length a")
    case False
    then have "\<not> arg_at (c # s) a q" for q using 1(3) by (cases "q < p") (auto simp: arg_at_def)
    then show ?thesis using False by (simp add: arg_loop.simps)
  next
    case p: True
    then have ne: "a \<noteq> []" by auto
    obtain r where r: "ngx_strlcasestrn (drop p (butlast a)) c s (length s) = Some r"
      "case r of None \<Rightarrow> \<forall>j. \<not> match_at (c # s) (drop p (butlast a)) j
       | Some k \<Rightarrow> match_at (c # s) (drop p (butlast a)) k \<and> (\<forall>j < k. \<not> match_at (c # s) (drop p (butlast a)) j)"
      using strlcasestrn_loop_spec [OF 1(2) refl, of c "drop p (butlast a)" 0]
      by (force simp: ngx_strlcasestrn_def split: option.splits)
    have m: "match_at (c # s) (drop p (butlast a)) j \<longleftrightarrow> match_at (c # s) a (p + j) \<and> p + j + length (c # s) < length a" for j
      using p ne by (simp add: match_at_drop match_at_butlast)
    have below: "\<not> arg_at (c # s) a q" if "\<forall>j < k. \<not> match_at (c # s) (drop p (butlast a)) j" "q < p + k" for q k
    proof (cases "q < p")
      case False
      then show ?thesis using m [of "q - p"] that by (auto simp: arg_at_def)
    qed (use 1(3) in auto)
    show ?thesis
    proof (cases r)
      case None
      then have "\<not> arg_at (c # s) a q" for q using r(2) below [of "Suc q"] by auto
      then show ?thesis using None r(1) p by (simp add: arg_loop.simps)
    next
      case (Some i)
      have mi: "match_at (c # s) a (p + i)" "p + i + length (c # s) < length a" using r(2) Some m by auto
      have bel: "\<forall>q < p + i. \<not> arg_at (c # s) a q" using r(2) Some below by auto
      show ?thesis
      proof (cases "arg_at (c # s) a (p + i)")
        case True
        then have "arg_loop a c s p = Some (Some (p + i + length (c # s) + 1, arg_end a (p + i)))"
          using r(1) Some p mi strlchr_end [of "p + i" a] by (subst arg_loop.simps) (simp add: arg_at_def Let_def)
        then show ?thesis using True bel by blast
      next
        case False
        then have g: "\<not> ((p + i = 0 \<or> a ! (p + i - 1) = c_amp) \<and> a ! (p + i + Suc (length s)) = c_eq)"
          using mi by (auto simp: arg_at_def)
        then have "arg_loop a c s p = arg_loop a c s (Suc (p + i))"
          using r(1) Some p by (subst arg_loop.simps) (auto simp: Let_def)
        moreover have "\<forall>q < Suc (p + i). \<not> arg_at (c # s) a q" using bel False by (auto simp: less_Suc_eq)
        ultimately show ?thesis using 1(1) [OF p r(1) Some refl refl g 1(2)] by simp
      qed
    qed
  qed
qed


text \<open>The arguments by their offsets: the first one begins at 0, the others after an ampersand.\<close>

lemma tolower_amp_all: "\<forall>c. ngx_tolower c = c_amp \<longleftrightarrow> c = c_amp"
  unfolding byte_forall by (simp add: all_bytes_def ngx_tolower_def ch_defs word_le_nat_alt)

lemmas tolower_amp = tolower_amp_all [rule_format]

lemma arg_at_0_amp:
  assumes "c_amp \<notin> set name"
  shows "arg_at name (x @ c_amp # y) 0 \<longleftrightarrow> arg_is name x"
proof (cases "length name" "length x" rule: linorder_cases)
  case less
  then show ?thesis by (auto simp: arg_at_def arg_is_def match_at_def nth_append)
next
  case equal
  then show ?thesis by (auto simp: arg_at_def arg_is_def nth_append)
next
  case greater
  have "\<not> match_at name (x @ c_amp # y) 0"
  proof
    assume m: "match_at name (x @ c_amp # y) 0"
    then have "map ngx_tolower (take (length name) (x @ c_amp # y)) ! length x = map ngx_tolower name ! length x"
      by (simp add: match_at_def)
    then have "ngx_tolower (name ! length x) = c_amp"
      using m greater by (simp add: match_at_def nth_append ngx_tolower_def ch_defs)
    then show False using assms greater tolower_amp nth_mem [of "length x" name] by auto
  qed
  then show ?thesis using greater by (auto simp: arg_at_def arg_is_def)
qed

lemma arg_at_0:
  assumes "c_amp \<notin> set name" "a = x \<or> a = x @ c_amp # y" "c_amp \<notin> set x"
  shows "arg_at name a 0 \<longleftrightarrow> arg_is name x"
  using assms(2)
proof
  assume "a = x"
  then show ?thesis by (simp add: arg_at_def arg_is_def)
qed (simp add: arg_at_0_amp [OF assms(1)])

lemma arg_at_later:
  assumes "c_amp \<notin> set x"
  shows "arg_at name (x @ c_amp # y) (Suc (length x) + q) \<longleftrightarrow> arg_at name y q"
    "0 < q \<Longrightarrow> q \<le> length x \<Longrightarrow> \<not> arg_at name (x @ c_amp # y) q"
    "0 < q \<Longrightarrow> \<not> arg_at name x q"
proof -
  show "arg_at name (x @ c_amp # y) (Suc (length x) + q) \<longleftrightarrow> arg_at name y q"
    by (cases q) (auto simp: arg_at_def match_at_def nth_append)
  have nth: "x ! i \<noteq> c_amp" if "i < length x" for i using assms that nth_mem by metis
  show "\<not> arg_at name (x @ c_amp # y) q" if "0 < q" "q \<le> length x"
    using that nth [of "q - 1"] by (auto simp: arg_at_def nth_append)
  show "\<not> arg_at name x q" if "0 < q" using that nth [of "q - 1"] by (auto simp: arg_at_def)
qed

lemma arg_end_eq:
  assumes "c_amp \<notin> set x"
  shows "arg_end x 0 = length x" "arg_end (x @ c_amp # y) 0 = length x"
    "arg_end (x @ c_amp # y) (Suc (length x) + q) = Suc (length x) + arg_end y q"
proof -
  have "takeWhile (\<lambda>c. c \<noteq> c_amp) x = x" using assms by (auto simp: takeWhile_eq_all_conv)
  moreover have "takeWhile (\<lambda>c. c \<noteq> c_amp) (x @ c_amp # y) = x" using assms by (subst takeWhile_append2) auto
  ultimately show "arg_end x 0 = length x" "arg_end (x @ c_amp # y) 0 = length x" by (simp_all only: arg_end_def drop_0 add_0)
qed (simp add: arg_end_def)

lemma first_arg:
  assumes "c_amp \<notin> set name"
  shows "(case find (arg_is name) (splits c_amp a) of
     None \<Rightarrow> \<forall>q. \<not> arg_at name a q
   | Some v \<Rightarrow> \<exists>q. arg_at name a q \<and> (\<forall>q' < q. \<not> arg_at name a q') \<and>
       slice a (q + length name + 1) (arg_end a q) = drop (Suc (length name)) v)"
proof (induction "length a" arbitrary: a rule: less_induct)
  case less
  have zero: ?case if "arg_is name (hd (splits c_amp a))" "arg_at name a 0"
    "slice a (length name + 1) (arg_end a 0) = drop (Suc (length name)) (hd (splits c_amp a))"
    using that by (cases "splits c_amp a") auto
  show ?case
  proof (cases "c_amp \<in> set a")
    case False
    then have s: "splits c_amp a = [a]" by (rule splits_none)
    show ?thesis
    proof (cases "arg_is name a")
      case True
      then show ?thesis using zero s arg_at_0 [OF assms, of a a] arg_end_eq(1) [OF False] False
        by (auto simp: slice_def)
    next
      case no: False
      have "\<not> arg_at name a q" for q
        using no arg_at_0 [OF assms, of a a] arg_at_later(3) [OF False] False by (cases q) auto
      then show ?thesis using s no by simp
    qed
  next
    case True
    then obtain x y where a: "a = x @ c_amp # y" "c_amp \<notin> set x" by (meson split_list_first)
    then have s: "splits c_amp a = x # splits c_amp y" by (simp add: splits_append)
    show ?thesis
    proof (cases "arg_is name x")
      case True
      then show ?thesis using zero s arg_at_0 [OF assms _ a(2), of a y] arg_end_eq(2) [OF a(2), of y] a
        by (auto simp: slice_def)
    next
      case no: False
      then have z: "\<not> arg_at name a 0" using arg_at_0 [OF assms _ a(2), of a y] a by auto
      have iff: "arg_at name a q \<longleftrightarrow> length x < q \<and> arg_at name y (q - Suc (length x))" for q
        using z arg_at_later(1) [OF a(2), of name y "q - Suc (length x)"] arg_at_later(2) [OF a(2), of q name y] a(1)
        by (cases "q = 0"; cases "length x < q") auto
      have sl: "slice a (Suc (length x) + q + length name + 1) (arg_end a (Suc (length x) + q)) =
        slice y (q + length name + 1) (arg_end y q)" for q
        unfolding a(1) arg_end_eq(3) [OF a(2)] by (simp add: slice_def)
      have IH: "case find (arg_is name) (splits c_amp y) of
         None \<Rightarrow> \<forall>q. \<not> arg_at name y q
       | Some v \<Rightarrow> \<exists>q. arg_at name y q \<and> (\<forall>q' < q. \<not> arg_at name y q') \<and>
           slice y (q + length name + 1) (arg_end y q) = drop (Suc (length name)) v"
        using less [of y] a(1) by simp
      show ?thesis
      proof (cases "find (arg_is name) (splits c_amp y)")
        case None
        then show ?thesis using IH s no iff by simp
      next
        case (Some v)
        then obtain q where q: "arg_at name y q" "\<forall>q' < q. \<not> arg_at name y q'"
          "slice y (q + length name + 1) (arg_end y q) = drop (Suc (length name)) v" using IH by auto
        have "\<forall>q' < Suc (length x) + q. \<not> arg_at name a q'" using q(2) iff by auto
        then show ?thesis using Some s no q(1,3) iff [of "Suc (length x) + q"] sl [of q]
          by (auto intro!: exI [of _ "Suc (length x) + q"])
      qed
    qed
  qed
qed

text \<open>C29. \<open>ngx_http_arg\<close> returns the value of the first argument of the query string that has the given name, compared
  without regard to case, reads no byte outside the query string and always returns.\<close>

theorem http_arg_exact:
  assumes "NUL \<notin> set s" "c_amp \<notin> set (c # s)"
  shows "ngx_http_arg a c s = Some (arg_spec (c # s) a)"
proof -
  have f: "case find (arg_is (c # s)) (splits c_amp a) of
     None \<Rightarrow> \<forall>q. \<not> arg_at (c # s) a q
   | Some v \<Rightarrow> \<exists>q. arg_at (c # s) a q \<and> (\<forall>q' < q. \<not> arg_at (c # s) a q') \<and>
       slice a (q + length (c # s) + 1) (arg_end a q) = drop (Suc (length (c # s))) v"
    using first_arg [OF assms(2)] .
  have least: "q = q'" if "arg_at (c # s) a q" "\<forall>q'' < q. \<not> arg_at (c # s) a q''"
    "arg_at (c # s) a q'" "\<forall>q'' < q'. \<not> arg_at (c # s) a q''" for q q'
    using that by (meson linorder_neqE_nat)
  have empty: "\<not> arg_at (c # s) [] q" for q by (simp add: arg_at_def)
  have "\<forall>q < 0. \<not> arg_at (c # s) a q" by simp
  from arg_loop_spec [OF assms(1) this] show ?thesis
  proof (elim disjE conjE exE)
    assume "arg_loop a c s 0 = Some None" "\<forall>q. \<not> arg_at (c # s) a q"
    then show ?thesis using f by (auto simp: ngx_http_arg_def arg_spec_def split: option.splits)
  next
    fix q
    assume l: "arg_loop a c s 0 = Some (Some (q + length (c # s) + 1, arg_end a q))"
      and q: "arg_at (c # s) a q" "\<forall>q' < q. \<not> arg_at (c # s) a q'"
    obtain v where v: "find (arg_is (c # s)) (splits c_amp a) = Some v"
      "slice a (q + length (c # s) + 1) (arg_end a q) = drop (Suc (length (c # s))) v"
    proof (cases "find (arg_is (c # s)) (splits c_amp a)")
      case None
      then show ?thesis using f q(1) by simp
    next
      case (Some v)
      then obtain q' where q': "arg_at (c # s) a q'" "\<forall>q'' < q'. \<not> arg_at (c # s) a q''"
        "slice a (q' + length (c # s) + 1) (arg_end a q') = drop (Suc (length (c # s))) v" using f by auto
      then show ?thesis using least [OF q q'(1,2)] Some that by blast
    qed
    show ?thesis using l v q empty by (auto simp: ngx_http_arg_def arg_spec_def)
  qed
qed

theorem http_arg_exact_witness:
  "ngx_http_arg (bytes ''ab=1&B=%32'') 0x62 [] = Some (NGX_OK, bytes ''%32'')"
  using http_arg_exact [of "[]" "0x62" "bytes ''ab=1&B=%32''"]
  by (simp add: arg_spec_def bytes_def arg_is_def match_at_def ngx_tolower_def ch_defs)

lemma split_args_eq:
  "ngx_http_split_args u = (path_of_uri u, tl (dropWhile (\<lambda>c. c \<noteq> c_quest) u))"
proof (cases "c_quest \<in> set u")
  case True
  then show ?thesis using path_take path_drop
    by (simp add: ngx_http_split_args_def ngx_strlchr_def strlchr_loop_eq path_of_uri_def)
next
  case False
  then have none: "dropWhile (\<lambda>c. c \<noteq> c_quest) u = []" by auto
  show ?thesis unfolding none no_quest_path [OF False] using False
    by (simp add: ngx_http_split_args_def ngx_strlchr_def strlchr_loop_eq)
qed

end
