(* ===== verification/Http_Status_Line.thy ===== *)
theory Http_Status_Line
  imports Http_Request_Line_Inv
begin

unbundle bit_operations_syntax

text \<open>
  \<open>ngx_http_parse_status_line\<close> of \<open>src/http/ngx_http_parse.c\<close>: the status line of an upstream, one definition per case of
  the switch, its invariant, and the interpretation of \<open>resumable\<close>. The fields of \<open>r\<close> that the function shares with the
  request line parser are those of the record \<open>ngx_http_request\<close>.
\<close>

section \<open>The parser\<close>

text \<open>\<open>ngx_http_status_t\<close>; \<open>end\<close> is a keyword, so the field is \<open>s_end\<close>.\<close>

record ngx_http_status =
  s_http_version :: nat
  s_code :: nat
  s_count :: nat
  s_start :: ptr
  s_end :: ptr

datatype sl_state =
    sl_sw_start | sl_sw_H | sl_sw_HT | sl_sw_HTT | sl_sw_HTTP
  | sl_sw_first_major_digit | sl_sw_major_digit | sl_sw_first_minor_digit | sl_sw_minor_digit
  | sl_sw_status | sl_sw_space_after_status | sl_sw_status_text | sl_sw_almost_done

datatype sl_exit = Sl_done | Sl_error

type_synonym sl_local = "sl_state \<times> ngx_http_request \<times> ngx_http_status"
type_synonym sl_flow = "(sl_local, sl_exit) flow"

abbreviation (input) sl_error :: "sl_state \<Rightarrow> ngx_http_request \<Rightarrow> ngx_http_status \<Rightarrow> sl_flow" where
  "sl_error st r s \<equiv> Exit Sl_error (st, r, s)"

definition sl_letter :: "sl_state \<Rightarrow> u_char \<Rightarrow> sl_state \<Rightarrow> u_char \<Rightarrow> ngx_http_request \<Rightarrow> ngx_http_status \<Rightarrow> sl_flow" where
  "sl_letter st c st' ch r s = (if ch = c then Next (st', r, s) else sl_error st r s)"

definition sl_first_major_digit :: "u_char \<Rightarrow> ngx_http_request \<Rightarrow> ngx_http_status \<Rightarrow> sl_flow" where
  "sl_first_major_digit ch r s =
    (if ch < c_1 \<or> ch > c_9 then sl_error sl_sw_first_major_digit r s
     else Next (sl_sw_major_digit, r\<lparr>http_major := unat (ch - c_0)\<rparr>, s))"

definition sl_major_digit :: "u_char \<Rightarrow> ngx_http_request \<Rightarrow> ngx_http_status \<Rightarrow> sl_flow" where
  "sl_major_digit ch r s =
    (if ch = c_dot then Next (sl_sw_first_minor_digit, r, s)
     else if \<not> is_digit ch then sl_error sl_sw_major_digit r s
     else if http_major r > 99 then sl_error sl_sw_major_digit r s
     else Next (sl_sw_major_digit, r\<lparr>http_major := http_major r * 10 + unat (ch - c_0)\<rparr>, s))"

definition sl_first_minor_digit :: "u_char \<Rightarrow> ngx_http_request \<Rightarrow> ngx_http_status \<Rightarrow> sl_flow" where
  "sl_first_minor_digit ch r s =
    (if \<not> is_digit ch then sl_error sl_sw_first_minor_digit r s
     else Next (sl_sw_minor_digit, r\<lparr>http_minor := unat (ch - c_0)\<rparr>, s))"

definition sl_minor_digit :: "u_char \<Rightarrow> ngx_http_request \<Rightarrow> ngx_http_status \<Rightarrow> sl_flow" where
  "sl_minor_digit ch r s =
    (if ch = SP then Next (sl_sw_status, r, s)
     else if \<not> is_digit ch then sl_error sl_sw_minor_digit r s
     else if http_minor r > 99 then sl_error sl_sw_minor_digit r s
     else Next (sl_sw_minor_digit, r\<lparr>http_minor := http_minor r * 10 + unat (ch - c_0)\<rparr>, s))"

definition sl_status :: "nat \<Rightarrow> u_char \<Rightarrow> ngx_http_request \<Rightarrow> ngx_http_status \<Rightarrow> sl_flow" where
  "sl_status p ch r s =
    (if ch = SP then Next (sl_sw_status, r, s)
     else if \<not> is_digit ch then sl_error sl_sw_status r s
     else
       (let s = s\<lparr>s_code := s_code s * 10 + unat (ch - c_0)\<rparr>;
            s = s\<lparr>s_count := s_count s + 1\<rparr> in
        if s_count s = 3 then Next (sl_sw_space_after_status, r, s\<lparr>s_start := Some (p - 2)\<rparr>)
        else Next (sl_sw_status, r, s)))"

definition sl_space_after_status :: "u_char \<Rightarrow> ngx_http_request \<Rightarrow> ngx_http_status \<Rightarrow> sl_flow" where
  "sl_space_after_status ch r s =
    (if ch = SP then Next (sl_sw_status_text, r, s)
     else if ch = c_dot then Next (sl_sw_status_text, r, s)
     else if ch = CR then Next (sl_sw_almost_done, r, s)
     else if ch = LF then Exit Sl_done (sl_sw_space_after_status, r, s)
     else sl_error sl_sw_space_after_status r s)"

definition sl_status_text :: "u_char \<Rightarrow> ngx_http_request \<Rightarrow> ngx_http_status \<Rightarrow> sl_flow" where
  "sl_status_text ch r s =
    (if ch = CR then Next (sl_sw_almost_done, r, s)
     else if ch = LF then Exit Sl_done (sl_sw_status_text, r, s)
     else Next (sl_sw_status_text, r, s))"

definition sl_almost_done :: "nat \<Rightarrow> u_char \<Rightarrow> ngx_http_request \<Rightarrow> ngx_http_status \<Rightarrow> sl_flow" where
  "sl_almost_done p ch r s =
    (let s = s\<lparr>s_end := Some (p - 1)\<rparr> in
     if ch = LF then Exit Sl_done (sl_sw_almost_done, r, s) else sl_error sl_sw_almost_done r s)"

fun sl_step :: "u_char list \<Rightarrow> nat \<Rightarrow> u_char \<Rightarrow> sl_local \<Rightarrow> sl_flow" where
  "sl_step buf p ch (sl_sw_start, r, s) = sl_letter sl_sw_start c_H sl_sw_H ch r s"
| "sl_step buf p ch (sl_sw_H, r, s) = sl_letter sl_sw_H c_T sl_sw_HT ch r s"
| "sl_step buf p ch (sl_sw_HT, r, s) = sl_letter sl_sw_HT c_T sl_sw_HTT ch r s"
| "sl_step buf p ch (sl_sw_HTT, r, s) = sl_letter sl_sw_HTT c_P sl_sw_HTTP ch r s"
| "sl_step buf p ch (sl_sw_HTTP, r, s) = sl_letter sl_sw_HTTP c_slash sl_sw_first_major_digit ch r s"
| "sl_step buf p ch (sl_sw_first_major_digit, r, s) = sl_first_major_digit ch r s"
| "sl_step buf p ch (sl_sw_major_digit, r, s) = sl_major_digit ch r s"
| "sl_step buf p ch (sl_sw_first_minor_digit, r, s) = sl_first_minor_digit ch r s"
| "sl_step buf p ch (sl_sw_minor_digit, r, s) = sl_minor_digit ch r s"
| "sl_step buf p ch (sl_sw_status, r, s) = sl_status p ch r s"
| "sl_step buf p ch (sl_sw_space_after_status, r, s) = sl_space_after_status ch r s"
| "sl_step buf p ch (sl_sw_status_text, r, s) = sl_status_text ch r s"
| "sl_step buf p ch (sl_sw_almost_done, r, s) = sl_almost_done p ch r s"

text \<open>The code after the label \<open>done\<close>.\<close>

definition sl_finish :: "nat \<Rightarrow> ngx_http_request \<Rightarrow> ngx_http_status \<Rightarrow> ngx_http_status" where
  "sl_finish p r s =
    (let s = (if s_end s = None then s\<lparr>s_end := Some p\<rparr> else s) in
     s\<lparr>s_http_version := http_major r * 1000 + http_minor r\<rparr>)"

definition ngx_http_parse_status_line ::
  "sl_local \<Rightarrow> ngx_buf \<Rightarrow> ngx_rc \<times> sl_local \<times> ngx_buf" where
  "ngx_http_parse_status_line l b =
    (case scan (sl_step (b_data b)) (drop (b_pos b) (b_data b)) (b_pos b) l of
       Ran_out p l' \<Rightarrow> (NGX_AGAIN, l', b\<lparr>b_pos := p\<rparr>)
     | Exited Sl_done p (_, r', s') \<Rightarrow> (NGX_OK, (sl_sw_start, r', sl_finish p r' s'), b\<lparr>b_pos := p + 1\<rparr>)
     | Exited Sl_error p (_, r', s') \<Rightarrow> (NGX_ERROR, (fst l, r', s'), b))"

named_theorems sl_defs

declare sl_letter_def [sl_defs] sl_first_major_digit_def [sl_defs] sl_major_digit_def [sl_defs]
  sl_first_minor_digit_def [sl_defs] sl_minor_digit_def [sl_defs] sl_status_def [sl_defs]
  sl_space_after_status_def [sl_defs] sl_status_text_def [sl_defs] sl_almost_done_def [sl_defs]

section \<open>The invariant\<close>

definition no_eol :: "u_char list \<Rightarrow> nat \<Rightarrow> nat \<Rightarrow> bool" where
  "no_eol buf a b \<longleftrightarrow> (\<forall>i \<in> {a..<b}. buf ! i \<notin> {CR, LF})"

text \<open>\<open>status->start\<close> is three bytes before the text; the text up to \<open>e\<close> has no line end.\<close>

definition sl_text :: "u_char list \<Rightarrow> nat \<Rightarrow> ngx_http_status \<Rightarrow> bool" where
  "sl_text buf e s \<longleftrightarrow> s_count s = 3 \<and> s_code s \<le> 999 \<and> s_start s \<noteq> None \<and>
     off (s_start s) + 3 \<le> e \<and> no_eol buf (off (s_start s) + 3) e"

definition sl_version :: "ngx_http_request \<Rightarrow> bool" where
  "sl_version r \<longleftrightarrow> 1 \<le> http_major r \<and> http_major r \<le> 999 \<and> http_minor r \<le> 999"

fun sl_inv :: "u_char list \<Rightarrow> nat \<Rightarrow> sl_local \<Rightarrow> bool" where
  "sl_inv buf p (st, r, s) \<longleftrightarrow> s_end s = None \<and>
    (case st of
       sl_sw_status \<Rightarrow> sl_version r \<and> s_count s < 3 \<and> s_code s < 10 ^ s_count s \<and> s_count s \<le> p
     | sl_sw_space_after_status \<Rightarrow> sl_version r \<and> sl_text buf p s
     | sl_sw_status_text \<Rightarrow> sl_version r \<and> sl_text buf p s
     | sl_sw_almost_done \<Rightarrow> sl_version r \<and> 0 < p \<and> sl_text buf (p - 1) s
     | _ \<Rightarrow> s_count s = 0 \<and> s_code s = 0 \<and>
        (st \<in> {sl_sw_major_digit, sl_sw_first_minor_digit, sl_sw_minor_digit} \<longrightarrow> 1 \<le> http_major r \<and> http_major r \<le> 999) \<and>
        (st = sl_sw_minor_digit \<longrightarrow> http_minor r \<le> 999))"

fun sl_post :: "u_char list \<Rightarrow> nat \<Rightarrow> sl_exit \<Rightarrow> sl_local \<Rightarrow> bool" where
  "sl_post buf p Sl_error l = True"
| "sl_post buf p Sl_done (st, r, s) \<longleftrightarrow> sl_version r \<and> 
     (case s_end s of None \<Rightarrow> sl_text buf p s | Some e \<Rightarrow> e < p \<and> sl_text buf e s)"

lemma no_eol_Suc: "no_eol buf a p \<Longrightarrow> buf ! p \<noteq> CR \<Longrightarrow> buf ! p \<noteq> LF \<Longrightarrow> no_eol buf a (Suc p)"
  by (auto simp: no_eol_def less_Suc_eq)

lemma sl_text_Suc: "sl_text buf p s \<Longrightarrow> buf ! p \<noteq> CR \<Longrightarrow> buf ! p \<noteq> LF \<Longrightarrow> sl_text buf (Suc p) s"
  by (simp add: sl_text_def no_eol_Suc)

lemma first_major_bound: "\<not> c < c_1 \<Longrightarrow> \<not> c_9 < c \<Longrightarrow> Suc 0 \<le> unat (c - c_0) \<and> unat (c - c_0) \<le> 9"
  by (auto simp: unat_sub word_le_nat_alt not_less)

lemma code_bound: 
  assumes "is_digit c" "n < 3" "x < 10 ^ n"
  shows "x * 10 + unat (c - c_0) < 10 ^ Suc n"
  using digit_bound [OF assms(1)] assms(3) by simp

lemma sl_status_inv:
  assumes "sl_inv buf p (sl_sw_status, r, s)" "sl_step buf p ch (sl_sw_status, r, s) = Next l'"
  shows "sl_inv buf (Suc p) l'"
proof -
  have i: "sl_version r" "s_count s < 3" "s_code s < 10 ^ s_count s" "s_count s \<le> p" "s_end s = None"
    using assms(1) by auto
  show ?thesis
  proof (cases "ch = SP")
    case True
    then show ?thesis using assms(2) i by (auto simp: sl_defs)
  next
    case False
    then have d: "is_digit ch" using assms(2) by (auto simp: sl_defs split: if_splits)
    note b = code_bound [OF d i(2,3)]
    show ?thesis
    proof (cases "s_count s = 2")
      case True
      then have "s_code s * 10 + unat (ch - c_0) < 1000" "2 \<le> p" using b i(4) by simp_all
      then show ?thesis using assms(2) i d False True by (auto simp: sl_defs Let_def sl_text_def no_eol_def)
    next
      case no: False
      then show ?thesis using assms(2) i d False b by (auto simp: sl_defs Let_def)
    qed
  qed
qed

lemma sl_step_inv:
  assumes "sl_inv buf p l" "sl_step buf p (buf ! p) l = Next l'"
  shows "sl_inv buf (Suc p) l'"
proof -
  obtain st r s where l: "l = (st, r, s)" by (metis prod_cases3)
  note digits = digit_bound [of "buf ! p"] first_major_bound [of "buf ! p"]
  show ?thesis
  proof (cases st)
    case sl_sw_status
    then show ?thesis using assms sl_status_inv unfolding l by blast
  qed (use assms digits in \<open>auto simp: l sl_defs Let_def sl_version_def sl_text_Suc split: if_splits\<close>)
qed

lemma sl_step_post:
  assumes "sl_inv buf p l" "sl_step buf p (buf ! p) l = Exit x l'"
  shows "sl_post buf p x l'"
proof -
  obtain st r s where l: "l = (st, r, s)" by (metis prod_cases3)
  show ?thesis using assms
    by (cases st) (auto simp: l sl_defs Let_def sl_text_def split: if_splits)
qed

lemma sl_text_append: "sl_text buf e s \<Longrightarrow> e \<le> length buf \<Longrightarrow> sl_text (buf @ ys) e s"
  by (auto simp: sl_text_def no_eol_def nth_append)

lemma sl_inv_append: "sl_inv buf p l \<Longrightarrow> p \<le> length buf \<Longrightarrow> sl_inv (buf @ ys) p l"
  by (cases "(buf, p, l)" rule: sl_inv.cases) (auto simp: sl_text_append split: sl_state.splits)

lemma sl_step_append: "sl_step (buf @ ys) p ch l = sl_step buf p ch l"
  by (cases "(buf, p, ch, l)" rule: sl_step.cases) simp_all

interpretation status_line: resumable sl_step sl_inv sl_post
  by unfold_locales (simp_all add: sl_step_inv sl_step_post sl_inv_append sl_step_append)

end
