(* ===== verification/Http_Status_Props.thy ===== *)
theory Http_Status_Props
  imports Http_Status_Line
begin

unbundle bit_operations_syntax

text \<open>
  What holds of every accepted status line, that the parser gives the same result whatever the portions in which the
  bytes arrive, and that it reads every well-formed status line.
\<close>

section \<open>Properties\<close>

definition ngx_http_status_new :: ngx_http_status where
  "ngx_http_status_new = \<lparr>s_http_version = 0, s_code = 0, s_count = 0, s_start = None, s_end = None\<rparr>"

definition sl_new :: "ngx_http_request \<Rightarrow> sl_local" where
  "sl_new r = (sl_sw_start, r, ngx_http_status_new)"

lemma sl_inv_new: "sl_inv buf p (sl_new r)"
  by (simp add: sl_new_def ngx_http_status_new_def)

text \<open>An accepted status line has a code of at most three digits and a version from 1.0 to 999.999; \<open>status->start\<close> and
  \<open>status->end\<close> are in order and inside the received bytes, and the text between them has no line end.\<close>

theorem status_line_layout:
  assumes "ngx_http_parse_status_line (sl_new r) \<lparr>b_data = buf, b_pos = 0\<rparr> = (NGX_OK, (st, r', s), b')"
  shows "s_code s \<le> 999 \<and> 1000 \<le> s_http_version s \<and> s_http_version s \<le> 999999 \<and>
    (\<exists>a e. s_start s = Some a \<and> s_end s = Some e \<and> a + 3 \<le> e \<and> e < b_pos b' \<and> b_pos b' \<le> length buf \<and>
       set (slice buf (a + 3) e) \<inter> {CR, LF} = {})"
proof -
  have inv: "sl_inv buf 0 (sl_new r)" by (rule sl_inv_new)
  obtain p st1 s1 where e: "scan (sl_step buf) (drop 0 buf) 0 (sl_new r) = Exited Sl_done p (st1, r', s1)"
    "s = sl_finish p r' s1" "b_pos b' = p + 1"
    using assms by (auto simp: ngx_http_parse_status_line_def split: scanned.splits sl_exit.splits)
  have post: "p < length buf" "sl_post buf p Sl_done (st1, r', s1)"
    using status_line.scan_Exited_post [OF inv _ e(1)] by auto
  then obtain e' where e': "s_end s = Some e'" "sl_text buf e' s1" "e' \<le> p"
    using e(2) by (auto simp: sl_finish_def Let_def split: option.splits)
  have same: "s_code s = s_code s1" "s_start s = s_start s1"
    "s_http_version s = http_major r' * 1000 + http_minor r'"
    using e(2) by (simp_all add: sl_finish_def Let_def)
  have "set (slice buf a e') \<inter> {CR, LF} = {}" if "no_eol buf a e'" for a
    using that post(1) e'(3) by (auto simp: slice_def no_eol_def set_conv_nth)
  then show ?thesis using e' e(3) post same by (auto simp: sl_text_def sl_version_def)
qed

theorem status_line_layout_witness:
  "\<exists>st r' s b'. ngx_http_parse_status_line (sl_new ngx_http_request_new) \<lparr>b_data = bytes ''HTTP/1.1 200'' @ [LF], b_pos = 0\<rparr> =
      (NGX_OK, (st, r', s), b') \<and> s_code s \<le> 999 \<and> b_pos b' \<le> 13"
proof -
  obtain st r' s b' where e: "ngx_http_parse_status_line (sl_new ngx_http_request_new) \<lparr>b_data = bytes ''HTTP/1.1 200'' @ [LF], b_pos = 0\<rparr> =
      (NGX_OK, (st, r', s), b')"
    by (simp add: ngx_http_parse_status_line_def bytes_def sl_new_def ngx_http_status_new_def sl_defs ch_defs Let_def)
  show ?thesis using e status_line_layout [OF e] by (auto simp: bytes_def)
qed

section \<open>Reading in portions\<close>

fun sl_feed :: "sl_local \<Rightarrow> ngx_buf \<Rightarrow> u_char list list \<Rightarrow> ngx_rc \<times> sl_local \<times> ngx_buf" where
  "sl_feed l b [] = (NGX_AGAIN, l, b)"
| "sl_feed l b (c # cs) =
     (case ngx_http_parse_status_line l (b\<lparr>b_data := b_data b @ c\<rparr>) of
        (rc, l', b') \<Rightarrow> if rc = NGX_AGAIN then sl_feed l' b' cs else (rc, l', b'))"

definition sl_seen :: "ngx_rc \<times> sl_local \<times> ngx_buf \<Rightarrow> ngx_rc \<times> ngx_http_request \<times> ngx_http_status \<times> (sl_state \<times> nat) option" where
  "sl_seen x = (case x of (rc, (st, r, s), b) \<Rightarrow>
     (rc, r, s, if rc = NGX_ERROR then None else Some (st, b_pos b)))"

lemma sl_parse_more:
  assumes "sl_inv (b_data b) (b_pos b) l" "b_pos b \<le> length (b_data b)"
    and "ngx_http_parse_status_line l b = (rc, l', b')"
  shows "if rc = NGX_AGAIN
    then sl_inv (b_data b') (b_pos b') l' \<and> b_pos b' = length (b_data b') \<and> b_data b' = b_data b \<and>
      sl_seen (ngx_http_parse_status_line l (b\<lparr>b_data := b_data b @ ys\<rparr>)) =
      sl_seen (ngx_http_parse_status_line l' (b'\<lparr>b_data := b_data b' @ ys\<rparr>))
    else sl_seen (ngx_http_parse_status_line l (b\<lparr>b_data := b_data b @ ys\<rparr>)) = sl_seen (rc, l', b')"
proof (cases "scan (sl_step (b_data b)) (drop (b_pos b) (b_data b)) (b_pos b) l")
  case (Ran_out p l1)
  have e: "scan (sl_step (b_data b @ ys)) (drop (b_pos b) (b_data b @ ys)) (b_pos b) l =
      scan (sl_step (b_data b @ ys)) (drop p (b_data b @ ys)) p l1"
    using status_line.scan_resume [OF assms(1,2)] unfolding Ran_out by simp
  have r: "rc = NGX_AGAIN" "l' = l1" "b' = b\<lparr>b_pos := p\<rparr>"
    using assms(3) unfolding ngx_http_parse_status_line_def Ran_out by simp_all
  have "sl_seen (ngx_http_parse_status_line l (b\<lparr>b_data := b_data b @ ys\<rparr>)) =
      sl_seen (ngx_http_parse_status_line l1 (b\<lparr>b_pos := p, b_data := b_data b @ ys\<rparr>))"
    by (simp add: ngx_http_parse_status_line_def e sl_seen_def split: scanned.split sl_exit.split del: drop_append)
  then show ?thesis using r status_line.scan_Ran_out_inv [OF assms(1,2) Ran_out] by (simp del: sl_inv.simps) metis
next
  case (Exited x p l1)
  have e: "scan (sl_step (b_data b @ ys)) (drop (b_pos b) (b_data b @ ys)) (b_pos b) l = Exited x p l1"
    using status_line.scan_resume [OF assms(1,2)] unfolding Exited by simp
  obtain st1 r1 s1 where l1: "l1 = (st1, r1, s1)" by (metis prod_cases3)
  have e: "scan (sl_step (b_data (b\<lparr>b_data := b_data b @ ys\<rparr>))) (drop (b_pos (b\<lparr>b_data := b_data b @ ys\<rparr>))
      (b_data (b\<lparr>b_data := b_data b @ ys\<rparr>))) (b_pos (b\<lparr>b_data := b_data b @ ys\<rparr>)) l = Exited x p (st1, r1, s1)"
    using e l1 by simp
  have "(rc, l', b') = (case x of
      Sl_done \<Rightarrow> (NGX_OK, (sl_sw_start, r1, sl_finish p r1 s1), b\<lparr>b_pos := p + 1\<rparr>)
    | Sl_error \<Rightarrow> (NGX_ERROR, (fst l, r1, s1), b))"
    unfolding assms(3) [symmetric] ngx_http_parse_status_line_def Exited l1 by (cases x) simp_all
  then show ?thesis unfolding ngx_http_parse_status_line_def e
    by (cases x) (simp_all add: sl_seen_def)
qed

lemma sl_feed_same:
  "sl_inv (b_data b) (b_pos b) l \<Longrightarrow> b_pos b = length (b_data b) \<Longrightarrow>
   sl_seen (ngx_http_parse_status_line l (b\<lparr>b_data := b_data b @ concat cs\<rparr>)) = sl_seen (sl_feed l b cs)"
proof (induction cs arbitrary: l b)
  case Nil
  then show ?case by (cases l) (simp add: ngx_http_parse_status_line_def sl_seen_def)
next
  case (Cons c cs)
  define b1 where "b1 = b\<lparr>b_data := b_data b @ c\<rparr>"
  have inv: "sl_inv (b_data b1) (b_pos b1) l" "b_pos b1 \<le> length (b_data b1)"
    using Cons.prems sl_inv_append [of "b_data b" "b_pos b" l c] by (simp_all add: b1_def del: sl_inv.simps)
  have all: "b\<lparr>b_data := b_data b @ concat (c # cs)\<rparr> = b1\<lparr>b_data := b_data b1 @ concat cs\<rparr>"
    by (simp add: b1_def)
  obtain rc l' b' where p: "ngx_http_parse_status_line l b1 = (rc, l', b')" by (metis prod_cases3)
  show ?case using sl_parse_more [OF inv p, of "concat cs"] Cons.IH [of b' l'] p
    unfolding all by (auto simp: b1_def [symmetric] split: if_splits)
qed

text \<open>The parser is incremental: the portions in which the bytes arrive do not matter.\<close>

lemma status_line_portions:
  "sl_seen (sl_feed (sl_new r) \<lparr>b_data = [], b_pos = 0\<rparr> cs) =
   sl_seen (ngx_http_parse_status_line (sl_new r) \<lparr>b_data = concat cs, b_pos = 0\<rparr>)"
  using sl_feed_same [of "\<lparr>b_data = [], b_pos = 0\<rparr>" "sl_new r" cs] sl_inv_new by simp

section \<open>A well-formed status line\<close>

definition digit :: "nat \<Rightarrow> u_char" where
  "digit n = c_0 + of_nat n"

definition status_line_bytes :: "nat \<Rightarrow> nat \<Rightarrow> nat \<Rightarrow> u_char list \<Rightarrow> u_char list" where
  "status_line_bytes major minor code msg =
    bytes ''HTTP/'' @ [digit major, c_dot, digit minor, SP, digit (code div 100), digit (code div 10 mod 10), digit (code mod 10), SP] @
    msg @ [CR, LF]"

lemma digit_value: "n \<le> 9 \<Longrightarrow> unat (digit n - c_0) = n" "n \<le> 9 \<Longrightarrow> is_digit (digit n)"
  "n \<le> 9 \<Longrightarrow> \<not> c_9 < digit n" "1 \<le> n \<Longrightarrow> n \<le> 9 \<Longrightarrow> \<not> digit n < c_1" "n \<le> 9 \<Longrightarrow> digit n \<noteq> SP" "n \<le> 9 \<Longrightarrow> digit n \<noteq> c_dot"
proof -
  have "(n \<le> 9) = (n = 0 \<or> n = 1 \<or> n = 2 \<or> n = 3 \<or> n = 4 \<or> n = 5 \<or> n = 6 \<or> n = 7 \<or> n = 8 \<or> n = 9)" by arith
  note nine = this
  show "n \<le> 9 \<Longrightarrow> unat (digit n - c_0) = n" unfolding nine by (elim disjE) (simp_all add: digit_def)
  show "n \<le> 9 \<Longrightarrow> is_digit (digit n)" unfolding nine by (elim disjE) (simp_all add: digit_def is_digit_def)
  show "n \<le> 9 \<Longrightarrow> \<not> c_9 < digit n" unfolding nine by (elim disjE) (simp_all add: digit_def)
  show "1 \<le> n \<Longrightarrow> n \<le> 9 \<Longrightarrow> \<not> digit n < c_1" unfolding nine by (elim disjE) (simp_all add: digit_def)
  show "n \<le> 9 \<Longrightarrow> digit n \<noteq> SP" unfolding nine by (elim disjE) (simp_all add: digit_def)
  show "n \<le> 9 \<Longrightarrow> digit n \<noteq> c_dot" unfolding nine by (elim disjE) (simp_all add: digit_def)
qed

lemma scan_text:
  assumes "set msg \<inter> {CR, LF} = {}"
  shows "scan (sl_step buf) (msg @ CR # LF # rest) p (sl_sw_status_text, r, s) =
    Exited Sl_done (p + length msg + 1) (sl_sw_almost_done, r, s\<lparr>s_end := Some (p + length msg)\<rparr>)"
  using assms by (induction msg arbitrary: p) (auto simp: sl_status_text_def sl_almost_done_def)

lemma scan_status_head:
  assumes "1 \<le> major" "major \<le> 9" "minor \<le> 9" "h \<le> 9" "t \<le> 9" "u \<le> 9"
  shows "scan (sl_step buf) (bytes ''HTTP/'' @ [digit major, c_dot, digit minor, SP, digit h, digit t, digit u, SP] @ rest) 0
      (sl_new r) =
    scan (sl_step buf) rest 13
      (sl_sw_status_text, r\<lparr>http_major := major, http_minor := minor\<rparr>,
       ngx_http_status_new\<lparr>s_code := (h * 10 + t) * 10 + u, s_count := 3, s_start := Some 9\<rparr>)"
proof -
  note d = digit_value(1) digit_value(2) digit_value(5) digit_value(6)
  have m: "\<not> digit major < c_1" "\<not> c_9 < digit major" using digit_value(3,4) assms by blast+
  have n: "(13 :: nat) = Suc (Suc (Suc (Suc (Suc (Suc (Suc (Suc (Suc (Suc (Suc (Suc (Suc 0))))))))))))"
    "(9 :: nat) = Suc (Suc (Suc (Suc (Suc (Suc (Suc (Suc (Suc 0))))))))" by simp_all
  have "scan (sl_step buf) (bytes ''HTTP/'' @ [digit major, c_dot, digit minor, SP, digit h, digit t, digit u, SP] @ rest) 0
      (sl_new r) =
    scan (sl_step buf) rest (Suc (Suc (Suc (Suc (Suc (Suc (Suc (Suc (Suc (Suc (Suc (Suc (Suc 0)))))))))))))
      (sl_sw_status_text, r\<lparr>http_major := major, http_minor := minor\<rparr>,
       ngx_http_status_new\<lparr>s_code := (h * 10 + t) * 10 + u, s_count := Suc (Suc (Suc 0)),
         s_start := Some (Suc (Suc (Suc (Suc (Suc (Suc (Suc (Suc (Suc 0)))))))))\<rparr>)"
    using assms m by (simp add: bytes_def sl_new_def ngx_http_status_new_def sl_defs Let_def d)
  then show ?thesis by (simp add: numeral_3_eq_3 [symmetric] n [symmetric])
qed

text \<open>A well-formed status line is accepted with its version, its code and its text, and the buffer is left at the byte
  behind it.\<close>

theorem status_line_reads:
  assumes "1 \<le> major" "major \<le> 9" "minor \<le> 9" "code \<le> 999" "set msg \<inter> {CR, LF} = {}"
  shows "ngx_http_parse_status_line (sl_new r) \<lparr>b_data = status_line_bytes major minor code msg @ rest, b_pos = 0\<rparr> =
    (NGX_OK, (sl_sw_start, r\<lparr>http_major := major, http_minor := minor\<rparr>,
       \<lparr>s_http_version = major * 1000 + minor, s_code = code, s_count = 3, s_start = Some 9, s_end = Some (13 + length msg)\<rparr>),
     \<lparr>b_data = status_line_bytes major minor code msg @ rest, b_pos = 15 + length msg\<rparr>)"
proof -
  have d: "code div 100 \<le> 9" "code div 10 mod 10 \<le> 9" "code mod 10 \<le> 9" using assms(4) by auto
  have c: "(code div 100 * 10 + code div 10 mod 10) * 10 + code mod 10 = code"
    using div_mult2_eq [of code 10 10] div_mult_mod_eq [of "code div 10" 10] div_mult_mod_eq [of code 10] by simp
  have "scan (sl_step buf) (status_line_bytes major minor code msg @ rest) 0 (sl_new r) =
    Exited Sl_done (14 + length msg) (sl_sw_almost_done, r\<lparr>http_major := major, http_minor := minor\<rparr>,
      ngx_http_status_new\<lparr>s_code := code, s_count := 3, s_start := Some 9, s_end := Some (13 + length msg)\<rparr>)" for buf
  proof -
    have "status_line_bytes major minor code msg @ rest = bytes ''HTTP/'' @
      [digit major, c_dot, digit minor, SP, digit (code div 100), digit (code div 10 mod 10), digit (code mod 10), SP] @
      (msg @ CR # LF # rest)" by (simp only: status_line_bytes_def append_assoc append_Cons append_Nil)
    then have "scan (sl_step buf) (status_line_bytes major minor code msg @ rest) 0 (sl_new r) =
      scan (sl_step buf) (msg @ CR # LF # rest) 13 (sl_sw_status_text, r\<lparr>http_major := major, http_minor := minor\<rparr>,
        ngx_http_status_new\<lparr>s_code := code, s_count := 3, s_start := Some 9\<rparr>)"
      by (simp only: scan_status_head [OF assms(1-3) d] c)
    then show ?thesis by (simp add: scan_text [OF assms(5)])
  qed
  then show ?thesis by (simp add: ngx_http_parse_status_line_def sl_finish_def ngx_http_status_new_def)
qed

theorem status_line_reads_witness:
  "fst (ngx_http_parse_status_line (sl_new ngx_http_request_new)
     \<lparr>b_data = status_line_bytes 1 1 404 (bytes ''Not Found'') @ [], b_pos = 0\<rparr>) = NGX_OK"
  using status_line_reads [of 1 1 404 "bytes ''Not Found''" ngx_http_request_new "[]"] by (simp add: bytes_def)

end
