(* ===== verification/Http_Header_Values.thy ===== *)
theory Http_Header_Values
  imports Ngx_Strcmp_Props
begin

unbundle bit_operations_syntax

text \<open>
  Looking up values in header lines, from \<open>src/http/ngx_http_parse.c\<close>: \<open>ngx_http_parse_multi_header_lines\<close> (cookies,
  \<open>Cache-Control\<close>, \<open>X-Accel-Expires\<close> and so on) and \<open>ngx_http_parse_set_cookie_lines\<close>. The header array is the list of its
  values.
\<close>

section \<open>Values in header lines\<close>

text \<open>A header value is the bytes \<open>v\<close>; \<open>mem\<close> is these bytes and what follows them in memory, \<open>e\<close> the offset of
  their end. \<open>mh_spaces\<close> is the loop that skips spaces, \<open>mh_field\<close> the loop that skips to the next field,
  \<open>mh_last\<close> the loop that looks for the end of a value.\<close>

function mh_spaces :: "u_char list \<Rightarrow> nat \<Rightarrow> nat \<Rightarrow> nat" where
  "mh_spaces mem e start = (if start < e \<and> mem ! start = SP then mh_spaces mem e (Suc start) else start)"
  by pat_completeness auto
termination by (relation "measure (\<lambda>(mem, e, start). e - start)") auto

function mh_field :: "u_char list \<Rightarrow> nat \<Rightarrow> nat \<Rightarrow> nat" where
  "mh_field mem e start =
    (if start < e then
       (if mem ! start = c_semi \<or> mem ! start = c_comma then Suc start else mh_field mem e (Suc start))
     else start)"
  by pat_completeness auto
termination by (relation "measure (\<lambda>(mem, e, start). e - start)") auto

function mh_last :: "u_char list \<Rightarrow> nat \<Rightarrow> nat \<Rightarrow> nat" where
  "mh_last mem e l = (if l < e \<and> mem ! l \<noteq> c_semi then mh_last mem e (Suc l) else l)"
  by pat_completeness auto
termination by (relation "measure (\<lambda>(mem, e, l). e - l)") auto

declare mh_spaces.simps [simp del] mh_field.simps [simp del] mh_last.simps [simp del]

lemma mh_spaces_ge: "start \<le> mh_spaces mem e start"
  by (induction mem e start rule: mh_spaces.induct) (subst mh_spaces.simps, auto)

lemma mh_field_ge: "start \<le> mh_field mem e start"
  by (induction mem e start rule: mh_field.induct) (subst mh_field.simps, auto)

lemma mh_field_gt: "start < e \<Longrightarrow> start < mh_field mem e start"
  using mh_field_ge [of "Suc start" mem e] by (subst mh_field.simps) auto

text \<open>How the loop over one value ends: it has found nothing, it has found the bare name, or it has set \<open>*value\<close> to
  the bytes between two offsets.\<close>

datatype mh_found = Mh_none | Mh_name | Mh_value nat nat

text \<open>The body of the loop \<open>while (start < end)\<close> up to the label \<open>skip\<close>: it returns, or goes to the label with a value of
  \<open>start\<close>. \<open>want\<close> says that \<open>value\<close> is not \<open>NULL\<close>. The comparison is not limited by \<open>end\<close>; \<open>None\<close> is a read outside \<open>mem\<close>.\<close>

datatype mh_step = Mh_return mh_found | Mh_goto_skip nat

definition mh_body :: "u_char list \<Rightarrow> bool \<Rightarrow> u_char list \<Rightarrow> nat \<Rightarrow> nat \<Rightarrow> mh_step option" where
  "mh_body name want mem e start =
    (case ngx_strncasecmp (drop start mem) name (length name) of
       None \<Rightarrow> None
     | Some d \<Rightarrow>
       if d \<noteq> 0 then Some (Mh_goto_skip start)
       else
         (let s = mh_spaces mem e (start + length name) in
          if \<not> want then
            (if s = e \<or> mem ! s = c_comma then Some (Mh_return Mh_name) else Some (Mh_goto_skip s))
          else if s = e then Some (Mh_goto_skip s)
          else if mem ! s \<noteq> c_eq then Some (Mh_goto_skip (Suc s))
          else
            (let s = mh_spaces mem e (Suc s) in Some (Mh_return (Mh_value s (mh_last mem e s))))))"

lemma mh_body_skip: "mh_body name want mem e start = Some (Mh_goto_skip s) \<Longrightarrow> start \<le> s"
  using mh_spaces_ge [of "start + length name" mem e]
  by (auto simp: mh_body_def Let_def split: option.splits if_splits)

text \<open>The code at the label \<open>skip\<close>, and the loop.\<close>

definition mh_skip :: "u_char list \<Rightarrow> nat \<Rightarrow> nat \<Rightarrow> nat" where
  "mh_skip mem e s = mh_spaces mem e (mh_field mem e s)"

lemma mh_skip_gt: "start < e \<Longrightarrow> start < mh_skip mem e start"
  unfolding mh_skip_def using mh_field_gt [of start e mem] mh_spaces_ge [of "mh_field mem e start" mem e] by linarith

lemma mh_skip_ge: "start \<le> mh_skip mem e start"
  unfolding mh_skip_def using mh_field_ge [of start mem e] mh_spaces_ge [of "mh_field mem e start" mem e] by linarith

lemma mh_skip_later: "start < e \<Longrightarrow> start \<le> s \<Longrightarrow> start < mh_skip mem e s"
  using mh_skip_gt [of s e mem] mh_skip_ge [of s mem e] by linarith

function mh_loop :: "u_char list \<Rightarrow> bool \<Rightarrow> u_char list \<Rightarrow> nat \<Rightarrow> nat \<Rightarrow> mh_found option" where
  "mh_loop name want mem e start =
    (if start < e then
       (case mh_body name want mem e start of
          None \<Rightarrow> None
        | Some (Mh_return r) \<Rightarrow> Some r
        | Some (Mh_goto_skip s) \<Rightarrow> mh_loop name want mem e (mh_skip mem e s))
     else Some Mh_none)"
  by pat_completeness auto
termination
proof (relation "measure (\<lambda>(name, want, mem, e, start). e - start)", goal_cases)
  case (2 name want mem e start st s)
  then show ?case using mh_skip_later [of start e s mem] mh_body_skip [of name want mem e start s] by simp
qed simp

declare mh_loop.simps [simp del]

text \<open>A header of the array \<open>headers\<close>: its value and the bytes that follow the value in memory.\<close>

type_synonym header_value = "u_char list \<times> u_char list"

text \<open>The result is the index of the header and what was found there (\<open>NGX_DECLINED\<close> is \<open>Some None\<close>).\<close>

fun parse_multi :: "u_char list \<Rightarrow> bool \<Rightarrow> header_value list \<Rightarrow> nat \<Rightarrow> (nat \<times> u_char list) option option" where
  "parse_multi name want [] i = Some None"
| "parse_multi name want ((v, after) # h) i =
    (if length name > length v then parse_multi name want h (Suc i)
     else
       case mh_loop name want (v @ after) (length v) 0 of
         None \<Rightarrow> None
       | Some Mh_none \<Rightarrow> parse_multi name want h (Suc i)
       | Some Mh_name \<Rightarrow> Some (Some (i, []))
       | Some (Mh_value a b) \<Rightarrow> Some (Some (i, slice (v @ after) a b)))"

definition ngx_http_parse_multi_header_lines ::
  "header_value list \<Rightarrow> u_char list \<Rightarrow> bool \<Rightarrow> (nat \<times> u_char list) option option" where
  "ngx_http_parse_multi_header_lines headers name want = parse_multi name want headers 0"

text \<open>\<open>ngx_http_parse_set_cookie_lines\<close>: only the beginning of each value is looked at.\<close>

definition set_cookie_line :: "u_char list \<Rightarrow> u_char list \<Rightarrow> nat \<Rightarrow> mh_found option" where
  "set_cookie_line name mem e =
    (case ngx_strncasecmp mem name (length name) of
       None \<Rightarrow> None
     | Some d \<Rightarrow>
       if d \<noteq> 0 then Some Mh_none
       else
         (let s = mh_spaces mem e (length name) in
          if s = e then Some Mh_none
          else if mem ! s \<noteq> c_eq then Some Mh_none
          else (let s = mh_spaces mem e (Suc s) in Some (Mh_value s (mh_last mem e s)))))"

fun parse_set_cookie :: "u_char list \<Rightarrow> header_value list \<Rightarrow> nat \<Rightarrow> (nat \<times> u_char list) option option" where
  "parse_set_cookie name [] i = Some None"
| "parse_set_cookie name ((v, after) # h) i =
    (if length name \<ge> length v then parse_set_cookie name h (Suc i)
     else
       case set_cookie_line name (v @ after) (length v) of
         None \<Rightarrow> None
       | Some (Mh_value a b) \<Rightarrow> Some (Some (i, slice (v @ after) a b))
       | Some _ \<Rightarrow> parse_set_cookie name h (Suc i))"

definition ngx_http_parse_set_cookie_lines ::
  "header_value list \<Rightarrow> u_char list \<Rightarrow> (nat \<times> u_char list) option option" where
  "ngx_http_parse_set_cookie_lines headers name = parse_set_cookie name headers 0"

section \<open>The loops on lists\<close>

lemma mh_spaces_stop: "start < e \<longrightarrow> mem ! start \<noteq> SP \<Longrightarrow> mh_spaces mem e start = start"
  by (subst mh_spaces.simps) auto

lemma mh_field_run:
  "set x \<inter> {c_semi, c_comma} = {} \<Longrightarrow> mem = pre @ x @ t \<Longrightarrow> length (pre @ x) \<le> e \<Longrightarrow>
   mh_field mem e (length pre) = mh_field mem e (length (pre @ x))"
proof (induction x arbitrary: pre)
  case (Cons c x)
  have "mh_field mem e (length pre) = mh_field mem e (length (pre @ [c]))"
    using Cons.prems by (subst mh_field.simps) auto
  also have "\<dots> = mh_field mem e (length ((pre @ [c]) @ x))" using Cons.prems by (intro Cons.IH) auto
  finally show ?case by simp
qed simp

lemma mh_field_run_from:
  assumes "set x \<inter> {c_semi, c_comma} = {}" "mem = pre @ x @ t" "length (pre @ x) \<le> e" "k \<le> length x"
  shows "mh_field mem e (length pre + k) = mh_field mem e (length (pre @ x))"
proof -
  have d: "set (drop k x) \<inter> {c_semi, c_comma} = {}" using assms(1) set_drop_subset [of k x] by blast
  have "mh_field mem e (length (pre @ take k x)) = mh_field mem e (length ((pre @ take k x) @ drop k x))"
    using assms by (intro mh_field_run [OF d, where t = t]) simp_all
  then show ?thesis using assms(4) by simp
qed

lemma mh_last_run:
  "c_semi \<notin> set x \<Longrightarrow> mem = pre @ x @ t \<Longrightarrow> length (pre @ x) \<le> e \<Longrightarrow>
   mh_last mem e (length pre) = mh_last mem e (length (pre @ x))"
proof (induction x arbitrary: pre)
  case (Cons c x)
  have "mh_last mem e (length pre) = mh_last mem e (length (pre @ [c]))"
    using Cons.prems by (subst mh_last.simps) auto
  also have "\<dots> = mh_last mem e (length ((pre @ [c]) @ x))" using Cons.prems by (intro Cons.IH) auto
  finally show ?case by simp
qed simp

lemma mh_last_stop: "e \<le> l \<or> mem ! l = c_semi \<Longrightarrow> mh_last mem e l = l"
  by (subst mh_last.simps) auto

lemma casecmp_terminated:
  "NUL \<notin> set name \<Longrightarrow>
   \<exists>d. ngx_strncasecmp (w @ NUL # after) name (length name) = Some d \<and>
     (d = 0 \<longleftrightarrow> length name \<le> length w \<and> map ngx_tolower (take (length name) w) = map ngx_tolower name)"
proof (induction name arbitrary: w)
  case (Cons c name)
  have z: "ngx_tolower c \<noteq> 0" using Cons.prems by (metis list.set_intros(1) tolower_zero)
  show ?case
  proof (cases w)
    case Nil
    have "ngx_tolower 0 \<noteq> ngx_tolower c" using z tolower_zero by metis
    then show ?thesis using Nil by (simp add: byte_diff_sign Let_def)
  next
    case (Cons a w')
    show ?thesis
      using Cons.IH [of w'] Cons.prems z by (auto simp: Cons Let_def byte_diff_sign)
  qed
qed simp

section \<open>Cookies\<close>

definition cookie_name :: "u_char list \<Rightarrow> bool" where
  "cookie_name n \<longleftrightarrow> n \<noteq> [] \<and> set n \<inter> {NUL, c_semi, c_comma, c_eq, SP} = {}"

definition cookie_value :: "u_char list \<Rightarrow> bool" where
  "cookie_value v \<longleftrightarrow> set v \<inter> {c_semi, c_comma} = {} \<and> takeWhile (\<lambda>c. c = SP) v = []"

fun cookie_header :: "(u_char list \<times> u_char list) list \<Rightarrow> u_char list" where
  "cookie_header [] = []"
| "cookie_header [(n, v)] = n @ c_eq # v"
| "cookie_header ((n, v) # ps) = n @ c_eq # v @ [c_semi, SP] @ cookie_header ps"

definition cookie_tail :: "(u_char list \<times> u_char list) list \<Rightarrow> u_char list" where
  "cookie_tail ps = (if ps = [] then [] else [c_semi, SP] @ cookie_header ps)"

lemma cookie_header_Cons: "cookie_header ((n, v) # ps) = n @ c_eq # v @ cookie_tail ps"
  by (cases ps) (auto simp: cookie_tail_def)

lemma tolower_eq_all: "\<forall>c. ngx_tolower c = c_eq \<longleftrightarrow> c = c_eq"
  unfolding byte_forall by (simp add: all_bytes_def ngx_tolower_def ch_defs word_le_nat_alt)

lemma prefix_in_name:
  assumes "c_eq \<notin> set name"
  shows "length name \<le> length (n @ c_eq # t) \<and> map ngx_tolower (take (length name) (n @ c_eq # t)) = map ngx_tolower name \<longleftrightarrow>
    length name \<le> length n \<and> map ngx_tolower (take (length name) n) = map ngx_tolower name"
proof (cases "length name \<le> length n")
  case False
  have "map ngx_tolower (take (length name) (n @ c_eq # t)) \<noteq> map ngx_tolower name"
    if "length name \<le> length (n @ c_eq # t)"
  proof
    assume "map ngx_tolower (take (length name) (n @ c_eq # t)) = map ngx_tolower name"
    then have "map ngx_tolower (take (length name) (n @ c_eq # t)) ! length n = map ngx_tolower name ! length n" by simp
    then have "ngx_tolower (name ! length n) = c_eq" using False that by (simp add: nth_append ngx_tolower_def ch_defs)
    then have "name ! length n = c_eq" using tolower_eq_all by blast
    then show False using assms False nth_mem [of "length n" name] by simp
  qed
  then show ?thesis using False by blast
qed auto

text \<open>From the field of a pair the loop goes on at the field of the next pair, from whatever byte of the name the
  search for the end of the field begins.\<close>

lemma mh_skip_pair:
  assumes "cookie_name n" "cookie_value v" "\<forall>(n, v) \<in> set ps. cookie_name n"
    and "mem = pre @ cookie_header ((n, v) # ps) @ after" "e = length (pre @ cookie_header ((n, v) # ps))"
    and "k \<le> Suc (length n)"
  shows "mh_skip mem e (length pre + k) = length (pre @ n @ c_eq # v) + min 2 (length (cookie_tail ps))"
proof -
  let ?x = "n @ c_eq # v"
  have nosep: "set ?x \<inter> {c_semi, c_comma} = {}" using assms(1,2) by (auto simp: cookie_name_def cookie_value_def)
  have mx: "mem = pre @ ?x @ cookie_tail ps @ after" "length (pre @ ?x) \<le> e"
    using assms(4,5) by (simp_all add: cookie_header_Cons)
  have run: "mh_field mem e (length pre + k) = mh_field mem e (length (pre @ ?x))"
    using mh_field_run_from [OF nosep mx] assms(6) by simp
  show ?thesis
  proof (cases ps)
    case Nil
    then show ?thesis using assms(5) run
      by (simp add: mh_skip_def cookie_header_Cons cookie_tail_def mh_field.simps mh_spaces.simps)
  next
    case (Cons q ps')
    obtain n' v' where q: "q = (n', v')" by force
    have ne: "cookie_name n'" using assms(3) Cons q by simp
    then obtain c n2 where c: "n' = c # n2" "c \<noteq> SP" by (cases n') (auto simp: cookie_name_def)
    have h: "cookie_header ps = c # n2 @ c_eq # v' @ cookie_tail ps'" using Cons q c by (simp add: cookie_header_Cons)
    have m: "mem = pre @ ?x @ c_semi # SP # c # n2 @ c_eq # v' @ cookie_tail ps' @ after"
      "e = length (pre @ ?x @ c_semi # SP # c # n2 @ c_eq # v' @ cookie_tail ps')"
      using assms(4,5) h Cons by (simp_all add: cookie_header_Cons [of n v] cookie_tail_def [of ps])
    have f: "mh_field mem e (length (pre @ ?x)) = Suc (length (pre @ ?x))"
      using m by (subst mh_field.simps) (simp add: nth_append)
    have sp: "mem ! Suc (length (pre @ ?x)) = SP" "mem ! Suc (Suc (length (pre @ ?x))) = c" "Suc (length (pre @ ?x)) < e"
      using m by (simp_all add: nth_append)
    have "mh_spaces mem e (Suc (length (pre @ ?x))) = Suc (Suc (length (pre @ ?x)))"
      using sp c(2) by (subst mh_spaces.simps) (simp add: mh_spaces_stop)
    then show ?thesis using Cons run f by (simp add: mh_skip_def cookie_tail_def)
  qed
qed


lemma mh_value_pair:
  assumes "cookie_name n" "cookie_value v"
    and "mem = pre @ cookie_header ((n, v) # ps) @ after" "e = length (pre @ cookie_header ((n, v) # ps))"
  shows "mh_spaces mem e (Suc (length (pre @ n))) = length (pre @ n @ [c_eq])"
    "mh_last mem e (length (pre @ n @ [c_eq])) = length (pre @ n @ c_eq # v)"
proof -
  let ?p = "pre @ n @ [c_eq]"
  have mx: "mem = ?p @ v @ cookie_tail ps @ after" "e = length (?p @ v @ cookie_tail ps)"
    using assms(3,4) by (simp_all add: cookie_header_Cons)
  have "mem ! length ?p \<noteq> SP" if "length ?p < e"
    using that assms(2) unfolding mx
    by (cases v; cases ps) (auto simp: nth_append cookie_tail_def cookie_value_def split: if_splits)
  then show "mh_spaces mem e (Suc (length (pre @ n))) = length ?p" by (subst mh_spaces_stop) auto
  have "mh_last mem e (length ?p) = mh_last mem e (length (?p @ v))"
    using assms(2) mx by (intro mh_last_run [where t = "cookie_tail ps @ after"]) (auto simp: cookie_value_def)
  also have "\<dots> = length (?p @ v)"
    using mx by (intro mh_last_stop) (cases ps, auto simp: nth_append cookie_tail_def)
  finally show "mh_last mem e (length ?p) = length (pre @ n @ c_eq # v)" by simp
qed

definition same_name :: "u_char list \<Rightarrow> u_char list \<Rightarrow> bool" where
  "same_name a b \<longleftrightarrow> map ngx_tolower a = map ngx_tolower b"

definition find_cookie :: "u_char list \<Rightarrow> (u_char list \<times> u_char list) list \<Rightarrow> u_char list option" where
  "find_cookie name ps = map_option snd (find (\<lambda>(n, v). same_name n name) ps)"

lemma cookie_loop:
  assumes "cookie_name name" "\<forall>(n, v) \<in> set ps. cookie_name n \<and> cookie_value v"
    and "mem = pre @ cookie_header ps @ NUL # after" "e = length (pre @ cookie_header ps)"
  shows "\<exists>r. mh_loop name True mem e (length pre) = Some r \<and>
    (case find_cookie name ps of
       None \<Rightarrow> r = Mh_none
     | Some v \<Rightarrow> \<exists>a b. r = Mh_value a b \<and> slice mem a b = v)"
  using assms(2-)
proof (induction ps arbitrary: pre)
  case Nil
  then show ?case by (subst mh_loop.simps) (simp add: find_cookie_def)
next
  case (Cons q ps)
  obtain n v where q: "q = (n, v)" by force
  have nv: "cookie_name n" "cookie_value v" "\<forall>(n, v) \<in> set ps. cookie_name n" using Cons.prems(1) q by auto
  let ?w = "cookie_header ((n, v) # ps)"
  have m: "mem = pre @ ?w @ NUL # after" "e = length (pre @ ?w)" using Cons.prems q by auto
  have lt: "length pre < e" using m nv(1) by (simp add: cookie_header_Cons)
  have "drop (length pre) mem = ?w @ NUL # after" using m by simp
  then obtain d where d: "ngx_strncasecmp (drop (length pre) mem) name (length name) = Some d"
    "d = 0 \<longleftrightarrow> length name \<le> length n \<and> map ngx_tolower (take (length name) n) = map ngx_tolower name"
    using casecmp_terminated [of name ?w after] prefix_in_name [of name n "v @ cookie_tail ps"] assms(1)
    unfolding cookie_header_Cons by (auto simp: cookie_name_def)
  have move: ?case if "\<not> same_name n name" "k \<le> Suc (length n)"
    "mh_loop name True mem e (length pre) = mh_loop name True mem e (mh_skip mem e (length pre + k))" for k
  proof -
    have s: "mh_skip mem e (length pre + k) = length (pre @ n @ c_eq # v) + min 2 (length (cookie_tail ps))"
      using mh_skip_pair [OF nv m(1,2) that(2)] .
    have f: "find_cookie name (q # ps) = find_cookie name ps" using that(1) q by (simp add: find_cookie_def)
    show ?thesis
    proof (cases "ps = []")
      case True
      then have "mh_skip mem e (length pre + k) = e" using s m by (simp add: cookie_tail_def)
      then show ?thesis using that(3) True f by (simp add: find_cookie_def mh_loop.simps [of _ _ _ e e])
    next
      case False
      let ?pre = "pre @ n @ c_eq # v @ [c_semi, SP]"
      have "mem = ?pre @ cookie_header ps @ NUL # after" "e = length (?pre @ cookie_header ps)"
        using m False by (simp_all add: cookie_header_Cons cookie_tail_def)
      then have "\<exists>r. mh_loop name True mem e (length ?pre) = Some r \<and>
        (case find_cookie name ps of None \<Rightarrow> r = Mh_none | Some v \<Rightarrow> \<exists>a b. r = Mh_value a b \<and> slice mem a b = v)"
        using Cons.prems(1) by (intro Cons.IH) auto
      moreover have "mh_skip mem e (length pre + k) = length ?pre" using s False by (simp add: cookie_tail_def)
      ultimately show ?thesis using that(3) f by simp
    qed
  qed
  have nth: "mem ! (length pre + length name) = (if length name < length n then n ! length name else c_eq)"
    if "length name \<le> length n" using that m(1) by (auto simp: cookie_header_Cons nth_append)
  show ?case
  proof (cases "d = 0")
    case False
    then have "\<not> same_name n name" using d(2) map_eq_imp_length_eq [of ngx_tolower n ngx_tolower name]
      by (auto simp: same_name_def)
    moreover have "mh_loop name True mem e (length pre) = mh_loop name True mem e (mh_skip mem e (length pre + 0))"
      using d(1) False lt by (subst mh_loop.simps) (simp add: mh_body_def)
    ultimately show ?thesis by (intro move [of 0]) simp_all
  next
    case eq: True
    then have len: "length name \<le> length n" and pre: "map ngx_tolower (take (length name) n) = map ngx_tolower name"
      using d(2) by auto
    have nsp: "mem ! (length pre + length name) \<noteq> SP" "length pre + length name < e"
    proof -
      have "n ! length name \<noteq> SP" if "length name < length n" using nth_mem [OF that] nv(1) by (auto simp: cookie_name_def)
      then show "mem ! (length pre + length name) \<noteq> SP" using nth [OF len] by (simp split: if_splits)
      show "length pre + length name < e" using m(2) len by (simp add: cookie_header_Cons)
    qed
    then have sp: "mh_spaces mem e (length pre + length name) = length pre + length name" by (simp add: mh_spaces_stop)
    show ?thesis
    proof (cases "length name = length n")
      case True
      then have same: "same_name n name" using pre by (simp add: same_name_def)
      have "mh_loop name True mem e (length pre) =
        Some (Mh_value (length (pre @ n @ [c_eq])) (length (pre @ n @ c_eq # v)))"
        using d(1) eq lt nsp sp nth True mh_value_pair [OF nv(1,2) m]
        by (subst mh_loop.simps) (simp add: mh_body_def Let_def)
      moreover have "slice mem (length (pre @ n @ [c_eq])) (length (pre @ n @ c_eq # v)) = v"
        unfolding m(1) by (simp add: slice_def cookie_header_Cons)
      ultimately show ?thesis using same q by (simp add: find_cookie_def)
    next
      case False
      then have lt2: "length name < length n" using len by simp
      then have "\<not> same_name n name" by (auto simp: same_name_def dest: map_eq_imp_length_eq)
      moreover have "mem ! (length pre + length name) \<noteq> c_eq"
      proof -
        have "n ! length name \<noteq> c_eq" using nth_mem [OF lt2] nv(1) by (auto simp: cookie_name_def)
        then show ?thesis using nth [OF len] lt2 by simp
      qed
      then have "mh_loop name True mem e (length pre) = mh_loop name True mem e (mh_skip mem e (length pre + Suc (length name)))"
        using d(1) eq lt nsp sp by (subst mh_loop.simps) (simp add: mh_body_def Let_def)
      ultimately show ?thesis using lt2 by (intro move [of "Suc (length name)"]) simp_all
    qed
  qed
qed

lemma cookie_header_length: "(n, v) \<in> set ps \<Longrightarrow> length n \<le> length (cookie_header ps)"
  by (induction ps rule: cookie_header.induct) auto

lemma find_cookie_long: "length (cookie_header ps) < length name \<Longrightarrow> find_cookie name ps = None"
proof -
  assume long: "length (cookie_header ps) < length name"
  have "\<not> same_name n name" if "(n, v) \<in> set ps" for n v
    using cookie_header_length [OF that] long map_eq_imp_length_eq [of ngx_tolower n ngx_tolower name]
    by (auto simp: same_name_def)
  then show ?thesis by (auto simp: find_cookie_def find_None_iff)
qed

text \<open>C30. In a header value that is a list of pairs \<open>name=value\<close>, \<open>ngx_http_parse_multi_header_lines\<close> finds the value of the first
  pair with the given name, compared without regard to case, and declines if there is none; it reads nothing behind
  the byte that terminates the value.\<close>

theorem cookie_found:
  assumes "cookie_name name" "\<forall>(n, v) \<in> set ps. cookie_name n \<and> cookie_value v"
  shows "ngx_http_parse_multi_header_lines [(cookie_header ps, NUL # after)] name True =
    Some (map_option (Pair 0) (find_cookie name ps))"
proof -
  let ?mem = "cookie_header ps @ NUL # after"
  obtain r where r: "mh_loop name True ?mem (length (cookie_header ps)) 0 = Some r"
    "case find_cookie name ps of None \<Rightarrow> r = Mh_none | Some v \<Rightarrow> \<exists>a b. r = Mh_value a b \<and> slice ?mem a b = v"
    using cookie_loop [OF assms, of ?mem "[]" after "length (cookie_header ps)"] by auto
  show ?thesis
  proof (cases "length (cookie_header ps) < length name")
    case True
    then show ?thesis by (simp add: ngx_http_parse_multi_header_lines_def find_cookie_long)
  next
    case False
    then show ?thesis using r by (auto simp: ngx_http_parse_multi_header_lines_def split: option.splits)
  qed
qed

theorem cookie_found_witness:
  "ngx_http_parse_multi_header_lines [(cookie_header [(bytes ''id'', bytes ''7''), (bytes ''ID2'', bytes ''x=y'')], [NUL])]
     (bytes ''id2'') True = Some (Some (0, bytes ''x=y''))"
  using cookie_found [of "bytes ''id2''" "[(bytes ''id'', bytes ''7''), (bytes ''ID2'', bytes ''x=y'')]" "[]"]
  by (simp add: cookie_name_def cookie_value_def bytes_def find_cookie_def same_name_def ngx_tolower_def ch_defs)

text \<open>A field that is the bare name hides the field after it: the byte after the name is passed over even if it is the
  semicolon that ends the field.\<close>

lemma cookie_hidden_by_bare_name:
  "ngx_http_parse_multi_header_lines [(bytes ''a; a=1'', [NUL])] (bytes ''a'') True = Some None"
  by (simp add: ngx_http_parse_multi_header_lines_def bytes_def mh_loop.simps mh_body_def mh_skip_def mh_field.simps mh_spaces.simps
      ngx_tolower_def ch_defs)

text \<open>A \<open>Set-Cookie\<close> line gives the value of its first pair, and no other.\<close>

lemma set_cookie_found:
  assumes "cookie_name name" "cookie_name n" "cookie_value v" "same_name n name"
  shows "ngx_http_parse_set_cookie_lines [(cookie_header ((n, v) # ps), NUL # after)] name = Some (Some (0, v))"
proof -
  let ?w = "cookie_header ((n, v) # ps)" and ?mem = "cookie_header ((n, v) # ps) @ NUL # after"
  have len: "length name = length n" using assms(4) map_eq_imp_length_eq [of ngx_tolower n ngx_tolower name]
    by (simp add: same_name_def)
  have "ngx_strncasecmp ?mem name (length name) = Some 0"
    using casecmp_terminated [of name ?w after] prefix_in_name [of name n "v @ cookie_tail ps"] assms(1,4) len
    unfolding cookie_header_Cons by (auto simp: cookie_name_def same_name_def)
  moreover have m: "?mem ! length n = c_eq" "length n < length ?w" by (simp_all add: cookie_header_Cons nth_append)
  moreover have "mh_spaces ?mem (length ?w) (length n) = length n" using m by (simp add: mh_spaces_stop)
  ultimately have "set_cookie_line name ?mem (length ?w) = Some (Mh_value (length (n @ [c_eq])) (length (n @ c_eq # v)))"
    using mh_value_pair [OF assms(2,3), of ?mem "[]" ps "NUL # after" "length ?w"] len
    by (simp add: set_cookie_line_def Let_def)
  moreover have "slice ?mem (length (n @ [c_eq])) (length (n @ c_eq # v)) = v" by (simp add: slice_def cookie_header_Cons)
  ultimately show ?thesis using m(2) len by (simp add: ngx_http_parse_set_cookie_lines_def)
qed

end
