(* ===== verification/Ngx_Rbtree.thy ===== *)
theory Ngx_Rbtree
  imports Ngx_Prelude "HOL-Library.Monad_Syntax"
begin

text \<open>
  The red-black tree of \<^verbatim>\<open>core/ngx_rbtree.c\<close> and \<^verbatim>\<open>core/ngx_rbtree.h\<close>, which holds the timers of the event
  loop, the entries of the resolver and of the shared memory zones. The nodes are in a heap: a map from addresses to records with the
  fields of \<^verbatim>\<open>ngx_rbtree_node_t\<close>. Every function takes the heap and returns it changed, in the option monad: \<^const>\<open>None\<close>
  is the use of a pointer to no node, or a loop that does not end. The fields \<^verbatim>\<open>data\<close> and those of the struct that a node is part of
  are not touched by this code and are not in the record; the colour byte is \<^const>\<open>True\<close> for red.
\<close>

section \<open>Nodes and the heap\<close>

record ngx_rbtree_node =
  rb_key :: ngx_uint_t
  rb_left :: ptr
  rb_right :: ptr
  rb_parent :: ptr
  rb_red :: bool

type_synonym rb_heap = "nat \<rightharpoonup> ngx_rbtree_node"

text \<open>\<open>*p\<close>, and an assignment to fields of \<open>*p\<close>. Both fail for \<open>NULL\<close> and for a pointer to no node.\<close>

definition rb_get :: "rb_heap \<Rightarrow> ptr \<Rightarrow> ngx_rbtree_node option" where
  "rb_get h p = (case p of None \<Rightarrow> None | Some a \<Rightarrow> h a)"

definition rb_set :: "ptr \<Rightarrow> (ngx_rbtree_node \<Rightarrow> ngx_rbtree_node) \<Rightarrow> rb_heap \<Rightarrow> rb_heap option" where
  "rb_set p f h =
    (case p of
       None \<Rightarrow> None
     | Some a \<Rightarrow> case h a of None \<Rightarrow> None | Some n \<Rightarrow> Some (h(a \<mapsto> f n)))"

text \<open>The macros \<open>ngx_rbt_red\<close>, \<open>ngx_rbt_black\<close>, \<open>ngx_rbt_is_red\<close> and \<open>ngx_rbt_copy_color\<close>.\<close>

definition ngx_rbt_red :: "ptr \<Rightarrow> rb_heap \<Rightarrow> rb_heap option" where
  "ngx_rbt_red p = rb_set p (\<lambda>n. n\<lparr>rb_red := True\<rparr>)"

definition ngx_rbt_black :: "ptr \<Rightarrow> rb_heap \<Rightarrow> rb_heap option" where
  "ngx_rbt_black p = rb_set p (\<lambda>n. n\<lparr>rb_red := False\<rparr>)"

definition ngx_rbt_is_red :: "rb_heap \<Rightarrow> ptr \<Rightarrow> bool option" where
  "ngx_rbt_is_red h p = map_option rb_red (rb_get h p)"

text \<open>The fields of \<open>*p\<close>.\<close>

definition rd_left :: "rb_heap \<Rightarrow> ptr \<Rightarrow> ptr option" where
  "rd_left h p = map_option rb_left (rb_get h p)"

definition rd_right :: "rb_heap \<Rightarrow> ptr \<Rightarrow> ptr option" where
  "rd_right h p = map_option rb_right (rb_get h p)"

definition rd_parent :: "rb_heap \<Rightarrow> ptr \<Rightarrow> ptr option" where
  "rd_parent h p = map_option rb_parent (rb_get h p)"

definition rd_key :: "rb_heap \<Rightarrow> ptr \<Rightarrow> ngx_uint_t option" where
  "rd_key h p = map_option rb_key (rb_get h p)"

definition wr_left :: "ptr \<Rightarrow> ptr \<Rightarrow> rb_heap \<Rightarrow> rb_heap option" where
  "wr_left p q = rb_set p (\<lambda>n. n\<lparr>rb_left := q\<rparr>)"

definition wr_right :: "ptr \<Rightarrow> ptr \<Rightarrow> rb_heap \<Rightarrow> rb_heap option" where
  "wr_right p q = rb_set p (\<lambda>n. n\<lparr>rb_right := q\<rparr>)"

definition wr_parent :: "ptr \<Rightarrow> ptr \<Rightarrow> rb_heap \<Rightarrow> rb_heap option" where
  "wr_parent p q = rb_set p (\<lambda>n. n\<lparr>rb_parent := q\<rparr>)"

text \<open>\<open>ngx_rbtree_t\<close> without the callback \<open>insert\<close>, which is an argument of the operation that calls it.\<close>

record ngx_rbtree =
  rb_root :: ptr
  rb_sentinel :: ptr

text \<open>\<open>ngx_rbtree_init\<close> with the sentinel at the address \<open>s\<close>; the sentinel is made black.\<close>

definition ngx_rbtree_init :: "nat \<Rightarrow> rb_heap \<Rightarrow> (ngx_rbtree \<times> rb_heap) option" where
  "ngx_rbtree_init s h =
    do {
      h \<leftarrow> ngx_rbt_black (Some s) h;
      Some (\<lparr>rb_root = Some s, rb_sentinel = Some s\<rparr>, h)
    }"

section \<open>Rotations\<close>

text \<open>The functions get \<open>root\<close> by reference and return its value.\<close>

definition ngx_rbtree_left_rotate :: "ptr \<Rightarrow> ptr \<Rightarrow> ptr \<Rightarrow> rb_heap \<Rightarrow> (ptr \<times> rb_heap) option" where
  "ngx_rbtree_left_rotate root sentinel node h =
    do {
      temp \<leftarrow> rd_right h node;
      tl \<leftarrow> rd_left h temp;
      h \<leftarrow> wr_right node tl h;
      tl \<leftarrow> rd_left h temp;
      h \<leftarrow> (if tl \<noteq> sentinel then wr_parent tl node h else Some h);
      np \<leftarrow> rd_parent h node;
      h \<leftarrow> wr_parent temp np h;
      (root, h) \<leftarrow>
        (if node = root then Some (temp, h)
         else do {
           np \<leftarrow> rd_parent h node;
           npl \<leftarrow> rd_left h np;
           h \<leftarrow> (if node = npl then wr_left np temp h else wr_right np temp h);
           Some (root, h)
         });
      h \<leftarrow> wr_left temp node h;
      h \<leftarrow> wr_parent node temp h;
      Some (root, h)
    }"

definition ngx_rbtree_right_rotate :: "ptr \<Rightarrow> ptr \<Rightarrow> ptr \<Rightarrow> rb_heap \<Rightarrow> (ptr \<times> rb_heap) option" where
  "ngx_rbtree_right_rotate root sentinel node h =
    do {
      temp \<leftarrow> rd_left h node;
      tr \<leftarrow> rd_right h temp;
      h \<leftarrow> wr_left node tr h;
      tr \<leftarrow> rd_right h temp;
      h \<leftarrow> (if tr \<noteq> sentinel then wr_parent tr node h else Some h);
      np \<leftarrow> rd_parent h node;
      h \<leftarrow> wr_parent temp np h;
      (root, h) \<leftarrow>
        (if node = root then Some (temp, h)
         else do {
           np \<leftarrow> rd_parent h node;
           npr \<leftarrow> rd_right h np;
           h \<leftarrow> (if node = npr then wr_right np temp h else wr_left np temp h);
           Some (root, h)
         });
      h \<leftarrow> wr_right temp node h;
      h \<leftarrow> wr_parent node temp h;
      Some (root, h)
    }"

section \<open>Insertion\<close>

text \<open>The callbacks. The loop finds the place; \<open>None\<close> stands for a bad pointer and for not ending.\<close>

datatype rb_link = Left_of ptr | Right_of ptr

definition rb_store :: "rb_link \<Rightarrow> ptr \<Rightarrow> rb_heap \<Rightarrow> rb_heap option" where
  "rb_store p node h = (case p of Left_of q \<Rightarrow> wr_left q node h | Right_of q \<Rightarrow> wr_right q node h)"

definition rb_load :: "rb_heap \<Rightarrow> rb_link \<Rightarrow> ptr option" where
  "rb_load h p = (case p of Left_of q \<Rightarrow> rd_left h q | Right_of q \<Rightarrow> rd_right h q)"

text \<open>The end of the callbacks: \<open>*p = node\<close> and the fields of the new node.\<close>

definition rb_attach :: "rb_link \<Rightarrow> ptr \<Rightarrow> ptr \<Rightarrow> ptr \<Rightarrow> rb_heap \<Rightarrow> rb_heap option" where
  "rb_attach p temp node sentinel h =
    do {
      h \<leftarrow> rb_store p node h;
      h \<leftarrow> wr_parent node temp h;
      h \<leftarrow> wr_left node sentinel h;
      h \<leftarrow> wr_right node sentinel h;
      ngx_rbt_red node h
    }"

partial_function (option) insert_value_loop :: "ptr \<Rightarrow> ptr \<Rightarrow> ptr \<Rightarrow> rb_heap \<Rightarrow> (rb_link \<times> ptr) option" where
  "insert_value_loop temp node sentinel h =
    do {
      nk \<leftarrow> rd_key h node;
      tk \<leftarrow> rd_key h temp;
      let p = (if nk < tk then Left_of temp else Right_of temp);
      q \<leftarrow> rb_load h p;
      if q = sentinel then Some (p, temp) else insert_value_loop q node sentinel h
    }"

definition ngx_rbtree_insert_value :: "ptr \<Rightarrow> ptr \<Rightarrow> ptr \<Rightarrow> rb_heap \<Rightarrow> rb_heap option" where
  "ngx_rbtree_insert_value temp node sentinel h =
    do {
      (p, temp) \<leftarrow> insert_value_loop temp node sentinel h;
      rb_attach p temp node sentinel h
    }"

text \<open>The comparison of timers: \<open>(ngx_rbtree_key_int_t) (node->key - temp->key) < 0\<close>.\<close>

partial_function (option) insert_timer_value_loop :: "ptr \<Rightarrow> ptr \<Rightarrow> ptr \<Rightarrow> rb_heap \<Rightarrow> (rb_link \<times> ptr) option" where
  "insert_timer_value_loop temp node sentinel h =
    do {
      nk \<leftarrow> rd_key h node;
      tk \<leftarrow> rd_key h temp;
      let p = (if sint (nk - tk) < 0 then Left_of temp else Right_of temp);
      q \<leftarrow> rb_load h p;
      if q = sentinel then Some (p, temp) else insert_timer_value_loop q node sentinel h
    }"

definition ngx_rbtree_insert_timer_value :: "ptr \<Rightarrow> ptr \<Rightarrow> ptr \<Rightarrow> rb_heap \<Rightarrow> rb_heap option" where
  "ngx_rbtree_insert_timer_value temp node sentinel h =
    do {
      (p, temp) \<leftarrow> insert_timer_value_loop temp node sentinel h;
      rb_attach p temp node sentinel h
    }"

text \<open>The body of the loop that re-balances, for a parent that is the left child, and for one that is the right child. The
  result is the new value of \<open>node\<close>, of \<open>*root\<close> and the heap.\<close>

definition rb_recolor :: "ptr \<Rightarrow> ptr \<Rightarrow> ptr \<Rightarrow> ptr \<Rightarrow> rb_heap \<Rightarrow> (ptr \<times> ptr \<times> rb_heap) option" where
  "rb_recolor root np temp ngp h =
    do {
      h \<leftarrow> ngx_rbt_black np h;
      h \<leftarrow> ngx_rbt_black temp h;
      h \<leftarrow> ngx_rbt_red ngp h;
      Some (ngp, root, h)
    }"

definition insert_fix_left :: "ptr \<Rightarrow> ptr \<Rightarrow> ptr \<Rightarrow> rb_heap \<Rightarrow> (ptr \<times> ptr \<times> rb_heap) option" where
  "insert_fix_left root sentinel node h =
    do {
      np \<leftarrow> rd_parent h node;
      ngp \<leftarrow> rd_parent h np;
      temp \<leftarrow> rd_right h ngp;
      tr \<leftarrow> ngx_rbt_is_red h temp;
      if tr then rb_recolor root np temp ngp h
      else do {
        npr \<leftarrow> rd_right h np;
        (node, root, h) \<leftarrow>
          (if node = npr then do {
             (root, h) \<leftarrow> ngx_rbtree_left_rotate root sentinel np h;
             Some (np, root, h)
           }
           else Some (node, root, h));
        np \<leftarrow> rd_parent h node;
        h \<leftarrow> ngx_rbt_black np h;
        np \<leftarrow> rd_parent h node;
        ngp \<leftarrow> rd_parent h np;
        h \<leftarrow> ngx_rbt_red ngp h;
        np \<leftarrow> rd_parent h node;
        ngp \<leftarrow> rd_parent h np;
        (root, h) \<leftarrow> ngx_rbtree_right_rotate root sentinel ngp h;
        Some (node, root, h)
      }
    }"

definition insert_fix_right :: "ptr \<Rightarrow> ptr \<Rightarrow> ptr \<Rightarrow> rb_heap \<Rightarrow> (ptr \<times> ptr \<times> rb_heap) option" where
  "insert_fix_right root sentinel node h =
    do {
      np \<leftarrow> rd_parent h node;
      ngp \<leftarrow> rd_parent h np;
      temp \<leftarrow> rd_left h ngp;
      tr \<leftarrow> ngx_rbt_is_red h temp;
      if tr then rb_recolor root np temp ngp h
      else do {
        npl \<leftarrow> rd_left h np;
        (node, root, h) \<leftarrow>
          (if node = npl then do {
             (root, h) \<leftarrow> ngx_rbtree_right_rotate root sentinel np h;
             Some (np, root, h)
           }
           else Some (node, root, h));
        np \<leftarrow> rd_parent h node;
        h \<leftarrow> ngx_rbt_black np h;
        np \<leftarrow> rd_parent h node;
        ngp \<leftarrow> rd_parent h np;
        h \<leftarrow> ngx_rbt_red ngp h;
        np \<leftarrow> rd_parent h node;
        ngp \<leftarrow> rd_parent h np;
        (root, h) \<leftarrow> ngx_rbtree_left_rotate root sentinel ngp h;
        Some (node, root, h)
      }
    }"

definition insert_fix_body :: "ptr \<Rightarrow> ptr \<Rightarrow> ptr \<Rightarrow> rb_heap \<Rightarrow> (ptr \<times> ptr \<times> rb_heap) option" where
  "insert_fix_body root sentinel node h =
    do {
      np \<leftarrow> rd_parent h node;
      ngp \<leftarrow> rd_parent h np;
      l \<leftarrow> rd_left h ngp;
      if np = l then insert_fix_left root sentinel node h else insert_fix_right root sentinel node h
    }"

partial_function (option) insert_fix_loop :: "ptr \<Rightarrow> ptr \<Rightarrow> ptr \<Rightarrow> rb_heap \<Rightarrow> (ptr \<times> rb_heap) option" where
  "insert_fix_loop root sentinel node h =
    (if node = root then Some (root, h)
     else do {
       np \<leftarrow> rd_parent h node;
       red \<leftarrow> ngx_rbt_is_red h np;
       if \<not> red then Some (root, h)
       else do {
         (node, root, h) \<leftarrow> insert_fix_body root sentinel node h;
         insert_fix_loop root sentinel node h
       }
     })"

definition ngx_rbtree_insert ::
  "(ptr \<Rightarrow> ptr \<Rightarrow> ptr \<Rightarrow> rb_heap \<Rightarrow> rb_heap option) \<Rightarrow> ngx_rbtree \<Rightarrow> ptr \<Rightarrow> rb_heap \<Rightarrow> (ngx_rbtree \<times> rb_heap) option" where
  "ngx_rbtree_insert ins tree node h =
    (let root = rb_root tree; sentinel = rb_sentinel tree in
     if root = sentinel then do {
       h \<leftarrow> wr_parent node None h;
       h \<leftarrow> wr_left node sentinel h;
       h \<leftarrow> wr_right node sentinel h;
       h \<leftarrow> ngx_rbt_black node h;
       Some (tree\<lparr>rb_root := node\<rparr>, h)
     }
     else do {
       h \<leftarrow> ins root node sentinel h;
       (root, h) \<leftarrow> insert_fix_loop root sentinel node h;
       h \<leftarrow> ngx_rbt_black root h;
       Some (tree\<lparr>rb_root := root\<rparr>, h)
     })"

section \<open>Walking the tree\<close>

partial_function (option) ngx_rbtree_min :: "ptr \<Rightarrow> ptr \<Rightarrow> rb_heap \<Rightarrow> ptr option" where
  "ngx_rbtree_min node sentinel h =
    do {
      l \<leftarrow> rd_left h node;
      if l \<noteq> sentinel then ngx_rbtree_min l sentinel h else Some node
    }"

partial_function (option) next_up :: "ptr \<Rightarrow> ptr \<Rightarrow> rb_heap \<Rightarrow> ptr option" where
  "next_up root node h =
    do {
      parent \<leftarrow> rd_parent h node;
      if node = root then Some None
      else do {
        l \<leftarrow> rd_left h parent;
        if node = l then Some parent else next_up root parent h
      }
    }"

definition ngx_rbtree_next :: "ngx_rbtree \<Rightarrow> ptr \<Rightarrow> rb_heap \<Rightarrow> ptr option" where
  "ngx_rbtree_next tree node h =
    do {
      r \<leftarrow> rd_right h node;
      if r \<noteq> rb_sentinel tree then ngx_rbtree_min r (rb_sentinel tree) h
      else next_up (rb_root tree) node h
    }"

section \<open>Deletion\<close>

definition ngx_rbt_copy_color :: "ptr \<Rightarrow> ptr \<Rightarrow> rb_heap \<Rightarrow> rb_heap option" where
  "ngx_rbt_copy_color n1 n2 h = do { c \<leftarrow> ngx_rbt_is_red h n2; rb_set n1 (\<lambda>n. n\<lparr>rb_red := c\<rparr>) h }"

text \<open>The assignments marked \<open>DEBUG stuff\<close>.\<close>

definition rb_clear :: "ptr \<Rightarrow> rb_heap \<Rightarrow> rb_heap option" where
  "rb_clear node h =
    do {
      h \<leftarrow> wr_left node None h;
      h \<leftarrow> wr_right node None h;
      h \<leftarrow> wr_parent node None h;
      rb_set node (\<lambda>n. n\<lparr>rb_key := 0\<rparr>) h
    }"

text \<open>The node \<open>subst\<close> that is taken out of its place, and its child \<open>temp\<close>.\<close>

definition delete_subst :: "ptr \<Rightarrow> ptr \<Rightarrow> rb_heap \<Rightarrow> (ptr \<times> ptr) option" where
  "delete_subst sentinel node h =
    do {
      nl \<leftarrow> rd_left h node;
      nr \<leftarrow> rd_right h node;
      if nl = sentinel then Some (nr, node)
      else if nr = sentinel then Some (nl, node)
      else do {
        subst \<leftarrow> ngx_rbtree_min nr sentinel h;
        sl \<leftarrow> rd_left h subst;
        if sl \<noteq> sentinel then Some (sl, subst)
        else do {
          sr \<leftarrow> rd_right h subst;
          Some (sr, subst)
        }
      }
    }"

text \<open>\<open>temp\<close> takes the place of \<open>subst\<close>, and \<open>subst\<close> the place of \<open>node\<close>.\<close>

definition delete_replace :: "ptr \<Rightarrow> ptr \<Rightarrow> ptr \<Rightarrow> ptr \<Rightarrow> rb_heap \<Rightarrow> (ptr \<times> rb_heap) option" where
  "delete_replace root sentinel node subst h =
    do {
      nl \<leftarrow> rd_left h node;
      h \<leftarrow> wr_left subst nl h;
      nr \<leftarrow> rd_right h node;
      h \<leftarrow> wr_right subst nr h;
      np \<leftarrow> rd_parent h node;
      h \<leftarrow> wr_parent subst np h;
      h \<leftarrow> ngx_rbt_copy_color subst node h;
      (root, h) \<leftarrow>
        (if node = root then Some (subst, h)
         else do {
           np \<leftarrow> rd_parent h node;
           npl \<leftarrow> rd_left h np;
           h \<leftarrow> (if node = npl then wr_left np subst h else wr_right np subst h);
           Some (root, h)
         });
      sl \<leftarrow> rd_left h subst;
      h \<leftarrow> (if sl \<noteq> sentinel then wr_parent sl subst h else Some h);
      sr \<leftarrow> rd_right h subst;
      h \<leftarrow> (if sr \<noteq> sentinel then wr_parent sr subst h else Some h);
      Some (root, h)
    }"

definition delete_unlink :: "ptr \<Rightarrow> ptr \<Rightarrow> ptr \<Rightarrow> ptr \<Rightarrow> ptr \<Rightarrow> rb_heap \<Rightarrow> (ptr \<times> rb_heap) option" where
  "delete_unlink root sentinel node subst temp h =
    do {
      sp \<leftarrow> rd_parent h subst;
      spl \<leftarrow> rd_left h sp;
      h \<leftarrow> (if subst = spl then wr_left sp temp h else wr_right sp temp h);
      sp \<leftarrow> rd_parent h subst;
      if subst = node then do {
        h \<leftarrow> wr_parent temp sp h;
        Some (root, h)
      }
      else do {
        h \<leftarrow> (if sp = node then wr_parent temp subst h else wr_parent temp sp h);
        delete_replace root sentinel node subst h
      }
    }"

text \<open>The body of the loop that re-balances where \<open>temp\<close> is a left child: the case of a red sibling \<open>w\<close>, and the rest.\<close>

definition delete_red_left :: "ptr \<Rightarrow> ptr \<Rightarrow> ptr \<Rightarrow> ptr \<Rightarrow> rb_heap \<Rightarrow> (ptr \<times> ptr \<times> rb_heap) option" where
  "delete_red_left root sentinel temp w h =
    do {
      h \<leftarrow> ngx_rbt_black w h;
      tp \<leftarrow> rd_parent h temp;
      h \<leftarrow> ngx_rbt_red tp h;
      tp \<leftarrow> rd_parent h temp;
      (root, h) \<leftarrow> ngx_rbtree_left_rotate root sentinel tp h;
      tp \<leftarrow> rd_parent h temp;
      w \<leftarrow> rd_right h tp;
      Some (root, w, h)
    }"

definition delete_rotate_left :: "ptr \<Rightarrow> ptr \<Rightarrow> ptr \<Rightarrow> ptr \<Rightarrow> rb_heap \<Rightarrow> (ptr \<times> ptr \<times> rb_heap) option" where
  "delete_rotate_left root sentinel temp w h =
    do {
      wr \<leftarrow> rd_right h w;
      rr \<leftarrow> ngx_rbt_is_red h wr;
      (root, w, h) \<leftarrow>
        (if \<not> rr then do {
           wl \<leftarrow> rd_left h w;
           h \<leftarrow> ngx_rbt_black wl h;
           h \<leftarrow> ngx_rbt_red w h;
           (root, h) \<leftarrow> ngx_rbtree_right_rotate root sentinel w h;
           tp \<leftarrow> rd_parent h temp;
           w \<leftarrow> rd_right h tp;
           Some (root, w, h)
         }
         else Some (root, w, h));
      tp \<leftarrow> rd_parent h temp;
      h \<leftarrow> ngx_rbt_copy_color w tp h;
      tp \<leftarrow> rd_parent h temp;
      h \<leftarrow> ngx_rbt_black tp h;
      wr \<leftarrow> rd_right h w;
      h \<leftarrow> ngx_rbt_black wr h;
      tp \<leftarrow> rd_parent h temp;
      (root, h) \<leftarrow> ngx_rbtree_left_rotate root sentinel tp h;
      Some (root, root, h)
    }"

definition delete_black_left :: "ptr \<Rightarrow> ptr \<Rightarrow> ptr \<Rightarrow> ptr \<Rightarrow> rb_heap \<Rightarrow> (ptr \<times> ptr \<times> rb_heap) option" where
  "delete_black_left root sentinel temp w h =
    do {
      wl \<leftarrow> rd_left h w;
      lr \<leftarrow> ngx_rbt_is_red h wl;
      both \<leftarrow>
        (if lr then Some False
         else do {
           wr \<leftarrow> rd_right h w;
           rr \<leftarrow> ngx_rbt_is_red h wr;
           Some (\<not> rr)
         });
      if both then do {
        h \<leftarrow> ngx_rbt_red w h;
        tp \<leftarrow> rd_parent h temp;
        Some (root, tp, h)
      }
      else delete_rotate_left root sentinel temp w h
    }"

definition delete_fix_left :: "ptr \<Rightarrow> ptr \<Rightarrow> ptr \<Rightarrow> rb_heap \<Rightarrow> (ptr \<times> ptr \<times> rb_heap) option" where
  "delete_fix_left root sentinel temp h =
    do {
      tp \<leftarrow> rd_parent h temp;
      w \<leftarrow> rd_right h tp;
      red \<leftarrow> ngx_rbt_is_red h w;
      (root, w, h) \<leftarrow> (if red then delete_red_left root sentinel temp w h else Some (root, w, h));
      delete_black_left root sentinel temp w h
    }"

text \<open>The same where \<open>temp\<close> is a right child.\<close>

definition delete_red_right :: "ptr \<Rightarrow> ptr \<Rightarrow> ptr \<Rightarrow> ptr \<Rightarrow> rb_heap \<Rightarrow> (ptr \<times> ptr \<times> rb_heap) option" where
  "delete_red_right root sentinel temp w h =
    do {
      h \<leftarrow> ngx_rbt_black w h;
      tp \<leftarrow> rd_parent h temp;
      h \<leftarrow> ngx_rbt_red tp h;
      tp \<leftarrow> rd_parent h temp;
      (root, h) \<leftarrow> ngx_rbtree_right_rotate root sentinel tp h;
      tp \<leftarrow> rd_parent h temp;
      w \<leftarrow> rd_left h tp;
      Some (root, w, h)
    }"

definition delete_rotate_right :: "ptr \<Rightarrow> ptr \<Rightarrow> ptr \<Rightarrow> ptr \<Rightarrow> rb_heap \<Rightarrow> (ptr \<times> ptr \<times> rb_heap) option" where
  "delete_rotate_right root sentinel temp w h =
    do {
      wl \<leftarrow> rd_left h w;
      lr \<leftarrow> ngx_rbt_is_red h wl;
      (root, w, h) \<leftarrow>
        (if \<not> lr then do {
           wr \<leftarrow> rd_right h w;
           h \<leftarrow> ngx_rbt_black wr h;
           h \<leftarrow> ngx_rbt_red w h;
           (root, h) \<leftarrow> ngx_rbtree_left_rotate root sentinel w h;
           tp \<leftarrow> rd_parent h temp;
           w \<leftarrow> rd_left h tp;
           Some (root, w, h)
         }
         else Some (root, w, h));
      tp \<leftarrow> rd_parent h temp;
      h \<leftarrow> ngx_rbt_copy_color w tp h;
      tp \<leftarrow> rd_parent h temp;
      h \<leftarrow> ngx_rbt_black tp h;
      wl \<leftarrow> rd_left h w;
      h \<leftarrow> ngx_rbt_black wl h;
      tp \<leftarrow> rd_parent h temp;
      (root, h) \<leftarrow> ngx_rbtree_right_rotate root sentinel tp h;
      Some (root, root, h)
    }"

definition delete_black_right :: "ptr \<Rightarrow> ptr \<Rightarrow> ptr \<Rightarrow> ptr \<Rightarrow> rb_heap \<Rightarrow> (ptr \<times> ptr \<times> rb_heap) option" where
  "delete_black_right root sentinel temp w h =
    do {
      wl \<leftarrow> rd_left h w;
      lr \<leftarrow> ngx_rbt_is_red h wl;
      both \<leftarrow>
        (if lr then Some False
         else do {
           wr \<leftarrow> rd_right h w;
           rr \<leftarrow> ngx_rbt_is_red h wr;
           Some (\<not> rr)
         });
      if both then do {
        h \<leftarrow> ngx_rbt_red w h;
        tp \<leftarrow> rd_parent h temp;
        Some (root, tp, h)
      }
      else delete_rotate_right root sentinel temp w h
    }"

definition delete_fix_right :: "ptr \<Rightarrow> ptr \<Rightarrow> ptr \<Rightarrow> rb_heap \<Rightarrow> (ptr \<times> ptr \<times> rb_heap) option" where
  "delete_fix_right root sentinel temp h =
    do {
      tp \<leftarrow> rd_parent h temp;
      w \<leftarrow> rd_left h tp;
      red \<leftarrow> ngx_rbt_is_red h w;
      (root, w, h) \<leftarrow> (if red then delete_red_right root sentinel temp w h else Some (root, w, h));
      delete_black_right root sentinel temp w h
    }"

partial_function (option) delete_fix_loop :: "ptr \<Rightarrow> ptr \<Rightarrow> ptr \<Rightarrow> rb_heap \<Rightarrow> (ptr \<times> ptr \<times> rb_heap) option" where
  "delete_fix_loop root sentinel temp h =
    (if temp = root then Some (root, temp, h)
     else do {
       red \<leftarrow> ngx_rbt_is_red h temp;
       if red then Some (root, temp, h)
       else do {
         tp \<leftarrow> rd_parent h temp;
         l \<leftarrow> rd_left h tp;
         (root, temp, h) \<leftarrow>
           (if temp = l then delete_fix_left root sentinel temp h else delete_fix_right root sentinel temp h);
         delete_fix_loop root sentinel temp h
       }
     })"

definition ngx_rbtree_delete :: "ngx_rbtree \<Rightarrow> ptr \<Rightarrow> rb_heap \<Rightarrow> (ngx_rbtree \<times> rb_heap) option" where
  "ngx_rbtree_delete tree node h =
    (let root = rb_root tree; sentinel = rb_sentinel tree in
     do {
       (temp, subst) \<leftarrow> delete_subst sentinel node h;
       if subst = root then do {
         h \<leftarrow> ngx_rbt_black temp h;
         h \<leftarrow> rb_clear node h;
         Some (tree\<lparr>rb_root := temp\<rparr>, h)
       }
       else do {
         red \<leftarrow> ngx_rbt_is_red h subst;
         (root, h) \<leftarrow> delete_unlink root sentinel node subst temp h;
         h \<leftarrow> rb_clear node h;
         if red then Some (tree\<lparr>rb_root := root\<rparr>, h)
         else do {
           (root, temp, h) \<leftarrow> delete_fix_loop root sentinel temp h;
           h \<leftarrow> ngx_rbt_black temp h;
           Some (tree\<lparr>rb_root := root\<rparr>, h)
         }
       }
     })"

end
