(* ===== verification/Ngx_Rbtree_Heap.thy ===== *)
theory Ngx_Rbtree_Heap
  imports Ngx_Rbtree
begin

text \<open>
  How a tree lies in the heap of \<^verbatim>\<open>Ngx_Rbtree\<close>: as a whole, and split into a subtree and the path above it; and what a rotation
  and a change of colour do to it. The two directions are mirror images, so that only the left rotation is run.
\<close>

section \<open>Trees and their place in the heap\<close>

text \<open>A tree of nodes, each with its address, its key and whether it is red.\<close>

datatype rbt = Lf | Nd rbt nat ngx_uint_t bool rbt

fun nodes :: "rbt \<Rightarrow> (nat \<times> ngx_uint_t) list" where
  "nodes Lf = []"
| "nodes (Nd l a k c r) = nodes l @ (a, k) # nodes r"

definition addrs :: "rbt \<Rightarrow> nat set" where
  "addrs t = fst ` set (nodes t)"

lemma addrs_simps [simp]: "addrs Lf = {}" "addrs (Nd l a k c r) = insert a (addrs l \<union> addrs r)"
  by (auto simp: addrs_def)

fun uniq :: "rbt \<Rightarrow> bool" where
  "uniq Lf = True"
| "uniq (Nd l a k c r) \<longleftrightarrow> a \<notin> addrs l \<and> a \<notin> addrs r \<and> addrs l \<inter> addrs r = {} \<and> uniq l \<and> uniq r"

lemma uniq_distinct: "uniq t \<longleftrightarrow> distinct (map fst (nodes t))"
  by (induction t) (auto simp: addrs_def)

text \<open>The pointer to a tree; the sentinel \<open>s\<close> stands for the empty tree.\<close>

fun pt :: "nat \<Rightarrow> rbt \<Rightarrow> ptr" where
  "pt s Lf = Some s"
| "pt s (Nd l a k c r) = Some a"

fun rep :: "rb_heap \<Rightarrow> nat \<Rightarrow> ptr \<Rightarrow> rbt \<Rightarrow> bool" where
  "rep h s par Lf = True"
| "rep h s par (Nd l a k c r) \<longleftrightarrow> a \<noteq> s \<and>
     h a = Some \<lparr>rb_key = k, rb_left = pt s l, rb_right = pt s r, rb_parent = par, rb_red = c\<rparr> \<and>
     rep h s (Some a) l \<and> rep h s (Some a) r"

lemma rep_cong: "\<forall>x \<in> addrs t. h x = h' x \<Longrightarrow> rep h s par t = rep h' s par t"
  by (induction t arbitrary: par) auto

lemma rep_upd [simp]: "a \<notin> addrs t \<Longrightarrow> rep (h(a := n)) s par t = rep h s par t"
  by (rule rep_cong) auto

lemma rep_sentinel: "rep h s par t \<Longrightarrow> s \<notin> addrs t"
  by (induction t arbitrary: par) auto

lemma pt_addrs: "pt s t = Some a \<longleftrightarrow> (t = Lf \<and> a = s) \<or> (\<exists>l k c r. t = Nd l a k c r)"
  by (cases t) auto

lemma pt_neq [simp]: "a \<noteq> s \<Longrightarrow> a \<notin> addrs t \<Longrightarrow> pt s t \<noteq> Some a" "a \<noteq> s \<Longrightarrow> a \<notin> addrs t \<Longrightarrow> Some a \<noteq> pt s t"
  by (cases t; auto)+

text \<open>A position in a tree: the nodes on the way to the root, the nearest first, each with its other subtree.\<close>

datatype frame = In_left nat ngx_uint_t bool rbt | In_right rbt nat ngx_uint_t bool

fun plug :: "rbt \<Rightarrow> frame list \<Rightarrow> rbt" where
  "plug t [] = t"
| "plug t (In_left a k c r # cs) = plug (Nd t a k c r) cs"
| "plug t (In_right l a k c # cs) = plug (Nd l a k c t) cs"

fun faddr :: "frame \<Rightarrow> nat" where
  "faddr (In_left a k c r) = a"
| "faddr (In_right l a k c) = a"

fun fred :: "frame \<Rightarrow> bool" where
  "fred (In_left a k c r) = c"
| "fred (In_right l a k c) = c"

fun faddrs :: "frame \<Rightarrow> nat set" where
  "faddrs (In_left a k c r) = insert a (addrs r)"
| "faddrs (In_right l a k c) = insert a (addrs l)"

definition caddrs :: "frame list \<Rightarrow> nat set" where
  "caddrs cs = (\<Union>f \<in> set cs. faddrs f)"

lemma caddrs_simps [simp]: "caddrs [] = {}" "caddrs (f # cs) = faddrs f \<union> caddrs cs"
  by (auto simp: caddrs_def)

lemma faddr_in [simp]: "faddr f \<in> faddrs f"
  by (cases f) auto

text \<open>The parent pointer of what is at the position; \<open>rp\<close> is the one of the root.\<close>

fun up :: "ptr \<Rightarrow> frame list \<Rightarrow> ptr" where
  "up rp [] = rp"
| "up rp (f # cs) = Some (faddr f)"

fun repc :: "rb_heap \<Rightarrow> nat \<Rightarrow> ptr \<Rightarrow> ptr \<Rightarrow> ptr \<Rightarrow> frame list \<Rightarrow> bool" where
  "repc h s rp root q [] \<longleftrightarrow> root = q"
| "repc h s rp root q (In_left a k c r # cs) \<longleftrightarrow> a \<noteq> s \<and>
     h a = Some \<lparr>rb_key = k, rb_left = q, rb_right = pt s r, rb_parent = up rp cs, rb_red = c\<rparr> \<and>
     rep h s (Some a) r \<and> repc h s rp root (Some a) cs"
| "repc h s rp root q (In_right l a k c # cs) \<longleftrightarrow> a \<noteq> s \<and>
     h a = Some \<lparr>rb_key = k, rb_left = pt s l, rb_right = q, rb_parent = up rp cs, rb_red = c\<rparr> \<and>
     rep h s (Some a) l \<and> repc h s rp root (Some a) cs"

lemma repc_cong: "\<forall>x \<in> caddrs cs. h x = h' x \<Longrightarrow> repc h s rp root q cs = repc h' s rp root q cs"
proof (induction cs arbitrary: q)
  case (Cons f cs)
  then show ?case by (cases f) (auto simp: rep_cong [of _ h h'])
qed simp

lemma repc_upd [simp]: "a \<notin> caddrs cs \<Longrightarrow> repc (h(a := n)) s rp root q cs = repc h s rp root q cs"
  by (rule repc_cong) auto

fun uniqc :: "frame list \<Rightarrow> bool" where
  "uniqc [] = True"
| "uniqc (In_left a k c r # cs) \<longleftrightarrow> a \<notin> addrs r \<and> uniq r \<and> insert a (addrs r) \<inter> caddrs cs = {} \<and> uniqc cs"
| "uniqc (In_right l a k c # cs) \<longleftrightarrow> a \<notin> addrs l \<and> uniq l \<and> insert a (addrs l) \<inter> caddrs cs = {} \<and> uniqc cs"

definition zip_ok :: "rb_heap \<Rightarrow> nat \<Rightarrow> ptr \<Rightarrow> ptr \<Rightarrow> rbt \<Rightarrow> frame list \<Rightarrow> bool" where
  "zip_ok h s rp root t cs \<longleftrightarrow>
     rep h s (up rp cs) t \<and> repc h s rp root (pt s t) cs \<and> uniq t \<and> uniqc cs \<and> addrs t \<inter> caddrs cs = {}"

lemma zip_ok_left:
  "zip_ok h s rp root t (In_left a k c r # cs) \<longleftrightarrow> zip_ok h s rp root (Nd t a k c r) cs"
  by (auto simp: zip_ok_def)

lemma zip_ok_right:
  "zip_ok h s rp root t (In_right l a k c # cs) \<longleftrightarrow> zip_ok h s rp root (Nd l a k c t) cs"
  by (auto simp: zip_ok_def)

lemma zip_ok_plug: "zip_ok h s rp root t cs \<longleftrightarrow> zip_ok h s rp root (plug t cs) []"
  by (induction t cs rule: plug.induct) (auto simp: zip_ok_left zip_ok_right)

lemma addrs_plug: "addrs (plug t cs) = addrs t \<union> caddrs cs"
  by (induction t cs rule: plug.induct) auto

lemma repc_root: "repc h s rp root q cs \<Longrightarrow> cs \<noteq> [] \<Longrightarrow> \<exists>a \<in> caddrs cs. root = Some a"
proof (induction cs arbitrary: q)
  case (Cons f cs)
  then show ?case by (cases f; cases cs) force+
qed simp

definition sentinel_ok :: "rb_heap \<Rightarrow> nat \<Rightarrow> bool" where
  "sentinel_ok h s \<longleftrightarrow> (\<exists>n. h s = Some n \<and> \<not> rb_red n)"

text \<open>The effect of an operation: only nodes of the tree change.\<close>

definition same_outside :: "nat set \<Rightarrow> rb_heap \<Rightarrow> rb_heap \<Rightarrow> bool" where
  "same_outside A h h' \<longleftrightarrow> (\<forall>x. x \<notin> A \<longrightarrow> h' x = h x)"

lemmas rb_access =
  rd_left_def rd_right_def rd_parent_def rd_key_def wr_left_def wr_right_def wr_parent_def rb_get_def rb_set_def
  ngx_rbt_red_def ngx_rbt_black_def ngx_rbt_is_red_def

lemma same_outside_refl [simp]: "same_outside A h h"
  by (simp add: same_outside_def)

lemma same_outside_upd [simp]: "a \<in> A \<Longrightarrow> same_outside A h (h'(a := n)) = same_outside A h h'"
  by (auto simp: same_outside_def)

lemma same_outsideD: "same_outside A h h' \<Longrightarrow> x \<notin> A \<Longrightarrow> h' x = h x"
  by (simp add: same_outside_def)

lemma same_outside_trans: "same_outside A h h' \<Longrightarrow> same_outside B h' h'' \<Longrightarrow> A \<subseteq> C \<Longrightarrow> B \<subseteq> C \<Longrightarrow> same_outside C h h''"
  by (simp add: same_outside_def subset_eq) metis

lemma rep_outside: "same_outside A h h' \<Longrightarrow> A \<inter> addrs t = {} \<Longrightarrow> rep h' s par t = rep h s par t"
  by (rule rep_cong) (auto simp: same_outside_def)

lemma repc_outside: "same_outside A h h' \<Longrightarrow> A \<inter> caddrs cs = {} \<Longrightarrow> repc h' s rp root q cs = repc h s rp root q cs"
  by (rule repc_cong) (auto simp: same_outside_def)

lemma rb_at [simp]:
  "rd_left h (Some a) = map_option rb_left (h a)" "rd_right h (Some a) = map_option rb_right (h a)"
  "rd_parent h (Some a) = map_option rb_parent (h a)" "rd_key h (Some a) = map_option rb_key (h a)"
  "ngx_rbt_is_red h (Some a) = map_option rb_red (h a)"
  "wr_left (Some a) q h = map_option (\<lambda>n. h(a \<mapsto> n\<lparr>rb_left := q\<rparr>)) (h a)"
  "wr_right (Some a) q h = map_option (\<lambda>n. h(a \<mapsto> n\<lparr>rb_right := q\<rparr>)) (h a)"
  "wr_parent (Some a) q h = map_option (\<lambda>n. h(a \<mapsto> n\<lparr>rb_parent := q\<rparr>)) (h a)"
  "ngx_rbt_red (Some a) h = map_option (\<lambda>n. h(a \<mapsto> n\<lparr>rb_red := True\<rparr>)) (h a)"
  "ngx_rbt_black (Some a) h = map_option (\<lambda>n. h(a \<mapsto> n\<lparr>rb_red := False\<rparr>)) (h a)"
  by (simp_all add: rb_access split: option.split)

section \<open>Rotations\<close>

text \<open>The three steps of a rotation: the middle subtree gets its new parent, the node above gets its new child, the two
  nodes change places.\<close>

definition reparent :: "ptr \<Rightarrow> ptr \<Rightarrow> ptr \<Rightarrow> rb_heap \<Rightarrow> rb_heap option" where
  "reparent sentinel q par h = (if q \<noteq> sentinel then wr_parent q par h else Some h)"

lemma reparent_ok:
  assumes "rep h s p0 m" "uniq m"
  shows "\<exists>h'. reparent (Some s) (pt s m) par h = Some h' \<and> rep h' s par m \<and> same_outside (addrs m) h h'"
  using assms by (cases m) (auto simp: reparent_def rb_access)

definition relink_left :: "ptr \<Rightarrow> ptr \<Rightarrow> ptr \<Rightarrow> rb_heap \<Rightarrow> (ptr \<times> rb_heap) option" where
  "relink_left root node temp h =
    (if node = root then Some (temp, h)
     else do {
       np \<leftarrow> rd_parent h node;
       npl \<leftarrow> rd_left h np;
       h \<leftarrow> (if node = npl then wr_left np temp h else wr_right np temp h);
       Some (root, h)
     })"

definition relink_right :: "ptr \<Rightarrow> ptr \<Rightarrow> ptr \<Rightarrow> rb_heap \<Rightarrow> (ptr \<times> rb_heap) option" where
  "relink_right root node temp h =
    (if node = root then Some (temp, h)
     else do {
       np \<leftarrow> rd_parent h node;
       npr \<leftarrow> rd_right h np;
       h \<leftarrow> (if node = npr then wr_right np temp h else wr_left np temp h);
       Some (root, h)
     })"

lemma relink_ok:
  assumes "repc h s rp root (Some a) cs" "h a = Some n" "rb_parent n = up rp cs" "a \<notin> caddrs cs" "a \<noteq> s" "uniqc cs"
  shows "\<exists>root' h'. relink_left root (Some a) temp h = Some (root', h') \<and> repc h' s rp root' temp cs \<and>
      same_outside (caddrs cs) h h'"
    "\<exists>root' h'. relink_right root (Some a) temp h = Some (root', h') \<and> repc h' s rp root' temp cs \<and>
      same_outside (caddrs cs) h h'"
proof -
  have inner: "root \<noteq> Some a" if "cs \<noteq> []" using repc_root [OF assms(1)] that assms(4) by auto
  show "\<exists>root' h'. relink_left root (Some a) temp h = Some (root', h') \<and> repc h' s rp root' temp cs \<and>
      same_outside (caddrs cs) h h'"
  proof (cases cs)
    case Nil
    then show ?thesis using assms by (simp add: relink_left_def)
  next
    case (Cons f cs')
    then show ?thesis using assms inner
      by (cases f) (auto simp: relink_left_def rb_access)
  qed
  show "\<exists>root' h'. relink_right root (Some a) temp h = Some (root', h') \<and> repc h' s rp root' temp cs \<and>
      same_outside (caddrs cs) h h'"
  proof (cases cs)
    case Nil
    then show ?thesis using assms by (simp add: relink_right_def)
  next
    case (Cons f cs')
    then show ?thesis using assms inner
      by (cases f) (auto simp: relink_right_def rb_access)
  qed
qed

lemma left_rotate_steps:
  "ngx_rbtree_left_rotate root (Some s) (Some a) h =
    do {
      temp \<leftarrow> rd_right h (Some a);
      tl \<leftarrow> rd_left h temp;
      h \<leftarrow> wr_right (Some a) tl h;
      tl \<leftarrow> rd_left h temp;
      h \<leftarrow> reparent (Some s) tl (Some a) h;
      np \<leftarrow> rd_parent h (Some a);
      h \<leftarrow> wr_parent temp np h;
      (root, h) \<leftarrow> relink_left root (Some a) temp h;
      h \<leftarrow> wr_left temp (Some a) h;
      h \<leftarrow> wr_parent (Some a) temp h;
      Some (root, h)
    }"
  by (simp only: ngx_rbtree_left_rotate_def relink_left_def reparent_def)


lemma left_rotate_zip:
  assumes z: "zip_ok h s rp root (Nd l a k c (Nd m b k' c' r)) cs"
  shows "\<exists>root' h'. ngx_rbtree_left_rotate root (Some s) (Some a) h = Some (root', h') \<and>
    zip_ok h' s rp root' (Nd (Nd l a k c m) b k' c' r) cs \<and>
    same_outside (addrs (plug (Nd l a k c (Nd m b k' c' r)) cs)) h h'"
proof -
  have f: "h a = Some \<lparr>rb_key = k, rb_left = pt s l, rb_right = Some b, rb_parent = up rp cs, rb_red = c\<rparr>"
    "h b = Some \<lparr>rb_key = k', rb_left = pt s m, rb_right = pt s r, rb_parent = Some a, rb_red = c'\<rparr>"
    "rep h s (Some a) l" "rep h s (Some b) m" "rep h s (Some b) r" "repc h s rp root (Some a) cs"
    and d: "a \<noteq> b" "a \<noteq> s" "b \<noteq> s" "uniq m" "uniqc cs" "a \<notin> caddrs cs" "b \<notin> caddrs cs"
      "a \<notin> addrs l" "a \<notin> addrs m" "a \<notin> addrs r" "b \<notin> addrs l" "b \<notin> addrs m" "b \<notin> addrs r"
      "addrs l \<inter> addrs m = {}" "addrs l \<inter> addrs r = {}" "addrs m \<inter> addrs r = {}"
      "addrs l \<inter> caddrs cs = {}" "addrs m \<inter> caddrs cs = {}" "addrs r \<inter> caddrs cs = {}" "uniq l" "uniq r"
    using z by (auto simp: zip_ok_def)
  define h1 where "h1 = h(a \<mapsto> \<lparr>rb_key = k, rb_left = pt s l, rb_right = pt s m, rb_parent = up rp cs, rb_red = c\<rparr>)"
  have "rep h1 s (Some b) m" using f(4) d by (simp add: h1_def)
  then obtain h2 where h2: "reparent (Some s) (pt s m) (Some a) h1 = Some h2" "rep h2 s (Some a) m" "same_outside (addrs m) h1 h2"
    using reparent_ok [OF _ d(4)] by blast
  have h2a: "h2 a = h1 a" "h2 b = h1 b" using same_outsideD [OF h2(3)] d by simp_all
  define h3 where "h3 = h2(b \<mapsto> \<lparr>rb_key = k', rb_left = pt s m, rb_right = pt s r, rb_parent = up rp cs, rb_red = c'\<rparr>)"
  have "repc h3 s rp root (Some a) cs"
    using f(6) d repc_outside [OF h2(3)] by (simp add: h3_def h1_def)
  then obtain root' h4 where h4: "relink_left root (Some a) (Some b) h3 = Some (root', h4)" "repc h4 s rp root' (Some b) cs"
    "same_outside (caddrs cs) h3 h4"
    using relink_ok(1) [of h3 s rp root a cs _ "Some b"] d h2a by (auto simp: h3_def h1_def)
  have h4a: "h4 a = h1 a" "h4 b = h3 b" using same_outsideD [OF h4(3)] d h2a by (simp_all add: h3_def)
  define h5 where "h5 = h4(b \<mapsto> \<lparr>rb_key = k', rb_left = Some a, rb_right = pt s r, rb_parent = up rp cs, rb_red = c'\<rparr>,
      a \<mapsto> \<lparr>rb_key = k, rb_left = pt s l, rb_right = pt s m, rb_parent = Some b, rb_red = c\<rparr>)"
  have run: "ngx_rbtree_left_rotate root (Some s) (Some a) h = Some (root', h5)"
    using f(1,2) d h2(1) h4(1) h2a h4a unfolding left_rotate_steps
    by (simp add: h1_def [symmetric] h3_def [symmetric] h5_def) (simp add: h1_def h3_def)
  have out: "rep h5 s par t = rep h s par t" if "a \<notin> addrs t" "b \<notin> addrs t" "addrs m \<inter> addrs t = {}" "caddrs cs \<inter> addrs t = {}"
    for par t
    using that rep_outside [OF h4(3), of t] rep_outside [OF h2(3), of t] by (simp add: h5_def h3_def h1_def)
  have "rep h5 s (Some a) l" "rep h5 s (Some b) r" using out [of l] out [of r] f(3,5) d by (auto simp: Int_commute)
  moreover have "rep h5 s (Some a) m"
    using h2(2) d rep_outside [OF h4(3), of m] by (simp add: h5_def h3_def Int_commute)
  moreover have "repc h5 s rp root' (Some b) cs" using h4(2) d by (simp add: h5_def)
  ultimately have "zip_ok h5 s rp root' (Nd (Nd l a k c m) b k' c' r) cs"
    using d by (auto simp: zip_ok_def h5_def)
  moreover have "same_outside (addrs (plug (Nd l a k c (Nd m b k' c' r)) cs)) h h5"
    using same_outsideD [OF h4(3)] same_outsideD [OF h2(3)]
    by (auto simp: same_outside_def addrs_plug h5_def h3_def h1_def)
  ultimately show ?thesis using run by blast
qed

section \<open>Mirror images\<close>

text \<open>Exchanging the left and right pointers of all nodes turns each operation on the one side into the operation on the
  other, so what is proved for one side holds for both.\<close>

definition mir_node :: "ngx_rbtree_node \<Rightarrow> ngx_rbtree_node" where
  "mir_node n = n\<lparr>rb_left := rb_right n, rb_right := rb_left n\<rparr>"

definition mir :: "rb_heap \<Rightarrow> rb_heap" where
  "mir h = (\<lambda>a. map_option mir_node (h a))"

fun mirror :: "rbt \<Rightarrow> rbt" where
  "mirror Lf = Lf"
| "mirror (Nd l a k c r) = Nd (mirror r) a k c (mirror l)"

fun mirror_frame :: "frame \<Rightarrow> frame" where
  "mirror_frame (In_left a k c r) = In_right (mirror r) a k c"
| "mirror_frame (In_right l a k c) = In_left a k c (mirror l)"

lemma mir_node_simps [simp]:
  "mir_node \<lparr>rb_key = k, rb_left = l, rb_right = r, rb_parent = p, rb_red = c\<rparr> =
   \<lparr>rb_key = k, rb_left = r, rb_right = l, rb_parent = p, rb_red = c\<rparr>"
  "mir_node (mir_node n) = n"
  "rb_key (mir_node n) = rb_key n" "rb_left (mir_node n) = rb_right n" "rb_right (mir_node n) = rb_left n"
  "rb_parent (mir_node n) = rb_parent n" "rb_red (mir_node n) = rb_red n"
  by (simp_all add: mir_node_def)

lemma mir_mir [simp]: "mir (mir h) = h"
  by (simp add: mir_def fun_eq_iff option.map_comp comp_def option.map_ident)

lemma mirror_mirror [simp]: "mirror (mirror t) = t"
  by (induction t) simp_all

lemma mirror_frame_twice [simp]: "mirror_frame (mirror_frame f) = f"
  by (cases f) simp_all

lemma mirror_frames_twice [simp]: "map mirror_frame (map mirror_frame cs) = cs"
  by (induction cs) simp_all

lemma mirror_sets [simp]: "addrs (mirror t) = addrs t" "uniq (mirror t) = uniq t"
  by (induction t) auto

lemma mirror_frame_sets [simp]: "faddr (mirror_frame f) = faddr f" "faddrs (mirror_frame f) = faddrs f" "fred (mirror_frame f) = fred f"
  by (cases f; simp)+

lemma mirror_caddrs [simp]: "caddrs (map mirror_frame cs) = caddrs cs"
  by (simp add: caddrs_def)

lemma mirror_uniqc [simp]: "uniqc (map mirror_frame cs) = uniqc cs"
  by (induction cs rule: uniqc.induct) auto

lemma mirror_pt [simp]: "pt s (mirror t) = pt s t"
  by (cases t) auto

lemma mirror_up [simp]: "up rp (map mirror_frame cs) = up rp cs"
  by (cases cs) auto

lemma mir_Some: "mir h a = Some n \<longleftrightarrow> h a = Some (mir_node n)"
  by (auto simp: mir_def)

lemma mirror_rep [simp]: "rep (mir h) s par (mirror t) = rep h s par t"
  by (induction t arbitrary: par) (auto simp: mir_Some)

lemma mirror_repc [simp]: "repc (mir h) s rp root q (map mirror_frame cs) = repc h s rp root q cs"
  by (induction cs arbitrary: q rule: uniqc.induct) (auto simp: mir_Some)

lemma mirror_zip_ok: "zip_ok (mir h) s rp root (mirror t) (map mirror_frame cs) = zip_ok h s rp root t cs"
  by (simp add: zip_ok_def)

lemma mirror_plug: "mirror (plug t cs) = plug (mirror t) (map mirror_frame cs)"
  by (induction t cs rule: plug.induct) auto

lemma mir_eq_swap: "h' x = mir h x \<longleftrightarrow> mir h' x = h x"
  by (cases "h x"; cases "h' x") (auto simp: mir_def)

lemma mirror_same_outside [simp]: "same_outside A (mir h) h' = same_outside A h (mir h')"
  unfolding same_outside_def mir_eq_swap ..

lemma mir_upd: "mir (h(a \<mapsto> n)) = (mir h)(a \<mapsto> mir_node n)"
  by (auto simp: mir_def)

lemma rb_set_mir: "rb_set p f (mir h) = map_option mir (rb_set p (\<lambda>n. mir_node (f (mir_node n))) h)"
  by (auto simp: rb_set_def mir_upd split: option.split) (auto simp: mir_def)

lemma mir_upds [simp]:
  "mir_node (mir_node n\<lparr>rb_left := q\<rparr>) = n\<lparr>rb_right := q\<rparr>" "mir_node (mir_node n\<lparr>rb_right := q\<rparr>) = n\<lparr>rb_left := q\<rparr>"
  "mir_node (mir_node n\<lparr>rb_parent := q\<rparr>) = n\<lparr>rb_parent := q\<rparr>" "mir_node (mir_node n\<lparr>rb_red := c\<rparr>) = n\<lparr>rb_red := c\<rparr>"
  by (simp_all add: mir_node_def)

lemma rb_get_mir: "rb_get (mir h) p = map_option mir_node (rb_get h p)"
  by (auto simp: rb_get_def mir_def split: option.split)

lemma mir_access:
  "rd_left (mir h) p = rd_right h p" "rd_right (mir h) p = rd_left h p" "rd_parent (mir h) p = rd_parent h p"
  "rd_key (mir h) p = rd_key h p" "ngx_rbt_is_red (mir h) p = ngx_rbt_is_red h p"
  "wr_left p q (mir h) = map_option mir (wr_right p q h)" "wr_right p q (mir h) = map_option mir (wr_left p q h)"
  "wr_parent p q (mir h) = map_option mir (wr_parent p q h)"
  "ngx_rbt_red p (mir h) = map_option mir (ngx_rbt_red p h)" "ngx_rbt_black p (mir h) = map_option mir (ngx_rbt_black p h)"
  by (simp_all add: rd_left_def rd_right_def rd_parent_def rd_key_def wr_left_def wr_right_def wr_parent_def
      ngx_rbt_red_def ngx_rbt_black_def ngx_rbt_is_red_def rb_set_mir rb_get_mir option.map_comp comp_def)

lemma bind_map_option: "map_option f x \<bind> g = x \<bind> (\<lambda>y. g (f y))"
  by (cases x; simp)

lemma map_option_bind: "map_option f (x \<bind> g) = x \<bind> (\<lambda>y. map_option f (g y))"
  by (cases x; simp)

lemma bind_if: "(if b then x else y) \<bind> f = (if b then x \<bind> f else y \<bind> f)" for x :: "'a option"
  by simp

lemmas mir_run = mir_access bind_map_option map_option_bind bind_if if_distrib [of "map_option _"] split_def

lemma left_rotate_mir:
  "ngx_rbtree_left_rotate root sentinel node (mir h) = map_option (apsnd mir) (ngx_rbtree_right_rotate root sentinel node h)"
  unfolding ngx_rbtree_left_rotate_def ngx_rbtree_right_rotate_def
  by (simp add: mir_run cong: if_cong)

lemma right_rotate_mir:
  "ngx_rbtree_right_rotate root sentinel node h = map_option (apsnd mir) (ngx_rbtree_left_rotate root sentinel node (mir h))"
  by (simp add: left_rotate_mir option.map_comp comp_def apsnd_def map_prod_def split_def option.map_ident)

lemma right_rotate_zip:
  assumes z: "zip_ok h s rp root (Nd (Nd l b k' c' m) a k c r) cs"
  shows "\<exists>root' h'. ngx_rbtree_right_rotate root (Some s) (Some a) h = Some (root', h') \<and>
    zip_ok h' s rp root' (Nd l b k' c' (Nd m a k c r)) cs \<and>
    same_outside (addrs (plug (Nd (Nd l b k' c' m) a k c r) cs)) h h'"
proof -
  have "zip_ok (mir h) s rp root (Nd (mirror r) a k c (Nd (mirror m) b k' c' (mirror l))) (map mirror_frame cs)"
    using z mirror_zip_ok [of h s rp root "Nd (Nd l b k' c' m) a k c r" cs] by simp
  then obtain root' h' where r: "ngx_rbtree_left_rotate root (Some s) (Some a) (mir h) = Some (root', h')"
    "zip_ok h' s rp root' (Nd (Nd (mirror r) a k c (mirror m)) b k' c' (mirror l)) (map mirror_frame cs)"
    "same_outside (addrs (plug (Nd (mirror r) a k c (Nd (mirror m) b k' c' (mirror l))) (map mirror_frame cs))) (mir h) h'"
    using left_rotate_zip by blast
  have "zip_ok (mir h') s rp root' (Nd l b k' c' (Nd m a k c r)) cs"
    using r(2) mirror_zip_ok [of "mir h'" s rp root' "Nd l b k' c' (Nd m a k c r)" cs] by simp
  moreover have "same_outside (addrs (plug (Nd (Nd l b k' c' m) a k c r) cs)) h (mir h')"
    using r(3) by (simp add: addrs_plug Un_ac insert_commute)
  ultimately show ?thesis using r(1) by (simp add: right_rotate_mir)
qed

section \<open>Steps on a tree in the heap\<close>

text \<open>The heap \<open>h\<close> holds the tree \<open>plug t cs\<close> on the addresses \<open>A\<close>, and is \<open>h0\<close> elsewhere; there the black sentinel is.\<close>

definition tree_at ::
  "nat set \<Rightarrow> rb_heap \<Rightarrow> nat \<Rightarrow> ptr \<Rightarrow> rb_heap \<Rightarrow> ptr \<Rightarrow> rbt \<Rightarrow> frame list \<Rightarrow> bool" where
  "tree_at A h0 s rp h root t cs \<longleftrightarrow>
     zip_ok h s rp root t cs \<and> addrs t \<union> caddrs cs = A \<and> same_outside A h0 h \<and> s \<notin> A \<and> sentinel_ok h0 s"

lemma tree_at_left: "tree_at A h0 s rp h root t (In_left a k c r # cs) \<longleftrightarrow> tree_at A h0 s rp h root (Nd t a k c r) cs"
  by (auto simp: tree_at_def zip_ok_left)

lemma tree_at_right: "tree_at A h0 s rp h root t (In_right l a k c # cs) \<longleftrightarrow> tree_at A h0 s rp h root (Nd l a k c t) cs"
  by (auto simp: tree_at_def zip_ok_right)

lemmas tree_at_move = tree_at_left tree_at_right

lemma tree_at_plug: "tree_at A h0 s rp h root t cs \<longleftrightarrow> tree_at A h0 s rp h root (plug t cs) []"
  by (induction t cs rule: plug.induct) (auto simp: tree_at_move)

lemma mirror_sentinel_ok [simp]: "sentinel_ok (mir h) s = sentinel_ok h s"
  by (cases "h s") (simp_all add: sentinel_ok_def mir_def)

lemma mirror_tree_at:
  "tree_at A (mir h0) s rp (mir h) root (mirror t) (map mirror_frame cs) = tree_at A h0 s rp h root t cs"
  by (simp add: tree_at_def mirror_zip_ok)

lemma tree_at_rotate_left:
  assumes "tree_at A h0 s rp h root (Nd l a k c (Nd m b k' c' r)) cs"
  shows "\<exists>root' h'. ngx_rbtree_left_rotate root (Some s) (Some a) h = Some (root', h') \<and>
    tree_at A h0 s rp h' root' (Nd (Nd l a k c m) b k' c' r) cs"
proof -
  have "zip_ok h s rp root (Nd l a k c (Nd m b k' c' r)) cs" using assms by (simp add: tree_at_def)
  then obtain root' h' where r: "ngx_rbtree_left_rotate root (Some s) (Some a) h = Some (root', h')"
    "zip_ok h' s rp root' (Nd (Nd l a k c m) b k' c' r) cs"
    "same_outside (addrs (plug (Nd l a k c (Nd m b k' c' r)) cs)) h h'"
    using left_rotate_zip by blast
  have "addrs (plug (Nd l a k c (Nd m b k' c' r)) cs) = A" using assms by (simp add: tree_at_def addrs_plug)
  then have "same_outside A h0 h'" using assms r(3) by (auto simp: tree_at_def same_outside_def)
  then show ?thesis using assms r by (auto simp: tree_at_def)
qed

lemma tree_at_rotate_right:
  assumes "tree_at A h0 s rp h root (Nd (Nd l b k' c' m) a k c r) cs"
  shows "\<exists>root' h'. ngx_rbtree_right_rotate root (Some s) (Some a) h = Some (root', h') \<and>
    tree_at A h0 s rp h' root' (Nd l b k' c' (Nd m a k c r)) cs"
proof -
  obtain root' h' where r: "ngx_rbtree_left_rotate root (Some s) (Some a) (mir h) = Some (root', h')"
    "tree_at A (mir h0) s rp h' root' (Nd (Nd (mirror r) a k c (mirror m)) b k' c' (mirror l)) (map mirror_frame cs)"
    using assms mirror_tree_at [of A h0 s rp h root "Nd (Nd l b k' c' m) a k c r" cs]
      tree_at_rotate_left [of A "mir h0" s rp "mir h" root "mirror r" a k c "mirror m" b k' c' "mirror l" "map mirror_frame cs"]
    by auto
  then show ?thesis using mirror_tree_at [of A h0 s rp "mir h'" root' "Nd l b k' c' (Nd m a k c r)" cs]
    by (simp add: right_rotate_mir)
qed

lemma tree_at_color:
  assumes "tree_at A h0 s rp h root (Nd l a k c r) cs"
  shows "\<exists>h'. ngx_rbt_black (Some a) h = Some h' \<and> tree_at A h0 s rp h' root (Nd l a k False r) cs"
    "\<exists>h'. ngx_rbt_red (Some a) h = Some h' \<and> tree_at A h0 s rp h' root (Nd l a k True r) cs"
  using assms by (auto simp: tree_at_def zip_ok_def)

lemma tree_at_node:
  assumes "tree_at A h0 s rp h root (Nd l a k c r) cs"
  shows "h a = Some \<lparr>rb_key = k, rb_left = pt s l, rb_right = pt s r, rb_parent = up rp cs, rb_red = c\<rparr>"
  using assms by (simp add: tree_at_def zip_ok_def)

fun is_red :: "rbt \<Rightarrow> bool" where
  "is_red Lf = False"
| "is_red (Nd l a k c r) = c"

lemma tree_at_is_red: "tree_at A h0 s rp h root t cs \<Longrightarrow> ngx_rbt_is_red h (pt s t) = Some (is_red t)"
  by (cases t) (auto simp: tree_at_def zip_ok_def sentinel_ok_def same_outside_def)

lemma tree_at_sub: "tree_at A h0 s rp h root (Nd l a k c r) cs \<Longrightarrow> tree_at A h0 s rp h root l (In_left a k c r # cs)"
  "tree_at A h0 s rp h root (Nd l a k c r) cs \<Longrightarrow> tree_at A h0 s rp h root r (In_right l a k c # cs)"
  by (simp_all add: tree_at_move)

lemma tree_at_not_root: "tree_at A h0 s rp h root (Nd l a k c r) (f # cs) \<Longrightarrow> root \<noteq> Some a"
  using repc_root [of h s rp root "Some a" "f # cs"] by (auto simp: tree_at_def zip_ok_def)

end
