(* ===== verification/Ngx_Rbtree_Insert.thy ===== *)
theory Ngx_Rbtree_Insert
  imports Ngx_Rbtree_Heap
begin

text \<open>
  The loop of \<^verbatim>\<open>ngx_rbtree_insert\<close> that re-balances, run on a tree in the heap: it computes a function on trees.
\<close>

section \<open>Re-balancing after an insertion\<close>

fun blacken :: "rbt \<Rightarrow> rbt" where
  "blacken Lf = Lf"
| "blacken (Nd l a k c r) = Nd l a k False r"

text \<open>What one round does to the subtree of the grandparent \<open>g\<close>, with \<open>u\<close> the uncle, where the parent is a left child.\<close>

fun ins_rotated :: "rbt \<Rightarrow> frame \<Rightarrow> nat \<Rightarrow> ngx_uint_t \<Rightarrow> rbt \<Rightarrow> rbt" where
  "ins_rotated t (In_left p pk pc sib) g gk u = Nd t p pk False (Nd sib g gk True u)"
| "ins_rotated (Nd l a k c r) (In_right sib p pk pc) g gk u = Nd (Nd sib p pk pc l) a k False (Nd r g gk True u)"
| "ins_rotated Lf (In_right sib p pk pc) g gk u = Lf"

definition ins_recolored :: "rbt \<Rightarrow> frame \<Rightarrow> nat \<Rightarrow> ngx_uint_t \<Rightarrow> rbt \<Rightarrow> rbt" where
  "ins_recolored t p g gk u = Nd (blacken (plug t [p])) g gk True (blacken u)"

lemma insert_fix_left_red:
  assumes "tree_at A h0 s rp h root (Nd l a k c r) (p # In_left g gk gc u # cs)" "is_red u"
  shows "\<exists>h'. insert_fix_left root (Some s) (Some a) h = Some (Some g, root, h') \<and>
    tree_at A h0 s rp h' root (ins_recolored (Nd l a k c r) p g gk u) cs"
proof -
  obtain ul ua uk ur where u: "u = Nd ul ua uk True ur" using assms(2) by (cases u) auto
  obtain pl pa pk pc pr where pp: "plug (Nd l a k c r) [p] = Nd pl pa pk pc pr" "pa = faddr p" by (cases p) auto
  have t0: "tree_at A h0 s rp h root (Nd pl pa pk pc pr) (In_left g gk gc u # cs)"
    using assms(1) pp by (cases p) (auto simp: tree_at_move)
  obtain h1 where h1: "ngx_rbt_black (Some pa) h = Some h1" "tree_at A h0 s rp h1 root (Nd pl pa pk False pr) (In_left g gk gc u # cs)"
    using tree_at_color(1) [OF t0] by blast
  have "tree_at A h0 s rp h1 root (Nd ul ua uk True ur) (In_right (Nd pl pa pk False pr) g gk gc # cs)"
    using h1(2) u by (simp add: tree_at_move)
  then obtain h2 where h2: "ngx_rbt_black (Some ua) h1 = Some h2"
    "tree_at A h0 s rp h2 root (Nd ul ua uk False ur) (In_right (Nd pl pa pk False pr) g gk gc # cs)"
    using tree_at_color(1) by blast
  then obtain h3 where h3: "ngx_rbt_red (Some g) h2 = Some h3"
    "tree_at A h0 s rp h3 root (Nd (Nd pl pa pk False pr) g gk True (Nd ul ua uk False ur)) cs"
    using tree_at_color(2) unfolding tree_at_move by blast
  have n: "h a = Some \<lparr>rb_key = k, rb_left = pt s l, rb_right = pt s r, rb_parent = Some pa, rb_red = c\<rparr>"
    "h pa = Some \<lparr>rb_key = pk, rb_left = pt s pl, rb_right = pt s pr, rb_parent = Some g, rb_red = pc\<rparr>"
    "h g = Some \<lparr>rb_key = gk, rb_left = Some pa, rb_right = Some ua, rb_parent = up rp cs, rb_red = gc\<rparr>"
    "h ua = Some \<lparr>rb_key = uk, rb_left = pt s ul, rb_right = pt s ur, rb_parent = Some g, rb_red = True\<rparr>"
    using tree_at_node [OF assms(1)] tree_at_node [OF t0] tree_at_node [OF t0 [unfolded tree_at_move]] pp(2)
      tree_at_node [OF tree_at_sub(2) [OF t0 [unfolded tree_at_move, unfolded u]]] u by simp_all
  have "insert_fix_left root (Some s) (Some a) h = Some (Some g, root, h3)"
    using n h1(1) h2(1) h3(1) by (simp add: insert_fix_left_def rb_recolor_def del: rb_at(9,10))
  moreover have "ins_recolored (Nd l a k c r) p g gk u = Nd (Nd pl pa pk False pr) g gk True (Nd ul ua uk False ur)"
    by (simp only: ins_recolored_def pp u blacken.simps)
  ultimately show ?thesis using h3(2) by auto
qed

lemma fix_left_rotation:
  assumes "tree_at A h0 s rp h root (Nd (Nd l b k' c' m) g gk gc u) cs" "rd_parent h node = Some (Some b)" "node \<noteq> Some b"
    "node \<noteq> Some g"
  shows "\<exists>root' h'. (do {
        np \<leftarrow> rd_parent h node;
        h \<leftarrow> ngx_rbt_black np h;
        np \<leftarrow> rd_parent h node;
        ngp \<leftarrow> rd_parent h np;
        h \<leftarrow> ngx_rbt_red ngp h;
        np \<leftarrow> rd_parent h node;
        ngp \<leftarrow> rd_parent h np;
        (root, h) \<leftarrow> ngx_rbtree_right_rotate root (Some s) ngp h;
        Some (node, root, h)
      }) = Some (node, root', h') \<and> tree_at A h0 s rp h' root' (Nd l b k' False (Nd m g gk True u)) cs"
proof -
  have t0: "tree_at A h0 s rp h root (Nd l b k' c' m) (In_left g gk gc u # cs)" using assms(1) by (simp add: tree_at_move)
  obtain h1 where h1: "ngx_rbt_black (Some b) h = Some h1" "tree_at A h0 s rp h1 root (Nd l b k' False m) (In_left g gk gc u # cs)"
    using tree_at_color(1) [OF t0] by blast
  obtain h2 where h2: "ngx_rbt_red (Some g) h1 = Some h2" "tree_at A h0 s rp h2 root (Nd (Nd l b k' False m) g gk True u) cs"
    using tree_at_color(2) [OF h1(2) [unfolded tree_at_move]] by blast
  obtain root' h3 where h3: "ngx_rbtree_right_rotate root (Some s) (Some g) h2 = Some (root', h3)"
    "tree_at A h0 s rp h3 root' (Nd l b k' False (Nd m g gk True u)) cs"
    using tree_at_rotate_right [OF h2(2)] by blast
  obtain x where x: "node = Some x" "x \<noteq> b" "x \<noteq> g" using assms(2-4) by (cases node) (auto simp: rd_parent_def rb_get_def)
  have "h1 x = h x" "h2 x = h1 x" using h1(1) h2(1) x by auto
  then have p: "rd_parent h1 node = Some (Some b)" "rd_parent h2 node = Some (Some b)" using assms(2) x(1) by simp_all
  have g: "rd_parent h1 (Some b) = Some (Some g)" "rd_parent h2 (Some b) = Some (Some g)"
    using tree_at_node [OF h1(2)] tree_at_node [OF h2(2) [THEN tree_at_sub(1)]] by simp_all
  show ?thesis using h3(2) by (simp only: assms(2) h1(1) h2(1) h3(1) p g Option.bind.bind_lunit prod.case) simp
qed

lemma insert_fix_left_black:
  assumes "tree_at A h0 s rp h root (Nd l a k c r) (p # In_left g gk gc u # cs)" "\<not> is_red u"
  shows "\<exists>root' h' l' a' k' c' r' f. insert_fix_left root (Some s) (Some a) h = Some (Some a', root', h') \<and>
    tree_at A h0 s rp h' root' (Nd l' a' k' c' r') (f # cs) \<and> \<not> fred f \<and>
    plug (Nd l' a' k' c' r') [f] = ins_rotated (Nd l a k c r) p g gk u"
proof -
  have red: "ngx_rbt_is_red h (pt s u) = Some False"
  proof -
    have "tree_at A h0 s rp h root (Nd (plug (Nd l a k c r) [p]) g gk gc u) cs"
      using assms(1) by (cases p) (simp_all add: tree_at_move)
    then show ?thesis using tree_at_is_red [OF tree_at_sub(2)] assms(2) by simp
  qed
  show ?thesis
  proof (cases p)
    case (In_left pa pk pc sib)
    have t: "tree_at A h0 s rp h root (Nd l a k c r) (In_left pa pk pc sib # In_left g gk gc u # cs)"
      using assms(1) In_left by simp
    note t1 = t [unfolded tree_at_move(1) [where t = "Nd l a k c r"]]
    note n = tree_at_node [OF t] tree_at_node [OF t1] tree_at_node [OF t1 [unfolded tree_at_move]]
    have ne: "a \<noteq> pa" "a \<noteq> g" "pt s sib \<noteq> Some a" using t by (auto simp: tree_at_def zip_ok_def)
    obtain root' h' where r: "(do {
        np \<leftarrow> rd_parent h (Some a);
        h \<leftarrow> ngx_rbt_black np h;
        np \<leftarrow> rd_parent h (Some a);
        ngp \<leftarrow> rd_parent h np;
        h \<leftarrow> ngx_rbt_red ngp h;
        np \<leftarrow> rd_parent h (Some a);
        ngp \<leftarrow> rd_parent h np;
        (root, h) \<leftarrow> ngx_rbtree_right_rotate root (Some s) ngp h;
        Some (Some a, root, h)
      }) = Some (Some a, root', h')" "tree_at A h0 s rp h' root' (Nd (Nd l a k c r) pa pk False (Nd sib g gk True u)) cs"
      using fix_left_rotation [OF t1 [unfolded tree_at_move], of "Some a"] n ne by auto
    have "insert_fix_left root (Some s) (Some a) h = Some (Some a, root', h')"
      unfolding insert_fix_left_def using n red ne r(1) by (simp del: rb_at(9,10))
    then show ?thesis using r(2) In_left
      by (intro exI conjI) (assumption, erule tree_at_sub(1), simp_all)
  next
    case (In_right sib pa pk pc)
    have t: "tree_at A h0 s rp h root (Nd l a k c r) (In_right sib pa pk pc # In_left g gk gc u # cs)"
      using assms(1) In_right by simp
    note t1 = t [unfolded tree_at_move(2)]
    note n = tree_at_node [OF t] tree_at_node [OF t1] tree_at_node [OF t1 [unfolded tree_at_move]]
    obtain root1 h1 where r1: "ngx_rbtree_left_rotate root (Some s) (Some pa) h = Some (root1, h1)"
      "tree_at A h0 s rp h1 root1 (Nd (Nd sib pa pk pc l) a k c r) (In_left g gk gc u # cs)"
      using tree_at_rotate_left [OF t1] by blast
    have n1: "rd_parent h1 (Some pa) = Some (Some a)" using tree_at_node [OF tree_at_sub(1) [OF r1(2)]] by simp
    have ne: "pa \<noteq> a" "pa \<noteq> g" using t by (auto simp: tree_at_def zip_ok_def)
    obtain root' h' where r: "(do {
        np \<leftarrow> rd_parent h1 (Some pa);
        h \<leftarrow> ngx_rbt_black np h1;
        np \<leftarrow> rd_parent h (Some pa);
        ngp \<leftarrow> rd_parent h np;
        h \<leftarrow> ngx_rbt_red ngp h;
        np \<leftarrow> rd_parent h (Some pa);
        ngp \<leftarrow> rd_parent h np;
        (root, h) \<leftarrow> ngx_rbtree_right_rotate root1 (Some s) ngp h;
        Some (Some pa, root, h)
      }) = Some (Some pa, root', h')" "tree_at A h0 s rp h' root' (Nd (Nd sib pa pk pc l) a k False (Nd r g gk True u)) cs"
      using fix_left_rotation [OF r1(2) [unfolded tree_at_move] n1] ne by auto
    have "insert_fix_left root (Some s) (Some a) h = Some (Some pa, root', h')"
      unfolding insert_fix_left_def using n red ne r1(1) r(1) by (simp del: rb_at(9,10))
    then show ?thesis using r(2) In_right
      by (intro exI conjI) (assumption, erule tree_at_sub(1), simp_all)
  qed
qed

lemma rotate_mir:
  "ngx_rbtree_right_rotate root sentinel node (mir h) = map_option (apsnd mir) (ngx_rbtree_left_rotate root sentinel node h)"
  by (simp add: right_rotate_mir)

lemma apsnd_pair: "apsnd f y = (fst y, f (snd y))"
  by (cases y) simp

definition mir_result :: "ptr \<times> ptr \<times> rb_heap \<Rightarrow> ptr \<times> ptr \<times> rb_heap" where
  "mir_result x = (case x of (n, r, h) \<Rightarrow> (n, r, mir h))"

lemma insert_fix_left_mir:
  "insert_fix_left root sentinel node (mir h) = map_option mir_result (insert_fix_right root sentinel node h)"
  unfolding insert_fix_left_def insert_fix_right_def rb_recolor_def
  by (simp add: mir_run left_rotate_mir rotate_mir mir_result_def apsnd_pair cong: if_cong)

lemma insert_fix_right_mir:
  "insert_fix_right root sentinel node h = map_option mir_result (insert_fix_left root sentinel node (mir h))"
  by (simp add: insert_fix_left_mir option.map_comp comp_def mir_result_def split_def option.map_ident)

text \<open>One round, on either side.\<close>

fun uncle :: "frame \<Rightarrow> rbt" where
  "uncle (In_left g gk gc u) = u"
| "uncle (In_right u g gk gc) = u"

fun fix_recolor :: "rbt \<Rightarrow> frame \<Rightarrow> frame \<Rightarrow> rbt" where
  "fix_recolor t p (In_left g gk gc u) = ins_recolored t p g gk u"
| "fix_recolor t p (In_right u g gk gc) = mirror (ins_recolored (mirror t) (mirror_frame p) g gk (mirror u))"

fun fix_rotate :: "rbt \<Rightarrow> frame \<Rightarrow> frame \<Rightarrow> rbt" where
  "fix_rotate t p (In_left g gk gc u) = ins_rotated t p g gk u"
| "fix_rotate t p (In_right u g gk gc) = mirror (ins_rotated (mirror t) (mirror_frame p) g gk (mirror u))"

lemma is_red_mirror [simp]: "is_red (mirror t) = is_red t"
  by (cases t) auto

lemma fix_body_side:
  assumes "tree_at A h0 s rp h root (Nd l a k c r) (p # g # cs)"
  shows "insert_fix_body root (Some s) (Some a) h =
    (case g of In_left _ _ _ _ \<Rightarrow> insert_fix_left root (Some s) (Some a) h
     | In_right _ _ _ _ \<Rightarrow> insert_fix_right root (Some s) (Some a) h)"
proof -
  have n: "h a = Some \<lparr>rb_key = k, rb_left = pt s l, rb_right = pt s r, rb_parent = Some (faddr p), rb_red = c\<rparr>"
    using tree_at_node [OF assms] by simp
  obtain pl pa pk pc pr where pp: "plug (Nd l a k c r) [p] = Nd pl pa pk pc pr" "pa = faddr p" by (cases p) auto
  have t: "tree_at A h0 s rp h root (Nd pl pa pk pc pr) (g # cs)"
    using assms pp by (cases p) (auto simp: tree_at_move)
  note n2 = tree_at_node [OF t]
  show ?thesis
  proof (cases g)
    case (In_left ga gk gc u)
    have "tree_at A h0 s rp h root (Nd (Nd pl pa pk pc pr) ga gk gc u) cs" using t In_left by (simp add: tree_at_move)
    then show ?thesis using n n2 pp(2) In_left tree_at_node by (fastforce simp: insert_fix_body_def)
  next
    case (In_right u ga gk gc)
    have t2: "tree_at A h0 s rp h root (Nd u ga gk gc (Nd pl pa pk pc pr)) cs" using t In_right by (simp add: tree_at_move)
    have "pt s u \<noteq> Some pa" using t2 by (auto simp: tree_at_def zip_ok_def)
    then show ?thesis using n n2 pp(2) In_right tree_at_node [OF t2] by (simp add: insert_fix_body_def)
  qed
qed

lemma fix_body_red:
  assumes t: "tree_at A h0 s rp h root (Nd l a k c r) (p # g # cs)" and u: "is_red (uncle g)"
  shows "\<exists>h'. insert_fix_body root (Some s) (Some a) h = Some (Some (faddr g), root, h') \<and>
    tree_at A h0 s rp h' root (fix_recolor (Nd l a k c r) p g) cs"
proof (cases g)
  case (In_left ga gk gc v)
  then show ?thesis using fix_body_side [OF t] insert_fix_left_red [of A h0 s rp h root l a k c r p ga gk gc v cs] t u by simp
next
  case (In_right v ga gk gc)
  have "tree_at A (mir h0) s rp (mir h) root (Nd (mirror r) a k c (mirror l))
      (mirror_frame p # In_left ga gk gc (mirror v) # map mirror_frame cs)"
    using t In_right mirror_tree_at [of A h0 s rp h root "Nd l a k c r" "p # g # cs"] by simp
  then obtain h' where h': "insert_fix_left root (Some s) (Some a) (mir h) = Some (Some ga, root, h')"
    "tree_at A (mir h0) s rp h' root (ins_recolored (mirror (Nd l a k c r)) (mirror_frame p) ga gk (mirror v)) (map mirror_frame cs)"
    using insert_fix_left_red u In_right by fastforce
  have "tree_at A h0 s rp (mir h') root (fix_recolor (Nd l a k c r) p g) cs"
    using h'(2) In_right mirror_tree_at [of A h0 s rp "mir h'" root "fix_recolor (Nd l a k c r) p g" cs] by simp
  then show ?thesis using h'(1) In_right fix_body_side [OF t] by (simp add: insert_fix_right_mir mir_result_def)
qed

lemma fix_body_black:
  assumes t: "tree_at A h0 s rp h root (Nd l a k c r) (p # g # cs)" and u: "\<not> is_red (uncle g)"
  shows "\<exists>root' h' l' a' k' c' r' f. insert_fix_body root (Some s) (Some a) h = Some (Some a', root', h') \<and>
    tree_at A h0 s rp h' root' (Nd l' a' k' c' r') (f # cs) \<and> \<not> fred f \<and>
    plug (Nd l' a' k' c' r') [f] = fix_rotate (Nd l a k c r) p g"
proof (cases g)
  case (In_left ga gk gc v)
  then show ?thesis using fix_body_side [OF t] insert_fix_left_black [of A h0 s rp h root l a k c r p ga gk gc v cs] t u by simp
next
  case (In_right v ga gk gc)
  have "tree_at A (mir h0) s rp (mir h) root (Nd (mirror r) a k c (mirror l))
      (mirror_frame p # In_left ga gk gc (mirror v) # map mirror_frame cs)"
    using t In_right mirror_tree_at [of A h0 s rp h root "Nd l a k c r" "p # g # cs"] by simp
  moreover have "\<not> is_red (mirror v)" using u In_right by simp
  ultimately obtain root' h' l' a' k' c' r' f where h': "insert_fix_left root (Some s) (Some a) (mir h) = Some (Some a', root', h')"
    "tree_at A (mir h0) s rp h' root' (Nd l' a' k' c' r') (f # map mirror_frame cs)" "\<not> fred f"
    "plug (Nd l' a' k' c' r') [f] = ins_rotated (mirror (Nd l a k c r)) (mirror_frame p) ga gk (mirror v)"
    using insert_fix_left_black [of A "mir h0" s rp "mir h" root "mirror r" a k c "mirror l" "mirror_frame p" ga gk gc
        "mirror v" "map mirror_frame cs"] by auto
  have "tree_at A h0 s rp (mir h') root' (Nd (mirror r') a' k' c' (mirror l')) (mirror_frame f # cs)"
    using h'(2) mirror_tree_at [of A h0 s rp "mir h'" root' "Nd (mirror r') a' k' c' (mirror l')" "mirror_frame f # cs"] by simp
  moreover have "plug (Nd (mirror r') a' k' c' (mirror l')) [mirror_frame f] = fix_rotate (Nd l a k c r) p g"
    using arg_cong [OF h'(4), of mirror] In_right by (simp add: mirror_plug)
  moreover have "insert_fix_body root (Some s) (Some a) h = Some (Some a', root', mir h')"
    using h'(1) In_right fix_body_side [OF t] by (simp add: insert_fix_right_mir mir_result_def)
  ultimately show ?thesis using h'(3) mirror_frame_sets(3) by blast
qed

text \<open>The loop.\<close>

fun ins_fix :: "rbt \<Rightarrow> frame list \<Rightarrow> rbt" where
  "ins_fix t [] = t"
| "ins_fix t [p] = plug t [p]"
| "ins_fix t (p # g # cs) =
    (if \<not> fred p then plug t (p # g # cs)
     else if is_red (uncle g) then ins_fix (fix_recolor t p g) cs
     else plug (fix_rotate t p g) cs)"

lemma fix_loop_stop:
  assumes "tree_at A h0 s rp h root (Nd l a k c r) (f # cs)" "\<not> fred f"
  shows "insert_fix_loop root (Some s) (Some a) h = Some (root, h)"
proof -
  have "ngx_rbt_is_red h (Some (faddr f)) = Some False"
    using assms tree_at_is_red [of A h0 s rp h root "plug (Nd l a k c r) [f]" cs] by (cases f) (simp_all add: tree_at_move)
  then show ?thesis using tree_at_node [OF assms(1)] tree_at_not_root [OF assms(1)]
    by (subst insert_fix_loop.simps) auto
qed

lemma fix_recolor_node: "\<exists>l k c r. fix_recolor t p g = Nd l (faddr g) k c r"
  by (cases g) (auto simp: ins_recolored_def)

lemma insert_fix_loop_sim:
  assumes "tree_at A h0 s rp h root (Nd l a k c r) cs" "cs \<noteq> [] \<longrightarrow> \<not> fred (last cs)"
  shows "\<exists>root' h'. insert_fix_loop root (Some s) (Some a) h = Some (root', h') \<and>
    tree_at A h0 s rp h' root' (ins_fix (Nd l a k c r) cs) []"
  using assms
proof (induction "Nd l a k c r" cs arbitrary: h l a k c r rule: ins_fix.induct)
  case 1
  then have "root = Some a" by (simp add: tree_at_def zip_ok_def)
  then show ?case using 1 by (subst insert_fix_loop.simps) simp
next
  case (2 p)
  then show ?case using fix_loop_stop [OF 2(1)] 2(1) tree_at_plug [of A h0 s rp h root _ "[p]"] by simp
next
  case (3 p g cs)
  show ?case
  proof (cases "fred p")
    case False
    then show ?thesis using fix_loop_stop [OF 3(2)] 3(2) tree_at_plug [of A h0 s rp h root _ "p # g # cs"] by simp
  next
    case red: True
    have isr: "ngx_rbt_is_red h (Some (faddr p)) = Some True"
      using red 3(2) tree_at_is_red [of A h0 s rp h root "plug (Nd l a k c r) [p]" "g # cs"]
      by (cases p) (simp_all add: tree_at_move)
    have unf: "insert_fix_loop root (Some s) (Some a) h =
      do { (node, root, h) \<leftarrow> insert_fix_body root (Some s) (Some a) h; insert_fix_loop root (Some s) node h }"
      using tree_at_node [OF 3(2)] tree_at_not_root [OF 3(2)] isr by (subst insert_fix_loop.simps) auto
    show ?thesis
    proof (cases "is_red (uncle g)")
      case True
      obtain h' where h': "insert_fix_body root (Some s) (Some a) h = Some (Some (faddr g), root, h')"
        "tree_at A h0 s rp h' root (fix_recolor (Nd l a k c r) p g) cs"
        using fix_body_red [OF 3(2) True] by blast
      obtain l2 k2 c2 r2 where n: "fix_recolor (Nd l a k c r) p g = Nd l2 (faddr g) k2 c2 r2" using fix_recolor_node by blast
      have "cs \<noteq> [] \<longrightarrow> \<not> fred (last cs)" using 3(3) by auto
      then show ?thesis using 3(1) [OF _ True n] h' n red True unf by simp
    next
      case False
      obtain root' h' l' a' k' c' r' f where h': "insert_fix_body root (Some s) (Some a) h = Some (Some a', root', h')"
        "tree_at A h0 s rp h' root' (Nd l' a' k' c' r') (f # cs)" "\<not> fred f"
        "plug (Nd l' a' k' c' r') [f] = fix_rotate (Nd l a k c r) p g"
        using fix_body_black [OF 3(2) False] by blast
      have "plug (Nd l' a' k' c' r') (f # cs) = plug (fix_rotate (Nd l a k c r) p g) cs"
        using h'(4) by (cases f) simp_all
      then have "tree_at A h0 s rp h' root' (plug (fix_rotate (Nd l a k c r) p g) cs) []"
        using h'(2) tree_at_plug [of A h0 s rp h' root' "Nd l' a' k' c' r'" "f # cs"] by simp
      then show ?thesis using unf h'(1) fix_loop_stop [OF h'(2,3)] red False by simp
    qed
  qed
qed

end
