(* ===== verification/Ngx_Rbtree_Order.thy ===== *)
theory Ngx_Rbtree_Order
  imports Ngx_Rbtree_Insert
begin

text \<open>
  The order of the nodes and the balance of the trees that an insertion builds. The callback that finds the place of a new node is an
  interface: a comparison of keys, and that the callback links the node where that comparison says. The two callbacks of
  \<^verbatim>\<open>core/ngx_rbtree.c\<close> are its interpretations.
\<close>

section \<open>Order\<close>

lemma nodes_mirror [simp]: "nodes (mirror t) = rev (nodes t)"
  by (induction t) auto

lemma nodes_blacken [simp]: "nodes (blacken t) = nodes t"
  by (cases t) auto

lemma nodes_plug_cong: "nodes t = nodes t' \<Longrightarrow> nodes (plug t cs) = nodes (plug t' cs)"
  by (induction t cs arbitrary: t' rule: plug.induct) auto

lemma nodes_rotated: "t \<noteq> Lf \<Longrightarrow> nodes (ins_rotated t p g gk u) = nodes (plug t [p]) @ (g, gk) # nodes u"
  by (cases p; cases t) auto

lemma nodes_recolored: "nodes (ins_recolored t p g gk u) = nodes (plug t [p]) @ (g, gk) # nodes u"
  by (simp add: ins_recolored_def)

lemma nodes_fix:
  assumes "t \<noteq> Lf"
  shows "nodes (fix_rotate t p g) = nodes (plug t [p, g])" "nodes (fix_recolor t p g) = nodes (plug t [p, g])"
proof -
  have m: "mirror t \<noteq> Lf" using assms by (cases t) auto
  show "nodes (fix_rotate t p g) = nodes (plug t [p, g])"
    using nodes_rotated [OF assms] nodes_rotated [OF m] by (cases g; cases p) (simp_all add: mirror_plug [symmetric])
  show "nodes (fix_recolor t p g) = nodes (plug t [p, g])"
    by (cases g; cases p) (simp_all add: nodes_recolored)
qed

lemma plug_append: "plug t (cs @ ds) = plug (plug t cs) ds"
  by (induction t cs rule: plug.induct) auto

lemma nodes_ins_fix: "t \<noteq> Lf \<Longrightarrow> nodes (ins_fix t cs) = nodes (plug t cs)"
proof (induction t cs rule: ins_fix.induct)
  case (3 t p g cs)
  have ne: "fix_recolor t p g \<noteq> Lf" using fix_recolor_node by (metis rbt.distinct(1))
  have e: "nodes (plug x cs) = nodes (plug t (p # g # cs))" if "nodes x = nodes (plug t [p, g])" for x
    using nodes_plug_cong [OF that] plug_append [of t "[p, g]" cs] by simp
  show ?case using 3 ne e nodes_fix [OF 3(2)] by simp
qed simp_all

section \<open>Balance\<close>

fun bh :: "rbt \<Rightarrow> nat" where
  "bh Lf = 0"
| "bh (Nd l a k c r) = (if c then bh l else Suc (bh l))"

fun rb_inv :: "rbt \<Rightarrow> bool" where
  "rb_inv Lf = True"
| "rb_inv (Nd l a k c r) \<longleftrightarrow> (c \<longrightarrow> \<not> is_red l \<and> \<not> is_red r) \<and> bh l = bh r \<and> rb_inv l \<and> rb_inv r"

text \<open>The red-black trees: no red node has a red child, all paths have the same number of black nodes, the root is black.\<close>

definition rb_tree :: "rbt \<Rightarrow> bool" where
  "rb_tree t \<longleftrightarrow> rb_inv t \<and> \<not> is_red t"

lemma rb_inv_mirror [simp]: "rb_inv t \<Longrightarrow> rb_inv (mirror t) \<and> bh (mirror t) = bh t"
  by (induction t) auto

text \<open>A position where a tree of black height \<open>n\<close> is missing.\<close>

fun ctx_ok :: "nat \<Rightarrow> frame list \<Rightarrow> bool" where
  "ctx_ok n [] = True"
| "ctx_ok n (In_left a k c r # cs) \<longleftrightarrow> rb_inv r \<and> bh r = n \<and>
     (c \<longrightarrow> \<not> is_red r \<and> cs \<noteq> [] \<and> \<not> fred (hd cs)) \<and> ctx_ok (if c then n else Suc n) cs"
| "ctx_ok n (In_right l a k c # cs) \<longleftrightarrow> rb_inv l \<and> bh l = n \<and>
     (c \<longrightarrow> \<not> is_red l \<and> cs \<noteq> [] \<and> \<not> fred (hd cs)) \<and> ctx_ok (if c then n else Suc n) cs"

lemma ctx_ok_mirror [simp]: "ctx_ok n cs \<Longrightarrow> ctx_ok n (map mirror_frame cs)"
  by (induction n cs rule: ctx_ok.induct) (auto simp: hd_map)

lemma plug_inv:
  "rb_inv t \<Longrightarrow> bh t = n \<Longrightarrow> ctx_ok n cs \<Longrightarrow> is_red t \<longrightarrow> cs \<noteq> [] \<and> \<not> fred (hd cs) \<Longrightarrow> rb_tree (plug t cs)"
proof (induction t cs arbitrary: n rule: plug.induct)
  case (2 t a k c r cs)
  then show ?case by (cases c) auto
next
  case (3 t l a k c cs)
  then show ?case by (cases c) auto
qed (simp add: rb_tree_def)

lemma ins_rotated_inv:
  assumes "rb_inv t" "bh t = n" "is_red t" "ctx_ok n [p, In_left g gk False u]" "fred p" "\<not> is_red u"
  shows "rb_inv (ins_rotated t p g gk u) \<and> bh (ins_rotated t p g gk u) = Suc n \<and> \<not> is_red (ins_rotated t p g gk u)"
  using assms by (cases p; cases t) auto

lemma ins_recolored_inv:
  assumes "rb_inv t" "bh t = n" "ctx_ok n [p, In_left g gk False u]" "fred p" "is_red u"
  shows "rb_inv (ins_recolored t p g gk u) \<and> bh (ins_recolored t p g gk u) = Suc n \<and> is_red (ins_recolored t p g gk u)"
  using assms by (cases p; cases u) (auto simp: ins_recolored_def)

text \<open>A black parent of the frame \<open>p\<close>.\<close>

lemma fix_inv:
  assumes "rb_inv t" "bh t = n" "is_red t" "ctx_ok n (p # g # cs)" "fred p"
  shows "is_red (uncle g) \<Longrightarrow>
      rb_inv (fix_recolor t p g) \<and> bh (fix_recolor t p g) = Suc n \<and> is_red (fix_recolor t p g)"
    "\<not> is_red (uncle g) \<Longrightarrow>
      rb_inv (fix_rotate t p g) \<and> bh (fix_rotate t p g) = Suc n \<and> \<not> is_red (fix_rotate t p g)"
    "ctx_ok (Suc n) cs"
proof -
  have g: "\<not> fred g" and cs: "ctx_ok (Suc n) cs" using assms(4,5) by (cases p; cases g; simp)+
  have two: "ctx_ok n [p, g]" using assms(4,5) g by (cases p; cases g) auto
  have m: "rb_inv (mirror t)" "bh (mirror t) = n" "is_red (mirror t)" "fred (mirror_frame p)" using assms by simp_all
  show "ctx_ok (Suc n) cs" by (fact cs)
  show "is_red (uncle g) \<Longrightarrow> rb_inv (fix_recolor t p g) \<and> bh (fix_recolor t p g) = Suc n \<and> is_red (fix_recolor t p g)"
  proof (cases g)
    case (In_left a k c u)
    then show "is_red (uncle g) \<Longrightarrow> ?thesis" using ins_recolored_inv [OF assms(1,2) _ assms(5), of a k u] two g by simp
  next
    case (In_right u a k c)
    then have "ctx_ok n [mirror_frame p, In_left a k False (mirror u)]" using ctx_ok_mirror [OF two] g by simp
    then show "is_red (uncle g) \<Longrightarrow> ?thesis" using ins_recolored_inv [OF m(1,2) _ m(4), of a k "mirror u"] In_right by simp
  qed
  show "\<not> is_red (uncle g) \<Longrightarrow> rb_inv (fix_rotate t p g) \<and> bh (fix_rotate t p g) = Suc n \<and> \<not> is_red (fix_rotate t p g)"
  proof (cases g)
    case (In_left a k c u)
    then show "\<not> is_red (uncle g) \<Longrightarrow> ?thesis" using ins_rotated_inv [OF assms(1-3) _ assms(5), of a k u] two g by simp
  next
    case (In_right u a k c)
    then have "ctx_ok n [mirror_frame p, In_left a k False (mirror u)]" using ctx_ok_mirror [OF two] g by simp
    then show "\<not> is_red (uncle g) \<Longrightarrow> ?thesis" using ins_rotated_inv [OF m(1-3) _ m(4), of a k "mirror u"] In_right by simp
  qed
qed

lemma ctx_ok_last: "ctx_ok n cs \<Longrightarrow> cs \<noteq> [] \<longrightarrow> \<not> fred (last cs)"
  by (induction n cs rule: ctx_ok.induct) auto

lemma blacken_tree: "rb_inv t \<Longrightarrow> rb_tree (blacken t)"
  by (cases t) (auto simp: rb_tree_def)

lemma rb_tree_blacken: "rb_tree t \<Longrightarrow> rb_tree (blacken t)"
  by (simp add: rb_tree_def [of t] blacken_tree)

lemma ins_fix_inv:
  "rb_inv t \<Longrightarrow> bh t = n \<Longrightarrow> is_red t \<Longrightarrow> ctx_ok n cs \<Longrightarrow> rb_tree (blacken (ins_fix t cs))"
proof (induction t cs arbitrary: n rule: ins_fix.induct)
  case (1 t)
  then show ?case by (simp add: blacken_tree)
next
  case (2 t p)
  have "\<not> fred p" using ctx_ok_last [OF 2(4)] by simp
  then have "rb_tree (plug t [p])" using 2 by (intro plug_inv [of t n]) auto
  then show ?case by (simp add: rb_tree_blacken)
next
  case (3 t p g cs)
  show ?case
  proof (cases "fred p")
    case False
    then have "rb_tree (plug t (p # g # cs))" using 3 by (intro plug_inv [of t n]) auto
    then show ?thesis using False by (simp add: rb_tree_blacken)
  next
    case red: True
    note i = fix_inv [OF 3(2-5) red]
    show ?thesis
    proof (cases "is_red (uncle g)")
      case True
      then show ?thesis using 3(1) [of "Suc n"] i red by simp
    next
      case False
      then have "rb_tree (plug (fix_rotate t p g) cs)" using i by (intro plug_inv [of _ "Suc n"]) auto
      then show ?thesis using False red by (simp add: rb_tree_blacken)
    qed
  qed
qed

section \<open>The place of a new node\<close>

fun descend :: "(ngx_uint_t \<Rightarrow> ngx_uint_t \<Rightarrow> bool) \<Rightarrow> ngx_uint_t \<Rightarrow> rbt \<Rightarrow> frame list \<Rightarrow> frame list" where
  "descend goes_left nk Lf cs = cs"
| "descend goes_left nk (Nd l a k c r) cs =
    (if goes_left nk k then descend goes_left nk l (In_left a k c r # cs)
     else descend goes_left nk r (In_right l a k c # cs))"

fun link_of :: "frame \<Rightarrow> rb_link" where
  "link_of (In_left a k c r) = Left_of (Some a)"
| "link_of (In_right l a k c) = Right_of (Some a)"

lemma plug_descend: "plug Lf (descend g nk t cs) = plug t cs"
  by (induction t arbitrary: cs) auto

lemma descend_not_Nil: "t \<noteq> Lf \<or> cs \<noteq> [] \<Longrightarrow> descend g nk t cs \<noteq> []"
  by (induction t arbitrary: cs) auto

lemma descend_ctx_ok: "rb_inv t \<Longrightarrow> bh t = n \<Longrightarrow> ctx_ok n cs \<Longrightarrow> is_red t \<longrightarrow> cs \<noteq> [] \<and> \<not> fred (hd cs) \<Longrightarrow> ctx_ok 0 (descend g nk t cs)"
proof (induction t arbitrary: n cs)
  case (Nd l a k c r)
  then show ?case by (cases c) auto
qed simp

text \<open>The interface of the callback \<open>tree->insert\<close>: it puts the node below the place where the search ends. Every callback
  has its own order, \<open>goes_left\<close>.\<close>

locale rb_callback =
  fixes cb :: "ptr \<Rightarrow> ptr \<Rightarrow> ptr \<Rightarrow> rb_heap \<Rightarrow> rb_heap option"
    and goes_left :: "ngx_uint_t \<Rightarrow> ngx_uint_t \<Rightarrow> bool"
  assumes attaches:
    "tree_at A h0 s rp h root (Nd l a k c r) [] \<Longrightarrow> h x = Some n \<Longrightarrow>
     f = hd (descend goes_left (rb_key n) (Nd l a k c r) []) \<Longrightarrow>
     cb (Some a) (Some x) (Some s) h = rb_attach (link_of f) (Some (faddr f)) (Some x) (Some s) h"

lemma attach_ok:
  assumes "tree_at A h0 s rp h root Lf (f # cs)" "h x = Some n" "x \<notin> A" "x \<noteq> s"
  shows "\<exists>h'. rb_attach (link_of f) (Some (faddr f)) (Some x) (Some s) h = Some h' \<and>
    tree_at (insert x A) h0 s rp h' root (Nd Lf x (rb_key n) True Lf) (f # cs)"
proof -
  have ne: "x \<noteq> faddr f" "x \<notin> caddrs cs" using assms(1,3) by (cases f; auto simp: tree_at_def)+
  have "n = \<lparr>rb_key = rb_key n, rb_left = rb_left n, rb_right = rb_right n, rb_parent = rb_parent n, rb_red = rb_red n\<rparr>" by simp
  show ?thesis using assms ne
    by (cases f) (auto simp: rb_attach_def rb_store_def tree_at_def zip_ok_def same_outside_def)
qed

definition rb_ins :: "(ngx_uint_t \<Rightarrow> ngx_uint_t \<Rightarrow> bool) \<Rightarrow> nat \<Rightarrow> ngx_uint_t \<Rightarrow> rbt \<Rightarrow> rbt" where
  "rb_ins goes_left x nk t =
    (if t = Lf then Nd Lf x nk False Lf else blacken (ins_fix (Nd Lf x nk True Lf) (descend goes_left nk t [])))"

lemma rb_ins_tree: "rb_tree t \<Longrightarrow> rb_tree (rb_ins g x nk t)"
  using ins_fix_inv [of "Nd Lf x nk True Lf" 0 "descend g nk t []"] descend_ctx_ok [of t "bh t" "[]" g nk]
  by (auto simp: rb_ins_def rb_tree_def)

text \<open>The nodes before and behind a position.\<close>

fun before :: "frame list \<Rightarrow> (nat \<times> ngx_uint_t) list" where
  "before [] = []"
| "before (In_left a k c r # cs) = before cs"
| "before (In_right l a k c # cs) = before cs @ nodes l @ [(a, k)]"

fun behind :: "frame list \<Rightarrow> (nat \<times> ngx_uint_t) list" where
  "behind [] = []"
| "behind (In_left a k c r # cs) = (a, k) # nodes r @ behind cs"
| "behind (In_right l a k c # cs) = behind cs"

lemma nodes_plug: "nodes (plug t cs) = before cs @ nodes t @ behind cs"
  by (induction t cs rule: plug.induct) auto

lemma nodes_rb_ins:
  "nodes (rb_ins g x nk t) = before (descend g nk t []) @ (x, nk) # behind (descend g nk t [])"
  "nodes t = before (descend g nk t []) @ behind (descend g nk t [])"
  using nodes_plug [of Lf "descend g nk t []"] plug_descend [of g nk t "[]"]
  by (auto simp: rb_ins_def nodes_ins_fix nodes_plug)

text \<open>The order in which a callback keeps the nodes: no node goes left of one before it. On a set of keys where the
  comparison is an order, insertion keeps the nodes in order.\<close>

definition in_order :: "(ngx_uint_t \<Rightarrow> ngx_uint_t \<Rightarrow> bool) \<Rightarrow> rbt \<Rightarrow> bool" where
  "in_order g t \<longleftrightarrow> sorted_wrt (\<lambda>p q. \<not> g (snd q) (snd p)) (nodes t)"

definition order_on :: "ngx_uint_t set \<Rightarrow> (ngx_uint_t \<Rightarrow> ngx_uint_t \<Rightarrow> bool) \<Rightarrow> bool" where
  "order_on K g \<longleftrightarrow> (\<forall>x \<in> K. \<forall>y \<in> K. g x y \<longrightarrow> \<not> g y x) \<and> (\<forall>x \<in> K. \<forall>y \<in> K. \<forall>z \<in> K. g x z \<longrightarrow> g x y \<or> g y z)"

definition keys :: "rbt \<Rightarrow> ngx_uint_t set" where
  "keys t = snd ` set (nodes t)"

lemma keys_simps [simp]: "keys Lf = {}" "keys (Nd l a k c r) = insert k (keys l \<union> keys r)"
  by (auto simp: keys_def)

lemma descend_order:
  assumes "order_on K g" "nk \<in> K" "keys t \<subseteq> K" "in_order g t"
    and "\<forall>p \<in> set (before cs). \<not> g nk (snd p)" "\<forall>p \<in> set (behind cs). g nk (snd p)"
  shows "(\<forall>p \<in> set (before (descend g nk t cs)). \<not> g nk (snd p)) \<and> (\<forall>p \<in> set (behind (descend g nk t cs)). g nk (snd p))"
  using assms(3-)
proof (induction t arbitrary: cs)
  case (Nd l a k c r)
  have K: "k \<in> K" "\<forall>p \<in> set (nodes l) \<union> set (nodes r). snd p \<in> K" using Nd.prems(1) by (auto simp: keys_def)
  have o: "in_order g l" "in_order g r" "\<forall>p \<in> set (nodes l). \<not> g k (snd p)" "\<forall>p \<in> set (nodes r). \<not> g (snd p) k"
    using Nd.prems(2) by (auto simp: in_order_def sorted_wrt_append)
  show ?case
  proof (cases "g nk k")
    case True
    have "g nk (snd p)" if "p \<in> set (nodes r)" for p
      using assms(1,2) K o(4) True that unfolding order_on_def by blast
    then have "\<forall>p \<in> set (behind (In_left a k c r # cs)). g nk (snd p)" using Nd.prems(4) True by auto
    then show ?thesis using Nd.IH(1) [of "In_left a k c r # cs"] Nd.prems(1,3) o(1) True by simp
  next
    case False
    have "\<not> g nk (snd p)" if "p \<in> set (nodes l)" for p
      using assms(1,2) K o(3) False that unfolding order_on_def by blast
    then have "\<forall>p \<in> set (before (In_right l a k c # cs)). \<not> g nk (snd p)" using Nd.prems(3) False by auto
    then show ?thesis using Nd.IH(2) [of "In_right l a k c # cs"] Nd.prems(1,4) o(2) False by simp
  qed
qed simp

lemma rb_ins_order:
  assumes "order_on K g" "nk \<in> K" "keys t \<subseteq> K" "in_order g t"
  shows "in_order g (rb_ins g x nk t)"
proof -
  have d: "\<forall>p \<in> set (before (descend g nk t [])). \<not> g nk (snd p)" "\<forall>p \<in> set (behind (descend g nk t [])). g nk (snd p)"
    using descend_order [OF assms, of "[]"] by auto
  have "set (behind (descend g nk t [])) \<subseteq> set (nodes t)" using nodes_rb_ins(2) [of t g nk] by auto
  then have "\<forall>p \<in> set (behind (descend g nk t [])). snd p \<in> K" using assms(3) by (auto simp: keys_def)
  then have "\<forall>p \<in> set (behind (descend g nk t [])). \<not> g (snd p) nk" using assms(1,2) d(2) unfolding order_on_def by blast
  then show ?thesis
    using assms(4) d(1) unfolding in_order_def nodes_rb_ins(1) [of g x nk t] nodes_rb_ins(2) [of t g nk]
    by (auto simp: sorted_wrt_append)
qed

section \<open>Insertion\<close>

definition rb_holds :: "rb_heap \<Rightarrow> ngx_rbtree \<Rightarrow> rbt \<Rightarrow> bool" where
  "rb_holds h tree t \<longleftrightarrow> (\<exists>s rp. rb_sentinel tree = Some s \<and> tree_at (addrs t) h s rp h (rb_root tree) t [])"

lemma tree_at_rebase: "tree_at A h0 s rp h root t cs \<Longrightarrow> tree_at A h s rp h root t cs"
  by (auto simp: tree_at_def same_outside_def sentinel_ok_def)

lemma ins_fix_not_Lf: "t \<noteq> Lf \<Longrightarrow> ins_fix t cs \<noteq> Lf"
  using nodes_ins_fix [of t cs] nodes_plug [of t cs] by (cases t) auto

context rb_callback
begin

lemma insert_ok:
  assumes "rb_holds h tree t" "rb_tree t" "h x = Some n" "x \<notin> addrs t" "Some x \<noteq> rb_sentinel tree"
  shows "\<exists>tree' h'. ngx_rbtree_insert cb tree (Some x) h = Some (tree', h') \<and>
    rb_holds h' tree' (rb_ins goes_left x (rb_key n) t) \<and> same_outside (insert x (addrs t)) h h' \<and>
    rb_sentinel tree' = rb_sentinel tree"
proof -
  obtain s rp where s: "rb_sentinel tree = Some s" "tree_at (addrs t) h s rp h (rb_root tree) t []"
    using assms(1) by (auto simp: rb_holds_def)
  have xs: "x \<noteq> s" using assms(5) s(1) by simp
  show ?thesis
  proof (cases t)
    case Lf
    then have root: "rb_root tree = Some s" and sent: "sentinel_ok h s" using s(2) by (auto simp: tree_at_def zip_ok_def)
    then show ?thesis using assms(3) xs Lf s(1)
      by (cases n) (auto simp: ngx_rbtree_insert_def Let_def rb_holds_def rb_ins_def tree_at_def zip_ok_def sentinel_ok_def)
  next
    case (Nd l a k c r)
    let ?d = "descend goes_left (rb_key n) t []" and ?A = "insert x (addrs t)"
    have root: "rb_root tree = Some a" "a \<noteq> s" using s(2) Nd by (auto simp: tree_at_def zip_ok_def)
    obtain f cs where d: "?d = f # cs" using descend_not_Nil [of t "[]" goes_left "rb_key n"] Nd by (cases ?d) auto
    have hole: "tree_at (addrs t) h s rp h (rb_root tree) Lf (f # cs)"
      using s(2) tree_at_plug [of "addrs t" h s rp h "rb_root tree" Lf ?d] plug_descend [of goes_left "rb_key n" t "[]"] d by simp
    obtain h1 where h1: "rb_attach (link_of f) (Some (faddr f)) (Some x) (Some s) h = Some h1"
      "tree_at ?A h s rp h1 (rb_root tree) (Nd Lf x (rb_key n) True Lf) (f # cs)"
      using attach_ok [OF hole assms(3,4) xs] by blast
    have cb: "cb (rb_root tree) (Some x) (Some s) h = Some h1"
      using attaches [of "addrs t" h s rp h "rb_root tree" l a k c r x n f] s(2) Nd assms(3) d h1(1) root by simp
    have "ctx_ok 0 ?d" using descend_ctx_ok [of t "bh t" "[]"] assms(2) by (simp add: rb_tree_def)
    then have "f # cs \<noteq> [] \<longrightarrow> \<not> fred (last (f # cs))" using ctx_ok_last d by metis
    then obtain root' h2 where h2: "insert_fix_loop (rb_root tree) (Some s) (Some x) h1 = Some (root', h2)"
      "tree_at ?A h s rp h2 root' (ins_fix (Nd Lf x (rb_key n) True Lf) (f # cs)) []"
      using insert_fix_loop_sim [OF h1(2)] by blast
    obtain l' a' k' c' r' where t': "ins_fix (Nd Lf x (rb_key n) True Lf) (f # cs) = Nd l' a' k' c' r'"
      using ins_fix_not_Lf [of "Nd Lf x (rb_key n) True Lf" "f # cs"] by (cases "ins_fix (Nd Lf x (rb_key n) True Lf) (f # cs)") auto
    obtain h3 where h3: "ngx_rbt_black (Some a') h2 = Some h3" "tree_at ?A h s rp h3 root' (Nd l' a' k' False r') []"
      using tree_at_color(1) h2(2) t' by metis
    have r': "root' = Some a'" using h2(2) t' by (simp add: tree_at_def zip_ok_def)
    have ins: "rb_ins goes_left x (rb_key n) t = Nd l' a' k' False r'" using Nd d t' by (simp add: rb_ins_def)
    have "addrs (Nd l' a' k' False r') = ?A" using h3(2) by (simp add: tree_at_def)
    then have "rb_holds h3 (tree\<lparr>rb_root := root'\<rparr>) (rb_ins goes_left x (rb_key n) t)"
      using tree_at_rebase [OF h3(2)] s(1) ins unfolding rb_holds_def by auto
    moreover have "ngx_rbtree_insert cb tree (Some x) h = Some (tree\<lparr>rb_root := root'\<rparr>, h3)"
      using s(1) root cb h2(1) h3(1) r' by (simp add: ngx_rbtree_insert_def del: rb_at(10))
    moreover have "same_outside ?A h h3" using h3(2) by (simp add: tree_at_def)
    ultimately show ?thesis by auto
  qed
qed

end

text \<open>The loops of the callbacks differ in the comparison only.\<close>

lemma loop_descends:
  assumes eq: "\<And>temp node sentinel h. loop temp node sentinel h = do {
      nk \<leftarrow> rd_key h node;
      tk \<leftarrow> rd_key h temp;
      let p = (if g nk tk then Left_of temp else Right_of temp);
      q \<leftarrow> rb_load h p;
      if q = sentinel then Some (p, temp) else loop q node sentinel h
    }"
    and x: "h x = Some n"
  shows "tree_at A h0 s rp h root t cs \<Longrightarrow> t \<noteq> Lf \<Longrightarrow> f = hd (descend g (rb_key n) t cs) \<Longrightarrow>
    loop (pt s t) (Some x) (Some s) h = Some (link_of f, Some (faddr f))"
proof (induction t arbitrary: cs)
  case (Nd l a k c r)
  note node = tree_at_node [OF Nd.prems(1)]
  show ?case
  proof (cases "g (rb_key n) k")
    case True
    show ?thesis
    proof (cases "l = Lf")
      case False
      have "pt s l \<noteq> Some s" using False tree_at_sub(1) [OF Nd.prems(1)] by (cases l) (auto simp: tree_at_def zip_ok_def)
      then show ?thesis using Nd.IH(1) [OF tree_at_sub(1) [OF Nd.prems(1)] False] Nd.prems(3) True node x
        by (subst eq) (simp add: rb_load_def Let_def)
    qed (use True node x Nd.prems(3) in \<open>subst eq, simp add: rb_load_def Let_def\<close>)
  next
    case no: False
    show ?thesis
    proof (cases "r = Lf")
      case False
      have "pt s r \<noteq> Some s" using False tree_at_sub(2) [OF Nd.prems(1)] by (cases r) (auto simp: tree_at_def zip_ok_def)
      then show ?thesis using Nd.IH(2) [OF tree_at_sub(2) [OF Nd.prems(1)] False] Nd.prems(3) no node x
        by (subst eq) (simp add: rb_load_def Let_def)
    qed (use no node x Nd.prems(3) in \<open>subst eq, simp add: rb_load_def Let_def\<close>)
  qed
qed simp

interpretation value_tree: rb_callback ngx_rbtree_insert_value "(<)"
proof
  fix A h0 s rp h root l a k c r x n f
  assume "tree_at A h0 s rp h root (Nd l a k c r) []" "h x = Some n" "f = hd (descend (<) (rb_key n) (Nd l a k c r) [])"
  then show "ngx_rbtree_insert_value (Some a) (Some x) (Some s) h = rb_attach (link_of f) (Some (faddr f)) (Some x) (Some s) h"
    using loop_descends [of insert_value_loop "(<)", OF insert_value_loop.simps] by (fastforce simp: ngx_rbtree_insert_value_def)
qed

definition timer_before :: "ngx_uint_t \<Rightarrow> ngx_uint_t \<Rightarrow> bool" where
  "timer_before a b \<longleftrightarrow> sint (a - b) < 0"

interpretation timer_tree: rb_callback ngx_rbtree_insert_timer_value timer_before
proof
  fix A h0 s rp h root l a k c r x n f
  assume "tree_at A h0 s rp h root (Nd l a k c r) []" "h x = Some n" "f = hd (descend timer_before (rb_key n) (Nd l a k c r) [])"
  then show "ngx_rbtree_insert_timer_value (Some a) (Some x) (Some s) h = rb_attach (link_of f) (Some (faddr f)) (Some x) (Some s) h"
    using loop_descends [of insert_timer_value_loop timer_before, OF insert_timer_value_loop.simps [folded timer_before_def]]
    by (fastforce simp: ngx_rbtree_insert_timer_value_def)
qed

lemma value_order: "order_on UNIV (<)"
  by (auto simp: order_on_def)

text \<open>The timers of one window of half the range, seen from a time \<open>now\<close>.\<close>

definition timer_window :: "ngx_uint_t \<Rightarrow> ngx_uint_t set" where
  "timer_window now = {k. uint (k - now) < 2 ^ 63}"

lemma timer_before_window:
  assumes "a \<in> timer_window now" "b \<in> timer_window now"
  shows "timer_before a b \<longleftrightarrow> uint (a - now) < uint (b - now)"
proof -
  let ?x = "uint (a - now)" and ?y = "uint (b - now)"
  have r: "?x < 2 ^ 63" "?y < 2 ^ 63" "0 \<le> ?x" "0 \<le> ?y"
    using assms by (simp_all add: timer_window_def)
  have "a - b = (a - now) - (b - now)" by simp
  also have "\<dots> = word_of_int (?x - ?y)" by simp
  finally have e: "a - b = word_of_int (?x - ?y)" .
  have "sint (word_of_int z :: ngx_uint_t) = signed_take_bit 63 z" for z by (simp add: signed_of_int)
  then have "sint (a - b) = signed_take_bit 63 (?x - ?y)" unfolding e .
  also have "\<dots> = ?x - ?y" using r by (intro signed_take_bit_int_eq_self) linarith+
  finally show ?thesis by (simp add: timer_before_def)
qed

lemma timer_order: "order_on (timer_window now) timer_before"
  unfolding order_on_def by (auto simp: timer_before_window)


section \<open>Walking\<close>

lemma min_ok:
  "tree_at A h0 s rp h root t cs \<Longrightarrow> t \<noteq> Lf \<Longrightarrow> ngx_rbtree_min (pt s t) (Some s) h = Some (Some (fst (hd (nodes t))))"
proof (induction t arbitrary: cs)
  case (Nd l a k c r)
  note node = tree_at_node [OF Nd.prems(1)]
  show ?case
  proof (cases "l = Lf")
    case True
    then show ?thesis using node by (subst ngx_rbtree_min.simps) simp
  next
    case False
    note sub = tree_at_sub(1) [OF Nd.prems(1)]
    have "pt s l \<noteq> Some s" "nodes l \<noteq> []" using False sub by (cases l; auto simp: tree_at_def zip_ok_def)+
    then show ?thesis using node Nd.IH(1) [OF sub False] by (subst ngx_rbtree_min.simps) simp
  qed
qed simp

definition first_of :: "(nat \<times> ngx_uint_t) list \<Rightarrow> ptr" where
  "first_of ps = (case ps of [] \<Rightarrow> None | p # _ \<Rightarrow> Some (fst p))"

lemma next_up_ok:
  "tree_at A h0 s rp h root (Nd l a k c r) cs \<Longrightarrow> next_up root (Some a) h = Some (first_of (behind cs))"
proof (induction cs arbitrary: l a k c r)
  case Nil
  then have "root = Some a" by (simp add: tree_at_def zip_ok_def)
  then show ?case using tree_at_node [OF Nil] by (subst next_up.simps) (simp add: first_of_def)
next
  case (Cons f cs)
  note node = tree_at_node [OF Cons.prems] and nr = tree_at_not_root [OF Cons.prems]
  show ?case
  proof (cases f)
    case (In_left b kb cb u)
    have "tree_at A h0 s rp h root (Nd (Nd l a k c r) b kb cb u) cs" using Cons.prems In_left by (simp add: tree_at_move)
    from tree_at_node [OF this] show ?thesis using node nr In_left by (subst next_up.simps) (simp add: first_of_def)
  next
    case (In_right u b kb cb)
    have t: "tree_at A h0 s rp h root (Nd u b kb cb (Nd l a k c r)) cs" using Cons.prems In_right by (simp add: tree_at_move)
    have "pt s u \<noteq> Some a" "Some a \<noteq> pt s u" using t by (auto simp: tree_at_def zip_ok_def)
    then show ?thesis using node nr In_right tree_at_node [OF t] Cons.IH [OF t] by (subst next_up.simps) simp
  qed
qed

lemma next_ok:
  assumes "tree_at A h0 s rp h (rb_root tree) (Nd l a k c r) cs" "rb_sentinel tree = Some s"
  shows "ngx_rbtree_next tree (Some a) h = Some (first_of (nodes r @ behind cs))"
proof (cases "r = Lf")
  case True
  then show ?thesis using tree_at_node [OF assms(1)] next_up_ok [OF assms(1)] assms(2) by (simp add: ngx_rbtree_next_def)
next
  case False
  note sub = tree_at_sub(2) [OF assms(1)]
  have "pt s r \<noteq> Some s" "nodes r \<noteq> []" using False sub by (cases r; auto simp: tree_at_def zip_ok_def)+
  then show ?thesis using tree_at_node [OF assms(1)] min_ok [OF sub False] assms(2)
    by (cases "nodes r") (simp_all add: ngx_rbtree_next_def first_of_def)
qed

lemma focus: "i < length (nodes t) \<Longrightarrow>
  \<exists>l a k c r ds. plug (Nd l a k c r) ds = plug t cs \<and> nodes t ! i = (a, k) \<and>
    nodes r @ behind ds = drop (Suc i) (nodes t) @ behind cs"
proof (induction t arbitrary: i cs)
  case (Nd l a k c r)
  consider "i < length (nodes l)" | "i = length (nodes l)" | "length (nodes l) < i" by linarith
  then show ?case
  proof cases
    case 1
    then show ?thesis using Nd.IH(1) [OF 1, of "In_left a k c r # cs"] by (auto simp: nth_append)
  next
    case 2
    then show ?thesis by (auto simp: nth_append)
  next
    case 3
    then have i: "i - Suc (length (nodes l)) < length (nodes r)" using Nd.prems by simp
    have "drop (Suc i) (nodes (Nd l a k c r)) = drop (Suc (i - Suc (length (nodes l)))) (nodes r)"
      using 3 by (simp add: Suc_diff_le drop_Cons' Suc_diff_Suc)
    then show ?thesis using Nd.IH(2) [OF i, of "In_right l a k c # cs"] 3
      by (simp add: nth_append del: drop_append)
  qed
qed simp

end
