(* ===== verification/Ngx_Rbtree_Rebalance.thy ===== *)
theory Ngx_Rbtree_Rebalance
  imports Ngx_Rbtree_Order
begin

text \<open>
  The loop of \<^verbatim>\<open>ngx_rbtree_delete\<close> that re-balances, run on a tree in the heap with a subtree that is one black node short: what
  it computes on trees, that it ends, and that it restores the balance. The right side is the mirror image of the left side.
\<close>

section \<open>Re-balancing after a deletion\<close>

lemma tree_at_set_color:
  assumes "tree_at A h0 s rp h root (Nd l a k c r) cs"
  shows "\<exists>h'. rb_set (Some a) (\<lambda>n. n\<lparr>rb_red := c'\<rparr>) h = Some h' \<and> tree_at A h0 s rp h' root (Nd l a k c' r) cs"
  using assms by (auto simp: tree_at_def zip_ok_def rb_set_def)

text \<open>Where \<open>temp\<close> is the sentinel, its parent field has been set.\<close>

definition sent_parent :: "rb_heap \<Rightarrow> nat \<Rightarrow> rbt \<Rightarrow> nat \<Rightarrow> bool" where
  "sent_parent h0 s t p \<longleftrightarrow> (t = Lf \<longrightarrow> map_option rb_parent (h0 s) = Some (Some p))"

lemma temp_parent:
  assumes "tree_at A h0 s rp h root t (f # cs)" "sent_parent h0 s t (faddr f)"
  shows "rd_parent h (pt s t) = Some (Some (faddr f))"
proof (cases t)
  case Lf
  have "h s = h0 s" using assms(1) by (auto simp: tree_at_def same_outside_def)
  then show ?thesis using assms(2) Lf by (simp add: sent_parent_def)
next
  case (Nd l a k c r)
  then show ?thesis using tree_at_node [of A h0 s rp h root l a k c r "f # cs"] assms(1) by simp
qed

lemma delete_red_left_ok:
  assumes t: "tree_at A h0 s rp h root t (In_left p pk pc (Nd wl wa wk wc wr) # cs)" and sp: "sent_parent h0 s t p"
  shows "\<exists>root' h'. delete_red_left root (Some s) (pt s t) (Some wa) h = Some (root', pt s wl, h') \<and>
    tree_at A h0 s rp h' root' t (In_left p pk True wl # In_left wa wk False wr # cs)"
proof -
  note par = temp_parent [where f = "In_left p _ _ _", simplified, OF _ sp]
  have t1: "tree_at A h0 s rp h root (Nd wl wa wk wc wr) (In_right t p pk pc # cs)" using t by (simp add: tree_at_move)
  obtain h1 where h1: "ngx_rbt_black (Some wa) h = Some h1" "tree_at A h0 s rp h1 root (Nd t p pk pc (Nd wl wa wk False wr)) cs"
    using tree_at_color(1) [OF t1] unfolding tree_at_move by blast
  obtain h2 where h2: "ngx_rbt_red (Some p) h1 = Some h2" "tree_at A h0 s rp h2 root (Nd t p pk True (Nd wl wa wk False wr)) cs"
    using tree_at_color(2) [OF h1(2)] by blast
  obtain root' h3 where h3: "ngx_rbtree_left_rotate root (Some s) (Some p) h2 = Some (root', h3)"
    "tree_at A h0 s rp h3 root' (Nd (Nd t p pk True wl) wa wk False wr) cs"
    using tree_at_rotate_left [OF h2(2)] by blast
  have t3: "tree_at A h0 s rp h3 root' t (In_left p pk True wl # In_left wa wk False wr # cs)" using h3(2) by (simp add: tree_at_move)
  have "rd_right h3 (Some p) = Some (pt s wl)" using tree_at_node [OF t3 [unfolded tree_at_left [where t = t]]] by simp
  then have "delete_red_left root (Some s) (pt s t) (Some wa) h = Some (root', pt s wl, h3)"
    using par [OF tree_at_sub(1) [OF h1(2)]] par [OF tree_at_sub(1) [OF h2(2)]] par [OF t3] h1(1) h2(1) h3(1)
    by (simp add: delete_red_left_def del: rb_at)
  then show ?thesis using t3 by blast
qed

text \<open>The end of the rotation: the colour of the parent goes to the sibling, and the parent comes down.\<close>

lemma delete_rotate_tail:
  assumes t: "tree_at A h0 s rp h root t (In_left p pk pc (Nd wl wa wk wc (Nd rl ra rk rc rr)) # cs)"
    and sp: "sent_parent h0 s t p"
  shows "\<exists>root' h'. (do {
      tp \<leftarrow> rd_parent h (pt s t);
      h \<leftarrow> ngx_rbt_copy_color (Some wa) tp h;
      tp \<leftarrow> rd_parent h (pt s t);
      h \<leftarrow> ngx_rbt_black tp h;
      wr \<leftarrow> rd_right h (Some wa);
      h \<leftarrow> ngx_rbt_black wr h;
      tp \<leftarrow> rd_parent h (pt s t);
      (root, h) \<leftarrow> ngx_rbtree_left_rotate root (Some s) tp h;
      Some (root, root, h)
    }) = Some (root', root', h') \<and>
    tree_at A h0 s rp h' root' (Nd (Nd t p pk False wl) wa wk pc (Nd rl ra rk False rr)) cs"
proof -
  note par = temp_parent [where f = "In_left p _ _ _", simplified, OF _ sp]
  let ?r = "\<lambda>c. Nd rl ra rk c rr"
  have t1: "tree_at A h0 s rp h root (Nd wl wa wk wc (?r rc)) (In_right t p pk pc # cs)" using t by (simp add: tree_at_move)
  obtain h1 where h1: "rb_set (Some wa) (\<lambda>n. n\<lparr>rb_red := pc\<rparr>) h = Some h1"
    "tree_at A h0 s rp h1 root (Nd t p pk pc (Nd wl wa wk pc (?r rc))) cs"
    using tree_at_set_color [OF t1] unfolding tree_at_move by blast
  have c: "ngx_rbt_is_red h (Some p) = Some pc" using tree_at_node [OF t [unfolded tree_at_move]] by simp
  obtain h2 where h2: "ngx_rbt_black (Some p) h1 = Some h2" "tree_at A h0 s rp h2 root (Nd t p pk False (Nd wl wa wk pc (?r rc))) cs"
    using tree_at_color(1) [OF h1(2)] by blast
  have r2: "rd_right h2 (Some wa) = Some (Some ra)" using tree_at_node [OF tree_at_sub(2) [OF h2(2)]] by simp
  have t3: "tree_at A h0 s rp h2 root (?r rc) (In_right wl wa wk pc # In_right t p pk False # cs)"
    using h2(2) by (simp add: tree_at_move)
  obtain h3 where h3: "ngx_rbt_black (Some ra) h2 = Some h3" "tree_at A h0 s rp h3 root (Nd t p pk False (Nd wl wa wk pc (?r False))) cs"
    using tree_at_color(1) [OF t3] unfolding tree_at_move by blast
  obtain root' h4 where h4: "ngx_rbtree_left_rotate root (Some s) (Some p) h3 = Some (root', h4)"
    "tree_at A h0 s rp h4 root' (Nd (Nd t p pk False wl) wa wk pc (?r False)) cs"
    using tree_at_rotate_left [OF h3(2)] by blast
  show ?thesis
    using par [OF t] par [OF tree_at_sub(1) [OF h1(2)]] par [OF tree_at_sub(1) [OF h2(2)]] par [OF tree_at_sub(1) [OF h3(2)]]
      h1(1) h2(1) h3(1) h4 c r2
    by (simp add: ngx_rbt_copy_color_def del: rb_at)
qed

fun del_rotated :: "rbt \<Rightarrow> nat \<Rightarrow> ngx_uint_t \<Rightarrow> bool \<Rightarrow> rbt \<Rightarrow> nat \<Rightarrow> ngx_uint_t \<Rightarrow> rbt \<Rightarrow> rbt" where
  "del_rotated t p pk pc wl wa wk (Nd rl ra rk True rr) = Nd (Nd t p pk False wl) wa wk pc (Nd rl ra rk False rr)"
| "del_rotated t p pk pc (Nd ll la lk lc lr) wa wk wr = Nd (Nd t p pk False ll) la lk pc (Nd lr wa wk False wr)"
| "del_rotated t p pk pc Lf wa wk wr = Lf"

lemma delete_rotate_left_ok:
  assumes t: "tree_at A h0 s rp h root t (In_left p pk pc (Nd wl wa wk False wr) # cs)" and sp: "sent_parent h0 s t p"
    and red: "is_red wl \<or> is_red wr"
  shows "\<exists>root' h'. delete_rotate_left root (Some s) (pt s t) (Some wa) h = Some (root', root', h') \<and>
    tree_at A h0 s rp h' root' (del_rotated t p pk pc wl wa wk wr) cs"
proof -
  have t1: "tree_at A h0 s rp h root (Nd wl wa wk False wr) (In_right t p pk pc # cs)" using t by (simp add: tree_at_move)
  have r1: "rd_right h (Some wa) = Some (pt s wr)" "rd_left h (Some wa) = Some (pt s wl)" using tree_at_node [OF t1] by simp_all
  have r2: "ngx_rbt_is_red h (pt s wr) = Some (is_red wr)" using tree_at_is_red [OF tree_at_sub(2) [OF t1]] .
  show ?thesis
  proof (cases "is_red wr")
    case True
    then obtain rl ra rk rr where wr: "wr = Nd rl ra rk True rr" by (cases wr) auto
    from delete_rotate_tail [OF t [unfolded wr] sp] show ?thesis
      using r1 r2 wr unfolding delete_rotate_left_def by (simp del: rb_at)
  next
    case False
    then obtain ll la lk lr where wl: "wl = Nd ll la lk True lr" using red by (cases wl) auto
    have t2: "tree_at A h0 s rp h root (Nd ll la lk True lr) (In_left wa wk False wr # In_right t p pk pc # cs)"
      using t1 wl by (simp add: tree_at_move)
    obtain h1 where h1: "ngx_rbt_black (Some la) h = Some h1"
      "tree_at A h0 s rp h1 root (Nd (Nd ll la lk False lr) wa wk False wr) (In_right t p pk pc # cs)"
      using tree_at_color(1) [OF t2] unfolding tree_at_left by blast
    obtain h2 where h2: "ngx_rbt_red (Some wa) h1 = Some h2"
      "tree_at A h0 s rp h2 root (Nd (Nd ll la lk False lr) wa wk True wr) (In_right t p pk pc # cs)"
      using tree_at_color(2) [OF h1(2)] by blast
    obtain root1 h3 where h3: "ngx_rbtree_right_rotate root (Some s) (Some wa) h2 = Some (root1, h3)"
      "tree_at A h0 s rp h3 root1 (Nd ll la lk False (Nd lr wa wk True wr)) (In_right t p pk pc # cs)"
      using tree_at_rotate_right [OF h2(2)] by blast
    have t3: "tree_at A h0 s rp h3 root1 t (In_left p pk pc (Nd ll la lk False (Nd lr wa wk True wr)) # cs)"
      using h3(2) by (simp add: tree_at_move)
    have r3: "rd_parent h3 (pt s t) = Some (Some p)" using temp_parent [OF t3] sp by simp
    have r4: "rd_right h3 (Some p) = Some (Some la)" using tree_at_node [OF t3 [unfolded tree_at_move]] by simp
    have d: "del_rotated t p pk pc wl wa wk wr = Nd (Nd t p pk False ll) la lk pc (Nd lr wa wk False wr)"
      using wl False by (cases wr) auto
    from delete_rotate_tail [OF t3 sp] show ?thesis
      using r1 r2 r3 r4 h1(1) h2(1) h3(1) False wl d unfolding delete_rotate_left_def by (simp del: rb_at)
  qed
qed

lemma delete_black_left_ok:
  assumes t: "tree_at A h0 s rp h root t (In_left p pk pc (Nd wl wa wk False wr) # cs)" and sp: "sent_parent h0 s t p"
  shows "\<not> is_red wl \<and> \<not> is_red wr \<Longrightarrow>
      \<exists>h'. delete_black_left root (Some s) (pt s t) (Some wa) h = Some (root, Some p, h') \<and>
        tree_at A h0 s rp h' root (Nd t p pk pc (Nd wl wa wk True wr)) cs"
    "is_red wl \<or> is_red wr \<Longrightarrow>
      \<exists>root' h'. delete_black_left root (Some s) (pt s t) (Some wa) h = Some (root', root', h') \<and>
        tree_at A h0 s rp h' root' (del_rotated t p pk pc wl wa wk wr) cs"
proof -
  have t1: "tree_at A h0 s rp h root (Nd wl wa wk False wr) (In_right t p pk pc # cs)" using t by (simp add: tree_at_move)
  have r: "rd_right h (Some wa) = Some (pt s wr)" "rd_left h (Some wa) = Some (pt s wl)" using tree_at_node [OF t1] by simp_all
  have c: "ngx_rbt_is_red h (pt s wl) = Some (is_red wl)" "ngx_rbt_is_red h (pt s wr) = Some (is_red wr)"
    using tree_at_is_red [OF tree_at_sub(1) [OF t1]] tree_at_is_red [OF tree_at_sub(2) [OF t1]] by simp_all
  obtain h1 where h1: "ngx_rbt_red (Some wa) h = Some h1" "tree_at A h0 s rp h1 root (Nd t p pk pc (Nd wl wa wk True wr)) cs"
    using tree_at_color(2) [OF t1] unfolding tree_at_move by blast
  have p1: "rd_parent h1 (pt s t) = Some (Some p)" using temp_parent [OF tree_at_sub(1) [OF h1(2)]] sp by simp
  show "\<exists>h'. delete_black_left root (Some s) (pt s t) (Some wa) h = Some (root, Some p, h') \<and>
        tree_at A h0 s rp h' root (Nd t p pk pc (Nd wl wa wk True wr)) cs" if "\<not> is_red wl \<and> \<not> is_red wr"
    using that r c h1 p1 by (simp add: delete_black_left_def del: rb_at)
  show "\<exists>root' h'. delete_black_left root (Some s) (pt s t) (Some wa) h = Some (root', root', h') \<and>
        tree_at A h0 s rp h' root' (del_rotated t p pk pc wl wa wk wr) cs" if "is_red wl \<or> is_red wr"
    using that r c delete_rotate_left_ok [OF t sp that] by (auto simp add: delete_black_left_def simp del: rb_at)
qed

text \<open>One round on the left side: it goes on with the parent, or it ends with the final tree.\<close>

datatype del_result = Del_up rbt | Del_done rbt

fun del_left :: "rbt \<Rightarrow> nat \<Rightarrow> ngx_uint_t \<Rightarrow> bool \<Rightarrow> rbt \<Rightarrow> frame list \<Rightarrow> del_result" where
  "del_left t p pk pc (Nd wl wa wk False wr) cs =
    (if \<not> is_red wl \<and> \<not> is_red wr then Del_up (Nd t p pk pc (Nd wl wa wk True wr))
     else Del_done (blacken (plug (del_rotated t p pk pc wl wa wk wr) cs)))"
| "del_left t p pk pc (Nd (Nd l a k c r) wa wk True wr) cs =
    (if \<not> is_red l \<and> \<not> is_red r then Del_done (plug (Nd t p pk False (Nd l a k True r)) (In_left wa wk False wr # cs))
     else Del_done (blacken (plug (del_rotated t p pk True l a k r) (In_left wa wk False wr # cs))))"
| "del_left t p pk pc w cs = Del_done Lf"

fun mirror_result :: "del_result \<Rightarrow> del_result" where
  "mirror_result (Del_up t) = Del_up (mirror t)"
| "mirror_result (Del_done t) = Del_done (mirror t)"

fun del_round :: "rbt \<Rightarrow> frame \<Rightarrow> frame list \<Rightarrow> del_result" where
  "del_round t (In_left p pk pc w) cs = del_left t p pk pc w cs"
| "del_round t (In_right w p pk pc) cs = mirror_result (del_left (mirror t) p pk pc (mirror w) (map mirror_frame cs))"

fun del_fix :: "rbt \<Rightarrow> frame list \<Rightarrow> rbt" where
  "del_fix t [] = blacken t"
| "del_fix t (f # cs) =
    (if is_red t then plug (blacken t) (f # cs)
     else case del_round t f cs of Del_up t' \<Rightarrow> del_fix t' cs | Del_done t' \<Rightarrow> t')"

text \<open>The sibling that a round needs: it is there, and if it is red it has a black left child that is there.\<close>

fun sib_left :: "rbt \<Rightarrow> bool" where
  "sib_left Lf = False"
| "sib_left (Nd l a k c r) \<longleftrightarrow> (c \<longrightarrow> l \<noteq> Lf \<and> \<not> is_red l)"

text \<open>How a round ends in the heap: with the parent, whose subtree is \<open>t'\<close>, or with a tree whose node at \<open>temp\<close> is black
  once the last statement is done.\<close>

definition black_at :: "nat set \<Rightarrow> rb_heap \<Rightarrow> nat \<Rightarrow> ptr \<Rightarrow> rb_heap \<Rightarrow> ptr \<Rightarrow> ptr \<Rightarrow> rbt \<Rightarrow> bool" where
  "black_at A h0 s rp h root temp t \<longleftrightarrow>
    (temp = root \<or> ngx_rbt_is_red h temp = Some True) \<and>
    (\<exists>h'. ngx_rbt_black temp h = Some h' \<and> tree_at A h0 s rp h' root t [])"

fun round_at :: "nat set \<Rightarrow> rb_heap \<Rightarrow> nat \<Rightarrow> ptr \<Rightarrow> ptr \<Rightarrow> frame list \<Rightarrow> del_result \<Rightarrow> (ptr \<times> ptr \<times> rb_heap) option \<Rightarrow> bool" where
  "round_at A h0 s rp p cs (Del_up t) x \<longleftrightarrow>
     (\<exists>root h. x = Some (root, p, h) \<and> tree_at A h0 s rp h root t cs)"
| "round_at A h0 s rp p cs (Del_done t) x \<longleftrightarrow>
     (\<exists>root temp h. x = Some (root, temp, h) \<and> black_at A h0 s rp h root temp t)"

lemma black_at_root:
  assumes "tree_at A h0 s rp h root t cs" "t \<noteq> Lf"
  shows "black_at A h0 s rp h root root (blacken (plug t cs))"
proof -
  have t: "tree_at A h0 s rp h root (plug t cs) []" using assms tree_at_plug by blast
  have "plug t cs \<noteq> Lf" using assms(2) nodes_plug [of t cs] by (cases t) auto
  then obtain l a k c r where p: "plug t cs = Nd l a k c r" by (cases "plug t cs") auto
  then have "root = Some a" using t by (simp add: tree_at_def zip_ok_def)
  then show ?thesis using tree_at_color(1) [OF t [unfolded p]] p unfolding black_at_def by simp
qed

lemma del_rotated_not_Lf: "is_red wl \<or> is_red wr \<Longrightarrow> del_rotated t p pk pc wl wa wk wr \<noteq> Lf"
  by (cases "(t, p, pk, pc, wl, wa, wk, wr)" rule: del_rotated.cases) auto

lemma delete_fix_left_ok:
  assumes t: "tree_at A h0 s rp h root t (In_left p pk pc w # cs)" and sp: "sent_parent h0 s t p" and w: "sib_left w"
  shows "round_at A h0 s rp (Some p) cs (del_left t p pk pc w cs) (delete_fix_left root (Some s) (pt s t) h)"
proof -
  obtain wl wa wk wc wr where wn: "w = Nd wl wa wk wc wr" using w by (cases w) auto
  have r: "rd_parent h (pt s t) = Some (Some p)" using temp_parent [OF t] sp by simp
  have r2: "rd_right h (Some p) = Some (Some wa)" using tree_at_node [OF t [unfolded tree_at_move]] wn by simp
  have c: "ngx_rbt_is_red h (Some wa) = Some wc"
    using tree_at_node [OF tree_at_sub(2) [OF t [unfolded tree_at_move wn]]] by simp
  show ?thesis
  proof (cases wc)
    case False
    have e: "delete_fix_left root (Some s) (pt s t) h = delete_black_left root (Some s) (pt s t) (Some wa) h"
      using r r2 c False by (simp add: delete_fix_left_def del: rb_at)
    have t0: "tree_at A h0 s rp h root t (In_left p pk pc (Nd wl wa wk False wr) # cs)" using t wn False by simp
    show ?thesis
    proof (cases "\<not> is_red wl \<and> \<not> is_red wr")
      case True
      then show ?thesis using delete_black_left_ok(1) [OF t0 sp True] wn False e by auto
    next
      case no: False
      then have red: "is_red wl \<or> is_red wr" by simp
      obtain root' h' where "delete_black_left root (Some s) (pt s t) (Some wa) h = Some (root', root', h')"
        "tree_at A h0 s rp h' root' (del_rotated t p pk pc wl wa wk wr) cs"
        using delete_black_left_ok(2) [OF t0 sp red] by blast
      then show ?thesis using black_at_root [OF _ del_rotated_not_Lf [OF red]] wn False no e by auto
    qed
  next
    case True
    obtain l a k r' where wl: "wl = Nd l a k False r'" using w wn True by (cases wl) auto
    obtain root1 h1 where h1: "delete_red_left root (Some s) (pt s t) (Some wa) h = Some (root1, Some a, h1)"
      "tree_at A h0 s rp h1 root1 t (In_left p pk True (Nd l a k False r') # In_left wa wk False wr # cs)"
      using delete_red_left_ok [OF t [unfolded wn] sp] wl by auto
    have e: "delete_fix_left root (Some s) (pt s t) h = delete_black_left root1 (Some s) (pt s t) (Some a) h1"
      using r r2 c True h1(1) by (simp add: delete_fix_left_def del: rb_at)
    show ?thesis
    proof (cases "\<not> is_red l \<and> \<not> is_red r'")
      case both: True
      obtain h2 where h2: "delete_black_left root1 (Some s) (pt s t) (Some a) h1 = Some (root1, Some p, h2)"
        "tree_at A h0 s rp h2 root1 (Nd t p pk True (Nd l a k True r')) (In_left wa wk False wr # cs)"
        using delete_black_left_ok(1) [OF h1(2) sp both] by blast
      obtain h3 where h3: "ngx_rbt_black (Some p) h2 = Some h3"
        "tree_at A h0 s rp h3 root1 (Nd t p pk False (Nd l a k True r')) (In_left wa wk False wr # cs)"
        using tree_at_color(1) [OF h2(2)] by blast
      have "black_at A h0 s rp h2 root1 (Some p) (plug (Nd t p pk False (Nd l a k True r')) (In_left wa wk False wr # cs))"
        using h3 tree_at_plug tree_at_node [OF h2(2)] unfolding black_at_def by (auto simp del: plug.simps rb_at(10))
      then show ?thesis using e h2(1) wn wl True both by auto
    next
      case no: False
      then have red: "is_red l \<or> is_red r'" by simp
      obtain root' h' where h': "delete_black_left root1 (Some s) (pt s t) (Some a) h1 = Some (root', root', h')"
        "tree_at A h0 s rp h' root' (del_rotated t p pk True l a k r') (In_left wa wk False wr # cs)"
        using delete_black_left_ok(2) [OF h1(2) sp red] by blast
      show ?thesis using black_at_root [OF h'(2) del_rotated_not_Lf [OF red]] h'(1) wn wl True no e by auto
    qed
  qed
qed


section \<open>The other side and the loop\<close>

lemma copy_color_mir: "ngx_rbt_copy_color n1 n2 (mir h) = map_option mir (ngx_rbt_copy_color n1 n2 h)"
  by (simp add: ngx_rbt_copy_color_def mir_access rb_set_mir map_option_bind)

definition mir_res3 :: "ptr \<times> ptr \<times> rb_heap \<Rightarrow> ptr \<times> ptr \<times> rb_heap" where
  "mir_res3 x = (case x of (r, t, h) \<Rightarrow> (r, t, mir h))"

lemma delete_red_right_mir:
  "delete_red_left root sentinel temp w (mir h) = map_option mir_res3 (delete_red_right root sentinel temp w h)"
  unfolding delete_red_left_def delete_red_right_def
  by (simp add: mir_run left_rotate_mir rotate_mir mir_res3_def apsnd_pair cong: if_cong)

lemma delete_rotate_right_mir:
  "delete_rotate_left root sentinel temp w (mir h) = map_option mir_res3 (delete_rotate_right root sentinel temp w h)"
  unfolding delete_rotate_left_def delete_rotate_right_def
  by (simp add: mir_run copy_color_mir left_rotate_mir rotate_mir mir_res3_def apsnd_pair cong: if_cong)

text \<open>The colours of the children of the sibling are read in the same order on both sides; that makes no difference
  where both can be read.\<close>

lemma delete_black_right_mir:
  assumes "rd_left h w = Some wl" "rd_right h w = Some wr" "ngx_rbt_is_red h wl = Some lr" "ngx_rbt_is_red h wr = Some rr"
  shows "delete_black_left root sentinel temp w (mir h) = map_option mir_res3 (delete_black_right root sentinel temp w h)"
  using assms unfolding delete_black_left_def delete_black_right_def
  by (cases lr; cases rr) (simp_all add: mir_run delete_rotate_right_mir mir_res3_def)

lemma tree_at_child_colors:
  assumes "tree_at A h0 s rp h root (Nd wl wa wk c wr) cs"
  shows "rd_left h (Some wa) = Some (pt s wl)" "rd_right h (Some wa) = Some (pt s wr)"
    "ngx_rbt_is_red h (pt s wl) = Some (is_red wl)" "ngx_rbt_is_red h (pt s wr) = Some (is_red wr)"
  using tree_at_node [OF assms] tree_at_is_red [OF tree_at_sub(1) [OF assms]] tree_at_is_red [OF tree_at_sub(2) [OF assms]]
  by simp_all

lemma mir_res3_simp [simp]: "mir_res3 (r, t, h) = (r, t, mir h)"
  by (simp add: mir_res3_def)

lemma delete_fix_right_mir:
  assumes t: "tree_at A h0 s rp h root t (In_right w p pk pc # cs)" and sp: "sent_parent h0 s t p" and w: "sib_left (mirror w)"
  shows "delete_fix_left root (Some s) (pt s t) (mir h) = map_option mir_res3 (delete_fix_right root (Some s) (pt s t) h)"
proof -
  obtain wl wa wk wc wr where wn: "w = Nd wl wa wk wc wr" using w by (cases w) auto
  have r: "rd_parent h (pt s t) = Some (Some p)" using temp_parent [OF t] sp by simp
  have r2: "rd_left h (Some p) = Some (Some wa)" using tree_at_node [OF t [unfolded tree_at_move]] wn by simp
  note tw = tree_at_sub(1) [OF t [unfolded tree_at_move wn]]
  have c: "ngx_rbt_is_red h (Some wa) = Some wc" using tree_at_node [OF tw] by simp
  show ?thesis
  proof (cases wc)
    case False
    then show ?thesis using r r2 c delete_black_right_mir [OF tree_at_child_colors [OF tw]]
      by (simp add: delete_fix_left_def delete_fix_right_def mir_access del: rb_at)
  next
    case True
    obtain l a k r' where wr: "wr = Nd l a k False r'" using w wn True by (cases wr) auto
    have tm: "tree_at A (mir h0) s rp (mir h) root (mirror t) (In_left p pk pc (mirror w) # map mirror_frame cs)"
      using t mirror_tree_at [of A h0 s rp h root t "In_right w p pk pc # cs"] by simp
    have sm: "sent_parent (mir h0) s (mirror t) p" using sp by (cases t; cases "h0 s") (auto simp: sent_parent_def mir_def)
    obtain root1 h1 where h1: "delete_red_left root (Some s) (pt s t) (Some wa) (mir h) = Some (root1, Some a, h1)"
      "tree_at A (mir h0) s rp h1 root1 (mirror t) (In_left p pk True (Nd (mirror r') a k False (mirror l)) # In_left wa wk False (mirror wl) # map mirror_frame cs)"
      using delete_red_left_ok [OF tm [unfolded wn mirror.simps] sm] wr by auto
    obtain h2 where h2: "delete_red_right root (Some s) (pt s t) (Some wa) h = Some (root1, Some a, h2)" "h1 = mir h2"
      using h1(1) unfolding delete_red_right_mir by auto
    have "tree_at A h0 s rp h2 root1 t (In_right (Nd l a k False r') p pk True # In_right wl wa wk False # cs)"
      using h1(2) h2(2) mirror_tree_at [of A h0 s rp h2 root1 t "In_right (Nd l a k False r') p pk True # In_right wl wa wk False # cs"] by simp
    note t2 = tree_at_sub(1) [OF this [unfolded tree_at_right [of A h0 s rp h2 root1 t]]]
    show ?thesis using r r2 c True h1(1) h2 delete_black_right_mir [OF tree_at_child_colors [OF t2]]
      by (simp add: delete_fix_left_def delete_fix_right_def mir_access del: rb_at)
  qed
qed

lemma mirror_black_at: "black_at A (mir h0) s rp (mir h) root temp (mirror t) = black_at A h0 s rp h root temp t"
proof -
  have "(\<exists>h'. map_option mir x = Some h' \<and> tree_at A (mir h0) s rp h' root (mirror t) []) =
      (\<exists>h'. x = Some h' \<and> tree_at A h0 s rp h' root t [])" for x
    using mirror_tree_at [of A h0 s rp "the x" root t "[]"] by (cases x) auto
  then show ?thesis by (simp add: black_at_def mir_access)
qed

lemma mirror_round_at:
  "round_at A (mir h0) s rp p (map mirror_frame cs) res (map_option mir_res3 x) \<Longrightarrow> round_at A h0 s rp p cs (mirror_result res) x"
proof (cases res)
  case (Del_up t)
  assume "round_at A (mir h0) s rp p (map mirror_frame cs) res (map_option mir_res3 x)"
  then show ?thesis using Del_up mirror_tree_at [of A h0 s rp _ _ "mirror t" cs] by (cases x) (auto simp: split_paired_all)
next
  case (Del_done t)
  assume "round_at A (mir h0) s rp p (map mirror_frame cs) res (map_option mir_res3 x)"
  then show ?thesis using Del_done mirror_black_at [of A h0 s rp _ _ _ "mirror t"] by (cases x) (auto simp: split_paired_all)
qed

lemma delete_fix_right_ok:
  assumes t: "tree_at A h0 s rp h root t (In_right w p pk pc # cs)" and sp: "sent_parent h0 s t p" and w: "sib_left (mirror w)"
  shows "round_at A h0 s rp (Some p) cs (del_round t (In_right w p pk pc) cs) (delete_fix_right root (Some s) (pt s t) h)"
proof -
  have tm: "tree_at A (mir h0) s rp (mir h) root (mirror t) (In_left p pk pc (mirror w) # map mirror_frame cs)"
    using t mirror_tree_at [of A h0 s rp h root t "In_right w p pk pc # cs"] by simp
  have sm: "sent_parent (mir h0) s (mirror t) p" using sp by (cases t; cases "h0 s") (auto simp: sent_parent_def mir_def)
  have "round_at A (mir h0) s rp (Some p) (map mirror_frame cs) (del_left (mirror t) p pk pc (mirror w) (map mirror_frame cs))
      (map_option mir_res3 (delete_fix_right root (Some s) (pt s t) h))"
    using delete_fix_left_ok [OF tm sm w] delete_fix_right_mir [OF t sp w] by simp
  then show ?thesis using mirror_round_at by simp
qed

section \<open>The balance of the tree after a round\<close>

fun round_good :: "nat \<Rightarrow> rbt \<Rightarrow> frame \<Rightarrow> frame list \<Rightarrow> del_result \<Rightarrow> bool" where
  "round_good n t f cs (Del_up t') \<longleftrightarrow>
     rb_inv (blacken t') \<and> bh t' = (if fred f then n else Suc n) \<and> nodes t' = nodes (plug t [f]) \<and> (\<forall>s. pt s t' = Some (faddr f))"
| "round_good n t f cs (Del_done t') \<longleftrightarrow> rb_tree t' \<and> nodes t' = nodes (plug t (f # cs))"

lemma blacken_mirror: "blacken (mirror t) = mirror (blacken t)"
  by (cases t) auto

lemma blacken_inv: "rb_inv t \<Longrightarrow> rb_inv (blacken t)" "rb_tree t \<Longrightarrow> rb_tree (blacken t)"
  by (cases t; simp add: rb_tree_def)+

lemma del_rotated_inv:
  assumes "rb_inv t" "\<not> is_red t" "bh t = n" "rb_inv (Nd wl wa wk False wr)" "bh wl = n" "is_red wl \<or> is_red wr"
  shows "rb_inv (del_rotated t p pk pc wl wa wk wr)" "bh (del_rotated t p pk pc wl wa wk wr) = (if pc then Suc n else Suc (Suc n))"
    "is_red (del_rotated t p pk pc wl wa wk wr) = pc"
    "nodes (del_rotated t p pk pc wl wa wk wr) = nodes (Nd t p pk pc (Nd wl wa wk False wr))"
  using assms by (cases "(t, p, pk, pc, wl, wa, wk, wr)" rule: del_rotated.cases; auto)+

lemma del_left_good:
  assumes "rb_inv t" "\<not> is_red t" "bh t = n" "ctx_ok (Suc n) (In_left p pk pc w # cs)"
  shows "round_good n t (In_left p pk pc w) cs (del_left t p pk pc w cs)"
proof -
  obtain wl wa wk wc wr where wn: "w = Nd wl wa wk wc wr" using assms(4) by (cases w) auto
  have cs: "ctx_ok (if pc then Suc n else Suc (Suc n)) cs" "pc \<longrightarrow> cs \<noteq> [] \<and> \<not> fred (hd cs)" using assms(4) by auto
  show ?thesis
  proof (cases wc)
    case False
    then have w: "rb_inv (Nd wl wa wk False wr)" "bh wl = n" "bh wr = n" using assms(4) wn by auto
    show ?thesis
    proof (cases "\<not> is_red wl \<and> \<not> is_red wr")
      case True
      then show ?thesis using assms wn False w by simp
    next
      case no: False
      then have red: "is_red wl \<or> is_red wr" by simp
      note d = del_rotated_inv [OF assms(1-3) w(1,2) red, of p pk pc]
      have "rb_tree (plug (del_rotated t p pk pc wl wa wk wr) cs)" using plug_inv [OF d(1,2) cs(1)] d(3) cs(2) by simp
      then show ?thesis using no wn False blacken_inv(2) d(4) by (auto simp: nodes_plug)
    qed
  next
    case True
    then obtain l a k r where wl: "wl = Nd l a k False r" "pc = False" using assms(4) wn by (cases wl) auto
    have w: "rb_inv (Nd l a k False r)" "bh l = n" "bh r = n" "rb_inv wr" "bh wr = Suc n" "\<not> is_red wr"
      using assms(4) wn wl True by auto
    have cs1: "ctx_ok (Suc n) (In_left wa wk False wr # cs)" using w cs(1) wl by simp
    show ?thesis
    proof (cases "\<not> is_red l \<and> \<not> is_red r")
      case both: True
      have "rb_tree (plug (Nd t p pk False (Nd l a k True r)) (In_left wa wk False wr # cs))"
        by (rule plug_inv [OF _ _ cs1]) (use assms(1-3) w both in auto)
      then show ?thesis using both wn wl True by (auto simp: nodes_plug)
    next
      case no: False
      then have red: "is_red l \<or> is_red r" by simp
      note d = del_rotated_inv [OF assms(1-3) w(1,2) red, of p pk True]
      have "rb_tree (plug (del_rotated t p pk True l a k r) (In_left wa wk False wr # cs))"
        by (rule plug_inv [OF _ _ cs1]) (use d in auto)
      then show ?thesis using no wn wl True blacken_inv(2) d(4) by (auto simp: nodes_plug)
    qed
  qed
qed

lemma bh_mirror: "rb_inv (blacken t) \<Longrightarrow> bh (mirror t) = bh t"
  by (cases t) auto

lemma nodes_plug_mirror: "nodes (plug (mirror t) (map mirror_frame cs)) = rev (nodes (plug t cs))"
  unfolding mirror_plug [symmetric] by simp

lemma round_good_mirror:
  assumes "round_good n (mirror t) (mirror_frame f) (map mirror_frame cs) res"
  shows "round_good n t f cs (mirror_result res)"
  using assms nodes_plug_mirror [of t "[f]"] nodes_plug_mirror [of t "f # cs"]
  by (cases res) (auto simp: blacken_mirror bh_mirror rb_tree_def)

lemma del_round_good:
  assumes "rb_inv t" "\<not> is_red t" "bh t = n" "ctx_ok (Suc n) (f # cs)"
  shows "round_good n t f cs (del_round t f cs)"
proof (cases f)
  case (In_left p pk pc w)
  then show ?thesis using del_left_good assms by simp
next
  case (In_right w p pk pc)
  have "ctx_ok (Suc n) (In_left p pk pc (mirror w) # map mirror_frame cs)"
    using ctx_ok_mirror [OF assms(4)] In_right by simp
  then show ?thesis using del_left_good [of "mirror t" n] round_good_mirror assms(1-3) In_right by simp
qed

text \<open>The loop: \<open>temp\<close> is the root of a subtree that is one black node short.\<close>

lemma del_fix_good:
  assumes "rb_inv (blacken t)" "bh t = n" "ctx_ok (Suc n) cs"
  shows "rb_tree (del_fix t cs) \<and> nodes (del_fix t cs) = nodes (plug t cs)"
  using assms
proof (induction t cs arbitrary: n rule: del_fix.induct)
  case (1 t)
  then show ?case by (cases t) (auto simp: rb_tree_def)
next
  case (2 t f cs)
  show ?case
  proof (cases "is_red t")
    case True
    then have "bh (blacken t) = Suc n" "\<not> is_red (blacken t)" using 2(3) by (cases t; simp)+
    then show ?thesis using True plug_inv [OF 2(2) _ 2(4)] nodes_plug_cong [of "blacken t" t "f # cs"] by simp
  next
    case False
    then have t: "rb_inv t" using 2(2) by (cases t) auto
    note g = del_round_good [OF t False 2(3,4)]
    show ?thesis
    proof (cases "del_round t f cs")
      case (Del_up t')
      have c: "ctx_ok (Suc (if fred f then n else Suc n)) cs" using 2(4) by (cases f) auto
      have "nodes (plug t' cs) = nodes (plug t (f # cs))" using g Del_up by (cases f) (simp_all add: nodes_plug)
      then show ?thesis using 2(1) [OF False Del_up _ _ c] g Del_up False by simp
    next
      case (Del_done t')
      then show ?thesis using g False by simp
    qed
  qed
qed

lemma ctx_siblings:
  assumes "ctx_ok (Suc n) (f # cs)"
  shows "f = In_left p pk pc w \<Longrightarrow> sib_left w" "f = In_right w p pk pc \<Longrightarrow> sib_left (mirror w)"
proof -
  have s: "sib_left w" if "rb_inv w" "bh w = Suc n" for w
    using that by (cases w rule: sib_left.cases; cases "case w of Nd l a k c r \<Rightarrow> l") auto
  show "f = In_left p pk pc w \<Longrightarrow> sib_left w" using s assms by simp
  show "f = In_right w p pk pc \<Longrightarrow> sib_left (mirror w)" using s [of "mirror w"] assms by simp
qed

lemma tree_at_not_root_pt:
  assumes "tree_at A h0 s rp h root t (f # cs)"
  shows "pt s t \<noteq> root"
proof -
  obtain a where "a \<in> caddrs (f # cs)" "root = Some a"
    using assms repc_root [of h s rp root "pt s t" "f # cs"] by (auto simp: tree_at_def zip_ok_def)
  then show ?thesis using assms by (cases t) (auto simp: tree_at_def zip_ok_def)
qed

lemma delete_fix_loop_stop:
  assumes "tree_at A h0 s rp h root t cs" "is_red t \<or> cs = []"
  shows "delete_fix_loop root (Some s) (pt s t) h = Some (root, pt s t, h)"
  using assms tree_at_is_red [OF assms(1)] by (subst delete_fix_loop.simps) (auto simp: tree_at_def zip_ok_def)

lemma delete_fix_loop_step:
  assumes t: "tree_at A h0 s rp h root t (f # cs)" and sp: "sent_parent h0 s t (faddr f)" and red: "\<not> is_red t"
    and c: "ctx_ok (Suc n) (f # cs)"
  shows "\<exists>x. round_at A h0 s rp (Some (faddr f)) cs (del_round t f cs) x \<and>
    delete_fix_loop root (Some s) (pt s t) h = do { (root, temp, h) \<leftarrow> x; delete_fix_loop root (Some s) temp h }"
proof -
  have r: "pt s t \<noteq> root" "ngx_rbt_is_red h (pt s t) = Some False" "rd_parent h (pt s t) = Some (Some (faddr f))"
    using tree_at_not_root_pt [OF t] tree_at_is_red [OF t] temp_parent [OF t sp] red by simp_all
  show ?thesis
  proof (cases f)
    case (In_left p pk pc w)
    have "rd_left h (Some p) = Some (pt s t)" using tree_at_node [OF t [unfolded In_left tree_at_move]] by simp
    then show ?thesis using r In_left delete_fix_left_ok [OF t [unfolded In_left] _ ctx_siblings(1) [OF c In_left]] sp
      by (subst delete_fix_loop.simps) (auto simp del: rb_at)
  next
    case (In_right w p pk pc)
    have l: "rd_left h (Some p) = Some (pt s w)" using tree_at_node [OF t [unfolded In_right tree_at_move]] by simp
    have "w \<noteq> Lf" using c In_right by auto
    then have "pt s t \<noteq> pt s w" using t In_right by (cases t; cases w) (auto simp: tree_at_def zip_ok_def)
    then show ?thesis using r l In_right delete_fix_right_ok [OF t [unfolded In_right] _ ctx_siblings(2) [OF c In_right]] sp
      by (subst delete_fix_loop.simps) (auto simp del: rb_at)
  qed
qed

lemma delete_fix_loop_sim:
  assumes "tree_at A h0 s rp h root t cs" "cs \<noteq> [] \<longrightarrow> sent_parent h0 s t (faddr (hd cs))" "t \<noteq> Lf \<or> cs \<noteq> []"
    and "rb_inv (blacken t)" "bh t = n" "ctx_ok (Suc n) cs"
  shows "\<exists>root' temp h1 h2. delete_fix_loop root (Some s) (pt s t) h = Some (root', temp, h1) \<and>
    ngx_rbt_black temp h1 = Some h2 \<and> tree_at A h0 s rp h2 root' (del_fix t cs) []"
  using assms
proof (induction t cs arbitrary: n h root rule: del_fix.induct)
  case (1 t)
  then obtain l a k c r where "t = Nd l a k c r" by (cases t) auto
  then show ?case using delete_fix_loop_stop [OF 1(1)] tree_at_color(1) [of A h0 s rp h root l a k c r "[]"] 1(1) by auto
next
  case (2 t f cs)
  show ?case
  proof (cases "is_red t")
    case True
    then obtain l a k r where t: "t = Nd l a k True r" by (cases t) auto
    obtain h2 where "ngx_rbt_black (pt s t) h = Some h2" "tree_at A h0 s rp h2 root (blacken t) (f # cs)"
      using tree_at_color(1) [OF 2(2) [unfolded t]] t by auto
    then show ?thesis using delete_fix_loop_stop [OF 2(2)] True tree_at_plug [of A h0 s rp h2 root "blacken t" "f # cs"] by simp
  next
    case False
    then have t: "rb_inv t" using 2(5) by (cases t) auto
    note g = del_round_good [OF t False 2(6,7)]
    obtain x where x: "round_at A h0 s rp (Some (faddr f)) cs (del_round t f cs) x"
      "delete_fix_loop root (Some s) (pt s t) h = do { (root, temp, h) \<leftarrow> x; delete_fix_loop root (Some s) temp h }"
      using delete_fix_loop_step [OF 2(2) _ False 2(7)] 2(3) by auto
    show ?thesis
    proof (cases "del_round t f cs")
      case (Del_up t')
      obtain root1 h1 where h1: "x = Some (root1, Some (faddr f), h1)" "tree_at A h0 s rp h1 root1 t' cs"
        using x(1) Del_up by auto
      have c: "ctx_ok (Suc (if fred f then n else Suc n)) cs" using 2(7) by (cases f) auto
      have t': "rb_inv (blacken t')" "bh t' = (if fred f then n else Suc n)" "pt s t' = Some (faddr f)" "t' \<noteq> Lf"
        using g Del_up nodes_plug [of t "[f]"] by (cases f; auto)+
      then have sp: "cs \<noteq> [] \<longrightarrow> sent_parent h0 s t' (faddr (hd cs))" by (simp add: sent_parent_def)
      show ?thesis using 2(1) [OF False Del_up h1(2) sp _ t'(1,2) c] t'(3,4) h1(1) x(2) False Del_up by simp
    next
      case (Del_done t')
      obtain root1 temp h1 where h1: "x = Some (root1, temp, h1)" "black_at A h0 s rp h1 root1 temp t'"
        using x(1) Del_done by auto
      have "delete_fix_loop root1 (Some s) temp h1 = Some (root1, temp, h1)"
        using h1(2) by (subst delete_fix_loop.simps) (auto simp: black_at_def)
      then show ?thesis using h1 x(2) False Del_done by (auto simp: black_at_def)
    qed
  qed
qed

end
