(* ===== verification/Ngx_Rbtree_Delete.thy ===== *)
theory Ngx_Rbtree_Delete
  imports Ngx_Rbtree_Rebalance
begin

text \<open>
  \<^verbatim>\<open>ngx_rbtree_delete\<close> on a tree in the heap: the node that is taken out, the pointers that are moved, and the result.
\<close>

section \<open>Taking a node out\<close>

lemma delete_replace_steps:
  "delete_replace root (Some s) (Some x) (Some m) h =
    do {
      nl \<leftarrow> rd_left h (Some x);
      h \<leftarrow> wr_left (Some m) nl h;
      nr \<leftarrow> rd_right h (Some x);
      h \<leftarrow> wr_right (Some m) nr h;
      np \<leftarrow> rd_parent h (Some x);
      h \<leftarrow> wr_parent (Some m) np h;
      h \<leftarrow> ngx_rbt_copy_color (Some m) (Some x) h;
      (root, h) \<leftarrow> relink_left root (Some x) (Some m) h;
      sl \<leftarrow> rd_left h (Some m);
      h \<leftarrow> reparent (Some s) sl (Some m) h;
      sr \<leftarrow> rd_right h (Some m);
      h \<leftarrow> reparent (Some s) sr (Some m) h;
      Some (root, h)
    }"
  by (simp only: delete_replace_def relink_left_def reparent_def)

lemma delete_replace_ok:
  assumes x: "h x = Some \<lparr>rb_key = k, rb_left = pt s l, rb_right = pt s r, rb_parent = up rp cs, rb_red = c\<rparr>" "x \<noteq> s"
    and rep: "rep h s pl l" "rep h s pr r" "repc h s rp root (Some x) cs"
    and u: "uniq (Nd l x k c r)" "uniqc cs" "addrs (Nd l x k c r) \<inter> caddrs cs = {}"
    and m: "h m = Some n" "m \<noteq> s" "m \<notin> addrs (Nd l x k c r) \<union> caddrs cs"
  shows "\<exists>root' h'. delete_replace root (Some s) (Some x) (Some m) h = Some (root', h') \<and>
    zip_ok h' s rp root' (Nd l m (rb_key n) c r) cs \<and> same_outside (addrs l \<union> addrs r \<union> caddrs cs \<union> {m}) h h'"
proof -
  have d: "x \<noteq> m" "x \<notin> caddrs cs" "m \<notin> caddrs cs" "m \<notin> addrs l" "m \<notin> addrs r" "uniq l" "uniq r"
    "addrs l \<inter> addrs r = {}" "addrs r \<inter> addrs l = {}" "caddrs cs \<inter> addrs l = {}" "caddrs cs \<inter> addrs r = {}"
    "addrs l \<inter> caddrs cs = {}" "addrs r \<inter> caddrs cs = {}"
    using u m(3) by auto
  define n1 where "n1 = \<lparr>rb_key = rb_key n, rb_left = pt s l, rb_right = pt s r, rb_parent = up rp cs, rb_red = c\<rparr>"
  define h1 where "h1 = h(m \<mapsto> n1)"
  have "repc h1 s rp root (Some x) cs" "h1 x = h x" using rep(3) d by (simp_all add: h1_def)
  then obtain root' h2 where h2: "relink_left root (Some x) (Some m) h1 = Some (root', h2)" "repc h2 s rp root' (Some m) cs"
    "same_outside (caddrs cs) h1 h2"
    using relink_ok(1) [of h1 s rp root x cs _ "Some m"] d x u(2) by auto
  have "rep h2 s pl l" using rep_outside [OF h2(3) d(10)] rep(1) d by (simp add: h1_def)
  then obtain h3 where h3: "reparent (Some s) (pt s l) (Some m) h2 = Some h3" "rep h3 s (Some m) l" "same_outside (addrs l) h2 h3"
    using reparent_ok d(6) by blast
  have "rep h3 s pr r" using rep_outside [OF h3(3) d(8)] rep_outside [OF h2(3) d(11)] rep(2) d by (simp add: h1_def)
  then obtain h4 where h4: "reparent (Some s) (pt s r) (Some m) h3 = Some h4" "rep h4 s (Some m) r" "same_outside (addrs r) h3 h4"
    using reparent_ok d(7) by blast
  have m2: "h2 m = Some n1" "h3 m = Some n1" "h4 m = Some n1"
    using same_outsideD [OF h2(3)] same_outsideD [OF h3(3)] same_outsideD [OF h4(3)] d by (simp_all add: h1_def)
  have "delete_replace root (Some s) (Some x) (Some m) h = Some (root', h4)"
  proof -
    have "h1 = h(m \<mapsto> n\<lparr>rb_left := pt s l, rb_right := pt s r, rb_parent := up rp cs, rb_red := c\<rparr>)"
      by (cases n) (simp add: h1_def n1_def)
    then show ?thesis using x d m(1) h2(1) h3(1) h4(1) m2
      unfolding delete_replace_steps by (simp add: ngx_rbt_copy_color_def rb_set_def n1_def)
  qed
  moreover have "rep h4 s (Some m) l" using rep_outside [OF h4(3) d(9)] h3(2) by simp
  moreover have "repc h4 s rp root' (Some m) cs" using repc_outside [OF h4(3) d(13)] repc_outside [OF h3(3) d(12)] h2(2) by simp
  ultimately have "zip_ok h4 s rp root' (Nd l m (rb_key n) c r) cs"
    using h4(2) m2(3) m(2) d u by (simp add: zip_ok_def n1_def)
  moreover have "same_outside (addrs l \<union> addrs r \<union> caddrs cs \<union> {m}) h h4"
    using same_outsideD [OF h2(3)] same_outsideD [OF h3(3)] same_outsideD [OF h4(3)] by (auto simp: same_outside_def h1_def)
  ultimately show ?thesis using \<open>delete_replace root (Some s) (Some x) (Some m) h = Some (root', h4)\<close> by blast
qed

text \<open>The node \<open>temp\<close>, which may be the sentinel, gets a new parent.\<close>

lemma set_parent_ok:
  assumes "rep h s p0 t" "uniq t" "h s \<noteq> None"
  shows "\<exists>h'. wr_parent (pt s t) (Some p) h = Some h' \<and> rep h' s (Some p) t \<and> same_outside (insert s (addrs t)) h h' \<and>
    sent_parent h' s t p \<and> (sentinel_ok h s \<longrightarrow> sentinel_ok h' s)"
proof (cases t)
  case Lf
  then show ?thesis using assms(3) by (auto simp: sent_parent_def sentinel_ok_def)
next
  case (Nd l a k c r)
  then show ?thesis using assms by (auto simp: sent_parent_def sentinel_ok_def)
qed

text \<open>A node that is not the root is unlinked from its parent; \<open>t\<close> takes its place.\<close>

lemma unlink_ok:
  assumes z: "zip_ok h s rp root (Nd l x k c r) (f # cs)" and s: "sentinel_ok h s"
    and t: "rep h s (Some x) t" "uniq t" "addrs t \<subseteq> addrs l \<union> addrs r" 
  shows "\<exists>h1. relink_left root (Some x) (pt s t) h = Some (root, h1) \<and> same_outside (caddrs (f # cs)) h h1 \<and>
    repc h1 s rp root (pt s t) (f # cs) \<and> rep h1 s (Some x) t"
proof -
  have d: "x \<notin> caddrs (f # cs)" "x \<noteq> s" "uniqc (f # cs)" "h x = Some \<lparr>rb_key = k, rb_left = pt s l, rb_right = pt s r, rb_parent = up rp (f # cs), rb_red = c\<rparr>"
    "repc h s rp root (Some x) (f # cs)" "addrs (Nd l x k c r) \<inter> caddrs (f # cs) = {}"
    using z by (auto simp: zip_ok_def)
  obtain root' h1 where h1: "relink_left root (Some x) (pt s t) h = Some (root', h1)" "repc h1 s rp root' (pt s t) (f # cs)"
    "same_outside (caddrs (f # cs)) h h1"
    using relink_ok(1) [OF d(5,4) _ d(1,2,3), of "pt s t"] by auto
  have "root \<noteq> Some x" using repc_root [OF d(5)] d(1) by auto
  then have "root' = root" using h1(1) d(4) by (auto simp: relink_left_def bind_eq_Some_conv split: if_splits)
  moreover have "rep h1 s (Some x) t" using rep_outside [OF h1(3), of t] d(6) t by auto
  ultimately show ?thesis using h1 by blast
qed


lemma delete_unlink_steps:
  assumes "relink_left root subst temp h = Some (root, h1)" "subst \<noteq> root"
  shows "delete_unlink root sentinel node subst temp h =
    do {
      sp \<leftarrow> rd_parent h1 subst;
      if subst = node then do { h \<leftarrow> wr_parent temp sp h1; Some (root, h) }
      else do {
        h \<leftarrow> wr_parent temp (if sp = node then subst else sp) h1;
        delete_replace root sentinel node subst h
      }
    }"
proof -
  obtain sp spl where "rd_parent h subst = Some sp" "rd_left h sp = Some spl"
    "(if subst = spl then wr_left sp temp h else wr_right sp temp h) = Some h1"
    using assms by (auto simp: relink_left_def bind_eq_Some_conv)
  then show ?thesis by (cases "rd_parent h1 subst") (simp_all add: delete_unlink_def cong: if_cong)
qed

lemma tree_atI:
  assumes "zip_ok h s rp root t cs" "sentinel_ok h s" "A = addrs t \<union> caddrs cs" "s \<notin> A"
  shows "tree_at A h s rp h root t cs"
  using assms by (simp add: tree_at_def)

lemma unlink_self_ok:
  assumes t: "tree_at A h s rp h root (Nd l x k c r) (f # cs)" and lr: "l = Lf \<and> t = r \<or> r = Lf \<and> t = l"
  shows "\<exists>h'. delete_unlink root (Some s) (Some x) (Some x) (pt s t) h = Some (root, h') \<and>
    tree_at (A - {x}) h' s rp h' root t (f # cs) \<and> sent_parent h' s t (faddr f) \<and> same_outside (insert s A) h h' \<and> h' x \<noteq> None"
proof -
  have z: "zip_ok h s rp root (Nd l x k c r) (f # cs)" "sentinel_ok h s" "A = addrs (Nd l x k c r) \<union> caddrs (f # cs)" "s \<notin> A"
    using t by (auto simp: tree_at_def)
  have d: "rep h s (Some x) t" "uniq t" "addrs t \<subseteq> addrs l \<union> addrs r" "x \<notin> addrs t" "x \<notin> caddrs (f # cs)"
    "addrs t \<inter> caddrs (f # cs) = {}" "uniqc (f # cs)" "A - {x} = addrs t \<union> caddrs (f # cs)"
    using z(1) lr unfolding z(3) by (auto simp: zip_ok_def)
  obtain h1 where h1: "relink_left root (Some x) (pt s t) h = Some (root, h1)" "same_outside (caddrs (f # cs)) h h1"
    "repc h1 s rp root (pt s t) (f # cs)" "rep h1 s (Some x) t"
    using unlink_ok [OF z(1,2) d(1-3)] by blast
  have s1: "h1 s = h s" "h1 x = h x" using same_outsideD [OF h1(2)] z(3,4) d(5) by auto
  then have sent: "sentinel_ok h1 s" "h1 s \<noteq> None" using z(2) by (auto simp: sentinel_ok_def)
  obtain h2 where h2: "wr_parent (pt s t) (Some (faddr f)) h1 = Some h2" "rep h2 s (Some (faddr f)) t"
    "same_outside (insert s (addrs t)) h1 h2" "sent_parent h2 s t (faddr f)" "sentinel_ok h2 s"
    using set_parent_ok [OF h1(4) d(2) sent(2)] sent(1) by blast
  have "rd_parent h1 (Some x) = Some (Some (faddr f))" using s1 tree_at_node [OF t] by simp
  then have "delete_unlink root (Some s) (Some x) (Some x) (pt s t) h = Some (root, h2)"
    using delete_unlink_steps [OF h1(1)] tree_at_not_root [OF t] h2(1) by auto
  moreover have "repc h2 s rp root (pt s t) (f # cs)" using repc_outside [OF h2(3), of "f # cs"] h1(3) d(6) z(3,4) by auto
  then have "tree_at (A - {x}) h2 s rp h2 root t (f # cs)"
    using h2(2,5) d z(4) by (intro tree_atI) (auto simp: zip_ok_def)
  moreover have "same_outside (insert s A) h h2"
    by (rule same_outside_trans [OF h1(2) h2(3)]) (use z(3) d(3) in auto)
  moreover have "h2 x \<noteq> None"
    using same_outsideD [OF h2(3), of x] s1(2) tree_at_node [OF t] d(4) z(3,4) by auto
  ultimately show ?thesis using h2(4) by blast
qed

lemma caddrs_append [simp]: "caddrs (cs @ ds) = caddrs cs \<union> caddrs ds"
  by (auto simp: caddrs_def)

lemma uniq_plug: "uniq (plug t cs) \<longleftrightarrow> uniq t \<and> uniqc cs \<and> addrs t \<inter> caddrs cs = {}"
  by (induction t cs rule: plug.induct) auto

lemma unlink_other_ok:
  assumes t: "tree_at A h s rp h root (Nd l x k c (plug (Nd Lf m mk mc mr) ms)) ds"
  shows "\<exists>root' h'. delete_unlink root (Some s) (Some x) (Some m) (pt s mr) h = Some (root', h') \<and>
    tree_at (A - {x}) h' s rp h' root' mr (ms @ In_right l m mk c # ds) \<and>
    sent_parent h' s mr (faddr (hd (ms @ In_right l m mk c # ds))) \<and> same_outside (insert s A) h h' \<and> h' x \<noteq> None"
proof -
  let ?r = "plug mr ms" and ?cs = "ms @ In_right l x k c # ds"
  have z: "zip_ok h s rp root (Nd Lf m mk mc mr) ?cs" "sentinel_ok h s" "s \<notin> A"
    "A = insert m (addrs l \<union> insert x (addrs ?r) \<union> caddrs ds)"
    using t by (auto simp: tree_at_def zip_ok_plug [of h s rp root "Nd Lf m mk mc mr"] plug_append zip_ok_plug [of h s rp root _ ds] addrs_plug)
  have zx: "zip_ok h s rp root (Nd l x k c (plug (Nd Lf m mk mc mr) ms)) ds" using t by (simp add: tree_at_def)
  have u: "uniq (Nd l x k c ?r)" "uniqc ds" "addrs (Nd l x k c ?r) \<inter> caddrs ds = {}" "m \<notin> addrs (Nd l x k c ?r) \<union> caddrs ds"
    using zx by (auto simp: zip_ok_def uniq_plug addrs_plug)
  have d: "x \<noteq> s" "m \<noteq> s" "x \<noteq> m" "rep h s (Some m) mr" "uniq mr" "m \<notin> caddrs ?cs" "addrs mr \<inter> caddrs ?cs = {}"
    using z(1) zx u(4) unfolding zip_ok_def by auto
  have xr: "x \<notin> addrs mr" using u(1) by (simp add: addrs_plug)
  obtain f cs1 where f: "?cs = f # cs1" by (cases ?cs) auto
  obtain h1 where h1: "relink_left root (Some m) (pt s mr) h = Some (root, h1)" "same_outside (caddrs ?cs) h h1"
    "repc h1 s rp root (pt s mr) ?cs" "rep h1 s (Some m) mr"
    using unlink_ok [OF z(1) [unfolded f] z(2) d(4,5)] f by auto
  have s1: "h1 s = h s" "h1 m = h m" using same_outsideD [OF h1(2)] z(3) d(6) by (auto simp: z(4) addrs_plug)
  then have sent: "sentinel_ok h1 s" "h1 s \<noteq> None" using z(2) by (auto simp: sentinel_ok_def)
  have hm: "h m = Some \<lparr>rb_key = mk, rb_left = Some s, rb_right = pt s mr, rb_parent = Some (faddr f), rb_red = mc\<rparr>"
    using z(1) f by (simp add: zip_ok_def)
  define p where "p = (if faddr f = x then m else faddr f)"
  have p: "p = faddr (hd (ms @ In_right l m mk c # ds))"
    using f u(1) by (cases ms) (auto simp: p_def addrs_plug)
  obtain h2 where h2: "wr_parent (pt s mr) (Some p) h1 = Some h2" "rep h2 s (Some p) mr"
    "same_outside (insert s (addrs mr)) h1 h2" "sent_parent h2 s mr p" "sentinel_ok h2 s"
    using set_parent_ok [OF h1(4) d(5) sent(2)] sent(1) by blast
  have c2: "repc h2 s rp root (pt s mr) ?cs" using repc_outside [OF h2(3), of ?cs] h1(3) d(7) z(3,4) by (auto simp: addrs_plug)
  obtain q where n: "h2 x = Some \<lparr>rb_key = k, rb_left = pt s l, rb_right = pt s ?r, rb_parent = up rp ds, rb_red = c\<rparr>"
    "rep h2 s (Some x) l" "rep h2 s q ?r" "repc h2 s rp root (Some x) ds"
  proof (cases ms)
    case Nil
    then show ?thesis using that c2 h2(2) by auto
  next
    case (Cons g gs)
    then have "zip_ok h2 s rp root mr ?cs" using h2(2) c2 z(1) p f by (auto simp: zip_ok_def)
    then have "zip_ok h2 s rp root (Nd l x k c ?r) ds"
      by (simp add: zip_ok_plug [of h2 s rp root mr] plug_append zip_ok_plug [of h2 s rp root _ ds])
    then show ?thesis using that by (auto simp: zip_ok_def)
  qed
  have m2: "h2 m = h m" using same_outsideD [OF h2(3)] s1(2) d u(4) by (auto simp: addrs_plug)
  obtain root' h3 where h3: "delete_replace root (Some s) (Some x) (Some m) h2 = Some (root', h3)"
    "zip_ok h3 s rp root' (Nd l m mk c ?r) ds" "same_outside (addrs l \<union> addrs ?r \<union> caddrs ds \<union> {m}) h2 h3"
    using delete_replace_ok [OF n(1) d(1) n(2-4) u(1-3) _ d(2) u(4)] m2 hm by auto
  have "rd_parent h1 (Some m) = Some (Some (faddr f))" using s1 hm by simp
  moreover have "root \<noteq> Some m" using z(1) d(6) repc_root [of h s rp root "Some m" ?cs] by (auto simp: zip_ok_def)
  ultimately have "delete_unlink root (Some s) (Some x) (Some m) (pt s mr) h = Some (root', h3)"
    using delete_unlink_steps [OF h1(1)] h2(1) h3(1) d(3) by (auto simp: p_def)
  moreover have s3: "h3 s = h2 s" using same_outsideD [OF h3(3)] z(3,4) by simp
  then have "sentinel_ok h3 s" "sent_parent h3 s mr p" using h2(4,5) by (simp_all add: sentinel_ok_def sent_parent_def)
  moreover have "zip_ok h3 s rp root' mr (ms @ In_right l m mk c # ds)"
    using h3(2) by (simp add: zip_ok_plug [of h3 s rp root' mr] plug_append zip_ok_plug [of h3 s rp root' _ ds])
  then have "tree_at (A - {x}) h3 s rp h3 root' mr (ms @ In_right l m mk c # ds)"
    using \<open>sentinel_ok h3 s\<close> u z(3) d(3) by (intro tree_atI) (auto simp: z(4) addrs_plug caddrs_def)
  moreover have "same_outside (insert s A) h h3"
    using same_outsideD [OF h1(2)] same_outsideD [OF h2(3)] same_outsideD [OF h3(3)]
    by (auto simp: same_outside_def z(4) addrs_plug)
  moreover have "h3 x \<noteq> None" using same_outsideD [OF h3(3), of x] n(1) u d(3) by auto
  ultimately show ?thesis using p by blast
qed

section \<open>Deletion\<close>

text \<open>What is left once a node with at most one child, of the colour \<open>red\<close>, is taken out above \<open>t\<close>.\<close>

definition rb_rem :: "bool \<Rightarrow> rbt \<Rightarrow> frame list \<Rightarrow> rbt" where
  "rb_rem red t cs = (if red then plug t cs else del_fix t cs)"

text \<open>The balance above and below a position.\<close>

lemma zip_inv:
  "rb_tree (plug t cs) \<Longrightarrow> rb_inv t \<and> ctx_ok (bh t) cs \<and> (is_red t \<longrightarrow> cs \<noteq> [] \<and> \<not> fred (hd cs))"
proof (induction t cs rule: plug.induct)
  case (2 t a k c r cs)
  then show ?case by (cases c) auto
next
  case (3 t l a k c cs)
  then show ?case by (cases c) auto
qed (simp add: rb_tree_def)

lemma ctx_ok_rename: "ctx_ok n (ms @ In_right l x k c # ds) = ctx_ok n (ms @ In_right l x' k' c # ds)"
proof (induction ms arbitrary: n)
  case (Cons f ms)
  then show ?case by (cases f; cases ms) auto
qed simp

lemma rem_good:
  assumes q: "q = Nd Lf a k red t \<or> q = Nd t a k red Lf" and i: "rb_inv q" "ctx_ok (bh q) cs"
  shows "rb_tree (rb_rem red t cs)" "nodes (rb_rem red t cs) = nodes (plug t cs)"
proof -
  have t: "rb_inv t" "bh q = (if red then bh t else Suc (bh t))" "red \<longrightarrow> \<not> is_red t" using q i(1) by auto
  have "rb_tree (rb_rem red t cs) \<and> nodes (rb_rem red t cs) = nodes (plug t cs)"
  proof (cases red)
    case True
    then show ?thesis using plug_inv [OF t(1) _ i(2)] t by (simp add: rb_rem_def)
  next
    case False
    then show ?thesis using del_fix_good [OF blacken_inv(1) [OF t(1)], of "bh t" cs] t i(2) by (simp add: rb_rem_def)
  qed
  then show "rb_tree (rb_rem red t cs)" "nodes (rb_rem red t cs) = nodes (plug t cs)" by simp_all
qed

text \<open>The end of the function, from the assignments that clear the node on.\<close>

definition delete_tail :: "bool \<Rightarrow> ptr \<Rightarrow> ptr \<Rightarrow> ptr \<Rightarrow> ptr \<Rightarrow> rb_heap \<Rightarrow> (ptr \<times> rb_heap) option" where
  "delete_tail red root sentinel node temp h =
    do {
      h \<leftarrow> rb_clear node h;
      if red then Some (root, h)
      else do {
        (root, temp, h) \<leftarrow> delete_fix_loop root sentinel temp h;
        h \<leftarrow> ngx_rbt_black temp h;
        Some (root, h)
      }
    }"

definition cleared :: "ngx_rbtree_node \<Rightarrow> ngx_rbtree_node" where
  "cleared n = \<lparr>rb_key = 0, rb_left = None, rb_right = None, rb_parent = None, rb_red = rb_red n\<rparr>"

lemma rb_clear_ok: "h x = Some n \<Longrightarrow> rb_clear (Some x) h = Some (h(x \<mapsto> cleared n))"
  by (cases n) (simp add: rb_clear_def rb_set_def cleared_def)

lemma tree_at_upd:
  assumes "tree_at A h s rp h root t cs" "x \<notin> A" "x \<noteq> s"
  shows "tree_at A (h(x := n)) s rp (h(x := n)) root t cs"
proof -
  have "x \<notin> addrs t" "x \<notin> caddrs cs" using assms(1,2) by (auto simp: tree_at_def)
  then show ?thesis using assms by (simp add: tree_at_def zip_ok_def sentinel_ok_def)
qed

lemma delete_tail_ok:
  assumes t: "tree_at A h s rp h root t cs" "cs \<noteq> []" "sent_parent h s t (faddr (hd cs))" "x \<notin> A" "x \<noteq> s" "h x = Some n"
    and q: "q = Nd Lf a k red t \<or> q = Nd t a k red Lf" "rb_inv q" "ctx_ok (bh q) cs"
  shows "\<exists>root' h'. delete_tail red root (Some s) (Some x) (pt s t) h = Some (root', h') \<and>
    tree_at A (h(x \<mapsto> cleared n)) s rp h' root' (rb_rem red t cs) []"
proof -
  let ?h = "h(x \<mapsto> cleared n)"
  note t1 = tree_at_upd [OF t(1,4,5), of "Some (cleared n)"]
  have sp: "cs \<noteq> [] \<longrightarrow> sent_parent ?h s t (faddr (hd cs))" using t(3,5) by (simp add: sent_parent_def)
  show ?thesis
  proof (cases red)
    case True
    then show ?thesis using t1 tree_at_plug rb_clear_ok [of h x n] t(6) by (auto simp: delete_tail_def rb_rem_def)
  next
    case False
    have c: "rb_inv (blacken t)" "ctx_ok (Suc (bh t)) cs" using q False blacken_inv(1) by auto
    show ?thesis using delete_fix_loop_sim [OF t1 sp _ c(1) refl c(2)] t(2) False rb_clear_ok [of h x n] t(6)
      by (auto simp: delete_tail_def rb_rem_def)
  qed
qed

lemma delete_steps:
  assumes "delete_subst (rb_sentinel tree) node h = Some (temp, subst)" "subst \<noteq> rb_root tree" "ngx_rbt_is_red h subst = Some red"
    "delete_unlink (rb_root tree) (rb_sentinel tree) node subst temp h = Some (root, h1)"
    "delete_tail red root (rb_sentinel tree) node temp h1 = Some (root', h2)"
  shows "ngx_rbtree_delete tree node h = Some (tree\<lparr>rb_root := root'\<rparr>, h2)"
  using assms by (auto simp: ngx_rbtree_delete_def delete_tail_def bind_eq_Some_conv split: if_splits)

lemma before_append: "before (cs @ ds) = before ds @ before cs" "behind (cs @ ds) = behind cs @ behind ds"
  by (induction cs rule: before.induct) auto

text \<open>The node with the least key of a subtree.\<close>

lemma leftmost: "t \<noteq> Lf \<Longrightarrow> \<exists>m mk mc mr ms. t = plug (Nd Lf m mk mc mr) ms \<and> before ms = []"
proof (induction t)
  case (Nd l a k c r)
  show ?case
  proof (cases "l = Lf")
    case True
    then show ?thesis by (intro exI [of _ a] exI [of _ k] exI [of _ c] exI [of _ r] exI [of _ "[]"]) simp
  next
    case False
    then obtain m mk mc mr ms where l: "l = plug (Nd Lf m mk mc mr) ms" "before ms = []" using Nd.IH(1) by blast
    have "Nd l a k c r = plug (Nd Lf m mk mc mr) (ms @ [In_left a k c r])" using l(1) by (simp add: plug_append)
    moreover have "before (ms @ [In_left a k c r]) = []" using l(2) before_append by simp
    ultimately show ?thesis by blast
  qed
qed simp


text \<open>The three cases of \<open>delete_subst\<close>.\<close>

lemma delete_subst_ok:
  assumes t: "tree_at A h s rp h root (Nd l x k c r) cs"
  shows "l = Lf \<Longrightarrow> delete_subst (Some s) (Some x) h = Some (pt s r, Some x)"
    "l \<noteq> Lf \<Longrightarrow> r = Lf \<Longrightarrow> delete_subst (Some s) (Some x) h = Some (pt s l, Some x)"
    "l \<noteq> Lf \<Longrightarrow> r = plug (Nd Lf m mk mc mr) ms \<Longrightarrow> before ms = [] \<Longrightarrow>
      delete_subst (Some s) (Some x) h = Some (pt s mr, Some m) \<and> h m \<noteq> None \<and> ngx_rbt_is_red h (Some m) = Some mc"
proof -
  note n = tree_at_node [OF t]
  have sent: "pt s u \<noteq> Some s" if "u \<noteq> Lf" "addrs u \<subseteq> addrs (Nd l x k c r)" for u
    using t that by (cases u) (auto simp: tree_at_def)
  show "l = Lf \<Longrightarrow> delete_subst (Some s) (Some x) h = Some (pt s r, Some x)" using n by (simp add: delete_subst_def)
  show "l \<noteq> Lf \<Longrightarrow> r = Lf \<Longrightarrow> delete_subst (Some s) (Some x) h = Some (pt s l, Some x)"
    using n sent [of l] by (auto simp: delete_subst_def)
  assume l: "l \<noteq> Lf" and r: "r = plug (Nd Lf m mk mc mr) ms" "before ms = []"
  have ne: "r \<noteq> Lf" and hd: "fst (hd (nodes r)) = m" using r nodes_plug [of "Nd Lf m mk mc mr" ms] by auto
  have "tree_at A h s rp h root (Nd Lf m mk mc mr) (ms @ In_right l x k c # cs)"
    using t r(1) by (simp add: tree_at_plug [of A h s rp h root "Nd Lf m mk mc mr"] plug_append tree_at_plug [of A h s rp h root _ cs])
  note m = tree_at_node [OF this]
  have "ngx_rbtree_min (pt s r) (Some s) h = Some (Some m)" using min_ok [OF tree_at_sub(2) [OF t] ne] hd by simp
  then show "delete_subst (Some s) (Some x) h = Some (pt s mr, Some m) \<and> h m \<noteq> None \<and> ngx_rbt_is_red h (Some m) = Some mc"
    using n m sent [of l] sent [of r] l ne by (auto simp: delete_subst_def)
qed

text \<open>A node that is deleted: it points nowhere.\<close>

definition detached :: "rb_heap \<Rightarrow> nat \<Rightarrow> bool" where
  "detached h x \<longleftrightarrow> (\<exists>n. h x = Some n \<and> rb_left n = None \<and> rb_right n = None \<and> rb_parent n = None)"

definition delete_result :: "ngx_rbtree \<Rightarrow> nat \<Rightarrow> nat set \<Rightarrow> rb_heap \<Rightarrow> nat \<Rightarrow> rbt \<Rightarrow> bool" where
  "delete_result tree s A h x t' \<longleftrightarrow>
    (\<exists>tree' h'. ngx_rbtree_delete tree (Some x) h = Some (tree', h') \<and> rb_holds h' tree' t' \<and> detached h' x \<and>
       same_outside (insert s A) h h' \<and> rb_sentinel tree' = rb_sentinel tree)"

lemma delete_resultI:
  assumes "delete_subst (Some s) (Some x) h = Some (pt s t, Some m)" "Some m \<noteq> rb_root tree" "ngx_rbt_is_red h (Some m) = Some red"
    and sent: "rb_sentinel tree = Some s"
    and un: "delete_unlink (rb_root tree) (Some s) (Some x) (Some m) (pt s t) h = Some (root, h1)"
      "tree_at (A - {x}) h1 s rp h1 root t cs" "sent_parent h1 s t (faddr (hd cs))" "same_outside (insert s A) h h1" "h1 x \<noteq> None"
    and q: "q = Nd Lf a k red t \<or> q = Nd t a k red Lf" "rb_inv q" "ctx_ok (bh q) cs"
    and x: "x \<in> A" "x \<noteq> s" "cs \<noteq> []"
  shows "delete_result tree s A h x (rb_rem red t cs)"
proof -
  obtain n where n: "h1 x = Some n" using un(5) by auto
  obtain root' h2 where h2: "delete_tail red root (Some s) (Some x) (pt s t) h1 = Some (root', h2)"
    "tree_at (A - {x}) (h1(x \<mapsto> cleared n)) s rp h2 root' (rb_rem red t cs) []"
    using delete_tail_ok [OF un(2) x(3) un(3) _ x(2) n q] by auto
  have run: "ngx_rbtree_delete tree (Some x) h = Some (tree\<lparr>rb_root := root'\<rparr>, h2)"
    using delete_steps [of tree "Some x" h "pt s t" "Some m" red root h1 root' h2] assms(1-3) sent un(1) h2(1) by simp
  have o: "same_outside (A - {x}) (h1(x \<mapsto> cleared n)) h2" "addrs (rb_rem red t cs) = A - {x}"
    using h2(2) by (auto simp: tree_at_def)
  have "rb_holds h2 (tree\<lparr>rb_root := root'\<rparr>) (rb_rem red t cs)"
    using tree_at_rebase [OF h2(2)] sent o(2) by (auto simp: rb_holds_def)
  moreover have "detached h2 x" using same_outsideD [OF o(1), of x] by (simp add: detached_def cleared_def)
  moreover have "same_outside (insert s A) h h2"
    using same_outsideD [OF o(1)] same_outsideD [OF un(4)] x(1) by (auto simp: same_outside_def)
  ultimately show ?thesis using run by (auto simp: delete_result_def)
qed

lemma black_top:
  assumes "rep h s p t" "uniq t" "sentinel_ok h s" "s \<notin> addrs t"
  shows "\<exists>h'. ngx_rbt_black (pt s t) h = Some h' \<and> rep h' s p (blacken t) \<and> same_outside (addrs t) h h'"
proof (cases t)
  case Lf
  obtain n where n: "h s = Some n" "\<not> rb_red n" using assms(3) by (auto simp: sentinel_ok_def)
  have "n\<lparr>rb_red := False\<rparr> = n" using n(2) by (cases n) simp
  then have "h(s \<mapsto> n\<lparr>rb_red := False\<rparr>) = h" using n(1) by (simp add: fun_upd_idem)
  then show ?thesis using Lf n by simp
next
  case (Nd l a k c r)
  then show ?thesis using assms by auto
qed

lemma delete_root_ok:
  assumes t: "tree_at A h s rp h (rb_root tree) (Nd l x k c r) []" and sent: "rb_sentinel tree = Some s"
    and lr: "l = Lf \<and> t = r \<or> l \<noteq> Lf \<and> r = Lf \<and> t = l"
  shows "delete_result tree s A h x (blacken t)"
proof -
  have z: "rep h s (Some x) t" "uniq t" "sentinel_ok h s" "A - {x} = addrs t" "s \<notin> addrs t" "x \<notin> addrs t" "x \<noteq> s" "x \<in> A" "s \<notin> A"
    "rb_root tree = Some x"
    using t lr by (auto simp: tree_at_def zip_ok_def)
  obtain n where n: "h x = Some n" using tree_at_node [OF t] by simp
  obtain h1 where h1: "ngx_rbt_black (pt s t) h = Some h1" "rep h1 s (Some x) (blacken t)" "same_outside (addrs t) h h1"
    using black_top [OF z(1,2,3,5)] by blast
  have x1: "h1 x = Some n" "h1 s = h s" using same_outsideD [OF h1(3)] z n by simp_all
  let ?h = "h1(x \<mapsto> cleared n)" and ?tree = "tree\<lparr>rb_root := pt s t\<rparr>"
  have "delete_subst (Some s) (Some x) h = Some (pt s t, Some x)" using delete_subst_ok(1,2) [OF t] lr by auto
  then have "ngx_rbtree_delete tree (Some x) h = Some (?tree, ?h)"
    using h1(1) z(10) sent rb_clear_ok [of h1 x n] x1 by (simp add: ngx_rbtree_delete_def)
  moreover have ad: "addrs (blacken t) = addrs t" "uniq (blacken t)" "pt s (blacken t) = pt s t" using z(2) by (cases t; simp)+
  have "rb_holds ?h ?tree (blacken t)"
    unfolding rb_holds_def using sent ad h1(2) z x1
    by (intro exI [of _ s] exI [of _ "Some x"]) (simp add: tree_at_def zip_ok_def sentinel_ok_def)
  moreover have "detached ?h x" by (simp add: detached_def cleared_def)
  moreover have "same_outside (insert s A) h ?h" using same_outsideD [OF h1(3)] z(4,8) by (auto simp: same_outside_def)
  ultimately show ?thesis by (auto simp: delete_result_def)
qed

lemma focus_addr:
  assumes "x \<in> addrs t"
  shows "\<exists>l k c r ds. t = plug (Nd l x k c r) ds"
proof -
  obtain i where i: "i < length (nodes t)" "fst (nodes t ! i) = x" using assms by (auto simp: addrs_def in_set_conv_nth)
  then show ?thesis using focus [OF i(1), of "[]"] by (metis fst_conv plug.simps(1))
qed

lemma filter_out:
  assumes "distinct (map fst (as @ (x, k) # bs))"
  shows "filter (\<lambda>p. fst p \<noteq> x) (as @ (x, k) # bs) = as @ bs"
proof -
  have "filter (\<lambda>p. fst p \<noteq> x) as = as" "filter (\<lambda>p. fst p \<noteq> x) bs = bs" using assms by (auto simp: filter_id_conv)
  then show ?thesis by simp
qed

text \<open>A node with at most one child is taken out itself.\<close>

lemma delete_one:
  assumes t: "tree_at A h s rp h (rb_root tree) (Nd l x k c r) ds" and T: "rb_tree (plug (Nd l x k c r) ds)"
    and sent: "rb_sentinel tree = Some s" and one: "l = Lf \<and> u = r \<or> l \<noteq> Lf \<and> r = Lf \<and> u = l"
  shows "delete_result tree s A h x (rb_rem c u ds) \<and> rb_tree (rb_rem c u ds) \<and>
    nodes (rb_rem c u ds) = before ds @ nodes l @ nodes r @ behind ds"
proof -
  let ?q = "Nd l x k c r"
  have i: "rb_inv ?q" "ctx_ok (bh ?q) ds" "c \<longrightarrow> ds \<noteq> []" using zip_inv [OF T] by auto
  have q: "?q = Nd Lf x k c u \<or> ?q = Nd u x k c Lf" using one by auto
  note good = rem_good [OF q i(1,2)]
  have "delete_result tree s A h x (rb_rem c u ds)"
  proof (cases ds)
    case Nil
    then show ?thesis using delete_root_ok [OF t [unfolded Nil] sent one] i(3) by (simp add: rb_rem_def)
  next
    case (Cons g gs)
    have lr: "l = Lf \<and> u = r \<or> r = Lf \<and> u = l" using one by blast
    obtain h1 where un: "delete_unlink (rb_root tree) (Some s) (Some x) (Some x) (pt s u) h = Some (rb_root tree, h1)"
      "tree_at (A - {x}) h1 s rp h1 (rb_root tree) u ds" "sent_parent h1 s u (faddr (hd ds))"
      "same_outside (insert s A) h h1" "h1 x \<noteq> None"
      using unlink_self_ok [OF t [unfolded Cons] lr] Cons by auto
    have sub: "delete_subst (Some s) (Some x) h = Some (pt s u, Some x)" using delete_subst_ok(1,2) [OF t] one by auto
    have red: "ngx_rbt_is_red h (Some x) = Some c" "Some x \<noteq> rb_root tree" "x \<in> A" "x \<noteq> s"
      using tree_at_node [OF t] tree_at_not_root [OF t [unfolded Cons]] t by (auto simp: tree_at_def)
    show ?thesis by (rule delete_resultI [OF sub red(2,1) sent un q i(1,2) red(3,4)]) (simp add: Cons)
  qed
  then show ?thesis using good one nodes_plug by auto
qed

text \<open>A node with two children is replaced by the next one, which has no left child.\<close>

lemma delete_two:
  assumes t: "tree_at A h s rp h (rb_root tree) (Nd l x k c r) ds" and T: "rb_tree (plug (Nd l x k c r) ds)"
    and sent: "rb_sentinel tree = Some s" and two: "l \<noteq> Lf" "r \<noteq> Lf"
  shows "\<exists>t'. delete_result tree s A h x t' \<and> rb_tree t' \<and> nodes t' = before ds @ nodes l @ nodes r @ behind ds"
proof -
  obtain m mk mc mr ms where r: "r = plug (Nd Lf m mk mc mr) ms" "before ms = []" using leftmost [OF two(2)] by blast
  let ?q = "Nd Lf m mk mc mr" and ?cs = "ms @ In_right l m mk c # ds" and ?ds = "ms @ In_right l x k c # ds"
  have eq: "plug (Nd l x k c r) ds = plug ?q ?ds" using r(1) by (simp add: plug_append)
  have qi: "rb_inv ?q" "ctx_ok (bh ?q) ?cs"
    using zip_inv [of ?q ?ds] T [unfolded eq] ctx_ok_rename [of "bh ?q" ms l x k c ds m mk] by auto
  have q: "?q = Nd Lf m mk mc mr \<or> ?q = Nd mr m mk mc Lf" by simp
  note good = rem_good [OF q qi]
  have nodes: "nodes (rb_rem mc mr ?cs) = before ds @ nodes l @ nodes r @ behind ds"
    using good(2) r by (simp add: nodes_plug before_append)
  obtain root' h1 where un: "delete_unlink (rb_root tree) (Some s) (Some x) (Some m) (pt s mr) h = Some (root', h1)"
    "tree_at (A - {x}) h1 s rp h1 root' mr ?cs" "sent_parent h1 s mr (faddr (hd ?cs))"
    "same_outside (insert s A) h h1" "h1 x \<noteq> None"
    using unlink_other_ok [OF t [unfolded r(1)]] by blast
  note sub = delete_subst_ok(3) [OF t two(1) r]
  have "tree_at A h s rp h (rb_root tree) ?q ?ds"
    using t tree_at_plug [of A h s rp h "rb_root tree" ?q ?ds] tree_at_plug [of A h s rp h "rb_root tree" "Nd l x k c r" ds] eq by simp
  then have "Some m \<noteq> rb_root tree" using tree_at_not_root_pt [of A h s rp h "rb_root tree" ?q] by (cases ms) auto
  moreover have "x \<in> A" "x \<noteq> s" using t by (auto simp: tree_at_def)
  ultimately have "delete_result tree s A h x (rb_rem mc mr ?cs)"
    using delete_resultI [OF _ _ _ sent un q qi] sub by simp
  then show ?thesis using good(1) nodes by blast
qed

lemma delete_ok:
  assumes h: "rb_holds h tree T" and T: "rb_tree T" "x \<in> addrs T"
  shows "\<exists>s t'. rb_sentinel tree = Some s \<and> delete_result tree s (addrs T) h x t' \<and> rb_tree t' \<and>
    nodes t' = filter (\<lambda>p. fst p \<noteq> x) (nodes T)"
proof -
  obtain s rp where s: "rb_sentinel tree = Some s" "tree_at (addrs T) h s rp h (rb_root tree) T []"
    using h by (auto simp: rb_holds_def)
  obtain l k c r ds where f: "T = plug (Nd l x k c r) ds" using focus_addr [OF T(2)] by blast
  have t: "tree_at (addrs T) h s rp h (rb_root tree) (Nd l x k c r) ds"
    using s(2) f tree_at_plug [of "addrs T" h s rp h "rb_root tree" "Nd l x k c r" ds] by simp
  have "distinct (map fst (nodes T))" using s(2) by (simp add: tree_at_def zip_ok_def uniq_distinct)
  then have out: "filter (\<lambda>p. fst p \<noteq> x) (nodes T) = before ds @ nodes l @ nodes r @ behind ds"
    using filter_out [of "before ds @ nodes l" x k "nodes r @ behind ds"] unfolding f nodes_plug by simp
  consider u where "l = Lf \<and> u = r \<or> l \<noteq> Lf \<and> r = Lf \<and> u = l" | "l \<noteq> Lf" "r \<noteq> Lf" by blast
  then have "\<exists>t'. delete_result tree s (addrs T) h x t' \<and> rb_tree t' \<and> nodes t' = before ds @ nodes l @ nodes r @ behind ds"
    using delete_one [OF t T(1) [unfolded f] s(1)] delete_two [OF t T(1) [unfolded f] s(1)] by cases blast+
  then show ?thesis using s(1) out by auto
qed

end
