(* ===== verification/Ngx_Rbtree_Props.thy ===== *)
theory Ngx_Rbtree_Props
  imports Ngx_Rbtree_Delete "HOL-Library.Multiset"
begin

text \<open>
  The properties of the red-black tree: insertion, deletion, and sequences of both against a specification on lists.
\<close>

section \<open>Sequences of operations\<close>

text \<open>The use of a tree: a node gets its key and is inserted, or it is deleted. The specification keeps the list of the nodes in
  the order of their keys, a new one behind those with the same key.\<close>

datatype rb_op = Add nat ngx_uint_t | Remove nat

fun op_addr :: "rb_op \<Rightarrow> nat" where
  "op_addr (Add x k) = x"
| "op_addr (Remove x) = x"

fun rb_step :: "rb_op \<Rightarrow> ngx_rbtree \<times> rb_heap \<Rightarrow> (ngx_rbtree \<times> rb_heap) option" where
  "rb_step (Add x k) (tree, h) =
    do {
      h \<leftarrow> rb_set (Some x) (\<lambda>n. n\<lparr>rb_key := k\<rparr>) h;
      ngx_rbtree_insert ngx_rbtree_insert_value tree (Some x) h
    }"
| "rb_step (Remove x) (tree, h) = ngx_rbtree_delete tree (Some x) h"

fun rb_run :: "rb_op list \<Rightarrow> ngx_rbtree \<times> rb_heap \<Rightarrow> (ngx_rbtree \<times> rb_heap) option" where
  "rb_run [] st = Some st"
| "rb_run (x # xs) st = rb_step x st \<bind> rb_run xs"

fun spec_step :: "rb_op \<Rightarrow> (nat \<times> ngx_uint_t) list \<Rightarrow> (nat \<times> ngx_uint_t) list option" where
  "spec_step (Add x k) ps =
    (if x \<in> fst ` set ps then None
     else Some (takeWhile (\<lambda>p. snd p \<le> k) ps @ (x, k) # dropWhile (\<lambda>p. snd p \<le> k) ps))"
| "spec_step (Remove x) ps = (if x \<in> fst ` set ps then Some (filter (\<lambda>p. fst p \<noteq> x) ps) else None)"

fun spec_run :: "rb_op list \<Rightarrow> (nat \<times> ngx_uint_t) list \<Rightarrow> (nat \<times> ngx_uint_t) list option" where
  "spec_run [] ps = Some ps"
| "spec_run (x # xs) ps = spec_step x ps \<bind> spec_run xs"

text \<open>The heap holds a red-black tree with the nodes \<open>ps\<close> in order.\<close>

definition rb_state :: "nat \<Rightarrow> (nat \<times> ngx_uint_t) list \<Rightarrow> ngx_rbtree \<times> rb_heap \<Rightarrow> bool" where
  "rb_state s ps st \<longleftrightarrow>
    (\<exists>t. rb_holds (snd st) (fst st) t \<and> rb_tree t \<and> in_order (<) t \<and> nodes t = ps \<and> rb_sentinel (fst st) = Some s)"

lemma rep_dom: "rep h s par t \<Longrightarrow> x \<in> addrs t \<Longrightarrow> h x \<noteq> None"
  by (induction t arbitrary: par) auto

lemma rb_holds_dom: "rb_holds h tree t \<Longrightarrow> x \<in> addrs t \<Longrightarrow> h x \<noteq> None"
  using rep_dom by (auto simp: rb_holds_def tree_at_def zip_ok_def)

lemma rb_holds_upd:
  assumes "rb_holds h tree t" "x \<notin> addrs t" "rb_sentinel tree \<noteq> Some x"
  shows "rb_holds (h(x \<mapsto> n)) tree t"
  using assms tree_at_upd [of "addrs t" h _ _ "rb_root tree" t "[]" x "Some n"] by (fastforce simp: rb_holds_def)

lemma nodes_rb_ins_value:
  assumes "in_order (<) t"
  shows "nodes (rb_ins (<) x k t) = takeWhile (\<lambda>p. snd p \<le> k) (nodes t) @ (x, k) # dropWhile (\<lambda>p. snd p \<le> k) (nodes t)"
proof -
  have "\<forall>p \<in> set (before (descend (<) k t [])). snd p \<le> k" "\<forall>p \<in> set (behind (descend (<) k t [])). \<not> snd p \<le> k"
    using descend_order [OF value_order UNIV_I subset_UNIV assms, of "[]" k] by (auto simp: not_less not_le)
  moreover have "takeWhile P bs = []" "dropWhile P bs = bs" if "\<forall>p \<in> set bs. \<not> P p" for P and bs :: "(nat \<times> ngx_uint_t) list"
    using that by (cases bs; simp)+
  ultimately show ?thesis
    unfolding nodes_rb_ins(1) [of "(<)" x k t] nodes_rb_ins(2) [of t "(<)" k] by (simp add: takeWhile_append2 dropWhile_append2)
qed

lemma rb_add_ok:
  assumes st: "rb_state s ps (tree, h)" and new: "x \<notin> fst ` set ps" and x: "x \<noteq> s" "h x = Some n"
  shows "\<exists>st'. rb_step (Add x k) (tree, h) = Some st' \<and>
    rb_state s (takeWhile (\<lambda>p. snd p \<le> k) ps @ (x, k) # dropWhile (\<lambda>p. snd p \<le> k) ps) st' \<and>
    (\<forall>y. y \<noteq> s \<and> h y \<noteq> None \<longrightarrow> snd st' y \<noteq> None)"
proof -
  obtain t where t: "rb_holds h tree t" "rb_tree t" "in_order (<) t" "nodes t = ps" "rb_sentinel tree = Some s"
    using st by (auto simp: rb_state_def)
  have fresh: "x \<notin> addrs t" "Some x \<noteq> rb_sentinel tree" using new t(4,5) x(1) by (auto simp: addrs_def)
  let ?h = "h(x \<mapsto> n\<lparr>rb_key := k\<rparr>)" and ?t = "rb_ins (<) x k t"
  have "rb_holds ?h tree t" using rb_holds_upd [OF t(1) fresh(1)] fresh(2) by auto
  then obtain tree' h' where i: "ngx_rbtree_insert ngx_rbtree_insert_value tree (Some x) ?h = Some (tree', h')"
    "rb_holds h' tree' ?t" "same_outside (insert x (addrs t)) ?h h'" "rb_sentinel tree' = rb_sentinel tree"
    using value_tree.insert_ok [of ?h tree t x "n\<lparr>rb_key := k\<rparr>"] t(2) fresh by auto
  have ad: "addrs ?t = insert x (addrs t)"
    using arg_cong [OF nodes_rb_ins(1) [of "(<)" x k t], of set] arg_cong [OF nodes_rb_ins(2) [of t "(<)" k], of set]
    by (auto simp: addrs_def)
  have "h' y \<noteq> None" if "h y \<noteq> None" for y
  proof (cases "y \<in> addrs ?t")
    case True
    then show ?thesis using rb_holds_dom [OF i(2)] by simp
  next
    case False
    then show ?thesis using same_outsideD [OF i(3), of y] ad that by simp
  qed
  moreover have "rb_state s (takeWhile (\<lambda>p. snd p \<le> k) ps @ (x, k) # dropWhile (\<lambda>p. snd p \<le> k) ps) (tree', h')"
    using i(2,4) t nodes_rb_ins_value [OF t(3)] rb_ins_tree [OF t(2)] rb_ins_order [OF value_order UNIV_I subset_UNIV t(3)]
    by (auto simp: rb_state_def)
  ultimately show ?thesis using i(1) x(2) by (auto simp: rb_set_def)
qed

lemma rb_remove_ok:
  assumes st: "rb_state s ps (tree, h)" and x: "x \<in> fst ` set ps"
  shows "\<exists>st'. rb_step (Remove x) (tree, h) = Some st' \<and> rb_state s (filter (\<lambda>p. fst p \<noteq> x) ps) st' \<and>
    (\<forall>y. y \<noteq> s \<and> h y \<noteq> None \<longrightarrow> snd st' y \<noteq> None)"
proof -
  obtain t where t: "rb_holds h tree t" "rb_tree t" "in_order (<) t" "nodes t = ps" "rb_sentinel tree = Some s"
    using st by (auto simp: rb_state_def)
  have xt: "x \<in> addrs t" using x t(4) by (auto simp: addrs_def)
  obtain t' where t': "delete_result tree s (addrs t) h x t'" "rb_tree t'" "nodes t' = filter (\<lambda>p. fst p \<noteq> x) ps"
    using delete_ok [OF t(1,2) xt] t(4,5) by auto
  obtain tree' h' where d: "ngx_rbtree_delete tree (Some x) h = Some (tree', h')" "rb_holds h' tree' t'" "detached h' x"
    "same_outside (insert s (addrs t)) h h'" "rb_sentinel tree' = rb_sentinel tree"
    using t'(1) by (auto simp: delete_result_def)
  have "in_order (<) t'" using t(3) t'(3) t(4) by (simp add: in_order_def sorted_wrt_filter)
  then have "rb_state s (filter (\<lambda>p. fst p \<noteq> x) ps) (tree', h')" using d t' t(5) by (auto simp: rb_state_def)
  moreover have "h' y \<noteq> None" if "y \<noteq> s" "h y \<noteq> None" for y
  proof (cases "y \<in> addrs t \<and> y \<noteq> x")
    case True
    then have "y \<in> addrs t'" using t'(3) t(4) by (auto simp: addrs_def)
    then show ?thesis using rb_holds_dom [OF d(2)] by simp
  next
    case False
    then show ?thesis using same_outsideD [OF d(4), of y] d(3) that by (auto simp: detached_def)
  qed
  ultimately show ?thesis using d(1) by auto
qed

lemma rb_run_ok:
  assumes "rb_state s ps st" "spec_run ops ps = Some ps'" "\<forall>x \<in> op_addr ` set ops. x \<noteq> s \<and> snd st x \<noteq> None"
  shows "\<exists>st'. rb_run ops st = Some st' \<and> rb_state s ps' st'"
  using assms
proof (induction ops arbitrary: ps st)
  case (Cons x ops)
  obtain tree h where st: "st = (tree, h)" by (cases st)
  obtain ps1 where ps1: "spec_step x ps = Some ps1" "spec_run ops ps1 = Some ps'" using Cons.prems(2) by (auto simp: bind_eq_Some_conv)
  have "\<exists>st1. rb_step x st = Some st1 \<and> rb_state s ps1 st1 \<and> (\<forall>y. y \<noteq> s \<and> snd st y \<noteq> None \<longrightarrow> snd st1 y \<noteq> None)"
  proof (cases x)
    case (Add a k)
    then have a: "a \<notin> fst ` set ps" "a \<noteq> s" "h a \<noteq> None" using Cons.prems(3) ps1(1) st by (auto split: if_splits)
    then obtain n where "h a = Some n" by auto
    then show ?thesis using rb_add_ok [OF Cons.prems(1) [unfolded st] a(1,2), of n k] Add ps1(1) st a(1) by simp
  next
    case (Remove a)
    then show ?thesis using rb_remove_ok [of s ps tree h a] Cons.prems(1,3) ps1(1) st by (auto split: if_splits)
  qed
  then obtain st1 where s1: "rb_step x st = Some st1" "rb_state s ps1 st1" "\<forall>y. y \<noteq> s \<and> snd st y \<noteq> None \<longrightarrow> snd st1 y \<noteq> None" by blast
  then show ?case using Cons.IH [OF s1(2) ps1(2)] Cons.prems(3) by auto
qed simp

lemma rb_init_ok:
  assumes "h s = Some n"
  shows "ngx_rbtree_init s h = Some (\<lparr>rb_root = Some s, rb_sentinel = Some s\<rparr>, h(s \<mapsto> n\<lparr>rb_red := False\<rparr>))"
    "rb_state s [] (\<lparr>rb_root = Some s, rb_sentinel = Some s\<rparr>, h(s \<mapsto> n\<lparr>rb_red := False\<rparr>))"
proof -
  show "ngx_rbtree_init s h = Some (\<lparr>rb_root = Some s, rb_sentinel = Some s\<rparr>, h(s \<mapsto> n\<lparr>rb_red := False\<rparr>))"
    using assms by (simp add: ngx_rbtree_init_def)
  show "rb_state s [] (\<lparr>rb_root = Some s, rb_sentinel = Some s\<rparr>, h(s \<mapsto> n\<lparr>rb_red := False\<rparr>))"
    unfolding rb_state_def
    by (rule exI [of _ Lf]) (simp add: rb_holds_def tree_at_def zip_ok_def sentinel_ok_def rb_tree_def in_order_def)
qed

lemma rb_ops_ok:
  assumes "\<forall>x \<in> insert s (op_addr ` set ops). h x \<noteq> None" "s \<notin> op_addr ` set ops" "spec_run ops [] = Some ps"
  shows "\<exists>tree h' t. ngx_rbtree_init s h \<bind> rb_run ops = Some (tree, h') \<and> rb_holds h' tree t \<and> rb_tree t \<and> nodes t = ps"
proof -
  obtain n where n: "h s = Some n" using assms(1) by auto
  note i = rb_init_ok [of h s n, OF n]
  have "\<forall>x \<in> op_addr ` set ops. x \<noteq> s \<and> snd (\<lparr>rb_root = Some s, rb_sentinel = Some s\<rparr>, h(s \<mapsto> n\<lparr>rb_red := False\<rparr>)) x \<noteq> None" using assms(1,2) by auto
  then obtain st where "rb_run ops (\<lparr>rb_root = Some s, rb_sentinel = Some s\<rparr>, h(s \<mapsto> n\<lparr>rb_red := False\<rparr>)) = Some st" "rb_state s ps st"
    using rb_run_ok [OF i(2) assms(3)] by blast
  then show ?thesis using i(1) by (cases st) (auto simp: rb_state_def)
qed

section \<open>Properties\<close>

lemma rb_holds_uniq: "rb_holds h tree t \<Longrightarrow> distinct (map fst (nodes t))"
  by (auto simp: rb_holds_def tree_at_def zip_ok_def uniq_distinct [symmetric])

lemma mset_rb_ins: "mset (nodes (rb_ins g x nk t)) = add_mset (x, nk) (mset (nodes t))"
  using nodes_rb_ins(1) [of g x nk t] nodes_rb_ins(2) [of t g nk] by simp

text \<open>Insertion keeps the invariant. Where the heap holds a red-black tree in the order of its keys (no red node with a red
  child, the same number of black nodes on all paths, a black root, all parent pointers right), \<open>ngx_rbtree_insert\<close> with
  \<open>ngx_rbtree_insert_value\<close> returns, and the heap holds such a tree with the nodes of before and the new one, with its key. Nothing
  else in the heap has changed.\<close>

theorem rbtree_insert_value_correct:
  assumes "rb_holds h tree t" "rb_tree t" "in_order (<) t" "h x = Some n" "x \<notin> addrs t" "Some x \<noteq> rb_sentinel tree"
  shows "\<exists>tree' h' t'. ngx_rbtree_insert ngx_rbtree_insert_value tree (Some x) h = Some (tree', h') \<and>
    rb_holds h' tree' t' \<and> rb_tree t' \<and> in_order (<) t' \<and>
    mset (nodes t') = add_mset (x, rb_key n) (mset (nodes t)) \<and> same_outside (insert x (addrs t)) h h'"
  using value_tree.insert_ok [OF assms(1,2,4-6)] rb_ins_tree [OF assms(2)] mset_rb_ins
    rb_ins_order [OF value_order UNIV_I subset_UNIV assms(3)] by blast

lemma min_first: "in_order g t \<Longrightarrow> p \<in> set (nodes t) \<Longrightarrow> order_on K g \<Longrightarrow> keys t \<subseteq> K \<Longrightarrow> \<not> g (snd p) (snd (hd (nodes t)))"
proof (cases "nodes t")
  case (Cons q qs)
  assume a: "in_order g t" "p \<in> set (nodes t)" "order_on K g" "keys t \<subseteq> K"
  have "snd q \<in> K" using a(4) Cons by (auto simp: keys_def)
  then have "\<not> g (snd q) (snd q)" using a(3) by (auto simp: order_on_def)
  then show ?thesis using a(1,2) Cons by (auto simp: in_order_def)
qed simp

lemma rbtree_next_walks:
  assumes "rb_holds h tree t" "i < length (nodes t)"
  shows "ngx_rbtree_next tree (Some (fst (nodes t ! i))) h =
    Some (if Suc i < length (nodes t) then Some (fst (nodes t ! Suc i)) else None)"
proof -
  obtain s rp where s: "rb_sentinel tree = Some s" "tree_at (addrs t) h s rp h (rb_root tree) t []"
    using assms(1) by (auto simp: rb_holds_def)
  obtain l a k c r ds where f: "plug (Nd l a k c r) ds = t" "nodes t ! i = (a, k)" "nodes r @ behind ds = drop (Suc i) (nodes t)"
    using focus [OF assms(2), of "[]"] by auto
  have "tree_at (addrs t) h s rp h (rb_root tree) (Nd l a k c r) ds"
    using s(2) f(1) tree_at_plug by metis
  from next_ok [OF this s(1)] have "ngx_rbtree_next tree (Some a) h = Some (first_of (drop (Suc i) (nodes t)))" using f(3) by simp
  then show ?thesis using f(2)
    by (cases "Suc i < length (nodes t)") (simp_all add: first_of_def Cons_nth_drop_Suc [symmetric])
qed

text \<open>The pointers of the nodes of a tree point to nodes of the tree or to the sentinel.\<close>

definition well_typed :: "rb_heap \<Rightarrow> ngx_rbtree \<Rightarrow> nat set \<Rightarrow> bool" where
  "well_typed h tree A \<longleftrightarrow>
    rb_root tree \<in> insert (rb_sentinel tree) (Some ` A) \<and>
    (\<forall>a \<in> A. \<exists>n. h a = Some n \<and> rb_left n \<in> insert (rb_sentinel tree) (Some ` A) \<and>
       rb_right n \<in> insert (rb_sentinel tree) (Some ` A) \<and> (Some a \<noteq> rb_root tree \<longrightarrow> rb_parent n \<in> Some ` A))"

lemma rep_typed:
  "rep h s par t \<Longrightarrow> a \<in> addrs t \<Longrightarrow>
   \<exists>n. h a = Some n \<and> rb_left n \<in> insert (Some s) (Some ` addrs t) \<and> rb_right n \<in> insert (Some s) (Some ` addrs t) \<and>
     (rb_parent n = par \<and> Some a = pt s t \<or> rb_parent n \<in> Some ` addrs t)"
proof (induction t arbitrary: par)
  case (Nd l b k c r)
  have pt: "pt s x \<in> insert (Some s) (Some ` addrs x)" for x by (cases x) auto
  consider "a = b" | "a \<in> addrs l" | "a \<in> addrs r" using Nd.prems(2) by auto
  then show ?case
  proof cases
    case 1
    then show ?thesis using Nd.prems(1) pt [of l] pt [of r] by auto
  next
    case 2
    then show ?thesis using Nd.IH(1) [of "Some b"] Nd.prems(1) by auto
  next
    case 3
    then show ?thesis using Nd.IH(2) [of "Some b"] Nd.prems(1) by auto
  qed
qed simp

lemma rb_holds_typed: "rb_holds h tree t \<Longrightarrow> well_typed h tree (addrs t)"
proof -
  assume "rb_holds h tree t"
  then obtain s rp where s: "rb_sentinel tree = Some s" "rep h s rp t" "rb_root tree = pt s t"
    by (auto simp: rb_holds_def tree_at_def zip_ok_def)
  have "pt s t \<in> insert (Some s) (Some ` addrs t)" by (cases t) auto
  then show ?thesis using s rep_typed [OF s(2)] unfolding well_typed_def by fastforce
qed

text \<open>C12. Types of the pointers. After any such sequence the root is the sentinel or a node of the tree, and every node of the tree
  is allocated, its children are nodes of the tree or the sentinel, and its parent, but for the root, is a node of the tree.\<close>

theorem rbtree_ops_typed:
  assumes "\<forall>x \<in> insert s (op_addr ` set ops). h x \<noteq> None" "s \<notin> op_addr ` set ops" "spec_run ops [] = Some ps"
  shows "\<exists>tree h'. ngx_rbtree_init s h \<bind> rb_run ops = Some (tree, h') \<and> well_typed h' tree (fst ` set ps)"
  using rb_ops_ok [OF assms] rb_holds_typed by (auto simp: addrs_def)

text \<open>C10. Refinement. From \<open>ngx_rbtree_init\<close> on, any sequence of insertions of nodes that are not in the tree and deletions of
  nodes that are runs to its end, and the tree then holds, in order, the list that the specification computes: a sorted list, in
  which a node is entered behind those with the same key, and from which a node is removed.\<close>

theorem rbtree_refines:
  assumes "\<forall>x \<in> insert s (op_addr ` set ops). h x \<noteq> None" "s \<notin> op_addr ` set ops" "spec_run ops [] = Some ps"
  shows "\<exists>tree h' t. ngx_rbtree_init s h \<bind> rb_run ops = Some (tree, h') \<and> rb_holds h' tree t \<and> rb_tree t \<and> nodes t = ps"
  by (rule rb_ops_ok [OF assms])

text \<open>C11. Deletion. \<open>ngx_rbtree_delete\<close> of any node of a red-black tree returns, and the heap holds a red-black tree with the
  other nodes in the order they had. The pointers of the deleted node are \<open>NULL\<close>; outside of the nodes of the tree and the sentinel
  nothing has changed.\<close>

theorem rbtree_delete_correct:
  assumes "rb_holds h tree t" "rb_tree t" "x \<in> addrs t"
  shows "\<exists>tree' h' t'. ngx_rbtree_delete tree (Some x) h = Some (tree', h') \<and> rb_holds h' tree' t' \<and> rb_tree t' \<and>
    nodes t' = filter (\<lambda>p. fst p \<noteq> x) (nodes t) \<and> detached h' x \<and>
    (\<forall>y. y \<notin> addrs t \<and> Some y \<noteq> rb_sentinel tree \<longrightarrow> h' y = h y)"
proof -
  obtain s t' where s: "rb_sentinel tree = Some s" "delete_result tree s (addrs t) h x t'" "rb_tree t'"
    "nodes t' = filter (\<lambda>p. fst p \<noteq> x) (nodes t)"
    using delete_ok [OF assms] by blast
  then obtain tree' h' where d: "ngx_rbtree_delete tree (Some x) h = Some (tree', h')" "rb_holds h' tree' t'" "detached h' x"
    "same_outside (insert s (addrs t)) h h'"
    by (auto simp: delete_result_def)
  have "\<forall>y. y \<notin> addrs t \<and> Some y \<noteq> rb_sentinel tree \<longrightarrow> h' y = h y" using d(4) s(1) by (simp add: same_outside_def)
  then show ?thesis using d(1-3) s(3,4) by blast
qed

section \<open>A small tree\<close>

definition demo_node :: "ngx_uint_t \<Rightarrow> ngx_rbtree_node" where
  "demo_node k = \<lparr>rb_key = k, rb_left = Some 0, rb_right = Some 0, rb_parent = None, rb_red = False\<rparr>"

definition demo_heap :: rb_heap where
  "demo_heap = [0 \<mapsto> demo_node 0, 1 \<mapsto> demo_node 5, 2 \<mapsto> demo_node 3]"

lemma demo_holds: "rb_holds demo_heap \<lparr>rb_root = Some 1, rb_sentinel = Some 0\<rparr> (Nd Lf 1 5 False Lf)"
  by (simp add: rb_holds_def tree_at_def zip_ok_def sentinel_ok_def demo_heap_def demo_node_def)

lemma demo_tree: "rb_tree (Nd Lf 1 5 False Lf)" "in_order g (Nd Lf 1 5 False Lf)"
  by (simp_all add: rb_tree_def in_order_def)

theorem rbtree_insert_value_correct_witness:
  "\<exists>tree' h' t'. ngx_rbtree_insert ngx_rbtree_insert_value \<lparr>rb_root = Some 1, rb_sentinel = Some 0\<rparr> (Some 2) demo_heap =
      Some (tree', h') \<and> rb_holds h' tree' t' \<and> rb_tree t' \<and> mset (nodes t') = {#(2, 3), (1, 5)#}"
  using rbtree_insert_value_correct [OF demo_holds demo_tree, of 2 "demo_node 3"]
  by (auto simp: demo_heap_def demo_node_def)

theorem rbtree_ops_typed_witness:
  "\<exists>tree h'. ngx_rbtree_init 0 demo_heap \<bind> rb_run [Add 1 7, Add 2 7, Remove 1] = Some (tree, h') \<and> well_typed h' tree {2}"
  using rbtree_ops_typed [of 0 "[Add 1 7, Add 2 7, Remove 1]" demo_heap "[(2, 7)]"] by (auto simp: demo_heap_def)

theorem rbtree_refines_witness:
  "\<exists>tree h' t. ngx_rbtree_init 0 demo_heap \<bind> rb_run [Add 1 7, Add 2 7, Remove 1, Add 1 4] = Some (tree, h') \<and>
    rb_holds h' tree t \<and> nodes t = [(1, 4), (2, 7)]"
  using rbtree_refines [of 0 "[Add 1 7, Add 2 7, Remove 1, Add 1 4]" demo_heap "[(1, 4), (2, 7)]"] by (auto simp: demo_heap_def)

theorem rbtree_delete_correct_witness:
  "\<exists>tree' h' t'. ngx_rbtree_delete \<lparr>rb_root = Some 1, rb_sentinel = Some 0\<rparr> (Some 1) demo_heap = Some (tree', h') \<and>
    rb_holds h' tree' t' \<and> nodes t' = [] \<and> detached h' 1"
  using rbtree_delete_correct [OF demo_holds demo_tree(1), of 1] by auto

end
