(* ===== verification/Ngx_Event_Timer.thy ===== *)
theory Ngx_Event_Timer
  imports Ngx_Rbtree_Props
begin

text \<open>
  The timers of the event loop: \<^verbatim>\<open>event/ngx_event_timer.c\<close> and \<^verbatim>\<open>event/ngx_event_timer.h\<close>. A timer is a node of the red-black
  tree that is part of an event; the address of the node stands for the event. Of \<^verbatim>\<open>ngx_event_t\<close> the record has the bits that this
  code uses. The handlers of events are an argument. The messages to the log, and the assignments of a build with \<^verbatim>\<open>NGX_DEBUG\<close>, which
  repeat those of \<^verbatim>\<open>ngx_rbtree_delete\<close>, are left out.
\<close>

section \<open>Events and timers\<close>

record ngx_event =
  timedout :: bool
  timer_set :: bool
  cancelable :: bool

record ngx_timers =
  ngx_event_timer_rbtree :: ngx_rbtree
  tm_heap :: rb_heap
  tm_events :: "nat \<rightharpoonup> ngx_event"
  ngx_current_msec :: ngx_uint_t

definition ngx_event_timer_sentinel :: nat where
  "ngx_event_timer_sentinel = 0"

definition NGX_TIMER_INFINITE :: ngx_uint_t where
  "NGX_TIMER_INFINITE = - 1"

definition NGX_TIMER_LAZY_DELAY :: int where
  "NGX_TIMER_LAZY_DELAY = 300"

definition ngx_abs :: "ngx_uint_t \<Rightarrow> ngx_uint_t" where
  "ngx_abs v = (if sint v \<ge> 0 then v else - v)"

text \<open>An assignment to the bits of the event whose \<open>timer\<close> is the node.\<close>

definition ev_set :: "ptr \<Rightarrow> (ngx_event \<Rightarrow> ngx_event) \<Rightarrow> ngx_timers \<Rightarrow> ngx_timers option" where
  "ev_set p f st =
    (case p of
       None \<Rightarrow> None
     | Some x \<Rightarrow> case tm_events st x of None \<Rightarrow> None | Some e \<Rightarrow> Some (st\<lparr>tm_events := (tm_events st)(x \<mapsto> f e)\<rparr>))"

definition ngx_event_timer_init :: "ngx_timers \<Rightarrow> ngx_timers option" where
  "ngx_event_timer_init st =
    do {
      (tree, h) \<leftarrow> ngx_rbtree_init ngx_event_timer_sentinel (tm_heap st);
      Some (st\<lparr>ngx_event_timer_rbtree := tree, tm_heap := h\<rparr>)
    }"

definition ngx_event_del_timer :: "nat \<Rightarrow> ngx_timers \<Rightarrow> ngx_timers option" where
  "ngx_event_del_timer ev st =
    do {
      (tree, h) \<leftarrow> ngx_rbtree_delete (ngx_event_timer_rbtree st) (Some ev) (tm_heap st);
      ev_set (Some ev) (\<lambda>e. e\<lparr>timer_set := False\<rparr>) (st\<lparr>ngx_event_timer_rbtree := tree, tm_heap := h\<rparr>)
    }"

definition add_timer_insert :: "nat \<Rightarrow> ngx_uint_t \<Rightarrow> ngx_timers \<Rightarrow> ngx_timers option" where
  "add_timer_insert ev key st =
    do {
      h \<leftarrow> rb_set (Some ev) (\<lambda>n. n\<lparr>rb_key := key\<rparr>) (tm_heap st);
      (tree, h) \<leftarrow> ngx_rbtree_insert ngx_rbtree_insert_timer_value (ngx_event_timer_rbtree st) (Some ev) h;
      ev_set (Some ev) (\<lambda>e. e\<lparr>timer_set := True\<rparr>) (st\<lparr>ngx_event_timer_rbtree := tree, tm_heap := h\<rparr>)
    }"

definition ngx_event_add_timer :: "nat \<Rightarrow> ngx_uint_t \<Rightarrow> ngx_timers \<Rightarrow> ngx_timers option" where
  "ngx_event_add_timer ev timer st =
    (let key = ngx_current_msec st + timer in
     do {
       e \<leftarrow> tm_events st ev;
       if timer_set e then do {
         old \<leftarrow> rd_key (tm_heap st) (Some ev);
         let diff = key - old;
         if sint (ngx_abs diff) < NGX_TIMER_LAZY_DELAY then Some st
         else do {
           st \<leftarrow> ngx_event_del_timer ev st;
           add_timer_insert ev key st
         }
       }
       else add_timer_insert ev key st
     })"

definition ngx_event_find_timer :: "ngx_timers \<Rightarrow> ngx_uint_t option" where
  "ngx_event_find_timer st =
    (let root = rb_root (ngx_event_timer_rbtree st); sentinel = rb_sentinel (ngx_event_timer_rbtree st) in
     if root = Some ngx_event_timer_sentinel then Some NGX_TIMER_INFINITE
     else do {
       node \<leftarrow> ngx_rbtree_min root sentinel (tm_heap st);
       key \<leftarrow> rd_key (tm_heap st) node;
       let timer = sint (key - ngx_current_msec st);
       Some (if timer > 0 then word_of_int timer else 0)
     })"

text \<open>The loop of \<open>ngx_event_expire_timers\<close>; \<open>handler x\<close> is the call of the handler of the event \<open>x\<close>.\<close>

partial_function (option) expire_loop :: "(nat \<Rightarrow> ngx_timers \<Rightarrow> ngx_timers option) \<Rightarrow> ptr \<Rightarrow> ngx_timers \<Rightarrow> ngx_timers option" where
  "expire_loop handler sentinel st =
    (let root = rb_root (ngx_event_timer_rbtree st) in
     if root = sentinel then Some st
     else do {
       node \<leftarrow> ngx_rbtree_min root sentinel (tm_heap st);
       key \<leftarrow> rd_key (tm_heap st) node;
       if sint (key - ngx_current_msec st) > 0 then Some st
       else do {
         ev \<leftarrow> node;
         (tree, h) \<leftarrow> ngx_rbtree_delete (ngx_event_timer_rbtree st) node (tm_heap st);
         st \<leftarrow> ev_set node (\<lambda>e. e\<lparr>timer_set := False, timedout := True\<rparr>) (st\<lparr>ngx_event_timer_rbtree := tree, tm_heap := h\<rparr>);
         st \<leftarrow> handler ev st;
         expire_loop handler sentinel st
       }
     })"

definition ngx_event_expire_timers :: "(nat \<Rightarrow> ngx_timers \<Rightarrow> ngx_timers option) \<Rightarrow> ngx_timers \<Rightarrow> ngx_timers option" where
  "ngx_event_expire_timers handler st = expire_loop handler (rb_sentinel (ngx_event_timer_rbtree st)) st"

partial_function (option) timers_left_loop :: "ngx_timers \<Rightarrow> ptr \<Rightarrow> ngx_rc option" where
  "timers_left_loop st node =
    (case node of
       None \<Rightarrow> Some NGX_OK
     | Some ev \<Rightarrow> do {
         e \<leftarrow> tm_events st ev;
         if \<not> cancelable e then Some NGX_AGAIN
         else do {
           node \<leftarrow> ngx_rbtree_next (ngx_event_timer_rbtree st) node (tm_heap st);
           timers_left_loop st node
         }
       })"

definition ngx_event_no_timers_left :: "ngx_timers \<Rightarrow> ngx_rc option" where
  "ngx_event_no_timers_left st =
    (let root = rb_root (ngx_event_timer_rbtree st); sentinel = rb_sentinel (ngx_event_timer_rbtree st) in
     if root = sentinel then Some NGX_OK
     else do {
       node \<leftarrow> ngx_rbtree_min root sentinel (tm_heap st);
       timers_left_loop st node
     })"

section \<open>The state of the timers\<close>

text \<open>The timers that are set, with the time at which each runs out.\<close>

definition armed :: "ngx_timers \<Rightarrow> (nat \<times> ngx_uint_t) set" where
  "armed st = {(x, rb_key n) | x e n. tm_events st x = Some e \<and> timer_set e \<and> tm_heap st x = Some n}"

text \<open>The time left; it is negative for a timer that is overdue.\<close>

definition time_left :: "ngx_timers \<Rightarrow> nat \<times> ngx_uint_t \<Rightarrow> int" where
  "time_left st p = sint (snd p - ngx_current_msec st)"

definition due :: "ngx_timers \<Rightarrow> nat set" where
  "due st = fst ` {p \<in> armed st. time_left st p \<le> 0}"

text \<open>The tree holds the timers of the events that have one set; these times and the present are in one window of half the
  range, which starts at \<open>w\<close>.\<close>

definition timers_at :: "ngx_uint_t \<Rightarrow> ngx_timers \<Rightarrow> rbt \<Rightarrow> bool" where
  "timers_at w st t \<longleftrightarrow>
    rb_holds (tm_heap st) (ngx_event_timer_rbtree st) t \<and> rb_tree t \<and> in_order timer_before t \<and>
    insert (ngx_current_msec st) (keys t) \<subseteq> timer_window w \<and>
    rb_sentinel (ngx_event_timer_rbtree st) = Some ngx_event_timer_sentinel \<and>
    tm_events st ngx_event_timer_sentinel = None \<and> addrs t \<subseteq> dom (tm_events st) \<and>
    (\<forall>x e. tm_events st x = Some e \<longrightarrow> tm_heap st x \<noteq> None \<and> (timer_set e \<longleftrightarrow> x \<in> addrs t))"

definition timers_ok :: "ngx_uint_t \<Rightarrow> ngx_timers \<Rightarrow> bool" where
  "timers_ok w st \<longleftrightarrow> (\<exists>t. timers_at w st t)"

lemma rep_key: "rep h s par t \<Longrightarrow> (x, k) \<in> set (nodes t) \<Longrightarrow> \<exists>n. h x = Some n \<and> rb_key n = k"
  by (induction t arbitrary: par) auto

lemma rb_holds_key: "rb_holds h tree t \<Longrightarrow> (x, k) \<in> set (nodes t) \<Longrightarrow> \<exists>n. h x = Some n \<and> rb_key n = k"
  using rep_key by (auto simp: rb_holds_def tree_at_def zip_ok_def)

lemma armed_at: "timers_at w st t \<Longrightarrow> armed st = set (nodes t)"
proof -
  assume t: "timers_at w st t"
  note k = rb_holds_key [of "tm_heap st" "ngx_event_timer_rbtree st" t]
  have h: "rb_holds (tm_heap st) (ngx_event_timer_rbtree st) t" "addrs t \<subseteq> dom (tm_events st)"
    "\<forall>x e. tm_events st x = Some e \<longrightarrow> (timer_set e \<longleftrightarrow> x \<in> addrs t)" using t by (auto simp: timers_at_def)
  show ?thesis
  proof (intro equalityI subsetI)
    fix p
    assume "p \<in> armed st"
    then obtain x e n where p: "p = (x, rb_key n)" "tm_events st x = Some e" "timer_set e" "tm_heap st x = Some n"
      by (auto simp: armed_def)
    then have "x \<in> addrs t" using h(3) by blast
    then obtain k' where "(x, k') \<in> set (nodes t)" by (auto simp: addrs_def)
    then show "p \<in> set (nodes t)" using k [OF h(1)] p(1,4) by fastforce
  next
    fix p
    assume p: "p \<in> set (nodes t)"
    then have x: "fst p \<in> addrs t" by (auto simp: addrs_def)
    then obtain e where "tm_events st (fst p) = Some e" using h(2) by auto
    then show "p \<in> armed st" using k [OF h(1), of "fst p" "snd p"] p x h(3) unfolding armed_def by (cases p) auto
  qed
qed

lemma sint_window:
  assumes "a \<in> timer_window w" "b \<in> timer_window w"
  shows "sint (a - b) = uint (a - w) - uint (b - w)"
proof -
  let ?x = "uint (a - w)" and ?y = "uint (b - w)"
  have r: "?x < 2 ^ 63" "?y < 2 ^ 63" "0 \<le> ?x" "0 \<le> ?y"
    using assms by (simp_all add: timer_window_def)
  have "a - b = (a - w) - (b - w)" by simp
  also have "\<dots> = word_of_int (?x - ?y)" by simp
  finally have e: "a - b = word_of_int (?x - ?y)" .
  have "sint (word_of_int z :: ngx_uint_t) = signed_take_bit 63 z" for z by (simp add: signed_of_int)
  then have "sint (a - b) = signed_take_bit 63 (?x - ?y)" unfolding e .
  also have "\<dots> = ?x - ?y" using r by (intro signed_take_bit_int_eq_self) linarith+
  finally show ?thesis .
qed

text \<open>The first node of the tree runs out first.\<close>

lemma timers_min:
  assumes t: "timers_at w st t" and ne: "t \<noteq> Lf"
  obtains x k where "nodes t = (x, k) # tl (nodes t)" "rb_root (ngx_event_timer_rbtree st) \<noteq> Some ngx_event_timer_sentinel"
    "ngx_rbtree_min (rb_root (ngx_event_timer_rbtree st)) (Some ngx_event_timer_sentinel) (tm_heap st) = Some (Some x)"
    "rd_key (tm_heap st) (Some x) = Some k" "(x, k) \<in> armed st" "\<forall>p \<in> armed st. time_left st (x, k) \<le> time_left st p"
proof -
  have n: "nodes t \<noteq> []" using ne by (cases t) auto
  then obtain x k where x: "nodes t = (x, k) # tl (nodes t)" by (cases "nodes t") auto
  have h: "rb_holds (tm_heap st) (ngx_event_timer_rbtree st) t" "in_order timer_before t"
    "rb_sentinel (ngx_event_timer_rbtree st) = Some ngx_event_timer_sentinel"
    "insert (ngx_current_msec st) (keys t) \<subseteq> timer_window w" using t by (auto simp: timers_at_def)
  obtain rp where z: "tree_at (addrs t) (tm_heap st) ngx_event_timer_sentinel rp (tm_heap st) (rb_root (ngx_event_timer_rbtree st)) t []"
    using h(1,3) by (auto simp: rb_holds_def)
  have root: "rb_root (ngx_event_timer_rbtree st) = pt ngx_event_timer_sentinel t" "pt ngx_event_timer_sentinel t \<noteq> Some ngx_event_timer_sentinel"
    using z ne by (cases t; auto simp: tree_at_def zip_ok_def)+
  have m: "ngx_rbtree_min (rb_root (ngx_event_timer_rbtree st)) (Some ngx_event_timer_sentinel) (tm_heap st) = Some (Some x)"
    using min_ok [OF z ne] root(1) x by (metis fst_conv list.sel(1))
  have xa: "(x, k) \<in> armed st" using armed_at [OF t] x by (metis list.set_intros(1))
  moreover have "rd_key (tm_heap st) (Some x) = Some k" using rb_holds_key [OF h(1), of x k] xa armed_at [OF t] by auto
  moreover have "time_left st (x, k) \<le> time_left st p" if p: "p \<in> armed st" for p
  proof -
    have w: "k \<in> timer_window w" "snd p \<in> timer_window w" "ngx_current_msec st \<in> timer_window w"
      using h(4) xa p armed_at [OF t] by (auto simp: keys_def)
    have "\<not> timer_before (snd p) (snd (hd (nodes t)))"
      using min_first [OF h(2) _ timer_order [of w]] h(4) p armed_at [OF t] by simp
    then have "\<not> timer_before (snd p) k" using x by (metis list.sel(1) snd_conv)
    then show ?thesis using timer_before_window [OF w(2,1)] sint_window [OF w(2,3)] sint_window [OF w(1,3)]
      by (simp add: time_left_def)
  qed
  ultimately show ?thesis using that x root m by simp
qed

lemma timers_empty:
  assumes "timers_at w st t"
  shows "t = Lf \<longleftrightarrow> armed st = {}" "t = Lf \<longleftrightarrow> rb_root (ngx_event_timer_rbtree st) = Some ngx_event_timer_sentinel"
proof -
  show "t = Lf \<longleftrightarrow> armed st = {}" using armed_at [OF assms] by (cases t) auto
  show "t = Lf \<longleftrightarrow> rb_root (ngx_event_timer_rbtree st) = Some ngx_event_timer_sentinel"
    using assms by (cases t) (auto simp: timers_at_def rb_holds_def tree_at_def zip_ok_def)
qed

section \<open>Setting and removing timers\<close>

lemma timers_remove:
  assumes t: "timers_at w st t" and x: "x \<in> addrs t" and f: "\<And>e. \<not> timer_set (f e)"
  obtains tree h e t' st' where "ngx_rbtree_delete (ngx_event_timer_rbtree st) (Some x) (tm_heap st) = Some (tree, h)"
    "tm_events st x = Some e"
    "ev_set (Some x) f (st\<lparr>ngx_event_timer_rbtree := tree, tm_heap := h\<rparr>) = Some st'"
    "timers_at w st' t'" "nodes t' = filter (\<lambda>p. fst p \<noteq> x) (nodes t)" "ngx_current_msec st' = ngx_current_msec st"
    "tm_events st' = (tm_events st)(x \<mapsto> f e)"
proof -
  have h: "rb_holds (tm_heap st) (ngx_event_timer_rbtree st) t" "rb_tree t" "in_order timer_before t"
    "insert (ngx_current_msec st) (keys t) \<subseteq> timer_window w"
    "rb_sentinel (ngx_event_timer_rbtree st) = Some ngx_event_timer_sentinel"
    "tm_events st ngx_event_timer_sentinel = None" "addrs t \<subseteq> dom (tm_events st)"
    "\<And>y e. tm_events st y = Some e \<Longrightarrow> tm_heap st y \<noteq> None \<and> (timer_set e \<longleftrightarrow> y \<in> addrs t)"
    using t by (auto simp: timers_at_def)
  obtain e where e: "tm_events st x = Some e" using h(7) x by auto
  obtain t' where t': "delete_result (ngx_event_timer_rbtree st) ngx_event_timer_sentinel (addrs t) (tm_heap st) x t'" "rb_tree t'"
    "nodes t' = filter (\<lambda>p. fst p \<noteq> x) (nodes t)"
    using delete_ok [OF h(1,2) x] h(5) by auto
  obtain tree h' where d: "ngx_rbtree_delete (ngx_event_timer_rbtree st) (Some x) (tm_heap st) = Some (tree, h')" "rb_holds h' tree t'"
    "detached h' x" "same_outside (insert ngx_event_timer_sentinel (addrs t)) (tm_heap st) h'"
    "rb_sentinel tree = Some ngx_event_timer_sentinel"
    using t'(1) h(5) by (auto simp: delete_result_def)
  have ad: "addrs t' = addrs t - {x}" using t'(3) by (auto simp: addrs_def)
  let ?st = "st\<lparr>ngx_event_timer_rbtree := tree, tm_heap := h', tm_events := (tm_events st)(x \<mapsto> f e)\<rparr>"
  have ev: "h' y \<noteq> None" if y: "tm_events st y = Some e'" for y e'
  proof (cases "y \<in> addrs t")
    case True
    then show ?thesis using rb_holds_dom [OF d(2), of y] ad d(3) by (cases "y = x") (auto simp: detached_def)
  next
    case False
    have "y \<noteq> ngx_event_timer_sentinel" using y h(6) by auto
    then show ?thesis using same_outsideD [OF d(4), of y] h(8) [OF y] False by simp
  qed
  have "in_order timer_before t'" using h(3) t'(3) by (simp add: in_order_def sorted_wrt_filter)
  moreover have "keys t' \<subseteq> keys t" using t'(3) by (auto simp: keys_def)
  ultimately have "timers_at w ?st t'" using d(2,5) t'(2) h(4-8) e ad ev f unfolding timers_at_def by auto
  then show ?thesis using that [OF d(1) e, of ?st t'] e t'(3) by (simp add: ev_set_def)
qed

lemma timers_insert:
  assumes t: "timers_at w st t" and x: "x \<notin> addrs t" "tm_events st x = Some e" and k: "k \<in> timer_window w"
  obtains st' t' where "add_timer_insert x k st = Some st'" "timers_at w st' t'" "set (nodes t') = insert (x, k) (set (nodes t))"
    "ngx_current_msec st' = ngx_current_msec st" "tm_events st' = (tm_events st)(x \<mapsto> e\<lparr>timer_set := True\<rparr>)"
proof -
  have h: "rb_holds (tm_heap st) (ngx_event_timer_rbtree st) t" "rb_tree t" "in_order timer_before t"
    "insert (ngx_current_msec st) (keys t) \<subseteq> timer_window w"
    "rb_sentinel (ngx_event_timer_rbtree st) = Some ngx_event_timer_sentinel"
    "tm_events st ngx_event_timer_sentinel = None" "addrs t \<subseteq> dom (tm_events st)"
    "\<And>y e. tm_events st y = Some e \<Longrightarrow> tm_heap st y \<noteq> None \<and> (timer_set e \<longleftrightarrow> y \<in> addrs t)"
    using t by (auto simp: timers_at_def)
  have xs: "Some x \<noteq> rb_sentinel (ngx_event_timer_rbtree st)" using x(2) h(5,6) by auto
  obtain n where n: "tm_heap st x = Some n" using h(8) [OF x(2)] by auto
  let ?h = "(tm_heap st)(x \<mapsto> n\<lparr>rb_key := k\<rparr>)" and ?t = "rb_ins timer_before x k t"
  have "rb_holds ?h (ngx_event_timer_rbtree st) t" using rb_holds_upd [OF h(1) x(1)] xs by auto
  then obtain tree h' where i: "ngx_rbtree_insert ngx_rbtree_insert_timer_value (ngx_event_timer_rbtree st) (Some x) ?h = Some (tree, h')"
    "rb_holds h' tree ?t" "same_outside (insert x (addrs t)) ?h h'" "rb_sentinel tree = rb_sentinel (ngx_event_timer_rbtree st)"
    using timer_tree.insert_ok [of ?h "ngx_event_timer_rbtree st" t x "n\<lparr>rb_key := k\<rparr>"] h(2) x(1) xs by auto
  have set: "set (nodes ?t) = insert (x, k) (set (nodes t))"
    using arg_cong [OF mset_rb_ins, of set_mset timer_before x k t] by simp
  then have ad: "addrs ?t = insert x (addrs t)" and ks: "keys ?t = insert k (keys t)" by (auto simp: addrs_def keys_def)
  let ?st = "st\<lparr>ngx_event_timer_rbtree := tree, tm_heap := h', tm_events := (tm_events st)(x \<mapsto> e\<lparr>timer_set := True\<rparr>)\<rparr>"
  have ev: "h' y \<noteq> None" if y: "tm_events st y = Some e'" for y e'
  proof (cases "y \<in> addrs ?t")
    case True
    then show ?thesis using rb_holds_dom [OF i(2)] by simp
  next
    case False
    then show ?thesis using same_outsideD [OF i(3), of y] h(8) [OF y] ad by simp
  qed
  have "in_order timer_before ?t" using rb_ins_order [OF timer_order _ _ h(3)] k h(4) by auto
  then have "timers_at w ?st ?t" using i(2,4) rb_ins_tree [OF h(2)] h(4-8) x(2) ad ks ev k unfolding timers_at_def by auto
  then show ?thesis using that [of ?st ?t] set n i(1) x(2) by (simp add: add_timer_insert_def rb_set_def ev_set_def)
qed

end
