(* ===== verification/Ngx_Event_Timer_Props.thy ===== *)
theory Ngx_Event_Timer_Props
  imports Ngx_Event_Timer
begin

text \<open>
  The timers are set, found and run out as specified. The contract of the handlers is a locale, interpreted for a handler that does
  nothing; a handler that sets the timer again keeps it too.
\<close>

lemma ngx_abs_small:
  assumes "a \<in> timer_window w" "b \<in> timer_window w"
  shows "sint (ngx_abs (a - b)) = \<bar>sint (a - b)\<bar>"
proof (cases "0 \<le> sint (a - b)")
  case False
  have "- (a - b) = b - a" by simp
  then show ?thesis using False sint_window [OF assms] sint_window [OF assms(2,1)] by (simp add: ngx_abs_def)
qed (simp add: ngx_abs_def)

lemma timer_replaced:
  assumes t: "timers_at w st t" and x: "x \<in> addrs t" and k: "k \<in> timer_window w"
  shows "\<exists>st'. do { st \<leftarrow> ngx_event_del_timer x st; add_timer_insert x k st } = Some st' \<and> timers_ok w st' \<and>
    armed st' = insert (x, k) {p \<in> armed st. fst p \<noteq> x} \<and> ngx_current_msec st' = ngx_current_msec st"
proof -
  obtain tree h e1 t1 st1 where d: "ngx_rbtree_delete (ngx_event_timer_rbtree st) (Some x) (tm_heap st) = Some (tree, h)"
    "ev_set (Some x) (\<lambda>e. e\<lparr>timer_set := False\<rparr>) (st\<lparr>ngx_event_timer_rbtree := tree, tm_heap := h\<rparr>) = Some st1"
    "timers_at w st1 t1" "nodes t1 = filter (\<lambda>p. fst p \<noteq> x) (nodes t)" "ngx_current_msec st1 = ngx_current_msec st"
    "tm_events st1 = (tm_events st)(x \<mapsto> e1\<lparr>timer_set := False\<rparr>)"
    by (rule timers_remove [OF t x, of "\<lambda>e. e\<lparr>timer_set := False\<rparr>"]) simp_all
  have "x \<notin> addrs t1" "tm_events st1 x = Some (e1\<lparr>timer_set := False\<rparr>)" using d(4,6) by (auto simp: addrs_def)
  then obtain st' t' where s: "add_timer_insert x k st1 = Some st'" "timers_at w st' t'"
    "set (nodes t') = insert (x, k) (set (nodes t1))" "ngx_current_msec st' = ngx_current_msec st1"
    using timers_insert [OF d(3) _ _ k] by metis
  moreover have "armed st' = insert (x, k) {p \<in> armed st. fst p \<noteq> x}" using armed_at [OF s(2)] s(3) d(4) armed_at [OF t] by auto
  ultimately show ?thesis using d(1,2,5) by (auto simp: ngx_event_del_timer_def timers_ok_def)
qed

lemma add_timer_ok:
  assumes "timers_ok w st" "tm_events st x = Some e" "ngx_current_msec st + timer \<in> timer_window w"
  shows "\<exists>st' k. ngx_event_add_timer x timer st = Some st' \<and> timers_ok w st' \<and>
    armed st' = insert (x, k) {p \<in> armed st. fst p \<noteq> x} \<and> ngx_current_msec st' = ngx_current_msec st \<and>
    \<bar>sint (k - (ngx_current_msec st + timer))\<bar> < NGX_TIMER_LAZY_DELAY \<and>
    (k = ngx_current_msec st + timer \<or> (x, k) \<in> armed st)"
proof -
  let ?k = "ngx_current_msec st + timer"
  obtain t where t: "timers_at w st t" using assms(1) by (auto simp: timers_ok_def)
  have nodes: "armed st = set (nodes t)" using armed_at [OF t] .
  have set: "timer_set e \<longleftrightarrow> x \<in> addrs t" using t assms(2) by (auto simp: timers_at_def)
  show ?thesis
  proof (cases "timer_set e")
    case False
    obtain st' t' where s: "add_timer_insert x ?k st = Some st'" "timers_at w st' t'" "set (nodes t') = insert (x, ?k) (set (nodes t))"
      "ngx_current_msec st' = ngx_current_msec st"
      using timers_insert [OF t _ assms(2,3)] set False by metis
    have "{p \<in> armed st. fst p \<noteq> x} = armed st" using set False nodes by (auto simp: addrs_def)
    then show ?thesis using s False assms(2) armed_at [OF s(2)] nodes
      by (auto simp: ngx_event_add_timer_def timers_ok_def NGX_TIMER_LAZY_DELAY_def)
  next
    case True
    then obtain old where old: "(x, old) \<in> set (nodes t)" using set by (auto simp: addrs_def)
    have key: "rd_key (tm_heap st) (Some x) = Some old" "old \<in> timer_window w"
      using rb_holds_key [of "tm_heap st" "ngx_event_timer_rbtree st" t x old] t old by (auto simp: timers_at_def keys_def)
    have dist: "distinct (map fst (nodes t))" using t rb_holds_uniq by (auto simp: timers_at_def)
    show ?thesis
    proof (cases "sint (ngx_abs (?k - old)) < NGX_TIMER_LAZY_DELAY")
      case lazy: True
      have only: "snd p = old" if "p \<in> set (nodes t)" "fst p = x" for p
        using eq_key_imp_eq_value [OF dist, of x "snd p" old] old that by (cases p) simp
      have "p \<in> insert (x, old) {p \<in> set (nodes t). fst p \<noteq> x}" if "p \<in> set (nodes t)" for p
        using only [OF that] that by (cases p) auto
      then have "insert (x, old) {p \<in> armed st. fst p \<noteq> x} = armed st" unfolding nodes using old by blast
      moreover have "\<bar>sint (old - ?k)\<bar> < NGX_TIMER_LAZY_DELAY"
        using lazy ngx_abs_small [OF assms(3) key(2)] sint_window [OF assms(3) key(2)] sint_window [OF key(2) assms(3)] by linarith
      moreover have "ngx_event_add_timer x timer st = Some st"
        using lazy True assms(2) key(1) by (simp add: ngx_event_add_timer_def Let_def del: rb_at)
      ultimately show ?thesis using assms(1) old nodes by (intro exI [of _ st] exI [of _ old]) simp
    next
      case far: False
      obtain st' where "do { st \<leftarrow> ngx_event_del_timer x st; add_timer_insert x ?k st } = Some st'" "timers_ok w st'"
        "armed st' = insert (x, ?k) {p \<in> armed st. fst p \<noteq> x}" "ngx_current_msec st' = ngx_current_msec st"
        using timer_replaced [OF t _ assms(3)] set True by blast
      then show ?thesis using far True assms(2) key(1)
        by (auto simp: ngx_event_add_timer_def Let_def NGX_TIMER_LAZY_DELAY_def simp del: rb_at)
    qed
  qed
qed

section \<open>Running out\<close>

lemma left_loop:
  assumes t: "timers_at w st t"
  shows "i < length (nodes t) \<Longrightarrow> timers_left_loop st (Some (fst (nodes t ! i))) =
    Some (if \<forall>p \<in> set (drop i (nodes t)). cancelable (the (tm_events st (fst p))) then NGX_OK else NGX_AGAIN)"
proof (induction "length (nodes t) - i" arbitrary: i)
  case (Suc m)
  have h: "rb_holds (tm_heap st) (ngx_event_timer_rbtree st) t" "addrs t \<subseteq> dom (tm_events st)" using t by (auto simp: timers_at_def)
  have "fst (nodes t ! i) \<in> addrs t" using Suc.prems by (auto simp: addrs_def)
  then obtain e where e: "tm_events st (fst (nodes t ! i)) = Some e" using h(2) by auto
  note walk = rbtree_next_walks [OF h(1) Suc.prems]
  have d: "drop i (nodes t) = nodes t ! i # drop (Suc i) (nodes t)" using Suc.prems by (simp add: Cons_nth_drop_Suc)
  show ?case
  proof (cases "cancelable e \<and> Suc i < length (nodes t)")
    case True
    then show ?thesis using Suc.hyps(1) [of "Suc i"] Suc.hyps(2) walk e d
      by (subst timers_left_loop.simps) simp
  next
    case False
    have none: "timers_left_loop st None = Some NGX_OK" by (subst timers_left_loop.simps) simp
    show ?thesis using False walk e d none Suc.prems by (subst timers_left_loop.simps) auto
  qed
qed simp

text \<open>One round of the loop of \<open>ngx_event_expire_timers\<close>: it ends, or it takes out a timer that is due and calls its handler.\<close>

definition timed_out :: "ngx_event \<Rightarrow> ngx_event" where
  "timed_out e = e\<lparr>timer_set := False, timedout := True\<rparr>"

lemma due_finite: "timers_ok w st \<Longrightarrow> finite (due st)"
  using armed_at by (auto simp: timers_ok_def due_def)

lemma expire_round:
  assumes ok: "timers_ok w st" and some: "due st \<noteq> {}"
  obtains x st1 e where "x \<in> due st" "timers_ok w st1" "armed st1 = {p \<in> armed st. fst p \<noteq> x}"
    "ngx_current_msec st1 = ngx_current_msec st" "tm_events st x = Some e" "tm_events st1 = (tm_events st)(x \<mapsto> timed_out e)"
    "\<forall>handler. expire_loop handler (Some ngx_event_timer_sentinel) st =
      handler x st1 \<bind> expire_loop handler (Some ngx_event_timer_sentinel)"
proof -
  obtain t where t: "timers_at w st t" using ok by (auto simp: timers_ok_def)
  have "t \<noteq> Lf" using some timers_empty(1) [OF t] by (auto simp: due_def)
  then obtain x k where x: "rb_root (ngx_event_timer_rbtree st) \<noteq> Some ngx_event_timer_sentinel"
    "ngx_rbtree_min (rb_root (ngx_event_timer_rbtree st)) (Some ngx_event_timer_sentinel) (tm_heap st) = Some (Some x)"
    "rd_key (tm_heap st) (Some x) = Some k" "(x, k) \<in> armed st" "\<forall>p \<in> armed st. time_left st (x, k) \<le> time_left st p"
    using timers_min [OF t] by metis
  have out: "\<not> time_left st (x, k) > 0" using some x(5) by (fastforce simp: due_def)
  then have xd: "x \<in> due st" using x(4) by (force simp: due_def)
  have xt: "x \<in> addrs t" using x(4) armed_at [OF t] by (force simp: addrs_def)
  obtain tree h e t1 st1 where d: "ngx_rbtree_delete (ngx_event_timer_rbtree st) (Some x) (tm_heap st) = Some (tree, h)"
    "ev_set (Some x) timed_out (st\<lparr>ngx_event_timer_rbtree := tree, tm_heap := h\<rparr>) = Some st1"
    "timers_at w st1 t1" "nodes t1 = filter (\<lambda>p. fst p \<noteq> x) (nodes t)" "ngx_current_msec st1 = ngx_current_msec st"
    "tm_events st x = Some e" "tm_events st1 = (tm_events st)(x \<mapsto> timed_out e)"
    by (rule timers_remove [OF t xt, of timed_out]) (simp_all add: timed_out_def)
  have "expire_loop handler (Some ngx_event_timer_sentinel) st = handler x st1 \<bind> expire_loop handler (Some ngx_event_timer_sentinel)"
    for handler
    using x(1-3) out d(1) d(2) [unfolded timed_out_def]
    by (subst expire_loop.simps) (simp add: time_left_def Let_def del: rb_at)
  moreover have "armed st1 = {p \<in> armed st. fst p \<noteq> x}" using armed_at [OF d(3)] d(4) armed_at [OF t] by auto
  ultimately show ?thesis using that [OF xd _ _ d(5,6,7)] d(3) by (auto simp: timers_ok_def)
qed

lemma expire_end:
  assumes ok: "timers_ok w st" and none: "due st = {}"
  shows "expire_loop handler (Some ngx_event_timer_sentinel) st = Some st"
proof -
  obtain t where t: "timers_at w st t" using ok by (auto simp: timers_ok_def)
  show ?thesis
  proof (cases "t = Lf")
    case True
    then show ?thesis using timers_empty(2) [OF t] by (subst expire_loop.simps) simp
  next
    case False
    then obtain x k where x: "rb_root (ngx_event_timer_rbtree st) \<noteq> Some ngx_event_timer_sentinel"
      "ngx_rbtree_min (rb_root (ngx_event_timer_rbtree st)) (Some ngx_event_timer_sentinel) (tm_heap st) = Some (Some x)"
      "rd_key (tm_heap st) (Some x) = Some k" "(x, k) \<in> armed st"
      using timers_min [OF t] by metis
    have "time_left st (x, k) > 0" using none x(4) by (force simp: due_def)
    then show ?thesis using x(1-3) by (subst expire_loop.simps) (simp add: time_left_def Let_def del: rb_at)
  qed
qed

lemma due_removed:
  assumes "armed st1 = {p \<in> armed st. fst p \<noteq> x}" "ngx_current_msec st1 = ngx_current_msec st"
  shows "due st1 = due st - {x}"
  using assms by (auto simp: due_def time_left_def)

text \<open>What the loop asks of the handlers: they return, keep the timers in order, and make no timer due.\<close>

locale timer_handler =
  fixes handler :: "nat \<Rightarrow> ngx_timers \<Rightarrow> ngx_timers option" and w now :: ngx_uint_t
  assumes handles: "\<lbrakk>timers_ok w st; ngx_current_msec st = now; tm_events st x \<noteq> None\<rbrakk> \<Longrightarrow>
    \<exists>st'. handler x st = Some st' \<and> timers_ok w st' \<and> ngx_current_msec st' = now \<and> due st' \<subseteq> due st"
begin

lemma expire_loop_ok:
  assumes "timers_ok w st" "ngx_current_msec st = now"
  shows "\<exists>st'. expire_loop handler (Some ngx_event_timer_sentinel) st = Some st' \<and> timers_ok w st' \<and>
    ngx_current_msec st' = now \<and> due st' = {}"
  using assms
proof (induction "card (due st)" arbitrary: st rule: less_induct)
  case less
  show ?case
  proof (cases "due st = {}")
    case True
    then show ?thesis using expire_end [OF less.prems(1) True] less.prems by auto
  next
    case False
    obtain x st1 e where x: "x \<in> due st" "timers_ok w st1" "armed st1 = {p \<in> armed st. fst p \<noteq> x}"
      "ngx_current_msec st1 = ngx_current_msec st" "tm_events st x = Some e" "tm_events st1 = (tm_events st)(x \<mapsto> timed_out e)"
      "\<forall>handler. expire_loop handler (Some ngx_event_timer_sentinel) st =
        handler x st1 \<bind> expire_loop handler (Some ngx_event_timer_sentinel)"
      by (rule expire_round [OF less.prems(1) False])
    obtain st2 where s2: "handler x st1 = Some st2" "timers_ok w st2" "ngx_current_msec st2 = now" "due st2 \<subseteq> due st1"
      using handles [of st1 x] x(2,4,6) less.prems(2) by auto
    have "due st2 \<subset> due st" using s2(4) due_removed [OF x(3,4)] x(1) by auto
    then have "card (due st2) < card (due st)" by (rule psubset_card_mono [OF due_finite [OF less.prems(1)]])
    then show ?thesis using less.hyps [OF _ s2(2,3)] x(7) s2(1) by simp
  qed
qed

lemma expire_ok:
  assumes "timers_ok w st" "ngx_current_msec st = now"
  shows "\<exists>st'. ngx_event_expire_timers handler st = Some st' \<and> timers_ok w st' \<and> ngx_current_msec st' = now \<and> due st' = {}"
  using expire_loop_ok [OF assms] assms(1) by (auto simp: ngx_event_expire_timers_def timers_ok_def timers_at_def)

end

text \<open>A handler of \<open>http/ngx_http_request.c\<close> that does nothing, and one that sets the timer again, as the periodic tasks do.\<close>

definition ngx_http_empty_handler :: "nat \<Rightarrow> ngx_timers \<Rightarrow> ngx_timers option" where
  "ngx_http_empty_handler wev st = Some st"

interpretation empty_handler: timer_handler ngx_http_empty_handler w now
  for w now
  by unfold_locales (simp add: ngx_http_empty_handler_def)

lemma rearm_handler:
  assumes "now + delay \<in> timer_window w" "now \<in> timer_window w" "sint delay > 0"
  shows "timer_handler (\<lambda>x. ngx_event_add_timer x delay) w now"
proof
  fix st x
  assume st: "timers_ok w st" "ngx_current_msec st = now" "tm_events st x \<noteq> None"
  then obtain e where e: "tm_events st x = Some e" by auto
  obtain st' k where s: "ngx_event_add_timer x delay st = Some st'" "timers_ok w st'"
    "armed st' = insert (x, k) {p \<in> armed st. fst p \<noteq> x}" "ngx_current_msec st' = now" "k = now + delay \<or> (x, k) \<in> armed st"
    using add_timer_ok [OF st(1) e, of delay] assms(1) st(2) by auto
  have "due st' \<subseteq> due st" using s(3-5) assms(3) st(2) by (force simp: due_def time_left_def)
  then show "\<exists>st'. ngx_event_add_timer x delay st = Some st' \<and> timers_ok w st' \<and> ngx_current_msec st' = now \<and> due st' \<subseteq> due st"
    using s(1,2,4) by blast
qed

text \<open>With handlers that leave the timers alone, exactly the timers that are due are taken out, and their events marked.\<close>

lemma armed_unique: "(x, k) \<in> armed st \<Longrightarrow> (x, k') \<in> armed st \<Longrightarrow> k = k'"
  by (auto simp: armed_def)

lemma expire_empty:
  assumes "timers_ok w st"
  shows "\<exists>st'. expire_loop ngx_http_empty_handler (Some ngx_event_timer_sentinel) st = Some st' \<and>
    armed st' = {p \<in> armed st. time_left st p > 0} \<and> ngx_current_msec st' = ngx_current_msec st \<and>
    tm_events st' = (\<lambda>x. if x \<in> due st then map_option timed_out (tm_events st x) else tm_events st x)"
  using assms
proof (induction "card (due st)" arbitrary: st rule: less_induct)
  case less
  show ?case
  proof (cases "due st = {}")
    case True
    then have "armed st = {p \<in> armed st. time_left st p > 0}" by (force simp: due_def)
    then show ?thesis using expire_end [OF less.prems True] True by auto
  next
    case False
    obtain x st1 e where x: "x \<in> due st" "timers_ok w st1" "armed st1 = {p \<in> armed st. fst p \<noteq> x}"
      "ngx_current_msec st1 = ngx_current_msec st" "tm_events st x = Some e" "tm_events st1 = (tm_events st)(x \<mapsto> timed_out e)"
      "\<forall>handler. expire_loop handler (Some ngx_event_timer_sentinel) st =
        handler x st1 \<bind> expire_loop handler (Some ngx_event_timer_sentinel)"
      by (rule expire_round [OF less.prems False])
    note d = due_removed [OF x(3,4)]
    have "card (due st1) < card (due st)" unfolding d by (rule card_Diff1_less [OF due_finite [OF less.prems] x(1)])
    then obtain st' where s: "expire_loop ngx_http_empty_handler (Some ngx_event_timer_sentinel) st1 = Some st'"
      "armed st' = {p \<in> armed st1. time_left st1 p > 0}" "ngx_current_msec st' = ngx_current_msec st1"
      "tm_events st' = (\<lambda>y. if y \<in> due st1 then map_option timed_out (tm_events st1 y) else tm_events st1 y)"
      using less.hyps [OF _ x(2)] by blast
    obtain k where k: "(x, k) \<in> armed st" "time_left st (x, k) \<le> 0" using x(1) by (auto simp: due_def)
    have "fst p \<noteq> x" if "p \<in> armed st" "time_left st p > 0" for p
      using that k armed_unique [of x k st "snd p"] by (cases p) auto
    then have "armed st' = {p \<in> armed st. time_left st p > 0}" using s(2) x(3,4) by (auto simp: time_left_def)
    moreover have "tm_events st' = (\<lambda>y. if y \<in> due st then map_option timed_out (tm_events st y) else tm_events st y)"
      using s(4) x(1,5,6) d by (auto simp: fun_eq_iff)
    ultimately show ?thesis using s(1,3) x(4,7) by (simp add: ngx_http_empty_handler_def)
  qed
qed

section \<open>Properties of the timers\<close>

text \<open>C21. Timers are set. \<open>ngx_event_add_timer\<close> returns; then the event has a timer that runs out within 300 milliseconds of the
  time asked for, exactly at that time unless it had one before, and the other timers are as they were.\<close>

theorem add_timer_sets:
  assumes "timers_ok w st" "tm_events st x = Some e" "ngx_current_msec st + timer \<in> timer_window w"
  shows "\<exists>st' k. ngx_event_add_timer x timer st = Some st' \<and> timers_ok w st' \<and>
    armed st' = insert (x, k) {p \<in> armed st. fst p \<noteq> x} \<and> ngx_current_msec st' = ngx_current_msec st \<and>
    \<bar>sint (k - (ngx_current_msec st + timer))\<bar> < NGX_TIMER_LAZY_DELAY \<and>
    (k = ngx_current_msec st + timer \<or> (x, k) \<in> armed st)"
  by (rule add_timer_ok [OF assms])

text \<open>C22. The next timer. \<open>ngx_event_find_timer\<close> returns \<open>NGX_TIMER_INFINITE\<close> if no timer is set, and else the time left until the
  first timer runs out, zero if one has run out.\<close>

theorem find_timer_exact:
  assumes "timers_ok w st"
  shows "ngx_event_find_timer st =
    Some (if armed st = {} then NGX_TIMER_INFINITE else word_of_int (max 0 (Min (time_left st ` armed st))))"
proof -
  obtain t where t: "timers_at w st t" using assms by (auto simp: timers_ok_def)
  show ?thesis
  proof (cases "t = Lf")
    case True
    then show ?thesis using timers_empty [OF t] by (simp add: ngx_event_find_timer_def)
  next
    case False
    then obtain x k where x: "rb_root (ngx_event_timer_rbtree st) \<noteq> Some ngx_event_timer_sentinel"
      "ngx_rbtree_min (rb_root (ngx_event_timer_rbtree st)) (Some ngx_event_timer_sentinel) (tm_heap st) = Some (Some x)"
      "rd_key (tm_heap st) (Some x) = Some k" "(x, k) \<in> armed st" "\<forall>p \<in> armed st. time_left st (x, k) \<le> time_left st p"
      using timers_min [OF t] by metis
    have "Min (time_left st ` armed st) = time_left st (x, k)"
      using x(4,5) armed_at [OF t] by (intro Min_eqI) auto
    moreover have "ngx_event_find_timer st =
        Some (if time_left st (x, k) > 0 then word_of_int (time_left st (x, k)) else 0)"
      using x(1-3) t by (simp add: ngx_event_find_timer_def timers_at_def time_left_def Let_def del: rb_at)
    moreover have "armed st \<noteq> {}" using x(4) by auto
    ultimately show ?thesis by (auto simp: max_def)
  qed
qed

text \<open>Timers that hold up the exit of a worker. \<open>ngx_event_no_timers_left\<close> returns \<open>NGX_OK\<close> if all timers that are set are
  cancelable, and \<open>NGX_AGAIN\<close> otherwise.\<close>

theorem no_timers_left_exact:
  assumes "timers_ok w st"
  shows "ngx_event_no_timers_left st =
    Some (if \<forall>x \<in> fst ` armed st. cancelable (the (tm_events st x)) then NGX_OK else NGX_AGAIN)"
proof -
  obtain t where t: "timers_at w st t" using assms by (auto simp: timers_ok_def)
  have s: "rb_sentinel (ngx_event_timer_rbtree st) = Some ngx_event_timer_sentinel" using t by (simp add: timers_at_def)
  show ?thesis
  proof (cases "t = Lf")
    case True
    then show ?thesis using timers_empty [OF t] s by (simp add: ngx_event_no_timers_left_def)
  next
    case False
    obtain x k where x: "nodes t = (x, k) # tl (nodes t)" "rb_root (ngx_event_timer_rbtree st) \<noteq> Some ngx_event_timer_sentinel"
      "ngx_rbtree_min (rb_root (ngx_event_timer_rbtree st)) (Some ngx_event_timer_sentinel) (tm_heap st) = Some (Some x)"
      using timers_min [OF t False] by metis
    have "0 < length (nodes t)" "fst (nodes t ! 0) = x" by (subst x(1), simp)+
    then show ?thesis using left_loop [OF t, of 0] x(2,3) s armed_at [OF t]
      by (simp add: ngx_event_no_timers_left_def)
  qed
qed

text \<open>C20. \<open>ngx_event_expire_timers\<close> ends. If every handler returns, keeps the timers in order and makes no timer due, the loop
  ends, the timers are in order and none is due.\<close>

theorem expire_timers_done:
  assumes "timers_ok w st" "ngx_current_msec st = now"
    and "\<And>x st. \<lbrakk>timers_ok w st; ngx_current_msec st = now; tm_events st x \<noteq> None\<rbrakk> \<Longrightarrow>
      \<exists>st'. handler x st = Some st' \<and> timers_ok w st' \<and> ngx_current_msec st' = now \<and> due st' \<subseteq> due st"
  shows "\<exists>st'. ngx_event_expire_timers handler st = Some st' \<and> timers_ok w st' \<and> ngx_current_msec st' = now \<and> due st' = {}"
proof -
  have "timer_handler handler w now" by (rule timer_handler.intro) (rule assms(3))
  then show ?thesis using timer_handler.expire_ok assms(1,2) by blast
qed

text \<open>Which timers run out. With handlers that leave the timers alone, \<open>ngx_event_expire_timers\<close> removes exactly the timers
  whose time has come, marks their events as timed out and without timer, and leaves the other events as they were.\<close>

theorem expire_timers_exact:
  assumes "timers_ok w st"
  shows "\<exists>st'. ngx_event_expire_timers ngx_http_empty_handler st = Some st' \<and> timers_ok w st' \<and>
    armed st' = {p \<in> armed st. time_left st p > 0} \<and>
    tm_events st' = (\<lambda>x. if x \<in> due st then map_option timed_out (tm_events st x) else tm_events st x)"
proof -
  have "rb_sentinel (ngx_event_timer_rbtree st) = Some ngx_event_timer_sentinel" using assms by (auto simp: timers_ok_def timers_at_def)
  then show ?thesis using expire_empty [OF assms] empty_handler.expire_ok [OF assms refl] by (auto simp: ngx_event_expire_timers_def)
qed

section \<open>Two timers\<close>

definition demo_timers :: ngx_timers where
  "demo_timers = \<lparr>ngx_event_timer_rbtree = \<lparr>rb_root = Some 1, rb_sentinel = Some 0\<rparr>, tm_heap = demo_heap,
    tm_events = [1 \<mapsto> \<lparr>timedout = False, timer_set = True, cancelable = True\<rparr>, 2 \<mapsto> \<lparr>timedout = False, timer_set = False, cancelable = False\<rparr>],
    ngx_current_msec = 5\<rparr>"

lemma demo_timers_at: "timers_at 0 demo_timers (Nd Lf 1 5 False Lf)"
  using demo_holds demo_tree
  by (auto simp: timers_at_def demo_timers_def keys_def timer_window_def ngx_event_timer_sentinel_def demo_heap_def)

lemma demo_timers_ok: "timers_ok 0 demo_timers"
  using demo_timers_at by (auto simp: timers_ok_def)

lemma demo_timers_fields:
  "ngx_current_msec demo_timers = 5"
  "tm_events demo_timers = [1 \<mapsto> \<lparr>timedout = False, timer_set = True, cancelable = True\<rparr>,
     2 \<mapsto> \<lparr>timedout = False, timer_set = False, cancelable = False\<rparr>]"
  by (simp_all add: demo_timers_def)

lemma demo_armed: "armed demo_timers = {(1, 5)}"
  using armed_at [OF demo_timers_at] by simp

lemma demo_due: "due demo_timers = {1}"
  unfolding due_def demo_armed by (auto simp: time_left_def demo_timers_fields)

theorem find_timer_exact_witness: "ngx_event_find_timer demo_timers = Some 0"
  unfolding find_timer_exact [OF demo_timers_ok] demo_armed by (simp add: time_left_def demo_timers_fields)

theorem no_timers_left_exact_witness: "ngx_event_no_timers_left demo_timers = Some NGX_OK"
  unfolding no_timers_left_exact [OF demo_timers_ok] demo_armed by (simp add: demo_timers_fields)

theorem add_timer_sets_witness:
  "\<exists>st' k. ngx_event_add_timer 2 10 demo_timers = Some st' \<and> armed st' = {(2, k), (1, 5)} \<and> k = 15"
  using add_timer_sets [OF demo_timers_ok, of 2 "\<lparr>timedout = False, timer_set = False, cancelable = False\<rparr>" 10]
  unfolding demo_armed demo_timers_fields by (auto simp: timer_window_def)

theorem expire_timers_exact_witness:
  "\<exists>st'. ngx_event_expire_timers ngx_http_empty_handler demo_timers = Some st' \<and> armed st' = {} \<and>
    tm_events st' 1 = Some \<lparr>timedout = True, timer_set = False, cancelable = True\<rparr>"
proof -
  have "{p \<in> {(1 :: nat, 5)}. time_left demo_timers p > 0} = {}" by (auto simp: time_left_def demo_timers_fields)
  then show ?thesis using expire_timers_exact [OF demo_timers_ok] unfolding demo_armed demo_due demo_timers_fields
    by (auto simp: timed_out_def)
qed

theorem expire_timers_done_witness:
  "\<exists>st'. ngx_event_expire_timers (\<lambda>x. ngx_event_add_timer x 1000) demo_timers = Some st' \<and> due st' = {}"
proof -
  have h: "timer_handler (\<lambda>x. ngx_event_add_timer x 1000) 0 5" by (rule rearm_handler) (simp_all add: timer_window_def)
  show ?thesis using expire_timers_done [OF demo_timers_ok demo_timers_fields(1), of "\<lambda>x. ngx_event_add_timer x 1000"]
      timer_handler.handles [OF h] by blast
qed

end
