(* ===== verification/Http_V2_Table.thy ===== *)
theory Http_V2_Table
  imports Ngx_Prelude "HOL-Library.Monad_Syntax"
begin

text \<open>
  The header tables of HPACK, \<^verbatim>\<open>http/v2/ngx_http_v2_table.c\<close>: the static table, and the dynamic table with its array of
  pointers to entries, a ring that grows, and its storage of 4096 bytes, a ring of bytes in which a string may lie across
  the end. Every access to the array, to an entry or to the storage is a step of the option monad: \<^const>\<open>None\<close> is an access out of range.
  The counters of entries do not reach the limit of their type within the life of a connection and are natural numbers; the sizes are
  differences of what fits the table, and are integers.
\<close>

section \<open>The tables\<close>

definition NGX_HTTP_V2_TABLE_SIZE :: nat where
  "NGX_HTTP_V2_TABLE_SIZE = 4096"

type_synonym header_field = "u_char list \<times> u_char list"

definition ngx_http_v2_static_table :: "header_field list" where
  "ngx_http_v2_static_table = [
    (bytes '':authority'', []),
    (bytes '':method'', bytes ''GET''),
    (bytes '':method'', bytes ''POST''),
    (bytes '':path'', bytes ''/''),
    (bytes '':path'', bytes ''/index.html''),
    (bytes '':scheme'', bytes ''http''),
    (bytes '':scheme'', bytes ''https''),
    (bytes '':status'', bytes ''200''),
    (bytes '':status'', bytes ''204''),
    (bytes '':status'', bytes ''206''),
    (bytes '':status'', bytes ''304''),
    (bytes '':status'', bytes ''400''),
    (bytes '':status'', bytes ''404''),
    (bytes '':status'', bytes ''500''),
    (bytes ''accept-charset'', []),
    (bytes ''accept-encoding'', bytes ''gzip, deflate''),
    (bytes ''accept-language'', []),
    (bytes ''accept-ranges'', []),
    (bytes ''accept'', []),
    (bytes ''access-control-allow-origin'', []),
    (bytes ''age'', []),
    (bytes ''allow'', []),
    (bytes ''authorization'', []),
    (bytes ''cache-control'', []),
    (bytes ''content-disposition'', []),
    (bytes ''content-encoding'', []),
    (bytes ''content-language'', []),
    (bytes ''content-length'', []),
    (bytes ''content-location'', []),
    (bytes ''content-range'', []),
    (bytes ''content-type'', []),
    (bytes ''cookie'', []),
    (bytes ''date'', []),
    (bytes ''etag'', []),
    (bytes ''expect'', []),
    (bytes ''expires'', []),
    (bytes ''from'', []),
    (bytes ''host'', []),
    (bytes ''if-match'', []),
    (bytes ''if-modified-since'', []),
    (bytes ''if-none-match'', []),
    (bytes ''if-range'', []),
    (bytes ''if-unmodified-since'', []),
    (bytes ''last-modified'', []),
    (bytes ''link'', []),
    (bytes ''location'', []),
    (bytes ''max-forwards'', []),
    (bytes ''proxy-authenticate'', []),
    (bytes ''proxy-authorization'', []),
    (bytes ''range'', []),
    (bytes ''referer'', []),
    (bytes ''refresh'', []),
    (bytes ''retry-after'', []),
    (bytes ''server'', []),
    (bytes ''set-cookie'', []),
    (bytes ''strict-transport-security'', []),
    (bytes ''transfer-encoding'', []),
    (bytes ''user-agent'', []),
    (bytes ''vary'', []),
    (bytes ''via'', []),
    (bytes ''www-authenticate'', [])]"

definition NGX_HTTP_V2_STATIC_TABLE_ENTRIES :: nat where
  "NGX_HTTP_V2_STATIC_TABLE_ENTRIES = length ngx_http_v2_static_table"

definition ngx_http_v2_get_static_name :: "nat \<Rightarrow> u_char list" where
  "ngx_http_v2_get_static_name index = fst (ngx_http_v2_static_table ! (index - 1))"

definition ngx_http_v2_get_static_value :: "nat \<Rightarrow> u_char list" where
  "ngx_http_v2_get_static_value index = snd (ngx_http_v2_static_table ! (index - 1))"

text \<open>An entry of the dynamic table: two strings in the storage, each with its length and its offset there.\<close>

record ngx_http_v2_header =
  name_len :: nat
  name_data :: nat
  value_len :: nat
  value_data :: nat

text \<open>\<open>ngx_http_v2_hpack_t\<close>. The array \<open>hp_entries\<close> holds pointers to entries in \<open>hp_pool\<close>, the memory that the pool of the
  connection has given out for them; an element that is not set is \<open>None\<close>. \<open>hp_pos\<close> is an offset in the storage.\<close>

record ngx_http_v2_hpack =
  hp_entries :: "nat option list option"
  hp_added :: nat
  hp_deleted :: nat
  hp_reused :: nat
  hp_allocated :: nat
  hp_size :: int
  hp_free :: int
  hp_storage :: "u_char list option"
  hp_pos :: nat
  hp_pool :: "ngx_http_v2_header list"

definition hpack_zero :: ngx_http_v2_hpack where
  "hpack_zero = \<lparr>hp_entries = None, hp_added = 0, hp_deleted = 0, hp_reused = 0, hp_allocated = 0, hp_size = 0, hp_free = 0,
     hp_storage = None, hp_pos = 0, hp_pool = []\<rparr>"

section \<open>Memory\<close>

definition nth_opt :: "'a list \<Rightarrow> nat \<Rightarrow> 'a option" where
  "nth_opt xs i = (if i < length xs then Some (xs ! i) else None)"

text \<open>\<open>h2c->hpack.entries[i % h2c->hpack.allocated]\<close>, a pointer, and the entry it points to.\<close>

definition entry_ptr :: "ngx_http_v2_hpack \<Rightarrow> nat \<Rightarrow> nat option" where
  "entry_ptr st i =
    do {
      es \<leftarrow> hp_entries st;
      p \<leftarrow> nth_opt es (i mod hp_allocated st);
      p
    }"

text \<open>\<open>ngx_memcpy\<close> of bytes to, and of \<open>n\<close> bytes from, an offset of the storage.\<close>

definition mem_put :: "u_char list \<Rightarrow> nat \<Rightarrow> u_char list \<Rightarrow> u_char list option" where
  "mem_put m off bs = (if off + length bs \<le> length m then Some (take off m @ bs @ drop (off + length bs) m) else None)"

definition mem_get :: "u_char list \<Rightarrow> nat \<Rightarrow> nat \<Rightarrow> u_char list option" where
  "mem_get m off n = (if off + n \<le> length m then Some (take n (drop off m)) else None)"

section \<open>Eviction\<close>

definition evict :: "ngx_http_v2_hpack \<Rightarrow> ngx_http_v2_hpack option" where
  "evict st =
    do {
      p \<leftarrow> entry_ptr st (hp_deleted st);
      entry \<leftarrow> nth_opt (hp_pool st) p;
      Some (st\<lparr>hp_deleted := hp_deleted st + 1, hp_free := hp_free st + int (32 + name_len entry + value_len entry)\<rparr>)
    }"

partial_function (option) evict_loop :: "int \<Rightarrow> ngx_http_v2_hpack \<Rightarrow> ngx_http_v2_hpack option" where
  "evict_loop needed st =
    (if needed > hp_free st then do { st \<leftarrow> evict st; evict_loop needed st }
     else Some st)"

definition ngx_http_v2_table_account :: "int \<Rightarrow> ngx_http_v2_hpack \<Rightarrow> (ngx_rc \<times> ngx_http_v2_hpack) option" where
  "ngx_http_v2_table_account siz st =
    (let siz = siz + 32 in
     if siz \<le> hp_free st then Some (NGX_OK, st\<lparr>hp_free := hp_free st - siz\<rparr>)
     else if siz > hp_size st then Some (NGX_DECLINED, st\<lparr>hp_deleted := hp_added st, hp_free := hp_size st\<rparr>)
     else do {
       st \<leftarrow> evict st;
       st \<leftarrow> evict_loop siz st;
       Some (NGX_OK, st\<lparr>hp_free := hp_free st - siz\<rparr>)
     })"

definition ngx_http_v2_table_size :: "nat \<Rightarrow> ngx_http_v2_hpack \<Rightarrow> (ngx_rc \<times> ngx_http_v2_hpack) option" where
  "ngx_http_v2_table_size siz st =
    (if siz > NGX_HTTP_V2_TABLE_SIZE then Some (NGX_ERROR, st)
     else do {
       let needed = hp_size st - int siz;
       st \<leftarrow> evict_loop needed st;
       Some (NGX_OK, st\<lparr>hp_size := int siz, hp_free := hp_free st - needed\<rparr>)
     })"

section \<open>Adding a header\<close>

text \<open>The allocations may fail: \<open>palloc i\<close> says whether the one at the place \<open>i\<close> of the function succeeds.\<close>

definition hpack_init :: "(nat \<Rightarrow> bool) \<Rightarrow> ngx_http_v2_hpack \<Rightarrow> ngx_rc \<times> ngx_http_v2_hpack" where
  "hpack_init palloc st =
    (if hp_entries st = None then
       let st = st\<lparr>hp_allocated := 64, hp_size := int NGX_HTTP_V2_TABLE_SIZE, hp_free := int NGX_HTTP_V2_TABLE_SIZE\<rparr> in
       if \<not> palloc 0 then (NGX_ERROR, st)
       else
         let st = st\<lparr>hp_entries := Some (replicate (hp_allocated st) None)\<rparr> in
         if \<not> palloc 1 then (NGX_ERROR, st)
         else (NGX_OK, st\<lparr>hp_storage := Some (replicate (nat (hp_free st)) 0), hp_pos := 0\<rparr>)
     else (NGX_OK, st))"

text \<open>The copy of one string to \<open>pos\<close>, where \<open>avail\<close> bytes are taken to be left up to the end of the storage.\<close>

definition hpack_put :: "nat \<Rightarrow> u_char list \<Rightarrow> ngx_http_v2_hpack \<Rightarrow> ngx_http_v2_hpack option" where
  "hpack_put avail bs st =
    do {
      m \<leftarrow> hp_storage st;
      if avail \<ge> length bs then do {
        m \<leftarrow> mem_put m (hp_pos st) bs;
        Some (st\<lparr>hp_storage := Some m, hp_pos := hp_pos st + length bs\<rparr>)
      }
      else do {
        m \<leftarrow> mem_put m (hp_pos st) (take avail bs);
        m \<leftarrow> mem_put m 0 (drop avail bs);
        Some (st\<lparr>hp_storage := Some m, hp_pos := length bs - avail\<rparr>)
      }
    }"

text \<open>The two strings of the new entry, and the entry.\<close>

definition hpack_write :: "header_field \<Rightarrow> ngx_http_v2_hpack \<Rightarrow> (ngx_http_v2_header \<times> ngx_http_v2_hpack) option" where
  "hpack_write header st =
    (let avail = NGX_HTTP_V2_TABLE_SIZE - hp_pos st; nlen = length (fst header); ndata = hp_pos st in
     do {
       st \<leftarrow> hpack_put avail (fst header) st;
       let avail = (if avail \<ge> nlen then avail else NGX_HTTP_V2_TABLE_SIZE) - nlen;
       let vdata = hp_pos st;
       st \<leftarrow> hpack_put avail (snd header) st;
       Some (\<lparr>name_len = nlen, name_data = ndata, value_len = length (snd header), value_data = vdata\<rparr>, st)
     })"

text \<open>The array of pointers gets 64 more elements when it is full.\<close>

definition hpack_grow :: "ngx_http_v2_hpack \<Rightarrow> ngx_http_v2_hpack option" where
  "hpack_grow st =
    do {
      es \<leftarrow> hp_entries st;
      let index = hp_deleted st mod hp_allocated st;
      Some (st\<lparr>hp_entries := Some (drop index es @ take index es @ replicate 64 None), hp_added := hp_allocated st,
        hp_deleted := 0, hp_reused := 0, hp_allocated := hp_allocated st + 64\<rparr>)
    }"

definition hpack_append :: "nat \<Rightarrow> ngx_http_v2_hpack \<Rightarrow> ngx_http_v2_hpack option" where
  "hpack_append p st =
    do {
      es \<leftarrow> hp_entries st;
      let index = hp_added st mod hp_allocated st;
      if index < length es then Some (st\<lparr>hp_entries := Some (es[index := Some p]), hp_added := hp_added st + 1\<rparr>) else None
    }"

text \<open>A new entry, or the one that was deleted first of those not yet used again.\<close>

definition hpack_entry :: "(nat \<Rightarrow> bool) \<Rightarrow> ngx_http_v2_hpack \<Rightarrow> (nat option \<times> ngx_http_v2_hpack) option" where
  "hpack_entry palloc st =
    (if hp_reused st = hp_deleted st then
       if \<not> palloc 2 then Some (None, st)
       else Some (Some (length (hp_pool st)),
         st\<lparr>hp_pool := hp_pool st @ [\<lparr>name_len = 0, name_data = 0, value_len = 0, value_data = 0\<rparr>]\<rparr>)
     else do {
       p \<leftarrow> entry_ptr st (hp_reused st);
       Some (Some p, st\<lparr>hp_reused := hp_reused st + 1\<rparr>)
     })"

definition ngx_http_v2_add_header ::
  "(nat \<Rightarrow> bool) \<Rightarrow> header_field \<Rightarrow> ngx_http_v2_hpack \<Rightarrow> (ngx_rc \<times> ngx_http_v2_hpack) option" where
  "ngx_http_v2_add_header palloc header st =
    (case hpack_init palloc st of
       (NGX_OK, st) \<Rightarrow> do {
         (rc, st) \<leftarrow> ngx_http_v2_table_account (int (length (fst header) + length (snd header))) st;
         if rc \<noteq> NGX_OK then Some (NGX_OK, st)
         else do {
           (p, st) \<leftarrow> hpack_entry palloc st;
           case p of
             None \<Rightarrow> Some (NGX_ERROR, st)
           | Some p \<Rightarrow> do {
               (entry, st) \<leftarrow> hpack_write header st;
               let st = st\<lparr>hp_pool := (hp_pool st)[p := entry]\<rparr>;
               if hp_allocated st = hp_added st - hp_deleted st then
                 if \<not> palloc 3 then Some (NGX_ERROR, st)
                 else do {
                   st \<leftarrow> hpack_grow st;
                   st \<leftarrow> hpack_append p st;
                   Some (NGX_OK, st)
                 }
               else do {
                 st \<leftarrow> hpack_append p st;
                 Some (NGX_OK, st)
               }
             }
         }
       }
     | (rc, st) \<Rightarrow> Some (rc, st))"

section \<open>Looking up a header\<close>

definition hpack_get :: "nat \<Rightarrow> nat \<Rightarrow> ngx_http_v2_hpack \<Rightarrow> u_char list option" where
  "hpack_get off len st =
    (let rest = NGX_HTTP_V2_TABLE_SIZE - off in
     do {
       m \<leftarrow> hp_storage st;
       if len > rest then do {
         a \<leftarrow> mem_get m off rest;
         b \<leftarrow> mem_get m 0 (len - rest);
         Some (a @ b)
       }
       else mem_get m off len
     })"

text \<open>The result is the return code and what is stored in the name and in the value of \<open>h2c->state.header\<close>; \<open>palloc\<close> says which of
  the two allocations succeed.\<close>

definition ngx_http_v2_get_indexed_header ::
  "(nat \<Rightarrow> bool) \<Rightarrow> nat \<Rightarrow> bool \<Rightarrow> ngx_http_v2_hpack \<Rightarrow> (ngx_rc \<times> u_char list option \<times> u_char list option) option" where
  "ngx_http_v2_get_indexed_header palloc index name_only st =
    (if index = 0 then Some (NGX_ERROR, None, None)
     else
       let index = index - 1 in
       if index < NGX_HTTP_V2_STATIC_TABLE_ENTRIES then
         Some (NGX_OK, Some (fst (ngx_http_v2_static_table ! index)), Some (snd (ngx_http_v2_static_table ! index)))
       else
         let index = index - NGX_HTTP_V2_STATIC_TABLE_ENTRIES in
         if index < hp_added st - hp_deleted st then do {
           p \<leftarrow> entry_ptr st (hp_added st - index - 1);
           entry \<leftarrow> nth_opt (hp_pool st) p;
           if \<not> palloc 0 then Some (NGX_ERROR, None, None)
           else do {
             name \<leftarrow> hpack_get (name_data entry) (name_len entry) st;
             if name_only then Some (NGX_OK, Some name, None)
             else if \<not> palloc 1 then Some (NGX_ERROR, Some name, None)
             else do {
               val \<leftarrow> hpack_get (value_data entry) (value_len entry) st;
               Some (NGX_OK, Some name, Some val)
             }
           }
         }
         else Some (NGX_ERROR, None, None))"

end
