(* ===== verification/Http_V2_Table_Ring.thy ===== *)
theory Http_V2_Table_Ring
  imports Http_V2_Table
begin

text \<open>
  The storage of the dynamic table as a ring of bytes, how a list of header fields lies in it, and what eviction and writing do to that.
\<close>

section \<open>The storage as a ring\<close>

abbreviation N_tab :: nat where "N_tab \<equiv> NGX_HTTP_V2_TABLE_SIZE"

definition circ :: "u_char list \<Rightarrow> nat \<Rightarrow> nat \<Rightarrow> u_char list" where
  "circ m a n = map (\<lambda>j. m ! ((a + j) mod N_tab)) [0..<n]"

lemma N_tab_pos [simp]: "0 < N_tab"
  by (simp add: NGX_HTTP_V2_TABLE_SIZE_def)

lemma length_circ [simp]: "length (circ m a n) = n"
  by (simp add: circ_def)

lemma circ_split: "circ m a (k + n) = circ m a k @ circ m (a + k) n"
proof (rule nth_equalityI)
  fix i
  assume "i < length (circ m a (k + n))"
  then have i: "i < k + n" by simp
  show "circ m a (k + n) ! i = (circ m a k @ circ m (a + k) n) ! i"
  proof (cases "i < k")
    case False
    then obtain j where "i = k + j" by (metis not_less le_Suc_ex)
    then show ?thesis using i by (simp add: circ_def nth_append add.assoc)
  qed (use i in \<open>simp add: circ_def nth_append\<close>)
qed simp

lemma circ_cong: "(\<And>j. j < n \<Longrightarrow> m ! ((a + j) mod N_tab) = m' ! ((a + j) mod N_tab)) \<Longrightarrow> circ m a n = circ m' a n"
  by (simp add: circ_def)

text \<open>An offset stands for a position in the sequence of all bytes ever written.\<close>

definition stands_for :: "nat \<Rightarrow> nat \<Rightarrow> bool" where
  "stands_for off a \<longleftrightarrow> off \<le> N_tab \<and> off mod N_tab = a mod N_tab"

lemma ring_index:
  assumes "stands_for off a" "j \<le> N_tab"
  shows "(a + j) mod N_tab = (if off + j < N_tab then off + j else if off + j < 2 * N_tab then off + j - N_tab else 0)"
proof -
  have "(a + j) mod N_tab = (off + j) mod N_tab" using assms(1) unfolding stands_for_def by (metis mod_add_left_eq)
  moreover have "off + j \<le> 2 * N_tab" using assms by (simp add: stands_for_def)
  ultimately show ?thesis by (auto simp: le_mod_geq mod_if)
qed

lemma hpack_get_ok:
  assumes m: "hp_storage st = Some m" "length m = N_tab" and off: "stands_for off a" "len \<le> N_tab"
  shows "hpack_get off len st = Some (circ m a len)"
proof -
  have o: "off \<le> N_tab" using off(1) by (simp add: stands_for_def)
  have nth: "m ! ((a + j) mod N_tab) = (if off + j < N_tab then m ! (off + j) else m ! (off + j - N_tab))" if "j < len" for j
    using ring_index [OF off(1), of j] that off(2) o by simp
  show ?thesis
  proof (cases "len > N_tab - off")
    case True
    have "take (N_tab - off) (drop off m) @ take (len - (N_tab - off)) m = circ m a len"
    proof (rule nth_equalityI)
      fix i
      assume "i < length (take (N_tab - off) (drop off m) @ take (len - (N_tab - off)) m)"
      then have i: "i < len" using m(2) o off(2) True by simp
      have e: "i - (N_tab - off) = off + i - N_tab" "i < N_tab - off \<longleftrightarrow> off + i < N_tab" using o by arith+
      show "(take (N_tab - off) (drop off m) @ take (len - (N_tab - off)) m) ! i = circ m a len ! i"
        using nth [OF i] i m(2) o True off(2) e by (cases "off + i < N_tab") (simp_all add: circ_def nth_append)
    qed (use m(2) o off(2) True in simp)
    then show ?thesis using True m o off(2) by (simp add: hpack_get_def mem_get_def Let_def)
  next
    case False
    have "take len (drop off m) = circ m a len"
    proof (rule nth_equalityI)
      fix i
      assume "i < length (take len (drop off m))"
      then have "i < len" "off + i < N_tab" using False m(2) o by auto
      then show "take len (drop off m) ! i = circ m a len ! i" using nth [of i] m(2) by (simp add: circ_def)
    qed (use m(2) o False in simp)
    then show ?thesis using False m o by (simp add: hpack_get_def mem_get_def Let_def)
  qed
qed

text \<open>A copy to the ring changes the bytes from its position on.\<close>

definition ring_put :: "u_char list \<Rightarrow> nat \<Rightarrow> u_char list \<Rightarrow> u_char list \<Rightarrow> bool" where
  "ring_put m a bs m' \<longleftrightarrow> length m' = N_tab \<and> circ m' a (length bs) = bs \<and>
    (\<forall>i < N_tab. (\<forall>j < length bs. i \<noteq> (a + j) mod N_tab) \<longrightarrow> m' ! i = m ! i)"

lemma mem_put_nth:
  assumes "mem_put m off bs = Some m'" "i < length m"
  shows "m' ! i = (if off \<le> i \<and> i < off + length bs then bs ! (i - off) else m ! i)" "length m' = length m"
  using assms by (auto simp: mem_put_def nth_append split: if_splits)

lemma hpack_put_straight:
  assumes m: "hp_storage st = Some m" "length m = N_tab" and pos: "stands_for (hp_pos st) a"
    and avail: "avail \<ge> length bs" "hp_pos st + length bs \<le> N_tab"
  shows "\<exists>m'. hpack_put avail bs st = Some (st\<lparr>hp_storage := Some m', hp_pos := hp_pos st + length bs\<rparr>) \<and>
    ring_put m a bs m' \<and> stands_for (hp_pos st + length bs) (a + length bs)"
proof -
  obtain m' where m': "mem_put m (hp_pos st) bs = Some m'" using m(2) avail(2) by (simp add: mem_put_def)
  note n = mem_put_nth [OF m']
  have idx: "(a + j) mod N_tab = hp_pos st + j" if "j < length bs" for j
    using ring_index [OF pos, of j] that avail(2) by simp
  have "circ m' a (length bs) = bs"
    using n(1) idx avail(2) m(2) by (intro nth_equalityI) (auto simp: circ_def)
  moreover have "m' ! i = m ! i" if "i < N_tab" "\<forall>j < length bs. i \<noteq> (a + j) mod N_tab" for i
  proof -
    have "\<not> (hp_pos st \<le> i \<and> i < hp_pos st + length bs)" using that(2) idx by (metis le_add_diff_inverse add_less_cancel_left)
    then show ?thesis using n(1) that(1) m(2) by auto
  qed
  moreover have "stands_for (hp_pos st + length bs) (a + length bs)"
    using pos avail(2) unfolding stands_for_def by (metis mod_add_left_eq)
  moreover have "length m' = N_tab" using m(2) mem_put_nth(2) [OF m', of 0] by simp
  ultimately show ?thesis using m avail(1) m' by (auto simp: hpack_put_def ring_put_def)
qed

lemma hpack_put_wrapped:
  assumes m: "hp_storage st = Some m" "length m = N_tab" and pos: "stands_for (hp_pos st) a"
    and avail: "avail = N_tab - hp_pos st" "avail < length bs" "length bs \<le> N_tab"
  shows "\<exists>m'. hpack_put avail bs st = Some (st\<lparr>hp_storage := Some m', hp_pos := length bs - avail\<rparr>) \<and>
    ring_put m a bs m' \<and> stands_for (length bs - avail) (a + length bs)"
proof -
  have p: "hp_pos st \<le> N_tab" using pos by (simp add: stands_for_def)
  obtain m1 where m1: "mem_put m (hp_pos st) (take avail bs) = Some m1" using m(2) avail p by (simp add: mem_put_def)
  have l1: "length m1 = N_tab" using mem_put_nth(2) [OF m1, of 0] m(2) by simp
  have "mem_put m1 0 (drop avail bs) \<noteq> None" using l1 avail(3) by (simp add: mem_put_def)
  then obtain m2 where m2: "mem_put m1 0 (drop avail bs) = Some m2" by auto
  have l2: "length m2 = N_tab" using mem_put_nth(2) [OF m2, of 0] l1 by simp
  have n: "m2 ! i = (if i < length bs - avail then bs ! (avail + i) else if hp_pos st \<le> i then bs ! (i - hp_pos st) else m ! i)"
    if "i < N_tab" for i
    using mem_put_nth(1) [OF m2, of i] mem_put_nth(1) [OF m1, of i] that l1 m(2) avail p by (auto simp: add.commute)
  have idx: "(a + j) mod N_tab = (if j < avail then hp_pos st + j else j - avail)" if "j < length bs" for j
    using ring_index [OF pos, of j] that avail p by auto
  have "m2 ! ((a + j) mod N_tab) = bs ! j" if "j < length bs" for j
    using that idx [OF that] n avail p by (cases "j < avail") auto
  then have "circ m2 a (length bs) = bs" by (intro nth_equalityI) (auto simp: circ_def)
  moreover have "m2 ! i = m ! i" if i: "i < N_tab" "\<forall>j < length bs. i \<noteq> (a + j) mod N_tab" for i
  proof -
    have "\<not> i < length bs - avail" using i(2) idx [of "avail + i"] by (auto simp: less_diff_conv add.commute)
    moreover have "\<not> hp_pos st \<le> i"
    proof
      assume "hp_pos st \<le> i"
      then obtain j where j: "i = hp_pos st + j" by (metis le_Suc_ex)
      then have "j < avail" using i(1) avail(1) by simp
      moreover from this have "j < length bs" using avail(2) by simp
      ultimately show False using i(2) idx [of j] j by auto
    qed
    ultimately show ?thesis using n [OF i(1)] by simp
  qed
  moreover have "stands_for (length bs - avail) (a + length bs)"
  proof -
    have "hp_pos st + length bs = N_tab + (length bs - avail)" using avail p by simp
    then have "(a + length bs) mod N_tab = (N_tab + (length bs - avail)) mod N_tab"
      using pos unfolding stands_for_def by (metis mod_add_left_eq)
    also have "\<dots> = (length bs - avail) mod N_tab" by (rule mod_add_self1)
    finally show ?thesis using avail(3) by (simp add: stands_for_def)
  qed
  ultimately show ?thesis using m avail m1 m2 l2 by (auto simp: hpack_put_def ring_put_def)
qed

section \<open>What the table holds\<close>

text \<open>The specification: the entries, the newest first, and the limit of their total size.\<close>

definition field_size :: "header_field \<Rightarrow> nat" where
  "field_size f = 32 + length (fst f) + length (snd f)"

definition table_sum :: "header_field list \<Rightarrow> nat" where
  "table_sum l = sum_list (map field_size l)"

fun keep :: "int \<Rightarrow> header_field list \<Rightarrow> header_field list" where
  "keep lim [] = []"
| "keep lim (f # l) = (if int (field_size f) \<le> lim then f # keep (lim - int (field_size f)) l else [])"

definition spec_add :: "header_field \<Rightarrow> int \<times> header_field list \<Rightarrow> int \<times> header_field list" where
  "spec_add f t = (fst t, if int (field_size f) > fst t then [] else f # keep (fst t - int (field_size f)) (snd t))"

definition spec_size :: "nat \<Rightarrow> int \<times> header_field list \<Rightarrow> int \<times> header_field list" where
  "spec_size n t = (if n > N_tab then t else (int n, keep (int n) (snd t)))"

text \<open>The entries of \<open>l\<close> lie one behind the other in the ring, the newest up to the position \<open>P\<close>.\<close>

fun laid :: "ngx_http_v2_header list \<Rightarrow> u_char list \<Rightarrow> nat \<Rightarrow> header_field list \<Rightarrow> nat list \<Rightarrow> bool" where
  "laid pool m P [] ps = (ps = [])"
| "laid pool m P (f # l) [] = False"
| "laid pool m P (f # l) (p # ps) \<longleftrightarrow>
     p < length pool \<and> length (fst f) + length (snd f) \<le> P \<and>
     name_len (pool ! p) = length (fst f) \<and> value_len (pool ! p) = length (snd f) \<and>
     stands_for (name_data (pool ! p)) (P - length (snd f) - length (fst f)) \<and> stands_for (value_data (pool ! p)) (P - length (snd f)) \<and>
     circ m (P - length (snd f) - length (fst f)) (length (fst f)) = fst f \<and> circ m (P - length (snd f)) (length (snd f)) = snd f \<and>
     laid pool m (P - length (snd f) - length (fst f)) l ps"

lemma laid_length: "laid pool m P l ps \<Longrightarrow> length ps = length l"
  by (induction pool m P l ps rule: laid.induct) auto

text \<open>The ring of pointers, from the entries that can be used again on.\<close>

definition hpack_rep ::
  "ngx_http_v2_hpack \<Rightarrow> nat option list \<Rightarrow> u_char list \<Rightarrow> nat list \<Rightarrow> nat \<Rightarrow> header_field list \<Rightarrow> bool" where
  "hpack_rep st es m ps P l \<longleftrightarrow>
    hp_entries st = Some es \<and> hp_storage st = Some m \<and> length m = N_tab \<and> length es = hp_allocated st \<and>
    0 < hp_allocated st \<and> hp_reused st \<le> hp_deleted st \<and> hp_deleted st \<le> hp_added st \<and>
    hp_added st - hp_reused st \<le> hp_allocated st \<and>
    map (\<lambda>i. es ! (i mod hp_allocated st)) [hp_reused st..<hp_added st] = map Some ps \<and> distinct ps \<and>
    set ps \<subseteq> {..<length (hp_pool st)} \<and> stands_for (hp_pos st) P \<and>
    laid (hp_pool st) m P l (rev (drop (hp_deleted st - hp_reused st) ps))"

definition hpack_ok :: "ngx_http_v2_hpack \<Rightarrow> header_field list \<Rightarrow> bool" where
  "hpack_ok st l \<longleftrightarrow>
    (\<exists>es m ps P. hpack_rep st es m ps P l) \<and>
    hp_free st = hp_size st - int (table_sum l) \<and> 0 \<le> hp_free st \<and> hp_size st \<le> int N_tab"

lemma hpack_rep_length: "hpack_rep st es m ps P l \<Longrightarrow> length ps = hp_added st - hp_reused st"
  unfolding hpack_rep_def by (metis length_map length_upt)

lemma laid_nth:
  "laid pool m P l ps \<Longrightarrow> i < length l \<Longrightarrow> \<exists>a. ps ! i < length pool \<and>
     name_len (pool ! (ps ! i)) = length (fst (l ! i)) \<and> value_len (pool ! (ps ! i)) = length (snd (l ! i)) \<and>
     stands_for (name_data (pool ! (ps ! i))) a \<and> stands_for (value_data (pool ! (ps ! i))) (a + length (fst (l ! i))) \<and>
     circ m a (length (fst (l ! i))) = fst (l ! i) \<and> circ m (a + length (fst (l ! i))) (length (snd (l ! i))) = snd (l ! i)"
proof (induction pool m P l ps arbitrary: i rule: laid.induct)
  case (3 pool m P f l p ps)
  show ?case
  proof (cases i)
    case 0
    have "P - length (snd f) = P - length (snd f) - length (fst f) + length (fst f)" using 3(2) by simp
    then show ?thesis using 3(2) 0 by (intro exI [of _ "P - length (snd f) - length (fst f)"]) (auto simp del: Nat.diff_diff_left)
  next
    case (Suc j)
    then show ?thesis using 3(1) [of j] 3(2,3) by simp
  qed
qed auto

text \<open>Evicting the oldest entry.\<close>

lemma laid_butlast: "laid pool m P l ps \<Longrightarrow> l \<noteq> [] \<Longrightarrow> laid pool m P (butlast l) (butlast ps)"
proof (induction pool m P l ps rule: laid.induct)
  case (3 pool m P f l p ps)
  show ?case
  proof (cases "l = []")
    case True
    then have "ps = []" using 3(2) laid_length by fastforce
    then show ?thesis using True by simp
  next
    case False
    then have "ps \<noteq> []" using 3(2) laid_length by fastforce
    then show ?thesis using 3(1) 3(2) False by simp
  qed
qed auto

lemma hpack_evict:
  assumes ok: "hpack_ok st l" and ne: "l \<noteq> []"
  shows "\<exists>st'. evict st = Some st' \<and> hpack_ok st' (butlast l) \<and> hp_size st' = hp_size st \<and>
    hp_free st' = hp_free st + int (field_size (last l))"
proof -
  obtain es m ps P where r: "hpack_rep st es m ps P l" and fr: "hp_free st = hp_size st - int (table_sum l)" "0 \<le> hp_free st"
    "hp_size st \<le> int N_tab"
    using ok by (auto simp: hpack_ok_def)
  then have h: "hp_entries st = Some es" "hp_storage st = Some m" "length m = N_tab" "length es = hp_allocated st"
    "0 < hp_allocated st" "hp_reused st \<le> hp_deleted st" "hp_deleted st \<le> hp_added st" "hp_added st - hp_reused st \<le> hp_allocated st"
    "map (\<lambda>i. es ! (i mod hp_allocated st)) [hp_reused st..<hp_added st] = map Some ps" "distinct ps"
    "set ps \<subseteq> {..<length (hp_pool st)}" "stands_for (hp_pos st) P"
    "laid (hp_pool st) m P l (rev (drop (hp_deleted st - hp_reused st) ps))"
    by (auto simp: hpack_rep_def)
  let ?d = "hp_deleted st - hp_reused st"
  have lps: "length ps = hp_added st - hp_reused st" by (rule hpack_rep_length [OF r])
  have ll: "length l = length ps - ?d" using laid_length [OF h(13)] by simp
  then have d: "?d < length ps" using ne by (cases l) auto
  have "es ! ((hp_reused st + ?d) mod hp_allocated st) = Some (ps ! ?d)"
    using arg_cong [OF h(9), of "\<lambda>xs. xs ! ?d"] d lps by simp
  then have ptr: "entry_ptr st (hp_deleted st) = Some (ps ! ?d)"
    using h(1,4,5,6) by (simp add: entry_ptr_def nth_opt_def)
  have dr: "drop ?d ps = ps ! ?d # drop (Suc ?d) ps" using d by (simp add: Cons_nth_drop_Suc)
  have last: "rev (drop ?d ps) ! (length l - 1) = ps ! ?d" using dr ll ne by (simp add: rev_nth nth_append)
  have li: "length l - 1 < length l" "l ! (length l - 1) = last l" using ne by (simp_all add: last_conv_nth)
  have e: "ps ! ?d < length (hp_pool st)" "name_len (hp_pool st ! (ps ! ?d)) = length (fst (last l))"
    "value_len (hp_pool st ! (ps ! ?d)) = length (snd (last l))"
    using laid_nth [OF h(13) li(1)] last li(2) by auto
  let ?st = "st\<lparr>hp_deleted := hp_deleted st + 1, hp_free := hp_free st + int (field_size (last l))\<rparr>"
  have sum: "table_sum l = table_sum (butlast l) + field_size (last l)"
    using append_butlast_last_id [OF ne] by (metis table_sum_def map_append sum_list_append list.simps(8,9) sum_list.Cons sum_list.Nil add_0_right)
  have "evict st = Some ?st" using ptr e by (simp add: evict_def nth_opt_def field_size_def add_ac)
  moreover have "rev (drop (hp_deleted st + 1 - hp_reused st) ps) = butlast (rev (drop ?d ps))"
    using dr h(6) by (simp add: Suc_diff_le)
  then have "hpack_rep ?st es m ps P (butlast l)"
    using h laid_butlast [OF h(13) ne] d lps by (simp add: hpack_rep_def)
  then have "hpack_ok ?st (butlast l)" using fr sum by (auto simp: hpack_ok_def)
  ultimately show ?thesis by auto
qed


lemma keep_all: "int (table_sum l) \<le> lim \<Longrightarrow> keep lim l = l"
  by (induction lim l rule: keep.induct) (auto simp: table_sum_def)

lemma keep_butlast: "int (table_sum l) > lim \<Longrightarrow> l \<noteq> [] \<Longrightarrow> keep lim l = keep lim (butlast l)"
proof (induction lim l rule: keep.induct)
  case (2 lim f l)
  then show ?case by (cases "l = []") (auto simp: table_sum_def)
qed simp

lemma keep_sum: "0 \<le> lim \<Longrightarrow> int (table_sum (keep lim l)) \<le> lim"
  by (induction lim l rule: keep.induct) (auto simp: table_sum_def)

lemma evict_loop_ok:
  assumes "hpack_ok st l" "needed \<le> hp_size st"
  shows "\<exists>st'. evict_loop needed st = Some st' \<and> hpack_ok st' (keep (hp_size st - needed) l) \<and> hp_size st' = hp_size st"
  using assms
proof (induction "length l" arbitrary: st l rule: less_induct)
  case less
  have fr: "hp_free st = hp_size st - int (table_sum l)" using less.prems(1) by (simp add: hpack_ok_def)
  show ?case
  proof (cases "needed > hp_free st")
    case True
    then have ne: "l \<noteq> []" using fr less.prems(2) by (auto simp: table_sum_def)
    obtain st1 where s1: "evict st = Some st1" "hpack_ok st1 (butlast l)" "hp_size st1 = hp_size st"
      using hpack_evict [OF less.prems(1) ne] by blast
    have "length (butlast l) < length l" using ne by simp
    then obtain st' where s': "evict_loop needed st1 = Some st'" "hpack_ok st' (keep (hp_size st1 - needed) (butlast l))" "hp_size st' = hp_size st1"
      using less.hyps [OF _ s1(2)] less.prems(2) s1(3) by auto
    moreover have "evict_loop needed st = evict_loop needed st1" using True s1(1) by (subst evict_loop.simps) simp
    moreover have "keep (hp_size st - needed) l = keep (hp_size st - needed) (butlast l)" using True fr ne by (intro keep_butlast) simp_all
    ultimately show ?thesis using s1(3) by auto
  next
    case False
    then have "keep (hp_size st - needed) l = l" using fr by (intro keep_all) simp
    then show ?thesis using False less.prems(1) by (subst evict_loop.simps) simp
  qed
qed

lemma table_size_ok:
  assumes "hpack_ok st l" "n \<le> N_tab"
  shows "\<exists>st'. ngx_http_v2_table_size n st = Some (NGX_OK, st') \<and> hpack_ok st' (keep (int n) l) \<and> hp_size st' = int n"
proof -
  obtain st1 where s1: "evict_loop (hp_size st - int n) st = Some st1" "hpack_ok st1 (keep (int n) l)" "hp_size st1 = hp_size st"
    using evict_loop_ok [OF assms(1), of "hp_size st - int n"] by auto
  then show ?thesis using assms(2) keep_sum [of "int n" l]
    by (auto simp: ngx_http_v2_table_size_def hpack_ok_def hpack_rep_def Let_def)
qed

lemma account_ok:
  assumes ok: "hpack_ok st l" and fs: "int (field_size f) = s + 32"
  shows "int (field_size f) > hp_size st \<Longrightarrow>
      \<exists>st'. ngx_http_v2_table_account s st = Some (NGX_DECLINED, st') \<and> hpack_ok st' [] \<and> hp_size st' = hp_size st"
    "int (field_size f) \<le> hp_size st \<Longrightarrow>
      \<exists>st1. ngx_http_v2_table_account s st = Some (NGX_OK, st1\<lparr>hp_free := hp_free st1 - int (field_size f)\<rparr>) \<and>
        hpack_ok st1 (keep (hp_size st - int (field_size f)) l) \<and> hp_size st1 = hp_size st"
proof -
  have fr: "hp_free st = hp_size st - int (table_sum l)" "0 \<le> hp_free st" using ok by (simp_all add: hpack_ok_def)
  show "\<exists>st'. ngx_http_v2_table_account s st = Some (NGX_DECLINED, st') \<and> hpack_ok st' [] \<and> hp_size st' = hp_size st"
    if "int (field_size f) > hp_size st"
  proof -
    obtain es m ps P where r: "hpack_rep st es m ps P l" using ok by (auto simp: hpack_ok_def)
    let ?st = "st\<lparr>hp_deleted := hp_added st, hp_free := hp_size st\<rparr>"
    have "length ps = hp_added st - hp_reused st" by (rule hpack_rep_length [OF r])
    then have "hpack_rep ?st es m ps P []" using r by (simp add: hpack_rep_def)
    then have "hpack_ok ?st []" using ok fr by (auto simp: hpack_ok_def table_sum_def)
    then show ?thesis using that fs fr by (auto simp: ngx_http_v2_table_account_def Let_def)
  qed
  show "\<exists>st1. ngx_http_v2_table_account s st = Some (NGX_OK, st1\<lparr>hp_free := hp_free st1 - int (field_size f)\<rparr>) \<and>
        hpack_ok st1 (keep (hp_size st - int (field_size f)) l) \<and> hp_size st1 = hp_size st"
    if small: "int (field_size f) \<le> hp_size st"
  proof -
    obtain st1 where s1: "evict_loop (int (field_size f)) st = Some st1" "hpack_ok st1 (keep (hp_size st - int (field_size f)) l)"
      "hp_size st1 = hp_size st"
      using evict_loop_ok [OF ok small] by blast
    have "ngx_http_v2_table_account s st = do { st \<leftarrow> evict_loop (int (field_size f)) st; Some (NGX_OK, st\<lparr>hp_free := hp_free st - int (field_size f)\<rparr>) }"
      using small fs by (subst evict_loop.simps) (simp add: ngx_http_v2_table_account_def Let_def)
    then show ?thesis using s1 by auto
  qed
qed

section \<open>Adding an entry\<close>

definition data_len :: "header_field list \<Rightarrow> nat" where
  "data_len l = sum_list (map (\<lambda>f. length (fst f) + length (snd f)) l)"

lemma data_len_simps [simp]: "data_len [] = 0" "data_len (f # l) = length (fst f) + length (snd f) + data_len l"
  by (simp_all add: data_len_def)

lemma table_sum_data: "table_sum l = 32 * length l + data_len l"
  by (induction l) (simp_all add: table_sum_def field_size_def)

lemma laid_data_len: "laid pool m P l ps \<Longrightarrow> data_len l \<le> P"
  by (induction pool m P l ps rule: laid.induct) auto

lemma laid_mem:
  assumes "laid pool m P l ps" "\<And>i. P \<le> i + data_len l \<Longrightarrow> i < P \<Longrightarrow> m' ! (i mod N_tab) = m ! (i mod N_tab)"
  shows "laid pool m' P l ps"
  using assms
proof (induction pool m P l ps rule: laid.induct)
  case (3 pool m P f l p ps)
  let ?v = "length (snd f)" and ?n = "length (fst f)"
  have le: "?n + ?v \<le> P" "data_len l \<le> P - ?v - ?n" using 3(2) laid_data_len by auto
  have "circ m' (P - ?v - ?n) ?n = circ m (P - ?v - ?n) ?n" "circ m' (P - ?v) ?v = circ m (P - ?v) ?v"
    using 3(3) le by (intro circ_cong; simp)+
  moreover have "laid pool m' (P - ?v - ?n) l ps" using 3(1) 3(2,3) le by simp
  ultimately show ?case using 3(2) by simp
qed auto

lemma laid_pool: "laid pool m P l ps \<Longrightarrow> p \<notin> set ps \<Longrightarrow> laid (pool[p := e]) m P l ps"
  by (induction pool m P l ps rule: laid.induct) auto

lemma laid_pool_append: "laid pool m P l ps \<Longrightarrow> laid (pool @ [e]) m P l ps"
  by (induction pool m P l ps rule: laid.induct) (auto simp: nth_append)

text \<open>The bytes of a new entry miss those of the entries that are kept.\<close>

lemma ring_apart:
  assumes "P \<le> i + d" "i < P" "j < n" "d + n \<le> N_tab"
  shows "i mod N_tab \<noteq> (P + j) mod N_tab"
proof
  assume e: "i mod N_tab = (P + j) mod N_tab"
  have lt: "i < P + j" "P + j - i < N_tab" using assms by linarith+
  have "N_tab dvd P + j - i" using e lt(1) by (metis less_imp_le mod_eq_dvd_iff_nat)
  then show False using lt by (simp add: dvd_imp_le nat_dvd_not_less)
qed

lemma ring_put_keeps:
  assumes put: "ring_put m P bs m'" and d: "d + length bs \<le> N_tab" and i: "P \<le> i + d" "i < P"
  shows "m' ! (i mod N_tab) = m ! (i mod N_tab)"
proof -
  have "i mod N_tab < N_tab" by simp
  moreover have "\<forall>j < length bs. i mod N_tab \<noteq> (P + j) mod N_tab" using ring_apart [OF i _ d] by blast
  ultimately show ?thesis using put unfolding ring_put_def by blast
qed

lemma hpack_put_ok:
  assumes m: "hp_storage st = Some m" "length m = N_tab" and pos: "stands_for (hp_pos st) a"
    and avail: "avail = N_tab - hp_pos st \<or> length bs \<le> avail \<and> hp_pos st + length bs \<le> N_tab" "length bs \<le> N_tab"
  shows "\<exists>m' pos'. hpack_put avail bs st = Some (st\<lparr>hp_storage := Some m', hp_pos := pos'\<rparr>) \<and>
    ring_put m a bs m' \<and> stands_for pos' (a + length bs) \<and>
    pos' = (if length bs \<le> avail then hp_pos st + length bs else length bs - avail)"
proof (cases "length bs \<le> avail")
  case True
  then have "hp_pos st + length bs \<le> N_tab" using avail(1) pos by (auto simp: stands_for_def)
  then show ?thesis using hpack_put_straight [OF m pos True] True by auto
next
  case False
  then have "avail = N_tab - hp_pos st" "avail < length bs" using avail(1) by auto
  then show ?thesis using hpack_put_wrapped [OF m pos _ _ avail(2)] False by auto
qed

lemma hpack_write_ok:
  assumes r: "hpack_rep st es m ps P l" and fits: "table_sum l + field_size f \<le> N_tab"
  shows "\<exists>e m' pos'. hpack_write f st = Some (e, st\<lparr>hp_storage := Some m', hp_pos := pos'\<rparr>) \<and>
    length m' = N_tab \<and> stands_for pos' (P + length (fst f) + length (snd f)) \<and>
    name_len e = length (fst f) \<and> value_len e = length (snd f) \<and> stands_for (name_data e) P \<and>
    stands_for (value_data e) (P + length (fst f)) \<and> circ m' P (length (fst f)) = fst f \<and>
    circ m' (P + length (fst f)) (length (snd f)) = snd f \<and>
    laid (hp_pool st) m' P l (rev (drop (hp_deleted st - hp_reused st) ps))"
proof -
  let ?n = "fst f" and ?v = "snd f" and ?a = "N_tab - hp_pos st"
  have h: "hp_storage st = Some m" "length m = N_tab" "stands_for (hp_pos st) P"
    "laid (hp_pool st) m P l (rev (drop (hp_deleted st - hp_reused st) ps))" using r by (auto simp: hpack_rep_def)
  have fl: "data_len l + length ?n + length ?v + 32 \<le> N_tab" using fits by (simp add: table_sum_data field_size_def)
  have pos: "hp_pos st \<le> N_tab" using h(3) by (simp add: stands_for_def)
  obtain m1 pos1 where w1: "hpack_put ?a ?n st = Some (st\<lparr>hp_storage := Some m1, hp_pos := pos1\<rparr>)" "ring_put m P ?n m1"
    "stands_for pos1 (P + length ?n)" "pos1 = (if length ?n \<le> ?a then hp_pos st + length ?n else length ?n - ?a)"
    using hpack_put_ok [OF h(1,2,3), of ?a ?n] fl by auto
  let ?st1 = "st\<lparr>hp_storage := Some m1, hp_pos := pos1\<rparr>"
  let ?a1 = "(if length ?n \<le> ?a then ?a else N_tab) - length ?n"
  have l1: "length m1 = N_tab" using w1(2) by (simp add: ring_put_def)
  have av: "?a1 = N_tab - hp_pos ?st1 \<or> length ?v \<le> ?a1 \<and> hp_pos ?st1 + length ?v \<le> N_tab"
    using w1(4) fl pos by (cases "length ?n \<le> ?a") auto
  have "length ?v \<le> N_tab" using fl by simp
  then obtain m2 pos2 where w2: "hpack_put ?a1 ?v ?st1 = Some (?st1\<lparr>hp_storage := Some m2, hp_pos := pos2\<rparr>)"
    "ring_put m1 (P + length ?n) ?v m2" "stands_for pos2 (P + length ?n + length ?v)"
    using hpack_put_ok [of ?st1 m1 "P + length ?n" ?a1 ?v] l1 w1(3) av by auto
  have k1: "m1 ! (i mod N_tab) = m ! (i mod N_tab)" if "P \<le> i + data_len l" "i < P" for i
    using ring_put_keeps [OF w1(2) _ that] fl by simp
  have k2: "m2 ! (i mod N_tab) = m1 ! (i mod N_tab)" if "P + length ?n \<le> i + (data_len l + length ?n)" "i < P + length ?n" for i
    using ring_put_keeps [OF w2(2) _ that] fl by simp
  have "circ m2 P (length ?n) = circ m1 P (length ?n)" using k2 by (intro circ_cong) simp
  then have "circ m2 P (length ?n) = ?n" using w1(2) by (simp add: ring_put_def)
  moreover have "laid (hp_pool st) m2 P l (rev (drop (hp_deleted st - hp_reused st) ps))"
    using laid_mem [OF h(4)] k1 k2 by simp
  moreover have "length m2 = N_tab" "circ m2 (P + length ?n) (length ?v) = ?v" using w2(2) by (simp_all add: ring_put_def)
  ultimately show ?thesis using w1(1,3) w2(1,3) h(3) by (simp add: hpack_write_def Let_def) blast
qed

end
