(* ===== verification/Http_V2_Table_Props.thy ===== *)
theory Http_V2_Table_Props
  imports Http_V2_Table_Ring
begin

text \<open>
  The dynamic table refines a list of header fields: insertion, change of the size, lookup, and sequences of them.
\<close>

lemma hpack_entry_ok:
  assumes r: "hpack_rep st es m ps P l" and a: "palloc 2"
  shows "\<exists>p st' ps'. hpack_entry palloc st = Some (Some p, st') \<and> hpack_rep st' es m ps' P l \<and> p \<notin> set ps' \<and>
    p < length (hp_pool st') \<and> hp_free st' = hp_free st \<and> hp_size st' = hp_size st \<and>
    (hp_added st' - hp_reused st' < hp_allocated st' \<or> hp_allocated st' = hp_added st' - hp_deleted st')"
proof -
  have h: "hp_entries st = Some es" "length es = hp_allocated st" "0 < hp_allocated st" "hp_reused st \<le> hp_deleted st"
    "hp_deleted st \<le> hp_added st" "hp_added st - hp_reused st \<le> hp_allocated st"
    "map (\<lambda>i. es ! (i mod hp_allocated st)) [hp_reused st..<hp_added st] = map Some ps" "distinct ps"
    "set ps \<subseteq> {..<length (hp_pool st)}" "laid (hp_pool st) m P l (rev (drop (hp_deleted st - hp_reused st) ps))"
    using r by (auto simp: hpack_rep_def)
  show ?thesis
  proof (cases "hp_reused st = hp_deleted st")
    case True
    let ?st = "st\<lparr>hp_pool := hp_pool st @ [\<lparr>name_len = 0, name_data = 0, value_len = 0, value_data = 0\<rparr>]\<rparr>"
    have "hpack_rep ?st es m ps P l" using r laid_pool_append [OF h(10)] by (auto simp: hpack_rep_def)
    moreover have "length (hp_pool st) \<notin> set ps" using h(9) by auto
    ultimately show ?thesis using True a h(6) by (intro exI [of _ "length (hp_pool st)"] exI [of _ ?st] exI [of _ ps])
        (auto simp: hpack_entry_def)
  next
    case False
    then have lt: "hp_reused st < hp_added st" using h(4,5) by simp
    then obtain p ps' where ps: "ps = p # ps'" using hpack_rep_length [OF r] by (cases ps) auto
    have slot: "es ! (hp_reused st mod hp_allocated st) = Some p"
      "map (\<lambda>i. es ! (i mod hp_allocated st)) [Suc (hp_reused st)..<hp_added st] = map Some ps'"
      using h(7) lt ps by (simp_all add: upt_conv_Cons)
    let ?st = "st\<lparr>hp_reused := hp_reused st + 1\<rparr>"
    have "hp_deleted st - hp_reused st = Suc (hp_deleted st - Suc (hp_reused st))" using False h(4) by simp
    then have "drop (hp_deleted st - hp_reused st) ps = drop (hp_deleted st - Suc (hp_reused st)) ps'" using ps by simp
    then have "hpack_rep ?st es m ps' P l" using r slot(2) False ps by (auto simp: hpack_rep_def)
    then show ?thesis using False slot(1) h(1-3,6,8,9) lt ps
      by (intro exI [of _ p] exI [of _ ?st] exI [of _ ps']) (auto simp: hpack_entry_def entry_ptr_def nth_opt_def)
  qed
qed

text \<open>The array of pointers is not full, or it is made larger.\<close>

lemma hpack_append_ok:
  assumes es: "hp_entries st = Some es" "length es = hp_allocated st" "0 < hp_allocated st" "hp_reused st \<le> hp_added st"
    and room: "hp_added st - hp_reused st < hp_allocated st"
    and slots: "map (\<lambda>i. es ! (i mod hp_allocated st)) [hp_reused st..<hp_added st] = map Some ps"
  shows "\<exists>es'. hpack_append p st = Some (st\<lparr>hp_entries := Some es', hp_added := hp_added st + 1\<rparr>) \<and> length es' = hp_allocated st \<and>
    map (\<lambda>i. es' ! (i mod hp_allocated st)) [hp_reused st..<hp_added st + 1] = map Some (ps @ [p])"
proof -
  let ?i = "hp_added st mod hp_allocated st"
  have other: "i mod hp_allocated st \<noteq> ?i" if "hp_reused st \<le> i" "i < hp_added st" for i
  proof
    assume e: "i mod hp_allocated st = ?i"
    have "hp_allocated st dvd hp_added st - i" using e that(2) by (metis less_imp_le mod_eq_dvd_iff_nat)
    moreover have "0 < hp_added st - i" "hp_added st - i < hp_allocated st" using that room by linarith+
    ultimately show False by (simp add: nat_dvd_not_less)
  qed
  have i: "?i < length es" using es(2,3) by simp
  have "es[?i := Some p] ! (x mod hp_allocated st) = es ! (x mod hp_allocated st)" if "x \<in> set [hp_reused st..<hp_added st]" for x
    by (rule nth_list_update_neq) (use other [of x] that in \<open>simp add: eq_commute\<close>)
  then have "map (\<lambda>i. es[?i := Some p] ! (i mod hp_allocated st)) [hp_reused st..<hp_added st] = map Some ps"
    unfolding slots [symmetric] by (intro map_cong refl)
  then have "map (\<lambda>i. es[?i := Some p] ! (i mod hp_allocated st)) [hp_reused st..<hp_added st + 1] = map Some (ps @ [p])"
    using es(4) i by simp
  then show ?thesis using es(1,2) i by (intro exI [of _ "es[?i := Some p]"]) (simp add: hpack_append_def Let_def)
qed

lemma hpack_grow_ok:
  assumes es: "hp_entries st = Some es" "length es = hp_allocated st" "0 < hp_allocated st"
    and full: "hp_allocated st = hp_added st - hp_deleted st" "hp_reused st = hp_deleted st"
    and slots: "map (\<lambda>i. es ! (i mod hp_allocated st)) [hp_reused st..<hp_added st] = map Some ps"
  shows "\<exists>es'. hpack_grow st = Some (st\<lparr>hp_entries := Some es', hp_added := hp_allocated st, hp_deleted := 0, hp_reused := 0,
      hp_allocated := hp_allocated st + 64\<rparr>) \<and> length es' = hp_allocated st + 64 \<and>
    map (\<lambda>i. es' ! (i mod (hp_allocated st + 64))) [0..<hp_allocated st] = map Some ps"
proof -
  let ?d = "hp_deleted st" and ?N = "hp_allocated st"
  let ?es = "drop (?d mod ?N) es @ take (?d mod ?N) es @ replicate 64 None"
  have len: "length ps = ?N" using arg_cong [OF slots, of length] full by simp
  have "?es ! (i mod (?N + 64)) = Some (ps ! i)" if i: "i < ?N" for i
  proof -
    have "[?d..<hp_added st] ! i = ?d + i" using i full(1) by (intro nth_upt) linarith
    then have s: "es ! ((?d + i) mod ?N) = Some (ps ! i)"
      using arg_cong [OF slots, of "\<lambda>xs. xs ! i"] i len full by simp
    have lt: "?d mod ?N < ?N" using es(3) by simp
    have r: "(?d + i) mod ?N = (?d mod ?N + i) mod ?N" by (simp add: mod_add_left_eq)
    show ?thesis
    proof (cases "?d mod ?N + i < ?N")
      case True
      then show ?thesis using s r es(2) i lt by (simp add: nth_append)
    next
      case False
      have "?d mod ?N + i - ?N < ?N" using i lt by linarith
      then have "(?d mod ?N + i) mod ?N = ?d mod ?N + i - ?N" using False by (metis le_mod_geq mod_less not_less)
      moreover define j where "j = ?d mod ?N + i - ?N"
      then have j: "i = length (drop (?d mod ?N) es) + j" "j < ?d mod ?N" using False i lt es(2) by simp_all
      have "?es ! i = es ! j" unfolding j(1) nth_append_length_plus using j(2) es(2) lt by (simp add: nth_append)
      ultimately show ?thesis using s r i j_def by simp
    qed
  qed
  then have "map (\<lambda>i. ?es ! (i mod (?N + 64))) [0..<?N] = map Some ps" using len by (intro nth_equalityI) auto
  moreover have "length ?es = ?N + 64" using es(2) by simp
  ultimately show ?thesis using es(1) by (intro exI [of _ ?es]) (simp add: hpack_grow_def Let_def)
qed

lemma hpack_rep_add:
  assumes r: "hpack_rep st es m ps P l" and p: "p \<notin> set ps" "p < length (hp_pool st)"
    and room: "hp_added st - hp_reused st < hp_allocated st \<or> hp_allocated st = hp_added st - hp_deleted st"
    and fits: "table_sum l + field_size f \<le> N_tab" and a: "\<forall>i. palloc i"
  shows "\<exists>st' es' m' ps' P'. do {
      (entry, st) \<leftarrow> hpack_write f st;
      let st = st\<lparr>hp_pool := (hp_pool st)[p := entry]\<rparr>;
      if hp_allocated st = hp_added st - hp_deleted st then
        if \<not> palloc 3 then Some (NGX_ERROR, st)
        else do { st \<leftarrow> hpack_grow st; st \<leftarrow> hpack_append p st; Some (NGX_OK, st) }
      else do { st \<leftarrow> hpack_append p st; Some (NGX_OK, st) }
    } = Some (NGX_OK, st') \<and> hpack_rep st' es' m' ps' P' (f # l) \<and> hp_free st' = hp_free st \<and> hp_size st' = hp_size st"
proof -
  let ?n = "length (fst f)" and ?v = "length (snd f)"
  obtain e m' pos' where w: "hpack_write f st = Some (e, st\<lparr>hp_storage := Some m', hp_pos := pos'\<rparr>)" "length m' = N_tab"
    "stands_for pos' (P + ?n + ?v)" "name_len e = ?n" "value_len e = ?v" "stands_for (name_data e) P"
    "stands_for (value_data e) (P + ?n)" "circ m' P ?n = fst f" "circ m' (P + ?n) ?v = snd f"
    "laid (hp_pool st) m' P l (rev (drop (hp_deleted st - hp_reused st) ps))"
    using hpack_write_ok [OF r fits] by blast
  have h: "hp_entries st = Some es" "length es = hp_allocated st" "0 < hp_allocated st" "hp_reused st \<le> hp_deleted st"
    "hp_deleted st \<le> hp_added st" "hp_added st - hp_reused st \<le> hp_allocated st"
    "map (\<lambda>i. es ! (i mod hp_allocated st)) [hp_reused st..<hp_added st] = map Some ps" "distinct ps"
    "set ps \<subseteq> {..<length (hp_pool st)}" using r by (auto simp: hpack_rep_def)
  let ?pool = "(hp_pool st)[p := e]" and ?P = "P + ?n + ?v"
  let ?st = "st\<lparr>hp_storage := Some m', hp_pos := pos', hp_pool := ?pool\<rparr>"
  have lps: "length ps = hp_added st - hp_reused st" by (rule hpack_rep_length [OF r])
  have "p \<notin> set (rev (drop (hp_deleted st - hp_reused st) ps))" using p(1) set_drop_subset by fastforce
  then have "laid ?pool m' P l (rev (drop (hp_deleted st - hp_reused st) ps))" by (rule laid_pool [OF w(10)])
  then have laid: "laid ?pool m' ?P (f # l) (p # rev (drop (hp_deleted st - hp_reused st) ps))" using w p(2) by simp
  have ps': "distinct (ps @ [p])" "set (ps @ [p]) \<subseteq> {..<length ?pool}" using h(8,9) p by auto
  show ?thesis
  proof (cases "hp_allocated st = hp_added st - hp_deleted st")
    case True
    then have re: "hp_reused st = hp_deleted st" using h(3-6) by linarith
    obtain es1 where g: "hpack_grow ?st = Some (?st\<lparr>hp_entries := Some es1, hp_added := hp_allocated st, hp_deleted := 0, hp_reused := 0,
        hp_allocated := hp_allocated st + 64\<rparr>)" "length es1 = hp_allocated st + 64"
      "map (\<lambda>i. es1 ! (i mod (hp_allocated st + 64))) [0..<hp_allocated st] = map Some ps"
      using hpack_grow_ok [of ?st es ps] h(1-3,7) True re by auto
    let ?st1 = "?st\<lparr>hp_entries := Some es1, hp_added := hp_allocated st, hp_deleted := 0, hp_reused := 0, hp_allocated := hp_allocated st + 64\<rparr>"
    obtain es2 where ap: "hpack_append p ?st1 = Some (?st1\<lparr>hp_entries := Some es2, hp_added := hp_added ?st1 + 1\<rparr>)"
      "length es2 = hp_allocated ?st1"
      "map (\<lambda>i. es2 ! (i mod hp_allocated ?st1)) [hp_reused ?st1..<hp_added ?st1 + 1] = map Some (ps @ [p])"
      using hpack_append_ok [of ?st1 es1 ps p] g(2,3) by auto
    have "hpack_rep (?st1\<lparr>hp_entries := Some es2, hp_added := hp_added ?st1 + 1\<rparr>) es2 m' (ps @ [p]) ?P (f # l)"
      using ap(2,3) w(2,3) ps' laid re by (simp add: hpack_rep_def)
    then show ?thesis using w(1) True a g(1) ap(1) by (simp add: Let_def) blast
  next
    case False
    then have rm: "hp_added st - hp_reused st < hp_allocated st" using room by blast
    obtain es2 where ap: "hpack_append p ?st = Some (?st\<lparr>hp_entries := Some es2, hp_added := hp_added ?st + 1\<rparr>)"
      "length es2 = hp_allocated ?st"
      "map (\<lambda>i. es2 ! (i mod hp_allocated ?st)) [hp_reused ?st..<hp_added ?st + 1] = map Some (ps @ [p])"
      using hpack_append_ok [of ?st es ps p] h(1-5,7) rm by auto
    have "drop (hp_deleted st - hp_reused st) (ps @ [p]) = drop (hp_deleted st - hp_reused st) ps @ [p]"
      using lps h(4,5) by simp
    then have "hpack_rep (?st\<lparr>hp_entries := Some es2, hp_added := hp_added ?st + 1\<rparr>) es2 m' (ps @ [p]) ?P (f # l)"
      using ap(2,3) w(2,3) ps' laid h(3-5) rm by (simp add: hpack_rep_def)
    then show ?thesis using w(1) False ap(1) by (simp add: Let_def) blast
  qed
qed

lemma add_header_ok:
  assumes ok: "hpack_ok st l" and a: "\<forall>i. palloc i"
  shows "\<exists>st'. ngx_http_v2_add_header palloc f st = Some (NGX_OK, st') \<and> hpack_ok st' (snd (spec_add f (hp_size st, l))) \<and>
    hp_size st' = hp_size st"
proof -
  obtain es m ps P where "hpack_rep st es m ps P l" using ok by (auto simp: hpack_ok_def)
  then have init: "hpack_init palloc st = (NGX_OK, st)" by (simp add: hpack_init_def hpack_rep_def)
  have fs: "int (field_size f) = int (length (fst f) + length (snd f)) + 32" by (simp add: field_size_def)
  show ?thesis
  proof (cases "int (field_size f) > hp_size st")
    case True
    then show ?thesis using account_ok(1) [OF ok fs True] init by (auto simp: ngx_http_v2_add_header_def spec_add_def)
  next
    case False
    let ?l = "keep (hp_size st - int (field_size f)) l"
    obtain st1 where s1: "ngx_http_v2_table_account (int (length (fst f) + length (snd f))) st =
        Some (NGX_OK, st1\<lparr>hp_free := hp_free st1 - int (field_size f)\<rparr>)" "hpack_ok st1 ?l" "hp_size st1 = hp_size st"
      using account_ok(2) [OF ok fs] False by auto
    let ?st1 = "st1\<lparr>hp_free := hp_free st1 - int (field_size f)\<rparr>"
    obtain es m ps P where "hpack_rep st1 es m ps P ?l" using s1(2) by (auto simp: hpack_ok_def)
    then have "hpack_rep ?st1 es m ps P ?l" by (simp add: hpack_rep_def)
    then obtain p st2 ps2 where e: "hpack_entry palloc ?st1 = Some (Some p, st2)" "hpack_rep st2 es m ps2 P ?l" "p \<notin> set ps2"
      "p < length (hp_pool st2)" "hp_free st2 = hp_free ?st1" "hp_size st2 = hp_size ?st1"
      "hp_added st2 - hp_reused st2 < hp_allocated st2 \<or> hp_allocated st2 = hp_added st2 - hp_deleted st2"
      using hpack_entry_ok [of ?st1 es m ps P ?l palloc] a by blast
    have sum: "int (table_sum ?l) \<le> hp_size st - int (field_size f)" using False by (intro keep_sum) simp
    have lim: "hp_size st \<le> int N_tab" using ok by (simp add: hpack_ok_def)
    then have "table_sum ?l + field_size f \<le> N_tab" using sum by linarith
    from hpack_rep_add [OF e(2-4,7) this a] obtain st' es' m' ps' P' where s': "do {
        (entry, st) \<leftarrow> hpack_write f st2;
        let st = st\<lparr>hp_pool := (hp_pool st)[p := entry]\<rparr>;
        if hp_allocated st = hp_added st - hp_deleted st then
          if \<not> palloc 3 then Some (NGX_ERROR, st)
          else do { st \<leftarrow> hpack_grow st; st \<leftarrow> hpack_append p st; Some (NGX_OK, st) }
        else do { st \<leftarrow> hpack_append p st; Some (NGX_OK, st) }
      } = Some (NGX_OK, st')" "hpack_rep st' es' m' ps' P' (f # ?l)" "hp_free st' = hp_free st2" "hp_size st' = hp_size st2"
      by blast
    have "hpack_ok st' (f # ?l)"
      using s'(2-4) e(5,6) s1(2,3) sum lim by (auto simp: hpack_ok_def table_sum_def)
    moreover have "ngx_http_v2_add_header palloc f st = Some (NGX_OK, st')"
      unfolding ngx_http_v2_add_header_def init using s1(1) e(1) s'(1) by simp
    ultimately show ?thesis using False s'(4) e(6) s1(3) by (auto simp: spec_add_def)
  qed
qed

lemma first_add:
  assumes a: "\<forall>i. palloc i"
  shows "\<exists>st. hpack_ok st [] \<and> hp_size st = int N_tab \<and> ngx_http_v2_add_header palloc f hpack_zero = ngx_http_v2_add_header palloc f st"
proof -
  let ?st = "hpack_zero\<lparr>hp_allocated := 64, hp_size := int N_tab, hp_free := int N_tab, hp_entries := Some (replicate 64 None),
    hp_storage := Some (replicate N_tab 0), hp_pos := 0\<rparr>"
  have "hpack_init palloc hpack_zero = (NGX_OK, ?st)" using a by (simp add: hpack_init_def hpack_zero_def Let_def)
  moreover have "hpack_init palloc ?st = (NGX_OK, ?st)" by (simp add: hpack_init_def)
  ultimately have "ngx_http_v2_add_header palloc f hpack_zero = ngx_http_v2_add_header palloc f ?st"
    by (simp add: ngx_http_v2_add_header_def)
  moreover have "hpack_rep ?st (replicate 64 None) (replicate N_tab 0) [] 0 []"
    by (simp add: hpack_rep_def hpack_zero_def stands_for_def)
  then have "hpack_ok ?st []" unfolding hpack_ok_def by (auto simp: table_sum_def)
  ultimately show ?thesis by (intro exI [of _ ?st]) simp
qed

section \<open>Lookup\<close>

definition spec_lookup :: "nat \<Rightarrow> bool \<Rightarrow> header_field list \<Rightarrow> ngx_rc \<times> u_char list option \<times> u_char list option" where
  "spec_lookup index name_only l =
    (if 1 \<le> index \<and> index \<le> 61 then
       (NGX_OK, Some (fst (ngx_http_v2_static_table ! (index - 1))), Some (snd (ngx_http_v2_static_table ! (index - 1))))
     else if 62 \<le> index \<and> index - 62 < length l then
       (NGX_OK, Some (fst (l ! (index - 62))), if name_only then None else Some (snd (l ! (index - 62))))
     else (NGX_ERROR, None, None))"

lemma static_entries: "NGX_HTTP_V2_STATIC_TABLE_ENTRIES = 61"
  by (simp add: NGX_HTTP_V2_STATIC_TABLE_ENTRIES_def ngx_http_v2_static_table_def)

lemma lookup_ok:
  assumes ok: "hpack_ok st l" and a: "\<forall>i. palloc i"
  shows "ngx_http_v2_get_indexed_header palloc index name_only st = Some (spec_lookup index name_only l)"
proof -
  obtain es m ps P where r: "hpack_rep st es m ps P l" using ok by (auto simp: hpack_ok_def)
  then have h: "hp_entries st = Some es" "hp_storage st = Some m" "length m = N_tab" "length es = hp_allocated st" "0 < hp_allocated st"
    "hp_reused st \<le> hp_deleted st" "hp_deleted st \<le> hp_added st"
    "map (\<lambda>i. es ! (i mod hp_allocated st)) [hp_reused st..<hp_added st] = map Some ps"
    "laid (hp_pool st) m P l (rev (drop (hp_deleted st - hp_reused st) ps))" by (auto simp: hpack_rep_def)
  have lps: "length ps = hp_added st - hp_reused st" by (rule hpack_rep_length [OF r])
  have ll: "length l = hp_added st - hp_deleted st" using laid_length [OF h(9)] lps h(6,7) by simp
  show ?thesis
  proof (cases "62 \<le> index \<and> index - 62 < length l")
    case True
    let ?i = "index - 62" and ?f = "l ! (index - 62)"
    have i: "?i < length l" using True by simp
    let ?p = "rev (drop (hp_deleted st - hp_reused st) ps) ! ?i"
    obtain b where b: "?p < length (hp_pool st)" "name_len (hp_pool st ! ?p) = length (fst ?f)" "value_len (hp_pool st ! ?p) = length (snd ?f)"
      "stands_for (name_data (hp_pool st ! ?p)) b" "stands_for (value_data (hp_pool st ! ?p)) (b + length (fst ?f))"
      "circ m b (length (fst ?f)) = fst ?f" "circ m (b + length (fst ?f)) (length (snd ?f)) = snd ?f"
      using laid_nth [OF h(9) i] by blast
    let ?j = "length ps - Suc ?i"
    have j: "?j < length ps" "hp_reused st + ?j = hp_added st - ?i - 1" using i ll lps h(6,7) by linarith+
    have "?p = ps ! ?j" using i ll lps h(6,7) by (simp add: rev_nth)
    moreover have "es ! ((hp_reused st + ?j) mod hp_allocated st) = Some (ps ! ?j)"
      using arg_cong [OF h(8), of "\<lambda>xs. xs ! ?j"] j lps by simp
    ultimately have ptr: "entry_ptr st (hp_added st - ?i - 1) = Some ?p"
      using h(1,4,5) j(2) by (simp add: entry_ptr_def nth_opt_def)
    have "field_size ?f \<le> table_sum l" using i by (auto simp: table_sum_def intro: member_le_sum_list)
    moreover have "int (table_sum l) \<le> int N_tab" using ok by (simp add: hpack_ok_def)
    ultimately have len: "length (fst ?f) \<le> N_tab" "length (snd ?f) \<le> N_tab" by (simp_all add: field_size_def)
    have idx: "index \<noteq> 0" "\<not> index - 1 < 61" "index - 1 - 61 = ?i" using True by linarith+
    have "hpack_get (name_data (hp_pool st ! ?p)) (name_len (hp_pool st ! ?p)) st = Some (fst ?f)"
      "hpack_get (value_data (hp_pool st ! ?p)) (value_len (hp_pool st ! ?p)) st = Some (snd ?f)"
      using hpack_get_ok [OF h(2,3) b(4) len(1)] hpack_get_ok [OF h(2,3) b(5) len(2)] b(2,3,6,7) by simp_all
    then show ?thesis using True idx a ptr b(1) i ll
      by (simp add: ngx_http_v2_get_indexed_header_def spec_lookup_def static_entries Let_def nth_opt_def)
  next
    case False
    have "\<not> index - 1 - 61 < hp_added st - hp_deleted st" if "\<not> index - 1 < 61" using False that ll by linarith
    moreover have "index - 1 < 61 \<longleftrightarrow> index \<le> 61" by linarith
    ultimately show ?thesis using False
      by (auto simp: ngx_http_v2_get_indexed_header_def spec_lookup_def static_entries Let_def)
  qed
qed

section \<open>Sequences of operations\<close>

text \<open>What the decoder of header blocks relies on: a table holds a list of fields within a limit, and its operations keep it so.\<close>

locale header_table =
  fixes add :: "header_field \<Rightarrow> 's \<Rightarrow> (ngx_rc \<times> 's) option"
    and resize :: "nat \<Rightarrow> 's \<Rightarrow> (ngx_rc \<times> 's) option"
    and get :: "nat \<Rightarrow> bool \<Rightarrow> 's \<Rightarrow> (ngx_rc \<times> u_char list option \<times> u_char list option) option"
    and limit :: "'s \<Rightarrow> int"
    and holds :: "'s \<Rightarrow> header_field list \<Rightarrow> bool"
  assumes add_holds: "holds st l \<Longrightarrow>
      \<exists>st'. add f st = Some (NGX_OK, st') \<and> holds st' (snd (spec_add f (limit st, l))) \<and> limit st' = limit st"
    and resize_holds: "holds st l \<Longrightarrow> \<exists>rc st'. resize n st = Some (rc, st') \<and> (limit st', snd (spec_size n (limit st, l))) = spec_size n (limit st, l) \<and>
      holds st' (snd (spec_size n (limit st, l)))"
    and get_holds: "holds st l \<Longrightarrow> get index name_only st = Some (spec_lookup index name_only l)"
    and holds_limit: "holds st l \<Longrightarrow> int (table_sum l) \<le> limit st \<and> limit st \<le> 4096"

datatype h2_op = H2_add header_field | H2_size nat

fun h2_step :: "(header_field \<Rightarrow> 's \<Rightarrow> (ngx_rc \<times> 's) option) \<Rightarrow> (nat \<Rightarrow> 's \<Rightarrow> (ngx_rc \<times> 's) option) \<Rightarrow> h2_op \<Rightarrow> 's \<Rightarrow> 's option" where
  "h2_step add resize (H2_add f) st = map_option snd (add f st)"
| "h2_step add resize (H2_size n) st = map_option snd (resize n st)"

fun h2_run :: "(header_field \<Rightarrow> 's \<Rightarrow> (ngx_rc \<times> 's) option) \<Rightarrow> (nat \<Rightarrow> 's \<Rightarrow> (ngx_rc \<times> 's) option) \<Rightarrow> h2_op list \<Rightarrow> 's \<Rightarrow> 's option" where
  "h2_run add resize [] st = Some st"
| "h2_run add resize (x # xs) st = h2_step add resize x st \<bind> h2_run add resize xs"

fun h2_spec :: "h2_op list \<Rightarrow> int \<times> header_field list \<Rightarrow> int \<times> header_field list" where
  "h2_spec [] t = t"
| "h2_spec (H2_add f # xs) t = h2_spec xs (spec_add f t)"
| "h2_spec (H2_size n # xs) t = h2_spec xs (spec_size n t)"

context header_table
begin

lemma run_holds:
  assumes "holds st l"
  shows "\<exists>st'. h2_run add resize ops st = Some st' \<and> holds st' (snd (h2_spec ops (limit st, l))) \<and>
    limit st' = fst (h2_spec ops (limit st, l))"
  using assms
proof (induction ops arbitrary: st l)
  case (Cons x ops)
  show ?case
  proof (cases x)
    case (H2_add f)
    obtain st1 where s: "add f st = Some (NGX_OK, st1)" "holds st1 (snd (spec_add f (limit st, l)))" "limit st1 = limit st"
      using add_holds [OF Cons.prems] by blast
    have "spec_add f (limit st, l) = (limit st1, snd (spec_add f (limit st, l)))" using s(3) by (simp add: spec_add_def)
    then show ?thesis using Cons.IH [OF s(2)] s(1) H2_add by simp
  next
    case (H2_size n)
    obtain rc st1 where s: "resize n st = Some (rc, st1)" "holds st1 (snd (spec_size n (limit st, l)))"
      "(limit st1, snd (spec_size n (limit st, l))) = spec_size n (limit st, l)"
      using resize_holds [OF Cons.prems] by blast
    then show ?thesis using Cons.IH [OF s(2)] H2_size by simp
  qed
qed simp

lemma run_get:
  assumes "holds st l"
  shows "\<exists>st'. h2_run add resize ops st = Some st' \<and> limit st' = fst (h2_spec ops (limit st, l)) \<and> limit st' \<le> 4096 \<and>
    int (table_sum (snd (h2_spec ops (limit st, l)))) \<le> limit st' \<and>
    (\<forall>index name_only. get index name_only st' = Some (spec_lookup index name_only (snd (h2_spec ops (limit st, l)))))"
  using run_holds [OF assms, of ops] get_holds holds_limit by blast

end

text \<open>The dynamic table of nginx, where memory is not short.\<close>

interpretation hpack: header_table "ngx_http_v2_add_header (\<lambda>_. True)" ngx_http_v2_table_size
  "ngx_http_v2_get_indexed_header (\<lambda>_. True)" hp_size hpack_ok
proof unfold_locales
  fix st l f
  assume ok: "hpack_ok st l"
  show "\<exists>st'. ngx_http_v2_add_header (\<lambda>_. True) f st = Some (NGX_OK, st') \<and> hpack_ok st' (snd (spec_add f (hp_size st, l))) \<and> hp_size st' = hp_size st"
    using add_header_ok [OF ok] by simp
next
  fix st l n
  assume ok: "hpack_ok st l"
  show "\<exists>rc st'. ngx_http_v2_table_size n st = Some (rc, st') \<and> (hp_size st', snd (spec_size n (hp_size st, l))) = spec_size n (hp_size st, l) \<and>
    hpack_ok st' (snd (spec_size n (hp_size st, l)))"
  proof (cases "n \<le> N_tab")
    case True
    then show ?thesis using table_size_ok [OF ok True] by (fastforce simp: spec_size_def)
  next
    case False
    then show ?thesis using ok by (simp add: ngx_http_v2_table_size_def spec_size_def)
  qed
next
  fix st l index name_only
  assume "hpack_ok st l"
  then show "ngx_http_v2_get_indexed_header (\<lambda>_. True) index name_only st = Some (spec_lookup index name_only l)" by (simp add: lookup_ok)
next
  fix st l
  assume "hpack_ok st l"
  then show "int (table_sum l) \<le> hp_size st \<and> hp_size st \<le> 4096" by (simp add: hpack_ok_def NGX_HTTP_V2_TABLE_SIZE_def)
qed

text \<open>A size update that comes before the first entry is lost: the first insertion sets the size to 4096.\<close>

lemma size_update_lost:
  "\<exists>st st'. ngx_http_v2_table_size 0 hpack_zero = Some (NGX_OK, st) \<and> hp_size st = 0 \<and>
    ngx_http_v2_add_header (\<lambda>_. True) ([97], [98]) st = Some (NGX_OK, st') \<and> hp_size st' = 4096 \<and>
    ngx_http_v2_get_indexed_header (\<lambda>_. True) 62 False st' = Some (NGX_OK, Some [97], Some [98])"
proof -
  have z: "ngx_http_v2_table_size 0 hpack_zero = Some (NGX_OK, hpack_zero)"
    by (subst ngx_http_v2_table_size_def, subst evict_loop.simps) (simp add: hpack_zero_def Let_def NGX_HTTP_V2_TABLE_SIZE_def)
  obtain st where s: "hpack_ok st []" "hp_size st = int N_tab"
    "ngx_http_v2_add_header (\<lambda>_. True) ([97], [98]) hpack_zero = ngx_http_v2_add_header (\<lambda>_. True) ([97], [98]) st"
    using first_add [of "\<lambda>_. True" "([97], [98])"] by auto
  have sp: "snd (spec_add ([97], [98]) (hp_size st, [])) = [([97], [98])]"
    using s(2) by (simp add: spec_add_def field_size_def NGX_HTTP_V2_TABLE_SIZE_def)
  obtain st' where s': "ngx_http_v2_add_header (\<lambda>_. True) ([97], [98]) st = Some (NGX_OK, st')" "hpack_ok st' [([97], [98])]"
    "hp_size st' = int N_tab"
    using add_header_ok [OF s(1), of "\<lambda>_. True" "([97], [98])"] sp s(2) by auto
  have "ngx_http_v2_get_indexed_header (\<lambda>_. True) 62 False st' = Some (NGX_OK, Some [97], Some [98])"
    using lookup_ok [OF s'(2), of "\<lambda>_. True" 62 False] by (simp add: spec_lookup_def)
  then show ?thesis using z s(3) s'(1,3) by (intro exI [of _ hpack_zero] exI [of _ st']) (simp add: hpack_zero_def NGX_HTTP_V2_TABLE_SIZE_def)
qed

text \<open>The table before the first entry, where only its size may have been changed.\<close>

definition table_blank :: "ngx_http_v2_hpack \<Rightarrow> bool" where
  "table_blank t \<longleftrightarrow> (\<exists>n\<ge>0. t = hpack_zero\<lparr>hp_size := n, hp_free := n\<rparr>)"

lemma table_blank_zero: "table_blank hpack_zero"
proof -
  have "hpack_zero = hpack_zero\<lparr>hp_size := 0, hp_free := 0\<rparr>" by (simp add: hpack_zero_def)
  then show ?thesis unfolding table_blank_def by blast
qed

lemma table_blank_add: "table_blank t \<Longrightarrow> ngx_http_v2_add_header palloc f t = ngx_http_v2_add_header palloc f hpack_zero"
  by (auto simp: table_blank_def ngx_http_v2_add_header_def hpack_init_def hpack_zero_def Let_def)

lemma table_blank_size:
  assumes "table_blank t"
  shows "\<exists>rc t'. ngx_http_v2_table_size n t = Some (rc, t') \<and> table_blank t'"
proof -
  obtain k where k: "0 \<le> k" "t = hpack_zero\<lparr>hp_size := k, hp_free := k\<rparr>" using assms by (auto simp: table_blank_def)
  have "ngx_http_v2_table_size n t = (if n > NGX_HTTP_V2_TABLE_SIZE then Some (NGX_ERROR, t) else Some (NGX_OK, hpack_zero\<lparr>hp_size := int n, hp_free := int n\<rparr>))"
    unfolding ngx_http_v2_table_size_def using k by (subst evict_loop.simps) (simp add: Let_def hpack_zero_def)
  moreover have "table_blank (hpack_zero\<lparr>hp_size := int n, hp_free := int n\<rparr>)" unfolding table_blank_def
    by (intro exI [of _ "int n"]) simp
  ultimately show ?thesis using assms by auto
qed

lemma table_blank_run:
  "table_blank t \<Longrightarrow> h2_run (ngx_http_v2_add_header palloc) ngx_http_v2_table_size (map H2_size ns @ H2_add f # ops) t =
    h2_run (ngx_http_v2_add_header palloc) ngx_http_v2_table_size (H2_add f # ops) hpack_zero"
proof (induction ns arbitrary: t)
  case (Cons n ns)
  then show ?case using table_blank_size [OF Cons.prems, of n] by auto
qed (simp add: table_blank_add)

text \<open>C13. The dynamic table refines a list. After any sequence of insertions and size updates with at least one insertion, and where
  memory is not short, every index up to 61 is looked up in the static table, every further one in the list that the specification
  computes from the first insertion on: the newest entry first, the oldest entries dropped as far as the limit asks for; other indices
  are refused. The size updates \<open>ns\<close> before the first insertion are lost: the specification starts at that insertion with a limit of
  4096 bytes. The sizes of the entries never exceed the limit, nor the limit 4096 bytes. No access to the storage or to the array of
  entries is out of range.\<close>

theorem hpack_refines:
  "\<exists>st. h2_run (ngx_http_v2_add_header (\<lambda>_. True)) ngx_http_v2_table_size (map H2_size ns @ H2_add f # ops) hpack_zero = Some st \<and>
    hp_size st = fst (h2_spec (H2_add f # ops) (4096, [])) \<and> hp_size st \<le> 4096 \<and>
    int (table_sum (snd (h2_spec (H2_add f # ops) (4096, [])))) \<le> hp_size st \<and>
    (\<forall>index name_only. ngx_http_v2_get_indexed_header (\<lambda>_. True) index name_only st =
       Some (spec_lookup index name_only (snd (h2_spec (H2_add f # ops) (4096, [])))))"
proof -
  obtain st0 where s0: "hpack_ok st0 []" "hp_size st0 = 4096"
    "ngx_http_v2_add_header (\<lambda>_. True) f hpack_zero = ngx_http_v2_add_header (\<lambda>_. True) f st0"
    using first_add [of "\<lambda>_. True" f] by (auto simp: NGX_HTTP_V2_TABLE_SIZE_def)
  have "h2_run (ngx_http_v2_add_header (\<lambda>_. True)) ngx_http_v2_table_size (map H2_size ns @ H2_add f # ops) hpack_zero =
    h2_run (ngx_http_v2_add_header (\<lambda>_. True)) ngx_http_v2_table_size (H2_add f # ops) st0"
    unfolding table_blank_run [OF table_blank_zero] using s0(3) by simp
  then show ?thesis using hpack.run_get [OF s0(1), of "H2_add f # ops"] s0(2) by simp
qed

end
