(* ===== verification/Http_V2_Huff_Check.thy ===== *)
theory Http_V2_Huff_Check
  imports Http_V2_Huff_Tables
begin

text \<open>
  The tables are checked against each other: every entry of the decoder against the codes of the encoder and the path of bits that its
  states stand for, and the codes among themselves. All checks are evaluated by the simplifier.
\<close>

section \<open>What the states stand for\<close>

text \<open>A state of the decoder is an inner node of the tree of the code. For each state: the length and the value of the
  bits on the path to it, and a symbol that lies below it.\<close>

definition huff_node_0 :: "(nat \<times> int \<times> u_char) list" where
  "huff_node_0 = [
    (0, 0, 48), (1, 0, 48), (2, 0, 48), (3, 0, 48),
     (4, 0, 48), (4, 1, 50), (3, 1, 99), (4, 2, 99),
     (4, 3, 105), (2, 1, 115), (3, 2, 115), (4, 4, 115),
     (4, 5, 32), (5, 10, 32), (5, 11, 45), (3, 3, 47)]"

definition huff_node_1 :: "(nat \<times> int \<times> u_char) list" where
  "huff_node_1 = [
    (4, 6, 47), (5, 12, 47), (5, 13, 52), (4, 7, 54),
     (5, 14, 54), (5, 15, 56), (1, 1, 61), (2, 2, 61),
     (3, 4, 61), (4, 8, 61), (5, 16, 61), (5, 17, 95),
     (4, 9, 100), (5, 18, 100), (5, 19, 103), (3, 5, 108)]"

definition huff_node_2 :: "(nat \<times> int \<times> u_char) list" where
  "huff_node_2 = [
    (4, 10, 108), (5, 20, 108), (5, 21, 110), (4, 11, 114),
     (5, 22, 114), (5, 23, 58), (6, 46, 58), (6, 47, 67),
     (2, 3, 69), (3, 6, 69), (4, 12, 69), (5, 24, 69),
     (6, 48, 69), (6, 49, 71), (5, 25, 73), (6, 50, 73)]"

definition huff_node_3 :: "(nat \<times> int \<times> u_char) list" where
  "huff_node_3 = [
    (6, 51, 75), (4, 13, 77), (5, 26, 77), (6, 52, 77),
     (6, 53, 79), (5, 27, 81), (6, 54, 81), (6, 55, 83),
     (3, 7, 85), (4, 14, 85), (5, 28, 85), (6, 56, 85),
     (6, 57, 87), (5, 29, 106), (6, 58, 106), (6, 59, 113)]"

definition huff_node_4 :: "(nat \<times> int \<times> u_char) list" where
  "huff_node_4 = [
    (4, 15, 119), (5, 30, 119), (6, 60, 119), (6, 61, 121),
     (5, 31, 38), (6, 62, 38), (7, 124, 38), (7, 125, 44),
     (6, 63, 88), (7, 126, 88), (7, 127, 33), (8, 254, 33),
     (9, 508, 33), (9, 509, 40), (8, 255, 63), (9, 510, 63)]"

definition huff_node_5 :: "(nat \<times> int \<times> u_char) list" where
  "huff_node_5 = [
    (10, 1021, 39), (9, 511, 124), (10, 1022, 124), (11, 2045, 35),
     (10, 1023, 0), (11, 2046, 0), (12, 4092, 0), (12, 4093, 64),
     (11, 2047, 93), (12, 4094, 93), (12, 4095, 94), (13, 8190, 94),
     (13, 8191, 60), (14, 16382, 60), (14, 16383, 123), (15, 32767, 92)]"

definition huff_node_6 :: "(nat \<times> int \<times> u_char) list" where
  "huff_node_6 = [
    (16, 65534, 92), (17, 131068, 92), (18, 262136, 92), (18, 262137, 208),
     (19, 524275, 128), (17, 131069, 131), (18, 262138, 131), (19, 524276, 131),
     (19, 524277, 184), (18, 262139, 224), (19, 524278, 224), (19, 524279, 153),
     (20, 1048558, 153), (20, 1048559, 167), (16, 65535, 176), (17, 131070, 176)]"

definition huff_node_7 :: "(nat \<times> int \<times> u_char) list" where
  "huff_node_7 = [
    (18, 262140, 176), (19, 524280, 176), (20, 1048560, 176), (20, 1048561, 179),
     (19, 524281, 216), (20, 1048562, 216), (20, 1048563, 227), (18, 262141, 230),
     (19, 524282, 230), (20, 1048564, 230), (21, 2097129, 129), (20, 1048565, 133),
     (21, 2097130, 133), (21, 2097131, 136), (19, 524283, 154), (20, 1048566, 154)]"

definition huff_node_8 :: "(nat \<times> int \<times> u_char) list" where
  "huff_node_8 = [
    (21, 2097132, 154), (21, 2097133, 160), (20, 1048567, 164), (21, 2097134, 164),
     (21, 2097135, 170), (17, 131071, 178), (18, 262142, 178), (19, 524284, 178),
     (20, 1048568, 178), (21, 2097136, 178), (21, 2097137, 185), (20, 1048569, 187),
     (21, 2097138, 187), (21, 2097139, 190), (19, 524285, 198), (20, 1048570, 198)]"

definition huff_node_9 :: "(nat \<times> int \<times> u_char) list" where
  "huff_node_9 = [
    (21, 2097140, 198), (21, 2097141, 232), (20, 1048571, 1), (21, 2097142, 1),
     (22, 4194284, 1), (22, 4194285, 137), (21, 2097143, 139), (22, 4194286, 139),
     (22, 4194287, 141), (18, 262143, 147), (19, 524286, 147), (20, 1048572, 147),
     (21, 2097144, 147), (22, 4194288, 147), (22, 4194289, 150), (21, 2097145, 152)]"

definition huff_node_10 :: "(nat \<times> int \<times> u_char) list" where
  "huff_node_10 = [
    (22, 4194290, 152), (22, 4194291, 157), (20, 1048573, 165), (21, 2097146, 165),
     (22, 4194292, 165), (22, 4194293, 168), (21, 2097147, 175), (22, 4194294, 175),
     (22, 4194295, 182), (19, 524287, 188), (20, 1048574, 188), (21, 2097148, 188),
     (22, 4194296, 188), (22, 4194297, 197), (21, 2097149, 239), (22, 4194298, 239)]"

definition huff_node_11 :: "(nat \<times> int \<times> u_char) list" where
  "huff_node_11 = [
    (23, 8388597, 9), (22, 4194299, 144), (23, 8388598, 144), (23, 8388599, 148),
     (20, 1048575, 171), (21, 2097150, 171), (22, 4194300, 171), (23, 8388600, 171),
     (23, 8388601, 215), (22, 4194301, 236), (23, 8388602, 236), (23, 8388603, 199),
     (24, 16777206, 199), (24, 16777207, 234), (21, 2097151, 192), (22, 4194302, 192)]"

definition huff_node_12 :: "(nat \<times> int \<times> u_char) list" where
  "huff_node_12 = [
    (23, 8388604, 192), (24, 16777208, 192), (25, 33554416, 192), (25, 33554417, 200),
     (24, 16777209, 202), (25, 33554418, 202), (25, 33554419, 210), (23, 8388605, 218),
     (24, 16777210, 218), (25, 33554420, 218), (25, 33554421, 238), (24, 16777211, 242),
     (25, 33554422, 242), (25, 33554423, 255), (26, 67108847, 203), (22, 4194303, 211)]"

definition huff_node_13 :: "(nat \<times> int \<times> u_char) list" where
  "huff_node_13 = [
    (23, 8388606, 211), (24, 16777212, 211), (25, 33554424, 211), (26, 67108848, 211),
     (26, 67108849, 214), (25, 33554425, 222), (26, 67108850, 222), (26, 67108851, 241),
     (24, 16777213, 245), (25, 33554426, 245), (26, 67108852, 245), (26, 67108853, 247),
     (25, 33554427, 250), (26, 67108854, 250), (26, 67108855, 252), (23, 8388607, 254)]"

definition huff_node_14 :: "(nat \<times> int \<times> u_char) list" where
  "huff_node_14 = [
    (24, 16777214, 254), (25, 33554428, 254), (26, 67108856, 254), (27, 134217713, 2),
     (26, 67108857, 4), (27, 134217714, 4), (27, 134217715, 6), (25, 33554429, 8),
     (26, 67108858, 8), (27, 134217716, 8), (27, 134217717, 12), (26, 67108859, 15),
     (27, 134217718, 15), (27, 134217719, 17), (24, 16777215, 19), (25, 33554430, 19)]"

definition huff_node_15 :: "(nat \<times> int \<times> u_char) list" where
  "huff_node_15 = [
    (26, 67108860, 19), (27, 134217720, 19), (27, 134217721, 21), (26, 67108861, 24),
     (27, 134217722, 24), (27, 134217723, 26), (25, 33554431, 28), (26, 67108862, 28),
     (27, 134217724, 28), (27, 134217725, 30), (26, 67108863, 127), (27, 134217726, 127),
     (27, 134217727, 249), (28, 268435455, 10), (29, 536870910, 10), (29, 536870911, 22)]"

definition huff_node :: "u_char \<Rightarrow> nat \<times> int \<times> u_char" where
  "huff_node s = [huff_node_0, huff_node_1, huff_node_2, huff_node_3,
    huff_node_4, huff_node_5, huff_node_6, huff_node_7,
    huff_node_8, huff_node_9, huff_node_10, huff_node_11,
    huff_node_12, huff_node_13, huff_node_14, huff_node_15] ! (unat s div 16) ! (unat s mod 16)"

text \<open>The length and the value of the code of a byte in a table of the encoder.\<close>

definition huff_code :: "ngx_http_v2_huff_encode_code list \<Rightarrow> u_char \<Rightarrow> nat \<times> int" where
  "huff_code table c = (unat (he_len (table ! unat c)), uint (he_code (table ! unat c)))"

lemma nth_concat_16:
  assumes "\<forall>b\<in>set bs. length b = 16" "n < 16 * length bs"
  shows "concat bs ! n = bs ! (n div 16) ! (n mod 16)"
  using assms
proof (induction bs arbitrary: n)
  case (Cons b bs)
  show ?case
  proof (cases "n < 16")
    case True
    then show ?thesis using Cons.prems by (simp add: nth_append)
  next
    case False
    then obtain m where m: "n = 16 + m" using le_Suc_ex [of 16 n] by auto
    then have "concat bs ! m = bs ! (m div 16) ! (m mod 16)" using Cons by simp
    moreover have "n div 16 = Suc (m div 16)" "n mod 16 = m mod 16" using m by simp_all
    ultimately show ?thesis using m Cons.prems by (simp add: nth_append)
  qed
qed simp

lemma huff_table_at: "n < 256 \<Longrightarrow> ngx_http_v2_huff_encode_table ! n = [huff_encode_table_0, huff_encode_table_1, huff_encode_table_2, huff_encode_table_3,
    huff_encode_table_4, huff_encode_table_5, huff_encode_table_6, huff_encode_table_7,
    huff_encode_table_8, huff_encode_table_9, huff_encode_table_10, huff_encode_table_11,
    huff_encode_table_12, huff_encode_table_13, huff_encode_table_14, huff_encode_table_15] ! (n div 16) ! (n mod 16)"
  unfolding ngx_http_v2_huff_encode_table_def
  by (rule nth_concat_16) (simp_all add: huff_encode_table_0_def huff_encode_table_1_def huff_encode_table_2_def huff_encode_table_3_def huff_encode_table_4_def huff_encode_table_5_def huff_encode_table_6_def huff_encode_table_7_def huff_encode_table_8_def huff_encode_table_9_def huff_encode_table_10_def huff_encode_table_11_def huff_encode_table_12_def huff_encode_table_13_def huff_encode_table_14_def huff_encode_table_15_def)

lemma huff_table_lc_at: "n < 256 \<Longrightarrow> ngx_http_v2_huff_encode_table_lc ! n = [huff_encode_table_lc_0, huff_encode_table_lc_1, huff_encode_table_lc_2, huff_encode_table_lc_3,
    huff_encode_table_lc_4, huff_encode_table_lc_5, huff_encode_table_lc_6, huff_encode_table_lc_7,
    huff_encode_table_lc_8, huff_encode_table_lc_9, huff_encode_table_lc_10, huff_encode_table_lc_11,
    huff_encode_table_lc_12, huff_encode_table_lc_13, huff_encode_table_lc_14, huff_encode_table_lc_15] ! (n div 16) ! (n mod 16)"
  unfolding ngx_http_v2_huff_encode_table_lc_def
  by (rule nth_concat_16) (simp_all add: huff_encode_table_lc_0_def huff_encode_table_lc_1_def huff_encode_table_lc_2_def huff_encode_table_lc_3_def huff_encode_table_lc_4_def huff_encode_table_lc_5_def huff_encode_table_lc_6_def huff_encode_table_lc_7_def huff_encode_table_lc_8_def huff_encode_table_lc_9_def huff_encode_table_lc_10_def huff_encode_table_lc_11_def huff_encode_table_lc_12_def huff_encode_table_lc_13_def huff_encode_table_lc_14_def huff_encode_table_lc_15_def)

section \<open>The entries of the tables, one by one\<close>

text \<open>The tables are evaluated once, in blocks of sixteen entries; the checks below rewrite with these facts.\<close>

lemma huff_node_at_0:
  "huff_node 0 = (0, 0, 48)" "huff_node 1 = (1, 0, 48)"
  "huff_node 2 = (2, 0, 48)" "huff_node 3 = (3, 0, 48)"
  "huff_node 4 = (4, 0, 48)" "huff_node 5 = (4, 1, 50)"
  "huff_node 6 = (3, 1, 99)" "huff_node 7 = (4, 2, 99)"
  "huff_node 8 = (4, 3, 105)" "huff_node 9 = (2, 1, 115)"
  "huff_node 10 = (3, 2, 115)" "huff_node 11 = (4, 4, 115)"
  "huff_node 12 = (4, 5, 32)" "huff_node 13 = (5, 10, 32)"
  "huff_node 14 = (5, 11, 45)" "huff_node 15 = (3, 3, 47)"
  by (simp_all add: huff_node_def, simp_all add: huff_node_0_def)

lemma huff_node_at_1:
  "huff_node 16 = (4, 6, 47)" "huff_node 17 = (5, 12, 47)"
  "huff_node 18 = (5, 13, 52)" "huff_node 19 = (4, 7, 54)"
  "huff_node 20 = (5, 14, 54)" "huff_node 21 = (5, 15, 56)"
  "huff_node 22 = (1, 1, 61)" "huff_node 23 = (2, 2, 61)"
  "huff_node 24 = (3, 4, 61)" "huff_node 25 = (4, 8, 61)"
  "huff_node 26 = (5, 16, 61)" "huff_node 27 = (5, 17, 95)"
  "huff_node 28 = (4, 9, 100)" "huff_node 29 = (5, 18, 100)"
  "huff_node 30 = (5, 19, 103)" "huff_node 31 = (3, 5, 108)"
  by (simp_all add: huff_node_def, simp_all add: huff_node_1_def)

lemma huff_node_at_2:
  "huff_node 32 = (4, 10, 108)" "huff_node 33 = (5, 20, 108)"
  "huff_node 34 = (5, 21, 110)" "huff_node 35 = (4, 11, 114)"
  "huff_node 36 = (5, 22, 114)" "huff_node 37 = (5, 23, 58)"
  "huff_node 38 = (6, 46, 58)" "huff_node 39 = (6, 47, 67)"
  "huff_node 40 = (2, 3, 69)" "huff_node 41 = (3, 6, 69)"
  "huff_node 42 = (4, 12, 69)" "huff_node 43 = (5, 24, 69)"
  "huff_node 44 = (6, 48, 69)" "huff_node 45 = (6, 49, 71)"
  "huff_node 46 = (5, 25, 73)" "huff_node 47 = (6, 50, 73)"
  by (simp_all add: huff_node_def, simp_all add: huff_node_2_def)

lemma huff_node_at_3:
  "huff_node 48 = (6, 51, 75)" "huff_node 49 = (4, 13, 77)"
  "huff_node 50 = (5, 26, 77)" "huff_node 51 = (6, 52, 77)"
  "huff_node 52 = (6, 53, 79)" "huff_node 53 = (5, 27, 81)"
  "huff_node 54 = (6, 54, 81)" "huff_node 55 = (6, 55, 83)"
  "huff_node 56 = (3, 7, 85)" "huff_node 57 = (4, 14, 85)"
  "huff_node 58 = (5, 28, 85)" "huff_node 59 = (6, 56, 85)"
  "huff_node 60 = (6, 57, 87)" "huff_node 61 = (5, 29, 106)"
  "huff_node 62 = (6, 58, 106)" "huff_node 63 = (6, 59, 113)"
  by (simp_all add: huff_node_def, simp_all add: huff_node_3_def)

lemma huff_node_at_4:
  "huff_node 64 = (4, 15, 119)" "huff_node 65 = (5, 30, 119)"
  "huff_node 66 = (6, 60, 119)" "huff_node 67 = (6, 61, 121)"
  "huff_node 68 = (5, 31, 38)" "huff_node 69 = (6, 62, 38)"
  "huff_node 70 = (7, 124, 38)" "huff_node 71 = (7, 125, 44)"
  "huff_node 72 = (6, 63, 88)" "huff_node 73 = (7, 126, 88)"
  "huff_node 74 = (7, 127, 33)" "huff_node 75 = (8, 254, 33)"
  "huff_node 76 = (9, 508, 33)" "huff_node 77 = (9, 509, 40)"
  "huff_node 78 = (8, 255, 63)" "huff_node 79 = (9, 510, 63)"
  by (simp_all add: huff_node_def, simp_all add: huff_node_4_def)

lemma huff_node_at_5:
  "huff_node 80 = (10, 1021, 39)" "huff_node 81 = (9, 511, 124)"
  "huff_node 82 = (10, 1022, 124)" "huff_node 83 = (11, 2045, 35)"
  "huff_node 84 = (10, 1023, 0)" "huff_node 85 = (11, 2046, 0)"
  "huff_node 86 = (12, 4092, 0)" "huff_node 87 = (12, 4093, 64)"
  "huff_node 88 = (11, 2047, 93)" "huff_node 89 = (12, 4094, 93)"
  "huff_node 90 = (12, 4095, 94)" "huff_node 91 = (13, 8190, 94)"
  "huff_node 92 = (13, 8191, 60)" "huff_node 93 = (14, 16382, 60)"
  "huff_node 94 = (14, 16383, 123)" "huff_node 95 = (15, 32767, 92)"
  by (simp_all add: huff_node_def, simp_all add: huff_node_5_def)

lemma huff_node_at_6:
  "huff_node 96 = (16, 65534, 92)" "huff_node 97 = (17, 131068, 92)"
  "huff_node 98 = (18, 262136, 92)" "huff_node 99 = (18, 262137, 208)"
  "huff_node 100 = (19, 524275, 128)" "huff_node 101 = (17, 131069, 131)"
  "huff_node 102 = (18, 262138, 131)" "huff_node 103 = (19, 524276, 131)"
  "huff_node 104 = (19, 524277, 184)" "huff_node 105 = (18, 262139, 224)"
  "huff_node 106 = (19, 524278, 224)" "huff_node 107 = (19, 524279, 153)"
  "huff_node 108 = (20, 1048558, 153)" "huff_node 109 = (20, 1048559, 167)"
  "huff_node 110 = (16, 65535, 176)" "huff_node 111 = (17, 131070, 176)"
  by (simp_all add: huff_node_def, simp_all add: huff_node_6_def)

lemma huff_node_at_7:
  "huff_node 112 = (18, 262140, 176)" "huff_node 113 = (19, 524280, 176)"
  "huff_node 114 = (20, 1048560, 176)" "huff_node 115 = (20, 1048561, 179)"
  "huff_node 116 = (19, 524281, 216)" "huff_node 117 = (20, 1048562, 216)"
  "huff_node 118 = (20, 1048563, 227)" "huff_node 119 = (18, 262141, 230)"
  "huff_node 120 = (19, 524282, 230)" "huff_node 121 = (20, 1048564, 230)"
  "huff_node 122 = (21, 2097129, 129)" "huff_node 123 = (20, 1048565, 133)"
  "huff_node 124 = (21, 2097130, 133)" "huff_node 125 = (21, 2097131, 136)"
  "huff_node 126 = (19, 524283, 154)" "huff_node 127 = (20, 1048566, 154)"
  by (simp_all add: huff_node_def, simp_all add: huff_node_7_def)

lemma huff_node_at_8:
  "huff_node 128 = (21, 2097132, 154)" "huff_node 129 = (21, 2097133, 160)"
  "huff_node 130 = (20, 1048567, 164)" "huff_node 131 = (21, 2097134, 164)"
  "huff_node 132 = (21, 2097135, 170)" "huff_node 133 = (17, 131071, 178)"
  "huff_node 134 = (18, 262142, 178)" "huff_node 135 = (19, 524284, 178)"
  "huff_node 136 = (20, 1048568, 178)" "huff_node 137 = (21, 2097136, 178)"
  "huff_node 138 = (21, 2097137, 185)" "huff_node 139 = (20, 1048569, 187)"
  "huff_node 140 = (21, 2097138, 187)" "huff_node 141 = (21, 2097139, 190)"
  "huff_node 142 = (19, 524285, 198)" "huff_node 143 = (20, 1048570, 198)"
  by (simp_all add: huff_node_def, simp_all add: huff_node_8_def)

lemma huff_node_at_9:
  "huff_node 144 = (21, 2097140, 198)" "huff_node 145 = (21, 2097141, 232)"
  "huff_node 146 = (20, 1048571, 1)" "huff_node 147 = (21, 2097142, 1)"
  "huff_node 148 = (22, 4194284, 1)" "huff_node 149 = (22, 4194285, 137)"
  "huff_node 150 = (21, 2097143, 139)" "huff_node 151 = (22, 4194286, 139)"
  "huff_node 152 = (22, 4194287, 141)" "huff_node 153 = (18, 262143, 147)"
  "huff_node 154 = (19, 524286, 147)" "huff_node 155 = (20, 1048572, 147)"
  "huff_node 156 = (21, 2097144, 147)" "huff_node 157 = (22, 4194288, 147)"
  "huff_node 158 = (22, 4194289, 150)" "huff_node 159 = (21, 2097145, 152)"
  by (simp_all add: huff_node_def, simp_all add: huff_node_9_def)

lemma huff_node_at_10:
  "huff_node 160 = (22, 4194290, 152)" "huff_node 161 = (22, 4194291, 157)"
  "huff_node 162 = (20, 1048573, 165)" "huff_node 163 = (21, 2097146, 165)"
  "huff_node 164 = (22, 4194292, 165)" "huff_node 165 = (22, 4194293, 168)"
  "huff_node 166 = (21, 2097147, 175)" "huff_node 167 = (22, 4194294, 175)"
  "huff_node 168 = (22, 4194295, 182)" "huff_node 169 = (19, 524287, 188)"
  "huff_node 170 = (20, 1048574, 188)" "huff_node 171 = (21, 2097148, 188)"
  "huff_node 172 = (22, 4194296, 188)" "huff_node 173 = (22, 4194297, 197)"
  "huff_node 174 = (21, 2097149, 239)" "huff_node 175 = (22, 4194298, 239)"
  by (simp_all add: huff_node_def, simp_all add: huff_node_10_def)

lemma huff_node_at_11:
  "huff_node 176 = (23, 8388597, 9)" "huff_node 177 = (22, 4194299, 144)"
  "huff_node 178 = (23, 8388598, 144)" "huff_node 179 = (23, 8388599, 148)"
  "huff_node 180 = (20, 1048575, 171)" "huff_node 181 = (21, 2097150, 171)"
  "huff_node 182 = (22, 4194300, 171)" "huff_node 183 = (23, 8388600, 171)"
  "huff_node 184 = (23, 8388601, 215)" "huff_node 185 = (22, 4194301, 236)"
  "huff_node 186 = (23, 8388602, 236)" "huff_node 187 = (23, 8388603, 199)"
  "huff_node 188 = (24, 16777206, 199)" "huff_node 189 = (24, 16777207, 234)"
  "huff_node 190 = (21, 2097151, 192)" "huff_node 191 = (22, 4194302, 192)"
  by (simp_all add: huff_node_def, simp_all add: huff_node_11_def)

lemma huff_node_at_12:
  "huff_node 192 = (23, 8388604, 192)" "huff_node 193 = (24, 16777208, 192)"
  "huff_node 194 = (25, 33554416, 192)" "huff_node 195 = (25, 33554417, 200)"
  "huff_node 196 = (24, 16777209, 202)" "huff_node 197 = (25, 33554418, 202)"
  "huff_node 198 = (25, 33554419, 210)" "huff_node 199 = (23, 8388605, 218)"
  "huff_node 200 = (24, 16777210, 218)" "huff_node 201 = (25, 33554420, 218)"
  "huff_node 202 = (25, 33554421, 238)" "huff_node 203 = (24, 16777211, 242)"
  "huff_node 204 = (25, 33554422, 242)" "huff_node 205 = (25, 33554423, 255)"
  "huff_node 206 = (26, 67108847, 203)" "huff_node 207 = (22, 4194303, 211)"
  by (simp_all add: huff_node_def, simp_all add: huff_node_12_def)

lemma huff_node_at_13:
  "huff_node 208 = (23, 8388606, 211)" "huff_node 209 = (24, 16777212, 211)"
  "huff_node 210 = (25, 33554424, 211)" "huff_node 211 = (26, 67108848, 211)"
  "huff_node 212 = (26, 67108849, 214)" "huff_node 213 = (25, 33554425, 222)"
  "huff_node 214 = (26, 67108850, 222)" "huff_node 215 = (26, 67108851, 241)"
  "huff_node 216 = (24, 16777213, 245)" "huff_node 217 = (25, 33554426, 245)"
  "huff_node 218 = (26, 67108852, 245)" "huff_node 219 = (26, 67108853, 247)"
  "huff_node 220 = (25, 33554427, 250)" "huff_node 221 = (26, 67108854, 250)"
  "huff_node 222 = (26, 67108855, 252)" "huff_node 223 = (23, 8388607, 254)"
  by (simp_all add: huff_node_def, simp_all add: huff_node_13_def)

lemma huff_node_at_14:
  "huff_node 224 = (24, 16777214, 254)" "huff_node 225 = (25, 33554428, 254)"
  "huff_node 226 = (26, 67108856, 254)" "huff_node 227 = (27, 134217713, 2)"
  "huff_node 228 = (26, 67108857, 4)" "huff_node 229 = (27, 134217714, 4)"
  "huff_node 230 = (27, 134217715, 6)" "huff_node 231 = (25, 33554429, 8)"
  "huff_node 232 = (26, 67108858, 8)" "huff_node 233 = (27, 134217716, 8)"
  "huff_node 234 = (27, 134217717, 12)" "huff_node 235 = (26, 67108859, 15)"
  "huff_node 236 = (27, 134217718, 15)" "huff_node 237 = (27, 134217719, 17)"
  "huff_node 238 = (24, 16777215, 19)" "huff_node 239 = (25, 33554430, 19)"
  by (simp_all add: huff_node_def, simp_all add: huff_node_14_def)

lemma huff_node_at_15:
  "huff_node 240 = (26, 67108860, 19)" "huff_node 241 = (27, 134217720, 19)"
  "huff_node 242 = (27, 134217721, 21)" "huff_node 243 = (26, 67108861, 24)"
  "huff_node 244 = (27, 134217722, 24)" "huff_node 245 = (27, 134217723, 26)"
  "huff_node 246 = (25, 33554431, 28)" "huff_node 247 = (26, 67108862, 28)"
  "huff_node 248 = (27, 134217724, 28)" "huff_node 249 = (27, 134217725, 30)"
  "huff_node 250 = (26, 67108863, 127)" "huff_node 251 = (27, 134217726, 127)"
  "huff_node 252 = (27, 134217727, 249)" "huff_node 253 = (28, 268435455, 10)"
  "huff_node 254 = (29, 536870910, 10)" "huff_node 255 = (29, 536870911, 22)"
  by (simp_all add: huff_node_def, simp_all add: huff_node_15_def)

lemma huff_code_at_0:
  "huff_code ngx_http_v2_huff_encode_table 0 = (13, 8184)" "huff_code ngx_http_v2_huff_encode_table 1 = (23, 8388568)"
  "huff_code ngx_http_v2_huff_encode_table 2 = (28, 268435426)" "huff_code ngx_http_v2_huff_encode_table 3 = (28, 268435427)"
  "huff_code ngx_http_v2_huff_encode_table 4 = (28, 268435428)" "huff_code ngx_http_v2_huff_encode_table 5 = (28, 268435429)"
  "huff_code ngx_http_v2_huff_encode_table 6 = (28, 268435430)" "huff_code ngx_http_v2_huff_encode_table 7 = (28, 268435431)"
  "huff_code ngx_http_v2_huff_encode_table 8 = (28, 268435432)" "huff_code ngx_http_v2_huff_encode_table 9 = (24, 16777194)"
  "huff_code ngx_http_v2_huff_encode_table 10 = (30, 1073741820)" "huff_code ngx_http_v2_huff_encode_table 11 = (28, 268435433)"
  "huff_code ngx_http_v2_huff_encode_table 12 = (28, 268435434)" "huff_code ngx_http_v2_huff_encode_table 13 = (30, 1073741821)"
  "huff_code ngx_http_v2_huff_encode_table 14 = (28, 268435435)" "huff_code ngx_http_v2_huff_encode_table 15 = (28, 268435436)"
  by (simp_all add: huff_code_def huff_table_at, simp_all add: huff_encode_table_0_def)

lemma huff_code_at_1:
  "huff_code ngx_http_v2_huff_encode_table 16 = (28, 268435437)" "huff_code ngx_http_v2_huff_encode_table 17 = (28, 268435438)"
  "huff_code ngx_http_v2_huff_encode_table 18 = (28, 268435439)" "huff_code ngx_http_v2_huff_encode_table 19 = (28, 268435440)"
  "huff_code ngx_http_v2_huff_encode_table 20 = (28, 268435441)" "huff_code ngx_http_v2_huff_encode_table 21 = (28, 268435442)"
  "huff_code ngx_http_v2_huff_encode_table 22 = (30, 1073741822)" "huff_code ngx_http_v2_huff_encode_table 23 = (28, 268435443)"
  "huff_code ngx_http_v2_huff_encode_table 24 = (28, 268435444)" "huff_code ngx_http_v2_huff_encode_table 25 = (28, 268435445)"
  "huff_code ngx_http_v2_huff_encode_table 26 = (28, 268435446)" "huff_code ngx_http_v2_huff_encode_table 27 = (28, 268435447)"
  "huff_code ngx_http_v2_huff_encode_table 28 = (28, 268435448)" "huff_code ngx_http_v2_huff_encode_table 29 = (28, 268435449)"
  "huff_code ngx_http_v2_huff_encode_table 30 = (28, 268435450)" "huff_code ngx_http_v2_huff_encode_table 31 = (28, 268435451)"
  by (simp_all add: huff_code_def huff_table_at, simp_all add: huff_encode_table_1_def)

lemma huff_code_at_2:
  "huff_code ngx_http_v2_huff_encode_table 32 = (6, 20)" "huff_code ngx_http_v2_huff_encode_table 33 = (10, 1016)"
  "huff_code ngx_http_v2_huff_encode_table 34 = (10, 1017)" "huff_code ngx_http_v2_huff_encode_table 35 = (12, 4090)"
  "huff_code ngx_http_v2_huff_encode_table 36 = (13, 8185)" "huff_code ngx_http_v2_huff_encode_table 37 = (6, 21)"
  "huff_code ngx_http_v2_huff_encode_table 38 = (8, 248)" "huff_code ngx_http_v2_huff_encode_table 39 = (11, 2042)"
  "huff_code ngx_http_v2_huff_encode_table 40 = (10, 1018)" "huff_code ngx_http_v2_huff_encode_table 41 = (10, 1019)"
  "huff_code ngx_http_v2_huff_encode_table 42 = (8, 249)" "huff_code ngx_http_v2_huff_encode_table 43 = (11, 2043)"
  "huff_code ngx_http_v2_huff_encode_table 44 = (8, 250)" "huff_code ngx_http_v2_huff_encode_table 45 = (6, 22)"
  "huff_code ngx_http_v2_huff_encode_table 46 = (6, 23)" "huff_code ngx_http_v2_huff_encode_table 47 = (6, 24)"
  by (simp_all add: huff_code_def huff_table_at, simp_all add: huff_encode_table_2_def)

lemma huff_code_at_3:
  "huff_code ngx_http_v2_huff_encode_table 48 = (5, 0)" "huff_code ngx_http_v2_huff_encode_table 49 = (5, 1)"
  "huff_code ngx_http_v2_huff_encode_table 50 = (5, 2)" "huff_code ngx_http_v2_huff_encode_table 51 = (6, 25)"
  "huff_code ngx_http_v2_huff_encode_table 52 = (6, 26)" "huff_code ngx_http_v2_huff_encode_table 53 = (6, 27)"
  "huff_code ngx_http_v2_huff_encode_table 54 = (6, 28)" "huff_code ngx_http_v2_huff_encode_table 55 = (6, 29)"
  "huff_code ngx_http_v2_huff_encode_table 56 = (6, 30)" "huff_code ngx_http_v2_huff_encode_table 57 = (6, 31)"
  "huff_code ngx_http_v2_huff_encode_table 58 = (7, 92)" "huff_code ngx_http_v2_huff_encode_table 59 = (8, 251)"
  "huff_code ngx_http_v2_huff_encode_table 60 = (15, 32764)" "huff_code ngx_http_v2_huff_encode_table 61 = (6, 32)"
  "huff_code ngx_http_v2_huff_encode_table 62 = (12, 4091)" "huff_code ngx_http_v2_huff_encode_table 63 = (10, 1020)"
  by (simp_all add: huff_code_def huff_table_at, simp_all add: huff_encode_table_3_def)

lemma huff_code_at_4:
  "huff_code ngx_http_v2_huff_encode_table 64 = (13, 8186)" "huff_code ngx_http_v2_huff_encode_table 65 = (6, 33)"
  "huff_code ngx_http_v2_huff_encode_table 66 = (7, 93)" "huff_code ngx_http_v2_huff_encode_table 67 = (7, 94)"
  "huff_code ngx_http_v2_huff_encode_table 68 = (7, 95)" "huff_code ngx_http_v2_huff_encode_table 69 = (7, 96)"
  "huff_code ngx_http_v2_huff_encode_table 70 = (7, 97)" "huff_code ngx_http_v2_huff_encode_table 71 = (7, 98)"
  "huff_code ngx_http_v2_huff_encode_table 72 = (7, 99)" "huff_code ngx_http_v2_huff_encode_table 73 = (7, 100)"
  "huff_code ngx_http_v2_huff_encode_table 74 = (7, 101)" "huff_code ngx_http_v2_huff_encode_table 75 = (7, 102)"
  "huff_code ngx_http_v2_huff_encode_table 76 = (7, 103)" "huff_code ngx_http_v2_huff_encode_table 77 = (7, 104)"
  "huff_code ngx_http_v2_huff_encode_table 78 = (7, 105)" "huff_code ngx_http_v2_huff_encode_table 79 = (7, 106)"
  by (simp_all add: huff_code_def huff_table_at, simp_all add: huff_encode_table_4_def)

lemma huff_code_at_5:
  "huff_code ngx_http_v2_huff_encode_table 80 = (7, 107)" "huff_code ngx_http_v2_huff_encode_table 81 = (7, 108)"
  "huff_code ngx_http_v2_huff_encode_table 82 = (7, 109)" "huff_code ngx_http_v2_huff_encode_table 83 = (7, 110)"
  "huff_code ngx_http_v2_huff_encode_table 84 = (7, 111)" "huff_code ngx_http_v2_huff_encode_table 85 = (7, 112)"
  "huff_code ngx_http_v2_huff_encode_table 86 = (7, 113)" "huff_code ngx_http_v2_huff_encode_table 87 = (7, 114)"
  "huff_code ngx_http_v2_huff_encode_table 88 = (8, 252)" "huff_code ngx_http_v2_huff_encode_table 89 = (7, 115)"
  "huff_code ngx_http_v2_huff_encode_table 90 = (8, 253)" "huff_code ngx_http_v2_huff_encode_table 91 = (13, 8187)"
  "huff_code ngx_http_v2_huff_encode_table 92 = (19, 524272)" "huff_code ngx_http_v2_huff_encode_table 93 = (13, 8188)"
  "huff_code ngx_http_v2_huff_encode_table 94 = (14, 16380)" "huff_code ngx_http_v2_huff_encode_table 95 = (6, 34)"
  by (simp_all add: huff_code_def huff_table_at, simp_all add: huff_encode_table_5_def)

lemma huff_code_at_6:
  "huff_code ngx_http_v2_huff_encode_table 96 = (15, 32765)" "huff_code ngx_http_v2_huff_encode_table 97 = (5, 3)"
  "huff_code ngx_http_v2_huff_encode_table 98 = (6, 35)" "huff_code ngx_http_v2_huff_encode_table 99 = (5, 4)"
  "huff_code ngx_http_v2_huff_encode_table 100 = (6, 36)" "huff_code ngx_http_v2_huff_encode_table 101 = (5, 5)"
  "huff_code ngx_http_v2_huff_encode_table 102 = (6, 37)" "huff_code ngx_http_v2_huff_encode_table 103 = (6, 38)"
  "huff_code ngx_http_v2_huff_encode_table 104 = (6, 39)" "huff_code ngx_http_v2_huff_encode_table 105 = (5, 6)"
  "huff_code ngx_http_v2_huff_encode_table 106 = (7, 116)" "huff_code ngx_http_v2_huff_encode_table 107 = (7, 117)"
  "huff_code ngx_http_v2_huff_encode_table 108 = (6, 40)" "huff_code ngx_http_v2_huff_encode_table 109 = (6, 41)"
  "huff_code ngx_http_v2_huff_encode_table 110 = (6, 42)" "huff_code ngx_http_v2_huff_encode_table 111 = (5, 7)"
  by (simp_all add: huff_code_def huff_table_at, simp_all add: huff_encode_table_6_def)

lemma huff_code_at_7:
  "huff_code ngx_http_v2_huff_encode_table 112 = (6, 43)" "huff_code ngx_http_v2_huff_encode_table 113 = (7, 118)"
  "huff_code ngx_http_v2_huff_encode_table 114 = (6, 44)" "huff_code ngx_http_v2_huff_encode_table 115 = (5, 8)"
  "huff_code ngx_http_v2_huff_encode_table 116 = (5, 9)" "huff_code ngx_http_v2_huff_encode_table 117 = (6, 45)"
  "huff_code ngx_http_v2_huff_encode_table 118 = (7, 119)" "huff_code ngx_http_v2_huff_encode_table 119 = (7, 120)"
  "huff_code ngx_http_v2_huff_encode_table 120 = (7, 121)" "huff_code ngx_http_v2_huff_encode_table 121 = (7, 122)"
  "huff_code ngx_http_v2_huff_encode_table 122 = (7, 123)" "huff_code ngx_http_v2_huff_encode_table 123 = (15, 32766)"
  "huff_code ngx_http_v2_huff_encode_table 124 = (11, 2044)" "huff_code ngx_http_v2_huff_encode_table 125 = (14, 16381)"
  "huff_code ngx_http_v2_huff_encode_table 126 = (13, 8189)" "huff_code ngx_http_v2_huff_encode_table 127 = (28, 268435452)"
  by (simp_all add: huff_code_def huff_table_at, simp_all add: huff_encode_table_7_def)

lemma huff_code_at_8:
  "huff_code ngx_http_v2_huff_encode_table 128 = (20, 1048550)" "huff_code ngx_http_v2_huff_encode_table 129 = (22, 4194258)"
  "huff_code ngx_http_v2_huff_encode_table 130 = (20, 1048551)" "huff_code ngx_http_v2_huff_encode_table 131 = (20, 1048552)"
  "huff_code ngx_http_v2_huff_encode_table 132 = (22, 4194259)" "huff_code ngx_http_v2_huff_encode_table 133 = (22, 4194260)"
  "huff_code ngx_http_v2_huff_encode_table 134 = (22, 4194261)" "huff_code ngx_http_v2_huff_encode_table 135 = (23, 8388569)"
  "huff_code ngx_http_v2_huff_encode_table 136 = (22, 4194262)" "huff_code ngx_http_v2_huff_encode_table 137 = (23, 8388570)"
  "huff_code ngx_http_v2_huff_encode_table 138 = (23, 8388571)" "huff_code ngx_http_v2_huff_encode_table 139 = (23, 8388572)"
  "huff_code ngx_http_v2_huff_encode_table 140 = (23, 8388573)" "huff_code ngx_http_v2_huff_encode_table 141 = (23, 8388574)"
  "huff_code ngx_http_v2_huff_encode_table 142 = (24, 16777195)" "huff_code ngx_http_v2_huff_encode_table 143 = (23, 8388575)"
  by (simp_all add: huff_code_def huff_table_at, simp_all add: huff_encode_table_8_def)

lemma huff_code_at_9:
  "huff_code ngx_http_v2_huff_encode_table 144 = (24, 16777196)" "huff_code ngx_http_v2_huff_encode_table 145 = (24, 16777197)"
  "huff_code ngx_http_v2_huff_encode_table 146 = (22, 4194263)" "huff_code ngx_http_v2_huff_encode_table 147 = (23, 8388576)"
  "huff_code ngx_http_v2_huff_encode_table 148 = (24, 16777198)" "huff_code ngx_http_v2_huff_encode_table 149 = (23, 8388577)"
  "huff_code ngx_http_v2_huff_encode_table 150 = (23, 8388578)" "huff_code ngx_http_v2_huff_encode_table 151 = (23, 8388579)"
  "huff_code ngx_http_v2_huff_encode_table 152 = (23, 8388580)" "huff_code ngx_http_v2_huff_encode_table 153 = (21, 2097116)"
  "huff_code ngx_http_v2_huff_encode_table 154 = (22, 4194264)" "huff_code ngx_http_v2_huff_encode_table 155 = (23, 8388581)"
  "huff_code ngx_http_v2_huff_encode_table 156 = (22, 4194265)" "huff_code ngx_http_v2_huff_encode_table 157 = (23, 8388582)"
  "huff_code ngx_http_v2_huff_encode_table 158 = (23, 8388583)" "huff_code ngx_http_v2_huff_encode_table 159 = (24, 16777199)"
  by (simp_all add: huff_code_def huff_table_at, simp_all add: huff_encode_table_9_def)

lemma huff_code_at_10:
  "huff_code ngx_http_v2_huff_encode_table 160 = (22, 4194266)" "huff_code ngx_http_v2_huff_encode_table 161 = (21, 2097117)"
  "huff_code ngx_http_v2_huff_encode_table 162 = (20, 1048553)" "huff_code ngx_http_v2_huff_encode_table 163 = (22, 4194267)"
  "huff_code ngx_http_v2_huff_encode_table 164 = (22, 4194268)" "huff_code ngx_http_v2_huff_encode_table 165 = (23, 8388584)"
  "huff_code ngx_http_v2_huff_encode_table 166 = (23, 8388585)" "huff_code ngx_http_v2_huff_encode_table 167 = (21, 2097118)"
  "huff_code ngx_http_v2_huff_encode_table 168 = (23, 8388586)" "huff_code ngx_http_v2_huff_encode_table 169 = (22, 4194269)"
  "huff_code ngx_http_v2_huff_encode_table 170 = (22, 4194270)" "huff_code ngx_http_v2_huff_encode_table 171 = (24, 16777200)"
  "huff_code ngx_http_v2_huff_encode_table 172 = (21, 2097119)" "huff_code ngx_http_v2_huff_encode_table 173 = (22, 4194271)"
  "huff_code ngx_http_v2_huff_encode_table 174 = (23, 8388587)" "huff_code ngx_http_v2_huff_encode_table 175 = (23, 8388588)"
  by (simp_all add: huff_code_def huff_table_at, simp_all add: huff_encode_table_10_def)

lemma huff_code_at_11:
  "huff_code ngx_http_v2_huff_encode_table 176 = (21, 2097120)" "huff_code ngx_http_v2_huff_encode_table 177 = (21, 2097121)"
  "huff_code ngx_http_v2_huff_encode_table 178 = (22, 4194272)" "huff_code ngx_http_v2_huff_encode_table 179 = (21, 2097122)"
  "huff_code ngx_http_v2_huff_encode_table 180 = (23, 8388589)" "huff_code ngx_http_v2_huff_encode_table 181 = (22, 4194273)"
  "huff_code ngx_http_v2_huff_encode_table 182 = (23, 8388590)" "huff_code ngx_http_v2_huff_encode_table 183 = (23, 8388591)"
  "huff_code ngx_http_v2_huff_encode_table 184 = (20, 1048554)" "huff_code ngx_http_v2_huff_encode_table 185 = (22, 4194274)"
  "huff_code ngx_http_v2_huff_encode_table 186 = (22, 4194275)" "huff_code ngx_http_v2_huff_encode_table 187 = (22, 4194276)"
  "huff_code ngx_http_v2_huff_encode_table 188 = (23, 8388592)" "huff_code ngx_http_v2_huff_encode_table 189 = (22, 4194277)"
  "huff_code ngx_http_v2_huff_encode_table 190 = (22, 4194278)" "huff_code ngx_http_v2_huff_encode_table 191 = (23, 8388593)"
  by (simp_all add: huff_code_def huff_table_at, simp_all add: huff_encode_table_11_def)

lemma huff_code_at_12:
  "huff_code ngx_http_v2_huff_encode_table 192 = (26, 67108832)" "huff_code ngx_http_v2_huff_encode_table 193 = (26, 67108833)"
  "huff_code ngx_http_v2_huff_encode_table 194 = (20, 1048555)" "huff_code ngx_http_v2_huff_encode_table 195 = (19, 524273)"
  "huff_code ngx_http_v2_huff_encode_table 196 = (22, 4194279)" "huff_code ngx_http_v2_huff_encode_table 197 = (23, 8388594)"
  "huff_code ngx_http_v2_huff_encode_table 198 = (22, 4194280)" "huff_code ngx_http_v2_huff_encode_table 199 = (25, 33554412)"
  "huff_code ngx_http_v2_huff_encode_table 200 = (26, 67108834)" "huff_code ngx_http_v2_huff_encode_table 201 = (26, 67108835)"
  "huff_code ngx_http_v2_huff_encode_table 202 = (26, 67108836)" "huff_code ngx_http_v2_huff_encode_table 203 = (27, 134217694)"
  "huff_code ngx_http_v2_huff_encode_table 204 = (27, 134217695)" "huff_code ngx_http_v2_huff_encode_table 205 = (26, 67108837)"
  "huff_code ngx_http_v2_huff_encode_table 206 = (24, 16777201)" "huff_code ngx_http_v2_huff_encode_table 207 = (25, 33554413)"
  by (simp_all add: huff_code_def huff_table_at, simp_all add: huff_encode_table_12_def)

lemma huff_code_at_13:
  "huff_code ngx_http_v2_huff_encode_table 208 = (19, 524274)" "huff_code ngx_http_v2_huff_encode_table 209 = (21, 2097123)"
  "huff_code ngx_http_v2_huff_encode_table 210 = (26, 67108838)" "huff_code ngx_http_v2_huff_encode_table 211 = (27, 134217696)"
  "huff_code ngx_http_v2_huff_encode_table 212 = (27, 134217697)" "huff_code ngx_http_v2_huff_encode_table 213 = (26, 67108839)"
  "huff_code ngx_http_v2_huff_encode_table 214 = (27, 134217698)" "huff_code ngx_http_v2_huff_encode_table 215 = (24, 16777202)"
  "huff_code ngx_http_v2_huff_encode_table 216 = (21, 2097124)" "huff_code ngx_http_v2_huff_encode_table 217 = (21, 2097125)"
  "huff_code ngx_http_v2_huff_encode_table 218 = (26, 67108840)" "huff_code ngx_http_v2_huff_encode_table 219 = (26, 67108841)"
  "huff_code ngx_http_v2_huff_encode_table 220 = (28, 268435453)" "huff_code ngx_http_v2_huff_encode_table 221 = (27, 134217699)"
  "huff_code ngx_http_v2_huff_encode_table 222 = (27, 134217700)" "huff_code ngx_http_v2_huff_encode_table 223 = (27, 134217701)"
  by (simp_all add: huff_code_def huff_table_at, simp_all add: huff_encode_table_13_def)

lemma huff_code_at_14:
  "huff_code ngx_http_v2_huff_encode_table 224 = (20, 1048556)" "huff_code ngx_http_v2_huff_encode_table 225 = (24, 16777203)"
  "huff_code ngx_http_v2_huff_encode_table 226 = (20, 1048557)" "huff_code ngx_http_v2_huff_encode_table 227 = (21, 2097126)"
  "huff_code ngx_http_v2_huff_encode_table 228 = (22, 4194281)" "huff_code ngx_http_v2_huff_encode_table 229 = (21, 2097127)"
  "huff_code ngx_http_v2_huff_encode_table 230 = (21, 2097128)" "huff_code ngx_http_v2_huff_encode_table 231 = (23, 8388595)"
  "huff_code ngx_http_v2_huff_encode_table 232 = (22, 4194282)" "huff_code ngx_http_v2_huff_encode_table 233 = (22, 4194283)"
  "huff_code ngx_http_v2_huff_encode_table 234 = (25, 33554414)" "huff_code ngx_http_v2_huff_encode_table 235 = (25, 33554415)"
  "huff_code ngx_http_v2_huff_encode_table 236 = (24, 16777204)" "huff_code ngx_http_v2_huff_encode_table 237 = (24, 16777205)"
  "huff_code ngx_http_v2_huff_encode_table 238 = (26, 67108842)" "huff_code ngx_http_v2_huff_encode_table 239 = (23, 8388596)"
  by (simp_all add: huff_code_def huff_table_at, simp_all add: huff_encode_table_14_def)

lemma huff_code_at_15:
  "huff_code ngx_http_v2_huff_encode_table 240 = (26, 67108843)" "huff_code ngx_http_v2_huff_encode_table 241 = (27, 134217702)"
  "huff_code ngx_http_v2_huff_encode_table 242 = (26, 67108844)" "huff_code ngx_http_v2_huff_encode_table 243 = (26, 67108845)"
  "huff_code ngx_http_v2_huff_encode_table 244 = (27, 134217703)" "huff_code ngx_http_v2_huff_encode_table 245 = (27, 134217704)"
  "huff_code ngx_http_v2_huff_encode_table 246 = (27, 134217705)" "huff_code ngx_http_v2_huff_encode_table 247 = (27, 134217706)"
  "huff_code ngx_http_v2_huff_encode_table 248 = (27, 134217707)" "huff_code ngx_http_v2_huff_encode_table 249 = (28, 268435454)"
  "huff_code ngx_http_v2_huff_encode_table 250 = (27, 134217708)" "huff_code ngx_http_v2_huff_encode_table 251 = (27, 134217709)"
  "huff_code ngx_http_v2_huff_encode_table 252 = (27, 134217710)" "huff_code ngx_http_v2_huff_encode_table 253 = (27, 134217711)"
  "huff_code ngx_http_v2_huff_encode_table 254 = (27, 134217712)" "huff_code ngx_http_v2_huff_encode_table 255 = (26, 67108846)"
  by (simp_all add: huff_code_def huff_table_at, simp_all add: huff_encode_table_15_def)

lemma huff_code_lc_at_0:
  "huff_code ngx_http_v2_huff_encode_table_lc 0 = (13, 8184)" "huff_code ngx_http_v2_huff_encode_table_lc 1 = (23, 8388568)"
  "huff_code ngx_http_v2_huff_encode_table_lc 2 = (28, 268435426)" "huff_code ngx_http_v2_huff_encode_table_lc 3 = (28, 268435427)"
  "huff_code ngx_http_v2_huff_encode_table_lc 4 = (28, 268435428)" "huff_code ngx_http_v2_huff_encode_table_lc 5 = (28, 268435429)"
  "huff_code ngx_http_v2_huff_encode_table_lc 6 = (28, 268435430)" "huff_code ngx_http_v2_huff_encode_table_lc 7 = (28, 268435431)"
  "huff_code ngx_http_v2_huff_encode_table_lc 8 = (28, 268435432)" "huff_code ngx_http_v2_huff_encode_table_lc 9 = (24, 16777194)"
  "huff_code ngx_http_v2_huff_encode_table_lc 10 = (30, 1073741820)" "huff_code ngx_http_v2_huff_encode_table_lc 11 = (28, 268435433)"
  "huff_code ngx_http_v2_huff_encode_table_lc 12 = (28, 268435434)" "huff_code ngx_http_v2_huff_encode_table_lc 13 = (30, 1073741821)"
  "huff_code ngx_http_v2_huff_encode_table_lc 14 = (28, 268435435)" "huff_code ngx_http_v2_huff_encode_table_lc 15 = (28, 268435436)"
  by (simp_all add: huff_code_def huff_table_lc_at, simp_all add: huff_encode_table_lc_0_def)

lemma huff_code_lc_at_1:
  "huff_code ngx_http_v2_huff_encode_table_lc 16 = (28, 268435437)" "huff_code ngx_http_v2_huff_encode_table_lc 17 = (28, 268435438)"
  "huff_code ngx_http_v2_huff_encode_table_lc 18 = (28, 268435439)" "huff_code ngx_http_v2_huff_encode_table_lc 19 = (28, 268435440)"
  "huff_code ngx_http_v2_huff_encode_table_lc 20 = (28, 268435441)" "huff_code ngx_http_v2_huff_encode_table_lc 21 = (28, 268435442)"
  "huff_code ngx_http_v2_huff_encode_table_lc 22 = (30, 1073741822)" "huff_code ngx_http_v2_huff_encode_table_lc 23 = (28, 268435443)"
  "huff_code ngx_http_v2_huff_encode_table_lc 24 = (28, 268435444)" "huff_code ngx_http_v2_huff_encode_table_lc 25 = (28, 268435445)"
  "huff_code ngx_http_v2_huff_encode_table_lc 26 = (28, 268435446)" "huff_code ngx_http_v2_huff_encode_table_lc 27 = (28, 268435447)"
  "huff_code ngx_http_v2_huff_encode_table_lc 28 = (28, 268435448)" "huff_code ngx_http_v2_huff_encode_table_lc 29 = (28, 268435449)"
  "huff_code ngx_http_v2_huff_encode_table_lc 30 = (28, 268435450)" "huff_code ngx_http_v2_huff_encode_table_lc 31 = (28, 268435451)"
  by (simp_all add: huff_code_def huff_table_lc_at, simp_all add: huff_encode_table_lc_1_def)

lemma huff_code_lc_at_2:
  "huff_code ngx_http_v2_huff_encode_table_lc 32 = (6, 20)" "huff_code ngx_http_v2_huff_encode_table_lc 33 = (10, 1016)"
  "huff_code ngx_http_v2_huff_encode_table_lc 34 = (10, 1017)" "huff_code ngx_http_v2_huff_encode_table_lc 35 = (12, 4090)"
  "huff_code ngx_http_v2_huff_encode_table_lc 36 = (13, 8185)" "huff_code ngx_http_v2_huff_encode_table_lc 37 = (6, 21)"
  "huff_code ngx_http_v2_huff_encode_table_lc 38 = (8, 248)" "huff_code ngx_http_v2_huff_encode_table_lc 39 = (11, 2042)"
  "huff_code ngx_http_v2_huff_encode_table_lc 40 = (10, 1018)" "huff_code ngx_http_v2_huff_encode_table_lc 41 = (10, 1019)"
  "huff_code ngx_http_v2_huff_encode_table_lc 42 = (8, 249)" "huff_code ngx_http_v2_huff_encode_table_lc 43 = (11, 2043)"
  "huff_code ngx_http_v2_huff_encode_table_lc 44 = (8, 250)" "huff_code ngx_http_v2_huff_encode_table_lc 45 = (6, 22)"
  "huff_code ngx_http_v2_huff_encode_table_lc 46 = (6, 23)" "huff_code ngx_http_v2_huff_encode_table_lc 47 = (6, 24)"
  by (simp_all add: huff_code_def huff_table_lc_at, simp_all add: huff_encode_table_lc_2_def)

lemma huff_code_lc_at_3:
  "huff_code ngx_http_v2_huff_encode_table_lc 48 = (5, 0)" "huff_code ngx_http_v2_huff_encode_table_lc 49 = (5, 1)"
  "huff_code ngx_http_v2_huff_encode_table_lc 50 = (5, 2)" "huff_code ngx_http_v2_huff_encode_table_lc 51 = (6, 25)"
  "huff_code ngx_http_v2_huff_encode_table_lc 52 = (6, 26)" "huff_code ngx_http_v2_huff_encode_table_lc 53 = (6, 27)"
  "huff_code ngx_http_v2_huff_encode_table_lc 54 = (6, 28)" "huff_code ngx_http_v2_huff_encode_table_lc 55 = (6, 29)"
  "huff_code ngx_http_v2_huff_encode_table_lc 56 = (6, 30)" "huff_code ngx_http_v2_huff_encode_table_lc 57 = (6, 31)"
  "huff_code ngx_http_v2_huff_encode_table_lc 58 = (7, 92)" "huff_code ngx_http_v2_huff_encode_table_lc 59 = (8, 251)"
  "huff_code ngx_http_v2_huff_encode_table_lc 60 = (15, 32764)" "huff_code ngx_http_v2_huff_encode_table_lc 61 = (6, 32)"
  "huff_code ngx_http_v2_huff_encode_table_lc 62 = (12, 4091)" "huff_code ngx_http_v2_huff_encode_table_lc 63 = (10, 1020)"
  by (simp_all add: huff_code_def huff_table_lc_at, simp_all add: huff_encode_table_lc_3_def)

lemma huff_code_lc_at_4:
  "huff_code ngx_http_v2_huff_encode_table_lc 64 = (13, 8186)" "huff_code ngx_http_v2_huff_encode_table_lc 65 = (5, 3)"
  "huff_code ngx_http_v2_huff_encode_table_lc 66 = (6, 35)" "huff_code ngx_http_v2_huff_encode_table_lc 67 = (5, 4)"
  "huff_code ngx_http_v2_huff_encode_table_lc 68 = (6, 36)" "huff_code ngx_http_v2_huff_encode_table_lc 69 = (5, 5)"
  "huff_code ngx_http_v2_huff_encode_table_lc 70 = (6, 37)" "huff_code ngx_http_v2_huff_encode_table_lc 71 = (6, 38)"
  "huff_code ngx_http_v2_huff_encode_table_lc 72 = (6, 39)" "huff_code ngx_http_v2_huff_encode_table_lc 73 = (5, 6)"
  "huff_code ngx_http_v2_huff_encode_table_lc 74 = (7, 116)" "huff_code ngx_http_v2_huff_encode_table_lc 75 = (7, 117)"
  "huff_code ngx_http_v2_huff_encode_table_lc 76 = (6, 40)" "huff_code ngx_http_v2_huff_encode_table_lc 77 = (6, 41)"
  "huff_code ngx_http_v2_huff_encode_table_lc 78 = (6, 42)" "huff_code ngx_http_v2_huff_encode_table_lc 79 = (5, 7)"
  by (simp_all add: huff_code_def huff_table_lc_at, simp_all add: huff_encode_table_lc_4_def)

lemma huff_code_lc_at_5:
  "huff_code ngx_http_v2_huff_encode_table_lc 80 = (6, 43)" "huff_code ngx_http_v2_huff_encode_table_lc 81 = (7, 118)"
  "huff_code ngx_http_v2_huff_encode_table_lc 82 = (6, 44)" "huff_code ngx_http_v2_huff_encode_table_lc 83 = (5, 8)"
  "huff_code ngx_http_v2_huff_encode_table_lc 84 = (5, 9)" "huff_code ngx_http_v2_huff_encode_table_lc 85 = (6, 45)"
  "huff_code ngx_http_v2_huff_encode_table_lc 86 = (7, 119)" "huff_code ngx_http_v2_huff_encode_table_lc 87 = (7, 120)"
  "huff_code ngx_http_v2_huff_encode_table_lc 88 = (7, 121)" "huff_code ngx_http_v2_huff_encode_table_lc 89 = (7, 122)"
  "huff_code ngx_http_v2_huff_encode_table_lc 90 = (7, 123)" "huff_code ngx_http_v2_huff_encode_table_lc 91 = (13, 8187)"
  "huff_code ngx_http_v2_huff_encode_table_lc 92 = (19, 524272)" "huff_code ngx_http_v2_huff_encode_table_lc 93 = (13, 8188)"
  "huff_code ngx_http_v2_huff_encode_table_lc 94 = (14, 16380)" "huff_code ngx_http_v2_huff_encode_table_lc 95 = (6, 34)"
  by (simp_all add: huff_code_def huff_table_lc_at, simp_all add: huff_encode_table_lc_5_def)

lemma huff_code_lc_at_6:
  "huff_code ngx_http_v2_huff_encode_table_lc 96 = (15, 32765)" "huff_code ngx_http_v2_huff_encode_table_lc 97 = (5, 3)"
  "huff_code ngx_http_v2_huff_encode_table_lc 98 = (6, 35)" "huff_code ngx_http_v2_huff_encode_table_lc 99 = (5, 4)"
  "huff_code ngx_http_v2_huff_encode_table_lc 100 = (6, 36)" "huff_code ngx_http_v2_huff_encode_table_lc 101 = (5, 5)"
  "huff_code ngx_http_v2_huff_encode_table_lc 102 = (6, 37)" "huff_code ngx_http_v2_huff_encode_table_lc 103 = (6, 38)"
  "huff_code ngx_http_v2_huff_encode_table_lc 104 = (6, 39)" "huff_code ngx_http_v2_huff_encode_table_lc 105 = (5, 6)"
  "huff_code ngx_http_v2_huff_encode_table_lc 106 = (7, 116)" "huff_code ngx_http_v2_huff_encode_table_lc 107 = (7, 117)"
  "huff_code ngx_http_v2_huff_encode_table_lc 108 = (6, 40)" "huff_code ngx_http_v2_huff_encode_table_lc 109 = (6, 41)"
  "huff_code ngx_http_v2_huff_encode_table_lc 110 = (6, 42)" "huff_code ngx_http_v2_huff_encode_table_lc 111 = (5, 7)"
  by (simp_all add: huff_code_def huff_table_lc_at, simp_all add: huff_encode_table_lc_6_def)

lemma huff_code_lc_at_7:
  "huff_code ngx_http_v2_huff_encode_table_lc 112 = (6, 43)" "huff_code ngx_http_v2_huff_encode_table_lc 113 = (7, 118)"
  "huff_code ngx_http_v2_huff_encode_table_lc 114 = (6, 44)" "huff_code ngx_http_v2_huff_encode_table_lc 115 = (5, 8)"
  "huff_code ngx_http_v2_huff_encode_table_lc 116 = (5, 9)" "huff_code ngx_http_v2_huff_encode_table_lc 117 = (6, 45)"
  "huff_code ngx_http_v2_huff_encode_table_lc 118 = (7, 119)" "huff_code ngx_http_v2_huff_encode_table_lc 119 = (7, 120)"
  "huff_code ngx_http_v2_huff_encode_table_lc 120 = (7, 121)" "huff_code ngx_http_v2_huff_encode_table_lc 121 = (7, 122)"
  "huff_code ngx_http_v2_huff_encode_table_lc 122 = (7, 123)" "huff_code ngx_http_v2_huff_encode_table_lc 123 = (15, 32766)"
  "huff_code ngx_http_v2_huff_encode_table_lc 124 = (11, 2044)" "huff_code ngx_http_v2_huff_encode_table_lc 125 = (14, 16381)"
  "huff_code ngx_http_v2_huff_encode_table_lc 126 = (13, 8189)" "huff_code ngx_http_v2_huff_encode_table_lc 127 = (28, 268435452)"
  by (simp_all add: huff_code_def huff_table_lc_at, simp_all add: huff_encode_table_lc_7_def)

lemma huff_code_lc_at_8:
  "huff_code ngx_http_v2_huff_encode_table_lc 128 = (20, 1048550)" "huff_code ngx_http_v2_huff_encode_table_lc 129 = (22, 4194258)"
  "huff_code ngx_http_v2_huff_encode_table_lc 130 = (20, 1048551)" "huff_code ngx_http_v2_huff_encode_table_lc 131 = (20, 1048552)"
  "huff_code ngx_http_v2_huff_encode_table_lc 132 = (22, 4194259)" "huff_code ngx_http_v2_huff_encode_table_lc 133 = (22, 4194260)"
  "huff_code ngx_http_v2_huff_encode_table_lc 134 = (22, 4194261)" "huff_code ngx_http_v2_huff_encode_table_lc 135 = (23, 8388569)"
  "huff_code ngx_http_v2_huff_encode_table_lc 136 = (22, 4194262)" "huff_code ngx_http_v2_huff_encode_table_lc 137 = (23, 8388570)"
  "huff_code ngx_http_v2_huff_encode_table_lc 138 = (23, 8388571)" "huff_code ngx_http_v2_huff_encode_table_lc 139 = (23, 8388572)"
  "huff_code ngx_http_v2_huff_encode_table_lc 140 = (23, 8388573)" "huff_code ngx_http_v2_huff_encode_table_lc 141 = (23, 8388574)"
  "huff_code ngx_http_v2_huff_encode_table_lc 142 = (24, 16777195)" "huff_code ngx_http_v2_huff_encode_table_lc 143 = (23, 8388575)"
  by (simp_all add: huff_code_def huff_table_lc_at, simp_all add: huff_encode_table_lc_8_def)

lemma huff_code_lc_at_9:
  "huff_code ngx_http_v2_huff_encode_table_lc 144 = (24, 16777196)" "huff_code ngx_http_v2_huff_encode_table_lc 145 = (24, 16777197)"
  "huff_code ngx_http_v2_huff_encode_table_lc 146 = (22, 4194263)" "huff_code ngx_http_v2_huff_encode_table_lc 147 = (23, 8388576)"
  "huff_code ngx_http_v2_huff_encode_table_lc 148 = (24, 16777198)" "huff_code ngx_http_v2_huff_encode_table_lc 149 = (23, 8388577)"
  "huff_code ngx_http_v2_huff_encode_table_lc 150 = (23, 8388578)" "huff_code ngx_http_v2_huff_encode_table_lc 151 = (23, 8388579)"
  "huff_code ngx_http_v2_huff_encode_table_lc 152 = (23, 8388580)" "huff_code ngx_http_v2_huff_encode_table_lc 153 = (21, 2097116)"
  "huff_code ngx_http_v2_huff_encode_table_lc 154 = (22, 4194264)" "huff_code ngx_http_v2_huff_encode_table_lc 155 = (23, 8388581)"
  "huff_code ngx_http_v2_huff_encode_table_lc 156 = (22, 4194265)" "huff_code ngx_http_v2_huff_encode_table_lc 157 = (23, 8388582)"
  "huff_code ngx_http_v2_huff_encode_table_lc 158 = (23, 8388583)" "huff_code ngx_http_v2_huff_encode_table_lc 159 = (24, 16777199)"
  by (simp_all add: huff_code_def huff_table_lc_at, simp_all add: huff_encode_table_lc_9_def)

lemma huff_code_lc_at_10:
  "huff_code ngx_http_v2_huff_encode_table_lc 160 = (22, 4194266)" "huff_code ngx_http_v2_huff_encode_table_lc 161 = (21, 2097117)"
  "huff_code ngx_http_v2_huff_encode_table_lc 162 = (20, 1048553)" "huff_code ngx_http_v2_huff_encode_table_lc 163 = (22, 4194267)"
  "huff_code ngx_http_v2_huff_encode_table_lc 164 = (22, 4194268)" "huff_code ngx_http_v2_huff_encode_table_lc 165 = (23, 8388584)"
  "huff_code ngx_http_v2_huff_encode_table_lc 166 = (23, 8388585)" "huff_code ngx_http_v2_huff_encode_table_lc 167 = (21, 2097118)"
  "huff_code ngx_http_v2_huff_encode_table_lc 168 = (23, 8388586)" "huff_code ngx_http_v2_huff_encode_table_lc 169 = (22, 4194269)"
  "huff_code ngx_http_v2_huff_encode_table_lc 170 = (22, 4194270)" "huff_code ngx_http_v2_huff_encode_table_lc 171 = (24, 16777200)"
  "huff_code ngx_http_v2_huff_encode_table_lc 172 = (21, 2097119)" "huff_code ngx_http_v2_huff_encode_table_lc 173 = (22, 4194271)"
  "huff_code ngx_http_v2_huff_encode_table_lc 174 = (23, 8388587)" "huff_code ngx_http_v2_huff_encode_table_lc 175 = (23, 8388588)"
  by (simp_all add: huff_code_def huff_table_lc_at, simp_all add: huff_encode_table_lc_10_def)

lemma huff_code_lc_at_11:
  "huff_code ngx_http_v2_huff_encode_table_lc 176 = (21, 2097120)" "huff_code ngx_http_v2_huff_encode_table_lc 177 = (21, 2097121)"
  "huff_code ngx_http_v2_huff_encode_table_lc 178 = (22, 4194272)" "huff_code ngx_http_v2_huff_encode_table_lc 179 = (21, 2097122)"
  "huff_code ngx_http_v2_huff_encode_table_lc 180 = (23, 8388589)" "huff_code ngx_http_v2_huff_encode_table_lc 181 = (22, 4194273)"
  "huff_code ngx_http_v2_huff_encode_table_lc 182 = (23, 8388590)" "huff_code ngx_http_v2_huff_encode_table_lc 183 = (23, 8388591)"
  "huff_code ngx_http_v2_huff_encode_table_lc 184 = (20, 1048554)" "huff_code ngx_http_v2_huff_encode_table_lc 185 = (22, 4194274)"
  "huff_code ngx_http_v2_huff_encode_table_lc 186 = (22, 4194275)" "huff_code ngx_http_v2_huff_encode_table_lc 187 = (22, 4194276)"
  "huff_code ngx_http_v2_huff_encode_table_lc 188 = (23, 8388592)" "huff_code ngx_http_v2_huff_encode_table_lc 189 = (22, 4194277)"
  "huff_code ngx_http_v2_huff_encode_table_lc 190 = (22, 4194278)" "huff_code ngx_http_v2_huff_encode_table_lc 191 = (23, 8388593)"
  by (simp_all add: huff_code_def huff_table_lc_at, simp_all add: huff_encode_table_lc_11_def)

lemma huff_code_lc_at_12:
  "huff_code ngx_http_v2_huff_encode_table_lc 192 = (26, 67108832)" "huff_code ngx_http_v2_huff_encode_table_lc 193 = (26, 67108833)"
  "huff_code ngx_http_v2_huff_encode_table_lc 194 = (20, 1048555)" "huff_code ngx_http_v2_huff_encode_table_lc 195 = (19, 524273)"
  "huff_code ngx_http_v2_huff_encode_table_lc 196 = (22, 4194279)" "huff_code ngx_http_v2_huff_encode_table_lc 197 = (23, 8388594)"
  "huff_code ngx_http_v2_huff_encode_table_lc 198 = (22, 4194280)" "huff_code ngx_http_v2_huff_encode_table_lc 199 = (25, 33554412)"
  "huff_code ngx_http_v2_huff_encode_table_lc 200 = (26, 67108834)" "huff_code ngx_http_v2_huff_encode_table_lc 201 = (26, 67108835)"
  "huff_code ngx_http_v2_huff_encode_table_lc 202 = (26, 67108836)" "huff_code ngx_http_v2_huff_encode_table_lc 203 = (27, 134217694)"
  "huff_code ngx_http_v2_huff_encode_table_lc 204 = (27, 134217695)" "huff_code ngx_http_v2_huff_encode_table_lc 205 = (26, 67108837)"
  "huff_code ngx_http_v2_huff_encode_table_lc 206 = (24, 16777201)" "huff_code ngx_http_v2_huff_encode_table_lc 207 = (25, 33554413)"
  by (simp_all add: huff_code_def huff_table_lc_at, simp_all add: huff_encode_table_lc_12_def)

lemma huff_code_lc_at_13:
  "huff_code ngx_http_v2_huff_encode_table_lc 208 = (19, 524274)" "huff_code ngx_http_v2_huff_encode_table_lc 209 = (21, 2097123)"
  "huff_code ngx_http_v2_huff_encode_table_lc 210 = (26, 67108838)" "huff_code ngx_http_v2_huff_encode_table_lc 211 = (27, 134217696)"
  "huff_code ngx_http_v2_huff_encode_table_lc 212 = (27, 134217697)" "huff_code ngx_http_v2_huff_encode_table_lc 213 = (26, 67108839)"
  "huff_code ngx_http_v2_huff_encode_table_lc 214 = (27, 134217698)" "huff_code ngx_http_v2_huff_encode_table_lc 215 = (24, 16777202)"
  "huff_code ngx_http_v2_huff_encode_table_lc 216 = (21, 2097124)" "huff_code ngx_http_v2_huff_encode_table_lc 217 = (21, 2097125)"
  "huff_code ngx_http_v2_huff_encode_table_lc 218 = (26, 67108840)" "huff_code ngx_http_v2_huff_encode_table_lc 219 = (26, 67108841)"
  "huff_code ngx_http_v2_huff_encode_table_lc 220 = (28, 268435453)" "huff_code ngx_http_v2_huff_encode_table_lc 221 = (27, 134217699)"
  "huff_code ngx_http_v2_huff_encode_table_lc 222 = (27, 134217700)" "huff_code ngx_http_v2_huff_encode_table_lc 223 = (27, 134217701)"
  by (simp_all add: huff_code_def huff_table_lc_at, simp_all add: huff_encode_table_lc_13_def)

lemma huff_code_lc_at_14:
  "huff_code ngx_http_v2_huff_encode_table_lc 224 = (20, 1048556)" "huff_code ngx_http_v2_huff_encode_table_lc 225 = (24, 16777203)"
  "huff_code ngx_http_v2_huff_encode_table_lc 226 = (20, 1048557)" "huff_code ngx_http_v2_huff_encode_table_lc 227 = (21, 2097126)"
  "huff_code ngx_http_v2_huff_encode_table_lc 228 = (22, 4194281)" "huff_code ngx_http_v2_huff_encode_table_lc 229 = (21, 2097127)"
  "huff_code ngx_http_v2_huff_encode_table_lc 230 = (21, 2097128)" "huff_code ngx_http_v2_huff_encode_table_lc 231 = (23, 8388595)"
  "huff_code ngx_http_v2_huff_encode_table_lc 232 = (22, 4194282)" "huff_code ngx_http_v2_huff_encode_table_lc 233 = (22, 4194283)"
  "huff_code ngx_http_v2_huff_encode_table_lc 234 = (25, 33554414)" "huff_code ngx_http_v2_huff_encode_table_lc 235 = (25, 33554415)"
  "huff_code ngx_http_v2_huff_encode_table_lc 236 = (24, 16777204)" "huff_code ngx_http_v2_huff_encode_table_lc 237 = (24, 16777205)"
  "huff_code ngx_http_v2_huff_encode_table_lc 238 = (26, 67108842)" "huff_code ngx_http_v2_huff_encode_table_lc 239 = (23, 8388596)"
  by (simp_all add: huff_code_def huff_table_lc_at, simp_all add: huff_encode_table_lc_14_def)

lemma huff_code_lc_at_15:
  "huff_code ngx_http_v2_huff_encode_table_lc 240 = (26, 67108843)" "huff_code ngx_http_v2_huff_encode_table_lc 241 = (27, 134217702)"
  "huff_code ngx_http_v2_huff_encode_table_lc 242 = (26, 67108844)" "huff_code ngx_http_v2_huff_encode_table_lc 243 = (26, 67108845)"
  "huff_code ngx_http_v2_huff_encode_table_lc 244 = (27, 134217703)" "huff_code ngx_http_v2_huff_encode_table_lc 245 = (27, 134217704)"
  "huff_code ngx_http_v2_huff_encode_table_lc 246 = (27, 134217705)" "huff_code ngx_http_v2_huff_encode_table_lc 247 = (27, 134217706)"
  "huff_code ngx_http_v2_huff_encode_table_lc 248 = (27, 134217707)" "huff_code ngx_http_v2_huff_encode_table_lc 249 = (28, 268435454)"
  "huff_code ngx_http_v2_huff_encode_table_lc 250 = (27, 134217708)" "huff_code ngx_http_v2_huff_encode_table_lc 251 = (27, 134217709)"
  "huff_code ngx_http_v2_huff_encode_table_lc 252 = (27, 134217710)" "huff_code ngx_http_v2_huff_encode_table_lc 253 = (27, 134217711)"
  "huff_code ngx_http_v2_huff_encode_table_lc 254 = (27, 134217712)" "huff_code ngx_http_v2_huff_encode_table_lc 255 = (26, 67108846)"
  by (simp_all add: huff_code_def huff_table_lc_at, simp_all add: huff_encode_table_lc_15_def)

lemmas huff_node_at =
  huff_node_at_0 huff_node_at_1 huff_node_at_2 huff_node_at_3
  huff_node_at_4 huff_node_at_5 huff_node_at_6 huff_node_at_7
  huff_node_at_8 huff_node_at_9 huff_node_at_10 huff_node_at_11
  huff_node_at_12 huff_node_at_13 huff_node_at_14 huff_node_at_15

lemmas huff_code_at =
  huff_code_at_0 huff_code_at_1 huff_code_at_2 huff_code_at_3
  huff_code_at_4 huff_code_at_5 huff_code_at_6 huff_code_at_7
  huff_code_at_8 huff_code_at_9 huff_code_at_10 huff_code_at_11
  huff_code_at_12 huff_code_at_13 huff_code_at_14 huff_code_at_15

lemmas huff_code_lc_at =
  huff_code_lc_at_0 huff_code_lc_at_1 huff_code_lc_at_2 huff_code_lc_at_3
  huff_code_lc_at_4 huff_code_lc_at_5 huff_code_lc_at_6 huff_code_lc_at_7
  huff_code_lc_at_8 huff_code_lc_at_9 huff_code_lc_at_10 huff_code_lc_at_11
  huff_code_lc_at_12 huff_code_lc_at_13 huff_code_lc_at_14 huff_code_lc_at_15

section \<open>The entries of the decoder\<close>

text \<open>An entry is right if the bits of the state and the four bits that are read are the code of the symbol that is emitted, if
  there is one, and the bits of the next state; if the state can be the last one just if its bits are all ones; and if it is the
  end of the decoding just if thirty ones have been read, the code of the end of the string.\<close>

fun entry_ok :: "u_char \<Rightarrow> int \<Rightarrow> ngx_http_v2_huff_decode_code \<Rightarrow> bool" where
  "entry_ok s b (Huff_code nx em sy en) =
    (case huff_node s of (l, v, _) \<Rightarrow> case huff_node nx of (l', v', _) \<Rightarrow> case huff_code ngx_http_v2_huff_encode_table sy of (n, c) \<Rightarrow>
       if nx = s then 26 \<le> l \<and> (v * 16 + b) div 2 ^ (l - 26) = 2 ^ 30 - 1
       else (if em = 0 then l' = l + 4 \<and> v' = v * 16 + b else n + l' = l + 4 \<and> c * 2 ^ l' + v' = v * 16 + b) \<and>
         (en \<noteq> 0 \<longleftrightarrow> v' = 2 ^ l' - 1))"

fun row_ok :: "u_char \<Rightarrow> int \<Rightarrow> ngx_http_v2_huff_decode_code list \<Rightarrow> bool" where
  "row_ok s b [] = True"
| "row_ok s b (c # cs) = (entry_ok s b c \<and> row_ok s (b + 1) cs)"

fun rows_ok :: "u_char \<Rightarrow> ngx_http_v2_huff_decode_code list list \<Rightarrow> bool" where
  "rows_ok s [] = True"
| "rows_ok s (r # rs) = (length r = 16 \<and> row_ok s 0 r \<and> rows_ok (s + 1) rs)"

lemma huff_rows_0: "rows_ok 0 huff_decode_codes_0"
  by (simp add: huff_decode_codes_0_def huff_node_at huff_code_at)

lemma huff_rows_1: "rows_ok 16 huff_decode_codes_1"
  by (simp add: huff_decode_codes_1_def huff_node_at huff_code_at)

lemma huff_rows_2: "rows_ok 32 huff_decode_codes_2"
  by (simp add: huff_decode_codes_2_def huff_node_at huff_code_at)

lemma huff_rows_3: "rows_ok 48 huff_decode_codes_3"
  by (simp add: huff_decode_codes_3_def huff_node_at huff_code_at)

lemma huff_rows_4: "rows_ok 64 huff_decode_codes_4"
  by (simp add: huff_decode_codes_4_def huff_node_at huff_code_at)

lemma huff_rows_5: "rows_ok 80 huff_decode_codes_5"
  by (simp add: huff_decode_codes_5_def huff_node_at huff_code_at)

lemma huff_rows_6: "rows_ok 96 huff_decode_codes_6"
  by (simp add: huff_decode_codes_6_def huff_node_at huff_code_at)

lemma huff_rows_7: "rows_ok 112 huff_decode_codes_7"
  by (simp add: huff_decode_codes_7_def huff_node_at huff_code_at)

lemma huff_rows_8: "rows_ok 128 huff_decode_codes_8"
  by (simp add: huff_decode_codes_8_def huff_node_at huff_code_at)

lemma huff_rows_9: "rows_ok 144 huff_decode_codes_9"
  by (simp add: huff_decode_codes_9_def huff_node_at huff_code_at)

lemma huff_rows_10: "rows_ok 160 huff_decode_codes_10"
  by (simp add: huff_decode_codes_10_def huff_node_at huff_code_at)

lemma huff_rows_11: "rows_ok 176 huff_decode_codes_11"
  by (simp add: huff_decode_codes_11_def huff_node_at huff_code_at)

lemma huff_rows_12: "rows_ok 192 huff_decode_codes_12"
  by (simp add: huff_decode_codes_12_def huff_node_at huff_code_at)

lemma huff_rows_13: "rows_ok 208 huff_decode_codes_13"
  by (simp add: huff_decode_codes_13_def huff_node_at huff_code_at)

lemma huff_rows_14: "rows_ok 224 huff_decode_codes_14"
  by (simp add: huff_decode_codes_14_def huff_node_at huff_code_at)

lemma huff_rows_15: "rows_ok 240 huff_decode_codes_15"
  by (simp add: huff_decode_codes_15_def huff_node_at huff_code_at)

lemmas huff_rows =
  huff_rows_0 huff_rows_1 huff_rows_2 huff_rows_3
  huff_rows_4 huff_rows_5 huff_rows_6 huff_rows_7
  huff_rows_8 huff_rows_9 huff_rows_10 huff_rows_11
  huff_rows_12 huff_rows_13 huff_rows_14 huff_rows_15

section \<open>The code\<close>

text \<open>The bytes in the order of their codes, and the interval of thirty-bit numbers that begin with a code.\<close>

definition huff_order :: "u_char list" where
  "huff_order = [48, 49, 50, 97, 99, 101, 105, 111, 115, 116, 32, 37, 45, 46, 47, 51,
    52, 53, 54, 55, 56, 57, 61, 65, 95, 98, 100, 102, 103, 104, 108, 109,
    110, 112, 114, 117, 58, 66, 67, 68, 69, 70, 71, 72, 73, 74, 75, 76,
    77, 78, 79, 80, 81, 82, 83, 84, 85, 86, 87, 89, 106, 107, 113, 118,
    119, 120, 121, 122, 38, 42, 44, 59, 88, 90, 33, 34, 40, 41, 63, 39,
    43, 124, 35, 62, 0, 36, 64, 91, 93, 126, 94, 125, 60, 96, 123, 92,
    195, 208, 128, 130, 131, 162, 184, 194, 224, 226, 153, 161, 167, 172, 176, 177,
    179, 209, 216, 217, 227, 229, 230, 129, 132, 133, 134, 136, 146, 154, 156, 160,
    163, 164, 169, 170, 173, 178, 181, 185, 186, 187, 189, 190, 196, 198, 228, 232,
    233, 1, 135, 137, 138, 139, 140, 141, 143, 147, 149, 150, 151, 152, 155, 157,
    158, 165, 166, 168, 174, 175, 180, 182, 183, 188, 191, 197, 231, 239, 9, 142,
    144, 145, 148, 159, 171, 206, 215, 225, 236, 237, 199, 207, 234, 235, 192, 193,
    200, 201, 202, 205, 210, 213, 218, 219, 238, 240, 242, 243, 255, 203, 204, 211,
    212, 214, 221, 222, 223, 241, 244, 245, 246, 247, 248, 250, 251, 252, 253, 254,
    2, 3, 4, 5, 6, 7, 8, 11, 12, 14, 15, 16, 17, 18, 19, 20,
    21, 23, 24, 25, 26, 27, 28, 29, 30, 31, 127, 220, 249, 10, 13, 22]"

definition code_lo :: "u_char \<Rightarrow> int" where
  "code_lo c = (case huff_code ngx_http_v2_huff_encode_table c of (n, v) \<Rightarrow> v * 2 ^ (30 - n))"

definition code_hi :: "u_char \<Rightarrow> int" where
  "code_hi c = (case huff_code ngx_http_v2_huff_encode_table c of (n, v) \<Rightarrow> (v + 1) * 2 ^ (30 - n))"

fun code_chain :: "u_char \<Rightarrow> u_char list \<Rightarrow> bool" where
  "code_chain a [] = True"
| "code_chain a (b # bs) = (code_hi a \<le> code_lo b \<and> code_chain b bs)"

lemma huff_order_chain: "code_chain 48 (tl huff_order)"
  by (simp add: huff_order_def code_lo_def code_hi_def huff_code_at)

lemma huff_order_length: "length huff_order = 256"
  by (simp add: huff_order_def)

definition code_ok :: "u_char \<Rightarrow> bool" where
  "code_ok c = (case huff_code ngx_http_v2_huff_encode_table c of (n, v) \<Rightarrow> 5 \<le> n \<and> n \<le> 30 \<and> 0 \<le> v \<and> v < 2 ^ n - 1)"

lemma code_ok: "code_ok c"
proof -
  have "list_all code_ok all_bytes" by (simp add: all_bytes_def code_ok_def huff_code_at)
  then show ?thesis using byte_forall by blast
qed

definition node_ok :: "u_char \<Rightarrow> bool" where
  "node_ok s = (case huff_node s of (l, v, c) \<Rightarrow> case huff_code ngx_http_v2_huff_encode_table c of (n, x) \<Rightarrow>
     l < n \<and> v = x div 2 ^ (n - l))"

lemma node_ok: "node_ok s"
proof -
  have "list_all node_ok all_bytes" by (simp add: all_bytes_def node_ok_def huff_code_at huff_node_at)
  then show ?thesis using byte_forall by blast
qed

lemma huff_code_lc: "huff_code ngx_http_v2_huff_encode_table_lc c = huff_code ngx_http_v2_huff_encode_table (ngx_tolower c)"
proof -
  have one: "\<not> 65 \<le> (1 :: u_char)" by (simp add: word_le_nat_alt)
  have "\<forall>c. huff_code ngx_http_v2_huff_encode_table_lc c = huff_code ngx_http_v2_huff_encode_table (ngx_tolower c)"
    unfolding byte_forall by (simp add: all_bytes_def ngx_tolower_def is_upper_def one huff_code_at huff_code_lc_at)
  then show ?thesis by blast
qed

end
