(* ===== verification/Http_V2_Huff.thy ===== *)
theory Http_V2_Huff
  imports Http_V2_Huff_Tables
begin

text \<open>
  The Huffman coding of strings in HPACK: the decoder, which reads four bits at a time, and the encoder, which collects the bits in a
  machine word.
\<close>

section \<open>The decoder\<close>

text \<open>What \<open>ngx_http_v2_huff_decode\<close> changes through its pointers: the state, the flag \<open>ending\<close>, and the bytes written to \<open>dst\<close>.\<close>

record ngx_http_v2_huff =
  hf_state :: u_char
  hf_ending :: u_char
  hf_dst :: "u_char list"

definition ngx_http_v2_huff_decode_bits :: "nat \<Rightarrow> ngx_http_v2_huff \<Rightarrow> ngx_rc \<times> ngx_http_v2_huff" where
  "ngx_http_v2_huff_decode_bits bits h =
    (let code = ngx_http_v2_huff_decode_codes ! unat (hf_state h) ! bits in
     if hd_next code = hf_state h then (NGX_ERROR, h)
     else
       (NGX_OK, h\<lparr>hf_dst := (if hd_emit code \<noteq> 0 then hf_dst h @ [hd_sym code] else hf_dst h), hf_ending := hd_ending code,
         hf_state := hd_next code\<rparr>))"

fun huff_decode_loop :: "u_char list \<Rightarrow> ngx_http_v2_huff \<Rightarrow> ngx_rc \<times> ngx_http_v2_huff" where
  "huff_decode_loop [] h = (NGX_OK, h)"
| "huff_decode_loop (ch # src) h =
    (case ngx_http_v2_huff_decode_bits (unat (drop_bit 4 ch)) h of
       (NGX_OK, h) \<Rightarrow>
         (case ngx_http_v2_huff_decode_bits (unat (ch AND 0xf)) h of
            (NGX_OK, h) \<Rightarrow> huff_decode_loop src h
          | (_, h) \<Rightarrow> (NGX_ERROR, h))
     | (_, h) \<Rightarrow> (NGX_ERROR, h))"

text \<open>The result is the return code, \<open>*state\<close> and the bytes before \<open>*dst\<close>.\<close>

definition ngx_http_v2_huff_decode :: "u_char \<Rightarrow> u_char list \<Rightarrow> u_char list \<Rightarrow> bool \<Rightarrow> ngx_rc \<times> u_char \<times> u_char list" where
  "ngx_http_v2_huff_decode state src dst final =
    (case huff_decode_loop src \<lparr>hf_state = state, hf_ending = 1, hf_dst = dst\<rparr> of
       (NGX_OK, h) \<Rightarrow>
         if final then
           if hf_ending h = 0 then (NGX_ERROR, hf_state h, hf_dst h)
           else (NGX_OK, 0, hf_dst h)
         else (NGX_OK, hf_state h, hf_dst h)
     | (_, h) \<Rightarrow> (NGX_ERROR, hf_state h, hf_dst h))"

section \<open>The encoder\<close>

text \<open>The eight bytes of a word, the first one from the highest bits.\<close>

definition ngx_http_v2_huff_encode_buf :: "ngx_uint_t \<Rightarrow> u_char list" where
  "ngx_http_v2_huff_encode_buf buf =
    [ucast (drop_bit 56 buf), ucast (drop_bit 48 buf), ucast (drop_bit 40 buf), ucast (drop_bit 32 buf),
     ucast (drop_bit 24 buf), ucast (drop_bit 16 buf), ucast (drop_bit 8 buf), ucast buf]"

text \<open>The loop over the string; \<open>dst\<close> holds the \<open>hlen\<close> bytes written so far. \<open>None\<close> is the early return of zero.\<close>

fun huff_encode_loop ::
  "ngx_http_v2_huff_encode_code list \<Rightarrow> nat \<Rightarrow> u_char list \<Rightarrow> u_char list \<Rightarrow> ngx_uint_t \<Rightarrow> nat \<Rightarrow> (u_char list \<times> ngx_uint_t \<times> nat) option" where
  "huff_encode_loop table len [] dst buf pending = Some (dst, buf, pending)"
| "huff_encode_loop table len (ch # src) dst buf pending =
    (let nxt = table ! unat ch; code = ucast (he_code nxt) :: ngx_uint_t; pending = pending + unat (he_len nxt) in
     if pending < 64 then huff_encode_loop table len src dst (buf OR push_bit (64 - pending) code) pending
     else if length dst + 8 \<ge> len then None
     else
       let pending = pending - 64; buf = buf OR drop_bit pending code; dst = dst @ ngx_http_v2_huff_encode_buf buf;
         buf = (if pending \<noteq> 0 then push_bit (64 - pending) code else 0) in
       huff_encode_loop table len src dst buf pending)"

function huff_flush :: "ngx_uint_t \<Rightarrow> nat \<Rightarrow> u_char list" where
  "huff_flush buf pending =
    (let pending = pending - 8 in
     ucast (drop_bit pending buf) # (if pending \<noteq> 0 then huff_flush buf pending else []))"
  by auto

termination
  by (relation "measure snd") auto

declare huff_flush.simps [simp del]

definition ngx_align :: "int \<Rightarrow> int \<Rightarrow> int" where
  "ngx_align d a = (d + (a - 1)) AND NOT (a - 1)"

text \<open>The result is the bytes of \<open>dst\<close> up to the length that is returned.\<close>

definition ngx_http_v2_huff_encode :: "u_char list \<Rightarrow> bool \<Rightarrow> u_char list" where
  "ngx_http_v2_huff_encode src lower =
    (let table = (if lower then ngx_http_v2_huff_encode_table_lc else ngx_http_v2_huff_encode_table); len = length src in
     case huff_encode_loop table len src [] 0 0 of
       None \<Rightarrow> []
     | Some (dst, buf, pending) \<Rightarrow>
         if pending = 0 then dst
         else
           let buf = buf OR drop_bit pending (- 1); pending = nat (ngx_align (int pending) 8) in
           if length dst + pending div 8 \<ge> len then []
           else dst @ huff_flush (drop_bit (64 - pending) buf) pending)"

end
