(* ===== verification/Http_V2_Huff_Bits.thy ===== *)
theory Http_V2_Huff_Bits
  imports Http_V2_Huff_Check Http_V2_Huff
begin

text \<open>
  Codes and states as strings of bits: the code is a prefix code, and what one step of the decoder does.
\<close>

section \<open>Strings of bits\<close>

text \<open>The lowest \<open>n\<close> bits of a number, the highest one first.\<close>

primrec bits :: "nat \<Rightarrow> int \<Rightarrow> bool list" where
  "bits 0 v = []"
| "bits (Suc n) v = bits n (v div 2) @ [odd v]"

lemma length_bits [simp]: "length (bits n v) = n"
  by (induction n arbitrary: v) simp_all

lemma bits_append:
  assumes "0 \<le> w" "w < 2 ^ m"
  shows "bits (n + m) (v * 2 ^ m + w) = bits n v @ bits m w"
  using assms
proof (induction m arbitrary: w)
  case (Suc m)
  have "v * 2 ^ Suc m + w = (v * 2 ^ m) * 2 + w" by simp
  then have "(v * 2 ^ Suc m + w) div 2 = v * 2 ^ m + w div 2" "odd (v * 2 ^ Suc m + w) = odd w" by simp_all
  moreover have "bits (n + m) (v * 2 ^ m + w div 2) = bits n v @ bits m (w div 2)"
    by (rule Suc.IH) (use Suc.prems in auto)
  ultimately show ?case by simp
next
  case 0
  then have "w = 0" by simp
  then show ?case by simp
qed

lemma bits_inject:
  assumes "bits n v = bits n w" "0 \<le> v" "v < 2 ^ n" "0 \<le> w" "w < 2 ^ n"
  shows "v = w"
  using assms
proof (induction n arbitrary: v w)
  case (Suc n)
  have "v div 2 = w div 2" by (rule Suc.IH) (use Suc.prems in auto)
  moreover have "odd v = odd w" using Suc.prems(1) by simp
  ultimately show ?case using even_two_times_div_two odd_two_times_div_two_succ by (metis)
qed simp

lemma bits_ones: "bits n (2 ^ n - 1) = replicate n True"
proof (induction n)
  case (Suc n)
  have "(2 ^ Suc n - 1) div 2 = (2 ^ n - 1 :: int)" "odd (2 ^ Suc n - 1 :: int)" by simp_all
  then show ?case using Suc by (simp add: replicate_append_same)
qed simp

lemma bits_is_ones:
  assumes "0 \<le> v" "v < 2 ^ n"
  shows "bits n v = replicate n True \<longleftrightarrow> v = 2 ^ n - 1"
  using bits_inject [of n v "2 ^ n - 1"] assms by (auto simp: bits_ones)

lemma bits_take:
  assumes "l \<le> n" "0 \<le> v" "v < 2 ^ n"
  shows "take l (bits n v) = bits l (v div 2 ^ (n - l))"
proof -
  have "v = v div 2 ^ (n - l) * 2 ^ (n - l) + v mod 2 ^ (n - l)" by (rule div_mult_mod_eq [symmetric])
  moreover have "n = l + (n - l)" using assms by simp
  ultimately have "bits n v = bits l (v div 2 ^ (n - l)) @ bits (n - l) (v mod 2 ^ (n - l))"
    using bits_append [of "v mod 2 ^ (n - l)" "n - l" l "v div 2 ^ (n - l)"] by simp
  then show ?thesis by simp
qed

lemma div_power_less:
  assumes "(x :: int) < 2 ^ n" "l \<le> n"
  shows "x div 2 ^ (n - l) < 2 ^ l"
proof (rule ccontr)
  let ?d = "2 ^ (n - l) :: int"
  assume "\<not> x div ?d < 2 ^ l"
  then have "2 ^ l * ?d \<le> x div ?d * ?d" by (intro mult_right_mono) simp_all
  moreover have "(2 :: int) ^ l * ?d = 2 ^ n" using assms(2) by (simp flip: power_add)
  moreover have "x div ?d * ?d + x mod ?d = x" "0 \<le> x mod ?d" by (simp_all add: div_mult_mod_eq)
  ultimately show False using assms(1) by linarith
qed

section \<open>Codes and states as strings of bits\<close>

definition huff_bits :: "u_char \<Rightarrow> bool list" where
  "huff_bits c = (case huff_code ngx_http_v2_huff_encode_table c of (n, v) \<Rightarrow> bits n v)"

definition node_bits :: "u_char \<Rightarrow> bool list" where
  "node_bits s = (case huff_node s of (l, v, _) \<Rightarrow> bits l v)"

lemma code_range:
  assumes "huff_code ngx_http_v2_huff_encode_table c = (n, v)"
  shows "5 \<le> n" "n \<le> 30" "0 \<le> v" "v < 2 ^ n - 1" "v < 2 ^ n"
  using code_ok [of c] assms by (simp_all add: code_ok_def)

lemma huff_bits_length: "5 \<le> length (huff_bits c)" "length (huff_bits c) \<le> 30"
  by (cases "huff_code ngx_http_v2_huff_encode_table c", simp add: huff_bits_def code_range)+

lemma huff_bits_not_ones: "huff_bits c \<noteq> replicate n True"
proof
  assume e: "huff_bits c = replicate n True"
  obtain m v where c: "huff_code ngx_http_v2_huff_encode_table c = (m, v)" by fastforce
  have "m = n" using arg_cong [OF e, of length] c by (simp add: huff_bits_def)
  then show False using e c code_range [OF c] bits_is_ones [of v m] by (simp add: huff_bits_def)
qed

lemma node_range:
  assumes "huff_node s = (l, v, c)"
  shows "l < 30" "0 \<le> v" "v < 2 ^ l"
proof -
  obtain n x where c: "huff_code ngx_http_v2_huff_encode_table c = (n, x)" by fastforce
  have *: "l < n" "v = x div 2 ^ (n - l)" using node_ok [of s] assms c by (simp_all add: node_ok_def)
  have r: "0 \<le> x" "x < 2 ^ n" "n \<le> 30" using code_range [OF c] by simp_all
  show "l < 30" using * r by simp
  show "0 \<le> v" using * r by (simp add: pos_imp_zdiv_nonneg_iff)
  show "v < 2 ^ l" using * r div_power_less [of x n l] by simp
qed

lemma node_below:
  "\<exists>c y. huff_bits c = node_bits s @ y \<and> y \<noteq> []"
proof -
  obtain l v c where s: "huff_node s = (l, v, c)" by (metis prod_cases3)
  obtain n x where c: "huff_code ngx_http_v2_huff_encode_table c = (n, x)" by fastforce
  have *: "l < n" "v = x div 2 ^ (n - l)" using node_ok [of s] s c by (simp_all add: node_ok_def)
  then have "take l (huff_bits c) = node_bits s"
    using bits_take [of l n x] code_range [OF c] s c by (simp add: huff_bits_def node_bits_def)
  moreover have "drop l (huff_bits c) \<noteq> []" using * c by (simp add: huff_bits_def)
  ultimately show ?thesis by (metis append_take_drop_id)
qed

lemma node_bits_length: "length (node_bits s) < 30"
  by (cases "huff_node s") (simp add: node_bits_def node_range)

section \<open>The code is a prefix code\<close>

lemma code_lo_less: "code_lo c < code_hi c"
  by (cases "huff_code ngx_http_v2_huff_encode_table c") (simp add: code_lo_def code_hi_def)

lemma code_chain_less: "code_chain a bs \<Longrightarrow> b \<in> set bs \<Longrightarrow> code_hi a \<le> code_lo b"
proof (induction bs arbitrary: a)
  case (Cons x bs)
  then show ?case using code_lo_less [of x] by fastforce
qed simp

lemma code_chain_sorted: "code_chain a bs \<Longrightarrow> sorted_wrt (\<lambda>x y. code_hi x \<le> code_lo y) (a # bs)"
proof (induction bs arbitrary: a)
  case (Cons b bs)
  then show ?case using code_chain_less [OF Cons.prems] by simp
qed simp

lemma sorted_wrt_distinct: "sorted_wrt R xs \<Longrightarrow> \<forall>x. \<not> R x x \<Longrightarrow> distinct xs"
  by (induction xs) auto

lemma code_disjoint:
  assumes "a \<noteq> b"
  shows "code_hi a \<le> code_lo b \<or> code_hi b \<le> code_lo a"
proof -
  have "huff_order = 48 # tl huff_order" by (simp add: huff_order_def)
  then have s: "sorted_wrt (\<lambda>x y. code_hi x \<le> code_lo y) huff_order"
    using code_chain_sorted [OF huff_order_chain] by simp
  have "distinct huff_order" using s code_lo_less by (intro sorted_wrt_distinct [OF s]) (simp add: not_le)
  then have "card (set huff_order) = 256" by (simp add: distinct_card huff_order_length)
  moreover have "card (UNIV :: u_char set) = 256" by (simp add: card_word)
  ultimately have "set huff_order = UNIV" by (metis card_subset_eq finite subset_UNIV)
  then obtain i j where "i < 256" "j < 256" "huff_order ! i = a" "huff_order ! j = b"
    by (metis UNIV_I in_set_conv_nth huff_order_length)
  then show ?thesis using s assms by (metis huff_order_length linorder_neqE_nat sorted_wrt_iff_nth_less)
qed

lemma huff_bits_prefix_le:
  assumes e: "huff_bits a @ x = huff_bits b @ y" and le: "length (huff_bits a) \<le> length (huff_bits b)"
  shows "a = b"
proof (rule ccontr)
  assume ab: "a \<noteq> b"
  obtain m v where a: "huff_code ngx_http_v2_huff_encode_table a = (m, v)" by fastforce
  obtain n w where b: "huff_code ngx_http_v2_huff_encode_table b = (n, w)" by fastforce
  have mn: "m \<le> n" using le a b by (simp add: huff_bits_def)
  have "take m (huff_bits b) = huff_bits a" using arg_cong [OF e, of "take m"] mn a b by (simp add: huff_bits_def)
  then have "bits m (w div 2 ^ (n - m)) = bits m v"
    using bits_take [OF mn] a b code_range [OF b] by (simp add: huff_bits_def)
  moreover have "0 \<le> w div 2 ^ (n - m)" using code_range [OF b] by (simp add: pos_imp_zdiv_nonneg_iff)
  moreover have "w div 2 ^ (n - m) < 2 ^ m" using div_power_less [OF _ mn] code_range [OF b] by simp
  ultimately have v: "v = w div 2 ^ (n - m)" using bits_inject code_range [OF a] by metis
  let ?k = "2 ^ (30 - n) :: int" and ?d = "2 ^ (n - m) :: int"
  have k: "0 < ?k" "(2 :: int) ^ (30 - m) = ?d * ?k" using mn code_range(2) [OF b] by (simp_all flip: power_add)
  have "w = v * ?d + w mod ?d" "0 \<le> w mod ?d" "w mod ?d < ?d" using v by (simp_all add: div_mult_mod_eq)
  then have "v * ?d \<le> w" "w < v * ?d + ?d" by linarith+
  then have "v * ?d \<le> w" "w < (v + 1) * ?d" by (simp_all add: distrib_right)
  then have "v * ?d * ?k \<le> w * ?k" "w * ?k < (v + 1) * ?d * ?k" using k(1) by simp_all
  then have "code_lo a \<le> code_lo b" "code_lo b < code_hi a" using a b k(2) by (simp_all add: code_lo_def code_hi_def mult.assoc)
  then show False using code_disjoint [OF ab] code_lo_less [of b] by linarith
qed

lemma huff_bits_prefix_free:
  assumes "huff_bits a @ x = huff_bits b @ y"
  shows "a = b" "x = y"
proof -
  show "a = b" using huff_bits_prefix_le [OF assms] huff_bits_prefix_le [OF assms [symmetric]] by (metis nle_le)
  then show "x = y" using assms by simp
qed

section \<open>The table of the decoder as a whole\<close>

lemma rows_ok_append: "rows_ok s (xs @ ys) \<longleftrightarrow> rows_ok s xs \<and> rows_ok (s + of_nat (length xs)) ys"
  by (induction xs arbitrary: s) (auto simp: add.assoc)

lemma huff_rows_length:
  "length huff_decode_codes_0 = 16" "length huff_decode_codes_1 = 16" "length huff_decode_codes_2 = 16" "length huff_decode_codes_3 = 16"
  "length huff_decode_codes_4 = 16" "length huff_decode_codes_5 = 16" "length huff_decode_codes_6 = 16" "length huff_decode_codes_7 = 16"
  "length huff_decode_codes_8 = 16" "length huff_decode_codes_9 = 16" "length huff_decode_codes_10 = 16" "length huff_decode_codes_11 = 16"
  "length huff_decode_codes_12 = 16" "length huff_decode_codes_13 = 16" "length huff_decode_codes_14 = 16" "length huff_decode_codes_15 = 16"
  by (simp_all add: huff_decode_codes_0_def huff_decode_codes_1_def huff_decode_codes_2_def huff_decode_codes_3_def
    huff_decode_codes_4_def huff_decode_codes_5_def huff_decode_codes_6_def huff_decode_codes_7_def
    huff_decode_codes_8_def huff_decode_codes_9_def huff_decode_codes_10_def huff_decode_codes_11_def
    huff_decode_codes_12_def huff_decode_codes_13_def huff_decode_codes_14_def huff_decode_codes_15_def)

lemma huff_codes_ok: "rows_ok 0 ngx_http_v2_huff_decode_codes" "length ngx_http_v2_huff_decode_codes = 256"
  by (simp_all add: ngx_http_v2_huff_decode_codes_def rows_ok_append huff_rows_length huff_rows)

lemma row_ok_nth: "row_ok s b cs \<Longrightarrow> j < length cs \<Longrightarrow> entry_ok s (b + int j) (cs ! j)"
proof (induction cs arbitrary: b j)
  case (Cons c cs)
  then show ?case using Cons.IH [of "b + 1" "j - 1"] by (cases j) (auto simp: add.assoc)
qed simp

lemma rows_ok_nth: "rows_ok s rs \<Longrightarrow> i < length rs \<Longrightarrow> row_ok (s + of_nat i) 0 (rs ! i) \<and> length (rs ! i) = 16"
proof (induction rs arbitrary: s i)
  case (Cons r rs)
  then show ?case using Cons.IH [of "s + 1" "i - 1"] by (cases i) (auto simp: add.assoc)
qed simp

lemma huff_entry: "n < 16 \<Longrightarrow> entry_ok s (int n) (ngx_http_v2_huff_decode_codes ! unat s ! n)"
  using rows_ok_nth [OF huff_codes_ok(1), of "unat s"] row_ok_nth [of s 0 "ngx_http_v2_huff_decode_codes ! unat s" n] huff_codes_ok(2)
  by simp

section \<open>One step of the decoder\<close>

lemma huff_step_error:
  assumes n: "n < 16" and e: "ngx_http_v2_huff_decode_bits n h = (NGX_ERROR, h')"
  shows "take 30 (node_bits (hf_state h) @ bits 4 (int n)) = replicate 30 True"
proof -
  obtain nx em sy en where c: "ngx_http_v2_huff_decode_codes ! unat (hf_state h) ! n = Huff_code nx em sy en" by (metis ngx_http_v2_huff_decode_code.exhaust)
  obtain l v d where s: "huff_node (hf_state h) = (l, v, d)" by (metis prod_cases3)
  have "nx = hf_state h" using e c by (auto simp: ngx_http_v2_huff_decode_bits_def Let_def split: if_splits)
  then have ok: "26 \<le> l" "(v * 16 + int n) div 2 ^ (l - 26) = 2 ^ 30 - 1"
    using huff_entry [OF n, of "hf_state h"] c s by (auto split: prod.splits)
  have r: "0 \<le> v" "v < 2 ^ l" using node_range [OF s] by simp_all
  have cat: "node_bits (hf_state h) @ bits 4 (int n) = bits (l + 4) (v * 2 ^ 4 + int n)"
    using bits_append [of "int n" 4 l v] n s by (simp add: node_bits_def)
  have "v * 2 ^ 4 + int n < 2 ^ (l + 4)"
  proof -
    have "v * 2 ^ 4 + int n < (v + 1) * 2 ^ 4" using n by simp
    also have "\<dots> \<le> 2 ^ l * 2 ^ 4" using r by (intro mult_right_mono) simp_all
    finally show ?thesis by (simp add: power_add)
  qed
  then have "take 30 (bits (l + 4) (v * 2 ^ 4 + int n)) = bits 30 ((v * 2 ^ 4 + int n) div 2 ^ (l + 4 - 30))"
    using ok(1) r by (intro bits_take) simp_all
  also have "(v * 2 ^ 4 + int n) div 2 ^ (l + 4 - 30) = 2 ^ 30 - 1"
  proof -
    have "l + 4 - 30 = l - 26" by simp
    then show ?thesis using ok(2) by simp
  qed
  finally show ?thesis using cat bits_ones [of 30] by simp
qed

lemma huff_step_ok:
  assumes n: "n < 16" and e: "ngx_http_v2_huff_decode_bits n h = (NGX_OK, h')"
  shows "\<exists>out. length out \<le> 1 \<and> hf_dst h' = hf_dst h @ out \<and>
      node_bits (hf_state h) @ bits 4 (int n) = concat (map huff_bits out) @ node_bits (hf_state h') \<and>
      (hf_ending h' \<noteq> 0 \<longleftrightarrow> node_bits (hf_state h') = replicate (length (node_bits (hf_state h'))) True)"
proof -
  obtain nx em sy en where c: "ngx_http_v2_huff_decode_codes ! unat (hf_state h) ! n = Huff_code nx em sy en" by (metis ngx_http_v2_huff_decode_code.exhaust)
  obtain l v d where s: "huff_node (hf_state h) = (l, v, d)" by (metis prod_cases3)
  obtain l' v' d' where s': "huff_node nx = (l', v', d')" by (metis prod_cases3)
  obtain k x where k: "huff_code ngx_http_v2_huff_encode_table sy = (k, x)" by fastforce
  have h': "nx \<noteq> hf_state h" "hf_state h' = nx" "hf_ending h' = en" "hf_dst h' = (if em \<noteq> 0 then hf_dst h @ [sy] else hf_dst h)"
    using e c by (auto simp: ngx_http_v2_huff_decode_bits_def Let_def split: if_splits)
  have ok: "if em = 0 then l' = l + 4 \<and> v' = v * 16 + int n else k + l' = l + 4 \<and> x * 2 ^ l' + v' = v * 16 + int n"
    "en \<noteq> 0 \<longleftrightarrow> v' = 2 ^ l' - 1"
    using huff_entry [OF n, of "hf_state h"] c s s' k h'(1) by (auto split: if_splits)
  have r: "0 \<le> v'" "v' < 2 ^ l'" using node_range [OF s'] by simp_all
  have cat: "node_bits (hf_state h) @ bits 4 (int n) = bits (l + 4) (v * 16 + int n)"
    using bits_append [of "int n" 4 l v] n s by (simp add: node_bits_def)
  have en: "en \<noteq> 0 \<longleftrightarrow> node_bits nx = replicate (length (node_bits nx)) True"
    using ok(2) bits_is_ones [OF r] s' by (simp add: node_bits_def)
  show ?thesis
  proof (cases "em = 0")
    case True
    then show ?thesis using h' ok(1) cat s' en by (intro exI [of _ "[]"]) (simp add: node_bits_def)
  next
    case False
    then have "bits (l + 4) (v * 16 + int n) = bits k x @ bits l' v'" using ok(1) bits_append [OF r, of k x] by simp
    then show ?thesis using False h' cat s' k en by (intro exI [of _ "[sy]"]) (simp add: node_bits_def huff_bits_def)
  qed
qed

lemma huff_step_cases:
  obtains h' where "ngx_http_v2_huff_decode_bits n h = (NGX_ERROR, h')"
  | h' where "ngx_http_v2_huff_decode_bits n h = (NGX_OK, h')"
proof -
  have "(\<exists>h'. ngx_http_v2_huff_decode_bits n h = (NGX_ERROR, h')) \<or> (\<exists>h'. ngx_http_v2_huff_decode_bits n h = (NGX_OK, h'))"
    by (simp add: ngx_http_v2_huff_decode_bits_def Let_def)
  then show ?thesis using that by blast
qed

section \<open>The decoder on half bytes\<close>

fun huff_nibbles :: "nat list \<Rightarrow> ngx_http_v2_huff \<Rightarrow> ngx_rc \<times> ngx_http_v2_huff" where
  "huff_nibbles [] h = (NGX_OK, h)"
| "huff_nibbles (n # ns) h =
    (case ngx_http_v2_huff_decode_bits n h of (NGX_OK, h) \<Rightarrow> huff_nibbles ns h | (_, h) \<Rightarrow> (NGX_ERROR, h))"

definition nibbles :: "u_char list \<Rightarrow> nat list" where
  "nibbles src = concat (map (\<lambda>c. [unat (drop_bit 4 c), unat (c AND 0xf)]) src)"

definition nibble_bits :: "nat list \<Rightarrow> bool list" where
  "nibble_bits ns = concat (map (\<lambda>n. bits 4 (int n)) ns)"

definition byte_bits :: "u_char list \<Rightarrow> bool list" where
  "byte_bits src = concat (map (\<lambda>c. bits 8 (uint c)) src)"

lemma nibble_less: "unat (drop_bit 4 (c :: u_char)) < 16" "unat (c AND 0xf) < 16"
proof -
  have "\<forall>c :: u_char. unat (drop_bit 4 c) < 16 \<and> unat (c AND 0xf) < 16"
    unfolding byte_forall by (simp add: all_bytes_def)
  then show "unat (drop_bit 4 c) < 16" "unat (c AND 0xf) < 16" by blast+
qed

lemma nibbles_bound: "n \<in> set (nibbles src) \<Longrightarrow> n < 16"
  by (auto simp: nibbles_def nibble_less)

lemma nibbles_value: "uint (c :: u_char) = int (unat (drop_bit 4 c)) * 2 ^ 4 + int (unat (c AND 0xf))"
proof -
  have "\<forall>c :: u_char. uint c = int (unat (drop_bit 4 c)) * 2 ^ 4 + int (unat (c AND 0xf))"
    unfolding byte_forall by (simp add: all_bytes_def)
  then show ?thesis by blast
qed

lemma nibble_bits_nibbles: "nibble_bits (nibbles src) = byte_bits src"
proof (induction src)
  case (Cons c src)
  have "bits 8 (uint c) = bits 4 (int (unat (drop_bit 4 c))) @ bits 4 (int (unat (c AND 0xf)))"
  proof -
    let ?a = "unat (drop_bit 4 c)" and ?b = "unat (c AND 0xf)"
    have "bits (4 + 4) (int ?a * 2 ^ 4 + int ?b) = bits 4 (int ?a) @ bits 4 (int ?b)"
      by (rule bits_append) (use nibble_less(2) [of c] in \<open>simp_all del: of_nat_unat\<close>)
    then show ?thesis unfolding nibbles_value [of c, symmetric] by simp
  qed
  then show ?case using Cons by (simp add: nibbles_def nibble_bits_def byte_bits_def)
qed (simp add: nibbles_def nibble_bits_def byte_bits_def)

lemma huff_decode_nibbles: "huff_decode_loop src h = huff_nibbles (nibbles src) h"
proof (induction src h rule: huff_decode_loop.induct)
  case (2 ch src h)
  show ?case
  proof (cases rule: huff_step_cases [of "unat (drop_bit 4 ch)" h])
    case a: (2 h1)
    show ?thesis using 2 a by (cases rule: huff_step_cases [of "unat (ch AND 0xf)" h1]) (simp_all add: nibbles_def)
  qed (simp add: nibbles_def)
qed (simp add: nibbles_def)

lemma huff_nibbles_cases:
  obtains h' where "huff_nibbles ns h = (NGX_ERROR, h')" | h' where "huff_nibbles ns h = (NGX_OK, h')"
proof (induction ns arbitrary: h thesis)
  case (Cons n ns)
  show ?case
  proof (cases rule: huff_step_cases [of n h])
    case (2 h1)
    then show ?thesis using Cons.IH [of h1] Cons.prems by simp blast
  qed (use Cons.prems in simp)
qed simp

lemma huff_nibbles_append:
  "huff_nibbles (xs @ ys) h = (case huff_nibbles xs h of (NGX_OK, h) \<Rightarrow> huff_nibbles ys h | (_, h) \<Rightarrow> (NGX_ERROR, h))"
proof (induction xs arbitrary: h)
  case (Cons x xs)
  then show ?case by (cases rule: huff_step_cases [of x h]) simp_all
qed simp

end
