(* ===== verification/Http_V2_Huff_Props.thy ===== *)
theory Http_V2_Huff_Props
  imports Http_V2_Huff_Bits
begin

text \<open>
  What the decoder accepts and the encoder writes: exactness, the round trip, portions, and the space for the decoded string.
\<close>

section \<open>What the decoder accepts\<close>

abbreviation huff_concat :: "u_char list \<Rightarrow> bool list" where
  "huff_concat out \<equiv> concat (map huff_bits out)"

lemma huff_nibbles_sound:
  assumes "huff_nibbles ns h = (NGX_OK, h')" "\<forall>n\<in>set ns. n < 16"
  shows "\<exists>out. hf_dst h' = hf_dst h @ out \<and> node_bits (hf_state h) @ nibble_bits ns = huff_concat out @ node_bits (hf_state h') \<and>
    (ns \<noteq> [] \<longrightarrow> (hf_ending h' \<noteq> 0 \<longleftrightarrow> node_bits (hf_state h') = replicate (length (node_bits (hf_state h'))) True))"
  using assms
proof (induction ns arbitrary: h)
  case (Cons n ns)
  show ?case
  proof (cases rule: huff_step_cases [of n h])
    case (2 h1)
    obtain o1 where o1: "hf_dst h1 = hf_dst h @ o1" "node_bits (hf_state h) @ bits 4 (int n) = huff_concat o1 @ node_bits (hf_state h1)"
      "hf_ending h1 \<noteq> 0 \<longleftrightarrow> node_bits (hf_state h1) = replicate (length (node_bits (hf_state h1))) True"
      using huff_step_ok [OF _ 2] Cons.prems(2) by auto
    obtain o2 where o2: "hf_dst h' = hf_dst h1 @ o2" "node_bits (hf_state h1) @ nibble_bits ns = huff_concat o2 @ node_bits (hf_state h')"
      "ns \<noteq> [] \<longrightarrow> (hf_ending h' \<noteq> 0 \<longleftrightarrow> node_bits (hf_state h') = replicate (length (node_bits (hf_state h'))) True)"
      using Cons.IH [of h1] Cons.prems 2 by auto
    have "node_bits (hf_state h) @ nibble_bits (n # ns) = (node_bits (hf_state h) @ bits 4 (int n)) @ nibble_bits ns"
      by (simp add: nibble_bits_def)
    also have "\<dots> = huff_concat (o1 @ o2) @ node_bits (hf_state h')" using o1(2) o2(2) by simp
    finally have "node_bits (hf_state h) @ nibble_bits (n # ns) = huff_concat (o1 @ o2) @ node_bits (hf_state h')" .
    moreover have "ns = [] \<Longrightarrow> h' = h1" using Cons.prems 2 by simp
    ultimately show ?thesis using o1(1,3) o2(1,3) by (cases "ns = []") auto
  qed (use Cons.prems in simp)
qed (auto simp: nibble_bits_def)

text \<open>No code is a prefix of the bits of a state, and the bits of a state begin with thirty ones in no case.\<close>

lemma huff_bits_not_in_node: "huff_bits c @ x \<noteq> node_bits s"
proof
  assume e: "huff_bits c @ x = node_bits s"
  obtain d y where d: "huff_bits d = node_bits s @ y" "y \<noteq> []" using node_below by blast
  then have "huff_bits d @ [] = huff_bits c @ x @ y" using e by (metis append.assoc append_Nil2)
  from huff_bits_prefix_free [OF this] d(2) show False by simp
qed

lemma ones_append: "xs @ ys = replicate k True \<Longrightarrow> xs = replicate (length xs) True"
  by (metis append_eq_conv_conj length_append length_replicate min.absorb1 le_add1 take_replicate)

lemma thirty_ones_no_code:
  assumes "take 30 (huff_concat out @ replicate k True) = replicate 30 True" "k < 30"
  shows False
proof (cases out)
  case Nil
  then show ?thesis using assms arg_cong [OF assms(1), of length] by simp
next
  case (Cons c cs)
  have "take 30 (huff_concat out @ replicate k True) = huff_bits c @ take (30 - length (huff_bits c)) (huff_concat cs @ replicate k True)"
    using Cons huff_bits_length(2) [of c] by simp
  then have "huff_bits c @ take (30 - length (huff_bits c)) (huff_concat cs @ replicate k True) = replicate 30 True"
    using assms(1) by simp
  from ones_append [OF this] show ?thesis using huff_bits_not_ones by blast
qed

lemma huff_nibbles_complete:
  assumes "node_bits (hf_state h) @ nibble_bits ns = huff_concat out @ replicate k True" "k < 30" "\<forall>n\<in>set ns. n < 16"
  shows "\<exists>h'. huff_nibbles ns h = (NGX_OK, h') \<and> hf_dst h' = hf_dst h @ out \<and> node_bits (hf_state h') = replicate k True"
  using assms(1,3)
proof (induction ns arbitrary: h out)
  case Nil
  show ?case
  proof (cases out)
    case Nil': Nil
    then show ?thesis using Nil by (simp add: nibble_bits_def)
  next
    case (Cons c cs)
    then have "huff_bits c @ (huff_concat cs @ replicate k True) = node_bits (hf_state h)" using Nil by (simp add: nibble_bits_def)
    then show ?thesis using huff_bits_not_in_node by blast
  qed
next
  case (Cons n ns)
  have cat: "(node_bits (hf_state h) @ bits 4 (int n)) @ nibble_bits ns = huff_concat out @ replicate k True"
    using Cons.prems(1) by (simp add: nibble_bits_def)
  show ?case
  proof (cases rule: huff_step_cases [of n h])
    case (1 h1)
    have n: "n < 16" using Cons.prems by simp
    have t: "take 30 (node_bits (hf_state h) @ bits 4 (int n)) = replicate 30 True" by (rule huff_step_error [OF n 1])
    have "length (take 30 (node_bits (hf_state h) @ bits 4 (int n))) = 30" unfolding t by simp
    then have "30 \<le> length (node_bits (hf_state h) @ bits 4 (int n))" by simp
    then have "take 30 (huff_concat out @ replicate k True) = replicate 30 True"
      unfolding cat [symmetric] take_append using t by simp
    then show ?thesis using thirty_ones_no_code assms(2) by blast
  next
    case (2 h1)
    obtain o1 where o1: "length o1 \<le> 1" "hf_dst h1 = hf_dst h @ o1" "node_bits (hf_state h) @ bits 4 (int n) = huff_concat o1 @ node_bits (hf_state h1)"
      using huff_step_ok [OF _ 2] Cons.prems(2) by auto
    have eq: "huff_concat o1 @ node_bits (hf_state h1) @ nibble_bits ns = huff_concat out @ replicate k True"
      using cat o1(3) by simp
    have "\<exists>out'. out = o1 @ out'"
    proof (cases o1)
      case (Cons c cs)
      have o1c: "o1 = [c]" using Cons o1(1) by simp
      show ?thesis
      proof (cases out)
        case Nil
        then have "huff_bits c @ node_bits (hf_state h1) @ nibble_bits ns = replicate k True" using eq o1c by simp
        from ones_append [OF this] show ?thesis using huff_bits_not_ones by blast
      next
        case d: (Cons d ds)
        then have "huff_bits c @ node_bits (hf_state h1) @ nibble_bits ns = huff_bits d @ huff_concat ds @ replicate k True" using eq o1c by simp
        from huff_bits_prefix_free [OF this] show ?thesis using d o1c by simp
      qed
    qed simp
    then obtain out' where out': "out = o1 @ out'" by blast
    then have "node_bits (hf_state h1) @ nibble_bits ns = huff_concat out' @ replicate k True" using eq by simp
    then obtain h' where "huff_nibbles ns h1 = (NGX_OK, h')" "hf_dst h' = hf_dst h1 @ out'" "node_bits (hf_state h') = replicate k True"
      using Cons.IH [of h1 out'] Cons.prems(2) by auto
    then show ?thesis using 2 o1(2) out' by simp
  qed
qed

lemma node_zero: "node_bits 0 = []"
  by (simp add: node_bits_def huff_node_at)

lemma huff_decode_iff:
  "ngx_http_v2_huff_decode 0 src [] True = (NGX_OK, 0, out) \<longleftrightarrow>
    (\<exists>k. k < 30 \<and> byte_bits src = concat (map huff_bits out) @ replicate k True)"
proof
  assume d: "ngx_http_v2_huff_decode 0 src [] True = (NGX_OK, 0, out)"
  let ?h = "\<lparr>hf_state = 0, hf_ending = 1, hf_dst = []\<rparr>"
  obtain h' where h': "huff_nibbles (nibbles src) ?h = (NGX_OK, h')" "hf_ending h' \<noteq> 0" "hf_dst h' = out"
    using d huff_nibbles_cases [of "nibbles src" ?h]
    by (cases rule: huff_nibbles_cases [of "nibbles src" ?h]) (auto simp: ngx_http_v2_huff_decode_def huff_decode_nibbles split: if_splits)
  obtain o2 where o2: "hf_dst h' = o2" "byte_bits src = huff_concat o2 @ node_bits (hf_state h')"
    "nibbles src \<noteq> [] \<longrightarrow> (hf_ending h' \<noteq> 0 \<longleftrightarrow> node_bits (hf_state h') = replicate (length (node_bits (hf_state h'))) True)"
    using huff_nibbles_sound [OF h'(1)] nibbles_bound by (auto simp: node_zero nibble_bits_nibbles)
  have "node_bits (hf_state h') = replicate (length (node_bits (hf_state h'))) True"
  proof (cases "nibbles src = []")
    case True
    then have "h' = ?h" using h'(1) by simp
    then show ?thesis by (simp add: node_zero)
  qed (use o2(3) h'(2) in simp)
  then show "\<exists>k. k < 30 \<and> byte_bits src = concat (map huff_bits out) @ replicate k True"
    using o2(1,2) h'(3) node_bits_length [of "hf_state h'"] by metis
next
  assume "\<exists>k. k < 30 \<and> byte_bits src = concat (map huff_bits out) @ replicate k True"
  then obtain k where k: "k < 30" "byte_bits src = huff_concat out @ replicate k True" by blast
  let ?h = "\<lparr>hf_state = 0, hf_ending = 1, hf_dst = []\<rparr>"
  obtain h' where h': "huff_nibbles (nibbles src) ?h = (NGX_OK, h')" "hf_dst h' = out" "node_bits (hf_state h') = replicate k True"
    using huff_nibbles_complete [of ?h "nibbles src" out k] k nibbles_bound by (auto simp: node_zero nibble_bits_nibbles)
  have "hf_ending h' \<noteq> 0"
  proof (cases "nibbles src = []")
    case True
    then have "h' = ?h" using h'(1) by simp
    then show ?thesis by simp
  next
    case False
    then show ?thesis using huff_nibbles_sound [OF h'(1)] nibbles_bound h'(3) by auto
  qed
  then show "ngx_http_v2_huff_decode 0 src [] True = (NGX_OK, 0, out)"
    using h' by (simp add: ngx_http_v2_huff_decode_def huff_decode_nibbles)
qed

lemma huff_concat_length: "5 * length out \<le> length (huff_concat out)"
proof (induction out)
  case (Cons c out)
  then show ?case using huff_bits_length(1) [of c] by simp
qed simp

text \<open>C18. What the decoder accepts. A string is decoded, in one call, just if its bits are the codes of the bytes of the result followed by
  at most 29 ones.\<close>

theorem huff_decode_exact:
  "ngx_http_v2_huff_decode 0 src [] True = (NGX_OK, 0, out) \<longleftrightarrow>
    (\<exists>k. k < 30 \<and> byte_bits src = concat (map huff_bits out) @ replicate k True)"
  by (rule huff_decode_iff)

section \<open>Words as strings of bits\<close>

lemma bits_split: "bits (n + m) v = bits n (v div 2 ^ m) @ bits m v"
proof (induction m arbitrary: v)
  case (Suc m)
  have "v div 2 ^ Suc m = v div 2 div 2 ^ m" by (simp add: zdiv_zmult2_eq)
  then show ?case using Suc [of "v div 2"] by simp
qed simp

lemma bits_mod: "bits m (v mod 2 ^ m) = bits m v"
  using bits_append [of "v mod 2 ^ m" m 0 "v div 2 ^ m"] by (simp add: div_mult_mod_eq)

lemma byte_bits_append [simp]: "byte_bits (xs @ ys) = byte_bits xs @ byte_bits ys"
  by (simp add: byte_bits_def)

lemma length_byte_bits [simp]: "length (byte_bits xs) = 8 * length xs"
  by (induction xs) (simp_all add: byte_bits_def)

lemma uint_drop: "uint (drop_bit k w) = uint (w :: ngx_uint_t) div 2 ^ k"
proof -
  have "uint (drop_bit k w) = drop_bit k (take_bit LENGTH(64) (uint w))" by (rule unsigned_drop_bit_eq)
  also have "take_bit LENGTH(64) (uint w) = uint w" by (metis unsigned_take_bit_eq take_bit_word_eq_self order_refl)
  finally show ?thesis by (simp only: drop_bit_eq_div)
qed

lemma uint_push: "uint (push_bit k w) = uint (w :: ngx_uint_t) * 2 ^ k mod 2 ^ 64"
proof -
  have "uint (push_bit k w) = take_bit LENGTH(64) (push_bit k (uint w))" by (rule unsigned_push_bit_eq)
  then show ?thesis by (simp only: push_bit_eq_mult take_bit_eq_mod) simp
qed

lemma byte_of_word: "bits 8 (uint (ucast (drop_bit k w) :: u_char)) = bits 8 (uint (w :: ngx_uint_t) div 2 ^ k)"
proof -
  have "uint (ucast (drop_bit k w) :: u_char) = uint w div 2 ^ k mod 2 ^ 8"
    unfolding uint_drop [symmetric] by (simp add: unsigned_ucast_eq take_bit_eq_mod)
  then show ?thesis by (simp only: bits_mod)
qed

lemma bits_bytes: "bits (8 + m) v = bits 8 (v div 2 ^ m) @ bits m v"
  by (rule bits_split)

lemma encode_buf_bits: "byte_bits (ngx_http_v2_huff_encode_buf buf) = bits 64 (uint buf)"
proof -
  have "bits 64 (uint buf) = bits 8 (uint buf div 2 ^ 56) @ bits 8 (uint buf div 2 ^ 48) @ bits 8 (uint buf div 2 ^ 40) @
    bits 8 (uint buf div 2 ^ 32) @ bits 8 (uint buf div 2 ^ 24) @ bits 8 (uint buf div 2 ^ 16) @ bits 8 (uint buf div 2 ^ 8) @
    bits 8 (uint buf div 2 ^ 0)"
    using bits_bytes [of 56 "uint buf"] bits_bytes [of 48 "uint buf"] bits_bytes [of 40 "uint buf"] bits_bytes [of 32 "uint buf"]
      bits_bytes [of 24 "uint buf"] bits_bytes [of 16 "uint buf"] bits_bytes [of 8 "uint buf"] by simp
  then show ?thesis
    using byte_of_word [of 0 buf] unfolding ngx_http_v2_huff_encode_buf_def byte_bits_def
    by (simp add: byte_of_word del: power_numeral)
qed

lemma huff_flush_bits: "byte_bits (huff_flush buf (8 * Suc j)) = bits (8 * Suc j) (uint buf) \<and> length (huff_flush buf (8 * Suc j)) = Suc j"
proof (induction j)
  case 0
  show ?case using byte_of_word [of 0 buf] by (subst (1 2) huff_flush.simps) (simp add: byte_bits_def)
next
  case (Suc j)
  have "huff_flush buf (8 * Suc (Suc j)) = ucast (drop_bit (8 * Suc j) buf) # huff_flush buf (8 * Suc j)"
    by (subst huff_flush.simps) (simp add: Let_def)
  moreover have "bits (8 * Suc (Suc j)) (uint buf) = bits 8 (uint buf div 2 ^ (8 * Suc j)) @ bits (8 * Suc j) (uint buf)"
    using bits_bytes [of "8 * Suc j" "uint buf"] by simp
  moreover have "byte_bits (c # cs) = bits 8 (uint c) @ byte_bits cs" for c cs by (simp add: byte_bits_def)
  ultimately show ?case using Suc.IH byte_of_word [of "8 * Suc j" buf] by simp
qed

lemma int_or_add:
  assumes "0 \<le> b" "b < 2 ^ k"
  shows "(a * 2 ^ k :: int) OR b = a * 2 ^ k + b"
proof -
  have "push_bit k a OR b = push_bit k a + b"
  proof (rule disjunctive_add [symmetric])
    fix n
    have "take_bit k b = b" using assms by (simp add: take_bit_int_eq_self)
    then have "bit b n \<Longrightarrow> n < k" by (metis bit_take_bit_iff)
    then show "\<not> bit (push_bit k a) n \<or> \<not> bit b n" by (auto simp: bit_push_bit_iff)
  qed
  then show ?thesis by (simp add: push_bit_eq_mult)
qed

lemma uint_or_add:
  assumes "uint (a :: ngx_uint_t) = v * 2 ^ k" "uint b = w" "w < 2 ^ k"
  shows "uint (a OR b) = v * 2 ^ k + w"
proof -
  have "0 \<le> w" using assms(2) by (metis uint_ge_0)
  from int_or_add [OF this assms(3), of v] show ?thesis unfolding unsigned_or_eq assms(1,2) .
qed

section \<open>The loop of the encoder\<close>

definition table_bits :: "ngx_http_v2_huff_encode_code list \<Rightarrow> u_char \<Rightarrow> bool list" where
  "table_bits table c = (case huff_code table c of (n, v) \<Rightarrow> bits n v)"

definition table_ok :: "ngx_http_v2_huff_encode_code list \<Rightarrow> bool" where
  "table_ok table \<longleftrightarrow> (\<forall>c. case huff_code table c of (n, v) \<Rightarrow> n \<le> 30 \<and> 0 \<le> v \<and> v < 2 ^ n)"

definition enc_inv :: "bool list \<Rightarrow> u_char list \<Rightarrow> ngx_uint_t \<Rightarrow> nat \<Rightarrow> bool" where
  "enc_inv w dst buf pending \<longleftrightarrow> pending < 64 \<and>
    (\<exists>v. 0 \<le> v \<and> v < 2 ^ pending \<and> uint buf = v * 2 ^ (64 - pending) \<and> w = byte_bits dst @ bits pending v)"

lemma enc_inv_length: "enc_inv w dst buf pending \<Longrightarrow> length w = 8 * length dst + pending"
  by (auto simp: enc_inv_def)

lemma pow_split: "a + b = c \<Longrightarrow> (2 :: int) ^ c = 2 ^ a * 2 ^ b"
  by (simp flip: power_add)

lemma code_word:
  assumes "huff_code table ch = (n, x)"
  shows "uint (ucast (he_code (table ! unat ch)) :: ngx_uint_t) = x"
proof -
  have "uint (ucast (he_code (table ! unat ch)) :: ngx_uint_t) = uint (he_code (table ! unat ch))" by (rule uint_up_ucast) (simp add: is_up)
  then show ?thesis using assms by (simp add: huff_code_def)
qed

lemma enc_inv_accumulate:
  assumes i: "enc_inv w dst buf pending" and c: "huff_code table ch = (n, x)" "0 \<le> x" "x < 2 ^ n" and p: "pending + n < 64"
  shows "enc_inv (w @ bits n x) dst (buf OR push_bit (64 - (pending + n)) (ucast (he_code (table ! unat ch)))) (pending + n)"
proof -
  obtain v where v: "0 \<le> v" "v < 2 ^ pending" "uint buf = v * 2 ^ (64 - pending)" "w = byte_bits dst @ bits pending v"
    using i by (auto simp: enc_inv_def)
  let ?q = "64 - (pending + n)" and ?code = "ucast (he_code (table ! unat ch)) :: ngx_uint_t"
  have u: "uint ?code = x" using c(1) by (rule code_word)
  have b: "x * 2 ^ ?q < 2 ^ (64 - pending)"
  proof -
    have "x * 2 ^ ?q < 2 ^ n * 2 ^ ?q" using c(3) by simp
    then show ?thesis using pow_split [of n ?q "64 - pending"] p by simp
  qed
  have "(2 :: int) ^ (64 - pending) \<le> 2 ^ 64" by (rule power_increasing) simp_all
  then have "x * 2 ^ ?q < 2 ^ 64" using b by linarith
  then have s: "uint (push_bit ?q ?code) = x * 2 ^ ?q"
    unfolding uint_push u using c(2) by (intro mod_pos_pos_trivial) simp_all
  have "uint (buf OR push_bit ?q ?code) = v * 2 ^ (64 - pending) + x * 2 ^ ?q"
    by (rule uint_or_add [OF v(3) s b])
  also have "\<dots> = (v * 2 ^ n + x) * 2 ^ ?q" using pow_split [of n ?q "64 - pending"] p by (simp add: distrib_right)
  finally have "uint (buf OR push_bit ?q ?code) = (v * 2 ^ n + x) * 2 ^ ?q" .
  moreover have "v * 2 ^ n + x < 2 ^ (pending + n)"
  proof -
    have "v * 2 ^ n + x < (v + 1) * 2 ^ n" using c(3) by (simp add: distrib_right)
    also have "\<dots> \<le> 2 ^ pending * 2 ^ n" using v(2) by (intro mult_right_mono) simp_all
    finally show ?thesis by (simp add: power_add)
  qed
  moreover have "0 \<le> v * 2 ^ n + x" using v(1) c(2) by simp
  moreover have "w @ bits n x = byte_bits dst @ bits (pending + n) (v * 2 ^ n + x)" using v(4) bits_append [OF c(2,3), of pending v] by simp
  ultimately show ?thesis using p unfolding enc_inv_def by blast
qed

lemma enc_inv_store:
  assumes i: "enc_inv w dst buf pending" and c: "huff_code table ch = (n, x)" "0 \<le> x" "x < 2 ^ n" "n \<le> 30" and p: "64 \<le> pending + n"
  shows "enc_inv (w @ bits n x) (dst @ ngx_http_v2_huff_encode_buf (buf OR drop_bit (pending + n - 64) (ucast (he_code (table ! unat ch)))))
    (if pending + n - 64 \<noteq> 0 then push_bit (64 - (pending + n - 64)) (ucast (he_code (table ! unat ch))) else 0) (pending + n - 64)"
proof -
  obtain v where v: "0 \<le> v" "v < 2 ^ pending" "uint buf = v * 2 ^ (64 - pending)" "w = byte_bits dst @ bits pending v" "pending < 64"
    using i by (auto simp: enc_inv_def)
  let ?p = "pending + n - 64" and ?k = "64 - pending" and ?code = "ucast (he_code (table ! unat ch)) :: ngx_uint_t"
  have n: "n = ?k + ?p" using p v(5) by linarith
  have u: "uint ?code = x" using c(1) by (rule code_word)
  have d: "uint (drop_bit ?p ?code) = x div 2 ^ ?p" unfolding uint_drop u by (rule refl)
  have "n - ?k = ?p" using n by linarith
  then have b: "x div 2 ^ ?p < 2 ^ ?k" using div_power_less [of x n ?k] c(3) n by simp
  have "uint (buf OR drop_bit ?p ?code) = v * 2 ^ ?k + x div 2 ^ ?p" by (rule uint_or_add [OF v(3) d b])
  then have "byte_bits (ngx_http_v2_huff_encode_buf (buf OR drop_bit ?p ?code)) = bits (pending + ?k) (v * 2 ^ ?k + x div 2 ^ ?p)"
    using v(5) by (simp add: encode_buf_bits)
  also have "\<dots> = bits pending v @ bits ?k (x div 2 ^ ?p)"
    using bits_append [OF _ b, of pending v] c(2) by (simp add: pos_imp_zdiv_nonneg_iff)
  finally have e: "byte_bits (ngx_http_v2_huff_encode_buf (buf OR drop_bit ?p ?code)) = bits pending v @ bits ?k (x div 2 ^ ?p)" .
  have "bits n x = bits ?k (x div 2 ^ ?p) @ bits ?p (x mod 2 ^ ?p)" using bits_split [of ?k ?p x] n bits_mod [of ?p x] by simp
  then have w: "w @ bits n x = byte_bits (dst @ ngx_http_v2_huff_encode_buf (buf OR drop_bit ?p ?code)) @ bits ?p (x mod 2 ^ ?p)"
    using v(4) e by simp
  have "uint (if ?p \<noteq> 0 then push_bit (64 - ?p) ?code else 0) = x mod 2 ^ ?p * 2 ^ (64 - ?p)"
  proof (cases "?p = 0")
    case False
    have "(2 :: int) ^ 64 = 2 ^ ?p * 2 ^ (64 - ?p)" by (rule pow_split) (use c(4) v(5) in linarith)
    then have "uint (push_bit (64 - ?p) ?code) = x mod 2 ^ ?p * 2 ^ (64 - ?p)"
      unfolding uint_push u by (simp only: mult_mod_left)
    then show ?thesis using False by simp
  qed simp
  moreover have "0 \<le> x mod 2 ^ ?p" "x mod 2 ^ ?p < 2 ^ ?p" by simp_all
  moreover have "?p < 64" using c(4) v(5) by linarith
  ultimately show ?thesis using w unfolding enc_inv_def by blast
qed

definition enc_result :: "bool list \<Rightarrow> nat \<Rightarrow> (u_char list \<times> ngx_uint_t \<times> nat) option \<Rightarrow> bool" where
  "enc_result w len r = (case r of None \<Rightarrow> 8 * len \<le> length w | Some (dst, buf, pending) \<Rightarrow> enc_inv w dst buf pending \<and> (dst = [] \<or> length dst < len))"

lemma enc_loop_ok:
  assumes t: "table_ok table" and i: "enc_inv w dst buf pending" and d: "dst = [] \<or> length dst < len"
  shows "enc_result (w @ concat (map (table_bits table) src)) len (huff_encode_loop table len src dst buf pending)"
  using i d
proof (induction src arbitrary: w dst buf pending)
  case (Cons ch src)
  obtain n x where c: "huff_code table ch = (n, x)" by fastforce
  have "case huff_code table ch of (n, v) \<Rightarrow> n \<le> 30 \<and> 0 \<le> v \<and> v < 2 ^ n" using t unfolding table_ok_def by (rule spec)
  then have r: "n \<le> 30" "0 \<le> x" "x < 2 ^ n" using c by simp_all
  have n: "unat (he_len (table ! unat ch)) = n" and b: "table_bits table ch = bits n x"
    using c by (simp_all add: huff_code_def table_bits_def)
  show ?case
  proof (cases "pending + n < 64")
    case True
    from Cons.IH [OF enc_inv_accumulate [OF Cons.prems(1) c r(2,3) True] Cons.prems(2)] show ?thesis using True n b by (simp add: Let_def)
  next
    case False
    show ?thesis
    proof (cases "len \<le> length dst + 8")
      case True
      then have "8 * len \<le> length w + n" using enc_inv_length [OF Cons.prems(1)] False by linarith
      then show ?thesis using False True n b by (simp add: Let_def enc_result_def)
    next
      case le: False
      have p: "64 \<le> pending + n" using False by simp
      have "length (dst @ ngx_http_v2_huff_encode_buf y) < len" for y using le by (simp add: ngx_http_v2_huff_encode_buf_def)
      then have "enc_result ((w @ bits n x) @ concat (map (table_bits table) src)) len (huff_encode_loop table len src
          (dst @ ngx_http_v2_huff_encode_buf (buf OR drop_bit (pending + n - 64) (ucast (he_code (table ! unat ch)))))
          (if pending + n - 64 \<noteq> 0 then push_bit (64 - (pending + n - 64)) (ucast (he_code (table ! unat ch))) else 0) (pending + n - 64))"
        by (intro Cons.IH [OF enc_inv_store [OF Cons.prems(1) c r(2,3,1) p]]) simp
      then show ?thesis unfolding huff_encode_loop.simps Let_def n b using False le
        by (simp only: if_False n b list.simps concat.simps append.assoc simp_thms)
    qed
  qed
qed (simp add: enc_result_def)

lemma ngx_align_8: "nat (ngx_align (int p) 8) = (p + 7) div 8 * 8"
proof -
  have "ngx_align (int p) 8 = (int p + 7) AND NOT (mask 3)" by (simp add: ngx_align_def mask_eq_exp_minus_1)
  also have "\<dots> = push_bit 3 (drop_bit 3 (int p + 7))" by (rule bit_eqI) (auto simp: bit_simps)
  also have "\<dots> = (int p + 7) div 8 * 8" by (simp add: push_bit_eq_mult drop_bit_eq_div)
  also have "\<dots> = int ((p + 7) div 8 * 8)" by (simp add: zdiv_int)
  finally show ?thesis by (simp only: nat_int)
qed

lemma div_ones: "0 < d \<Longrightarrow> (a * d + (d - 1)) div d = (a :: int)"
  by (simp add: div_pos_pos_trivial)

lemma enc_last_bits:
  assumes i: "enc_inv w dst buf pending" and p: "pending \<noteq> 0" and q: "q = (pending + 7) div 8 * 8"
  shows "byte_bits (huff_flush (drop_bit (64 - q) (buf OR drop_bit pending (- 1))) q) = bits pending (uint buf div 2 ^ (64 - pending)) @ replicate (q - pending) True \<and>
    length (huff_flush (drop_bit (64 - q) (buf OR drop_bit pending (- 1))) q) = q div 8 \<and> pending \<le> q \<and> q < pending + 8"
proof -
  obtain v where v: "0 \<le> v" "v < 2 ^ pending" "uint buf = v * 2 ^ (64 - pending)" and p64: "pending < 64"
    using i by (auto simp: enc_inv_def)
  have "(pending + 7) div 8 \<le> 8" using p64 by simp
  then have le: "pending \<le> q" "q < pending + 8" "q \<le> 64" unfolding q by linarith+
  obtain j where j: "q = 8 * Suc j"
  proof -
    have "0 < (pending + 7) div 8" using p by simp
    then obtain j where "(pending + 7) div 8 = Suc j" using gr0_implies_Suc by blast
    then show ?thesis using that q by simp
  qed
  have m: "uint (drop_bit pending (- 1) :: ngx_uint_t) = 2 ^ (64 - pending) - 1"
  proof -
    have "(2 :: int) ^ 64 = 2 ^ (64 - pending) * 2 ^ pending" by (rule pow_split) (use p64 in simp)
    then have "(2 ^ 64 - 1 :: int) = (2 ^ (64 - pending) - 1) * 2 ^ pending + (2 ^ pending - 1)" by (simp add: algebra_simps)
    moreover have "uint (- 1 :: ngx_uint_t) = 2 ^ 64 - 1" by (simp add: unsigned_minus_1_eq_mask mask_eq_exp_minus_1)
    ultimately show ?thesis unfolding uint_drop by (simp only: div_ones zero_less_power zero_less_numeral)
  qed
  have o: "uint (buf OR drop_bit pending (- 1)) = v * 2 ^ (64 - pending) + (2 ^ (64 - pending) - 1)"
    by (rule uint_or_add [OF v(3) m]) simp
  have "(2 :: int) ^ (64 - pending) = 2 ^ (q - pending) * 2 ^ (64 - q)" by (rule pow_split) (use le in linarith)
  then have e: "v * 2 ^ (64 - pending) + (2 ^ (64 - pending) - 1) = (v * 2 ^ (q - pending) + (2 ^ (q - pending) - 1)) * 2 ^ (64 - q) + (2 ^ (64 - q) - 1)"
    by (simp add: algebra_simps)
  then have "uint (drop_bit (64 - q) (buf OR drop_bit pending (- 1))) = v * 2 ^ (q - pending) + (2 ^ (q - pending) - 1)"
    unfolding uint_drop o by (simp only: div_ones zero_less_power zero_less_numeral)
  then have "bits q (uint (drop_bit (64 - q) (buf OR drop_bit pending (- 1)))) = bits pending v @ bits (q - pending) (2 ^ (q - pending) - 1)"
    using bits_append [of "2 ^ (q - pending) - 1" "q - pending" pending v] le(1) by simp
  then have "byte_bits (huff_flush (drop_bit (64 - q) (buf OR drop_bit pending (- 1))) q) = bits pending v @ replicate (q - pending) True"
    using huff_flush_bits [of _ j] j by (simp add: bits_ones)
  moreover have "uint buf div 2 ^ (64 - pending) = v" using v(3) by simp
  ultimately show ?thesis using huff_flush_bits [of _ j] j le by simp
qed

text \<open>The length of the encoded string, in bits and in bytes.\<close>

definition huff_text :: "u_char list \<Rightarrow> bool \<Rightarrow> u_char list" where
  "huff_text src lower = (if lower then map ngx_tolower src else src)"

lemma huff_tables_ok: "table_ok ngx_http_v2_huff_encode_table" "table_ok ngx_http_v2_huff_encode_table_lc"
  using code_range by (auto simp: table_ok_def huff_code_lc)

lemma huff_encode_bits:
  assumes n: "n = (length (huff_concat (huff_text src lower)) + 7) div 8" and h: "h = ngx_http_v2_huff_encode src lower"
  shows "if n < length src then length h = n \<and> byte_bits h = huff_concat (huff_text src lower) @ replicate (8 * n - length (huff_concat (huff_text src lower))) True
    else h = []"
proof -
  define t where "t = (if lower then ngx_http_v2_huff_encode_table_lc else ngx_http_v2_huff_encode_table)"
  let ?w = "concat (map (table_bits t) src)"
  have w: "?w = huff_concat (huff_text src lower)"
    by (induction src) (simp_all add: huff_text_def table_bits_def huff_bits_def huff_code_lc t_def)
  have e0: "enc_inv [] [] 0 0" by (simp add: enc_inv_def byte_bits_def)
  have t: "table_ok t" using huff_tables_ok by (simp add: t_def)
  have L: "enc_result ?w (length src) (huff_encode_loop t (length src) src [] 0 0)"
    using enc_loop_ok [OF t e0, of "length src" src] by simp
  show ?thesis
  proof (cases "huff_encode_loop t (length src) src [] 0 0")
    case None
    then have "8 * length src \<le> length ?w" using L by (simp add: enc_result_def)
    then have "length src \<le> n" unfolding n w by linarith
    then have "\<not> n < length src" by simp
    moreover have "h = []" using None h by (simp add: ngx_http_v2_huff_encode_def Let_def flip: t_def)
    ultimately show ?thesis by simp
  next
    case (Some a)
    then obtain dst buf pending where s: "huff_encode_loop t (length src) src [] 0 0 = Some (dst, buf, pending)" by (metis prod_cases3)
    then have i: "enc_inv ?w dst buf pending" and d: "dst = [] \<or> length dst < length src" using L by (simp_all add: enc_result_def)
    have len: "length ?w = 8 * length dst + pending" by (rule enc_inv_length [OF i])
    show ?thesis
    proof (cases "pending = 0")
      case True
      have hd: "h = dst" using s True h by (simp add: ngx_http_v2_huff_encode_def Let_def flip: t_def)
      have nd: "n = length dst" using n w len True by simp
      have "?w = byte_bits dst" using i True by (auto simp: enc_inv_def)
      then show ?thesis using hd nd d w len True by auto
    next
      case False
      let ?q = "(pending + 7) div 8 * 8"
      note lb = enc_last_bits [OF i False refl]
      have nq: "n = length dst + ?q div 8" using n w len by simp
      have h': "h = (if length src \<le> length dst + ?q div 8 then [] else dst @ huff_flush (drop_bit (64 - ?q) (buf OR drop_bit pending (- 1))) ?q)"
        using s False h by (simp add: ngx_http_v2_huff_encode_def Let_def ngx_align_8 flip: t_def)
      show ?thesis
      proof (cases "n < length src")
        case True
        have h2: "h = dst @ huff_flush (drop_bit (64 - ?q) (buf OR drop_bit pending (- 1))) ?q" using h' True nq by simp
        obtain v where v: "uint buf = v * 2 ^ (64 - pending)" "?w = byte_bits dst @ bits pending v" using i by (auto simp: enc_inv_def)
        have "uint buf div 2 ^ (64 - pending) = v" using v(1) by simp
        then have "byte_bits h = ?w @ replicate (?q - pending) True" using h2 lb v(2) by simp
        moreover have "8 * n - length ?w = ?q - pending" using nq len lb by simp
        moreover have "length h = n" using h2 lb nq by simp
        ultimately show ?thesis using True w by simp
      qed (use h' nq in simp)
    qed
  qed
qed

text \<open>C17. The encoder is exact and the decoder inverts it. Where the codes of the string, in lower case if so asked, fill fewer bytes than the string
  has, \<open>ngx_http_v2_huff_encode\<close> returns the least number of bytes that hold them, and \<open>ngx_http_v2_huff_decode\<close> returns the string;
  everywhere else it returns zero. It never writes more bytes than the string has.\<close>

theorem huff_roundtrip:
  "let n = (length (concat (map huff_bits (huff_text src lower))) + 7) div 8; h = ngx_http_v2_huff_encode src lower in
   if n < length src then length h = n \<and> ngx_http_v2_huff_decode 0 h [] True = (NGX_OK, 0, huff_text src lower) else h = []"
proof -
  let ?n = "(length (huff_concat (huff_text src lower)) + 7) div 8" and ?h = "ngx_http_v2_huff_encode src lower"
  have "8 * ?n - length (huff_concat (huff_text src lower)) < 30" by linarith
  then show ?thesis using huff_encode_bits [OF refl refl, of src lower] huff_decode_iff [of ?h "huff_text src lower"] by (auto simp: Let_def)
qed

section \<open>Decoding in portions\<close>

text \<open>The calls of \<open>ngx_http_v2_state_field_huff\<close> for one string: the bytes of the string arrive in portions, and the call for the last one
  has the argument \<open>last\<close>.\<close>

fun huff_feed :: "u_char list list \<Rightarrow> u_char \<Rightarrow> u_char list \<Rightarrow> ngx_rc \<times> u_char \<times> u_char list" where
  "huff_feed [] state dst = (NGX_OK, state, dst)"
| "huff_feed [p] state dst = ngx_http_v2_huff_decode state p dst True"
| "huff_feed (p # q # ps) state dst =
    (case ngx_http_v2_huff_decode state p dst False of
       (NGX_OK, state, dst) \<Rightarrow> huff_feed (q # ps) state dst
     | r \<Rightarrow> r)"

lemma huff_nibbles_ending:
  "ns \<noteq> [] \<Longrightarrow> huff_nibbles ns (h\<lparr>hf_ending := a\<rparr>) = huff_nibbles ns h \<or>
    (\<exists>h'. huff_nibbles ns h = (NGX_ERROR, h') \<and> huff_nibbles ns (h\<lparr>hf_ending := a\<rparr>) = (NGX_ERROR, h'\<lparr>hf_ending := a\<rparr>))"
proof (cases ns)
  case (Cons n ms)
  show ?thesis
  proof (cases "hd_next (ngx_http_v2_huff_decode_codes ! unat (hf_state h) ! n) = hf_state h")
    case True
    then show ?thesis using Cons by (simp add: ngx_http_v2_huff_decode_bits_def Let_def)
  next
    case False
    then have "ngx_http_v2_huff_decode_bits n (h\<lparr>hf_ending := a\<rparr>) = ngx_http_v2_huff_decode_bits n h"
      by (simp add: ngx_http_v2_huff_decode_bits_def Let_def)
    then show ?thesis using Cons by simp
  qed
qed simp

lemma huff_decode_append:
  assumes "q \<noteq> []"
  shows "ngx_http_v2_huff_decode state (p @ q) dst final =
    (case ngx_http_v2_huff_decode state p dst False of
       (NGX_OK, state, dst) \<Rightarrow> ngx_http_v2_huff_decode state q dst final
     | r \<Rightarrow> r)"
proof -
  let ?h = "\<lparr>hf_state = state, hf_ending = 1, hf_dst = dst\<rparr>"
  have n: "nibbles (p @ q) = nibbles p @ nibbles q" "nibbles q \<noteq> []" using assms by (simp_all add: nibbles_def neq_Nil_conv)
  show ?thesis
  proof (cases rule: huff_nibbles_cases [of "nibbles p" ?h])
    case (1 h1)
    then show ?thesis by (simp add: ngx_http_v2_huff_decode_def huff_decode_nibbles n huff_nibbles_append)
  next
    case (2 h1)
    let ?h1 = "\<lparr>hf_state = hf_state h1, hf_ending = 1, hf_dst = hf_dst h1\<rparr>"
    have h1: "?h1 = h1\<lparr>hf_ending := 1\<rparr>" by simp
    from huff_nibbles_ending [OF n(2), where h = h1 and a = 1] have "huff_nibbles (nibbles q) ?h1 = huff_nibbles (nibbles q) h1 \<or>
      (\<exists>h'. huff_nibbles (nibbles q) h1 = (NGX_ERROR, h') \<and> huff_nibbles (nibbles q) ?h1 = (NGX_ERROR, h'\<lparr>hf_ending := 1\<rparr>))"
      unfolding h1 .
    then show ?thesis using 2 by (auto simp: ngx_http_v2_huff_decode_def huff_decode_nibbles n huff_nibbles_append)
  qed
qed

lemma huff_feed_concat: "ps \<noteq> [] \<Longrightarrow> last ps \<noteq> [] \<Longrightarrow> huff_feed ps state dst = ngx_http_v2_huff_decode state (concat ps) dst True"
proof (induction ps state dst rule: huff_feed.induct)
  case (3 p q ps state dst)
  have "concat (q # ps) \<noteq> []" using 3(3) by (metis concat_eq_Nil_conv last_ConsR last_in_set list.distinct(1))
  then show ?case using huff_decode_append [of "concat (q # ps)" state p dst True] 3 by (auto split: prod.splits ngx_rc.splits)
qed simp_all

section \<open>The space for the decoded string\<close>

lemma huff_nibbles_space:
  assumes "huff_nibbles ns h = (rc, h')" "\<forall>n\<in>set ns. n < 16"
  shows "5 * length (hf_dst h') + length (node_bits (hf_state h')) \<le> 5 * length (hf_dst h) + length (node_bits (hf_state h)) + 4 * length ns"
  using assms
proof (induction ns arbitrary: h)
  case (Cons n ns)
  show ?case
  proof (cases rule: huff_step_cases [of n h])
    case (1 h1)
    then have "h' = h" using Cons.prems by (auto simp: ngx_http_v2_huff_decode_bits_def Let_def split: if_splits)
    then show ?thesis by simp
  next
    case (2 h1)
    obtain o1 where o1: "hf_dst h1 = hf_dst h @ o1" "node_bits (hf_state h) @ bits 4 (int n) = huff_concat o1 @ node_bits (hf_state h1)"
      using huff_step_ok [OF _ 2] Cons.prems(2) by auto
    have "5 * length o1 + length (node_bits (hf_state h1)) \<le> length (node_bits (hf_state h)) + 4"
      using arg_cong [OF o1(2), of length] huff_concat_length [of o1] by simp
    then show ?thesis using Cons.IH [of h1] Cons.prems 2 o1(1) by simp
  qed
qed simp

lemma length_nibbles: "length (nibbles src) = 2 * length src"
  by (induction src) (simp_all add: nibbles_def)

lemma huff_decode_space:
  assumes "ngx_http_v2_huff_decode state src dst final = (rc, state', dst')"
  shows "5 * length dst' + length (node_bits state') \<le> 5 * length dst + length (node_bits state) + 8 * length src"
proof -
  let ?h = "\<lparr>hf_state = state, hf_ending = 1, hf_dst = dst\<rparr>"
  obtain rc1 h1 where h1: "huff_nibbles (nibbles src) ?h = (rc1, h1)" by fastforce
  have "5 * length (hf_dst h1) + length (node_bits (hf_state h1)) \<le> 5 * length dst + length (node_bits state) + 8 * length src"
    using huff_nibbles_space [OF h1] nibbles_bound [of _ src] by (simp add: length_nibbles)
  moreover have "dst' = hf_dst h1 \<and> (state' = hf_state h1 \<or> state' = 0)"
    using assms h1 by (auto simp: ngx_http_v2_huff_decode_def huff_decode_nibbles split: ngx_rc.splits if_splits)
  ultimately show ?thesis by (auto simp: node_zero)
qed

lemma huff_feed_space:
  "huff_feed ps state dst = (rc, state', dst') \<Longrightarrow>
    5 * length dst' \<le> 5 * length dst + length (node_bits state) + 8 * length (concat ps)"
proof (induction ps state dst rule: huff_feed.induct)
  case (2 p state dst)
  then show ?case using huff_decode_space by fastforce
next
  case (3 p q ps state dst)
  obtain rc1 s1 d1 where d: "ngx_http_v2_huff_decode state p dst False = (rc1, s1, d1)" by (metis prod_cases3)
  note sp = huff_decode_space [OF d]
  show ?case
  proof (cases "rc1 = NGX_OK")
    case True
    then have "5 * length dst' \<le> 5 * length d1 + length (node_bits s1) + 8 * length (concat (q # ps))" using 3 d by simp
    then show ?thesis using sp by simp
  next
    case False
    then have "dst' = d1" using 3(2) d by (cases rc1) simp_all
    then show ?thesis using sp by simp
  qed
qed simp

text \<open>Portions. A string whose bytes arrive in any portions, the last one not empty, is decoded as if they had come at once, errors included.\<close>

theorem huff_portions:
  assumes "ps \<noteq> []" "last ps \<noteq> []"
  shows "huff_feed ps 0 [] = ngx_http_v2_huff_decode 0 (concat ps) [] True"
  by (rule huff_feed_concat [OF assms])

theorem huff_portions_witness:
  "huff_feed [[0x1f], [0xff]] 0 [] = ngx_http_v2_huff_decode 0 [0x1f, 0xff] [] True"
  using huff_portions [of "[[0x1f], [0xff]]"] by simp

text \<open>C19. Bounds. The decoder never writes more than the \<open>len * 8 / 5\<close> bytes that \<open>ngx_http_v2_state_field_len\<close> has allocated for a string of
  \<open>len\<close> bytes, in whatever portions the string arrives, and whether or not it is well formed.\<close>

theorem huff_decode_fits:
  "case huff_feed ps 0 [] of (rc, state, dst) \<Rightarrow> length dst \<le> length (concat ps) * 8 div 5"
proof -
  obtain rc state dst where "huff_feed ps 0 [] = (rc, state, dst)" by (metis prod_cases3)
  then show ?thesis using huff_feed_space [of ps 0 "[]" rc state dst] by (simp add: node_zero)
qed

text \<open>The padding may be longer than the seven bits that a byte can need: 27 ones behind the code of the byte 0x30 are accepted.\<close>

lemma huff_long_padding: "ngx_http_v2_huff_decode 0 [0x07, 0xff, 0xff, 0xff] [] True = (NGX_OK, 0, [0x30])"
proof -
  have "bits 8 255 = replicate 8 True" "bits 8 7 = bits 5 0 @ replicate 3 True"
    using bits_ones [of 8] bits_append [of 7 3 5 0] bits_ones [of 3] by simp_all
  then have "byte_bits [0x07, 0xff, 0xff, 0xff] = huff_bits 0x30 @ replicate 3 True @ replicate 8 True @ replicate 8 True @ replicate 8 True"
    by (simp add: byte_bits_def huff_bits_def huff_code_at)
  also have "\<dots> = huff_bits 0x30 @ replicate 27 True" by (simp only: replicate_add [symmetric]) simp
  finally show ?thesis unfolding huff_decode_iff by (intro exI [of _ 27]) simp
qed

end
