(* ===== verification/Http_V2_Header_Block.thy ===== *)
theory Http_V2_Header_Block
  imports Http_V2_Table Http_V2_Huff
begin

text \<open>
  Header blocks of HTTP/2: how \<^verbatim>\<open>http/v2/ngx_http_v2_encode.c\<close> writes integers and strings, and the handlers of
  \<^verbatim>\<open>http/v2/ngx_http_v2.c\<close> that read a header block. A handler gets the bytes from \<^verbatim>\<open>pos\<close> to \<^verbatim>\<open>end\<close> and the state of the connection;
  the handler that it calls as its last action is part of its result.
\<close>

section \<open>Integers and strings, written\<close>

definition ngx_http_v2_prefix :: "nat \<Rightarrow> nat" where
  "ngx_http_v2_prefix n = 2 ^ n - 1"

definition NGX_HTTP_V2_INT_OCTETS :: nat where
  "NGX_HTTP_V2_INT_OCTETS = 4"

definition NGX_HTTP_V2_ENCODE_RAW :: u_char where
  "NGX_HTTP_V2_ENCODE_RAW = 0"

definition NGX_HTTP_V2_ENCODE_HUFF :: u_char where
  "NGX_HTTP_V2_ENCODE_HUFF = 0x80"

fun write_int_loop :: "nat \<Rightarrow> u_char list" where
  "write_int_loop val =
    (if val \<ge> 128 then word_of_nat (val mod 128 + 128) # write_int_loop (val div 128)
     else [word_of_nat val])"

declare write_int_loop.simps [simp del]

text \<open>\<open>first\<close> is the byte at \<open>pos\<close>, into which the prefix is written.\<close>

definition ngx_http_v2_write_int :: "u_char \<Rightarrow> nat \<Rightarrow> nat \<Rightarrow> u_char list" where
  "ngx_http_v2_write_int first prefix val =
    (if val < prefix then [first OR word_of_nat val]
     else (first OR word_of_nat prefix) # write_int_loop (val - prefix))"

definition ngx_http_v2_string_encode :: "u_char list \<Rightarrow> bool \<Rightarrow> u_char list" where
  "ngx_http_v2_string_encode src lower =
    (let tmp = ngx_http_v2_huff_encode src lower; hlen = length tmp in
     if hlen > 0 then ngx_http_v2_write_int NGX_HTTP_V2_ENCODE_HUFF (ngx_http_v2_prefix 7) hlen @ tmp
     else ngx_http_v2_write_int NGX_HTTP_V2_ENCODE_RAW (ngx_http_v2_prefix 7) (length src) @
       (if lower then map ngx_tolower src else src))"

text \<open>A header field as \<open>ngx_http_v2_header_filter\<close> writes those of \<open>r->headers_out.headers\<close>: a literal that is not entered in the
  table, with a new name.\<close>

definition write_header :: "header_field \<Rightarrow> u_char list" where
  "write_header h = 0 # ngx_http_v2_string_encode (fst h) True @ ngx_http_v2_string_encode (snd h) False"

section \<open>The state of the header block decoder\<close>

text \<open>The fields of \<open>h2c->state\<close> that the header block decoder uses, and the table \<open>h2c->hpack\<close>. \<open>hb_end_headers\<close> is the flag
  \<open>NGX_HTTP_V2_END_HEADERS_FLAG\<close> of \<open>flags\<close>, \<open>hb_stream\<close> says that \<open>stream\<close> is not \<open>NULL\<close>. \<open>hb_field\<close> are the bytes from
  \<open>field_start\<close> to \<open>field_end\<close>, \<open>hb_alloc\<close> the size of the memory that was allocated for them. \<open>hb_name\<close> and \<open>hb_value\<close> are \<open>header\<close>.\<close>

record ngx_http_v2_state =
  hb_length :: nat
  hb_end_headers :: bool
  hb_parse_name :: bool
  hb_parse_value :: bool
  hb_index :: bool
  hb_name :: "u_char list"
  hb_value :: "u_char list"
  hb_header_limit :: nat
  hb_field_state :: u_char
  hb_field :: "u_char list"
  hb_alloc :: nat
  hb_field_rest :: nat
  hb_stream :: bool
  hb_hpack :: ngx_http_v2_hpack

datatype h2_handler =
    ngx_http_v2_state_header_block
  | ngx_http_v2_state_field_len
  | ngx_http_v2_state_field_huff
  | ngx_http_v2_state_field_raw
  | ngx_http_v2_state_field_skip
  | ngx_http_v2_state_process_header
  | ngx_http_v2_state_header_complete

datatype h2_error = NGX_HTTP_V2_COMP_ERROR | NGX_HTTP_V2_SIZE_ERROR | NGX_HTTP_V2_ENHANCE_YOUR_CALM | NGX_HTTP_V2_INTERNAL_ERROR

text \<open>How a handler ends: with a call of another handler, which is always its last action; by saving the bytes from \<open>pos\<close> to \<open>end\<close>, to
  be called again with more bytes behind them; with a connection error; with \<open>ngx_http_v2_handle_continuation\<close>; with a header for the
  request of the stream; by returning \<open>pos\<close> with \<open>ngx_http_v2_state_header_block\<close> as next handler; or with the end of the header block.\<close>

datatype h2_action =
    H2_call h2_handler "u_char list"
  | H2_save h2_handler "u_char list"
  | H2_error h2_error
  | H2_continuation h2_handler "u_char list"
  | H2_header header_field "u_char list"
  | H2_return "u_char list"
  | H2_complete "u_char list"

section \<open>Integers, read\<close>

text \<open>The bytes behind the first one; \<open>n\<close> is \<open>p - start\<close>. \<open>None\<close> is the end of the loop.\<close>

fun parse_int_loop :: "u_char list \<Rightarrow> nat \<Rightarrow> nat \<Rightarrow> nat \<Rightarrow> (nat \<times> nat) option" where
  "parse_int_loop [] shift val n = None"
| "parse_int_loop (octet # p) shift val n =
    (let val = val + push_bit shift (unat (octet AND 0x7f)) in
     if octet < 128 then Some (val, n + 1) else parse_int_loop p (shift + 7) val (n + 1))"

definition ngx_http_v2_parse_int ::
  "u_char \<Rightarrow> u_char list \<Rightarrow> nat \<Rightarrow> ngx_http_v2_state \<Rightarrow> (ngx_rc + nat) \<times> u_char list \<times> ngx_http_v2_state" where
  "ngx_http_v2_parse_int ch p prefix st =
    (let val = unat ch AND prefix in
     if val \<noteq> prefix then
       if hb_length st = 0 then (Inl NGX_ERROR, ch # p, st)
       else (Inr val, p, st\<lparr>hb_length := hb_length st - 1\<rparr>)
     else
       let m = min (Suc (length p)) NGX_HTTP_V2_INT_OCTETS in
       case parse_int_loop (take (m - 1) p) 0 val 1 of
         Some (val, n) \<Rightarrow>
           if n > hb_length st then (Inl NGX_ERROR, ch # p, st)
           else (Inr val, drop (n - 1) p, st\<lparr>hb_length := hb_length st - n\<rparr>)
       | None \<Rightarrow>
           if m \<ge> hb_length st then (Inl NGX_ERROR, ch # p, st)
           else if m = NGX_HTTP_V2_INT_OCTETS then (Inl NGX_DECLINED, ch # p, st)
           else (Inl NGX_AGAIN, ch # p, st))"

text \<open>What the two callers do with a result below zero.\<close>

definition parse_int_failed :: "h2_handler \<Rightarrow> ngx_rc \<Rightarrow> u_char list \<Rightarrow> h2_action" where
  "parse_int_failed handler rc p =
    (if rc = NGX_AGAIN then H2_save handler p
     else if rc = NGX_DECLINED then H2_error NGX_HTTP_V2_COMP_ERROR
     else H2_error NGX_HTTP_V2_SIZE_ERROR)"

section \<open>The handlers\<close>

text \<open>\<open>palloc\<close> says which allocations succeed: 0 to 3 in the functions of the table, 4 that of the memory for a string.\<close>

text \<open>\<open>ngx_http_v2_state_header_block\<close>: the kind of the field by its first byte, and what follows when the integer has been read.\<close>

definition block_prefix :: "u_char \<Rightarrow> nat" where
  "block_prefix ch = ngx_http_v2_prefix (if ch \<ge> 128 then 7 else if ch \<ge> 64 then 6 else if ch \<ge> 32 then 5 else 4)"

definition block_mark :: "u_char \<Rightarrow> ngx_http_v2_state \<Rightarrow> ngx_http_v2_state" where
  "block_mark ch st = (if ch \<ge> 64 \<and> \<not> ch \<ge> 128 then st\<lparr>hb_index := True\<rparr> else st)"

definition block_value ::
  "(nat \<Rightarrow> bool) \<Rightarrow> u_char \<Rightarrow> nat \<Rightarrow> u_char list \<Rightarrow> ngx_http_v2_state \<Rightarrow> (h2_action \<times> ngx_http_v2_state) option" where
  "block_value palloc ch val p st =
    (let indexed = (ch \<ge> 128); size_update = (ch \<ge> 32 \<and> \<not> ch \<ge> 64) in
     if indexed then do {
       (rc, name, value) \<leftarrow> ngx_http_v2_get_indexed_header palloc val False (hb_hpack st);
       let st = st\<lparr>hb_name := case_option (hb_name st) id name, hb_value := case_option (hb_value st) id value\<rparr>;
       if rc \<noteq> NGX_OK then Some (H2_error NGX_HTTP_V2_COMP_ERROR, st)
       else Some (H2_call ngx_http_v2_state_process_header p, st)
     }
     else if size_update then do {
       (rc, table) \<leftarrow> ngx_http_v2_table_size val (hb_hpack st);
       let st = st\<lparr>hb_hpack := table\<rparr>;
       if rc \<noteq> NGX_OK then Some (H2_error NGX_HTTP_V2_COMP_ERROR, st)
       else Some (H2_call ngx_http_v2_state_header_complete p, st)
     }
     else if val = 0 then Some (H2_call ngx_http_v2_state_field_len p, st\<lparr>hb_parse_name := True, hb_parse_value := True\<rparr>)
     else do {
       (rc, name, value) \<leftarrow> ngx_http_v2_get_indexed_header palloc val True (hb_hpack st);
       let st = st\<lparr>hb_name := case_option (hb_name st) id name, hb_value := case_option (hb_value st) id value\<rparr>;
       if rc \<noteq> NGX_OK then Some (H2_error NGX_HTTP_V2_COMP_ERROR, st)
       else Some (H2_call ngx_http_v2_state_field_len p, st\<lparr>hb_parse_value := True\<rparr>)
     })"

fun state_header_block :: "(nat \<Rightarrow> bool) \<Rightarrow> u_char list \<Rightarrow> ngx_http_v2_state \<Rightarrow> (h2_action \<times> ngx_http_v2_state) option" where
  "state_header_block palloc [] st = Some (H2_save ngx_http_v2_state_header_block [], st)"
| "state_header_block palloc (ch # p) st =
    (if \<not> hb_end_headers st \<and> hb_length st < NGX_HTTP_V2_INT_OCTETS then Some (H2_continuation ngx_http_v2_state_header_block (ch # p), st)
     else
       case ngx_http_v2_parse_int ch p (block_prefix ch) (block_mark ch st) of
         (Inl rc, p, st) \<Rightarrow> Some (parse_int_failed ngx_http_v2_state_header_block rc p, st)
       | (Inr val, p, st) \<Rightarrow> block_value palloc ch val p st)"

text \<open>\<open>ngx_http_v2_state_field_len\<close> and what follows when the length has been read.\<close>

definition field_value :: "(nat \<Rightarrow> bool) \<Rightarrow> nat \<Rightarrow> bool \<Rightarrow> nat \<Rightarrow> u_char list \<Rightarrow> ngx_http_v2_state \<Rightarrow> h2_action \<times> ngx_http_v2_state" where
  "field_value palloc max_field_size huff len p st =
    (if len > max_field_size then (H2_error NGX_HTTP_V2_ENHANCE_YOUR_CALM, st)
     else
       let st = st\<lparr>hb_field_rest := len\<rparr> in
       if \<not> hb_stream st \<and> \<not> hb_index st then (H2_call ngx_http_v2_state_field_skip p, st)
       else if \<not> palloc 4 then (H2_error NGX_HTTP_V2_INTERNAL_ERROR, st)
       else
         let st = st\<lparr>hb_alloc := (if huff then len * 8 div 5 else len) + 1, hb_field := []\<rparr> in
         (H2_call (if huff then ngx_http_v2_state_field_huff else ngx_http_v2_state_field_raw) p, st))"

definition state_field_len :: "(nat \<Rightarrow> bool) \<Rightarrow> nat \<Rightarrow> u_char list \<Rightarrow> ngx_http_v2_state \<Rightarrow> h2_action \<times> ngx_http_v2_state" where
  "state_field_len palloc max_field_size p st =
    (if \<not> hb_end_headers st \<and> hb_length st < NGX_HTTP_V2_INT_OCTETS then (H2_continuation ngx_http_v2_state_field_len p, st)
     else if hb_length st < 1 then (H2_error NGX_HTTP_V2_SIZE_ERROR, st)
     else case p of
       [] \<Rightarrow> (H2_save ngx_http_v2_state_field_len [], st)
     | ch # p \<Rightarrow>
         (case ngx_http_v2_parse_int ch p (ngx_http_v2_prefix 7) st of
            (Inl rc, p, st) \<Rightarrow> (parse_int_failed ngx_http_v2_state_field_len rc p, st)
          | (Inr len, p, st) \<Rightarrow> field_value palloc max_field_size (drop_bit 7 ch \<noteq> 0) len p st))"

text \<open>The number of bytes that a handler of a string takes, and how it ends.\<close>

definition field_size_of :: "u_char list \<Rightarrow> ngx_http_v2_state \<Rightarrow> nat" where
  "field_size_of p st = min (min (length p) (hb_field_rest st)) (hb_length st)"

definition field_take :: "u_char list \<Rightarrow> ngx_http_v2_state \<Rightarrow> ngx_http_v2_state" where
  "field_take p st = st\<lparr>hb_length := hb_length st - field_size_of p st, hb_field_rest := hb_field_rest st - field_size_of p st\<rparr>"

definition field_end :: "h2_handler \<Rightarrow> u_char list \<Rightarrow> ngx_http_v2_state \<Rightarrow> h2_action \<times> ngx_http_v2_state" where
  "field_end handler p st =
    (if hb_field_rest st = 0 then (H2_call ngx_http_v2_state_process_header p, st)
     else if hb_length st \<noteq> 0 then (H2_save handler p, st)
     else if hb_end_headers st then (H2_error NGX_HTTP_V2_SIZE_ERROR, st)
     else (H2_continuation handler p, st))"

definition state_field_huff :: "u_char list \<Rightarrow> ngx_http_v2_state \<Rightarrow> h2_action \<times> ngx_http_v2_state" where
  "state_field_huff p st =
    (let siz = field_size_of p st; st = field_take p st in
     case ngx_http_v2_huff_decode (hb_field_state st) (take siz p) (hb_field st) (hb_field_rest st = 0) of
       (rc, state, dst) \<Rightarrow>
         let st = st\<lparr>hb_field_state := state, hb_field := dst\<rparr> in
         if rc \<noteq> NGX_OK then (H2_error NGX_HTTP_V2_COMP_ERROR, st)
         else field_end ngx_http_v2_state_field_huff (drop siz p) st)"

definition state_field_raw :: "u_char list \<Rightarrow> ngx_http_v2_state \<Rightarrow> h2_action \<times> ngx_http_v2_state" where
  "state_field_raw p st =
    (let siz = field_size_of p st; st = field_take p st; st = st\<lparr>hb_field := hb_field st @ take siz p\<rparr> in
     field_end ngx_http_v2_state_field_raw (drop siz p) st)"

definition state_field_skip :: "u_char list \<Rightarrow> ngx_http_v2_state \<Rightarrow> h2_action \<times> ngx_http_v2_state" where
  "state_field_skip p st =
    (let siz = field_size_of p st; st = field_take p st in
     field_end ngx_http_v2_state_field_skip (drop siz p) st)"

text \<open>\<open>ngx_http_v2_state_process_header\<close> up to the place where the header goes to the request of the stream.\<close>

definition state_process_header :: "(nat \<Rightarrow> bool) \<Rightarrow> u_char list \<Rightarrow> ngx_http_v2_state \<Rightarrow> (h2_action \<times> ngx_http_v2_state) option" where
  "state_process_header palloc p st =
    (if hb_parse_name st then
       Some (H2_call ngx_http_v2_state_field_len p, st\<lparr>hb_parse_name := False, hb_name := hb_field st\<rparr>)
     else
       let st = (if hb_parse_value st then st\<lparr>hb_parse_value := False, hb_value := hb_field st\<rparr> else st);
         len = length (hb_name st) + length (hb_value st) in
       if len > hb_header_limit st then Some (H2_error NGX_HTTP_V2_ENHANCE_YOUR_CALM, st)
       else
         let st = st\<lparr>hb_header_limit := hb_header_limit st - len\<rparr> in
         do {
           (rc, st) \<leftarrow> (if hb_index st then do {
               (rc, table) \<leftarrow> ngx_http_v2_add_header palloc (hb_name st, hb_value st) (hb_hpack st);
               Some (rc, st\<lparr>hb_hpack := table, hb_index := (if rc \<noteq> NGX_OK then hb_index st else False)\<rparr>)
             } else Some (NGX_OK, st));
           if rc \<noteq> NGX_OK then Some (H2_error NGX_HTTP_V2_INTERNAL_ERROR, st)
           else if \<not> hb_stream st then Some (H2_call ngx_http_v2_state_header_complete p, st)
           else Some (H2_header (hb_name st, hb_value st) p, st)
         })"

section \<open>A header and the request of the stream\<close>

text \<open>What \<open>ngx_http_v2_state_process_header\<close> asks of the request, the configuration and the connection, as functions of the headers that the
  request has taken before: the two flags of the server, which can change with the host; the results of \<open>ngx_http_v2_terminate_stream\<close>,
  \<open>ngx_http_v2_pseudo_header\<close> and \<open>ngx_http_v2_cookie\<close>; whether \<open>ngx_list_push\<close> gets memory; and the result of the handler of the header,
  \<open>NGX_OK\<close> for a header without one.\<close>

record h2_request =
  rq_underscores_in_headers :: "header_field list \<Rightarrow> bool"
  rq_ignore_invalid_headers :: "header_field list \<Rightarrow> bool"
  rq_terminate_stream :: "header_field list \<Rightarrow> header_field \<Rightarrow> ngx_rc"
  rq_pseudo_header :: "header_field list \<Rightarrow> header_field \<Rightarrow> ngx_rc"
  rq_cookie :: "header_field list \<Rightarrow> header_field \<Rightarrow> ngx_rc"
  rq_list_push :: "header_field list \<Rightarrow> bool"
  rq_handler :: "header_field list \<Rightarrow> header_field \<Rightarrow> ngx_rc"

text \<open>\<open>ngx_http_v2_validate_header\<close>: \<open>r->invalid_header\<close>, or \<open>None\<close> for \<open>NGX_ERROR\<close>.\<close>

fun validate_name :: "bool \<Rightarrow> u_char list \<Rightarrow> bool \<Rightarrow> bool option" where
  "validate_name underscores [] invalid = Some invalid"
| "validate_name underscores (ch # s) invalid =
    (if is_lower ch \<or> ch = c_minus \<or> is_digit ch \<or> (ch = c_under \<and> underscores) then validate_name underscores s invalid
     else if ch = NUL \<or> ch = LF \<or> ch = CR \<or> ch = c_colon \<or> is_upper ch then None
     else validate_name underscores s True)"

definition ngx_http_v2_validate_header :: "bool \<Rightarrow> header_field \<Rightarrow> bool option" where
  "ngx_http_v2_validate_header underscores h =
    (case fst h of
       [] \<Rightarrow> None
     | ch # s \<Rightarrow>
         (case validate_name underscores (if ch = c_colon then s else ch # s) False of
            None \<Rightarrow> None
          | Some invalid \<Rightarrow> if list_ex (\<lambda>ch. ch = NUL \<or> ch = LF \<or> ch = CR) (snd h) then None else Some invalid))"

text \<open>What becomes of a header: it is taken by the request, or ignored; it is rejected, and the stream is dropped; or the connection fails.\<close>

datatype header_outcome = Header_taken | Header_ignored | Header_rejected | Header_failed

definition request_header :: "h2_request \<Rightarrow> header_field list \<Rightarrow> header_field \<Rightarrow> header_outcome" where
  "request_header rq hs h =
    (case ngx_http_v2_validate_header (rq_underscores_in_headers rq hs) h of
       None \<Rightarrow> if rq_terminate_stream rq hs h = NGX_ERROR then Header_failed else Header_rejected
     | Some invalid \<Rightarrow>
         if hd (fst h) = c_colon then
           let rc = rq_pseudo_header rq hs h in
           if rc = NGX_OK then Header_taken
           else if rc = NGX_ABORT then Header_rejected
           else if rc = NGX_DECLINED then Header_rejected
           else Header_failed
         else if invalid \<and> rq_ignore_invalid_headers rq hs then Header_ignored
         else if fst h = bytes ''cookie'' then if rq_cookie rq hs h \<noteq> NGX_OK then Header_failed else Header_taken
         else if \<not> rq_list_push rq hs then Header_failed
         else if rq_handler rq hs h \<noteq> NGX_OK then Header_rejected
         else Header_taken)"

text \<open>\<open>ngx_http_v2_pseudo_header\<close> takes the colon off the name.\<close>

definition pseudo_name :: "h2_request \<Rightarrow> header_field list \<Rightarrow> header_field \<Rightarrow> ngx_http_v2_state \<Rightarrow> ngx_http_v2_state" where
  "pseudo_name rq hs h st =
    (if ngx_http_v2_validate_header (rq_underscores_in_headers rq hs) h \<noteq> None \<and> hd (fst h) = c_colon
     then st\<lparr>hb_name := tl (hb_name st)\<rparr> else st)"

text \<open>The state and the headers of the request when \<open>ngx_http_v2_state_header_complete\<close> is called; \<open>None\<close> is the connection error
  \<open>NGX_HTTP_V2_INTERNAL_ERROR\<close>. A rejected header sets \<open>h2c->state.stream\<close> to \<open>NULL\<close>.\<close>

definition header_done ::
  "h2_request \<Rightarrow> header_field \<Rightarrow> ngx_http_v2_state \<Rightarrow> header_field list \<Rightarrow> (ngx_http_v2_state \<times> header_field list) option" where
  "header_done rq h st hs =
    (case request_header rq hs h of
       Header_taken \<Rightarrow> Some (pseudo_name rq hs h st, hs @ [h])
     | Header_ignored \<Rightarrow> Some (st, hs)
     | Header_rejected \<Rightarrow> Some ((pseudo_name rq hs h st)\<lparr>hb_stream := False\<rparr>, hs)
     | Header_failed \<Rightarrow> None)"

section \<open>The end of a header\<close>

definition state_header_complete :: "u_char list \<Rightarrow> ngx_http_v2_state \<Rightarrow> h2_action \<times> ngx_http_v2_state" where
  "state_header_complete p st =
    (if hb_length st \<noteq> 0 then (H2_return p, st)
     else if \<not> hb_end_headers st then (H2_continuation ngx_http_v2_state_header_complete p, st)
     else (H2_complete p, st))"

fun h2_handle ::
  "(nat \<Rightarrow> bool) \<Rightarrow> nat \<Rightarrow> h2_handler \<Rightarrow> u_char list \<Rightarrow> ngx_http_v2_state \<Rightarrow> (h2_action \<times> ngx_http_v2_state) option" where
  "h2_handle palloc mfs ngx_http_v2_state_header_block p st = state_header_block palloc p st"
| "h2_handle palloc mfs ngx_http_v2_state_field_len p st = Some (state_field_len palloc mfs p st)"
| "h2_handle palloc mfs ngx_http_v2_state_field_huff p st = Some (state_field_huff p st)"
| "h2_handle palloc mfs ngx_http_v2_state_field_raw p st = Some (state_field_raw p st)"
| "h2_handle palloc mfs ngx_http_v2_state_field_skip p st = Some (state_field_skip p st)"
| "h2_handle palloc mfs ngx_http_v2_state_process_header p st = state_process_header palloc p st"
| "h2_handle palloc mfs ngx_http_v2_state_header_complete p st = Some (state_header_complete p st)"

end
