(* ===== verification/Http_V2_Header_Run.thy ===== *)
theory Http_V2_Header_Run
  imports Http_V2_Header_Block Http_V2_Huff_Props
begin

text \<open>
  The run of the handlers, that it ends, and what each handler does with more bytes behind its input.
\<close>

section \<open>The run of the handlers\<close>

text \<open>The result of a run: more bytes are needed, the connection failed, a continuation frame has to follow, or the header block ends.\<close>

datatype h2_result =
    H2_more h2_handler "u_char list" ngx_http_v2_state
  | H2_failed h2_error
  | H2_frame h2_handler "u_char list" ngx_http_v2_state
  | H2_end "u_char list" ngx_http_v2_state

fun handler_rank :: "h2_handler \<Rightarrow> nat" where
  "handler_rank ngx_http_v2_state_header_block = 0"
| "handler_rank ngx_http_v2_state_field_len = 1"
| "handler_rank ngx_http_v2_state_header_complete = 1"
| "handler_rank ngx_http_v2_state_process_header = 2"
| "handler_rank _ = 3"

definition h2_less :: "u_char list \<Rightarrow> h2_handler \<Rightarrow> u_char list \<Rightarrow> h2_handler \<Rightarrow> bool" where
  "h2_less q g p h \<longleftrightarrow> length q < length p \<or> length q = length p \<and> handler_rank g < handler_rank h"

lemma parse_int_shorter:
  assumes "ngx_http_v2_parse_int ch p prefix st = (Inr val, q, st')"
  shows "length q \<le> length p"
  using assms by (auto simp: ngx_http_v2_parse_int_def Let_def split: if_splits option.splits)

lemma field_end_call:
  "field_end h p st = (a, st') \<Longrightarrow> a = H2_call g q \<Longrightarrow> g = ngx_http_v2_state_process_header \<and> q = p"
  by (auto simp: field_end_def split: if_splits)

lemma field_end_not:
  "fst (field_end h p st) \<noteq> H2_header f q" "fst (field_end h p st) \<noteq> H2_return q"
  by (simp_all add: field_end_def)

lemma parse_int_failed_not:
  "parse_int_failed h rc p \<noteq> H2_call g q" "parse_int_failed h rc p \<noteq> H2_header f q" "parse_int_failed h rc p \<noteq> H2_return q"
  by (simp_all add: parse_int_failed_def)

lemma header_block_call:
  assumes "state_header_block palloc p st = Some (H2_call g q, st')"
  shows "length q < length p"
proof (cases p)
  case (Cons ch r)
  then show ?thesis using assms
    by (auto simp: block_value_def Let_def parse_int_failed_not bind_eq_Some_conv split: if_splits prod.splits sum.splits dest!: parse_int_shorter)
qed (use assms in simp)

lemma header_block_not:
  "state_header_block palloc p st \<noteq> Some (H2_header f q, st')" "state_header_block palloc p st \<noteq> Some (H2_return q, st')"
  by (cases p; auto simp: block_value_def Let_def parse_int_failed_not bind_eq_Some_conv split: if_splits prod.splits sum.splits)+

lemma field_len_call:
  assumes "state_field_len palloc mfs p st = (H2_call g q, st')"
  shows "length q < length p"
  using assms
  by (auto simp: state_field_len_def field_value_def Let_def parse_int_failed_not split: if_splits list.splits prod.splits sum.splits dest!: parse_int_shorter)

lemma field_len_not:
  "fst (state_field_len palloc mfs p st) \<noteq> H2_header f q" "fst (state_field_len palloc mfs p st) \<noteq> H2_return q"
  by (auto simp: state_field_len_def field_value_def Let_def parse_int_failed_not split: if_splits list.splits prod.splits sum.splits)

lemma field_call:
  "state_field_huff p st = (H2_call g q, st') \<Longrightarrow> g = ngx_http_v2_state_process_header \<and> length q \<le> length p"
  "state_field_raw p st = (H2_call g q, st') \<Longrightarrow> g = ngx_http_v2_state_process_header \<and> length q \<le> length p"
  "state_field_skip p st = (H2_call g q, st') \<Longrightarrow> g = ngx_http_v2_state_process_header \<and> length q \<le> length p"
  by (auto simp: state_field_huff_def state_field_raw_def state_field_skip_def Let_def dest!: field_end_call split: prod.splits if_splits)

lemma field_not:
  "fst (state_field_huff p st) \<noteq> H2_header f q" "fst (state_field_huff p st) \<noteq> H2_return q"
  "fst (state_field_raw p st) \<noteq> H2_header f q" "fst (state_field_raw p st) \<noteq> H2_return q"
  "fst (state_field_skip p st) \<noteq> H2_header f q" "fst (state_field_skip p st) \<noteq> H2_return q"
  by (auto simp: state_field_huff_def state_field_raw_def state_field_skip_def Let_def field_end_not split: prod.splits)

lemma process_header_call:
  "state_process_header palloc p st = Some (H2_call g q, st') \<Longrightarrow> q = p \<and> handler_rank g = 1"
  "state_process_header palloc p st = Some (H2_header f q, st') \<Longrightarrow> q = p"
  "state_process_header palloc p st \<noteq> Some (H2_return q, st')"
  by (auto simp: state_process_header_def Let_def bind_eq_Some_conv split: if_splits)

lemma handler_not:
  "state_field_len palloc mfs p st \<noteq> (H2_header f q, st')" "state_field_len palloc mfs p st \<noteq> (H2_return q, st')"
  "state_field_huff p st \<noteq> (H2_header f q, st')" "state_field_huff p st \<noteq> (H2_return q, st')"
  "state_field_raw p st \<noteq> (H2_header f q, st')" "state_field_raw p st \<noteq> (H2_return q, st')"
  "state_field_skip p st \<noteq> (H2_header f q, st')" "state_field_skip p st \<noteq> (H2_return q, st')"
  by (metis fst_conv field_len_not field_not)+

lemma h2_handle_progress:
  assumes "h2_handle palloc mfs h p st = Some (a, st')"
  shows "a = H2_call g q \<Longrightarrow> h2_less q g p h" "a = H2_header f q \<Longrightarrow> h2_less q ngx_http_v2_state_header_complete p h"
    "a = H2_return q \<Longrightarrow> h2_less q ngx_http_v2_state_header_block p h"
proof -
  show "h2_less q g p h" if "a = H2_call g q"
    using assms that field_call [of p st g q st'] process_header_call(1) [of palloc p st g q st'] header_block_call [of palloc p st g q st']
      field_len_call [of palloc mfs p st g q st']
    by (cases h) (auto simp: h2_less_def state_header_complete_def split: if_splits)
  show "h2_less q ngx_http_v2_state_header_complete p h" if "a = H2_header f q"
    using assms that process_header_call(2) [of palloc p st f q st']
    by (cases h) (auto simp: h2_less_def state_header_complete_def handler_not header_block_not split: if_splits)
  show "h2_less q ngx_http_v2_state_header_block p h" if "a = H2_return q"
    using assms that process_header_call(3) [of palloc p st q st']
    by (cases h) (auto simp: h2_less_def state_header_complete_def handler_not header_block_not split: if_splits)
qed

text \<open>The handlers one after the other, as the read handler and the calls among them run them. \<open>hs\<close> are the headers that the
  request has taken.\<close>

function h2_run_block ::
  "h2_request \<Rightarrow> (nat \<Rightarrow> bool) \<Rightarrow> nat \<Rightarrow> h2_handler \<Rightarrow> u_char list \<Rightarrow> ngx_http_v2_state \<Rightarrow> header_field list \<Rightarrow> (h2_result \<times> header_field list) option" where
  "h2_run_block rq palloc mfs h p st hs =
    (case h2_handle palloc mfs h p st of
       None \<Rightarrow> None
     | Some (H2_call g q, st) \<Rightarrow> h2_run_block rq palloc mfs g q st hs
     | Some (H2_header f q, st) \<Rightarrow>
         (case header_done rq f st hs of
            None \<Rightarrow> Some (H2_failed NGX_HTTP_V2_INTERNAL_ERROR, hs)
          | Some (st, hs) \<Rightarrow> h2_run_block rq palloc mfs ngx_http_v2_state_header_complete q st hs)
     | Some (H2_return q, st) \<Rightarrow> h2_run_block rq palloc mfs ngx_http_v2_state_header_block q st hs
     | Some (H2_save g q, st) \<Rightarrow> Some (H2_more g q st, hs)
     | Some (H2_error e, st) \<Rightarrow> Some (H2_failed e, hs)
     | Some (H2_continuation g q, st) \<Rightarrow> Some (H2_frame g q st, hs)
     | Some (H2_complete q, st) \<Rightarrow> Some (H2_end q st, hs))"
  by pat_completeness auto

termination
  by (relation "measures [\<lambda>(rq, palloc, mfs, h, p, st, hs). length p, \<lambda>(rq, palloc, mfs, h, p, st, hs). handler_rank h]")
    (auto simp: h2_less_def dest: h2_handle_progress)

declare h2_run_block.simps [simp del]

section \<open>More bytes behind the input\<close>

lemma parse_int_loop_bounds: "parse_int_loop xs sh v n = Some (w, k) \<Longrightarrow> n < k \<and> k \<le> n + length xs"
  by (induction xs sh v n rule: parse_int_loop.induct) (auto simp: Let_def split: if_splits)

lemma parse_int_loop_append: "parse_int_loop xs sh v n = Some r \<Longrightarrow> parse_int_loop (xs @ ys) sh v n = Some r"
  by (induction xs sh v n rule: parse_int_loop.induct) (auto simp: Let_def split: if_splits)

lemma parse_int_loop_later:
  "parse_int_loop xs sh v n = None \<Longrightarrow> parse_int_loop (xs @ ys) sh v n = Some (w, k) \<Longrightarrow> n + length xs < k"
proof (induction xs sh v n rule: parse_int_loop.induct)
  case (1 sh v n)
  then show ?case using parse_int_loop_bounds by fastforce
next
  case (2 c p sh v n)
  then show ?case by (auto simp: Let_def split: if_splits)
qed

lemma take_octets: "take (min (Suc (length p)) NGX_HTTP_V2_INT_OCTETS - 1) p = take 3 p"
  by (simp add: NGX_HTTP_V2_INT_OCTETS_def min_def)

lemma parse_int_unfold:
  "ngx_http_v2_parse_int ch p prefix st =
    (let val = unat ch AND prefix in
     if val \<noteq> prefix then
       if hb_length st = 0 then (Inl NGX_ERROR, ch # p, st)
       else (Inr val, p, st\<lparr>hb_length := hb_length st - 1\<rparr>)
     else case parse_int_loop (take 3 p) 0 val 1 of
         Some (val, n) \<Rightarrow>
           if n > hb_length st then (Inl NGX_ERROR, ch # p, st)
           else (Inr val, drop (n - 1) p, st\<lparr>hb_length := hb_length st - n\<rparr>)
       | None \<Rightarrow>
           if hb_length st \<le> min (Suc (length p)) 4 then (Inl NGX_ERROR, ch # p, st)
           else if 3 \<le> length p then (Inl NGX_DECLINED, ch # p, st)
           else (Inl NGX_AGAIN, ch # p, st))"
proof -
  have "min (Suc (length p)) NGX_HTTP_V2_INT_OCTETS = NGX_HTTP_V2_INT_OCTETS \<longleftrightarrow> 3 \<le> length p"
    by (auto simp: NGX_HTTP_V2_INT_OCTETS_def)
  then show ?thesis unfolding ngx_http_v2_parse_int_def Let_def take_octets by (simp add: NGX_HTTP_V2_INT_OCTETS_def)
qed

lemma parse_int_failed_state:
  "ngx_http_v2_parse_int ch p prefix st = (Inl rc, q, st') \<Longrightarrow> q = ch # p \<and> st' = st \<and> (rc = NGX_AGAIN \<longrightarrow> length p < 3)"
  unfolding parse_int_unfold Let_def by (auto split: if_splits option.splits)

lemma parse_int_append_value:
  assumes "ngx_http_v2_parse_int ch p prefix st = (Inr val, q, st')"
  shows "ngx_http_v2_parse_int ch (p @ m) prefix st = (Inr val, q @ m, st')"
proof (cases "unat ch AND prefix = prefix")
  case True
  obtain n where n: "parse_int_loop (take 3 p) 0 (unat ch AND prefix) 1 = Some (val, n)" "n \<le> hb_length st" "q = drop (n - 1) p"
    "st' = st\<lparr>hb_length := hb_length st - n\<rparr>"
    using assms True unfolding parse_int_unfold Let_def by (auto split: if_splits option.splits)
  have "parse_int_loop (take 3 (p @ m)) 0 (unat ch AND prefix) 1 = Some (val, n)"
    unfolding take_append by (rule parse_int_loop_append [OF n(1)])
  moreover have "n - 1 \<le> length p" using parse_int_loop_bounds [OF n(1)] unfolding length_take by linarith
  ultimately show ?thesis using n True unfolding parse_int_unfold Let_def by simp
next
  case False
  then show ?thesis using assms unfolding parse_int_unfold Let_def by (auto split: if_splits)
qed

lemma parse_int_append_failed:
  assumes f: "ngx_http_v2_parse_int ch p prefix st = (Inl rc, q, st')" and a: "rc \<noteq> NGX_AGAIN"
  shows "ngx_http_v2_parse_int ch (p @ m) prefix st = (Inl rc, q @ m, st')"
proof (cases "unat ch AND prefix = prefix")
  case True
  let ?v = "unat ch AND prefix"
  show ?thesis
  proof (cases "parse_int_loop (take 3 p) 0 ?v 1")
    case (Some r)
    obtain w n where r: "r = (w, n)" by fastforce
    have "parse_int_loop (take 3 (p @ m)) 0 ?v 1 = Some (w, n)" unfolding take_append using parse_int_loop_append Some r by blast
    then show ?thesis using f True Some r unfolding parse_int_unfold Let_def by (auto split: if_splits)
  next
    case None
    show ?thesis
    proof (cases "3 \<le> length p")
      case len: True
      then have "take 3 (p @ m) = take 3 p" by simp
      then show ?thesis using f True None len unfolding parse_int_unfold Let_def by (auto split: if_splits)
    next
      case len: False
      then have e: "hb_length st \<le> Suc (length p)" "rc = NGX_ERROR" "q = ch # p" "st' = st"
        using f True None a unfolding parse_int_unfold Let_def by (auto split: if_splits)
      show ?thesis
      proof (cases "parse_int_loop (take 3 (p @ m)) 0 ?v 1")
        case none: None
        have "hb_length st \<le> min (Suc (length (p @ m))) 4" using e(1) len by simp
        then show ?thesis using none e True unfolding parse_int_unfold Let_def by simp
      next
        case (Some r)
        obtain w n where r: "r = (w, n)" by fastforce
        have "1 + length (take 3 p) < n"
          by (rule parse_int_loop_later [OF None]) (use Some r in \<open>simp add: take_append\<close>)
        then have "hb_length st < n" using e(1) len by simp
        then show ?thesis using e True Some r unfolding parse_int_unfold Let_def by simp
      qed
    qed
  qed
next
  case False
  then show ?thesis using f unfolding parse_int_unfold Let_def by (auto split: if_splits)
qed

section \<open>A handler with more bytes\<close>

fun append_action :: "u_char list \<Rightarrow> h2_action \<Rightarrow> h2_action" where
  "append_action m (H2_call g q) = H2_call g (q @ m)"
| "append_action m (H2_save g q) = H2_save g (q @ m)"
| "append_action m (H2_error e) = H2_error e"
| "append_action m (H2_continuation g q) = H2_continuation g (q @ m)"
| "append_action m (H2_header f q) = H2_header f (q @ m)"
| "append_action m (H2_return q) = H2_return (q @ m)"
| "append_action m (H2_complete q) = H2_complete (q @ m)"

text \<open>With more bytes behind its input, a handler does the same; where it had saved its state, it does what it does from there on.\<close>

definition handle_append :: "(u_char list \<Rightarrow> ngx_http_v2_state \<Rightarrow> (h2_action \<times> ngx_http_v2_state) option) \<Rightarrow> h2_handler \<Rightarrow> u_char list \<Rightarrow> u_char list \<Rightarrow> ngx_http_v2_state \<Rightarrow> bool" where
  "handle_append f h p m st =
    (case f p st of
       None \<Rightarrow> f (p @ m) st = None
     | Some (H2_save g q, st') \<Rightarrow> g = h \<and> f (p @ m) st = f (q @ m) st'
     | Some (H2_error e, st') \<Rightarrow> (\<exists>st''. f (p @ m) st = Some (H2_error e, st''))
     | Some (a, st') \<Rightarrow> f (p @ m) st = Some (append_action m a, st'))"

lemma block_value_append:
  "block_value palloc ch val (p @ m) st = map_option (apfst (append_action m)) (block_value palloc ch val p st)"
  by (auto simp: block_value_def Let_def apfst_def split: prod.splits option.splits bind_splits)

lemma block_value_not_save: "block_value palloc ch val p st \<noteq> Some (H2_save g q, st')"
  by (auto simp: block_value_def Let_def bind_eq_Some_conv split: if_splits)

lemma field_value_append: "field_value palloc mfs huff len (p @ m) st = apfst (append_action m) (field_value palloc mfs huff len p st)"
  by (simp add: field_value_def Let_def)

lemma field_value_not_save: "field_value palloc mfs huff len p st \<noteq> (H2_save g q, st')"
  by (auto simp: field_value_def Let_def split: if_splits)

lemma handle_append_same:
  assumes "f (p @ m) st = map_option (apfst (append_action m)) (f p st)" "\<And>g q st'. f p st \<noteq> Some (H2_save g q, st')"
  shows "handle_append f h p m st"
proof (cases "f p st")
  case None
  then show ?thesis using assms by (simp add: handle_append_def)
next
  case (Some r)
  obtain a st' where r: "r = (a, st')" by fastforce
  show ?thesis using Some r assms by (cases a) (simp_all add: handle_append_def)
qed

lemma block_mark_simps [simp]: "hb_end_headers (block_mark ch st) = hb_end_headers st" "block_mark ch (block_mark ch st) = block_mark ch st"
  by (simp_all add: block_mark_def)

lemma header_block_append:
  assumes e: "hb_end_headers st"
  shows "handle_append (state_header_block palloc) ngx_http_v2_state_header_block p m st"
proof (cases p)
  case Nil
  then show ?thesis by (simp add: handle_append_def)
next
  case (Cons ch r)
  show ?thesis
  proof (cases "ngx_http_v2_parse_int ch r (block_prefix ch) (block_mark ch st)")
    case (fields res q st')
    show ?thesis
    proof (cases res)
      case (Inl rc)
      note f = fields [unfolded Inl]
      have q: "q = ch # r" "st' = block_mark ch st" using parse_int_failed_state [OF f] by simp_all
      show ?thesis
      proof (cases "rc = NGX_AGAIN")
        case True
        then show ?thesis using Cons f q e by (simp add: handle_append_def parse_int_failed_def)
      next
        case False
        note parse_int_append_failed [OF f False, of m]
        then show ?thesis using Cons f q e False by (simp add: handle_append_def parse_int_failed_def)
      qed
    next
      case (Inr val)
      note f = fields [unfolded Inr]
      have "state_header_block palloc p st = block_value palloc ch val q st'"
        "state_header_block palloc (p @ m) st = block_value palloc ch val (q @ m) st'"
        using Cons f e parse_int_append_value [OF f, of m] by simp_all
      then show ?thesis by (intro handle_append_same) (simp_all add: block_value_append block_value_not_save)
    qed
  qed
qed

lemma field_len_append:
  assumes e: "hb_end_headers st"
  shows "handle_append (\<lambda>p st. Some (state_field_len palloc mfs p st)) ngx_http_v2_state_field_len p m st"
proof (cases "hb_length st < 1")
  case True
  then show ?thesis using e by (simp add: handle_append_def state_field_len_def)
next
  case len: False
  show ?thesis
  proof (cases p)
    case Nil
    then show ?thesis using e len by (simp add: handle_append_def state_field_len_def)
  next
    case (Cons ch r)
    show ?thesis
    proof (cases "ngx_http_v2_parse_int ch r (ngx_http_v2_prefix 7) st")
      case (fields res q st')
      show ?thesis
      proof (cases res)
        case (Inl rc)
        note f = fields [unfolded Inl]
        have q: "q = ch # r" "st' = st" using parse_int_failed_state [OF f] by simp_all
        show ?thesis
        proof (cases "rc = NGX_AGAIN")
          case True
          then show ?thesis using Cons f q e len by (simp add: handle_append_def parse_int_failed_def state_field_len_def)
        next
          case False
          note parse_int_append_failed [OF f False, of m]
          then show ?thesis using Cons f q e len False by (simp add: handle_append_def parse_int_failed_def state_field_len_def)
        qed
      next
        case (Inr val)
        note f = fields [unfolded Inr]
        have "state_field_len palloc mfs p st = field_value palloc mfs (drop_bit 7 ch \<noteq> 0) val q st'"
          "state_field_len palloc mfs (p @ m) st = field_value palloc mfs (drop_bit 7 ch \<noteq> 0) val (q @ m) st'"
          using Cons f e len parse_int_append_value [OF f, of m] by (simp_all add: state_field_len_def)
        then show ?thesis by (intro handle_append_same) (simp_all add: field_value_append field_value_not_save)
      qed
    qed
  qed
qed

lemma process_header_append: "handle_append (state_process_header palloc) ngx_http_v2_state_process_header p m st"
proof (rule handle_append_same)
  show "state_process_header palloc (p @ m) st = map_option (apfst (append_action m)) (state_process_header palloc p st)"
    by (auto simp: state_process_header_def Let_def apfst_def split: prod.splits option.splits bind_splits)
  show "state_process_header palloc p st \<noteq> Some (H2_save g q, st')" for g q st'
    by (auto simp: state_process_header_def Let_def bind_eq_Some_conv split: if_splits)
qed

lemma header_complete_append: "handle_append (\<lambda>p st. Some (state_header_complete p st)) ngx_http_v2_state_header_complete p m st"
  by (rule handle_append_same) (simp_all add: state_header_complete_def)

end
