(* ===== verification/Http_V2_Header_Portions.thy ===== *)
theory Http_V2_Header_Portions
  imports Http_V2_Header_Run
begin

text \<open>
  The handlers of strings with more bytes, and header blocks in portions.
\<close>

lemma field_size_append:
  "hb_field_rest (field_take p st) = 0 \<or> hb_length (field_take p st) = 0 \<Longrightarrow> field_size_of (p @ m) st = field_size_of p st"
  by (auto simp: field_size_of_def field_take_def)

lemma field_size_more:
  assumes "hb_field_rest (field_take p st) \<noteq> 0" "hb_length (field_take p st) \<noteq> 0"
  shows "field_size_of p st = length p" and "field_size_of (p @ m) st = length p + field_size_of m (field_take p st)"
    "field_take (p @ m) st = field_take m (field_take p st)"
  using assms by (auto simp: field_size_of_def field_take_def)

lemma field_size_le: "field_size_of p st \<le> length p"
  by (simp add: field_size_of_def)

lemma field_take_simps [simp]:
  "hb_end_headers (field_take p st) = hb_end_headers st" "hb_field_state (field_take p st) = hb_field_state st"
  "hb_field (field_take p st) = hb_field st"
  by (simp_all add: field_take_def)

lemma field_take_update [simp]:
  "field_take p (st\<lparr>hb_field := x\<rparr>) = (field_take p st)\<lparr>hb_field := x\<rparr>"
  "field_take p (st\<lparr>hb_field_state := s\<rparr>) = (field_take p st)\<lparr>hb_field_state := s\<rparr>"
  "field_size_of p (st\<lparr>hb_field := x\<rparr>) = field_size_of p st" "field_size_of p (st\<lparr>hb_field_state := s\<rparr>) = field_size_of p st"
  by (simp_all add: field_take_def field_size_of_def)

text \<open>The three handlers of strings differ in what they do with the bytes.\<close>

definition field_done :: "u_char list \<Rightarrow> ngx_http_v2_state \<Rightarrow> bool" where
  "field_done p st \<longleftrightarrow> hb_field_rest (field_take p st) = 0 \<or> hb_length (field_take p st) = 0"

lemma field_done_append:
  assumes "field_done p st"
  shows "field_size_of (p @ m) st = field_size_of p st" "field_take (p @ m) st = field_take p st"
    "take (field_size_of p st) (p @ m) = take (field_size_of p st) p" "drop (field_size_of p st) (p @ m) = drop (field_size_of p st) p @ m"
proof -
  show a: "field_size_of (p @ m) st = field_size_of p st" using assms field_size_append by (simp add: field_done_def)
  then show "field_take (p @ m) st = field_take p st" by (simp add: field_take_def)
  show "take (field_size_of p st) (p @ m) = take (field_size_of p st) p" "drop (field_size_of p st) (p @ m) = drop (field_size_of p st) p @ m"
    using field_size_le [of p st] by simp_all
qed

lemma field_end_append:
  "field_end h (p @ m) st = (if fst (field_end h p st) = H2_save h p then field_end h (p @ m) st else apfst (append_action m) (field_end h p st))"
  by (simp add: field_end_def)

lemma field_skip_append:
  assumes "hb_end_headers st"
  shows "handle_append (\<lambda>p st. Some (state_field_skip p st)) ngx_http_v2_state_field_skip p m st"
proof (cases "field_done p st")
  case True
  note d = field_done_append [OF True, of m]
  show ?thesis using True assms d by (auto simp: handle_append_def state_field_skip_def Let_def field_end_def field_done_def)
next
  case False
  then have n: "hb_field_rest (field_take p st) \<noteq> 0" "hb_length (field_take p st) \<noteq> 0" by (simp_all add: field_done_def)
  show ?thesis using n field_size_more [OF n] by (simp add: handle_append_def state_field_skip_def Let_def field_end_def)
qed

lemma field_raw_append:
  assumes "hb_end_headers st"
  shows "handle_append (\<lambda>p st. Some (state_field_raw p st)) ngx_http_v2_state_field_raw p m st"
proof (cases "field_done p st")
  case True
  note d = field_done_append [OF True, of m]
  show ?thesis using True assms d by (auto simp: handle_append_def state_field_raw_def Let_def field_end_def field_done_def)
next
  case False
  then have n: "hb_field_rest (field_take p st) \<noteq> 0" "hb_length (field_take p st) \<noteq> 0" by (simp_all add: field_done_def)
  show ?thesis using n field_size_more(1) [OF n] field_size_more(2,3) [OF n, of m] by (simp add: handle_append_def state_field_raw_def Let_def field_end_def)
qed

lemma huff_decode_nil: "ngx_http_v2_huff_decode state [] dst False = (NGX_OK, state, dst)"
  by (simp add: ngx_http_v2_huff_decode_def)

lemma huff_decode_rc:
  assumes "ngx_http_v2_huff_decode state src dst fin = (rc, s, d)"
  shows "rc = NGX_OK \<or> rc = NGX_ERROR"
proof (cases rule: huff_nibbles_cases [of "nibbles src" "\<lparr>hf_state = state, hf_ending = 1, hf_dst = dst\<rparr>"])
  case (1 h1)
  then show ?thesis using assms by (simp add: ngx_http_v2_huff_decode_def huff_decode_nibbles)
next
  case (2 h1)
  then show ?thesis using assms by (auto simp: ngx_http_v2_huff_decode_def huff_decode_nibbles split: if_splits)
qed

lemma field_huff_append:
  assumes e: "hb_end_headers st"
  shows "handle_append (\<lambda>p st. Some (state_field_huff p st)) ngx_http_v2_state_field_huff p m st"
proof (cases "field_done p st")
  case True
  note d = field_done_append [OF True, of m]
  obtain rc s x where r: "ngx_http_v2_huff_decode (hb_field_state st) (take (field_size_of p st) p) (hb_field st) (hb_field_rest (field_take p st) = 0) = (rc, s, x)"
    by (metis prod_cases3)
  show ?thesis using True e d r by (auto simp: handle_append_def state_field_huff_def Let_def field_end_def field_done_def)
next
  case False
  then have n: "hb_field_rest (field_take p st) \<noteq> 0" "hb_length (field_take p st) \<noteq> 0" by (simp_all add: field_done_def)
  note f = field_size_more(1) [OF n] field_size_more(2,3) [OF n, of m]
  obtain rc s x where r: "ngx_http_v2_huff_decode (hb_field_state st) p (hb_field st) False = (rc, s, x)" by (metis prod_cases3)
  have t: "take (field_size_of (p @ m) st) (p @ m) = p @ take (field_size_of m (field_take p st)) m"
    "drop (field_size_of (p @ m) st) (p @ m) = drop (field_size_of m (field_take p st)) m" using f by simp_all
  have dec: "ngx_http_v2_huff_decode (hb_field_state st) (p @ take (field_size_of m (field_take p st)) m) (hb_field st) fin =
    (if rc = NGX_OK then ngx_http_v2_huff_decode s (take (field_size_of m (field_take p st)) m) x fin else (rc, s, x))" if "m \<noteq> []" for fin
  proof -
    have "take (field_size_of m (field_take p st)) m \<noteq> []" using that n by (simp add: field_size_of_def)
    from huff_decode_append [OF this] show ?thesis using r huff_decode_rc [OF r] by auto
  qed
  let ?st = "(field_take p st)\<lparr>hb_field_state := s, hb_field := x\<rparr>"
  show ?thesis
  proof (cases "rc = NGX_OK")
    case True
    have a: "state_field_huff p st = (H2_save ngx_http_v2_state_field_huff [], ?st)"
      using r n f(1) True by (simp add: state_field_huff_def Let_def field_end_def)
    have "state_field_huff (p @ m) st = state_field_huff m ?st"
    proof (cases "m = []")
      case True
      have "field_size_of [] ?st = 0" "field_take [] ?st = ?st" by (simp_all add: field_size_of_def field_take_def)
      then have "state_field_huff [] ?st = (H2_save ngx_http_v2_state_field_huff [], ?st)"
        using n huff_decode_nil [of s x] unfolding state_field_huff_def Let_def by (simp add: field_end_def)
      then show ?thesis using a True by simp
    next
      case False
      then show ?thesis unfolding state_field_huff_def Let_def t f(3) field_take_simps dec [OF False] using True by (simp split: prod.split)
    qed
    then show ?thesis using a by (simp add: handle_append_def)
  next
    case rc: False
    have a: "state_field_huff p st = (H2_error NGX_HTTP_V2_COMP_ERROR, ?st)"
      using r n f(1) rc by (simp add: state_field_huff_def Let_def)
    have "\<exists>st''. state_field_huff (p @ m) st = (H2_error NGX_HTTP_V2_COMP_ERROR, st'')"
    proof (cases "m = []")
      case False
      show ?thesis unfolding state_field_huff_def Let_def t f(3) field_take_simps dec [OF False] using rc by simp
    qed (use a in simp)
    then show ?thesis using a by (simp add: handle_append_def)
  qed
qed

lemma h2_handle_eqs:
  "h2_handle palloc mfs ngx_http_v2_state_header_block = state_header_block palloc"
  "h2_handle palloc mfs ngx_http_v2_state_field_len = (\<lambda>p st. Some (state_field_len palloc mfs p st))"
  "h2_handle palloc mfs ngx_http_v2_state_field_huff = (\<lambda>p st. Some (state_field_huff p st))"
  "h2_handle palloc mfs ngx_http_v2_state_field_raw = (\<lambda>p st. Some (state_field_raw p st))"
  "h2_handle palloc mfs ngx_http_v2_state_field_skip = (\<lambda>p st. Some (state_field_skip p st))"
  "h2_handle palloc mfs ngx_http_v2_state_process_header = state_process_header palloc"
  "h2_handle palloc mfs ngx_http_v2_state_header_complete = (\<lambda>p st. Some (state_header_complete p st))"
  by (intro ext, simp)+

lemma h2_handle_append:
  assumes "hb_end_headers st"
  shows "handle_append (h2_handle palloc mfs h) h p m st"
  by (cases h) (simp_all only: h2_handle_eqs header_block_append [OF assms] field_len_append [OF assms] field_huff_append [OF assms]
    field_raw_append [OF assms] field_skip_append [OF assms] process_header_append header_complete_append)

section \<open>The run with more bytes\<close>

lemma parse_int_keeps: "ngx_http_v2_parse_int ch p prefix st = (r, q, st') \<Longrightarrow> hb_end_headers st' = hb_end_headers st"
  unfolding parse_int_unfold Let_def by (auto split: if_splits option.splits)

lemma h2_handle_end_headers:
  assumes "h2_handle palloc mfs h p st = Some (a, st')"
  shows "hb_end_headers st' = hb_end_headers st"
proof (cases h)
  case ngx_http_v2_state_header_block
  then show ?thesis using assms
    by (cases p) (auto simp: block_value_def Let_def bind_eq_Some_conv split: if_splits prod.splits sum.splits dest!: parse_int_keeps)
next
  case ngx_http_v2_state_field_len
  then show ?thesis using assms
    by (auto simp: state_field_len_def field_value_def Let_def split: if_splits list.splits prod.splits sum.splits dest!: parse_int_keeps)
next
  case ngx_http_v2_state_process_header
  then show ?thesis using assms by (auto simp: state_process_header_def Let_def bind_eq_Some_conv split: if_splits)
qed (use assms in \<open>auto simp: state_field_huff_def state_field_raw_def state_field_skip_def state_header_complete_def field_end_def Let_def
  split: if_splits prod.splits\<close>)

text \<open>What a header leaves as it is.\<close>

lemma header_done_fields:
  assumes "header_done rq f st hs = Some (st', hs')"
  shows "hb_end_headers st' = hb_end_headers st" "hb_hpack st' = hb_hpack st" "hb_field_state st' = hb_field_state st"
    "hb_length st' = hb_length st" "hb_header_limit st' = hb_header_limit st" "hb_index st' = hb_index st"
  using assms by (auto simp: header_done_def pseudo_name_def split: header_outcome.splits if_splits)

lemma h2_run_simps:
  "h2_handle palloc mfs h p st = None \<Longrightarrow> h2_run_block rq palloc mfs h p st hs = None"
  "h2_handle palloc mfs h p st = Some (H2_call g q, st') \<Longrightarrow> h2_run_block rq palloc mfs h p st hs = h2_run_block rq palloc mfs g q st' hs"
  "h2_handle palloc mfs h p st = Some (H2_header f q, st') \<Longrightarrow> header_done rq f st' hs = Some (st'', hs') \<Longrightarrow>
    h2_run_block rq palloc mfs h p st hs = h2_run_block rq palloc mfs ngx_http_v2_state_header_complete q st'' hs'"
  "h2_handle palloc mfs h p st = Some (H2_return q, st') \<Longrightarrow>
    h2_run_block rq palloc mfs h p st hs = h2_run_block rq palloc mfs ngx_http_v2_state_header_block q st' hs"
  "h2_handle palloc mfs h p st = Some (H2_save g q, st') \<Longrightarrow> h2_run_block rq palloc mfs h p st hs = Some (H2_more g q st', hs)"
  "h2_handle palloc mfs h p st = Some (H2_error e, st') \<Longrightarrow> h2_run_block rq palloc mfs h p st hs = Some (H2_failed e, hs)"
  "h2_handle palloc mfs h p st = Some (H2_continuation g q, st') \<Longrightarrow> h2_run_block rq palloc mfs h p st hs = Some (H2_frame g q st', hs)"
  "h2_handle palloc mfs h p st = Some (H2_complete q, st') \<Longrightarrow> h2_run_block rq palloc mfs h p st hs = Some (H2_end q st', hs)"
  "h2_handle palloc mfs h p st = Some (H2_header f q, st') \<Longrightarrow> header_done rq f st' hs = None \<Longrightarrow>
    h2_run_block rq palloc mfs h p st hs = Some (H2_failed NGX_HTTP_V2_INTERNAL_ERROR, hs)"
  by (subst h2_run_block.simps, simp)+

text \<open>The result of a run with the bytes \<open>m\<close> behind its input, where the run goes on from a saved state.\<close>

fun append_result ::
  "h2_request \<Rightarrow> (nat \<Rightarrow> bool) \<Rightarrow> nat \<Rightarrow> u_char list \<Rightarrow> h2_result \<times> header_field list \<Rightarrow> (h2_result \<times> header_field list) option" where
  "append_result rq palloc mfs m (H2_more g q st, hs) = h2_run_block rq palloc mfs g (q @ m) st hs"
| "append_result rq palloc mfs m (H2_failed e, hs) = Some (H2_failed e, hs)"
| "append_result rq palloc mfs m (H2_frame g q st, hs) = Some (H2_frame g (q @ m) st, hs)"
| "append_result rq palloc mfs m (H2_end q st, hs) = Some (H2_end (q @ m) st, hs)"

lemma h2_run_append:
  "hb_end_headers st \<Longrightarrow> h2_run_block rq palloc mfs h (p @ m) st hs = h2_run_block rq palloc mfs h p st hs \<bind> append_result rq palloc mfs m"
proof (induction rq palloc mfs h p st hs rule: h2_run_block.induct)
  case (1 rq palloc mfs h p st hs)
  note ap = h2_handle_append [OF 1(4), of palloc mfs h p m]
  show ?case
  proof (cases "h2_handle palloc mfs h p st")
    case None
    then show ?thesis using ap by (simp add: h2_run_simps(1) handle_append_def)
  next
    case (Some r)
    obtain a st' where r: "r = (a, st')" by fastforce
    note h = Some [unfolded r]
    have e: "hb_end_headers st'" using h2_handle_end_headers [OF h] 1(4) by simp
    show ?thesis
    proof (cases a)
      case (H2_call g q)
      then have "h2_handle palloc mfs h (p @ m) st = Some (H2_call g (q @ m), st')" using ap h by (simp add: handle_append_def)
      then show ?thesis using 1(1) [OF h refl H2_call e] h H2_call by (simp add: h2_run_simps)
    next
      case (H2_header f q)
      then have "h2_handle palloc mfs h (p @ m) st = Some (H2_header f (q @ m), st')" using ap h by (simp add: handle_append_def)
      note ha = this and hf = h [unfolded H2_header]
      show ?thesis
      proof (cases "header_done rq f st' hs")
        case None
        then show ?thesis using h2_run_simps(9) [OF ha] h2_run_simps(9) [OF hf] by simp
      next
        case (Some z)
        obtain st1 hs1 where z: "z = (st1, hs1)" by fastforce
        then have "hb_end_headers st1" using header_done_fields(1) [of rq f st' hs st1 hs1] Some e by simp
        then show ?thesis
          using 1(2) [OF h refl H2_header Some z [symmetric]] h2_run_simps(3) [OF ha Some [unfolded z]] h2_run_simps(3) [OF hf Some [unfolded z]] by simp
      qed
    next
      case (H2_return q)
      then have "h2_handle palloc mfs h (p @ m) st = Some (H2_return (q @ m), st')" using ap h by (simp add: handle_append_def)
      then show ?thesis using 1(3) [OF h refl H2_return e] h H2_return by (simp add: h2_run_simps)
    next
      case (H2_save g q)
      then have "g = h" "h2_handle palloc mfs h (p @ m) st = h2_handle palloc mfs h (q @ m) st'" using ap h by (simp_all add: handle_append_def)
      then show ?thesis using h H2_save by (simp add: h2_run_simps(5), subst (1 2) h2_run_block.simps, simp)
    next
      case (H2_error x)
      then obtain st'' where "h2_handle palloc mfs h (p @ m) st = Some (H2_error x, st'')" using ap h by (auto simp: handle_append_def)
      then show ?thesis using h H2_error by (simp add: h2_run_simps)
    next
      case (H2_continuation g q)
      then have "h2_handle palloc mfs h (p @ m) st = Some (H2_continuation g (q @ m), st')" using ap h by (simp add: handle_append_def)
      then show ?thesis using h H2_continuation by (simp add: h2_run_simps)
    next
      case (H2_complete q)
      then have "h2_handle palloc mfs h (p @ m) st = Some (H2_complete (q @ m), st')" using ap h by (simp add: handle_append_def)
      then show ?thesis using h H2_complete by (simp add: h2_run_simps)
    qed
  qed
qed

lemma h2_run_end_headers:
  "h2_run_block rq palloc mfs h p st hs = Some (H2_more g q st', hs') \<Longrightarrow> hb_end_headers st' = hb_end_headers st"
proof (induction rq palloc mfs h p st hs rule: h2_run_block.induct)
  case (1 rq palloc mfs h p st hs)
  obtain a st1 where h: "h2_handle palloc mfs h p st = Some (a, st1)"
    using 1(4) h2_run_simps(1) by (metis option.exhaust option.distinct(1) prod.exhaust)
  note e = h2_handle_end_headers [OF h]
  show ?case
  proof (cases a)
    case (H2_call k r)
    then show ?thesis using 1(1) [OF h refl H2_call] 1(4) h e by (simp add: h2_run_simps)
  next
    case (H2_header f r)
    note hf = h [unfolded H2_header]
    show ?thesis
    proof (cases "header_done rq f st1 hs")
      case None
      then show ?thesis using h2_run_simps(9) [OF hf] 1(4) by simp
    next
      case (Some z)
      obtain st2 hs2 where z: "z = (st2, hs2)" by fastforce
      show ?thesis
        using 1(2) [OF h refl H2_header Some z [symmetric]] 1(4) h2_run_simps(3) [OF hf Some [unfolded z]] header_done_fields(1) [OF Some [unfolded z]] e by simp
    qed
  next
    case (H2_return r)
    then show ?thesis using 1(3) [OF h refl H2_return] 1(4) h e by (simp add: h2_run_simps)
  qed (use 1(4) h e in \<open>auto simp: h2_run_simps\<close>)
qed

section \<open>Portions\<close>

text \<open>The read handler: the bytes that were saved are put before those that arrive, and the handler is called again. A failed connection
  is closed; what follows the header block, or the frame before a continuation, is for other handlers.\<close>

fun h2_feed ::
  "h2_request \<Rightarrow> (nat \<Rightarrow> bool) \<Rightarrow> nat \<Rightarrow> u_char list list \<Rightarrow> h2_result \<times> header_field list \<Rightarrow> (h2_result \<times> header_field list) option" where
  "h2_feed rq palloc mfs [] r = Some r"
| "h2_feed rq palloc mfs (m # ms) r = append_result rq palloc mfs m r \<bind> h2_feed rq palloc mfs ms"

definition h2_result_ok :: "h2_result \<Rightarrow> bool" where
  "h2_result_ok r = (case r of H2_more g q st \<Rightarrow> hb_end_headers st | _ \<Rightarrow> True)"

lemma append_result_append:
  assumes "h2_result_ok (fst r)"
  shows "append_result rq palloc mfs (m @ n) r = append_result rq palloc mfs m r \<bind> append_result rq palloc mfs n"
proof (cases r)
  case (Pair x hs)
  show ?thesis
  proof (cases x)
    case (H2_more g q st)
    have "h2_run_block rq palloc mfs g ((q @ m) @ n) st hs = h2_run_block rq palloc mfs g (q @ m) st hs \<bind> append_result rq palloc mfs n"
      by (rule h2_run_append) (use assms Pair H2_more in \<open>simp add: h2_result_ok_def\<close>)
    then show ?thesis using Pair H2_more by simp
  qed (use Pair in simp_all)
qed

lemma append_result_ok:
  assumes "h2_result_ok (fst r)" "append_result rq palloc mfs m r = Some r'"
  shows "h2_result_ok (fst r')"
proof (cases r)
  case (Pair x hs)
  show ?thesis
  proof (cases x)
    case (H2_more g q st)
    obtain y hs' where y: "r' = (y, hs')" by fastforce
    show ?thesis using H2_more Pair assms y h2_run_end_headers by (cases y) (fastforce simp: h2_result_ok_def)+
  qed (use assms Pair in \<open>auto simp: h2_result_ok_def\<close>)
qed

lemma h2_feed_concat:
  "h2_result_ok (fst r) \<Longrightarrow> ms \<noteq> [] \<Longrightarrow> h2_feed rq palloc mfs ms r = append_result rq palloc mfs (concat ms) r"
proof (induction ms arbitrary: r)
  case (Cons m ms)
  show ?case
  proof (cases "ms = []")
    case False
    have "h2_feed rq palloc mfs (m # ms) r = append_result rq palloc mfs m r \<bind> append_result rq palloc mfs (concat ms)"
    proof (cases "append_result rq palloc mfs m r")
      case (Some r1)
      then show ?thesis using Cons.IH [OF append_result_ok [OF Cons.prems(1) Some] False] by simp
    qed simp
    then show ?thesis using append_result_append [OF Cons.prems(1), of rq palloc mfs m "concat ms"] by simp
  qed (simp add: bind_eq_Some_conv; cases "append_result rq palloc mfs m r"; simp)
qed simp

end
