(* ===== verification/Http_V2_Header_Strings.thy ===== *)
theory Http_V2_Header_Strings
  imports Http_V2_Header_Portions
begin

text \<open>
  Integers and strings are read as they are written.
\<close>

section \<open>Integers, written and read\<close>

lemma octet_bits:
  "unat (c :: u_char) < 128 \<Longrightarrow> unat ((0x80 OR c) AND 0x7f) = unat c \<and> \<not> 0x80 OR c < 128 \<and> unat (c AND 0x7f) = unat c \<and> c < 128 \<and>
    unat (0x80 OR c) AND 127 = unat c \<and> drop_bit 7 (0x80 OR c) \<noteq> 0 \<and> unat c AND 127 = unat c \<and> drop_bit 7 c = 0 \<and> unat (0x80 OR c) = 128 + unat c"
proof (rule low_bytes [of c 128])
  show "list_all (\<lambda>c :: u_char. unat ((0x80 OR c) AND 0x7f) = unat c \<and> \<not> 0x80 OR c < 128 \<and> unat (c AND 0x7f) = unat c \<and> c < 128 \<and>
    unat (0x80 OR c) AND 127 = unat c \<and> drop_bit 7 (0x80 OR c) \<noteq> 0 \<and> unat c AND 127 = unat c \<and> drop_bit 7 c = 0 \<and> unat (0x80 OR c) = 128 + unat c)
    (take 128 all_bytes)"
    by (simp add: all_bytes_def word_less_nat_alt)
qed simp_all

lemma octet_of_nat: "x < 128 \<Longrightarrow> unat (word_of_nat x :: u_char) = x" "x < 128 \<Longrightarrow> (word_of_nat (x + 128) :: u_char) = 0x80 OR word_of_nat x"
proof -
  show a: "unat (word_of_nat x :: u_char) = x" if "x < 128" using that by (simp add: unat_of_nat)
  show "(word_of_nat (x + 128) :: u_char) = 0x80 OR word_of_nat x" if "x < 128"
  proof (rule unat_byte_inject [THEN iffD1])
    have "unat (word_of_nat (x + 128) :: u_char) = (x + 128) mod 2 ^ LENGTH(8)" by (rule unat_of_nat)
    then have "unat (word_of_nat (x + 128) :: u_char) = x + 128" using that by simp
    then show "unat (word_of_nat (x + 128) :: u_char) = unat (0x80 OR word_of_nat x :: u_char)"
      using octet_bits [of "word_of_nat x"] a that by simp
  qed
qed

lemma write_int_loop_length: "v < 128 ^ Suc n \<Longrightarrow> length (write_int_loop v) \<le> Suc n"
proof (induction n arbitrary: v)
  case 0
  then show ?case by (subst write_int_loop.simps) simp
next
  case (Suc n)
  have "v div 128 < 128 ^ Suc n" using Suc.prems by (simp add: less_mult_imp_div_less mult.commute)
  then show ?case using Suc.IH [of "v div 128"] by (subst write_int_loop.simps) simp
qed

lemma write_int_loop_read:
  "parse_int_loop (write_int_loop v @ m) sh acc n = Some (acc + v * 2 ^ sh, n + length (write_int_loop v))"
proof (induction v arbitrary: sh acc n rule: write_int_loop.induct)
  case (1 v)
  show ?case
  proof (cases "128 \<le> v")
    case True
    let ?c = "word_of_nat (v mod 128) :: u_char"
    have m: "v mod 128 < 128" by simp
    have w: "write_int_loop v = (0x80 OR ?c) # write_int_loop (v div 128)"
      using True octet_of_nat(2) [OF m] by (subst write_int_loop.simps) simp
    have o: "unat ((0x80 OR ?c) AND 0x7f) = v mod 128" "\<not> 0x80 OR ?c < 128" using octet_bits [of ?c] octet_of_nat(1) [OF m] by simp_all
    have "b * 2 ^ sh + a * 2 ^ (sh + 7) = (a * 128 + b) * 2 ^ sh" for a b :: nat by (simp add: power_add algebra_simps)
    then have "v mod 128 * 2 ^ sh + v div 128 * 2 ^ (sh + 7) = v * 2 ^ sh" by (simp only: div_mult_mod_eq)
    then show ?thesis using 1 [OF True, of "sh + 7" "acc + push_bit sh (v mod 128)" "n + 1"] w o by (simp add: Let_def push_bit_eq_mult)
  next
    case False
    then have v: "v < 128" by simp
    then have "write_int_loop v = [word_of_nat v]" by (subst write_int_loop.simps) simp
    moreover have "unat (word_of_nat v AND 0x7f :: u_char) = v" "(word_of_nat v :: u_char) < 128"
      using octet_bits [of "word_of_nat v"] octet_of_nat(1) [OF v] v by simp_all
    ultimately show ?thesis by (simp add: push_bit_eq_mult Let_def)
  qed
qed

definition NGX_HTTP_V2_MAX_FIELD :: nat where
  "NGX_HTTP_V2_MAX_FIELD = 127 + 2 ^ ((NGX_HTTP_V2_INT_OCTETS - 1) * 7) - 1"

lemma prefix_7: "ngx_http_v2_prefix 7 = 127"
  by (simp add: ngx_http_v2_prefix_def)

lemma write_int_read:
  assumes f: "first = 0 \<or> first = 0x80" and v: "v \<le> NGX_HTTP_V2_MAX_FIELD"
    and l: "length (ngx_http_v2_write_int first (ngx_http_v2_prefix 7) v) \<le> hb_length st"
  shows "\<exists>ch q. ngx_http_v2_write_int first (ngx_http_v2_prefix 7) v = ch # q \<and> (drop_bit 7 ch \<noteq> 0 \<longleftrightarrow> first = 0x80) \<and>
    ngx_http_v2_parse_int ch (q @ m) (ngx_http_v2_prefix 7) st =
      (Inr v, m, st\<lparr>hb_length := hb_length st - length (ngx_http_v2_write_int first (ngx_http_v2_prefix 7) v)\<rparr>)"
proof (cases "v < 127")
  case True
  let ?c = "word_of_nat v :: u_char"
  have o: "unat (first OR ?c) AND 127 = v" "drop_bit 7 (first OR ?c) \<noteq> 0 \<longleftrightarrow> first = 0x80"
    using octet_bits [of ?c] octet_of_nat(1) [of v] f True by auto
  have w: "ngx_http_v2_write_int first (ngx_http_v2_prefix 7) v = [first OR ?c]" using True by (simp add: ngx_http_v2_write_int_def prefix_7)
  have "ngx_http_v2_parse_int (first OR ?c) ([] @ m) (ngx_http_v2_prefix 7) st = (Inr v, m, st\<lparr>hb_length := hb_length st - 1\<rparr>)"
    unfolding parse_int_unfold Let_def prefix_7 using o(1) True l [unfolded w] by simp
  then show ?thesis unfolding w using o(2) by (intro exI [of _ "first OR ?c"] exI [of _ "[]"]) simp
next
  case False
  let ?q = "write_int_loop (v - 127)"
  have w: "ngx_http_v2_write_int first (ngx_http_v2_prefix 7) v = (first OR 127) # ?q"
    using False by (simp add: ngx_http_v2_write_int_def prefix_7)
  have o: "unat (first OR 127) AND 127 = 127" "drop_bit 7 (first OR 127) \<noteq> 0 \<longleftrightarrow> first = 0x80"
    using octet_bits [of 127] f by auto
  have "v - 127 < 128 ^ Suc 2" using v False by (simp add: NGX_HTTP_V2_MAX_FIELD_def NGX_HTTP_V2_INT_OCTETS_def)
  then have q: "length ?q \<le> 3" using write_int_loop_length [of "v - 127" 2] by simp
  have "parse_int_loop (take 3 (?q @ m)) 0 127 1 = Some (127 + (v - 127), 1 + length ?q)"
    using write_int_loop_read [of "v - 127" "take (3 - length ?q) m" 0 127 1] q by simp
  then have "ngx_http_v2_parse_int (first OR 127) (?q @ m) (ngx_http_v2_prefix 7) st = (Inr v, m, st\<lparr>hb_length := hb_length st - Suc (length ?q)\<rparr>)"
    unfolding parse_int_unfold Let_def prefix_7 using o(1) False l [unfolded w] by simp
  then show ?thesis unfolding w using o(2) by (intro exI [of _ "first OR 127"] exI [of _ ?q]) simp
qed

section \<open>Strings, written and read\<close>

lemma string_encode_cases:
  obtains (huff) "ngx_http_v2_huff_encode src lower \<noteq> []" "length (ngx_http_v2_huff_encode src lower) < length src"
      "ngx_http_v2_string_encode src lower =
        ngx_http_v2_write_int 0x80 (ngx_http_v2_prefix 7) (length (ngx_http_v2_huff_encode src lower)) @ ngx_http_v2_huff_encode src lower"
      "ngx_http_v2_huff_decode 0 (ngx_http_v2_huff_encode src lower) [] True = (NGX_OK, 0, huff_text src lower)"
  | (raw) "ngx_http_v2_string_encode src lower = ngx_http_v2_write_int 0 (ngx_http_v2_prefix 7) (length src) @ huff_text src lower"
proof (cases "ngx_http_v2_huff_encode src lower = []")
  case True
  then show ?thesis using raw by (simp add: ngx_http_v2_string_encode_def NGX_HTTP_V2_ENCODE_RAW_def huff_text_def Let_def)
next
  case False
  let ?n = "(length (huff_concat (huff_text src lower)) + 7) div 8" and ?h = "ngx_http_v2_huff_encode src lower"
  note e = huff_encode_bits [OF refl refl, of src lower]
  have l: "?n < length src" using e False by (simp split: if_splits)
  then have h: "length ?h = ?n" "byte_bits ?h = huff_concat (huff_text src lower) @ replicate (8 * ?n - length (huff_concat (huff_text src lower))) True"
    using e by simp_all
  have "8 * ?n - length (huff_concat (huff_text src lower)) < 30" by linarith
  then have "ngx_http_v2_huff_decode 0 ?h [] True = (NGX_OK, 0, huff_text src lower)" using h(2) huff_decode_iff by blast
  then show ?thesis using huff False l h(1) by (simp add: ngx_http_v2_string_encode_def NGX_HTTP_V2_ENCODE_HUFF_def Let_def)
qed

text \<open>The state while a header block of literals is read.\<close>

definition plain_state :: "ngx_http_v2_state \<Rightarrow> bool" where
  "plain_state st \<longleftrightarrow> hb_end_headers st \<and> hb_stream st \<and> \<not> hb_index st \<and> hb_field_state st = 0"

lemma field_len_value:
  assumes "hb_end_headers st" "hb_stream st" "palloc 4" "len \<le> mfs" "0 < hb_length st"
    "ngx_http_v2_parse_int ch p (ngx_http_v2_prefix 7) st = (Inr len, q, st\<lparr>hb_length := n\<rparr>)"
  shows "state_field_len palloc mfs (ch # p) st =
    (H2_call (if drop_bit 7 ch \<noteq> 0 then ngx_http_v2_state_field_huff else ngx_http_v2_state_field_raw) q,
     st\<lparr>hb_length := n, hb_field_rest := len, hb_alloc := (if drop_bit 7 ch \<noteq> 0 then len * 8 div 5 else len) + 1, hb_field := []\<rparr>)"
  using assms by (simp add: state_field_len_def field_value_def Let_def)

lemma field_whole:
  assumes "hb_field_rest st = length b" "length b \<le> hb_length st"
  shows "field_size_of (b @ m) st = length b" "field_take (b @ m) st = st\<lparr>hb_length := hb_length st - length b, hb_field_rest := 0\<rparr>"
  using assms by (simp_all add: field_size_of_def field_take_def)

lemma string_read:
  assumes st: "plain_state st" "palloc 4" and l: "length src \<le> mfs" "length src \<le> NGX_HTTP_V2_MAX_FIELD"
    and len: "length (ngx_http_v2_string_encode src lower) \<le> hb_length st"
  shows "\<exists>al. h2_run_block rq palloc mfs ngx_http_v2_state_field_len (ngx_http_v2_string_encode src lower @ m) st hs =
    h2_run_block rq palloc mfs ngx_http_v2_state_process_header m (st\<lparr>hb_length := hb_length st - length (ngx_http_v2_string_encode src lower),
      hb_field_rest := 0, hb_alloc := al, hb_field := huff_text src lower\<rparr>) hs"
proof (cases rule: string_encode_cases [of src lower])
  case huff
  let ?h = "ngx_http_v2_huff_encode src lower"
  let ?w = "ngx_http_v2_write_int 0x80 (ngx_http_v2_prefix 7) (length ?h)"
  let ?n = "hb_length st - length ?w"
  have "length ?h \<le> NGX_HTTP_V2_MAX_FIELD" "length ?w \<le> hb_length st" using huff(2,3) l(2) len by simp_all
  then obtain ch q where w: "?w = ch # q" "drop_bit 7 ch \<noteq> 0" "ngx_http_v2_parse_int ch (q @ ?h @ m) (ngx_http_v2_prefix 7) st = (Inr (length ?h), ?h @ m, st\<lparr>hb_length := ?n\<rparr>)"
    using write_int_read [where first = "0x80" and v = "length ?h" and st = st and m = "?h @ m"] by blast
  let ?st = "st\<lparr>hb_length := ?n, hb_field_rest := length ?h, hb_alloc := length ?h * 8 div 5 + 1, hb_field := []\<rparr>"
  have "state_field_len palloc mfs (ch # q @ ?h @ m) st = (H2_call ngx_http_v2_state_field_huff (?h @ m), ?st)"
    using field_len_value [where palloc = palloc, OF _ _ _ _ _ w(3), where mfs = mfs] st(2) st(1) l(1) huff(2) w(1,2) len huff(3) by (simp add: plain_state_def)
  then have a: "h2_handle palloc mfs ngx_http_v2_state_field_len (ngx_http_v2_string_encode src lower @ m) st = Some (H2_call ngx_http_v2_state_field_huff (?h @ m), ?st)"
    using huff(3) w(1) by simp
  have "length ?h \<le> ?n" using len huff(3) by simp
  note f = field_whole [of ?st ?h m, simplified, OF this]
  have b: "h2_handle palloc mfs ngx_http_v2_state_field_huff (?h @ m) ?st = Some (H2_call ngx_http_v2_state_process_header m, st\<lparr>hb_length := ?n - length ?h, hb_field_rest := 0,
      hb_alloc := length ?h * 8 div 5 + 1, hb_field := huff_text src lower\<rparr>)"
    using st(1) huff(4) by (simp add: state_field_huff_def Let_def f field_end_def plain_state_def)
  have "?n - length ?h = hb_length st - length (ngx_http_v2_string_encode src lower)" using huff(3) by simp
  then show ?thesis unfolding h2_run_simps(2) [OF a] h2_run_simps(2) [OF b] by (intro exI [of _ "length ?h * 8 div 5 + 1"]) simp
next
  case raw
  let ?h = "huff_text src lower"
  have h: "length ?h = length src" by (simp add: huff_text_def)
  let ?w = "ngx_http_v2_write_int 0 (ngx_http_v2_prefix 7) (length src)"
  let ?n = "hb_length st - length ?w"
  have "length ?w \<le> hb_length st" using raw len by simp
  then obtain ch q where w: "?w = ch # q" "drop_bit 7 ch = 0" "ngx_http_v2_parse_int ch (q @ ?h @ m) (ngx_http_v2_prefix 7) st = (Inr (length src), ?h @ m, st\<lparr>hb_length := ?n\<rparr>)"
    using write_int_read [where first = 0 and v = "length src" and st = st and m = "?h @ m"] l(2) by auto
  let ?st = "st\<lparr>hb_length := ?n, hb_field_rest := length src, hb_alloc := length src + 1, hb_field := []\<rparr>"
  have "state_field_len palloc mfs (ch # q @ ?h @ m) st = (H2_call ngx_http_v2_state_field_raw (?h @ m), ?st)"
    using field_len_value [where palloc = palloc, OF _ _ _ _ _ w(3), where mfs = mfs] st(2) st(1) l(1) w(1,2) len raw by (simp add: plain_state_def)
  then have a: "h2_handle palloc mfs ngx_http_v2_state_field_len (ngx_http_v2_string_encode src lower @ m) st = Some (H2_call ngx_http_v2_state_field_raw (?h @ m), ?st)"
    using raw w(1) by simp
  have "length ?h \<le> ?n" using len raw h by simp
  note f = field_whole [of ?st ?h m, simplified h, simplified, OF this [unfolded h]]
  have b: "h2_handle palloc mfs ngx_http_v2_state_field_raw (?h @ m) ?st = Some (H2_call ngx_http_v2_state_process_header m, st\<lparr>hb_length := ?n - length src, hb_field_rest := 0,
      hb_alloc := length src + 1, hb_field := ?h\<rparr>)"
    using h by (simp add: state_field_raw_def Let_def f field_end_def)
  have "?n - length src = hb_length st - length (ngx_http_v2_string_encode src lower)" using raw h by simp
  then show ?thesis unfolding h2_run_simps(2) [OF a] h2_run_simps(2) [OF b] by (intro exI [of _ "length src + 1"]) simp
qed

end
