(* ===== verification/Http_V2_Header_Props.thy ===== *)
theory Http_V2_Header_Props
  imports Http_V2_Header_Strings Http_V2_Table_Props
begin

text \<open>
  Properties of the decoder of header blocks: the round trip of what nginx writes, portions, and the memory that is used.
\<close>

section \<open>Headers, written and read\<close>

definition lower_name :: "header_field \<Rightarrow> header_field" where
  "lower_name f = (map ngx_tolower (fst f), snd f)"

definition header_len :: "header_field \<Rightarrow> nat" where
  "header_len f = length (fst f) + length (snd f)"

definition header_fits :: "nat \<Rightarrow> header_field \<Rightarrow> bool" where
  "header_fits mfs f \<longleftrightarrow> length (fst f) \<le> min mfs NGX_HTTP_V2_MAX_FIELD \<and> length (snd f) \<le> min mfs NGX_HTTP_V2_MAX_FIELD"

lemma block_literal:
  assumes "hb_end_headers st" "0 < hb_length st"
  shows "h2_handle palloc mfs ngx_http_v2_state_header_block (0 # p) st =
    Some (H2_call ngx_http_v2_state_field_len p, st\<lparr>hb_length := hb_length st - 1, hb_parse_name := True, hb_parse_value := True\<rparr>)"
proof -
  have "ngx_http_v2_parse_int 0 p (block_prefix 0) (block_mark 0 st) = (Inr 0, p, st\<lparr>hb_length := hb_length st - 1\<rparr>)"
    using assms(2) by (simp add: ngx_http_v2_parse_int_def block_prefix_def block_mark_def ngx_http_v2_prefix_def)
  then show ?thesis using assms(1) by (simp add: block_value_def)
qed

text \<open>The headers of the request after a header that is not rejected.\<close>

definition request_kept :: "h2_request \<Rightarrow> header_field list \<Rightarrow> header_field \<Rightarrow> header_field list option" where
  "request_kept rq hs f =
    (case request_header rq hs f of Header_taken \<Rightarrow> Some (hs @ [f]) | Header_ignored \<Rightarrow> Some hs | _ \<Rightarrow> None)"

lemma header_done_kept:
  "request_kept rq hs f = Some hs' \<Longrightarrow> plain_state st \<Longrightarrow> \<exists>st'. header_done rq f st hs = Some (st', hs') \<and> plain_state st'"
  by (auto simp: request_kept_def header_done_def pseudo_name_def plain_state_def split: header_outcome.splits)

lemma header_read:
  assumes st: "plain_state st" "palloc 4" and f: "header_fits mfs f" "header_len f \<le> hb_header_limit st"
    and len: "length (write_header f) \<le> hb_length st" and kept: "request_kept rq hs (lower_name f) = Some hs'"
  shows "\<exists>st'. h2_run_block rq palloc mfs ngx_http_v2_state_header_block (write_header f @ m) st hs =
      h2_run_block rq palloc mfs ngx_http_v2_state_header_complete m st' hs' \<and> plain_state st' \<and>
      hb_length st' = hb_length st - length (write_header f) \<and> hb_header_limit st' = hb_header_limit st - header_len f"
proof -
  let ?n = "ngx_http_v2_string_encode (fst f) True" and ?v = "ngx_http_v2_string_encode (snd f) False"
  have w: "length (write_header f) = Suc (length ?n + length ?v)" "write_header f @ m = 0 # ?n @ ?v @ m" by (simp_all add: write_header_def)
  have fits: "length (fst f) \<le> mfs" "length (fst f) \<le> NGX_HTTP_V2_MAX_FIELD" "length (snd f) \<le> mfs" "length (snd f) \<le> NGX_HTTP_V2_MAX_FIELD"
    using f(1) by (simp_all add: header_fits_def)
  let ?st1 = "st\<lparr>hb_length := hb_length st - 1, hb_parse_name := True, hb_parse_value := True\<rparr>"
  have r1: "h2_run_block rq palloc mfs ngx_http_v2_state_header_block (write_header f @ m) st hs =
      h2_run_block rq palloc mfs ngx_http_v2_state_field_len (?n @ ?v @ m) ?st1 hs"
    unfolding w(2) by (rule h2_run_simps(2) [OF block_literal]) (use st len w in \<open>auto simp: plain_state_def\<close>)
  obtain al where r2: "h2_run_block rq palloc mfs ngx_http_v2_state_field_len (?n @ ?v @ m) ?st1 hs =
      h2_run_block rq palloc mfs ngx_http_v2_state_process_header (?v @ m)
        (?st1\<lparr>hb_length := hb_length ?st1 - length ?n, hb_field_rest := 0, hb_alloc := al, hb_field := huff_text (fst f) True\<rparr>) hs"
  proof -
    have "plain_state ?st1" "length ?n \<le> hb_length ?st1" using st len w(1) by (simp_all add: plain_state_def)
    then show ?thesis using that string_read [of ?st1 palloc "fst f" mfs True rq "?v @ m" hs] st(2) fits by blast
  qed
  let ?st2 = "?st1\<lparr>hb_length := hb_length ?st1 - length ?n, hb_field_rest := 0, hb_alloc := al, hb_field := huff_text (fst f) True\<rparr>"
  let ?st3 = "?st2\<lparr>hb_parse_name := False, hb_name := huff_text (fst f) True\<rparr>"
  have r3: "h2_run_block rq palloc mfs ngx_http_v2_state_process_header (?v @ m) ?st2 hs =
      h2_run_block rq palloc mfs ngx_http_v2_state_field_len (?v @ m) ?st3 hs"
    by (rule h2_run_simps(2)) (simp add: state_process_header_def)
  obtain al2 where r4: "h2_run_block rq palloc mfs ngx_http_v2_state_field_len (?v @ m) ?st3 hs =
      h2_run_block rq palloc mfs ngx_http_v2_state_process_header m
        (?st3\<lparr>hb_length := hb_length ?st3 - length ?v, hb_field_rest := 0, hb_alloc := al2, hb_field := huff_text (snd f) False\<rparr>) hs"
  proof -
    have "plain_state ?st3" "length ?v \<le> hb_length ?st3" using st len w(1) by (simp_all add: plain_state_def)
    then show ?thesis using that string_read [of ?st3 palloc "snd f" mfs False rq m hs] st(2) fits by blast
  qed
  let ?st4 = "?st3\<lparr>hb_length := hb_length ?st3 - length ?v, hb_field_rest := 0, hb_alloc := al2, hb_field := huff_text (snd f) False\<rparr>"
  let ?st5 = "?st4\<lparr>hb_parse_value := False, hb_value := snd f, hb_header_limit := hb_header_limit st - header_len f\<rparr>"
  have p: "h2_handle palloc mfs ngx_http_v2_state_process_header m ?st4 = Some (H2_header (lower_name f) m, ?st5)"
    using st f(2) by (simp add: state_process_header_def Let_def huff_text_def header_len_def plain_state_def lower_name_def)
  have "plain_state ?st5" using st by (simp add: plain_state_def)
  then obtain st6 where s6: "header_done rq (lower_name f) ?st5 hs = Some (st6, hs')" "plain_state st6"
    using header_done_kept [OF kept] by blast
  have r5: "h2_run_block rq palloc mfs ngx_http_v2_state_process_header m ?st4 hs =
      h2_run_block rq palloc mfs ngx_http_v2_state_header_complete m st6 hs'" by (rule h2_run_simps(3) [OF p s6(1)])
  show ?thesis unfolding r1 r2 r3 r4 r5 using w(1) s6(2) header_done_fields(4,5) [OF s6(1)] by (intro exI [of _ st6]) simp
qed

text \<open>The headers of the request after the headers \<open>fs\<close>, where none of them is rejected.\<close>

fun request_headers :: "h2_request \<Rightarrow> header_field list \<Rightarrow> header_field list \<Rightarrow> header_field list option" where
  "request_headers rq hs [] = Some hs"
| "request_headers rq hs (f # fs) = request_kept rq hs f \<bind> (\<lambda>hs. request_headers rq hs fs)"

lemma block_read:
  assumes "fs \<noteq> []" "plain_state st" "palloc 4" "\<forall>f\<in>set fs. header_fits mfs f" "sum_list (map header_len fs) \<le> hb_header_limit st"
    "hb_length st = length (concat (map write_header fs))" "request_headers rq hs (map lower_name fs) = Some hs'"
  shows "\<exists>st'. h2_run_block rq palloc mfs ngx_http_v2_state_header_block (concat (map write_header fs) @ m) st hs = Some (H2_end m st', hs')"
  using assms
proof (induction fs arbitrary: st hs)
  case (Cons f fs)
  obtain hs1 where k: "request_kept rq hs (lower_name f) = Some hs1" "request_headers rq hs1 (map lower_name fs) = Some hs'"
    using Cons.prems(7) by (auto simp: bind_eq_Some_conv)
  obtain st1 where s: "h2_run_block rq palloc mfs ngx_http_v2_state_header_block (write_header f @ concat (map write_header fs) @ m) st hs =
      h2_run_block rq palloc mfs ngx_http_v2_state_header_complete (concat (map write_header fs) @ m) st1 hs1"
    "plain_state st1" "hb_length st1 = length (concat (map write_header fs))" "hb_header_limit st1 = hb_header_limit st - header_len f"
    using header_read [of st palloc mfs f rq hs hs1 "concat (map write_header fs) @ m"] k(1) Cons.prems by auto
  show ?case
  proof (cases "fs = []")
    case True
    then have "h2_handle palloc mfs ngx_http_v2_state_header_complete m st1 = Some (H2_complete m, st1)"
      using s(2,3) by (simp add: state_header_complete_def plain_state_def)
    then show ?thesis using s(1) True k(2) by (simp add: h2_run_simps(8))
  next
    case False
    then obtain g gs where "fs = g # gs" by (cases fs) auto
    then have "hb_length st1 \<noteq> 0" using s(3) by (simp add: write_header_def)
    then have "h2_handle palloc mfs ngx_http_v2_state_header_complete (concat (map write_header fs) @ m) st1 =
        Some (H2_return (concat (map write_header fs) @ m), st1)" by (simp add: state_header_complete_def)
    note r = h2_run_simps(4) [OF this, of rq hs1]
    have "\<exists>st'. h2_run_block rq palloc mfs ngx_http_v2_state_header_block (concat (map write_header fs) @ m) st1 hs1 =
        Some (H2_end m st', hs')"
      by (rule Cons.IH) (use Cons.prems s k(2) False in auto)
    then show ?thesis using s(1) r by simp
  qed
qed simp

section \<open>What the decoder can reach\<close>

text \<open>The configurations of the decoder: a handler, the bytes before it, and the state. Bytes may arrive whenever the state is saved, and a continuation
  frame may bring any length, flag and bytes. The request may have taken any headers before.\<close>

inductive h2_reach ::
  "h2_request \<Rightarrow> (nat \<Rightarrow> bool) \<Rightarrow> nat \<Rightarrow> ngx_http_v2_state \<Rightarrow> h2_handler \<Rightarrow> u_char list \<Rightarrow> ngx_http_v2_state \<Rightarrow> bool" for rq palloc mfs st0 where
  reach_start: "h2_reach rq palloc mfs st0 ngx_http_v2_state_header_block p st0"
| reach_call: "h2_reach rq palloc mfs st0 h p st \<Longrightarrow> h2_handle palloc mfs h p st = Some (H2_call g q, st') \<Longrightarrow> h2_reach rq palloc mfs st0 g q st'"
| reach_header: "h2_reach rq palloc mfs st0 h p st \<Longrightarrow> h2_handle palloc mfs h p st = Some (H2_header f q, st') \<Longrightarrow>
    header_done rq f st' hs = Some (st'', hs') \<Longrightarrow> h2_reach rq palloc mfs st0 ngx_http_v2_state_header_complete q st''"
| reach_return: "h2_reach rq palloc mfs st0 h p st \<Longrightarrow> h2_handle palloc mfs h p st = Some (H2_return q, st') \<Longrightarrow>
    h2_reach rq palloc mfs st0 ngx_http_v2_state_header_block q st'"
| reach_more: "h2_reach rq palloc mfs st0 h p st \<Longrightarrow> h2_handle palloc mfs h p st = Some (H2_save g q, st') \<Longrightarrow> h2_reach rq palloc mfs st0 g (q @ m) st'"
| reach_frame: "h2_reach rq palloc mfs st0 h p st \<Longrightarrow> h2_handle palloc mfs h p st = Some (H2_continuation g q, st') \<Longrightarrow>
    h2_reach rq palloc mfs st0 g m (st'\<lparr>hb_length := n, hb_end_headers := e\<rparr>)"

section \<open>The memory for a string\<close>

definition field_space :: "h2_handler \<Rightarrow> ngx_http_v2_state \<Rightarrow> bool" where
  "field_space h st \<longleftrightarrow>
    (h = ngx_http_v2_state_field_huff \<longrightarrow>
       5 * length (hb_field st) + length (node_bits (hb_field_state st)) + 8 * hb_field_rest st < 5 * hb_alloc st) \<and>
    (h = ngx_http_v2_state_field_raw \<longrightarrow> length (hb_field st) + hb_field_rest st < hb_alloc st) \<and>
    (h \<noteq> ngx_http_v2_state_field_huff \<longrightarrow> hb_field_state st = 0)"

lemma parse_int_fields:
  "ngx_http_v2_parse_int ch p prefix st = (r, q, st') \<Longrightarrow> hb_field_state st' = hb_field_state st \<and> hb_hpack st' = hb_hpack st"
  unfolding parse_int_unfold Let_def by (auto split: if_splits option.splits)

lemma header_block_space:
  assumes "state_header_block palloc p st = Some (a, st')" "hb_field_state st = 0"
  shows "hb_field_state st' = 0" "a = H2_call g q \<Longrightarrow> g \<noteq> ngx_http_v2_state_field_huff \<and> g \<noteq> ngx_http_v2_state_field_raw"
    "a = H2_save g q \<or> a = H2_continuation g q \<Longrightarrow> g = ngx_http_v2_state_header_block"
  using assms
  by (cases p; auto simp: block_value_def block_mark_def parse_int_failed_def Let_def bind_eq_Some_conv
    split: if_splits prod.splits sum.splits dest!: parse_int_fields)+

lemma field_len_space:
  assumes "state_field_len palloc mfs p st = (a, st')" "hb_field_state st = 0"
  shows "hb_field_state st' = 0" "a = H2_call g q \<Longrightarrow> field_space g st'"
    "a = H2_save g q \<or> a = H2_continuation g q \<Longrightarrow> g = ngx_http_v2_state_field_len"
proof -
  have f: "field_space g st'" if "field_value palloc mfs huff len r st1 = (H2_call g q, st')" "hb_field_state st1 = 0" for huff len r st1
  proof -
    have "x < 5 * (x div 5 + 1)" for x :: nat by presburger
    from this [of "len * 8"] have "8 * len < 5 * (len * 8 div 5 + 1)" by (simp only: mult.commute)
    then show ?thesis using that by (auto simp: field_value_def field_space_def Let_def node_zero split: if_splits)
  qed
  have v: "hb_field_state st' = hb_field_state st1" if "field_value palloc mfs huff len r st1 = (a, st')" for huff len r st1
    using that by (auto simp: field_value_def Let_def split: if_splits)
  show "hb_field_state st' = 0" using assms
    by (auto simp: state_field_len_def split: if_splits list.splits prod.splits sum.splits dest!: parse_int_fields v)
  show "field_space g st'" if "a = H2_call g q" using assms that f
    by (auto simp: state_field_len_def parse_int_failed_not split: if_splits list.splits prod.splits sum.splits dest!: parse_int_fields)
  show "g = ngx_http_v2_state_field_len" if "a = H2_save g q \<or> a = H2_continuation g q" using assms that
    by (auto simp: state_field_len_def parse_int_failed_def field_value_def Let_def split: if_splits list.splits prod.splits sum.splits)
qed

lemma field_end_space:
  assumes "field_end h p st = (a, st')"
  shows "st' = st" "a = H2_call g q \<Longrightarrow> g = ngx_http_v2_state_process_header \<and> hb_field_rest st = 0"
    "a = H2_save g q \<or> a = H2_continuation g q \<Longrightarrow> g = h"
  using assms by (auto simp: field_end_def split: if_splits)

lemma huff_final_state: "ngx_http_v2_huff_decode s src dst True = (NGX_OK, s', d) \<Longrightarrow> s' = 0"
  by (auto simp: ngx_http_v2_huff_decode_def split: prod.splits ngx_rc.splits if_splits)

lemma field_huff_space:
  assumes sp: "field_space ngx_http_v2_state_field_huff st" and e: "state_field_huff p st = (a, st')"
  shows "length (hb_field st') < hb_alloc st'" "a = H2_call g q \<Longrightarrow> g = ngx_http_v2_state_process_header \<and> hb_field_state st' = 0"
    "a = H2_save g q \<or> a = H2_continuation g q \<Longrightarrow> g = ngx_http_v2_state_field_huff \<and> field_space g st'"
proof -
  let ?n = "field_size_of p st" and ?st = "field_take p st"
  obtain rc s d where r: "ngx_http_v2_huff_decode (hb_field_state st) (take ?n p) (hb_field st) (hb_field_rest ?st = 0) = (rc, s, d)" by (metis prod_cases3)
  let ?st1 = "?st\<lparr>hb_field_state := s, hb_field := d\<rparr>"
  have n: "length (take ?n p) = ?n" "hb_field_rest ?st = hb_field_rest st - ?n" "?n \<le> hb_field_rest st" "hb_alloc ?st = hb_alloc st"
    by (auto simp: field_size_of_def field_take_def)
  have b: "5 * length d + length (node_bits s) + 8 * hb_field_rest ?st < 5 * hb_alloc st"
    using huff_decode_space [OF r] sp n by (simp add: field_space_def)
  have e': "(if rc \<noteq> NGX_OK then (H2_error NGX_HTTP_V2_COMP_ERROR, ?st1) else field_end ngx_http_v2_state_field_huff (drop ?n p) ?st1) = (a, st')"
    using e r by (simp add: state_field_huff_def Let_def)
  have st': "st' = ?st1" using e' field_end_space(1) by (cases "rc = NGX_OK") fastforce+
  show "length (hb_field st') < hb_alloc st'" using b st' n(4) by simp
  show "g = ngx_http_v2_state_process_header \<and> hb_field_state st' = 0" if c: "a = H2_call g q"
  proof -
    have ok: "rc = NGX_OK" using e' c by (cases "rc = NGX_OK") simp_all
    then have "field_end ngx_http_v2_state_field_huff (drop ?n p) ?st1 = (a, st')" using e' by simp
    then have g: "g = ngx_http_v2_state_process_header" "hb_field_rest ?st = 0" using field_end_space(2) [OF _ c] by fastforce+
    then show ?thesis using huff_final_state [of _ _ _ s d] r ok st' by simp
  qed
  show "g = ngx_http_v2_state_field_huff \<and> field_space g st'" if c: "a = H2_save g q \<or> a = H2_continuation g q"
  proof -
    have ok: "rc = NGX_OK" using e' c by (cases "rc = NGX_OK") auto
    then have "field_end ngx_http_v2_state_field_huff (drop ?n p) ?st1 = (a, st')" using e' by simp
    then have "g = ngx_http_v2_state_field_huff" using field_end_space(3) c by blast
    then show ?thesis using b st' n(4) by (simp add: field_space_def)
  qed
qed

lemma field_raw_space:
  assumes sp: "field_space ngx_http_v2_state_field_raw st" and e: "state_field_raw p st = (a, st')"
  shows "length (hb_field st') < hb_alloc st'" "hb_field_state st' = 0" "a = H2_call g q \<Longrightarrow> g = ngx_http_v2_state_process_header"
    "a = H2_save g q \<or> a = H2_continuation g q \<Longrightarrow> g = ngx_http_v2_state_field_raw \<and> field_space g st'"
proof -
  let ?n = "field_size_of p st" and ?st = "field_take p st"
  let ?st1 = "?st\<lparr>hb_field := hb_field st @ take ?n p\<rparr>"
  have n: "length (take ?n p) = ?n" "hb_field_rest ?st = hb_field_rest st - ?n" "?n \<le> hb_field_rest st" "hb_alloc ?st = hb_alloc st"
    by (auto simp: field_size_of_def field_take_def)
  have e': "field_end ngx_http_v2_state_field_raw (drop ?n p) ?st1 = (a, st')" using e by (simp add: state_field_raw_def Let_def)
  have st': "st' = ?st1" by (rule field_end_space(1) [OF e'])
  have b: "length (hb_field st @ take ?n p) + hb_field_rest ?st < hb_alloc st" using sp n by (simp add: field_space_def)
  show "length (hb_field st') < hb_alloc st'" "hb_field_state st' = 0" using b st' n(4) sp by (simp_all add: field_space_def)
  show "a = H2_call g q \<Longrightarrow> g = ngx_http_v2_state_process_header" using field_end_space(2) [OF e'] by blast
  show "g = ngx_http_v2_state_field_raw \<and> field_space g st'" if c: "a = H2_save g q \<or> a = H2_continuation g q"
    using field_end_space(3) [OF e' c] b st' n(4) sp by (simp add: field_space_def)
qed

lemma field_skip_space:
  assumes "hb_field_state st = 0" and e: "state_field_skip p st = (a, st')"
  shows "hb_field_state st' = 0" "a = H2_call g q \<Longrightarrow> g = ngx_http_v2_state_process_header"
    "a = H2_save g q \<or> a = H2_continuation g q \<Longrightarrow> g = ngx_http_v2_state_field_skip"
proof -
  have e': "field_end ngx_http_v2_state_field_skip (drop (field_size_of p st) p) (field_take p st) = (a, st')"
    using e by (simp add: state_field_skip_def Let_def)
  show "hb_field_state st' = 0" using field_end_space(1) [OF e'] assms(1) by simp
  show "a = H2_call g q \<Longrightarrow> g = ngx_http_v2_state_process_header" using field_end_space(2) [OF e'] by blast
  show "a = H2_save g q \<or> a = H2_continuation g q \<Longrightarrow> g = ngx_http_v2_state_field_skip" by (rule field_end_space(3) [OF e'])
qed

lemma process_header_space:
  assumes "state_process_header palloc p st = Some (a, st')" "hb_field_state st = 0"
  shows "hb_field_state st' = 0" "a = H2_call g q \<Longrightarrow> g \<noteq> ngx_http_v2_state_field_huff \<and> g \<noteq> ngx_http_v2_state_field_raw"
    "a \<noteq> H2_save g q" "a \<noteq> H2_continuation g q"
  using assms by (auto simp: state_process_header_def Let_def bind_eq_Some_conv split: if_splits)

lemma header_complete_space:
  assumes "state_header_complete p st = (a, st')"
  shows "st' = st" "a \<noteq> H2_call g q" "a \<noteq> H2_save g q" "a = H2_continuation g q \<Longrightarrow> g = ngx_http_v2_state_header_complete"
  using assms by (auto simp: state_header_complete_def split: if_splits)

lemma field_space_other: "h \<noteq> ngx_http_v2_state_field_huff \<Longrightarrow> h \<noteq> ngx_http_v2_state_field_raw \<Longrightarrow> field_space h st \<longleftrightarrow> hb_field_state st = 0"
  by (auto simp: field_space_def)

lemma h2_handle_space:
  assumes sp: "field_space h st" and e: "h2_handle palloc mfs h p st = Some (a, st')"
  shows "a = H2_call g q \<or> a = H2_save g q \<or> a = H2_continuation g q \<Longrightarrow> field_space g st'"
    "a = H2_header f q \<or> a = H2_return q \<Longrightarrow> hb_field_state st' = 0"
    "h = ngx_http_v2_state_field_huff \<or> h = ngx_http_v2_state_field_raw \<Longrightarrow> length (hb_field st') < hb_alloc st'"
proof -
  have z: "h \<noteq> ngx_http_v2_state_field_huff \<Longrightarrow> hb_field_state st = 0" using sp by (simp add: field_space_def)
  show "field_space g st'" if "a = H2_call g q \<or> a = H2_save g q \<or> a = H2_continuation g q"
  proof (cases h)
    case ngx_http_v2_state_header_block
    then have e': "state_header_block palloc p st = Some (a, st')" using e by simp
    have z': "hb_field_state st = 0" using z ngx_http_v2_state_header_block by simp
    show ?thesis using header_block_space(1) [OF e' z'] header_block_space(2,3) [OF e' z', of g q] that by (auto simp: field_space_other)
  next
    case ngx_http_v2_state_field_len
    then have e': "state_field_len palloc mfs p st = (a, st')" using e by simp
    have z': "hb_field_state st = 0" using z ngx_http_v2_state_field_len by simp
    show ?thesis using field_len_space(1) [OF e' z'] field_len_space(2,3) [OF e' z', of g q] that by (auto simp: field_space_other)
  next
    case ngx_http_v2_state_field_huff
    then have e': "state_field_huff p st = (a, st')" using e by simp
    have z': "field_space ngx_http_v2_state_field_huff st" using sp ngx_http_v2_state_field_huff by simp
    show ?thesis using field_huff_space(1) [OF z' e'] field_huff_space(2,3) [OF z' e', of g q] that by (auto simp: field_space_other)
  next
    case ngx_http_v2_state_field_raw
    then have e': "state_field_raw p st = (a, st')" using e by simp
    have z': "field_space ngx_http_v2_state_field_raw st" using sp ngx_http_v2_state_field_raw by simp
    show ?thesis using field_raw_space(1,2) [OF z' e'] field_raw_space(3,4) [OF z' e', of g q] that by (auto simp: field_space_other)
  next
    case ngx_http_v2_state_field_skip
    then have e': "state_field_skip p st = (a, st')" using e by simp
    have z': "hb_field_state st = 0" using z ngx_http_v2_state_field_skip by simp
    show ?thesis using field_skip_space(1) [OF z' e'] field_skip_space(2,3) [OF z' e', of g q] that by (auto simp: field_space_other)
  next
    case ngx_http_v2_state_process_header
    then have e': "state_process_header palloc p st = Some (a, st')" using e by simp
    have z': "hb_field_state st = 0" using z ngx_http_v2_state_process_header by simp
    show ?thesis using process_header_space(1) [OF e' z'] process_header_space(2-) [OF e' z', of g q] that by (auto simp: field_space_other)
  next
    case ngx_http_v2_state_header_complete
    then have e': "state_header_complete p st = (a, st')" using e by simp
    have z': "hb_field_state st = 0" using z ngx_http_v2_state_header_complete by simp
    show ?thesis using header_complete_space(1) [OF e'] header_complete_space(2-) [OF e', of g q] z' that by (auto simp: field_space_other)
  qed
  show "hb_field_state st' = 0" if "a = H2_header f q \<or> a = H2_return q"
    using that e z process_header_space(1) [of palloc p st a st'] header_complete_space(1) [of p st a st']
    by (cases h) (auto simp: handler_not header_block_not)
  show "length (hb_field st') < hb_alloc st'" if "h = ngx_http_v2_state_field_huff \<or> h = ngx_http_v2_state_field_raw"
    using that sp e field_huff_space(1) field_raw_space(1) by auto
qed

lemma h2_reach_space:
  assumes "h2_reach rq palloc mfs st0 h p st" "hb_field_state st0 = 0"
  shows "field_space h st"
  using assms
proof (induction rule: h2_reach.induct)
  case (reach_frame h p st g q st' m n e)
  then have "field_space g st'" using h2_handle_space(1) by blast
  then show ?case by (simp add: field_space_def)
next
  case (reach_header h p st f q st' hs st'' hs')
  then show ?case using h2_handle_space(2) [of h st palloc mfs p "H2_header f q" st'] header_done_fields(3) [of rq f st' hs st'' hs']
    by (simp add: field_space_other)
next
  case (reach_return h p st q st')
  then show ?case using h2_handle_space(2) [of h st palloc mfs p "H2_return q" st'] by (simp add: field_space_other)
qed (auto simp: field_space_other dest: h2_handle_space(1))

section \<open>The table of the connection\<close>

text \<open>The table before the first entry, or one that holds a list of entries.\<close>

definition table_ready :: "ngx_http_v2_hpack \<Rightarrow> bool" where
  "table_ready t \<longleftrightarrow> table_blank t \<or> (\<exists>l. hpack_ok t l)"

lemma table_ready_zero: "table_ready hpack_zero"
  by (simp add: table_ready_def table_blank_zero)

lemma table_ready_add:
  assumes "table_ready t"
  shows "\<exists>t'. ngx_http_v2_add_header (\<lambda>_. True) f t = Some (NGX_OK, t') \<and> table_ready t'"
proof (cases "table_blank t")
  case True
  obtain t0 where "hpack_ok t0 []" "ngx_http_v2_add_header (\<lambda>_. True) f hpack_zero = ngx_http_v2_add_header (\<lambda>_. True) f t0"
    using first_add [of "\<lambda>_. True" f] by auto
  then show ?thesis using table_blank_add [OF True] hpack.add_holds [of t0 "[]" f] unfolding table_ready_def by auto
next
  case False
  then show ?thesis using assms hpack.add_holds [of t _ f] unfolding table_ready_def by metis
qed

lemma table_ready_size:
  assumes "table_ready t"
  shows "\<exists>rc t'. ngx_http_v2_table_size n t = Some (rc, t') \<and> table_ready t'"
  using assms table_blank_size [of t n] hpack.resize_holds [of t _ n] unfolding table_ready_def by metis

lemma table_ready_get:
  assumes "table_ready t"
  shows "\<exists>r. ngx_http_v2_get_indexed_header (\<lambda>_. True) index name_only t = Some r"
proof (cases "table_blank t")
  case True
  then show ?thesis by (auto simp: table_blank_def ngx_http_v2_get_indexed_header_def hpack_zero_def Let_def)
next
  case False
  then show ?thesis using assms hpack.get_holds [of t] unfolding table_ready_def by metis
qed

lemma block_value_total:
  assumes "table_ready (hb_hpack st)"
  shows "\<exists>a st'. block_value (\<lambda>_. True) ch val p st = Some (a, st') \<and> table_ready (hb_hpack st')"
proof -
  obtain rc nm vl where g: "ngx_http_v2_get_indexed_header (\<lambda>_. True) val (\<not> ch \<ge> 128) (hb_hpack st) = Some (rc, nm, vl)"
    using table_ready_get [OF assms] by (metis prod_cases3)
  obtain rc2 t where t: "ngx_http_v2_table_size val (hb_hpack st) = Some (rc2, t)" "table_ready t" using table_ready_size [OF assms] by blast
  show ?thesis using g t assms by (cases "ch \<ge> 128") (simp_all add: block_value_def Let_def)
qed

lemma header_block_total:
  assumes r: "table_ready (hb_hpack st)"
  shows "\<exists>a st'. state_header_block (\<lambda>_. True) p st = Some (a, st') \<and> table_ready (hb_hpack st')"
proof (cases p)
  case (Cons ch q)
  obtain v q' st1 where v: "ngx_http_v2_parse_int ch q (block_prefix ch) (block_mark ch st) = (v, q', st1)" by (metis prod_cases3)
  have "table_ready (hb_hpack st1)" using parse_int_fields [OF v] r by (simp add: block_mark_def)
  then show ?thesis using Cons v r block_value_total [of st1 ch _ q'] by (cases v) auto
qed (use r in simp)

lemma field_len_hpack: "state_field_len palloc mfs p st = (a, st') \<Longrightarrow> hb_hpack st' = hb_hpack st"
  by (auto simp: state_field_len_def field_value_def Let_def split: if_splits list.splits prod.splits sum.splits dest!: parse_int_fields)

lemma process_header_total:
  assumes r: "table_ready (hb_hpack st)"
  shows "\<exists>a st'. state_process_header (\<lambda>_. True) p st = Some (a, st') \<and> table_ready (hb_hpack st')"
proof -
  obtain t where t: "ngx_http_v2_add_header (\<lambda>_. True) f (hb_hpack st) = Some (NGX_OK, t f) \<and> table_ready (t f)" for f
    using table_ready_add [OF r] by metis
  show ?thesis using r t by (simp add: state_process_header_def Let_def)
qed

lemma h2_handle_total:
  assumes r: "table_ready (hb_hpack st)"
  shows "\<exists>a st'. h2_handle (\<lambda>_. True) mfs h p st = Some (a, st') \<and> table_ready (hb_hpack st')"
proof (cases h)
  case ngx_http_v2_state_field_len
  obtain a st' where "state_field_len (\<lambda>_. True) mfs p st = (a, st')" by fastforce
  then show ?thesis using ngx_http_v2_state_field_len field_len_hpack r by fastforce
next
  case ngx_http_v2_state_field_huff
  then show ?thesis using r by (auto simp: state_field_huff_def field_end_def field_take_def Let_def split: prod.splits)
qed (use r header_block_total process_header_total in
  \<open>auto simp: state_field_raw_def state_field_skip_def state_header_complete_def field_end_def field_take_def Let_def\<close>)

lemma h2_handle_ready:
  "h2_handle (\<lambda>_. True) mfs h p st = Some (a, st') \<Longrightarrow> table_ready (hb_hpack st) \<Longrightarrow> table_ready (hb_hpack st')"
  using h2_handle_total [of st mfs h p] by auto

lemma h2_reach_ready:
  assumes "h2_reach rq (\<lambda>_. True) mfs st0 h p st" "table_ready (hb_hpack st0)"
  shows "table_ready (hb_hpack st)"
  using assms
proof (induction rule: h2_reach.induct)
  case (reach_frame h p st g q st' m n e)
  then show ?case using h2_handle_ready by fastforce
next
  case (reach_header h p st f q st' hs st'' hs')
  then show ?case using h2_handle_ready [of mfs h p st "H2_header f q" st'] header_done_fields(2) [of rq f st' hs st'' hs'] by simp
qed (auto dest: h2_handle_ready)

section \<open>The bytes that are saved\<close>

lemma h2_handle_saved:
  assumes "h2_handle palloc mfs h p st = Some (H2_save g q, st')"
  shows "length q \<le> 3"
proof -
  have i: "length q' \<le> 3" if "parse_int_failed k rc q' = H2_save k' q''" "ngx_http_v2_parse_int ch r prefix st1 = (Inl rc, q', st2)"
    for k rc q' k' q'' ch r prefix st1 st2
    using parse_int_failed_state [OF that(2)] that(1) by (auto simp: parse_int_failed_def split: if_splits)
  have f: "q = []" if "field_end k (drop (field_size_of p st) p) st1 = (H2_save g q, st')" "hb_field_rest st1 = hb_field_rest (field_take p st)"
    "hb_length st1 = hb_length (field_take p st)" for k st1
    using that by (auto simp: field_end_def field_take_def field_size_of_def min_def split: if_splits)
  show ?thesis
  proof (cases h)
    case ngx_http_v2_state_header_block
    then show ?thesis using assms i
      by (cases p) (fastforce simp: block_value_not_save parse_int_failed_def split: if_splits prod.splits sum.splits)+
  next
    case ngx_http_v2_state_field_len
    then show ?thesis using assms i
      by (fastforce simp: state_field_len_def field_value_not_save parse_int_failed_def split: if_splits list.splits prod.splits sum.splits)
  next
    case ngx_http_v2_state_field_huff
    then show ?thesis using assms by (auto simp: state_field_huff_def Let_def split: prod.splits if_splits dest!: f)
  next
    case ngx_http_v2_state_field_raw
    then show ?thesis using assms by (auto simp: state_field_raw_def Let_def dest!: f)
  next
    case ngx_http_v2_state_field_skip
    then show ?thesis using assms by (auto simp: state_field_skip_def Let_def dest!: f)
  next
    case ngx_http_v2_state_process_header
    then show ?thesis using assms by (auto simp: state_process_header_def Let_def bind_eq_Some_conv split: if_splits)
  next
    case ngx_http_v2_state_header_complete
    then show ?thesis using assms by (auto simp: state_header_complete_def split: if_splits)
  qed
qed

text \<open>\<open>ngx_http_v2_handle_continuation\<close> saves the rest of the block and an incomplete frame header: fewer bytes than both have.\<close>

definition NGX_HTTP_V2_FRAME_HEADER_SIZE :: nat where
  "NGX_HTTP_V2_FRAME_HEADER_SIZE = 9"

lemma h2_handle_continued:
  assumes "h2_handle palloc mfs h p st = Some (H2_continuation g q, st')"
  shows "hb_length st' < NGX_HTTP_V2_INT_OCTETS"
proof (cases h)
  case ngx_http_v2_state_header_block
  then show ?thesis using assms
    by (cases p) (auto simp: block_value_def parse_int_failed_def Let_def bind_eq_Some_conv split: if_splits prod.splits sum.splits)
next
  case ngx_http_v2_state_field_len
  then show ?thesis using assms
    by (auto simp: state_field_len_def field_value_def parse_int_failed_def Let_def split: if_splits list.splits prod.splits sum.splits)
qed (use assms in \<open>auto simp: state_field_huff_def state_field_raw_def state_field_skip_def state_header_complete_def state_process_header_def
  field_end_def NGX_HTTP_V2_INT_OCTETS_def Let_def bind_eq_Some_conv split: if_splits prod.splits\<close>)

text \<open>C15. Round trip of header blocks. The header fields that nginx writes with \<open>ngx_http_v2_string_encode\<close>, Huffman coded where that is shorter, are read
  by its own header block decoder in whatever portions the bytes arrive, and given to the request one by one with the names in lower case; the bytes
  behind the block are left. The fields have to be within the limits \<open>http2_max_field_size\<close>, \<open>http2_max_header_size\<close> and
  \<open>NGX_HTTP_V2_MAX_FIELD\<close>, the frame ends the header block, and the request rejects none of them: where it rejects one, the stream is dropped.
  Fields that the request ignores are left out.\<close>

theorem header_block_written_read:
  assumes "fs \<noteq> []" "plain_state st" "palloc 4" "\<forall>f\<in>set fs. header_fits mfs f" "sum_list (map header_len fs) \<le> hb_header_limit st"
    "hb_length st = length (concat (map write_header fs))" "ms \<noteq> []" "concat ms = concat (map write_header fs) @ m"
    "request_headers rq [] (map lower_name fs) = Some hs"
  shows "\<exists>st'. h2_feed rq palloc mfs ms (H2_more ngx_http_v2_state_header_block [] st, []) = Some (H2_end m st', hs)"
proof -
  have "h2_feed rq palloc mfs ms (H2_more ngx_http_v2_state_header_block [] st, []) =
      h2_run_block rq palloc mfs ngx_http_v2_state_header_block (concat ms) st []"
    using h2_feed_concat [of "(H2_more ngx_http_v2_state_header_block [] st, [])" ms rq palloc mfs] assms(2,7)
    by (simp add: h2_result_ok_def plain_state_def)
  then show ?thesis using block_read [of fs st palloc mfs rq "[]" hs m] assms by simp
qed

text \<open>C16. Portions. The decoder of a header block that ends with its frame (\<open>END_HEADERS\<close>) gives the same result, the same headers to the request
  and the same table for the same bytes in whatever portions they arrive. This holds of every sequence of bytes, well formed or not, and whatever the
  request does with the headers: a header that is rejected drops the stream, and the rest of the block is read without it.\<close>

theorem header_block_portions:
  assumes "hb_end_headers st" "ms \<noteq> []"
  shows "h2_feed rq palloc mfs ms (H2_more ngx_http_v2_state_header_block [] st, []) =
    h2_run_block rq palloc mfs ngx_http_v2_state_header_block (concat ms) st []"
  using h2_feed_concat [of "(H2_more ngx_http_v2_state_header_block [] st, [])" ms rq palloc mfs] assms by (simp add: h2_result_ok_def)

text \<open>The state with which the decoder starts on the block of a frame that has the flag \<open>END_HEADERS\<close>, on a new connection.\<close>

definition block_start :: "nat \<Rightarrow> nat \<Rightarrow> ngx_http_v2_state" where
  "block_start len limit = \<lparr>hb_length = len, hb_end_headers = True, hb_parse_name = False, hb_parse_value = False, hb_index = False,
     hb_name = [], hb_value = [], hb_header_limit = limit, hb_field_state = 0, hb_field = [], hb_alloc = 0, hb_field_rest = 0,
     hb_stream = True, hb_hpack = hpack_zero\<rparr>"

lemma huff_encode_one: "ngx_http_v2_huff_encode [c] lower = []"
proof -
  let ?n = "(length (huff_concat (huff_text [c] lower)) + 7) div 8"
  have "5 \<le> length (huff_concat (huff_text [c] lower))" using huff_bits_length(1) by (simp add: huff_text_def)
  then have "\<not> ?n < length [c]" by simp
  then show ?thesis using huff_encode_bits [OF refl refl, of "[c]" lower] by presburger
qed

lemma write_header_one: "write_header ([97], [98]) = [0, 1, 97, 1, 98]" "write_header ([43], [98]) = [0, 1, 43, 1, 98]"
  by (simp_all add: write_header_def ngx_http_v2_string_encode_def huff_encode_one ngx_http_v2_write_int_def prefix_7
    NGX_HTTP_V2_ENCODE_RAW_def ngx_tolower_def is_upper_def)

text \<open>A request that takes every valid header, and ignores the others.\<close>

definition easy_request :: h2_request where
  "easy_request = \<lparr>rq_underscores_in_headers = \<lambda>_. False, rq_ignore_invalid_headers = \<lambda>_. True, rq_terminate_stream = \<lambda>_ _. NGX_OK,
     rq_pseudo_header = \<lambda>_ _. NGX_OK, rq_cookie = \<lambda>_ _. NGX_OK, rq_list_push = \<lambda>_. True, rq_handler = \<lambda>_ _. NGX_OK\<rparr>"

lemma easy_request_header:
  "request_header easy_request hs ([97], [98]) = Header_taken" "request_header easy_request hs ([97], [10]) = Header_rejected"
  "request_header easy_request hs ([43], [98]) = Header_ignored"
  by (simp_all add: request_header_def easy_request_def ngx_http_v2_validate_header_def is_lower_def is_upper_def is_digit_def bytes_def)

theorem header_block_written_read_witness:
  "\<exists>st'. h2_feed easy_request (\<lambda>_. True) 4096 [[0, 1], [97, 1, 98, 0, 1, 43, 1, 98, 7]]
      (H2_more ngx_http_v2_state_header_block [] (block_start 10 100), []) = Some (H2_end [7] st', [([97], [98])])"
proof -
  have "plain_state (block_start 10 100)" by (simp add: plain_state_def block_start_def)
  moreover have "header_fits 4096 ([97], [98])" "lower_name ([97], [98]) = ([97], [98])" "header_fits 4096 ([43], [98])" "lower_name ([43], [98]) = ([43], [98])"
    by (simp_all add: header_fits_def lower_name_def NGX_HTTP_V2_MAX_FIELD_def NGX_HTTP_V2_INT_OCTETS_def ngx_tolower_def is_upper_def)
  moreover have "request_headers easy_request [] [([97], [98]), ([43], [98])] = Some [([97], [98])]"
    by (simp add: request_kept_def easy_request_header)
  ultimately show ?thesis
    using header_block_written_read [of "[([97], [98]), ([43], [98])]" "block_start 10 100" "\<lambda>_. True" 4096
      "[[0, 1], [97, 1, 98, 0, 1, 43, 1, 98, 7]]" "[7]" easy_request "[([97], [98])]"]
    by (simp add: write_header_one header_len_def block_start_def)
qed

text \<open>A header with a line feed in its value, and behind it a good one: both are read in portions as at once.\<close>

theorem header_block_portions_witness:
  "h2_feed easy_request (\<lambda>_. True) 4096 [[0, 1], [97, 1], [10, 0, 1, 97, 1, 98]] (H2_more ngx_http_v2_state_header_block [] (block_start 10 100), []) =
    h2_run_block easy_request (\<lambda>_. True) 4096 ngx_http_v2_state_header_block [0, 1, 97, 1, 10, 0, 1, 97, 1, 98] (block_start 10 100) []"
  using header_block_portions [of "block_start 10 100" "[[0, 1], [97, 1], [10, 0, 1, 97, 1, 98]]" easy_request "\<lambda>_. True" 4096]
  by (simp add: block_start_def)

text \<open>C14. Memory. Whatever bytes a client sends, in whatever portions and frames, and where memory is not short: the decoder of header blocks never uses
  the table out of range, never writes behind the memory that it has allocated for a string, not even with the byte that ends
  the string, and never saves more bytes than the buffer of 16 bytes holds. Where a continuation frame is waited for, fewer bytes are saved
  than those left of the block and a frame header of nine bytes, and these are at most 16, too.\<close>

theorem header_block_memory:
  assumes "h2_reach rq (\<lambda>_. True) mfs st0 h p st" "hb_field_state st0 = 0" "table_ready (hb_hpack st0)"
  shows "\<exists>a st'. h2_handle (\<lambda>_. True) mfs h p st = Some (a, st') \<and>
    (h = ngx_http_v2_state_field_huff \<or> h = ngx_http_v2_state_field_raw \<longrightarrow> length (hb_field st') < hb_alloc st') \<and>
    (\<forall>g q. a = H2_save g q \<longrightarrow> length q \<le> 16) \<and>
    (\<forall>g q. a = H2_continuation g q \<longrightarrow> hb_length st' + NGX_HTTP_V2_FRAME_HEADER_SIZE \<le> 16)"
proof -
  obtain a st' where e: "h2_handle (\<lambda>_. True) mfs h p st = Some (a, st')" using h2_handle_total [OF h2_reach_ready [OF assms(1,3)]] by blast
  have "length q \<le> 16" if "a = H2_save g q" for g q using h2_handle_saved e that by fastforce
  moreover have "hb_length st' + NGX_HTTP_V2_FRAME_HEADER_SIZE \<le> 16" if "a = H2_continuation g q" for g q
    using h2_handle_continued e that by (fastforce simp: NGX_HTTP_V2_INT_OCTETS_def NGX_HTTP_V2_FRAME_HEADER_SIZE_def)
  ultimately show ?thesis using e h2_handle_space(3) [OF h2_reach_space [OF assms(1,2)] e] by blast
qed

theorem header_block_memory_witness:
  "\<exists>a st'. h2_handle (\<lambda>_. True) 4096 ngx_http_v2_state_field_len [1, 97]
      ((block_start 5 100)\<lparr>hb_length := 4, hb_parse_name := True, hb_parse_value := True\<rparr>) = Some (a, st') \<and> (\<forall>g q. a = H2_save g q \<longrightarrow> length q \<le> 16)"
proof -
  have "h2_handle (\<lambda>_. True) 4096 ngx_http_v2_state_header_block [0, 1, 97] (block_start 5 100) =
      Some (H2_call ngx_http_v2_state_field_len [1, 97], (block_start 5 100)\<lparr>hb_length := 4, hb_parse_name := True, hb_parse_value := True\<rparr>)"
    using block_literal [of "block_start 5 100"] by (simp add: block_start_def)
  then have "h2_reach easy_request (\<lambda>_. True) 4096 (block_start 5 100) ngx_http_v2_state_field_len [1, 97]
      ((block_start 5 100)\<lparr>hb_length := 4, hb_parse_name := True, hb_parse_value := True\<rparr>)"
    by (rule reach_call [OF reach_start])
  from header_block_memory [OF this] show ?thesis using table_ready_zero by (auto simp: block_start_def)
qed

end
