(* ===== verification/Spec2Isabelle.thy ===== *)
theory Spec2Isabelle
  imports Http_Request_Props Http_Uri_Segments Http_Header_Stale Http_Header_Resume
    Ngx_Printf Ngx_Strcmp_Props Ngx_Base64 Ngx_Utf8 Ngx_Escape_Props Http_Chunked_Props Http_Unsafe_Uri
    Http_Status_Props Http_Header_Values
    Ngx_Event_Timer_Props Http_V2_Table_Props Http_V2_Huff_Props
    Http_V2_Header_Props
begin

text \<open>
  Verification of the HTTP core of nginx 1.15.12, the program that the image \<open>nginx-geoip2\<close> of this repository
  builds. The other directories of the repository hold Dockerfiles, shell scripts and configuration files. File names
  below are relative to \<open>src/nginx-geoip2/nginx-1.15.12/src/\<close>.

  \<^bold>\<open>The program.\<close> A worker of nginx reads the bytes of a request from a connection into a buffer. The state machines
  of \<open>http/ngx_http_parse.c\<close> find the request line and the header lines in it, in as many calls as there are
  portions of input; \<open>http/ngx_http_request.c\<close> calls them, normalises the path of the URI and enters the header lines in
  a list; \<open>http/ngx_http_request_body.c\<close> reads the body, with a length or in the chunked coding. The responses of
  upstreams come through the same file: status line, header lines, \<open>X-Accel-Redirect\<close> URIs, cookies. All of it rests on
  the string routines of \<open>core/ngx_string.c\<close>. The event loop of a worker keeps its
  timers in a red-black tree (\<open>core/ngx_rbtree.c\<close>, \<open>event/ngx_event_timer.c\<close>): it waits until the first one runs out, and then
  calls the handlers of the events whose time has come. A connection of HTTP/2 keeps the header fields that the client has sent in a table (\<open>http/v2/ngx_http_v2_table.c\<close>), and codes strings with a Huffman code (\<open>http/v2/ngx_http_v2_huff_encode.c\<close>, \<open>http/v2/ngx_http_v2_huff_decode.c\<close>). The handlers of \<open>http/v2/ngx_http_v2.c\<close> decode the header blocks: a machine whose next step is a pointer to a function.

  \<^bold>\<open>Theories.\<close>

  \<^item> \<open>Ngx_Prelude\<close>: the C types at their width, characters, return codes, character maps, slices of buffers, and the
    lemmas on bytes that the other theories share.
  \<^item> \<open>Byte_Scan\<close>: the loop shared by the state machines, and the locale \<open>resumable\<close>, the contract under which a parser
    gives the same result whatever the portions in which its input arrives. It is interpreted for the request line, the
    header line and the status line.
  \<^item> \<open>Http_Request_Line\<close>, \<open>Http_Request_Line_Inv\<close>, \<open>Http_Request_Props\<close>: \<open>ngx_http_parse_request_line\<close>, one definition per
    case of its switch, its invariant, and what holds of an accepted request line.
  \<^item> \<open>Http_Uri\<close>, \<open>Http_Uri_Inv\<close>, \<open>Http_Uri_Segments\<close>: \<open>ngx_http_parse_complex_uri\<close> and \<open>ngx_http_process_request_uri\<close>, the
    invariant of the normalised path, and the refinement of the resolution of segments on a stack.
  \<^item> \<open>Http_Header_Line\<close>, \<open>Http_Header_Line_Inv\<close>, \<open>Http_Header_Props\<close>, \<open>Http_Header_Resume\<close>, \<open>Http_Header_Stale\<close>:
    \<open>ngx_http_parse_header_line\<close> and the loop of \<open>ngx_http_process_request_headers\<close> that enters the lines in
    \<open>headers_in.headers\<close>; the entries of the list, the round trip of a block of lines, resumption, and the name of an
    invalid header.
  \<^item> \<open>Http_Chunked\<close>, \<open>Http_Chunked_Sim\<close>, \<open>Http_Chunked_Feed\<close>, \<open>Http_Chunked_Props\<close>: \<open>ngx_http_parse_chunked\<close> and the body
    filters; a byte-at-a-time decoder that they simulate, and the properties of the reading loop.
  \<^item> \<open>Http_Status_Line\<close>, \<open>Http_Status_Props\<close>: \<open>ngx_http_parse_status_line\<close>.
  \<^item> \<open>Http_Unsafe_Uri\<close>: \<open>ngx_http_parse_uri\<close>, \<open>ngx_http_parse_unsafe_uri\<close>, \<open>ngx_http_arg\<close>, \<open>ngx_http_split_args\<close>.
  \<^item> \<open>Http_Header_Values\<close>: \<open>ngx_http_parse_multi_header_lines\<close>, \<open>ngx_http_parse_set_cookie_lines\<close>.
  \<^item> \<open>Ngx_Number\<close>, \<open>Ngx_Number_Props\<close>, \<open>Ngx_Printf\<close>: the readers and printers of numbers and \<open>ngx_vslprintf\<close>. A locale for
    the decimal readers is interpreted four times.
  \<^item> \<open>Ngx_Strcmp\<close>, \<open>Ngx_Strcmp_Props\<close>: comparison and search of strings, \<open>ngx_sort\<close>.
  \<^item> \<open>Ngx_Base64\<close>: both alphabets; the locale \<open>base64_tables\<close> states what a pair of tables promises.
  \<^item> \<open>Ngx_Utf8\<close>: the decoder, the length and the copy of UTF-8 strings.
  \<^item> \<open>Ngx_Escape\<close>, \<open>Ngx_Escape_Props\<close>: \<open>ngx_escape_uri\<close> with its tables, \<open>ngx_unescape_uri\<close>, \<open>ngx_escape_html\<close>,
    \<open>ngx_escape_json\<close>; the locale \<open>two_pass_escape\<close> is the contract of a sizing pass and a writing pass.
  \<^item> \<open>Ngx_Rbtree\<close>: \<open>core/ngx_rbtree.c\<close> on a heap of nodes with parent pointers, every read and write through a pointer as a step
    of the option monad. \<open>Ngx_Rbtree_Heap\<close>: trees and positions in trees as predicates on the heap, rotations, mirror images.
    \<open>Ngx_Rbtree_Insert\<close>, \<open>Ngx_Rbtree_Order\<close>: what the insertion computes on trees, order and balance; the locale \<open>rb_callback\<close>
    is the contract of the callback that finds the place of a node, interpreted for the two callbacks of the file.
    \<open>Ngx_Rbtree_Rebalance\<close>, \<open>Ngx_Rbtree_Delete\<close>: the same for the deletion. \<open>Ngx_Rbtree_Props\<close>: sequences of operations.
  \<^item> \<open>Ngx_Event_Timer\<close>, \<open>Ngx_Event_Timer_Props\<close>: the timers; the locale \<open>timer_handler\<close> is the contract of the handlers.
  \<^item> \<open>Http_V2_Table\<close>, \<open>Http_V2_Table_Ring\<close>, \<open>Http_V2_Table_Props\<close>: the static and the dynamic table of HPACK. The locale
    \<open>header_table\<close> is what the decoder of header blocks relies on: a list of fields within a limit.
  \<^item> \<open>Http_V2_Huff_Tables\<close>, \<open>Http_V2_Huff\<close>: the Huffman code of HPACK. \<open>Http_V2_Huff_Check\<close> checks all entries of the tables,
    \<open>Http_V2_Huff_Bits\<close> turns codes and states into strings of bits, \<open>Http_V2_Huff_Props\<close> has the properties of both functions.
  \<^item> \<open>Http_V2_Header_Block\<close>: the writing of integers, strings and headers, and the handlers of header blocks, on the tables and the Huffman
    code. What becomes of a header is \<open>request_header\<close>: \<open>ngx_http_v2_validate_header\<close> is modelled, the results of the functions that work on the
    request are the fields of \<open>h2_request\<close>, over which the theorems quantify; a rejected header drops the stream. \<open>Http_V2_Header_Run\<close>, \<open>Http_V2_Header_Portions\<close>: the run of the handlers with a proof that it ends, and portions.
    \<open>Http_V2_Header_Strings\<close>, \<open>Http_V2_Header_Props\<close>: what is written is read back, and the reachable states as an inductive
    relation, with the memory for strings and the state of the table as invariants.

  \<^bold>\<open>State and operations.\<close> \<open>ngx_http_request_t\<close> is split by the parsers that write it: the record \<open>ngx_http_request\<close> for the
  request line and the URI, \<open>ngx_http_header_in\<close> for the header line, \<open>ngx_http_chunked\<close> and \<open>ngx_http_request_body\<close> for
  the body. A pointer into a buffer is an offset, a pointer that may be \<open>NULL\<close> an option. \<open>r->state\<close> is a value of the
  enumeration of the parser at hand. A read outside of a string, where the code could make one, is the value
  \<open>None\<close>, so a theorem that gives a result \<open>Some\<close> also says that no such read happens.

  \<^bold>\<open>Results.\<close> Incremental parsing (portions), acceptance of what is well formed, layout of the pointers of what is
  accepted, safety of the normalised path, exactness of the decisions on unsafe URIs, query arguments and cookies;
  for chunked bodies the round trip, the limit, the amount of bytes asked for, and that the body can be completed; for
  the string routines exactness, round trips, bounds of what is written, and the errors.
  For the red-black tree: every operation ends, keeps all pointers, the colours and the order right, and sequences of operations
  refine a sorted list. For the timers: which timer is set, which one is next, which ones run out, and that the loop over
  them ends. The keys of timers are compared modulo the word size; the theorems have as hypothesis that all times in use lie in
  a window of half the range.
  For the HPACK table: from the first insertion on it refines the list of fields of the specification.
  For the Huffman code: the decoder and its table of 4096 entries accept what the codes of the encoder say, the encoder is inverted, and
  the decoded strings fit.
  For header blocks: round trip of headers that the request does not reject, independence of portions, and memory safety on all input.

  \<^bold>\<open>Bounds and fuel.\<close> Machine integers have their width where they can wrap: \<open>off_t\<close> and \<open>ngx_int_t\<close> as \<open>int\<close> through
  \<open>c_int64\<close>, hashes and flags as words. The loop of the chunked body filter has as fuel the length of the buffer plus
  one: every pass that does not leave the loop consumes a byte. The other loops are structural or have a measure.
  The loops over the tree are partial functions with the value \<open>None\<close> for not ending; the theorems on them give a value \<open>Some\<close>.
  The handlers of header blocks run until one of them needs more bytes: each call uses up bytes or goes to a handler of lower rank.

  \<^bold>\<open>Not modelled.\<close> Logging; failures of allocation, except in \<open>ngx_http_parse_unsafe_uri\<close> and the HPACK tables; sockets and the rest of the event
  loop; the handlers of single header fields, the pseudo-headers and cookies of HTTP/2 and its continuation frames, which are parameters or ends of a run; the conversion \<open>%f\<close> of \<open>ngx_vslprintf\<close>; the Windows branches. The modules
  of nginx that only connect the core to the operating system, to OpenSSL or to libmaxminddb, and the vendored zlib, are
  not part of the development. The frames and streams of HTTP/2, the resolver, the hash and radix tables and the slab allocator have logic of their
  own that a later extension can add.
\<close>

end
